(* ===== verification/Bpf_Prelude.thy ===== *)
theory Bpf_Prelude
  imports "HOL-Library.Word" "HOL-Library.Monad_Syntax"
begin

unbundle bit_operations_syntax

text \<open>
  Shared vocabulary of the development: the machine types of the BPF C code, the byte
  windows a BPF program may touch, and the lemmas on lists, words and options that every
  component uses.

  A pointer returned by \<open>hid_bpf_get_data(ctx, off, n)\<close> designates a window of exactly
  \<open>n\<close> bytes; the BPF verifier rejects any access outside it. A window is a byte list, every
  access is a partial operation (\<open>None\<close> is the rejected, out-of-window access), and code is
  written in the option monad, so "this program never leaves its window" is a theorem.
\<close>

type_synonym u8 = "8 word"
type_synonym u16 = "16 word"
type_synonym u32 = "32 word"
type_synonym u64 = "64 word"

named_theorems mem_simps \<open>evaluation of window accesses that are in bounds\<close>
named_theorems event_defs \<open>definitions of the device event handlers\<close>
named_theorems fixup_defs \<open>definitions of the report descriptor fixups\<close>
named_theorems rdesc_facts \<open>what the descriptors of the programs declare\<close>

section \<open>Byte windows\<close>

text \<open>\<open>data[i]\<close> as an rvalue.\<close>

definition rd :: "u8 list \<Rightarrow> nat \<Rightarrow> u8 option" where
  "rd d i = (if i < length d then Some (d ! i) else None)"

text \<open>\<open>data[i] = v\<close>.\<close>

definition wr :: "u8 list \<Rightarrow> nat \<Rightarrow> u8 \<Rightarrow> u8 list option" where
  "wr d i v = (if i < length d then Some (d[i := v]) else None)"

text \<open>\<open>__builtin_memcpy(data + i, bs, sizeof(bs))\<close>.\<close>

definition memcpy :: "u8 list \<Rightarrow> nat \<Rightarrow> u8 list \<Rightarrow> u8 list option" where
  "memcpy d i bs =
     (if i + length bs \<le> length d then Some (take i d @ bs @ drop (i + length bs) d) else None)"

text \<open>\<open>__builtin_memcmp(data + i, bs, sizeof(bs)) == 0\<close>.\<close>

definition memeq :: "u8 list \<Rightarrow> nat \<Rightarrow> u8 list \<Rightarrow> bool option" where
  "memeq d i bs =
     (if i + length bs \<le> length d then Some (take (length bs) (drop i d) = bs) else None)"

lemma rd_in [mem_simps, simp]: "i < length d \<Longrightarrow> rd d i = Some (d ! i)"
  by (simp add: rd_def)

lemma rd_out: "length d \<le> i \<Longrightarrow> rd d i = None"
  by (simp add: rd_def)

lemma rd_eq_Some: "rd d i = Some v \<longleftrightarrow> i < length d \<and> v = d ! i"
  by (auto simp: rd_def)

lemma wr_in [mem_simps, simp]: "i < length d \<Longrightarrow> wr d i v = Some (d[i := v])"
  by (simp add: wr_def)

lemma wr_length: "wr d i v = Some d' \<Longrightarrow> length d' = length d"
  by (auto simp: wr_def split: if_splits)

lemma memcpy_in [mem_simps, simp]:
  "i + length bs \<le> length d \<Longrightarrow> memcpy d i bs = Some (take i d @ bs @ drop (i + length bs) d)"
  by (simp add: memcpy_def)

lemma memcpy_length: "memcpy d i bs = Some d' \<Longrightarrow> length d' = length d"
  by (auto simp: memcpy_def split: if_splits)

lemma memcpy_0_take: "memcpy d 0 bs = Some d' \<Longrightarrow> take (length bs) d' = bs"
  by (auto simp: memcpy_def split: if_splits)

lemma memcpy_frame:
  "memcpy d i bs = Some d' \<Longrightarrow> j < i \<or> i + length bs \<le> j \<Longrightarrow> j < length d \<Longrightarrow> d' ! j = d ! j"
  by (auto simp: memcpy_def nth_append min_def split: if_splits)

lemma memcpy_inside:
  "memcpy d i bs = Some d' \<Longrightarrow> i \<le> j \<Longrightarrow> j < i + length bs \<Longrightarrow> d' ! j = bs ! (j - i)"
  by (auto simp: memcpy_def nth_append min_def split: if_splits)

lemma memeq_in [mem_simps, simp]:
  "i + length bs \<le> length d \<Longrightarrow> memeq d i bs = Some (take (length bs) (drop i d) = bs)"
  by (simp add: memeq_def)

lemma drop_take_map_nth: "b \<le> length d \<Longrightarrow> drop a (take b d) = map ((!) d) [a..<b]"
  by (rule nth_equalityI) auto

text \<open>A write outside the bytes a comparison looks at does not change its verdict.\<close>

lemma list_update_take_drop:
  "take n (drop i (d[j := v])) = (if i \<le> j \<and> j < i + n then (take n (drop i d))[j - i := v] else take n (drop i d))"
  by (auto simp: drop_update_swap take_update_swap list_update_beyond)

text \<open>
  \<open>__builtin_memcmp(arr, pre, sizeof(pre)) == 0\<close> on a global array at least as long as \<open>pre\<close>, such
  as the udev property the loader stores before a program starts.
\<close>

definition has_prefix :: "u8 list \<Rightarrow> u8 list \<Rightarrow> bool" where
  "has_prefix arr pre = (take (length pre) arr = pre)"

section \<open>Little-endian values\<close>

text \<open>\<open>lo | hi << 8\<close> and its inverse, as the packed structs of the programs store them.\<close>

definition le16 :: "u8 \<Rightarrow> u8 \<Rightarrow> u16" where
  "le16 lo hi = ucast lo OR push_bit 8 (ucast hi)"

definition le32 :: "u8 \<Rightarrow> u8 \<Rightarrow> u8 \<Rightarrow> u8 \<Rightarrow> u32" where
  "le32 b0 b1 b2 b3 =
     ucast b0 OR push_bit 8 (ucast b1) OR push_bit 16 (ucast b2) OR push_bit 24 (ucast b3)"

definition byte_of :: "nat \<Rightarrow> 'a::len word \<Rightarrow> u8" where
  "byte_of k w = ucast (drop_bit (8 * k) w)"

lemma le16_bytes: "le16 (byte_of 0 w) (byte_of 1 w) = w"
  by (rule bit_word_eqI)
    (auto simp: le16_def byte_of_def bit_or_iff bit_push_bit_iff bit_ucast_iff bit_drop_bit_eq)

lemma byte_of_le16: "byte_of 0 (le16 lo hi) = lo" "byte_of 1 (le16 lo hi) = hi"
  by (rule bit_word_eqI;
      auto simp: le16_def byte_of_def bit_or_iff bit_push_bit_iff bit_ucast_iff bit_drop_bit_eq
           dest: bit_imp_le_length)+

lemma le32_bytes: "le32 (byte_of 0 w) (byte_of 1 w) (byte_of 2 w) (byte_of 3 w) = w"
proof (rule bit_word_eqI)
  fix n assume "n < LENGTH(32)"
  then consider "n < 8" | "8 \<le> n" "n < 16" | "16 \<le> n" "n < 24" | "24 \<le> n" "n < 32"
    by fastforce
  then show "bit (le32 (byte_of 0 w) (byte_of 1 w) (byte_of 2 w) (byte_of 3 w)) n = bit w n"
    by cases (auto simp: le32_def byte_of_def bit_or_iff bit_push_bit_iff bit_ucast_iff bit_drop_bit_eq)
qed

lemma unat_le16: "unat (le16 lo hi) = unat lo + 256 * unat hi"
proof -
  have "ucast lo AND push_bit 8 (ucast hi :: u16) = 0"
    by (rule bit_word_eqI)
      (auto simp: bit_and_iff bit_push_bit_iff bit_ucast_iff dest: bit_imp_le_length)
  then have "le16 lo hi = ucast lo + push_bit 8 (ucast hi)"
    by (simp add: le16_def disjunctive_add_eq_or)
  moreover have "unat (push_bit 8 (ucast hi :: u16)) = 256 * unat hi"
    using unsigned_less [of hi, where ?'a = nat]
    by (simp add: push_bit_eq_mult unat_word_ariths unsigned_ucast_eq take_bit_eq_mod)
  ultimately show ?thesis
    using unsigned_less [of lo, where ?'a = nat] unsigned_less [of hi, where ?'a = nat]
    by (simp add: unat_word_ariths unsigned_ucast_eq take_bit_eq_mod)
qed

lemma bit_high: "LENGTH('a) \<le> n \<Longrightarrow> \<not> bit (w :: 'a::len word) n"
  by (auto dest: bit_imp_le_length)

lemma bit_le16: "k < 16 \<Longrightarrow> bit (le16 lo hi) k = bit ([lo, hi] ! (k div 8)) (k mod 8)"
proof -
  assume k: "k < 16"
  show ?thesis
  proof (cases "k < 8")
    case True
    then show ?thesis by (simp add: le16_def bit_or_iff bit_push_bit_iff bit_ucast_iff)
  next
    case False
    then have "k div 8 = 1" "k mod 8 = k - 8"
      using k div_nat_eqI [of 8 1 k] by (simp_all add: le_mod_geq)
    with False k show ?thesis
      by (simp add: le16_def bit_or_iff bit_push_bit_iff bit_ucast_iff bit_high less_imp_diff_less)
  qed
qed

lemma bit_le32: "k < 32 \<Longrightarrow> bit (le32 b0 b1 b2 b3) k = bit ([b0, b1, b2, b3] ! (k div 8)) (k mod 8)"
proof -
  assume k: "k < 32"
  have le32: "bit (le32 b0 b1 b2 b3) k \<longleftrightarrow> bit b0 k \<or> 8 \<le> k \<and> bit b1 (k - 8) \<or> 16 \<le> k \<and> bit b2 (k - 16)
      \<or> 24 \<le> k \<and> bit b3 (k - 24)"
    using k by (simp add: le32_def bit_or_iff bit_push_bit_iff bit_ucast_iff less_imp_diff_less)
  consider "k < 8" | "8 \<le> k" "k < 16" | "16 \<le> k" "k < 24" | "24 \<le> k" using k by linarith
  then show ?thesis
  proof cases
    case 1
    then show ?thesis unfolding le32 by simp
  next
    case 2
    then have "k div 8 = 1" "k mod 8 = k - 8"
      using div_nat_eqI [of 8 1 k] by (simp_all add: le_mod_geq)
    with 2 show ?thesis unfolding le32 by (simp add: bit_high)
  next
    case 3
    then have "k div 8 = 2" using div_nat_eqI [of 8 2 k] by simp
    moreover from this have "k mod 8 = k - 16" by (simp add: modulo_nat_def)
    ultimately show ?thesis using 3 unfolding le32 by (simp add: bit_high)
  next
    case 4
    then have "k div 8 = 3" using k div_nat_eqI [of 8 3 k] by simp
    moreover from this have "k mod 8 = k - 24" by (simp add: modulo_nat_def)
    ultimately show ?thesis using 4 k unfolding le32 by (simp add: bit_high)
  qed
qed

lemma bit_byte_of: "k < 8 \<Longrightarrow> bit (byte_of i (w :: 'a::len word)) k = bit w (8 * i + k)"
  by (simp add: byte_of_def bit_ucast_iff bit_drop_bit_eq)

section \<open>C idioms\<close>

text \<open>\<open>BIT(n)\<close> of \<open>hid_bpf_helpers.h\<close>, at the width it is assigned at.\<close>

definition BIT :: "nat \<Rightarrow> 'a::len word" where
  "BIT n = push_bit n 1"

lemma bit_BIT: "bit (BIT n :: 'a::len word) k \<longleftrightarrow> k = n \<and> n < LENGTH('a)"
  by (auto simp: BIT_def bit_exp_iff possible_bit_def simp flip: push_bit_eq_mult
      intro: bit_imp_le_length)

lemma BIT_mask_nonzero: "(w AND BIT n \<noteq> 0) = bit (w :: 'a::len word) n"
proof
  assume "w AND BIT n \<noteq> 0"
  then obtain k where "bit (w AND BIT n) k" by (auto simp: bit_eq_iff)
  then show "bit w n" by (auto simp: bit_and_iff bit_BIT)
next
  assume "bit w n"
  then have "bit (w AND BIT n) n"
    by (auto simp: bit_and_iff bit_BIT dest: bit_imp_le_length)
  then show "w AND BIT n \<noteq> 0" by auto
qed

text \<open>The single-bit masks the handlers test, read as bits.\<close>

lemma mask_bits:
  fixes w :: "'a::len word"
  shows "w AND 0x01 = 0 \<longleftrightarrow> \<not> bit w 0" "w AND 0x02 = 0 \<longleftrightarrow> \<not> bit w 1" "w AND 0x04 = 0 \<longleftrightarrow> \<not> bit w 2"
    "w AND 0x08 = 0 \<longleftrightarrow> \<not> bit w 3" "w AND 0x10 = 0 \<longleftrightarrow> \<not> bit w 4" "w AND 0x20 = 0 \<longleftrightarrow> \<not> bit w 5"
    "w AND 0x40 = 0 \<longleftrightarrow> \<not> bit w 6" "w AND 0x80 = 0 \<longleftrightarrow> \<not> bit w 7"
  using BIT_mask_nonzero [of w 0] BIT_mask_nonzero [of w 1] BIT_mask_nonzero [of w 2] BIT_mask_nonzero [of w 3]
    BIT_mask_nonzero [of w 4] BIT_mask_nonzero [of w 5] BIT_mask_nonzero [of w 6] BIT_mask_nonzero [of w 7]
  by (simp_all add: BIT_def push_bit_eq_mult) blast+

lemma less_8_cases:
  "(k :: nat) < 8 \<longleftrightarrow> k = 0 \<or> k = 1 \<or> k = 2 \<or> k = 3 \<or> k = 4 \<or> k = 5 \<or> k = 6 \<or> k = 7"
  by auto

text \<open>\<open>while\<close>/\<open>for\<close> loops over a fixed list of indices, stopping at the first fault.\<close>

fun mfold :: "('i \<Rightarrow> 'a \<Rightarrow> 'a option) \<Rightarrow> 'i list \<Rightarrow> 'a \<Rightarrow> 'a option" where
  "mfold f [] a = Some a"
| "mfold f (i # is) a = f i a \<bind> mfold f is"

lemma mfold_append: "mfold f (xs @ ys) a = mfold f xs a \<bind> mfold f ys"
  by (induction xs arbitrary: a) (auto split: bind_splits)

lemma mfold_invariant:
  assumes "P a" and "\<And>i a. i \<in> set is \<Longrightarrow> P a \<Longrightarrow> \<exists>a'. f i a = Some a' \<and> P a'"
  shows "\<exists>a'. mfold f is a = Some a' \<and> P a'"
  using assms
proof (induction "is" arbitrary: a)
  case Nil
  then show ?case by simp
next
  case (Cons i "is")
  then obtain a1 where "f i a = Some a1" and "P a1" by fastforce
  with Cons show ?case by simp
qed

lemma mfold_pure: "(\<And>i a. i \<in> set is \<Longrightarrow> f i a = Some (g i a)) \<Longrightarrow> mfold f is a = Some (fold g is a)"
  by (induction "is" arbitrary: a) auto

lemma bit_fold_or:
  "bit (fold (\<lambda>i acc. acc OR f i) is (m :: 'a::len word)) n \<longleftrightarrow> bit m n \<or> (\<exists>i \<in> set is. bit (f i) n)"
  by (induction "is" arbitrary: m) (auto simp: bit_or_iff)

section \<open>Words\<close>

lemma u8_cases_bit: "(w :: 'a::len word) = v \<longleftrightarrow> (\<forall>k < LENGTH('a). bit w k = bit v k)"
  by (auto intro: bit_word_eqI)

text \<open>The value of a signed byte.\<close>

lemma mod_256_shift:
  fixes u :: int
  assumes "0 \<le> u" "u < 256"
  shows "(u + 128) mod 256 = (if u < 128 then u + 128 else u - 128)"
proof (cases "u < 128")
  case False
  have "(u + 128) mod 256 = ((u - 128) + 256) mod 256" by (rule arg_cong [where f = "\<lambda>n. n mod 256"]) simp
  also have "\<dots> = (u - 128) mod 256" by (rule mod_add_self2)
  finally show ?thesis using False assms by simp
qed (use assms in simp)

lemma sint_u8: "sint (w :: u8) = (if uint w < 128 then uint w else uint w - 256)"
proof -
  have "0 \<le> uint w" "uint w < 256" using uint_lt2p [of w] by simp_all
  moreover have "sint w = (uint w + 128) mod 256 - 128"
    by (simp add: sint_uint signed_take_bit_eq_take_bit_shift take_bit_eq_mod)
  ultimately show ?thesis by (simp add: mod_256_shift)
qed

text \<open>Turning a property of all bytes into 256 evaluations.\<close>

lemma all_u8: "(\<forall>b :: u8. P b) \<longleftrightarrow> (\<forall>n < 256. P (word_of_nat n))"
proof
  assume *: "\<forall>n < 256. P (word_of_nat n)"
  show "\<forall>b :: u8. P b"
  proof
    fix b :: u8
    have "unat b < 256" using unsigned_less [of b, where ?'a = nat] by simp
    then have "P (word_of_nat (unat b))" using * by blast
    then show "P b" by simp
  qed
qed simp

section \<open>Error numbers\<close>

text \<open>The values of \<open>linux/errno.h\<close> the programs return.\<close>

abbreviation (input) EPERM :: int where "EPERM \<equiv> 1"
abbreviation (input) E2BIG :: int where "E2BIG \<equiv> 7"
abbreviation (input) ENOMEM :: int where "ENOMEM \<equiv> 12"
abbreviation (input) ENODEV :: int where "ENODEV \<equiv> 19"
abbreviation (input) EINVAL :: int where "EINVAL \<equiv> 22"

end
