(* ===== verification/Kernel_Iface.thy ===== *)
theory Kernel_Iface
  imports Bpf_Prelude
begin

text \<open>
  The boundary between a HID-BPF program and the kernel: the context and probe arguments the
  programs receive, the kfunc \<open>hid_bpf_get_data\<close>, and the two drivers that call a program
  (one per device event, one per report descriptor).

  \<open>hid_bpf_get_data\<close> is a kernel function; the only body of it in the repository is the test
  harness's (\<open>test/test-wrapper.c\<close>). Programs are written against the contract
  \<open>data_access\<close>, which the harness's function is shown to meet. The drivers follow the
  calling convention of the harness: a report sits at the start of a zeroed buffer of a
  multiple of 64 bytes, a report descriptor at the start of one of 4096 bytes; a negative
  return value drops the report, a positive one is its new size, zero leaves the size alone.
\<close>

section \<open>Contexts\<close>

text \<open>The fields of the kernel's \<open>struct hid_device\<close> and \<open>struct hid_bpf_ctx\<close> the programs read.\<close>

record hid_device =
  hdev_id :: u32
  hdev_bus :: u16
  hdev_product :: u32
  hdev_name :: "u8 list"

record hid_bpf_ctx =
  ctx_hid :: hid_device
  ctx_size :: int

text \<open>\<open>struct hid_bpf_probe_args\<close> of \<open>hid_bpf.h\<close>; \<open>pa_rdesc\<close> is its 4096-byte array.\<close>

record hid_bpf_probe_args =
  pa_hid :: u32
  pa_rdesc_size :: u32
  pa_rdesc :: "u8 list"
  pa_retval :: int

abbreviation (input) HID_MAX_DESCRIPTOR_SIZE :: nat where "HID_MAX_DESCRIPTOR_SIZE \<equiv> 4096"
abbreviation (input) HID_IGNORE_EVENT :: int where "HID_IGNORE_EVENT \<equiv> - 1"

definition probe_args_ok :: "hid_bpf_probe_args \<Rightarrow> bool" where
  "probe_args_ok a \<longleftrightarrow> length (pa_rdesc a) = 4096"

section \<open>Access to the report buffer\<close>

text \<open>The harness's kfunc; the pointer it returns is an offset into its data buffer.\<close>

definition hid_bpf_get_data :: "u8 list \<Rightarrow> nat \<Rightarrow> nat \<Rightarrow> nat option" where
  "hid_bpf_get_data hid_bpf_data offset sz =
     (if offset + sz \<le> length hid_bpf_data then Some offset else None)"

locale data_access =
  fixes get_data :: "u8 list \<Rightarrow> nat \<Rightarrow> nat \<Rightarrow> nat option"
  assumes granted: "get_data buf off n = Some p \<Longrightarrow> p = off \<and> off + n \<le> length buf"
    and refused: "get_data buf off n = None \<Longrightarrow> length buf < off + n"
begin

lemma granted_iff: "get_data buf off n = (if off + n \<le> length buf then Some off else None)"
  by (cases "get_data buf off n") (auto dest: granted refused)

end

interpretation harness: data_access hid_bpf_get_data
  by unfold_locales (auto simp: hid_bpf_get_data_def split: if_splits)

section \<open>Programs and their drivers\<close>

text \<open>
  A \<open>hid_device_event\<close> or \<open>hid_rdesc_fixup\<close> callback: its globals, the context, and the
  result of its call of \<open>hid_bpf_get_data\<close> (\<open>None\<close> for \<open>NULL\<close>). It returns the new globals,
  the new contents of the window and its C return value, or \<open>None\<close> if it accessed memory
  outside the window.
\<close>

type_synonym 's program =
  "'s \<Rightarrow> hid_bpf_ctx \<Rightarrow> u8 list option \<Rightarrow> ('s \<times> u8 list \<times> int) option"

definition run_program ::
    "(u8 list \<Rightarrow> nat \<Rightarrow> nat \<Rightarrow> nat option) \<Rightarrow> 's program \<Rightarrow> nat \<Rightarrow> 's \<Rightarrow> hid_bpf_ctx \<Rightarrow> u8 list \<Rightarrow>
     ('s \<times> u8 list \<times> int) option" where
  "run_program get_data prog win s c buf =
     (case get_data buf 0 win of
        None \<Rightarrow> do { (s', _, r) \<leftarrow> prog s c None; Some (s', buf, r) }
      | Some p \<Rightarrow> do {
          (s', w, r) \<leftarrow> prog s c (Some (take win (drop p buf)));
          Some (s', take p buf @ w @ drop (p + win) buf, r) })"

text \<open>What reaches the rest of the kernel after a callback returned \<open>r\<close>.\<close>

definition delivered :: "nat \<Rightarrow> u8 list \<Rightarrow> int \<Rightarrow> u8 list option" where
  "delivered sz buf r =
     (if r < 0 then None else Some (take (if r > 0 then nat r else sz) buf))"

definition report_buffer :: "u8 list \<Rightarrow> u8 list" where
  "report_buffer rep = rep @ replicate ((length rep div 64 + 1) * 64 - length rep) 0"

definition rdesc_buffer :: "u8 list \<Rightarrow> u8 list" where
  "rdesc_buffer rdesc = rdesc @ replicate (HID_MAX_DESCRIPTOR_SIZE - length rdesc) 0"

definition device_event ::
    "'s program \<Rightarrow> nat \<Rightarrow> hid_device \<Rightarrow> 's \<Rightarrow> u8 list \<Rightarrow> ('s \<times> u8 list option) option" where
  "device_event prog win hid s rep = do {
     (s', buf, r) \<leftarrow> run_program hid_bpf_get_data prog win s
                      \<lparr>ctx_hid = hid, ctx_size = int (length rep)\<rparr> (report_buffer rep);
     Some (s', delivered (length rep) buf r) }"

definition rdesc_fixup ::
    "'s program \<Rightarrow> hid_device \<Rightarrow> 's \<Rightarrow> u8 list \<Rightarrow> ('s \<times> u8 list option) option" where
  "rdesc_fixup prog hid s rdesc = do {
     (s', buf, r) \<leftarrow> run_program hid_bpf_get_data prog HID_MAX_DESCRIPTOR_SIZE s
                      \<lparr>ctx_hid = hid, ctx_size = int (length rdesc)\<rparr> (rdesc_buffer rdesc);
     Some (s', delivered (length rdesc) buf r) }"

text \<open>A device's reports in order, with the program's globals threaded through.\<close>

fun device_events ::
    "'s program \<Rightarrow> nat \<Rightarrow> hid_device \<Rightarrow> 's \<Rightarrow> u8 list list \<Rightarrow> ('s \<times> u8 list option list) option" where
  "device_events prog win hid s [] = Some (s, [])"
| "device_events prog win hid s (rep # reps) = do {
     (s1, out) \<leftarrow> device_event prog win hid s rep;
     (s2, outs) \<leftarrow> device_events prog win hid s1 reps;
     Some (s2, out # outs) }"

lemma length_report_buffer: "length (report_buffer rep) = (length rep div 64 + 1) * 64"
proof -
  have "length rep \<le> (length rep div 64 + 1) * 64"
    by (metis Suc_eq_plus1 div_mult_mod_eq le_add_diff_inverse2 less_or_eq_imp_le
        dividend_less_times_div mult.commute mult_Suc_right zero_less_numeral add.commute)
  then show ?thesis by (simp add: report_buffer_def)
qed

lemma report_buffer_nth: "i < length rep \<Longrightarrow> report_buffer rep ! i = rep ! i"
  by (simp add: report_buffer_def nth_append)

lemma length_rdesc_buffer: "length rdesc \<le> 4096 \<Longrightarrow> length (rdesc_buffer rdesc) = 4096"
  by (simp add: rdesc_buffer_def)

section \<open>The contract every program of the repository meets\<close>

text \<open>
  \<open>win\<close> is the size the program asks \<open>hid_bpf_get_data\<close> for. A program does nothing when the
  access is refused, never leaves its window when it is granted, and never returns more than
  the window holds.
\<close>

locale hid_program =
  fixes prog :: "'s program" and win :: nat
  assumes null: "prog s c None = Some (s, [], 0)"
    and in_window: "length d = win \<Longrightarrow>
      \<exists>s' d' r. prog s c (Some d) = Some (s', d', r) \<and> length d' = win \<and> r \<le> int win"

locale hid_runtime = data_access get_data + hid_program prog win
  for get_data :: "u8 list \<Rightarrow> nat \<Rightarrow> nat \<Rightarrow> nat option" and prog :: "'s program" and win :: nat
begin

lemma run_total:
  "\<exists>s' buf' r. run_program get_data prog win s c buf = Some (s', buf', r)
     \<and> length buf' = length buf \<and> drop win buf' = drop win buf \<and> r \<le> int (length buf)"
proof (cases "win \<le> length buf")
  case True
  then obtain s' d' r where
    *: "prog s c (Some (take win buf)) = Some (s', d', r)" "length d' = win" "r \<le> int win"
    using in_window [of "take win buf" s c] by auto
  with True show ?thesis by (auto simp: run_program_def granted_iff)
next
  case False
  then show ?thesis by (simp add: run_program_def granted_iff null)
qed

lemma run_refused: "length buf < win \<Longrightarrow> run_program get_data prog win s c buf = Some (s, buf, 0)"
  by (simp add: run_program_def granted_iff null)

end

text \<open>The harness's kfunc turns every program that meets the contract into a runtime.\<close>

sublocale hid_program \<subseteq> harness_run: hid_runtime hid_bpf_get_data prog win
  by unfold_locales

context hid_program
begin

lemma event_total:
  "\<exists>s' out. device_event prog win hid s rep = Some (s', out)
     \<and> (\<forall>rep'. out = Some rep' \<longrightarrow> length rep' \<le> (length rep div 64 + 1) * 64)"
proof -
  obtain s' buf' r where "run_program hid_bpf_get_data prog win s
      \<lparr>ctx_hid = hid, ctx_size = int (length rep)\<rparr> (report_buffer rep) = Some (s', buf', r)"
    "length buf' = length (report_buffer rep)" "r \<le> int (length (report_buffer rep))"
    using harness_run.run_total by blast
  then show ?thesis
    by (auto simp: device_event_def delivered_def length_report_buffer)
qed

lemma events_total:
  "\<exists>s' outs. device_events prog win hid s reps = Some (s', outs) \<and> length outs = length reps"
proof (induction reps arbitrary: s)
  case Nil
  then show ?case by simp
next
  case (Cons rep reps)
  obtain s1 out where 1: "device_event prog win hid s rep = Some (s1, out)"
    using event_total by blast
  obtain s2 outs where "device_events prog win hid s1 reps = Some (s2, outs)" "length outs = length reps"
    using Cons.IH by blast
  with 1 show ?case by simp
qed

lemma fixup_total:
  assumes "win = HID_MAX_DESCRIPTOR_SIZE" and "length rdesc \<le> 4096"
  shows "\<exists>s' out. rdesc_fixup prog hid s rdesc = Some (s', out)
     \<and> (\<forall>rdesc'. out = Some rdesc' \<longrightarrow> length rdesc' \<le> 4096)"
proof -
  obtain s' buf' r where "run_program hid_bpf_get_data prog win s
      \<lparr>ctx_hid = hid, ctx_size = int (length rdesc)\<rparr> (rdesc_buffer rdesc) = Some (s', buf', r)"
    "length buf' = length (rdesc_buffer rdesc)" "r \<le> int (length (rdesc_buffer rdesc))"
    using harness_run.run_total by blast
  with assms show ?thesis
    by (auto simp: rdesc_fixup_def delivered_def length_rdesc_buffer)
qed

end

text \<open>
  The window a granted program sees is the start of the buffer, so that the drivers can be
  evaluated from the program's own behaviour.
\<close>

lemma run_program_granted:
  "win \<le> length buf \<Longrightarrow> prog s c (Some (take win buf)) = Some (s', w, r) \<Longrightarrow>
   run_program hid_bpf_get_data prog win s c buf = Some (s', w @ drop win buf, r)"
  by (simp add: run_program_def harness.granted_iff)

lemma delivered_prefix:
  "0 < n \<Longrightarrow> n \<le> length w \<Longrightarrow> delivered sz (w @ z) (int n) = Some (take n w)"
  by (simp add: delivered_def)

lemma delivered_unchanged: "delivered sz buf 0 = Some (take sz buf)"
  by (simp add: delivered_def)

lemma delivered_dropped: "r < 0 \<Longrightarrow> delivered sz buf r = None"
  by (simp add: delivered_def)

text \<open>A report is delivered by what its program does with the window in front of it.\<close>

lemma device_event_eq:
  assumes "win \<le> 64"
    and "prog s \<lparr>ctx_hid = hid, ctx_size = int (length rep)\<rparr> (Some (take win (report_buffer rep)))
         = Some (s', w, r)"
  shows "device_event prog win hid s rep
         = Some (s', delivered (length rep) (w @ drop win (report_buffer rep)) r)"
proof -
  have "win \<le> length (report_buffer rep)" using assms by (simp add: length_report_buffer)
  then show ?thesis using assms by (simp add: device_event_def run_program_granted)
qed

text \<open>The three outcomes: a new report, a report changed in place, a report dropped.\<close>

lemma device_event_replaced:
  assumes "win \<le> 64" and "new \<noteq> []"
    and "prog s \<lparr>ctx_hid = hid, ctx_size = int (length rep)\<rparr> (Some (take win (report_buffer rep)))
         = Some (s', new @ rest, int (length new))"
  shows "device_event prog win hid s rep = Some (s', Some new)"
  using assms by (simp add: device_event_eq delivered_def)

lemma device_event_in_place:
  assumes "win \<le> 64" and "length rep \<le> win" and "length w = win"
    and "prog s \<lparr>ctx_hid = hid, ctx_size = int (length rep)\<rparr> (Some (take win (report_buffer rep)))
         = Some (s', w, 0)"
  shows "device_event prog win hid s rep = Some (s', Some (take (length rep) w))"
  using assms by (simp add: device_event_eq delivered_def)

lemma device_event_patched:
  assumes "win \<le> 64" and "i < win"
    and "prog s \<lparr>ctx_hid = hid, ctx_size = int (length rep)\<rparr> (Some (take win (report_buffer rep)))
         = Some (s', (take win (report_buffer rep))[i := v], 0)"
  shows "device_event prog win hid s rep = Some (s', Some (rep[i := v]))"
proof -
  have "(take win (report_buffer rep))[i := v] @ drop win (report_buffer rep) = (report_buffer rep)[i := v]"
    using assms(1,2) by (simp add: list_update_append1 [symmetric] length_report_buffer)
  then show ?thesis
    using assms by (simp add: device_event_eq delivered_def take_update_swap)
      (simp add: report_buffer_def)
qed

lemma device_event_unchanged:
  assumes "win \<le> 64"
    and "prog s \<lparr>ctx_hid = hid, ctx_size = int (length rep)\<rparr> (Some (take win (report_buffer rep)))
         = Some (s', take win (report_buffer rep), 0)"
  shows "device_event prog win hid s rep = Some (s', Some rep)"
  using assms by (simp add: device_event_eq delivered_def) (simp add: report_buffer_def)

lemma device_event_dropped:
  assumes "win \<le> 64" and "r < 0"
    and "prog s \<lparr>ctx_hid = hid, ctx_size = int (length rep)\<rparr> (Some (take win (report_buffer rep)))
         = Some (s', w, r)"
  shows "device_event prog win hid s rep = Some (s', None)"
  using assms by (simp add: device_event_eq delivered_def)

text \<open>The bytes of a report in the window of a program that asks for at least as many.\<close>

lemma take_report_buffer: "length rep \<le> win \<Longrightarrow> take (length rep) (take win (report_buffer rep)) = rep"
  by (simp add: report_buffer_def)

lemma rdesc_fixup_eq:
  assumes "length rdesc \<le> 4096"
    and "prog s \<lparr>ctx_hid = hid, ctx_size = int (length rdesc)\<rparr> (Some (rdesc_buffer rdesc)) = Some (s', w, r)"
  shows "rdesc_fixup prog hid s rdesc = Some (s', delivered (length rdesc) w r)"
proof -
  have "take 4096 (rdesc_buffer rdesc) = rdesc_buffer rdesc" "drop 4096 (rdesc_buffer rdesc) = []"
    using assms by (simp_all add: length_rdesc_buffer)
  with assms show ?thesis
    by (simp add: rdesc_fixup_def length_rdesc_buffer
        run_program_granted [where win = 4096 and buf = "rdesc_buffer rdesc"])
qed

lemma length_window: "win \<le> 64 \<Longrightarrow> length (take win (report_buffer rep)) = win"
  by (simp add: length_report_buffer)

lemma window_nth: "i < win \<Longrightarrow> i < length rep \<Longrightarrow> take win (report_buffer rep) ! i = rep ! i"
  by (simp add: report_buffer_nth)

section \<open>Fixups that replace the descriptor\<close>

text \<open>
  The contract of a fixup that looks at its globals and at its context, and
  either leaves the descriptor alone or overwrites it with one of its own.
\<close>

locale replacing_fixup =
  fixes fixup :: "'s program" and pick :: "'s \<Rightarrow> hid_bpf_ctx \<Rightarrow> u8 list option"
  assumes unavailable: "fixup s c None = Some (s, [], 0)"
    and replaces: "length d = 4096 \<Longrightarrow> fixup s c (Some d) =
      (case pick s c of
         None \<Rightarrow> Some (s, d, 0)
       | Some new \<Rightarrow> do { d' \<leftarrow> memcpy d 0 new; Some (s, d', int (length new)) })"
    and fits: "pick s c = Some new \<Longrightarrow> 1 \<le> length new \<and> length new \<le> 4096"

sublocale replacing_fixup \<subseteq> hid_program fixup 4096
proof
  show "fixup s c None = Some (s, [], 0)" for s c by (rule unavailable)
  show "\<exists>s' d' r. fixup s c (Some d) = Some (s', d', r) \<and> length d' = 4096 \<and> r \<le> int 4096"
    if "length d = 4096" for d s c
    using that by (auto simp: replaces split: option.split dest: fits)
qed

context replacing_fixup
begin

lemma fixup_result:
  assumes "length rdesc \<le> 4096"
  shows "rdesc_fixup fixup hid s rdesc = Some (s, Some (case pick s \<lparr>ctx_hid = hid, ctx_size = int (length rdesc)\<rparr> of
           None \<Rightarrow> rdesc | Some new \<Rightarrow> new))"
proof (cases "pick s \<lparr>ctx_hid = hid, ctx_size = int (length rdesc)\<rparr>")
  case None
  then have "fixup s \<lparr>ctx_hid = hid, ctx_size = int (length rdesc)\<rparr> (Some (rdesc_buffer rdesc))
      = Some (s, rdesc_buffer rdesc, 0)"
    using assms by (simp add: replaces length_rdesc_buffer)
  from rdesc_fixup_eq [where prog = fixup, OF assms this] None show ?thesis
    by (simp add: delivered_def rdesc_buffer_def)
next
  case (Some new)
  then have new: "new \<noteq> []" "length new \<le> 4096" using fits [of s _ new] by fastforce+
  then have "fixup s \<lparr>ctx_hid = hid, ctx_size = int (length rdesc)\<rparr> (Some (rdesc_buffer rdesc))
      = Some (s, new @ drop (length new) (rdesc_buffer rdesc), int (length new))"
    using assms Some by (simp add: replaces length_rdesc_buffer)
  from rdesc_fixup_eq [where prog = fixup, OF assms this] Some new show ?thesis
    by (simp add: delivered_def)
qed

end

section \<open>Fixups that patch bytes in place\<close>

text \<open>
  The contract of a fixup that keeps the size of the descriptor: it only touches the bytes in
  \<open>sites\<close>, and a descriptor it has patched needs no second patch.
\<close>

locale patching_fixup =
  fixes fixup :: "'s program" and patch :: "hid_bpf_ctx \<Rightarrow> u8 list \<Rightarrow> u8 list" and sites :: "nat set"
  assumes unavailable: "fixup s c None = Some (s, [], 0)"
    and patches: "length d = 4096 \<Longrightarrow> fixup s c (Some d) = Some (s, patch c d, 0)"
    and patch_length: "length (patch c d) = length d"
    and patch_local: "i \<notin> sites \<Longrightarrow> patch c d ! i = d ! i"
    and patch_idem: "length d = 4096 \<Longrightarrow> patch c (patch c d) = patch c d"

sublocale patching_fixup \<subseteq> hid_program fixup 4096
  by unfold_locales (auto simp: unavailable patches patch_length)

context patching_fixup
begin

lemma fixup_result:
  assumes "length rdesc \<le> 4096"
  shows "rdesc_fixup fixup hid s rdesc = Some (s, Some (take (length rdesc)
           (patch \<lparr>ctx_hid = hid, ctx_size = int (length rdesc)\<rparr> (rdesc_buffer rdesc))))"
proof -
  have "fixup s \<lparr>ctx_hid = hid, ctx_size = int (length rdesc)\<rparr> (Some (rdesc_buffer rdesc)) =
      Some (s, patch \<lparr>ctx_hid = hid, ctx_size = int (length rdesc)\<rparr> (rdesc_buffer rdesc), 0)"
    using assms by (simp add: patches length_rdesc_buffer)
  from rdesc_fixup_eq [where prog = fixup, OF assms this] show ?thesis
    by (simp add: delivered_unchanged)
qed

text \<open>The delivered descriptor has the old size and the old bytes outside the sites.\<close>

lemma fixup_frame:
  assumes "length rdesc \<le> 4096"
  shows "\<exists>rdesc'. rdesc_fixup fixup hid s rdesc = Some (s, Some rdesc') \<and> length rdesc' = length rdesc \<and>
           (\<forall>i < length rdesc. i \<notin> sites \<longrightarrow> rdesc' ! i = rdesc ! i)"
  using assms
  by (auto simp: fixup_result patch_length patch_local length_rdesc_buffer rdesc_buffer_def nth_append)

text \<open>Running the fixup on what it delivered changes nothing.\<close>

lemma fixup_idempotent:
  assumes "length rdesc \<le> 4096" and "\<And>i. i \<in> sites \<Longrightarrow> i < length rdesc"
    and "rdesc_fixup fixup hid s rdesc = Some (s', Some rdesc')"
  shows "rdesc_fixup fixup hid s rdesc' = Some (s, Some rdesc')"
proof -
  let ?c = "\<lparr>ctx_hid = hid, ctx_size = int (length rdesc)\<rparr>"
  let ?p = "patch ?c (rdesc_buffer rdesc)"
  have r: "rdesc' = take (length rdesc) ?p"
    using assms by (simp add: fixup_result)
  have len: "length rdesc' = length rdesc" "length ?p = 4096"
    using assms by (simp_all add: r patch_length length_rdesc_buffer)
  have "rdesc_buffer rdesc' = ?p"
  proof (rule nth_equalityI)
    show "length (rdesc_buffer rdesc') = length ?p"
      using len assms by (simp add: length_rdesc_buffer)
    fix i assume "i < length (rdesc_buffer rdesc')"
    show "rdesc_buffer rdesc' ! i = ?p ! i"
    proof (cases "i < length rdesc")
      case True
      then show ?thesis using len by (simp add: rdesc_buffer_def nth_append r)
    next
      case False
      then have "i \<notin> sites" using assms by blast
      then show ?thesis using False len by (simp add: patch_local rdesc_buffer_def nth_append)
    qed
  qed
  then show ?thesis
    using assms len by (simp add: fixup_result patch_idem length_rdesc_buffer r)
qed

end

section \<open>Probes\<close>

text \<open>
  \<open>probe\<close> runs once per device with the parsed descriptor in its arguments and reports through
  \<open>retval\<close>; the loader initialises \<open>retval\<close> to -1 and attaches the program exactly when it
  comes back 0.
\<close>

definition loader_args :: "u32 \<Rightarrow> u8 list \<Rightarrow> hid_bpf_probe_args" where
  "loader_args hid rdesc_bytes =
     \<lparr>pa_hid = hid,
      pa_rdesc_size = word_of_nat (min (length rdesc_bytes) 4096),
      pa_rdesc = take 4096 rdesc_bytes @ replicate (4096 - length rdesc_bytes) 0,
      pa_retval = - 1\<rparr>"

definition probe_accepts :: "hid_bpf_probe_args \<Rightarrow> bool" where
  "probe_accepts a \<longleftrightarrow> pa_retval a = 0"

lemma loader_args_ok: "probe_args_ok (loader_args hid rdesc_bytes)"
  by (simp add: loader_args_def probe_args_ok_def)

lemma loader_rdesc_nth: "i < length rdesc_bytes \<Longrightarrow> i < 4096 \<Longrightarrow>
    pa_rdesc (loader_args hid rdesc_bytes) ! i = rdesc_bytes ! i"
  by (simp add: loader_args_def nth_append)

lemma loader_rdesc_size: "length rdesc_bytes \<le> 4096 \<Longrightarrow>
    unat (pa_rdesc_size (loader_args hid rdesc_bytes)) = length rdesc_bytes"
  by (simp add: loader_args_def unsigned_of_nat min_absorb1 take_bit_nat_eq_self)

end
