(* ===== verification/Report_Macros.thy ===== *)
theory Report_Macros
  imports Bpf_Prelude
begin

text \<open>
  The report descriptor macros of \<open>hid_report_helpers.h\<close>. A macro expands to a piece of an array
  initialiser: a list of elements, each a C constant expression converted to \<open>__u8\<close>, together
  with the verdict of the \<open>must_be\<close> static assertion it carries. \<open>static_ok\<close> is "the file
  compiles", \<open>bytes\<close> is the array. The \<open>Usage\<close> macros are the generated ones the programs use.
\<close>

type_synonym elem = "bool \<times> u8"
type_synonym initializer = "elem list"

definition static_ok :: "initializer \<Rightarrow> bool" where
  "static_ok ini = list_all fst ini"

definition bytes :: "initializer \<Rightarrow> u8 list" where
  "bytes ini = map snd ini"

lemma static_ok_simps [simp]:
  "static_ok []" "static_ok (e # es) = (fst e \<and> static_ok es)"
  "static_ok (xs @ ys) = (static_ok xs \<and> static_ok ys)"
  by (simp_all add: static_ok_def)

lemma bytes_simps [simp]:
  "bytes [] = []" "bytes (e # es) = snd e # bytes es" "bytes (xs @ ys) = bytes xs @ bytes ys"
  by (simp_all add: bytes_def)

lemma bytes_concat [simp]: "bytes (concat xss) = concat (map bytes xss)"
  by (induction xss) simp_all

lemma static_ok_concat [simp]: "static_ok (concat xss) = list_all static_ok xss"
  by (induction xss) simp_all

text \<open>An initialiser element without an assertion.\<close>

definition byte :: "int \<Rightarrow> elem" where
  "byte v = (True, word_of_int v)"

section \<open>Checked integers\<close>

definition i4 :: "int \<Rightarrow> elem" where
  "i4 v = (- 0x8 \<le> v \<and> v \<le> 0x7, word_of_int v AND 0xf)"

definition i8 :: "int \<Rightarrow> elem" where
  "i8 v = (- 0x80 \<le> v \<and> v \<le> 0xff, word_of_int v)"

definition i16 :: "int \<Rightarrow> bool \<times> u16" where
  "i16 v = (- 0x8000 \<le> v \<and> v \<le> 0xffff, word_of_int v)"

definition i32 :: "int \<Rightarrow> bool \<times> u32" where
  "i32 v = (- 0x80000000 \<le> v \<and> v \<le> 0xffffffff, word_of_int v)"

definition LE16 :: "int \<Rightarrow> initializer" where
  "LE16 v = [(fst (i16 v), ucast (snd (i16 v) AND 0xff)),
             byte (drop_bit 8 v AND 0xff)]"

definition LE32 :: "int \<Rightarrow> initializer" where
  "LE32 v = [(fst (i32 v), ucast (snd (i32 v) AND 0xff)),
             byte (drop_bit 8 v AND 0xff),
             byte (drop_bit 16 v AND 0xff),
             byte (drop_bit 24 v AND 0xff)]"

section \<open>Collections and stack items\<close>

definition Collection :: "int \<Rightarrow> initializer \<Rightarrow> initializer" where
  "Collection col body = [byte 0xa1, i8 col] @ body @ [byte 0xc0]"

definition CollectionPhysical :: "initializer \<Rightarrow> initializer" where
  "CollectionPhysical body = Collection 0x00 body"

definition CollectionApplication :: "initializer \<Rightarrow> initializer" where
  "CollectionApplication body = Collection 0x01 body"

definition CollectionLogical :: "initializer \<Rightarrow> initializer" where
  "CollectionLogical body = Collection 0x02 body"

definition PushPop :: "initializer \<Rightarrow> initializer" where
  "PushPop body = [byte 0xa4] @ body @ [byte 0xb4]"

section \<open>Main, global and local items\<close>

definition Const :: int where "Const = 0x1"
definition Var :: int where "Var = 0x2"
definition Arr :: int where "Arr = 0x0"
definition Abs :: int where "Abs = 0x0"
definition Rel :: int where "Rel = 0x4"
definition Null :: int where "Null = 0x40"
definition Buff :: int where "Buff = 0x0100"

definition Input :: "int \<Rightarrow> initializer" where
  "Input i = [byte 0x81, i8 i]"

definition Output :: "int \<Rightarrow> initializer" where
  "Output i = [byte 0x91, i8 i]"

definition Feature :: "int \<Rightarrow> initializer" where
  "Feature i = [byte 0xb1, i8 i]"

definition Input_i16 :: "int \<Rightarrow> initializer" where
  "Input_i16 i = byte 0x82 # LE16 i"

definition Output_i16 :: "int \<Rightarrow> initializer" where
  "Output_i16 i = byte 0x92 # LE16 i"

definition Feature_i16 :: "int \<Rightarrow> initializer" where
  "Feature_i16 i = byte 0xb2 # LE16 i"

definition ReportId :: "int \<Rightarrow> initializer" where
  "ReportId rid = [byte 0x85, i8 rid]"

definition ReportSize :: "int \<Rightarrow> initializer" where
  "ReportSize sz = [byte 0x75, i8 sz]"

definition ReportCount :: "int \<Rightarrow> initializer" where
  "ReportCount cnt = [byte 0x95, i8 cnt]"

definition LogicalMinimum_i8 :: "int \<Rightarrow> initializer" where
  "LogicalMinimum_i8 mn = [byte 0x15, i8 mn]"

definition LogicalMinimum_i16 :: "int \<Rightarrow> initializer" where
  "LogicalMinimum_i16 mn = byte 0x16 # LE16 mn"

definition LogicalMinimum_i32 :: "int \<Rightarrow> initializer" where
  "LogicalMinimum_i32 mn = byte 0x17 # LE32 mn"

definition LogicalMaximum_i8 :: "int \<Rightarrow> initializer" where
  "LogicalMaximum_i8 mx = [byte 0x25, i8 mx]"

definition LogicalMaximum_i16 :: "int \<Rightarrow> initializer" where
  "LogicalMaximum_i16 mx = byte 0x26 # LE16 mx"

definition LogicalMaximum_i32 :: "int \<Rightarrow> initializer" where
  "LogicalMaximum_i32 mx = byte 0x27 # LE32 mx"

definition PhysicalMinimum_i8 :: "int \<Rightarrow> initializer" where
  "PhysicalMinimum_i8 mn = [byte 0x35, i8 mn]"

definition PhysicalMinimum_i16 :: "int \<Rightarrow> initializer" where
  "PhysicalMinimum_i16 mn = byte 0x36 # LE16 mn"

definition PhysicalMinimum_i32 :: "int \<Rightarrow> initializer" where
  "PhysicalMinimum_i32 mn = byte 0x37 # LE32 mn"

definition PhysicalMaximum_i8 :: "int \<Rightarrow> initializer" where
  "PhysicalMaximum_i8 mx = [byte 0x45, i8 mx]"

definition PhysicalMaximum_i16 :: "int \<Rightarrow> initializer" where
  "PhysicalMaximum_i16 mx = byte 0x46 # LE16 mx"

definition PhysicalMaximum_i32 :: "int \<Rightarrow> initializer" where
  "PhysicalMaximum_i32 mx = byte 0x47 # LE32 mx"

definition UsageMinimum_i8 :: "int \<Rightarrow> initializer" where
  "UsageMinimum_i8 mn = [byte 0x19, i8 mn]"

definition UsageMinimum_i16 :: "int \<Rightarrow> initializer" where
  "UsageMinimum_i16 mn = byte 0x1a # LE16 mn"

definition UsageMaximum_i8 :: "int \<Rightarrow> initializer" where
  "UsageMaximum_i8 mx = [byte 0x29, i8 mx]"

definition UsageMaximum_i16 :: "int \<Rightarrow> initializer" where
  "UsageMaximum_i16 mx = byte 0x2a # LE16 mx"

definition UsagePage_i8 :: "int \<Rightarrow> initializer" where
  "UsagePage_i8 p = [byte 0x05, i8 p]"

definition UsagePage_i16 :: "int \<Rightarrow> initializer" where
  "UsagePage_i16 p = byte 0x06 # LE16 p"

definition Usage_i8 :: "int \<Rightarrow> initializer" where
  "Usage_i8 u = [byte 0x09, i8 u]"

definition Usage_i16 :: "int \<Rightarrow> initializer" where
  "Usage_i16 u = byte 0x0a # LE16 u"

definition Usage_i32 :: "int \<Rightarrow> initializer" where
  "Usage_i32 u = byte 0x0b # LE32 u"

section \<open>Units\<close>

definition SILinear :: int where "SILinear = 0x1"
definition SIRotation :: int where "SIRotation = 0x2"
definition EnglishLinear :: int where "EnglishLinear = 0x3"
definition EnglishRotation :: int where "EnglishRotation = 0x4"
definition cm :: int where "cm = SILinear OR push_bit 4 0x1"
definition rad :: int where "rad = SIRotation OR push_bit 4 0x1"
definition deg :: int where "deg = EnglishRotation OR push_bit 4 0x1"
definition inch :: int where "inch = EnglishLinear OR push_bit 4 0x1"

definition Unit_i8 :: "int \<Rightarrow> initializer" where
  "Unit_i8 u = [byte 0x65, i8 u]"

definition Unit :: "int \<Rightarrow> initializer" where
  "Unit u = Unit_i8 u"

text \<open>These two pass \<open>i16\<close>/\<open>i32\<close> as one array element, which the array narrows to one byte.\<close>

definition Unit_i16 :: "int \<Rightarrow> initializer" where
  "Unit_i16 u = [byte 0x66, (fst (i16 u), ucast (snd (i16 u)))]"

definition Unit_i32 :: "int \<Rightarrow> initializer" where
  "Unit_i32 u = [byte 0x67, (fst (i32 u), ucast (snd (i32 u)))]"

definition UnitExponent :: "int \<Rightarrow> initializer" where
  "UnitExponent u = [byte 0x55, i4 u]"

section \<open>Vendor pages and the padding report\<close>

definition UsagePage_Vendor :: "int \<Rightarrow> initializer" where
  "UsagePage_Vendor u = map (\<lambda>e. (fst e \<and> u AND 0xff00 = 0xff00, snd e)) (UsagePage_i16 u)"

definition FixedSizeVendorReport :: "int \<Rightarrow> initializer" where
  "FixedSizeVendorReport n = concat [
     UsagePage_Vendor 0xffff,
     Usage_i8 0x01,
     CollectionPhysical (concat [
       ReportId 0xac,
       ReportSize 8,
       ReportCount (n - 1),
       Input Const])]"

section \<open>Generated usage pages and usages\<close>

definition UsagePage_GenericDesktop :: initializer where "UsagePage_GenericDesktop = UsagePage_i8 0x1"
definition UsagePage_Button :: initializer where "UsagePage_Button = UsagePage_i8 0x9"
definition UsagePage_Ordinal :: initializer where "UsagePage_Ordinal = UsagePage_i8 0xa"
definition UsagePage_Consumer :: initializer where "UsagePage_Consumer = UsagePage_i8 0xc"
definition UsagePage_Digitizers :: initializer where "UsagePage_Digitizers = UsagePage_i8 0xd"
definition UsagePage_Haptics :: initializer where "UsagePage_Haptics = UsagePage_i8 0xe"
definition UsagePage_BatterySystem :: initializer where "UsagePage_BatterySystem = UsagePage_i8 0x85"
definition Usage_GD_Mouse :: initializer where "Usage_GD_Mouse = Usage_i8 0x2"
definition Usage_GD_Keypad :: initializer where "Usage_GD_Keypad = Usage_i8 0x7"
definition Usage_GD_SystemMultiAxisController :: initializer where "Usage_GD_SystemMultiAxisController = Usage_i8 0xe"
definition Usage_GD_X :: initializer where "Usage_GD_X = Usage_i8 0x30"
definition Usage_GD_Y :: initializer where "Usage_GD_Y = Usage_i8 0x31"
definition Usage_GD_Dial :: initializer where "Usage_GD_Dial = Usage_i8 0x37"
definition Usage_GD_Wheel :: initializer where "Usage_GD_Wheel = Usage_i8 0x38"
definition Usage_GD_ResolutionMultiplier :: initializer where "Usage_GD_ResolutionMultiplier = Usage_i8 0x48"
definition Usage_GD_SystemControl :: initializer where "Usage_GD_SystemControl = Usage_i8 0x80"
definition Usage_GD_SystemSleep :: initializer where "Usage_GD_SystemSleep = Usage_i8 0x82"
definition Usage_GD_SystemWakeUp :: initializer where "Usage_GD_SystemWakeUp = Usage_i8 0x83"
definition Usage_GD_WirelessRadioButton :: initializer where "Usage_GD_WirelessRadioButton = Usage_i8 0xc6"
definition Usage_GD_WirelessRadioLED :: initializer where "Usage_GD_WirelessRadioLED = Usage_i8 0xc7"
definition Usage_Con_ACPan :: initializer where "Usage_Con_ACPan = Usage_i16 0x238"
definition Usage_Dig_Digitizer :: initializer where "Usage_Dig_Digitizer = Usage_i8 0x1"
definition Usage_Dig_Pen :: initializer where "Usage_Dig_Pen = Usage_i8 0x2"
definition Usage_Dig_Stylus :: initializer where "Usage_Dig_Stylus = Usage_i8 0x20"
definition Usage_Dig_Puck :: initializer where "Usage_Dig_Puck = Usage_i8 0x21"
definition Usage_Dig_TipPressure :: initializer where "Usage_Dig_TipPressure = Usage_i8 0x30"
definition Usage_Dig_InRange :: initializer where "Usage_Dig_InRange = Usage_i8 0x32"
definition Usage_Dig_TabletFunctionKeys :: initializer where "Usage_Dig_TabletFunctionKeys = Usage_i8 0x39"
definition Usage_Dig_Invert :: initializer where "Usage_Dig_Invert = Usage_i8 0x3c"
definition Usage_Dig_XTilt :: initializer where "Usage_Dig_XTilt = Usage_i8 0x3d"
definition Usage_Dig_YTilt :: initializer where "Usage_Dig_YTilt = Usage_i8 0x3e"
definition Usage_Dig_TipSwitch :: initializer where "Usage_Dig_TipSwitch = Usage_i8 0x42"
definition Usage_Dig_BarrelSwitch :: initializer where "Usage_Dig_BarrelSwitch = Usage_i8 0x44"
definition Usage_Dig_Eraser :: initializer where "Usage_Dig_Eraser = Usage_i8 0x45"
definition Usage_Dig_Width :: initializer where "Usage_Dig_Width = Usage_i8 0x48"
definition Usage_Dig_SecondaryBarrelSwitch :: initializer where "Usage_Dig_SecondaryBarrelSwitch = Usage_i8 0x5a"
definition Usage_Hap_SimpleHapticController :: initializer where "Usage_Hap_SimpleHapticController = Usage_i8 0x1"
definition Usage_Hap_WaveformList :: initializer where "Usage_Hap_WaveformList = Usage_i8 0x10"
definition Usage_Hap_DurationList :: initializer where "Usage_Hap_DurationList = Usage_i8 0x11"
definition Usage_Hap_AutoTrigger :: initializer where "Usage_Hap_AutoTrigger = Usage_i8 0x20"
definition Usage_Hap_ManualTrigger :: initializer where "Usage_Hap_ManualTrigger = Usage_i8 0x21"
definition Usage_Hap_AutoTriggerAssociatedControl :: initializer where "Usage_Hap_AutoTriggerAssociatedControl = Usage_i8 0x22"
definition Usage_Hap_RepeatCount :: initializer where "Usage_Hap_RepeatCount = Usage_i8 0x24"
definition Usage_Hap_RetriggerPeriod :: initializer where "Usage_Hap_RetriggerPeriod = Usage_i8 0x25"
definition Usage_Hap_WaveformCutoffTime :: initializer where "Usage_Hap_WaveformCutoffTime = Usage_i8 0x28"
definition Usage_BS_Charging :: initializer where "Usage_BS_Charging = Usage_i8 0x44"
definition Usage_BS_AbsoluteStateOfCharge :: initializer where "Usage_BS_AbsoluteStateOfCharge = Usage_i8 0x65"
end

