(* ===== verification/Rdesc_Spec.thy ===== *)
theory Rdesc_Spec
  imports Report_Macros
begin

unbundle bit_operations_syntax

text \<open>
  The meaning of a report descriptor, as the HID specification (1.11, section 6.2.2) and the
  kernel's parser give it: this is the specification the descriptors of the programs are
  checked against, it models no code of the repository.

  A descriptor is a sequence of short items. Global items set a table that Push and Pop save
  and restore, local items are consumed by the next main item, and each Input, Output or
  Feature item adds a field of \<open>size * count\<close> bits to the report whose id is current. A
  maximum is read as signed exactly when the minimum in force is negative.
\<close>

section \<open>Items\<close>

text \<open>Item prefix with the size bits cleared, number of data bytes, unsigned data.\<close>

type_synonym item = "int \<times> nat \<times> int"

definition item_size :: "int \<Rightarrow> nat" where
  "item_size b = (if b mod 4 = 3 then 4 else nat (b mod 4))"

fun le_value :: "int list \<Rightarrow> int" where
  "le_value [] = 0"
| "le_value (b # bs) = b + 256 * le_value bs"

fun split_items :: "int list \<Rightarrow> item list option" where
  "split_items [] = Some []"
| "split_items (b # bs) =
     (if length bs < item_size b then None
      else case split_items (drop (item_size b) bs) of
        None \<Rightarrow> None
      | Some is \<Rightarrow> Some ((b - b mod 4, item_size b, le_value (take (item_size b) bs)) # is))"

definition signed :: "nat \<Rightarrow> int \<Rightarrow> int" where
  "signed n v = (if n = 0 \<or> v < 2 ^ (8 * n - 1) then v else v - 2 ^ (8 * n))"

section \<open>Parser state\<close>

record globals =
  g_page :: int
  g_lmin :: int
  g_lmax :: int
  g_pmin :: int
  g_pmax :: int
  g_uexp :: int
  g_unit :: int
  g_size :: int
  g_id :: int
  g_count :: int

record field =
  f_main :: int
  f_flags :: int
  f_glob :: globals
  f_usages :: "int list"

record pstate =
  p_glob :: globals
  p_stack :: "globals list"
  p_usages :: "int list"
  p_umin :: "int option"
  p_open :: "int list"
  p_fields :: "field list"

definition init_globals :: globals where
  "init_globals = \<lparr>g_page = 0, g_lmin = 0, g_lmax = 0, g_pmin = 0, g_pmax = 0, g_uexp = 0,
                   g_unit = 0, g_size = 0, g_id = 0, g_count = 0\<rparr>"

definition init_pstate :: pstate where
  "init_pstate = \<lparr>p_glob = init_globals, p_stack = [], p_usages = [], p_umin = None,
                  p_open = [], p_fields = []\<rparr>"

text \<open>Usages carry their page in the upper half, as extended usages do.\<close>

definition ext_usage :: "pstate \<Rightarrow> nat \<Rightarrow> int \<Rightarrow> int" where
  "ext_usage st n v = (if n = 4 then v else g_page (p_glob st) * 0x10000 + v)"

definition clear_locals :: "pstate \<Rightarrow> pstate" where
  "clear_locals st = st\<lparr>p_usages := [], p_umin := None\<rparr>"

definition add_field :: "int \<Rightarrow> int \<Rightarrow> pstate \<Rightarrow> pstate" where
  "add_field main flags st =
     clear_locals (st\<lparr>p_fields := \<lparr>f_main = main, f_flags = flags, f_glob = p_glob st,
                                   f_usages = p_usages st\<rparr> # p_fields st\<rparr>)"

definition set_globals :: "(globals \<Rightarrow> globals) \<Rightarrow> pstate \<Rightarrow> pstate" where
  "set_globals f st = st\<lparr>p_glob := f (p_glob st)\<rparr>"

definition parse_item :: "item \<Rightarrow> pstate \<Rightarrow> pstate option" where
  "parse_item it st = (case it of (pfx, n, v) \<Rightarrow>
     if pfx = 0x04 then Some (set_globals (\<lambda>g. g\<lparr>g_page := v\<rparr>) st)
     else if pfx = 0x08 then Some (st\<lparr>p_usages := p_usages st @ [ext_usage st n v]\<rparr>)
     else if pfx = 0x14 then Some (set_globals (\<lambda>g. g\<lparr>g_lmin := signed n v\<rparr>) st)
     else if pfx = 0x24 then
       Some (set_globals (\<lambda>g. g\<lparr>g_lmax := if g_lmin g < 0 then signed n v else v\<rparr>) st)
     else if pfx = 0x74 then Some (set_globals (\<lambda>g. g\<lparr>g_size := v\<rparr>) st)
     else if pfx = 0x94 then Some (set_globals (\<lambda>g. g\<lparr>g_count := v\<rparr>) st)
     else if pfx = 0x80 \<or> pfx = 0x90 \<or> pfx = 0xb0 then
       (if p_open st = [] then None else Some (add_field pfx v st))
     else if pfx = 0x34 then Some (set_globals (\<lambda>g. g\<lparr>g_pmin := signed n v\<rparr>) st)
     else if pfx = 0x44 then
       Some (set_globals (\<lambda>g. g\<lparr>g_pmax := if g_pmin g < 0 then signed n v else v\<rparr>) st)
     else if pfx = 0x54 then Some (set_globals (\<lambda>g. g\<lparr>g_uexp := v\<rparr>) st)
     else if pfx = 0x64 then Some (set_globals (\<lambda>g. g\<lparr>g_unit := v\<rparr>) st)
     else if pfx = 0x84 then
       (if v = 0 \<or> 255 < v then None else Some (set_globals (\<lambda>g. g\<lparr>g_id := v\<rparr>) st))
     else if pfx = 0x18 then Some (st\<lparr>p_umin := Some (ext_usage st n v)\<rparr>)
     else if pfx = 0x28 then
       (case p_umin st of None \<Rightarrow> None
        | Some lo \<Rightarrow> Some (st\<lparr>p_usages := p_usages st @ [lo .. ext_usage st n v], p_umin := None\<rparr>))
     else if pfx = 0xa0 then Some (clear_locals (st\<lparr>p_open := v # p_open st\<rparr>))
     else if pfx = 0xc0 then
       (case p_open st of [] \<Rightarrow> None | _ # cs \<Rightarrow> Some (clear_locals (st\<lparr>p_open := cs\<rparr>)))
     else if pfx = 0xa4 then Some (st\<lparr>p_stack := p_glob st # p_stack st\<rparr>)
     else if pfx = 0xb4 then
       (case p_stack st of [] \<Rightarrow> None | g # gs \<Rightarrow> Some (st\<lparr>p_glob := g, p_stack := gs\<rparr>))
     else None)"

fun parse_items :: "item list \<Rightarrow> pstate \<Rightarrow> pstate option" where
  "parse_items [] st = Some st"
| "parse_items (it # is) st = (case parse_item it st of None \<Rightarrow> None | Some st' \<Rightarrow> parse_items is st')"

definition parse_rdesc :: "u8 list \<Rightarrow> pstate option" where
  "parse_rdesc bs = (case split_items (map uint bs) of
      None \<Rightarrow> None
    | Some is \<Rightarrow> parse_items is init_pstate)"

section \<open>What a parsed descriptor declares\<close>

definition field_bits :: "field \<Rightarrow> int" where
  "field_bits f = g_size (f_glob f) * g_count (f_glob f)"

definition in_report :: "int \<Rightarrow> int \<Rightarrow> field \<Rightarrow> bool" where
  "in_report main rid f \<longleftrightarrow> f_main f = main \<and> g_id (f_glob f) = rid"

definition report_fields :: "int \<Rightarrow> int \<Rightarrow> pstate \<Rightarrow> field list" where
  "report_fields main rid st = rev (filter (in_report main rid) (p_fields st))"

definition report_bits :: "int \<Rightarrow> int \<Rightarrow> pstate \<Rightarrow> int" where
  "report_bits main rid st = sum_list (map field_bits (report_fields main rid st))"

text \<open>Bytes of a report on the wire: the report id, when there is one, and the padded fields.\<close>

definition report_length :: "int \<Rightarrow> int \<Rightarrow> pstate \<Rightarrow> int" where
  "report_length main rid st = (if rid = 0 then 0 else 1) + (report_bits main rid st + 7) div 8"

definition report_ids :: "int \<Rightarrow> pstate \<Rightarrow> int list" where
  "report_ids main st =
     remdups (map (\<lambda>f. g_id (f_glob f)) (filter (\<lambda>f. f_main f = main) (rev (p_fields st))))"

definition report_lengths :: "int \<Rightarrow> pstate \<Rightarrow> (int \<times> int) list" where
  "report_lengths main st = map (\<lambda>i. (i, report_length main i st)) (report_ids main st)"

text \<open>
  Position of every usage of a report, in bits from its first byte (the report id byte
  included): the usages of a field are given to its elements in order.
\<close>

fun place_usages :: "int \<Rightarrow> field list \<Rightarrow> (int \<times> int \<times> int) list" where
  "place_usages off [] = []"
| "place_usages off (f # fs) =
     (if odd (f_flags f) then []
      else map (\<lambda>(k, u). (u, off + int k * g_size (f_glob f), g_size (f_glob f)))
             (enumerate 0 (take (nat (g_count (f_glob f))) (f_usages f))))
     @ place_usages (off + field_bits f) fs"

definition usage_layout :: "int \<Rightarrow> pstate \<Rightarrow> (int \<times> int \<times> int) list" where
  "usage_layout rid st = place_usages (if rid = 0 then 0 else 8) (report_fields 0x80 rid st)"

text \<open>A field the kernel's parser accepts: a non-empty range for data, a size it can extract.\<close>

definition field_ok :: "field \<Rightarrow> bool" where
  "field_ok f \<longleftrightarrow>
     (even (f_flags f) \<longrightarrow> g_lmin (f_glob f) \<le> g_lmax (f_glob f)) \<and>
     0 < g_size (f_glob f) \<and> g_size (f_glob f) \<le> 256 \<and> 0 < g_count (f_glob f)"

definition whole_bytes :: "pstate \<Rightarrow> bool" where
  "whole_bytes st \<longleftrightarrow>
     list_all (\<lambda>m. list_all (\<lambda>i. report_bits m i st mod 8 = 0) (report_ids m st)) [0x80, 0x90, 0xb0]"

definition closed :: "pstate \<Rightarrow> bool" where
  "closed st \<longleftrightarrow> p_open st = []"

definition rdesc_ok :: "u8 list \<Rightarrow> bool" where
  "rdesc_ok bs = (case parse_rdesc bs of
      None \<Rightarrow> False
    | Some st \<Rightarrow> closed st \<and> p_stack st = [] \<and> list_all field_ok (p_fields st) \<and> whole_bytes st)"

definition input_lengths :: "u8 list \<Rightarrow> (int \<times> int) list option" where
  "input_lengths bs = map_option (report_lengths 0x80) (parse_rdesc bs)"

text \<open>
  One evaluation for both: the descriptor is well formed and declares input reports of the
  listed lengths.
\<close>

definition rdesc_declares :: "u8 list \<Rightarrow> (int \<times> int) list \<Rightarrow> bool" where
  "rdesc_declares bs ls = (case parse_rdesc bs of
      None \<Rightarrow> False
    | Some st \<Rightarrow> closed st \<and> p_stack st = [] \<and> list_all field_ok (p_fields st) \<and> whole_bytes st \<and>
                 report_lengths 0x80 st = ls)"

text \<open>A report that has the length declared for its id.\<close>

definition conforms :: "(int \<times> int) list \<Rightarrow> u8 list \<Rightarrow> bool" where
  "conforms ls rep = (case rep of
      [] \<Rightarrow> False
    | b # _ \<Rightarrow> map_of ls (uint b) = Some (int (length rep)))"

text \<open>The largest input report, which bounds the reports the kernel accepts from the device.\<close>

definition max_input :: "u8 list \<Rightarrow> int option" where
  "max_input bs = (case input_lengths bs of
      None \<Rightarrow> None | Some [] \<Rightarrow> None | Some ls \<Rightarrow> Some (Max (set (map snd ls))))"

lemma rdesc_declares_iff:
  "rdesc_declares bs ls \<longleftrightarrow> rdesc_ok bs \<and> input_lengths bs = Some ls"
  by (auto simp: rdesc_declares_def rdesc_ok_def input_lengths_def split: option.splits)

section \<open>Splitting and parsing are compositional\<close>

lemma split_items_append:
  "split_items xs = Some is \<Longrightarrow>
   split_items (xs @ ys) = (case split_items ys of None \<Rightarrow> None | Some js \<Rightarrow> Some (is @ js))"
proof (induction xs arbitrary: "is" rule: split_items.induct)
  case 1
  then show ?case by (simp split: option.splits)
next
  case (2 b bs)
  then show ?case by (auto split: option.splits if_splits)
qed

lemma parse_items_append:
  "parse_items (is @ js) st = (case parse_items is st of None \<Rightarrow> None | Some st' \<Rightarrow> parse_items js st')"
  by (induction "is" arbitrary: st) (auto split: option.splits)

lemma le_value_bounds:
  "list_all (\<lambda>b. 0 \<le> b \<and> b < 256) bs \<Longrightarrow> 0 \<le> le_value bs \<and> le_value bs < 256 ^ length bs"
proof (induction bs)
  case Nil
  then show ?case by simp
next
  case (Cons b bs)
  then have "0 \<le> le_value bs" "le_value bs + 1 \<le> 256 ^ length bs" "0 \<le> b" "b < 256" by auto
  then have "b + 256 * le_value bs < 256 * 256 ^ length bs" by linarith
  with \<open>0 \<le> b\<close> \<open>0 \<le> le_value bs\<close> show ?case by simp
qed

lemma report_bits_add_field:
  "report_bits main rid (add_field m fl st) =
     report_bits main rid st
     + (if m = main \<and> g_id (p_glob st) = rid then g_size (p_glob st) * g_count (p_glob st) else 0)"
  by (simp add: report_bits_def report_fields_def add_field_def clear_locals_def in_report_def
      field_bits_def)

section \<open>Reading a report through its descriptor\<close>

text \<open>The \<open>n\<close> bits of a report from bit \<open>off\<close> on, as an unsigned number.\<close>

definition read_bits :: "u8 list \<Rightarrow> nat \<Rightarrow> nat \<Rightarrow> int" where
  "read_bits rep off n = take_bit n (drop_bit off (le_value (map uint rep)))"

text \<open>The usages of the input report \<open>rid\<close>, and the first slot of a usage in it.\<close>

definition rdesc_layout :: "u8 list \<Rightarrow> int \<Rightarrow> (int \<times> int \<times> int) list option" where
  "rdesc_layout bs rid = map_option (usage_layout rid) (parse_rdesc bs)"

definition usage_slot :: "u8 list \<Rightarrow> int \<Rightarrow> int \<Rightarrow> (int \<times> int) option" where
  "usage_slot bs rid u = (case rdesc_layout bs rid of None \<Rightarrow> None | Some l \<Rightarrow> map_of l u)"

text \<open>The physical maximum of the field that carries a usage.\<close>

definition usage_pmax :: "u8 list \<Rightarrow> int \<Rightarrow> int \<Rightarrow> int option" where
  "usage_pmax bs rid u = (case parse_rdesc bs of
      None \<Rightarrow> None
    | Some st \<Rightarrow> (case filter (\<lambda>f. u \<in> set (f_usages f)) (report_fields 0x80 rid st) of
        [] \<Rightarrow> None
      | f # _ \<Rightarrow> Some (g_pmax (f_glob f))))"

text \<open>The value the kernel reads for a usage from a delivered report.\<close>

definition usage_value :: "u8 list \<Rightarrow> u8 list \<Rightarrow> int \<Rightarrow> int option" where
  "usage_value bs rep u = (case rep of
      [] \<Rightarrow> None
    | rid # _ \<Rightarrow> map_option (\<lambda>(off, n). read_bits rep (nat off) (nat n)) (usage_slot bs (uint rid) u))"

lemma bit_le_value:
  "bit (le_value (map uint (rep :: u8 list))) i \<longleftrightarrow> i div 8 < length rep \<and> bit (rep ! (i div 8)) (i mod 8)"
proof (induction rep arbitrary: i)
  case Nil
  then show ?case by simp
next
  case (Cons b rep)
  have "le_value (map uint (b # rep)) = uint b + push_bit 8 (le_value (map uint rep))"
    by (simp add: push_bit_eq_mult)
  also have "\<dots> = uint b OR push_bit 8 (le_value (map uint rep))"
    by (rule disjunctive_add) (auto simp: bit_push_bit_iff bit_uint_iff)
  finally have *: "bit (le_value (map uint (b # rep))) i \<longleftrightarrow>
      (if i < 8 then bit b i else bit (le_value (map uint rep)) (i - 8))"
    by (auto simp: bit_or_iff bit_push_bit_iff bit_uint_iff bit_high)
  show ?case
  proof (cases "i < 8")
    case True
    then show ?thesis using * by simp
  next
    case False
    then obtain j where "i = 8 + j" using le_Suc_ex not_less by blast
    moreover from this have "i div 8 = Suc (j div 8)" "i mod 8 = j mod 8" by simp_all
    ultimately show ?thesis using Cons.IH [of j] * by simp
  qed
qed

lemma bit_read_bits:
  "bit (read_bits rep off n) j \<longleftrightarrow>
     j < n \<and> (off + j) div 8 < length rep \<and> bit (rep ! ((off + j) div 8)) ((off + j) mod 8)"
  by (simp add: read_bits_def bit_take_bit_iff bit_drop_bit_eq bit_le_value del: le_value.simps)

lemma read_bit: "k < 8 \<Longrightarrow> i < length rep \<Longrightarrow> read_bits rep (8 * i + k) 1 = of_bool (bit (rep ! i) k)"
  by (rule bit_eqI) (auto simp: bit_read_bits bit_1_iff)

lemma read_byte: "i < length rep \<Longrightarrow> read_bits rep (8 * i) 8 = uint (rep ! i)"
  by (rule bit_eqI) (auto simp: bit_read_bits bit_uint_iff bit_high)

lemma read_le16: "i + 1 < length rep \<Longrightarrow> read_bits rep (8 * i) 16 = uint (le16 (rep ! i) (rep ! (i + 1)))"
proof (rule bit_eqI)
  fix n :: nat assume i: "i + 1 < length rep"
  show "bit (read_bits rep (8 * i) 16) n = bit (uint (le16 (rep ! i) (rep ! (i + 1)))) n"
  proof (cases "n < 16")
    case True
    then have "n div 8 = 0 \<or> n div 8 = 1" by auto
    with True i show ?thesis by (auto simp: bit_read_bits bit_uint_iff bit_le16)
  next
    case False
    then show ?thesis by (simp add: bit_read_bits bit_uint_iff bit_high)
  qed
qed

lemma read_bytes:
  assumes "i + k \<le> length rep"
  shows "read_bits rep (8 * i) (8 * k) = le_value (map uint (take k (drop i rep)))"
proof (rule bit_eqI)
  fix n
  have "bit (le_value (map uint (take k (drop i rep)))) n \<longleftrightarrow>
      n div 8 < k \<and> bit (rep ! (i + n div 8)) (n mod 8)"
    unfolding bit_le_value using assms by auto
  then show "bit (read_bits rep (8 * i) (8 * k)) n = bit (le_value (map uint (take k (drop i rep)))) n"
    using assms by (auto simp only: bit_read_bits) auto
qed
end
