(* ===== verification/Macro_Roundtrip.thy ===== *)
theory Macro_Roundtrip
  imports Rdesc_Spec
begin

unbundle bit_operations_syntax

text \<open>
  The item macros of \<open>hid_report_helpers.h\<close> against the meaning of report descriptors: what a macro whose
  static assertion holds encodes is read back as the item it names with the value it was given.
\<close>

section \<open>Bytes of the macros\<close>

lemma uint_word_of_int_u8: "uint (word_of_int v :: u8) = v mod 256"
  by (simp add: unsigned_of_int take_bit_eq_mod)

lemma snd_byte [simp]: "snd (byte v) = word_of_int v" and fst_byte [simp]: "fst (byte v)"
  by (simp_all add: byte_def)

lemma bit_0xff: "bit (0xff :: 'a::len word) k \<longleftrightarrow> k < 8 \<and> k < LENGTH('a)" and bit_0xff_int: "bit (0xff :: int) k \<longleftrightarrow> k < 8"
proof -
  have w: "(0xff :: 'a word) = mask 8" and i: "(0xff :: int) = mask 8" by (simp_all add: mask_eq_exp_minus_1)
  show "bit (0xff :: 'a word) k \<longleftrightarrow> k < 8 \<and> k < LENGTH('a)" unfolding w by (auto simp: bit_mask_iff possible_bit_word)
  show "bit (0xff :: int) k \<longleftrightarrow> k < 8" unfolding i by (simp add: bit_mask_iff)
qed

lemma bit_low_byte:
  "8 \<le> LENGTH('a::len) \<Longrightarrow> bit (ucast ((word_of_int v :: 'a word) AND 0xff) :: u8) k \<longleftrightarrow> k < 8 \<and> bit v k"
  by (auto simp: bit_ucast_iff bit_and_iff bit_word_of_int_iff bit_0xff bit_0xff_int)

lemma bit_next_byte: "bit (word_of_int (drop_bit n v AND 0xff) :: u8) k \<longleftrightarrow> k < 8 \<and> bit v (n + k)"
  by (auto simp: bit_word_of_int_iff bit_and_iff bit_drop_bit_eq bit_0xff_int)

lemma le_value_bytes:
  assumes "\<And>i k. i < length bs \<Longrightarrow> k < 8 \<Longrightarrow> bit (bs ! i :: u8) k = bit v (8 * i + k)"
  shows "le_value (map uint bs) = v mod 2 ^ (8 * length bs)"
proof -
  have "le_value (map uint bs) = take_bit (8 * length bs) v"
  proof (rule bit_eqI)
    fix n
    have "n div 8 < length bs \<longleftrightarrow> n < 8 * length bs" by auto
    then show "bit (le_value (map uint bs)) n = bit (take_bit (8 * length bs) v) n"
      using assms [of "n div 8" "n mod 8"] by (auto simp: bit_le_value bit_take_bit_iff simp del: le_value.simps)
  qed
  then show ?thesis by (simp add: take_bit_eq_mod)
qed

lemma le_value_i8: "le_value (map uint (bytes [i8 v])) = v mod 2 ^ 8"
  by (simp add: i8_def uint_word_of_int_u8)

lemma le_value_LE16: "le_value (map uint (bytes (LE16 v))) = v mod 2 ^ 16"
proof -
  have "bytes (LE16 v) = [ucast ((word_of_int v :: u16) AND 0xff), word_of_int (drop_bit 8 v AND 0xff)]" (is "_ = ?bs")
    by (simp add: LE16_def i16_def)
  moreover have "bit (?bs ! i) k = bit v (8 * i + k)" if "i < length ?bs" "k < 8" for i k
    using that bit_low_byte [where 'a = 16, of v k] bit_next_byte [of 8 v k] by (auto simp: less_Suc_eq)
  ultimately show ?thesis using le_value_bytes [of ?bs v] by simp
qed

lemma le_value_LE32: "le_value (map uint (bytes (LE32 v))) = v mod 2 ^ 32"
proof -
  have "bytes (LE32 v) = [ucast ((word_of_int v :: u32) AND 0xff), word_of_int (drop_bit 8 v AND 0xff),
      word_of_int (drop_bit 16 v AND 0xff), word_of_int (drop_bit 24 v AND 0xff)]" (is "_ = ?bs")
    by (simp add: LE32_def i32_def)
  moreover have "bit (?bs ! i) k = bit v (8 * i + k)" if "i < length ?bs" "k < 8" for i k
    using that bit_low_byte [where 'a = 32, of v k] bit_next_byte [of 8 v k] bit_next_byte [of 16 v k] bit_next_byte [of 24 v k]
    by (auto simp: less_Suc_eq)
  ultimately show ?thesis using le_value_bytes [of ?bs v] by simp
qed

section \<open>Items\<close>

text \<open>A prefix byte and as many data bytes as its size bits say are one item.\<close>

lemma split_one_item:
  "item_size b = length ds \<Longrightarrow> split_items (b # ds) = Some [(b - b mod 4, length ds, le_value ds)]"
  by simp

lemma length_LE: "length (bytes (LE16 v)) = 2" "length (bytes (LE32 v)) = 4"
  by (simp_all add: LE16_def LE32_def bytes_def)

text \<open>The macros with a checked argument, the item they name and the size of its data.\<close>

definition item_macros :: "((int \<Rightarrow> initializer) \<times> int \<times> nat) list" where
  "item_macros = [
     (Input, 0x80, 1), (Output, 0x90, 1), (Feature, 0xb0, 1),
     (Input_i16, 0x80, 2), (Output_i16, 0x90, 2), (Feature_i16, 0xb0, 2),
     (ReportId, 0x84, 1), (ReportSize, 0x74, 1), (ReportCount, 0x94, 1),
     (LogicalMinimum_i8, 0x14, 1), (LogicalMinimum_i16, 0x14, 2), (LogicalMinimum_i32, 0x14, 4),
     (LogicalMaximum_i8, 0x24, 1), (LogicalMaximum_i16, 0x24, 2), (LogicalMaximum_i32, 0x24, 4),
     (PhysicalMinimum_i8, 0x34, 1), (PhysicalMinimum_i16, 0x34, 2), (PhysicalMinimum_i32, 0x34, 4),
     (PhysicalMaximum_i8, 0x44, 1), (PhysicalMaximum_i16, 0x44, 2), (PhysicalMaximum_i32, 0x44, 4),
     (UsageMinimum_i8, 0x18, 1), (UsageMinimum_i16, 0x18, 2), (UsageMaximum_i8, 0x28, 1),
     (UsageMaximum_i16, 0x28, 2), (UsagePage_i8, 0x4, 1), (UsagePage_i16, 0x4, 2),
     (Usage_i8, 0x8, 1), (Usage_i16, 0x8, 2), (Usage_i32, 0x8, 4),
     (Unit_i8, 0x64, 1)]"

definition item_data :: "nat \<Rightarrow> int \<Rightarrow> initializer" where
  "item_data n v = (if n = 1 then [i8 v] else if n = 2 then LE16 v else LE32 v)"

lemma item_macros_shape:
  assumes "(m, pfx, n) \<in> set item_macros"
  shows "n \<in> {1, 2, 4} \<and> 0 \<le> pfx \<and> pfx < 253 \<and> pfx mod 4 = 0 \<and>
    m v = byte (pfx + (if n = 4 then 3 else int n)) # item_data n v"
proof -
  note defs = Input_def Output_def Feature_def Input_i16_def Output_i16_def Feature_i16_def ReportId_def ReportSize_def
    ReportCount_def LogicalMinimum_i8_def LogicalMinimum_i16_def LogicalMinimum_i32_def LogicalMaximum_i8_def
    LogicalMaximum_i16_def LogicalMaximum_i32_def PhysicalMinimum_i8_def PhysicalMinimum_i16_def PhysicalMinimum_i32_def
    PhysicalMaximum_i8_def PhysicalMaximum_i16_def PhysicalMaximum_i32_def UsageMinimum_i8_def UsageMinimum_i16_def
    UsageMaximum_i8_def UsageMaximum_i16_def UsagePage_i8_def UsagePage_i16_def Usage_i8_def Usage_i16_def Usage_i32_def
    Unit_i8_def item_data_def
  show ?thesis using assms unfolding item_macros_def by (auto simp: defs)
qed

lemma item_data_ok:
  assumes "n \<in> {1, 2, 4}"
  shows "length (bytes (item_data n v)) = n" "le_value (map uint (bytes (item_data n v))) = v mod 2 ^ (8 * n)"
    "static_ok (item_data n v) \<longleftrightarrow> - (2 ^ (8 * n - 1)) \<le> v \<and> v < 2 ^ (8 * n)"
  using assms le_value_i8 le_value_LE16 le_value_LE32 length_LE
  by (auto simp: item_data_def i8_def LE16_def i16_def LE32_def i32_def)

lemma signed_roundtrip:
  assumes "0 < n" "- (2 ^ (8 * n - 1)) \<le> v" "v < 2 ^ (8 * n)"
  shows "(if v < 0 then signed n (v mod 2 ^ (8 * n)) else v mod 2 ^ (8 * n)) = v"
proof (cases "v < 0")
  case True
  have p: "(2 :: int) ^ (8 * n) = 2 * 2 ^ (8 * n - 1)" using assms(1) by (simp add: power_eq_if)
  have "v mod 2 ^ (8 * n) = (v + 2 ^ (8 * n)) mod 2 ^ (8 * n)" by simp
  also have "\<dots> = v + 2 ^ (8 * n)" using True assms(2) p by (intro mod_pos_pos_trivial) auto
  finally show ?thesis using True assms p by (simp add: signed_def)
qed (use assms in simp)

lemma item_macro_item:
  assumes "(m, pfx, n) \<in> set item_macros"
  shows "split_items (map uint (bytes (m v))) = Some [(pfx, n, v mod 2 ^ (8 * n))]"
    "static_ok (m v) \<longleftrightarrow> - (2 ^ (8 * n - 1)) \<le> v \<and> v < 2 ^ (8 * n)"
proof -
  let ?b = "pfx + (if n = 4 then 3 else int n)"
  have n: "n \<in> {1, 2, 4}" "0 \<le> pfx" "pfx < 253" "pfx mod 4 = 0" and m: "m v = byte ?b # item_data n v"
    using item_macros_shape [OF assms, of v] by blast+
  have low: "?b mod 4 = (if n = 4 then 3 else int n)"
    using n(1) mod_add_left_eq [of pfx 4 "if n = 4 then 3 else int n"] n(4) by auto
  have size: "item_size ?b = n" unfolding item_size_def low using n(1) by auto
  have byte: "uint (word_of_int ?b :: u8) = ?b"
  proof -
    have "0 \<le> ?b" "?b < 256" using n(1-3) by auto
    then show ?thesis unfolding uint_word_of_int_u8 by (rule mod_pos_pos_trivial)
  qed
  show "split_items (map uint (bytes (m v))) = Some [(pfx, n, v mod 2 ^ (8 * n))]"
    using split_one_item [of ?b "map uint (bytes (item_data n v))"] item_data_ok [OF n(1), of v] size byte low
    by (simp add: m del: split_items.simps)
  show "static_ok (m v) \<longleftrightarrow> - (2 ^ (8 * n - 1)) \<le> v \<and> v < 2 ^ (8 * n)"
    using item_data_ok(3) [OF n(1), of v] by (simp add: m)
qed



text \<open>
  \<open>Unit_i16\<close> and \<open>Unit_i32\<close> encode no item for any value: they announce two and four bytes of data and
  provide one, so the parser takes the missing bytes from the items that follow.
\<close>

theorem unit_macros_short:
  "split_items (map uint (bytes (Unit_i16 u))) = None \<and> split_items (map uint (bytes (Unit_i32 u))) = None"
  by (simp add: Unit_i16_def Unit_i32_def uint_word_of_int_u8 item_size_def)

section \<open>The vendor report that keeps the size\<close>

text \<open>
  For every report length from 2 to 256 \<open>FixedSizeVendorReport\<close> compiles to a well-formed descriptor
  of one input report of exactly that length, the report id counted.
\<close>

theorem vendor_report_length:
  assumes "2 \<le> n" "n \<le> 256"
  shows "static_ok (FixedSizeVendorReport n) \<and> rdesc_declares (bytes (FixedSizeVendorReport n)) [(0xac, n)]"
proof -
  have b: "bytes (FixedSizeVendorReport n) =
      [0x06, 0xff, 0xff, 0x09, 0x01, 0xa1, 0x00, 0x85, 0xac, 0x75, 0x08, 0x95, word_of_int (n - 1), 0x81, 0x01, 0xc0]"
    by (simp add: FixedSizeVendorReport_def UsagePage_Vendor_def UsagePage_i16_def LE16_def i16_def i8_def Usage_i8_def
        CollectionPhysical_def Collection_def ReportId_def ReportSize_def ReportCount_def Input_def Const_def byte_def)
  have count: "uint (word_of_int (n - 1) :: u8) = n - 1" unfolding uint_word_of_int_u8 using assms by (intro mod_pos_pos_trivial) auto
  have items: "split_items (map uint (bytes (FixedSizeVendorReport n))) =
      Some [(4, 2, 0xffff), (8, 1, 1), (0xa0, 1, 0), (0x84, 1, 0xac), (0x74, 1, 8), (0x94, 1, n - 1), (0x80, 1, 1), (0xc0, 0, 0)]"
    unfolding b by (simp add: item_size_def count del: of_int_diff)
  have "static_ok (FixedSizeVendorReport n)"
    using assms by (simp add: FixedSizeVendorReport_def UsagePage_Vendor_def UsagePage_i16_def LE16_def i16_def i8_def Usage_i8_def
        CollectionPhysical_def Collection_def ReportId_def ReportSize_def ReportCount_def Input_def Const_def byte_def)
  moreover have "rdesc_declares (bytes (FixedSizeVendorReport n)) [(0xac, n)]"
    using assms
    by (simp add: rdesc_declares_def parse_rdesc_def items parse_item_def set_globals_def clear_locals_def add_field_def ext_usage_def
        init_pstate_def init_globals_def closed_def field_ok_def whole_bytes_def report_ids_def report_bits_def report_fields_def
        in_report_def field_bits_def report_lengths_def report_length_def)
  ultimately show ?thesis by blast
qed

theorem vendor_report_length_witness: "rdesc_declares (bytes (FixedSizeVendorReport 256)) [(0xac, 256)]"
  using vendor_report_length [of 256] by simp

end
