(* ===== verification/Usage_Numbers.thy ===== *)
theory Usage_Numbers
  imports Bpf_Prelude
begin

text \<open>
  The usage pages and usages of \<open>hid_usages.h\<close>, the header with the numbers a program compares parsed usages with. An entry is
  the name of a macro without its prefix \<open>HidUsagePage_\<close> or \<open>HidUsage_\<close>, and its number. Pages of more than 150 usages
  are given in pieces. Two names have a letter outside ASCII, which is given by its two bytes in UTF-8.
\<close>

type_synonym usage_numbers_table = "(string \<times> int) list"

definition page_numbers :: usage_numbers_table where
  "page_numbers = [
     (''GenericDesktop'', 0x01), (''SimulationControls'', 0x02), (''VRControls'', 0x03), (''SportControls'', 0x04),
     (''GameControls'', 0x05), (''GenericDeviceControls'', 0x06), (''KeyboardKeypad'', 0x07), (''LED'', 0x08), (''Button'', 0x09),
     (''Ordinal'', 0x0a), (''TelephonyDevice'', 0x0b), (''Consumer'', 0x0c), (''Digitizers'', 0x0d), (''Haptics'', 0x0e),
     (''PhysicalInputDevice'', 0x0f), (''Unicode'', 0x10), (''SoC'', 0x11), (''EyeandHeadTrackers'', 0x12),
     (''AuxiliaryDisplay'', 0x14), (''Sensors'', 0x20), (''MedicalInstrument'', 0x40), (''BrailleDisplay'', 0x41),
     (''LightingAndIllumination'', 0x59), (''Monitor'', 0x80), (''MonitorEnumerated'', 0x81), (''VESAVirtualControls'', 0x82),
     (''Power'', 0x84), (''BatterySystem'', 0x85), (''BarcodeScanner'', 0x8c), (''Scales'', 0x8d),
     (''MagneticStripeReader'', 0x8e), (''CameraControl'', 0x90), (''Arcade'', 0x91), (''FIDOAlliance'', 0xf1d0)]"

definition numbers_GenericDesktop :: usage_numbers_table where
  "numbers_GenericDesktop = [
     (''GD_Pointer'', 0x01), (''GD_Mouse'', 0x02), (''GD_Joystick'', 0x04), (''GD_Gamepad'', 0x05), (''GD_Keyboard'', 0x06),
     (''GD_Keypad'', 0x07), (''GD_MultiaxisController'', 0x08), (''GD_TabletPCSystemControls'', 0x09),
     (''GD_WaterCoolingDevice'', 0x0a), (''GD_ComputerChassisDevice'', 0x0b), (''GD_WirelessRadioControls'', 0x0c),
     (''GD_PortableDeviceControl'', 0x0d), (''GD_SystemMultiAxisController'', 0x0e), (''GD_SpatialController'', 0x0f),
     (''GD_AssistiveControl'', 0x10), (''GD_DeviceDock'', 0x11), (''GD_DockableDevice'', 0x12),
     (''GD_CallStateManagementControl'', 0x13), (''GD_X'', 0x30), (''GD_Y'', 0x31), (''GD_Z'', 0x32), (''GD_Rx'', 0x33),
     (''GD_Ry'', 0x34), (''GD_Rz'', 0x35), (''GD_Slider'', 0x36), (''GD_Dial'', 0x37), (''GD_Wheel'', 0x38),
     (''GD_HatSwitch'', 0x39), (''GD_CountedBuffer'', 0x3a), (''GD_ByteCount'', 0x3b), (''GD_MotionWakeup'', 0x3c),
     (''GD_Start'', 0x3d), (''GD_Select'', 0x3e), (''GD_Vx'', 0x40), (''GD_Vy'', 0x41), (''GD_Vz'', 0x42), (''GD_Vbrx'', 0x43),
     (''GD_Vbry'', 0x44), (''GD_Vbrz'', 0x45), (''GD_Vno'', 0x46), (''GD_FeatureNotification'', 0x47),
     (''GD_ResolutionMultiplier'', 0x48), (''GD_Qx'', 0x49), (''GD_Qy'', 0x4a), (''GD_Qz'', 0x4b), (''GD_Qw'', 0x4c),
     (''GD_SystemControl'', 0x80), (''GD_SystemPowerDown'', 0x81), (''GD_SystemSleep'', 0x82), (''GD_SystemWakeUp'', 0x83),
     (''GD_SystemContextMenu'', 0x84), (''GD_SystemMainMenu'', 0x85), (''GD_SystemAppMenu'', 0x86), (''GD_SystemMenuHelp'', 0x87),
     (''GD_SystemMenuExit'', 0x88), (''GD_SystemMenuSelect'', 0x89), (''GD_SystemMenuRight'', 0x8a), (''GD_SystemMenuLeft'', 0x8b),
     (''GD_SystemMenuUp'', 0x8c), (''GD_SystemMenuDown'', 0x8d), (''GD_SystemColdRestart'', 0x8e),
     (''GD_SystemWarmRestart'', 0x8f), (''GD_DpadUp'', 0x90), (''GD_DpadDown'', 0x91), (''GD_DpadRight'', 0x92),
     (''GD_DpadLeft'', 0x93), (''GD_IndexTrigger'', 0x94), (''GD_PalmTrigger'', 0x95), (''GD_Thumbstick'', 0x96),
     (''GD_SystemFunctionShift'', 0x97), (''GD_SystemFunctionShiftLock'', 0x98), (''GD_SystemFunctionShiftLockIndicator'', 0x99),
     (''GD_SystemDismissNotification'', 0x9a), (''GD_SystemDoNotDisturb'', 0x9b), (''GD_SystemDock'', 0xa0),
     (''GD_SystemUndock'', 0xa1), (''GD_SystemSetup'', 0xa2), (''GD_SystemBreak'', 0xa3), (''GD_SystemDebuggerBreak'', 0xa4),
     (''GD_ApplicationBreak'', 0xa5), (''GD_ApplicationDebuggerBreak'', 0xa6), (''GD_SystemSpeakerMute'', 0xa7),
     (''GD_SystemHibernate'', 0xa8), (''GD_SystemMicrophoneMute'', 0xa9), (''GD_SystemAccessibilityBinding'', 0xaa),
     (''GD_SystemDisplayInvert'', 0xb0), (''GD_SystemDisplayInternal'', 0xb1), (''GD_SystemDisplayExternal'', 0xb2),
     (''GD_SystemDisplayBoth'', 0xb3), (''GD_SystemDisplayDual'', 0xb4), (''GD_SystemDisplayToggleIntExtMode'', 0xb5),
     (''GD_SystemDisplaySwapPrimarySecondary'', 0xb6), (''GD_SystemDisplayToggleLCDAutoscale'', 0xb7), (''GD_SensorZone'', 0xc0),
     (''GD_RPM'', 0xc1), (''GD_CoolantLevel'', 0xc2), (''GD_CoolantCriticalLevel'', 0xc3), (''GD_CoolantPump'', 0xc4),
     (''GD_ChassisEnclosure'', 0xc5), (''GD_WirelessRadioButton'', 0xc6), (''GD_WirelessRadioLED'', 0xc7),
     (''GD_WirelessRadioSliderSwitch'', 0xc8), (''GD_SystemDisplayRotationLockButton'', 0xc9),
     (''GD_SystemDisplayRotationLockSliderSwitch'', 0xca), (''GD_ControlEnable'', 0xcb), (''GD_DockableDeviceUniqueID'', 0xd0),
     (''GD_DockableDeviceVendorID'', 0xd1), (''GD_DockableDevicePrimaryUsagePage'', 0xd2),
     (''GD_DockableDevicePrimaryUsageID'', 0xd3), (''GD_DockableDeviceDockingState'', 0xd4),
     (''GD_DockableDeviceDisplayOcclusion'', 0xd5), (''GD_DockableDeviceObjectType'', 0xd6), (''GD_CallActiveLED'', 0xe0),
     (''GD_CallMuteToggle'', 0xe1), (''GD_CallMuteLED'', 0xe2)]"

definition numbers_SimulationControls :: usage_numbers_table where
  "numbers_SimulationControls = [
     (''SC_FlightSimulationDevice'', 0x01), (''SC_AutomobileSimulationDevice'', 0x02), (''SC_TankSimulationDevice'', 0x03),
     (''SC_SpaceshipSimulationDevice'', 0x04), (''SC_SubmarineSimulationDevice'', 0x05), (''SC_SailingSimulationDevice'', 0x06),
     (''SC_MotorcycleSimulationDevice'', 0x07), (''SC_SportsSimulationDevice'', 0x08), (''SC_AirplaneSimulationDevice'', 0x09),
     (''SC_HelicopterSimulationDevice'', 0x0a), (''SC_MagicCarpetSimulationDevice'', 0x0b), (''SC_BicycleSimulationDevice'', 0x0c),
     (''SC_FlightControlStick'', 0x20), (''SC_FlightStick'', 0x21), (''SC_CyclicControl'', 0x22), (''SC_CyclicTrim'', 0x23),
     (''SC_FlightYoke'', 0x24), (''SC_TrackControl'', 0x25), (''SC_Aileron'', 0xb0), (''SC_AileronTrim'', 0xb1),
     (''SC_AntiTorqueControl'', 0xb2), (''SC_AutopilotEnable'', 0xb3), (''SC_ChaffRelease'', 0xb4),
     (''SC_CollectiveControl'', 0xb5), (''SC_DiveBrake'', 0xb6), (''SC_ElectronicCountermeasures'', 0xb7), (''SC_Elevator'', 0xb8),
     (''SC_ElevatorTrim'', 0xb9), (''SC_Rudder'', 0xba), (''SC_Throttle'', 0xbb), (''SC_FlightCommunications'', 0xbc),
     (''SC_FlareRelease'', 0xbd), (''SC_LandingGear'', 0xbe), (''SC_ToeBrake'', 0xbf), (''SC_Trigger'', 0xc0),
     (''SC_WeaponsArm'', 0xc1), (''SC_WeaponsSelect'', 0xc2), (''SC_WingFlaps'', 0xc3), (''SC_Accelerator'', 0xc4),
     (''SC_Brake'', 0xc5), (''SC_Clutch'', 0xc6), (''SC_Shifter'', 0xc7), (''SC_Steering'', 0xc8), (''SC_TurretDirection'', 0xc9),
     (''SC_BarrelElevation'', 0xca), (''SC_DivePlane'', 0xcb), (''SC_Ballast'', 0xcc), (''SC_BicycleCrank'', 0xcd),
     (''SC_HandleBars'', 0xce), (''SC_FrontBrake'', 0xcf), (''SC_RearBrake'', 0xd0)]"

definition numbers_VRControls :: usage_numbers_table where
  "numbers_VRControls = [
     (''VRC_Belt'', 0x01), (''VRC_BodySuit'', 0x02), (''VRC_Flexor'', 0x03), (''VRC_Glove'', 0x04), (''VRC_HeadTracker'', 0x05),
     (''VRC_HeadMountedDisplay'', 0x06), (''VRC_HandTracker'', 0x07), (''VRC_Oculometer'', 0x08), (''VRC_Vest'', 0x09),
     (''VRC_AnimatronicDevice'', 0x0a), (''VRC_StereoEnable'', 0x20), (''VRC_DisplayEnable'', 0x21)]"

definition numbers_SportControls :: usage_numbers_table where
  "numbers_SportControls = [
     (''SC_BaseballBat'', 0x01), (''SC_GolfClub'', 0x02), (''SC_RowingMachine'', 0x03), (''SC_Treadmill'', 0x04),
     (''SC_Oar'', 0x30), (''SC_Slope'', 0x31), (''SC_Rate'', 0x32), (''SC_StickSpeed'', 0x33), (''SC_StickFaceAngle'', 0x34),
     (''SC_StickHeelToe'', 0x35), (''SC_StickFollowThrough'', 0x36), (''SC_StickTempo'', 0x37), (''SC_StickType'', 0x38),
     (''SC_StickHeight'', 0x39), (''SC_Putter'', 0x50), (''SC_OneIron'', 0x51), (''SC_TwoIron'', 0x52), (''SC_ThreeIron'', 0x53),
     (''SC_FourIron'', 0x54), (''SC_FiveIron'', 0x55), (''SC_SixIron'', 0x56), (''SC_SevenIron'', 0x57), (''SC_EightIron'', 0x58),
     (''SC_NineIron'', 0x59), (''SC_One0Iron'', 0x5a), (''SC_One1Iron'', 0x5b), (''SC_SandWedge'', 0x5c), (''SC_LoftWedge'', 0x5d),
     (''SC_PowerWedge'', 0x5e), (''SC_OneWood'', 0x5f), (''SC_ThreeWood'', 0x60), (''SC_FiveWood'', 0x61),
     (''SC_SevenWood'', 0x62), (''SC_NineWood'', 0x63)]"

definition numbers_GameControls :: usage_numbers_table where
  "numbers_GameControls = [
     (''GC_ThreeDGameController'', 0x01), (''GC_PinballDevice'', 0x02), (''GC_GunDevice'', 0x03), (''GC_PointofView'', 0x20),
     (''GC_TurnRightLeft'', 0x21), (''GC_PitchForwardBackward'', 0x22), (''GC_RollRightLeft'', 0x23), (''GC_MoveRightLeft'', 0x24),
     (''GC_MoveForwardBackward'', 0x25), (''GC_MoveUpDown'', 0x26), (''GC_LeanRightLeft'', 0x27),
     (''GC_LeanForwardBackward'', 0x28), (''GC_HeightofPOV'', 0x29), (''GC_Flipper'', 0x2a), (''GC_SecondaryFlipper'', 0x2b),
     (''GC_Bump'', 0x2c), (''GC_NewGame'', 0x2d), (''GC_ShootBall'', 0x2e), (''GC_Player'', 0x2f), (''GC_GunBolt'', 0x30),
     (''GC_GunClip'', 0x31), (''GC_GunSelector'', 0x32), (''GC_GunSingleShot'', 0x33), (''GC_GunBurst'', 0x34),
     (''GC_GunAutomatic'', 0x35), (''GC_GunSafety'', 0x36), (''GC_GamepadFireJump'', 0x37), (''GC_GamepadTrigger'', 0x39),
     (''GC_FormfittingGamepad'', 0x3a)]"

definition numbers_GenericDeviceControls :: usage_numbers_table where
  "numbers_GenericDeviceControls = [
     (''GDC_BackgroundNonuserControls'', 0x01), (''GDC_BatteryStrength'', 0x20), (''GDC_WirelessChannel'', 0x21),
     (''GDC_WirelessID'', 0x22), (''GDC_DiscoverWirelessControl'', 0x23), (''GDC_SecurityCodeCharacterEntered'', 0x24),
     (''GDC_SecurityCodeCharacterErased'', 0x25), (''GDC_SecurityCodeCleared'', 0x26), (''GDC_SequenceID'', 0x27),
     (''GDC_SequenceIDReset'', 0x28), (''GDC_RFSignalStrength'', 0x29), (''GDC_SoftwareVersion'', 0x2a),
     (''GDC_ProtocolVersion'', 0x2b), (''GDC_HardwareVersion'', 0x2c), (''GDC_Major'', 0x2d), (''GDC_Minor'', 0x2e),
     (''GDC_Revision'', 0x2f), (''GDC_Handedness'', 0x30), (''GDC_EitherHand'', 0x31), (''GDC_LeftHand'', 0x32),
     (''GDC_RightHand'', 0x33), (''GDC_BothHands'', 0x34), (''GDC_GripPoseOffset'', 0x40), (''GDC_PointerPoseOffset'', 0x41)]"

definition numbers_KeyboardKeypad_1 :: usage_numbers_table where
  "numbers_KeyboardKeypad_1 = [
     (''KK_ErrorRollOver'', 0x01), (''KK_POSTFail'', 0x02), (''KK_ErrorUndefined'', 0x03), (''KK_KeyboardA'', 0x04),
     (''KK_KeyboardB'', 0x05), (''KK_KeyboardC'', 0x06), (''KK_KeyboardD'', 0x07), (''KK_KeyboardE'', 0x08),
     (''KK_KeyboardF'', 0x09), (''KK_KeyboardG'', 0x0a), (''KK_KeyboardH'', 0x0b), (''KK_KeyboardI'', 0x0c),
     (''KK_KeyboardJ'', 0x0d), (''KK_KeyboardK'', 0x0e), (''KK_KeyboardL'', 0x0f), (''KK_KeyboardM'', 0x10),
     (''KK_KeyboardN'', 0x11), (''KK_KeyboardO'', 0x12), (''KK_KeyboardP'', 0x13), (''KK_KeyboardQ'', 0x14),
     (''KK_KeyboardR'', 0x15), (''KK_KeyboardS'', 0x16), (''KK_KeyboardT'', 0x17), (''KK_KeyboardU'', 0x18),
     (''KK_KeyboardV'', 0x19), (''KK_KeyboardW'', 0x1a), (''KK_KeyboardX'', 0x1b), (''KK_KeyboardY'', 0x1c),
     (''KK_KeyboardZ'', 0x1d), (''KK_Keyboard1andBang'', 0x1e), (''KK_Keyboard2andAt'', 0x1f), (''KK_Keyboard3andHash'', 0x20),
     (''KK_Keyboard4andDollar'', 0x21), (''KK_Keyboard5andPercent'', 0x22), (''KK_Keyboard6andCaret'', 0x23),
     (''KK_Keyboard7andAmpersand'', 0x24), (''KK_Keyboard8andStar'', 0x25), (''KK_Keyboard9andLeftBracket'', 0x26),
     (''KK_Keyboard0andRightBracket'', 0x27), (''KK_KeyboardReturnEnter'', 0x28), (''KK_KeyboardEscape'', 0x29),
     (''KK_KeyboardDelete'', 0x2a), (''KK_KeyboardTab'', 0x2b), (''KK_KeyboardSpacebar'', 0x2c),
     (''KK_KeyboardDashandUnderscore'', 0x2d), (''KK_KeyboardEqualsandPlus'', 0x2e), (''KK_KeyboardLeftBrace'', 0x2f),
     (''KK_KeyboardRightBrace'', 0x30), (''KK_KeyboardBackslashandPipe'', 0x31), (''KK_KeyboardNonUSHashandTilde'', 0x32),
     (''KK_KeyboardSemiColonandColon'', 0x33), (''KK_KeyboardLeftAposandDouble'', 0x34),
     (''KK_KeyboardGraveAccentandTilde'', 0x35), (''KK_KeyboardCommaandLessThan'', 0x36),
     (''KK_KeyboardPeriodandGreaterThan'', 0x37), (''KK_KeyboardForwardSlashandQuestionMark'', 0x38),
     (''KK_KeyboardCapsLock'', 0x39), (''KK_KeyboardF1'', 0x3a), (''KK_KeyboardF2'', 0x3b), (''KK_KeyboardF3'', 0x3c),
     (''KK_KeyboardF4'', 0x3d), (''KK_KeyboardF5'', 0x3e), (''KK_KeyboardF6'', 0x3f), (''KK_KeyboardF7'', 0x40),
     (''KK_KeyboardF8'', 0x41), (''KK_KeyboardF9'', 0x42), (''KK_KeyboardF10'', 0x43), (''KK_KeyboardF11'', 0x44),
     (''KK_KeyboardF12'', 0x45), (''KK_KeyboardPrintScreen'', 0x46), (''KK_KeyboardScrollLock'', 0x47),
     (''KK_KeyboardPause'', 0x48), (''KK_KeyboardInsert'', 0x49), (''KK_KeyboardHome'', 0x4a), (''KK_KeyboardPageUp'', 0x4b),
     (''KK_KeyboardDeleteForward'', 0x4c), (''KK_KeyboardEnd'', 0x4d), (''KK_KeyboardPageDown'', 0x4e),
     (''KK_KeyboardRightArrow'', 0x4f), (''KK_KeyboardLeftArrow'', 0x50), (''KK_KeyboardDownArrow'', 0x51),
     (''KK_KeyboardUpArrow'', 0x52), (''KK_KeypadNumLockandClear'', 0x53), (''KK_KeypadForwardSlash'', 0x54),
     (''KK_KeypadStar'', 0x55), (''KK_KeypadDash'', 0x56), (''KK_KeypadPlus'', 0x57), (''KK_KeypadENTER'', 0x58),
     (''KK_Keypad1andEnd'', 0x59), (''KK_Keypad2andDownArrow'', 0x5a), (''KK_Keypad3andPageDn'', 0x5b),
     (''KK_Keypad4andLeftArrow'', 0x5c), (''KK_Keypad5'', 0x5d), (''KK_Keypad6andRightArrow'', 0x5e),
     (''KK_Keypad7andHome'', 0x5f), (''KK_Keypad8andUpArrow'', 0x60), (''KK_Keypad9andPageUp'', 0x61),
     (''KK_Keypad0andInsert'', 0x62), (''KK_KeypadPeriodandDelete'', 0x63), (''KK_KeyboardNonUSBackslashandPipe'', 0x64),
     (''KK_KeyboardApplication'', 0x65), (''KK_KeyboardPower'', 0x66), (''KK_KeypadEquals'', 0x67), (''KK_KeyboardF13'', 0x68),
     (''KK_KeyboardF14'', 0x69), (''KK_KeyboardF15'', 0x6a), (''KK_KeyboardF16'', 0x6b), (''KK_KeyboardF17'', 0x6c),
     (''KK_KeyboardF18'', 0x6d), (''KK_KeyboardF19'', 0x6e), (''KK_KeyboardF20'', 0x6f), (''KK_KeyboardF21'', 0x70),
     (''KK_KeyboardF22'', 0x71), (''KK_KeyboardF23'', 0x72), (''KK_KeyboardF24'', 0x73), (''KK_KeyboardExecute'', 0x74),
     (''KK_KeyboardHelp'', 0x75), (''KK_KeyboardMenu'', 0x76), (''KK_KeyboardSelect'', 0x77), (''KK_KeyboardStop'', 0x78),
     (''KK_KeyboardAgain'', 0x79), (''KK_KeyboardUndo'', 0x7a), (''KK_KeyboardCut'', 0x7b), (''KK_KeyboardCopy'', 0x7c),
     (''KK_KeyboardPaste'', 0x7d), (''KK_KeyboardFind'', 0x7e), (''KK_KeyboardMute'', 0x7f), (''KK_KeyboardVolumeUp'', 0x80),
     (''KK_KeyboardVolumeDown'', 0x81), (''KK_KeyboardLockingCapsLock'', 0x82), (''KK_KeyboardLockingNumLock'', 0x83),
     (''KK_KeyboardLockingScrollLock'', 0x84), (''KK_KeypadComma'', 0x85), (''KK_KeypadEqualSign'', 0x86),
     (''KK_KeyboardInternational1'', 0x87), (''KK_KeyboardInternational2'', 0x88), (''KK_KeyboardInternational3'', 0x89),
     (''KK_KeyboardInternational4'', 0x8a), (''KK_KeyboardInternational5'', 0x8b), (''KK_KeyboardInternational6'', 0x8c),
     (''KK_KeyboardInternational7'', 0x8d), (''KK_KeyboardInternational8'', 0x8e), (''KK_KeyboardInternational9'', 0x8f),
     (''KK_KeyboardLANG1'', 0x90), (''KK_KeyboardLANG2'', 0x91), (''KK_KeyboardLANG3'', 0x92), (''KK_KeyboardLANG4'', 0x93),
     (''KK_KeyboardLANG5'', 0x94), (''KK_KeyboardLANG6'', 0x95), (''KK_KeyboardLANG7'', 0x96)]"

definition numbers_KeyboardKeypad_2 :: usage_numbers_table where
  "numbers_KeyboardKeypad_2 = [
     (''KK_KeyboardLANG8'', 0x97), (''KK_KeyboardLANG9'', 0x98), (''KK_KeyboardAlternateErase'', 0x99),
     (''KK_KeyboardSysReqAttention'', 0x9a), (''KK_KeyboardCancel'', 0x9b), (''KK_KeyboardClear'', 0x9c),
     (''KK_KeyboardPrior'', 0x9d), (''KK_KeyboardReturn'', 0x9e), (''KK_KeyboardSeparator'', 0x9f), (''KK_KeyboardOut'', 0xa0),
     (''KK_KeyboardOper'', 0xa1), (''KK_KeyboardClearAgain'', 0xa2), (''KK_KeyboardCrSelProps'', 0xa3),
     (''KK_KeyboardExSel'', 0xa4), (''KK_KeypadDouble0'', 0xb0), (''KK_KeypadTriple0'', 0xb1), (''KK_ThousandsSeparator'', 0xb2),
     (''KK_DecimalSeparator'', 0xb3), (''KK_CurrencyUnit'', 0xb4), (''KK_CurrencySubunit'', 0xb5),
     (''KK_KeypadLeftBracket'', 0xb6), (''KK_KeypadRightBracket'', 0xb7), (''KK_KeypadLeftBrace'', 0xb8),
     (''KK_KeypadRightBrace'', 0xb9), (''KK_KeypadTab'', 0xba), (''KK_KeypadBackspace'', 0xbb), (''KK_KeypadA'', 0xbc),
     (''KK_KeypadB'', 0xbd), (''KK_KeypadC'', 0xbe), (''KK_KeypadD'', 0xbf), (''KK_KeypadE'', 0xc0), (''KK_KeypadF'', 0xc1),
     (''KK_KeypadXOR'', 0xc2), (''KK_KeypadCaret'', 0xc3), (''KK_KeypadPercentage'', 0xc4), (''KK_KeypadLess'', 0xc5),
     (''KK_KeypadGreater'', 0xc6), (''KK_KeypadAmpersand'', 0xc7), (''KK_KeypadDoubleAmpersand'', 0xc8), (''KK_KeypadBar'', 0xc9),
     (''KK_KeypadDoubleBar'', 0xca), (''KK_KeypadColon'', 0xcb), (''KK_KeypadHash'', 0xcc), (''KK_KeypadSpace'', 0xcd),
     (''KK_KeypadAt'', 0xce), (''KK_KeypadBang'', 0xcf), (''KK_KeypadMemoryStore'', 0xd0), (''KK_KeypadMemoryRecall'', 0xd1),
     (''KK_KeypadMemoryClear'', 0xd2), (''KK_KeypadMemoryAdd'', 0xd3), (''KK_KeypadMemorySubtract'', 0xd4),
     (''KK_KeypadMemoryMultiply'', 0xd5), (''KK_KeypadMemoryDivide'', 0xd6), (''KK_KeypadPlusMinus'', 0xd7),
     (''KK_KeypadClear'', 0xd8), (''KK_KeypadClearEntry'', 0xd9), (''KK_KeypadBinary'', 0xda), (''KK_KeypadOctal'', 0xdb),
     (''KK_KeypadDecimal'', 0xdc), (''KK_KeypadHexadecimal'', 0xdd), (''KK_KeyboardLeftControl'', 0xe0),
     (''KK_KeyboardLeftShift'', 0xe1), (''KK_KeyboardLeftAlt'', 0xe2), (''KK_KeyboardLeftGUI'', 0xe3),
     (''KK_KeyboardRightControl'', 0xe4), (''KK_KeyboardRightShift'', 0xe5), (''KK_KeyboardRightAlt'', 0xe6),
     (''KK_KeyboardRightGUI'', 0xe7)]"

definition numbers_KeyboardKeypad :: usage_numbers_table where
  "numbers_KeyboardKeypad = numbers_KeyboardKeypad_1 @ numbers_KeyboardKeypad_2"

definition numbers_LED :: usage_numbers_table where
  "numbers_LED = [
     (''LED_NumLock'', 0x01), (''LED_CapsLock'', 0x02), (''LED_ScrollLock'', 0x03), (''LED_Compose'', 0x04), (''LED_Kana'', 0x05),
     (''LED_Power'', 0x06), (''LED_Shift'', 0x07), (''LED_DoNotDisturb'', 0x08), (''LED_Mute'', 0x09), (''LED_ToneEnable'', 0x0a),
     (''LED_HighCutFilter'', 0x0b), (''LED_LowCutFilter'', 0x0c), (''LED_EqualizerEnable'', 0x0d), (''LED_SoundFieldOn'', 0x0e),
     (''LED_SurroundOn'', 0x0f), (''LED_Repeat'', 0x10), (''LED_Stereo'', 0x11), (''LED_SamplingRateDetect'', 0x12),
     (''LED_Spinning'', 0x13), (''LED_CAV'', 0x14), (''LED_CLV'', 0x15), (''LED_RecordingFormatDetect'', 0x16),
     (''LED_OffHook'', 0x17), (''LED_Ring'', 0x18), (''LED_MessageWaiting'', 0x19), (''LED_DataMode'', 0x1a),
     (''LED_BatteryOperation'', 0x1b), (''LED_BatteryOK'', 0x1c), (''LED_BatteryLow'', 0x1d), (''LED_Speaker'', 0x1e),
     (''LED_Headset'', 0x1f), (''LED_Hold'', 0x20), (''LED_Microphone'', 0x21), (''LED_Coverage'', 0x22),
     (''LED_NightMode'', 0x23), (''LED_SendCalls'', 0x24), (''LED_CallPickup'', 0x25), (''LED_Conference'', 0x26),
     (''LED_Standby'', 0x27), (''LED_CameraOn'', 0x28), (''LED_CameraOff'', 0x29), (''LED_OnLine'', 0x2a), (''LED_OffLine'', 0x2b),
     (''LED_Busy'', 0x2c), (''LED_Ready'', 0x2d), (''LED_PaperOut'', 0x2e), (''LED_PaperJam'', 0x2f), (''LED_Remote'', 0x30),
     (''LED_Forward'', 0x31), (''LED_Reverse'', 0x32), (''LED_Stop'', 0x33), (''LED_Rewind'', 0x34), (''LED_FastForward'', 0x35),
     (''LED_Play'', 0x36), (''LED_Pause'', 0x37), (''LED_Record'', 0x38), (''LED_Error'', 0x39),
     (''LED_UsageSelectedIndicator'', 0x3a), (''LED_UsageInUseIndicator'', 0x3b), (''LED_UsageMultiModeIndicator'', 0x3c),
     (''LED_IndicatorOn'', 0x3d), (''LED_IndicatorFlash'', 0x3e), (''LED_IndicatorSlowBlink'', 0x3f),
     (''LED_IndicatorFastBlink'', 0x40), (''LED_IndicatorOff'', 0x41), (''LED_FlashOnTime'', 0x42),
     (''LED_SlowBlinkOnTime'', 0x43), (''LED_SlowBlinkOffTime'', 0x44), (''LED_FastBlinkOnTime'', 0x45),
     (''LED_FastBlinkOffTime'', 0x46), (''LED_UsageIndicatorColor'', 0x47), (''LED_IndicatorRed'', 0x48),
     (''LED_IndicatorGreen'', 0x49), (''LED_IndicatorAmber'', 0x4a), (''LED_GenericIndicator'', 0x4b),
     (''LED_SystemSuspend'', 0x4c), (''LED_ExternalPowerConnected'', 0x4d), (''LED_IndicatorBlue'', 0x4e),
     (''LED_IndicatorOrange'', 0x4f), (''LED_GoodStatus'', 0x50), (''LED_WarningStatus'', 0x51), (''LED_RGBLED'', 0x52),
     (''LED_RedLEDChannel'', 0x53), (''LED_BlueLEDChannel'', 0x54), (''LED_GreenLEDChannel'', 0x55), (''LED_LEDIntensity'', 0x56),
     (''LED_SystemMicrophoneMute'', 0x57), (''LED_PlayerIndicator'', 0x60), (''LED_Player1'', 0x61), (''LED_Player2'', 0x62),
     (''LED_Player3'', 0x63), (''LED_Player4'', 0x64), (''LED_Player5'', 0x65), (''LED_Player6'', 0x66), (''LED_Player7'', 0x67),
     (''LED_Player8'', 0x68)]"

definition numbers_TelephonyDevice :: usage_numbers_table where
  "numbers_TelephonyDevice = [
     (''TD_Phone'', 0x01), (''TD_AnsweringMachine'', 0x02), (''TD_MessageControls'', 0x03), (''TD_Handset'', 0x04),
     (''TD_Headset'', 0x05), (''TD_TelephonyKeyPad'', 0x06), (''TD_ProgrammableButton'', 0x07), (''TD_HookSwitch'', 0x20),
     (''TD_Flash'', 0x21), (''TD_Feature'', 0x22), (''TD_Hold'', 0x23), (''TD_Redial'', 0x24), (''TD_Transfer'', 0x25),
     (''TD_Drop'', 0x26), (''TD_Park'', 0x27), (''TD_ForwardCalls'', 0x28), (''TD_AlternateFunction'', 0x29), (''TD_Line'', 0x2a),
     (''TD_SpeakerPhone'', 0x2b), (''TD_Conference'', 0x2c), (''TD_RingEnable'', 0x2d), (''TD_RingSelect'', 0x2e),
     (''TD_PhoneMute'', 0x2f), (''TD_CallerID'', 0x30), (''TD_Send'', 0x31), (''TD_SpeedDial'', 0x50), (''TD_StoreNumber'', 0x51),
     (''TD_RecallNumber'', 0x52), (''TD_PhoneDirectory'', 0x53), (''TD_VoiceMail'', 0x70), (''TD_ScreenCalls'', 0x71),
     (''TD_DoNotDisturb'', 0x72), (''TD_Message'', 0x73), (''TD_AnswerOnOff'', 0x74), (''TD_InsideDialTone'', 0x90),
     (''TD_OutsideDialTone'', 0x91), (''TD_InsideRingTone'', 0x92), (''TD_OutsideRingTone'', 0x93),
     (''TD_PriorityRingTone'', 0x94), (''TD_InsideRingback'', 0x95), (''TD_PriorityRingback'', 0x96), (''TD_LineBusyTone'', 0x97),
     (''TD_ReorderTone'', 0x98), (''TD_CallWaitingTone'', 0x99), (''TD_ConfirmationTone1'', 0x9a),
     (''TD_ConfirmationTone2'', 0x9b), (''TD_TonesOff'', 0x9c), (''TD_OutsideRingback'', 0x9d), (''TD_Ringer'', 0x9e),
     (''TD_PhoneKey0'', 0xb0), (''TD_PhoneKey1'', 0xb1), (''TD_PhoneKey2'', 0xb2), (''TD_PhoneKey3'', 0xb3),
     (''TD_PhoneKey4'', 0xb4), (''TD_PhoneKey5'', 0xb5), (''TD_PhoneKey6'', 0xb6), (''TD_PhoneKey7'', 0xb7),
     (''TD_PhoneKey8'', 0xb8), (''TD_PhoneKey9'', 0xb9), (''TD_PhoneKeyStar'', 0xba), (''TD_PhoneKeyPound'', 0xbb),
     (''TD_PhoneKeyA'', 0xbc), (''TD_PhoneKeyB'', 0xbd), (''TD_PhoneKeyC'', 0xbe), (''TD_PhoneKeyD'', 0xbf),
     (''TD_PhoneCallHistoryKey'', 0xc0), (''TD_PhoneCallerIDKey'', 0xc1), (''TD_PhoneSettingsKey'', 0xc2),
     (''TD_HostControl'', 0xf0), (''TD_HostAvailable'', 0xf1), (''TD_HostCallActive'', 0xf2), (''TD_ActivateHandsetAudio'', 0xf3),
     (''TD_RingType'', 0xf4), (''TD_RedialablePhoneNumber'', 0xf5), (''TD_StopRingTone'', 0xf8), (''TD_PSTNRingTone'', 0xf9),
     (''TD_HostRingTone'', 0xfa), (''TD_AlertSoundError'', 0xfb), (''TD_AlertSoundConfirm'', 0xfc),
     (''TD_AlertSoundNotification'', 0xfd), (''TD_SilentRing'', 0xfe), (''TD_EmailMessageWaiting'', 0x108),
     (''TD_VoicemailMessageWaiting'', 0x109), (''TD_HostHold'', 0x10a), (''TD_IncomingCallHistoryCount'', 0x110),
     (''TD_OutgoingCallHistoryCount'', 0x111), (''TD_IncomingCallHistory'', 0x112), (''TD_OutgoingCallHistory'', 0x113),
     (''TD_PhoneLocale'', 0x114), (''TD_PhoneTimeSecond'', 0x140), (''TD_PhoneTimeMinute'', 0x141), (''TD_PhoneTimeHour'', 0x142),
     (''TD_PhoneDateDay'', 0x143), (''TD_PhoneDateMonth'', 0x144), (''TD_PhoneDateYear'', 0x145), (''TD_HandsetNickname'', 0x146),
     (''TD_AddressBookID'', 0x147), (''TD_CallDuration'', 0x14a), (''TD_DualModePhone'', 0x14b)]"

definition numbers_Consumer_1 :: usage_numbers_table where
  "numbers_Consumer_1 = [
     (''Con_ConsumerControl'', 0x01), (''Con_NumericKeyPad'', 0x02), (''Con_ProgrammableButtons'', 0x03),
     (''Con_Microphone'', 0x04), (''Con_Headphone'', 0x05), (''Con_GraphicEqualizer'', 0x06), (''Con_Plus10'', 0x20),
     (''Con_Plus100'', 0x21), (''Con_AMPM'', 0x22), (''Con_Power'', 0x30), (''Con_Reset'', 0x31), (''Con_Sleep'', 0x32),
     (''Con_SleepAfter'', 0x33), (''Con_SleepMode'', 0x34), (''Con_Illumination'', 0x35), (''Con_FunctionButtons'', 0x36),
     (''Con_Menu'', 0x40), (''Con_MenuPick'', 0x41), (''Con_MenuUp'', 0x42), (''Con_MenuDown'', 0x43), (''Con_MenuLeft'', 0x44),
     (''Con_MenuRight'', 0x45), (''Con_MenuEscape'', 0x46), (''Con_MenuValueIncrease'', 0x47), (''Con_MenuValueDecrease'', 0x48),
     (''Con_DataOnScreen'', 0x60), (''Con_ClosedCaption'', 0x61), (''Con_ClosedCaptionSelect'', 0x62), (''Con_VCRTV'', 0x63),
     (''Con_BroadcastMode'', 0x64), (''Con_Snapshot'', 0x65), (''Con_Still'', 0x66), (''Con_PictureinPictureToggle'', 0x67),
     (''Con_PictureinPictureSwap'', 0x68), (''Con_RedMenuButton'', 0x69), (''Con_GreenMenuButton'', 0x6a),
     (''Con_BlueMenuButton'', 0x6b), (''Con_YellowMenuButton'', 0x6c), (''Con_Aspect'', 0x6d), (''Con_ThreeDModeSelect'', 0x6e),
     (''Con_DisplayBrightnessIncrement'', 0x6f), (''Con_DisplayBrightnessDecrement'', 0x70), (''Con_DisplayBrightness'', 0x71),
     (''Con_DisplayBacklightToggle'', 0x72), (''Con_DisplaySetBrightnesstoMinimum'', 0x73),
     (''Con_DisplaySetBrightnesstoMaximum'', 0x74), (''Con_DisplaySetAutoBrightness'', 0x75), (''Con_CameraAccessEnabled'', 0x76),
     (''Con_CameraAccessDisabled'', 0x77), (''Con_CameraAccessToggle'', 0x78), (''Con_KeyboardBrightnessIncrement'', 0x79),
     (''Con_KeyboardBrightnessDecrement'', 0x7a), (''Con_KeyboardBacklightSetLevel'', 0x7b), (''Con_KeyboardBacklightOOC'', 0x7c),
     (''Con_KeyboardBacklightSetMinimum'', 0x7d), (''Con_KeyboardBacklightSetMaximum'', 0x7e),
     (''Con_KeyboardBacklightAuto'', 0x7f), (''Con_Selection'', 0x80), (''Con_AssignSelection'', 0x81), (''Con_ModeStep'', 0x82),
     (''Con_RecallLast'', 0x83), (''Con_EnterChannel'', 0x84), (''Con_OrderMovie'', 0x85), (''Con_Channel'', 0x86),
     (''Con_MediaSelection'', 0x87), (''Con_MediaSelectComputer'', 0x88), (''Con_MediaSelectTV'', 0x89),
     (''Con_MediaSelectWWW'', 0x8a), (''Con_MediaSelectDVD'', 0x8b), (''Con_MediaSelectTelephone'', 0x8c),
     (''Con_MediaSelectProgramGuide'', 0x8d), (''Con_MediaSelectVideoPhone'', 0x8e), (''Con_MediaSelectGames'', 0x8f),
     (''Con_MediaSelectMessages'', 0x90), (''Con_MediaSelectCD'', 0x91), (''Con_MediaSelectVCR'', 0x92),
     (''Con_MediaSelectTuner'', 0x93), (''Con_Quit'', 0x94), (''Con_Help'', 0x95), (''Con_MediaSelectTape'', 0x96),
     (''Con_MediaSelectCable'', 0x97), (''Con_MediaSelectSatellite'', 0x98), (''Con_MediaSelectSecurity'', 0x99),
     (''Con_MediaSelectHome'', 0x9a), (''Con_MediaSelectCall'', 0x9b), (''Con_ChannelIncrement'', 0x9c),
     (''Con_ChannelDecrement'', 0x9d), (''Con_MediaSelectSAP'', 0x9e), (''Con_VCRPlus'', 0xa0), (''Con_Once'', 0xa1),
     (''Con_Daily'', 0xa2), (''Con_Weekly'', 0xa3), (''Con_Monthly'', 0xa4), (''Con_Play'', 0xb0), (''Con_Pause'', 0xb1),
     (''Con_Record'', 0xb2), (''Con_FastForward'', 0xb3), (''Con_Rewind'', 0xb4), (''Con_ScanNextTrack'', 0xb5),
     (''Con_ScanPreviousTrack'', 0xb6), (''Con_Stop'', 0xb7), (''Con_Eject'', 0xb8), (''Con_RandomPlay'', 0xb9),
     (''Con_SelectDisc'', 0xba), (''Con_EnterDisc'', 0xbb), (''Con_Repeat'', 0xbc), (''Con_Tracking'', 0xbd),
     (''Con_TrackNormal'', 0xbe), (''Con_SlowTracking'', 0xbf), (''Con_FrameForward'', 0xc0), (''Con_FrameBack'', 0xc1),
     (''Con_Mark'', 0xc2), (''Con_ClearMark'', 0xc3), (''Con_RepeatFromMark'', 0xc4), (''Con_ReturnToMark'', 0xc5),
     (''Con_SearchMarkForward'', 0xc6), (''Con_SearchMarkBackwards'', 0xc7), (''Con_CounterReset'', 0xc8),
     (''Con_ShowCounter'', 0xc9), (''Con_TrackingIncrement'', 0xca), (''Con_TrackingDecrement'', 0xcb), (''Con_StopEject'', 0xcc),
     (''Con_PlayPause'', 0xcd), (''Con_PlaySkip'', 0xce), (''Con_VoiceCommand'', 0xcf), (''Con_InvokeCaptureInterface'', 0xd0),
     (''Con_StartorStopGameRecording'', 0xd1), (''Con_HistoricalGameCapture'', 0xd2), (''Con_CaptureGameScreenshot'', 0xd3),
     (''Con_ShoworHideRecordingIndicator'', 0xd4), (''Con_StartorStopMicrophoneCapture'', 0xd5),
     (''Con_StartorStopCameraCapture'', 0xd6), (''Con_StartorStopGameBroadcast'', 0xd7),
     (''Con_StartorStopVoiceDictationSession'', 0xd8), (''Con_InvokeDismissEmojiPicker'', 0xd9), (''Con_Volume'', 0xe0),
     (''Con_Balance'', 0xe1), (''Con_Mute'', 0xe2), (''Con_Bass'', 0xe3), (''Con_Treble'', 0xe4), (''Con_BassBoost'', 0xe5),
     (''Con_SurroundMode'', 0xe6), (''Con_Loudness'', 0xe7), (''Con_MPX'', 0xe8), (''Con_VolumeIncrement'', 0xe9),
     (''Con_VolumeDecrement'', 0xea), (''Con_SpeedSelect'', 0xf0), (''Con_PlaybackSpeed'', 0xf1), (''Con_StandardPlay'', 0xf2),
     (''Con_LongPlay'', 0xf3)]"

definition numbers_Consumer_2 :: usage_numbers_table where
  "numbers_Consumer_2 = [
     (''Con_ExtendedPlay'', 0xf4), (''Con_Slow'', 0xf5), (''Con_FanEnable'', 0x100), (''Con_FanSpeed'', 0x101),
     (''Con_LightEnable'', 0x102), (''Con_LightIlluminationLevel'', 0x103), (''Con_ClimateControlEnable'', 0x104),
     (''Con_RoomTemperature'', 0x105), (''Con_SecurityEnable'', 0x106), (''Con_FireAlarm'', 0x107), (''Con_PoliceAlarm'', 0x108),
     (''Con_Proximity'', 0x109), (''Con_Motion'', 0x10a), (''Con_DuressAlarm'', 0x10b), (''Con_HoldupAlarm'', 0x10c),
     (''Con_MedicalAlarm'', 0x10d), (''Con_BalanceRight'', 0x150), (''Con_BalanceLeft'', 0x151), (''Con_BassIncrement'', 0x152),
     (''Con_BassDecrement'', 0x153), (''Con_TrebleIncrement'', 0x154), (''Con_TrebleDecrement'', 0x155),
     (''Con_SpeakerSystem'', 0x160), (''Con_ChannelLeft'', 0x161), (''Con_ChannelRight'', 0x162), (''Con_ChannelCenter'', 0x163),
     (''Con_ChannelFront'', 0x164), (''Con_ChannelCenterFront'', 0x165), (''Con_ChannelSide'', 0x166),
     (''Con_ChannelSurround'', 0x167), (''Con_ChannelLowFrequencyEnhancement'', 0x168), (''Con_ChannelTop'', 0x169),
     (''Con_ChannelUnknown'', 0x16a), (''Con_Subchannel'', 0x170), (''Con_SubchannelIncrement'', 0x171),
     (''Con_SubchannelDecrement'', 0x172), (''Con_AlternateAudioIncrement'', 0x173), (''Con_AlternateAudioDecrement'', 0x174),
     (''Con_ApplicationLaunchButtons'', 0x180), (''Con_ALLaunchButtonConfigurationTool'', 0x181),
     (''Con_ALProgrammableButtonConfiguration'', 0x182), (''Con_ALConsumerControlConfiguration'', 0x183),
     (''Con_ALWordProcessor'', 0x184), (''Con_ALTextEditor'', 0x185), (''Con_ALSpreadsheet'', 0x186),
     (''Con_ALGraphicsEditor'', 0x187), (''Con_ALPresentationApp'', 0x188), (''Con_ALDatabaseApp'', 0x189),
     (''Con_ALEmailReader'', 0x18a), (''Con_ALNewsreader'', 0x18b), (''Con_ALVoicemail'', 0x18c),
     (''Con_ALContactsAddressBook'', 0x18d), (''Con_ALCalendarSchedule'', 0x18e), (''Con_ALTaskProjectManager'', 0x18f),
     (''Con_ALLogJournalTimecard'', 0x190), (''Con_ALCheckbookFinance'', 0x191), (''Con_ALCalculator'', 0x192),
     (''Con_ALAVCapturePlayback'', 0x193), (''Con_ALLocalMachineBrowser'', 0x194), (''Con_ALLANWANBrowser'', 0x195),
     (''Con_ALInternetBrowser'', 0x196), (''Con_ALRemoteNetworkingISPConnect'', 0x197), (''Con_ALNetworkConference'', 0x198),
     (''Con_ALNetworkChat'', 0x199), (''Con_ALTelephonyDialer'', 0x19a), (''Con_ALLogon'', 0x19b), (''Con_ALLogoff'', 0x19c),
     (''Con_ALLogonLogoff'', 0x19d), (''Con_ALTerminalLockScreensaver'', 0x19e), (''Con_ALControlPanel'', 0x19f),
     (''Con_ALCommandLineProcessorRun'', 0x1a0), (''Con_ALProcessTaskManager'', 0x1a1), (''Con_ALSelectTaskApplication'', 0x1a2),
     (''Con_ALNextTaskApplication'', 0x1a3), (''Con_ALPreviousTaskApplication'', 0x1a4),
     (''Con_ALPreemptiveHaltTaskApplication'', 0x1a5), (''Con_ALIntegratedHelpCenter'', 0x1a6), (''Con_ALDocuments'', 0x1a7),
     (''Con_ALThesaurus'', 0x1a8), (''Con_ALDictionary'', 0x1a9), (''Con_ALDesktop'', 0x1aa), (''Con_ALSpellCheck'', 0x1ab),
     (''Con_ALGrammarCheck'', 0x1ac), (''Con_ALWirelessStatus'', 0x1ad), (''Con_ALKeyboardLayout'', 0x1ae),
     (''Con_ALVirusProtection'', 0x1af), (''Con_ALEncryption'', 0x1b0), (''Con_ALScreenSaver'', 0x1b1), (''Con_ALAlarms'', 0x1b2),
     (''Con_ALClock'', 0x1b3), (''Con_ALFileBrowser'', 0x1b4), (''Con_ALPowerStatus'', 0x1b5), (''Con_ALImageBrowser'', 0x1b6),
     (''Con_ALAudioBrowser'', 0x1b7), (''Con_ALMovieBrowser'', 0x1b8), (''Con_ALDigitalRightsManager'', 0x1b9),
     (''Con_ALDigitalWallet'', 0x1ba), (''Con_ALInstantMessaging'', 0x1bc), (''Con_ALOEMFeaturesTipsTutorialBrowser'', 0x1bd),
     (''Con_ALOEMHelp'', 0x1be), (''Con_ALOnlineCommunity'', 0x1bf), (''Con_ALEntertainmentContentBrowser'', 0x1c0),
     (''Con_ALOnlineShoppingBrowser'', 0x1c1), (''Con_ALSmartCardInformationHelp'', 0x1c2),
     (''Con_ALMarketMonitorFinanceBrowser'', 0x1c3), (''Con_ALCustomizedCorporateNewsBrowser'', 0x1c4),
     (''Con_ALOnlineActivityBrowser'', 0x1c5), (''Con_ALResearchSearchBrowser'', 0x1c6), (''Con_ALAudioPlayer'', 0x1c7),
     (''Con_ALMessageStatus'', 0x1c8), (''Con_ALContactSync'', 0x1c9), (''Con_ALNavigation'', 0x1ca),
     (''Con_ALContextawareDesktopAssistant'', 0x1cb), (''Con_GenericGUIApplicationControls'', 0x200), (''Con_ACNew'', 0x201),
     (''Con_ACOpen'', 0x202), (''Con_ACClose'', 0x203), (''Con_ACExit'', 0x204), (''Con_ACMaximize'', 0x205),
     (''Con_ACMinimize'', 0x206), (''Con_ACSave'', 0x207), (''Con_ACPrint'', 0x208), (''Con_ACProperties'', 0x209),
     (''Con_ACUndo'', 0x21a), (''Con_ACCopy'', 0x21b), (''Con_ACCut'', 0x21c), (''Con_ACPaste'', 0x21d),
     (''Con_ACSelectAll'', 0x21e), (''Con_ACFind'', 0x21f), (''Con_ACFindandReplace'', 0x220), (''Con_ACSearch'', 0x221),
     (''Con_ACGoTo'', 0x222), (''Con_ACHome'', 0x223), (''Con_ACBack'', 0x224), (''Con_ACForward'', 0x225),
     (''Con_ACStop'', 0x226), (''Con_ACRefresh'', 0x227), (''Con_ACPreviousLink'', 0x228), (''Con_ACNextLink'', 0x229),
     (''Con_ACBookmarks'', 0x22a), (''Con_ACHistory'', 0x22b), (''Con_ACSubscriptions'', 0x22c), (''Con_ACZoomIn'', 0x22d),
     (''Con_ACZoomOut'', 0x22e), (''Con_ACZoom'', 0x22f), (''Con_ACFullScreenView'', 0x230), (''Con_ACNormalView'', 0x231),
     (''Con_ACViewToggle'', 0x232), (''Con_ACScrollUp'', 0x233), (''Con_ACScrollDown'', 0x234)]"

definition numbers_Consumer_3 :: usage_numbers_table where
  "numbers_Consumer_3 = [
     (''Con_ACScroll'', 0x235), (''Con_ACPanLeft'', 0x236), (''Con_ACPanRight'', 0x237), (''Con_ACPan'', 0x238),
     (''Con_ACNewWindow'', 0x239), (''Con_ACTileHorizontally'', 0x23a), (''Con_ACTileVertically'', 0x23b),
     (''Con_ACFormat'', 0x23c), (''Con_ACEdit'', 0x23d), (''Con_ACBold'', 0x23e), (''Con_ACItalics'', 0x23f),
     (''Con_ACUnderline'', 0x240), (''Con_ACStrikethrough'', 0x241), (''Con_ACSubscript'', 0x242), (''Con_ACSuperscript'', 0x243),
     (''Con_ACAllCaps'', 0x244), (''Con_ACRotate'', 0x245), (''Con_ACResize'', 0x246), (''Con_ACFlipHorizontal'', 0x247),
     (''Con_ACFlipVertical'', 0x248), (''Con_ACMirrorHorizontal'', 0x249), (''Con_ACMirrorVertical'', 0x24a),
     (''Con_ACFontSelect'', 0x24b), (''Con_ACFontColor'', 0x24c), (''Con_ACFontSize'', 0x24d), (''Con_ACJustifyLeft'', 0x24e),
     (''Con_ACJustifyCenterH'', 0x24f), (''Con_ACJustifyRight'', 0x250), (''Con_ACJustifyBlockH'', 0x251),
     (''Con_ACJustifyTop'', 0x252), (''Con_ACJustifyCenterV'', 0x253), (''Con_ACJustifyBottom'', 0x254),
     (''Con_ACJustifyBlockV'', 0x255), (''Con_ACIndentDecrease'', 0x256), (''Con_ACIndentIncrease'', 0x257),
     (''Con_ACNumberedList'', 0x258), (''Con_ACRestartNumbering'', 0x259), (''Con_ACBulletedList'', 0x25a),
     (''Con_ACPromote'', 0x25b), (''Con_ACDemote'', 0x25c), (''Con_ACYes'', 0x25d), (''Con_ACNo'', 0x25e),
     (''Con_ACCancel'', 0x25f), (''Con_ACCatalog'', 0x260), (''Con_ACBuyCheckout'', 0x261), (''Con_ACAddtoCart'', 0x262),
     (''Con_ACExpand'', 0x263), (''Con_ACExpandAll'', 0x264), (''Con_ACCollapse'', 0x265), (''Con_ACCollapseAll'', 0x266),
     (''Con_ACPrintPreview'', 0x267), (''Con_ACPasteSpecial'', 0x268), (''Con_ACInsertMode'', 0x269), (''Con_ACDelete'', 0x26a),
     (''Con_ACLock'', 0x26b), (''Con_ACUnlock'', 0x26c), (''Con_ACProtect'', 0x26d), (''Con_ACUnprotect'', 0x26e),
     (''Con_ACAttachComment'', 0x26f), (''Con_ACDeleteComment'', 0x270), (''Con_ACViewComment'', 0x271),
     (''Con_ACSelectWord'', 0x272), (''Con_ACSelectSentence'', 0x273), (''Con_ACSelectParagraph'', 0x274),
     (''Con_ACSelectColumn'', 0x275), (''Con_ACSelectRow'', 0x276), (''Con_ACSelectTable'', 0x277),
     (''Con_ACSelectObject'', 0x278), (''Con_ACRedoRepeat'', 0x279), (''Con_ACSort'', 0x27a), (''Con_ACSortAscending'', 0x27b),
     (''Con_ACSortDescending'', 0x27c), (''Con_ACFilter'', 0x27d), (''Con_ACSetClock'', 0x27e), (''Con_ACViewClock'', 0x27f),
     (''Con_ACSelectTimeZone'', 0x280), (''Con_ACEditTimeZones'', 0x281), (''Con_ACSetAlarm'', 0x282),
     (''Con_ACClearAlarm'', 0x283), (''Con_ACSnoozeAlarm'', 0x284), (''Con_ACResetAlarm'', 0x285), (''Con_ACSynchronize'', 0x286),
     (''Con_ACSendReceive'', 0x287), (''Con_ACSendTo'', 0x288), (''Con_ACReply'', 0x289), (''Con_ACReplyAll'', 0x28a),
     (''Con_ACForwardMsg'', 0x28b), (''Con_ACSend'', 0x28c), (''Con_ACAttachFile'', 0x28d), (''Con_ACUpload'', 0x28e),
     (''Con_ACDownloadSaveTargetAs'', 0x28f), (''Con_ACSetBorders'', 0x290), (''Con_ACInsertRow'', 0x291),
     (''Con_ACInsertColumn'', 0x292), (''Con_ACInsertFile'', 0x293), (''Con_ACInsertPicture'', 0x294),
     (''Con_ACInsertObject'', 0x295), (''Con_ACInsertSymbol'', 0x296), (''Con_ACSaveandClose'', 0x297), (''Con_ACRename'', 0x298),
     (''Con_ACMerge'', 0x299), (''Con_ACSplit'', 0x29a), (''Con_ACDisributeHorizontally'', 0x29b),
     (''Con_ACDistributeVertically'', 0x29c), (''Con_ACNextKeyboardLayoutSelect'', 0x29d), (''Con_ACNavigationGuidance'', 0x29e),
     (''Con_ACDesktopShowAllWindows'', 0x29f), (''Con_ACSoftKeyLeft'', 0x2a0), (''Con_ACSoftKeyRight'', 0x2a1),
     (''Con_ACDesktopShowAllApplications'', 0x2a2), (''Con_ACIdleKeepAlive'', 0x2b0),
     (''Con_ExtendedKeyboardAttributesCollection'', 0x2c0), (''Con_KeyboardFormFactor'', 0x2c1), (''Con_KeyboardKeyType'', 0x2c2),
     (''Con_KeyboardPhysicalLayout'', 0x2c3), (''Con_VendorSpecificKeyboardPhysicalLayout'', 0x2c4),
     (''Con_KeyboardIETFLanguageTagIndex'', 0x2c5), (''Con_ImplementedKeyboardInputAssistControls'', 0x2c6),
     (''Con_KeyboardInputAssistPrevious'', 0x2c7), (''Con_KeyboardInputAssistNext'', 0x2c8),
     (''Con_KeyboardInputAssistPreviousGroup'', 0x2c9), (''Con_KeyboardInputAssistNextGroup'', 0x2ca),
     (''Con_KeyboardInputAssistAccept'', 0x2cb), (''Con_KeyboardInputAssistCancel'', 0x2cc), (''Con_PrivacyScreenToggle'', 0x2d0),
     (''Con_PrivacyScreenLevelDecrement'', 0x2d1), (''Con_PrivacyScreenLevelIncrement'', 0x2d2),
     (''Con_PrivacyScreenLevelMinimum'', 0x2d3), (''Con_PrivacyScreenLevelMaximum'', 0x2d4), (''Con_ContactEdited'', 0x500),
     (''Con_ContactAdded'', 0x501), (''Con_ContactRecordActive'', 0x502), (''Con_ContactIndex'', 0x503),
     (''Con_ContactNickname'', 0x504), (''Con_ContactFirstName'', 0x505), (''Con_ContactLastName'', 0x506),
     (''Con_ContactFullName'', 0x507), (''Con_ContactPhoneNumberPersonal'', 0x508), (''Con_ContactPhoneNumberBusiness'', 0x509),
     (''Con_ContactPhoneNumberMobile'', 0x50a), (''Con_ContactPhoneNumberPager'', 0x50b), (''Con_ContactPhoneNumberFax'', 0x50c),
     (''Con_ContactPhoneNumberOther'', 0x50d), (''Con_ContactEmailPersonal'', 0x50e), (''Con_ContactEmailBusiness'', 0x50f),
     (''Con_ContactEmailOther'', 0x510), (''Con_ContactEmailMain'', 0x511), (''Con_ContactSpeedDialNumber'', 0x512),
     (''Con_ContactStatusFlag'', 0x513), (''Con_ContactMisc'', 0x514)]"

definition numbers_Consumer :: usage_numbers_table where
  "numbers_Consumer = numbers_Consumer_1 @ numbers_Consumer_2 @ numbers_Consumer_3"

definition numbers_Digitizers :: usage_numbers_table where
  "numbers_Digitizers = [
     (''Dig_Digitizer'', 0x01), (''Dig_Pen'', 0x02), (''Dig_LightPen'', 0x03), (''Dig_TouchScreen'', 0x04),
     (''Dig_TouchPad'', 0x05), (''Dig_Whiteboard'', 0x06), (''Dig_CoordinateMeasuringMachine'', 0x07),
     (''Dig_ThreeDDigitizer'', 0x08), (''Dig_StereoPlotter'', 0x09), (''Dig_ArticulatedArm'', 0x0a), (''Dig_Armature'', 0x0b),
     (''Dig_MultiplePointDigitizer'', 0x0c), (''Dig_FreeSpaceWand'', 0x0d), (''Dig_DeviceConfiguration'', 0x0e),
     (''Dig_CapacitiveHeatMapDigitizer'', 0x0f), (''Dig_Stylus'', 0x20), (''Dig_Puck'', 0x21), (''Dig_Finger'', 0x22),
     (''Dig_Devicesettings'', 0x23), (''Dig_CharacterGesture'', 0x24), (''Dig_TipPressure'', 0x30), (''Dig_BarrelPressure'', 0x31),
     (''Dig_InRange'', 0x32), (''Dig_Touch'', 0x33), (''Dig_Untouch'', 0x34), (''Dig_Tap'', 0x35), (''Dig_Quality'', 0x36),
     (''Dig_DataValid'', 0x37), (''Dig_TransducerIndex'', 0x38), (''Dig_TabletFunctionKeys'', 0x39),
     (''Dig_ProgramChangeKeys'', 0x3a), (''Dig_BatteryStrength'', 0x3b), (''Dig_Invert'', 0x3c), (''Dig_XTilt'', 0x3d),
     (''Dig_YTilt'', 0x3e), (''Dig_Azimuth'', 0x3f), (''Dig_Altitude'', 0x40), (''Dig_Twist'', 0x41), (''Dig_TipSwitch'', 0x42),
     (''Dig_SecondaryTipSwitch'', 0x43), (''Dig_BarrelSwitch'', 0x44), (''Dig_Eraser'', 0x45), (''Dig_TabletPick'', 0x46),
     (''Dig_TouchValid'', 0x47), (''Dig_Width'', 0x48), (''Dig_Height'', 0x49), (''Dig_ContactIdentifier'', 0x51),
     (''Dig_DeviceMode'', 0x52), (''Dig_DeviceIdentifier'', 0x53), (''Dig_ContactCount'', 0x54),
     (''Dig_ContactCountMaximum'', 0x55), (''Dig_ScanTime'', 0x56), (''Dig_SurfaceSwitch'', 0x57), (''Dig_ButtonSwitch'', 0x58),
     (''Dig_PadType'', 0x59), (''Dig_SecondaryBarrelSwitch'', 0x5a), (''Dig_TransducerSerialNumber'', 0x5b),
     (''Dig_PreferredColor'', 0x5c), (''Dig_PreferredColorisLocked'', 0x5d), (''Dig_PreferredLineWidth'', 0x5e),
     (''Dig_PreferredLineWidthisLocked'', 0x5f), (''Dig_LatencyMode'', 0x60), (''Dig_GestureCharacterQuality'', 0x61),
     (''Dig_CharacterGestureDataLength'', 0x62), (''Dig_CharacterGestureData'', 0x63), (''Dig_GestureCharacterEncoding'', 0x64),
     (''Dig_UTF8CharacterGestureEncoding'', 0x65), (''Dig_UTF16LittleEndianCharacterGestureEncoding'', 0x66),
     (''Dig_UTF16BigEndianCharacterGestureEncoding'', 0x67), (''Dig_UTF32LittleEndianCharacterGestureEncoding'', 0x68),
     (''Dig_UTF32BigEndianCharacterGestureEncoding'', 0x69), (''Dig_CapacitiveHeatMapProtocolVendorID'', 0x6a),
     (''Dig_CapacitiveHeatMapProtocolVersion'', 0x6b), (''Dig_CapacitiveHeatMapFrameData'', 0x6c),
     (''Dig_GestureCharacterEnable'', 0x6d), (''Dig_TransducerSerialNumberPart2'', 0x6e), (''Dig_NoPreferredColor'', 0x6f),
     (''Dig_PreferredLineStyle'', 0x70), (''Dig_PreferredLineStyleisLocked'', 0x71), (''Dig_Ink'', 0x72), (''Dig_Pencil'', 0x73),
     (''Dig_Highlighter'', 0x74), (''Dig_ChiselMarker'', 0x75), (''Dig_Brush'', 0x76), (''Dig_NoPreference'', 0x77),
     (''Dig_DigitizerDiagnostic'', 0x80), (''Dig_DigitizerError'', 0x81), (''Dig_ErrNormalStatus'', 0x82),
     (''Dig_ErrTransducersExceeded'', 0x83), (''Dig_ErrFullTransFeaturesUnavailable'', 0x84), (''Dig_ErrChargeLow'', 0x85),
     (''Dig_TransducerSoftwareInfo'', 0x90), (''Dig_TransducerVendorId'', 0x91), (''Dig_TransducerProductId'', 0x92),
     (''Dig_DeviceSupportedProtocols'', 0x93), (''Dig_TransducerSupportedProtocols'', 0x94), (''Dig_NoProtocol'', 0x95),
     (''Dig_WacomAESProtocol'', 0x96), (''Dig_USIProtocol'', 0x97), (''Dig_MicrosoftPenProtocol'', 0x98),
     (''Dig_SupportedReportRates'', 0xa0), (''Dig_ReportRate'', 0xa1), (''Dig_TransducerConnected'', 0xa2),
     (''Dig_SwitchDisabled'', 0xa3), (''Dig_SwitchUnimplemented'', 0xa4), (''Dig_TransducerSwitches'', 0xa5),
     (''Dig_TransducerIndexSelector'', 0xa6), (''Dig_ButtonPressThreshold'', 0xb0)]"

definition numbers_Haptics :: usage_numbers_table where
  "numbers_Haptics = [
     (''Hap_SimpleHapticController'', 0x01), (''Hap_WaveformList'', 0x10), (''Hap_DurationList'', 0x11),
     (''Hap_AutoTrigger'', 0x20), (''Hap_ManualTrigger'', 0x21), (''Hap_AutoTriggerAssociatedControl'', 0x22),
     (''Hap_Intensity'', 0x23), (''Hap_RepeatCount'', 0x24), (''Hap_RetriggerPeriod'', 0x25), (''Hap_WaveformVendorPage'', 0x26),
     (''Hap_WaveformVendorID'', 0x27), (''Hap_WaveformCutoffTime'', 0x28), (''Hap_WaveformNone'', 0x1001),
     (''Hap_WaveformStop'', 0x1002), (''Hap_WaveformClick'', 0x1003), (''Hap_WaveformBuzzContinuous'', 0x1004),
     (''Hap_WaveformRumbleContinuous'', 0x1005), (''Hap_WaveformPress'', 0x1006), (''Hap_WaveformRelease'', 0x1007),
     (''Hap_WaveformHover'', 0x1008), (''Hap_WaveformSuccess'', 0x1009), (''Hap_WaveformError'', 0x100a),
     (''Hap_WaveformInkContinuous'', 0x100b), (''Hap_WaveformPencilContinuous'', 0x100c),
     (''Hap_WaveformMarkerContinuous'', 0x100d), (''Hap_WaveformChiselMarkerContinuous'', 0x100e),
     (''Hap_WaveformBrushContinuous'', 0x100f), (''Hap_WaveformEraserContinuous'', 0x1010),
     (''Hap_WaveformSparkleContinuous'', 0x1011)]"

definition numbers_PhysicalInputDevice :: usage_numbers_table where
  "numbers_PhysicalInputDevice = [
     (''PID_PhysicalInputDevice'', 0x01), (''PID_Normal'', 0x20), (''PID_SetEffectReport'', 0x21),
     (''PID_EffectParameterBlockIndex'', 0x22), (''PID_ParameterBlockOffset'', 0x23), (''PID_ROMFlag'', 0x24),
     (''PID_EffectType'', 0x25), (''PID_ETConstantForce'', 0x26), (''PID_ETRamp'', 0x27), (''PID_ETCustomForce'', 0x28),
     (''PID_ETSquare'', 0x30), (''PID_ETSine'', 0x31), (''PID_ETTriangle'', 0x32), (''PID_ETSawtoothUp'', 0x33),
     (''PID_ETSawtoothDown'', 0x34), (''PID_ETSpring'', 0x40), (''PID_ETDamper'', 0x41), (''PID_ETInertia'', 0x42),
     (''PID_ETFriction'', 0x43), (''PID_Duration'', 0x50), (''PID_SamplePeriod'', 0x51), (''PID_Gain'', 0x52),
     (''PID_TriggerButton'', 0x53), (''PID_TriggerRepeatInterval'', 0x54), (''PID_AxesEnable'', 0x55),
     (''PID_DirectionEnable'', 0x56), (''PID_Direction'', 0x57), (''PID_TypeSpecificBlockOffset'', 0x58),
     (''PID_BlockType'', 0x59), (''PID_SetEnvelopeReport'', 0x5a), (''PID_AttackLevel'', 0x5b), (''PID_AttackTime'', 0x5c),
     (''PID_FadeLevel'', 0x5d), (''PID_FadeTime'', 0x5e), (''PID_SetConditionReport'', 0x5f), (''PID_CenterPointOffset'', 0x60),
     (''PID_PositiveCoefficient'', 0x61), (''PID_NegativeCoefficient'', 0x62), (''PID_PositiveSaturation'', 0x63),
     (''PID_NegativeSaturation'', 0x64), (''PID_DeadBand'', 0x65), (''PID_DownloadForceSample'', 0x66),
     (''PID_IsochCustomForceEnable'', 0x67), (''PID_CustomForceDataReport'', 0x68), (''PID_CustomForceData'', 0x69),
     (''PID_CustomForceVendorDefinedData'', 0x6a), (''PID_SetCustomForceReport'', 0x6b), (''PID_CustomForceDataOffset'', 0x6c),
     (''PID_SampleCount'', 0x6d), (''PID_SetPeriodicReport'', 0x6e), (''PID_Offset'', 0x6f), (''PID_Magnitude'', 0x70),
     (''PID_Phase'', 0x71), (''PID_Period'', 0x72), (''PID_SetConstantForceReport'', 0x73), (''PID_SetRampForceReport'', 0x74),
     (''PID_RampStart'', 0x75), (''PID_RampEnd'', 0x76), (''PID_EffectOperationReport'', 0x77), (''PID_EffectOperation'', 0x78),
     (''PID_OpEffectStart'', 0x79), (''PID_OpEffectStartSolo'', 0x7a), (''PID_OpEffectStop'', 0x7b), (''PID_LoopCount'', 0x7c),
     (''PID_DeviceGainReport'', 0x7d), (''PID_DeviceGain'', 0x7e), (''PID_ParameterBlockPoolsReport'', 0x7f),
     (''PID_RAMPoolSize'', 0x80), (''PID_ROMPoolSize'', 0x81), (''PID_ROMEffectBlockCount'', 0x82),
     (''PID_SimultaneousEffectsMax'', 0x83), (''PID_PoolAlignment'', 0x84), (''PID_ParameterBlockMoveReport'', 0x85),
     (''PID_MoveSource'', 0x86), (''PID_MoveDestination'', 0x87), (''PID_MoveLength'', 0x88),
     (''PID_EffectParameterBlockLoadReport'', 0x89), (''PID_EffectParameterBlockLoadStatus'', 0x8b),
     (''PID_BlockLoadSuccess'', 0x8c), (''PID_BlockLoadFull'', 0x8d), (''PID_BlockLoadError'', 0x8e), (''PID_BlockHandle'', 0x8f),
     (''PID_EffectParameterBlockFreeReport'', 0x90), (''PID_TypeSpecificBlockHandle'', 0x91), (''PID_PIDStateReport'', 0x92),
     (''PID_EffectPlaying'', 0x94), (''PID_PIDDeviceControlReport'', 0x95), (''PID_PIDDeviceControl'', 0x96),
     (''PID_DCEnableActuators'', 0x97), (''PID_DCDisableActuators'', 0x98), (''PID_DCStopAllEffects'', 0x99),
     (''PID_DCReset'', 0x9a), (''PID_DCPause'', 0x9b), (''PID_DCContinue'', 0x9c), (''PID_DevicePaused'', 0x9f),
     (''PID_ActuatorsEnabled'', 0xa0), (''PID_SafetySwitch'', 0xa4), (''PID_ActuatorOverrideSwitch'', 0xa5),
     (''PID_ActuatorPower'', 0xa6), (''PID_StartDelay'', 0xa7), (''PID_ParameterBlockSize'', 0xa8),
     (''PID_DeviceManagedPool'', 0xa9), (''PID_SharedParameterBlocks'', 0xaa), (''PID_CreateNewEffectParameterBlockReport'', 0xab),
     (''PID_RAMPoolAvailable'', 0xac)]"

definition numbers_SoC :: usage_numbers_table where
  "numbers_SoC = [
     (''SC_SocControl'', 0x01), (''SC_FirmwareTransfer'', 0x02), (''SC_FirmwareFileId'', 0x03), (''SC_FileOffsetInBytes'', 0x04),
     (''SC_FileTransferSizeMaxInBytes'', 0x05), (''SC_FilePayload'', 0x06), (''SC_FilePayloadSizeInBytes'', 0x07),
     (''SC_FilePayloadContainsLastBytes'', 0x08), (''SC_FileTransferStop'', 0x09), (''SC_FileTransferTillEnd'', 0x0a)]"

definition numbers_EyeandHeadTrackers :: usage_numbers_table where
  "numbers_EyeandHeadTrackers = [
     (''EHT_EyeTracker'', 0x01), (''EHT_HeadTracker'', 0x02), (''EHT_TrackingData'', 0x10), (''EHT_Capabilities'', 0x11),
     (''EHT_Configuration'', 0x12), (''EHT_Status'', 0x13), (''EHT_Control'', 0x14), (''EHT_SensorTimestamp'', 0x20),
     (''EHT_PositionX'', 0x21), (''EHT_PositionY'', 0x22), (''EHT_PositionZ'', 0x23), (''EHT_GazePoint'', 0x24),
     (''EHT_LeftEyePosition'', 0x25), (''EHT_RightEyePosition'', 0x26), (''EHT_HeadPosition'', 0x27),
     (''EHT_HeadDirectionPoint'', 0x28), (''EHT_RotationaboutXaxis'', 0x29), (''EHT_RotationaboutYaxis'', 0x2a),
     (''EHT_RotationaboutZaxis'', 0x2b), (''EHT_TrackerQuality'', 0x100), (''EHT_MinimumTrackingDistance'', 0x101),
     (''EHT_OptimumTrackingDistance'', 0x102), (''EHT_MaximumTrackingDistance'', 0x103), (''EHT_MaximumScreenPlaneWidth'', 0x104),
     (''EHT_MaximumScreenPlaneHeight'', 0x105), (''EHT_DisplayManufacturerID'', 0x200), (''EHT_DisplayProductID'', 0x201),
     (''EHT_DisplaySerialNumber'', 0x202), (''EHT_DisplayManufacturerDate'', 0x203), (''EHT_CalibratedScreenWidth'', 0x204),
     (''EHT_CalibratedScreenHeight'', 0x205), (''EHT_SamplingFrequency'', 0x300), (''EHT_ConfigurationStatus'', 0x301),
     (''EHT_DeviceModeRequest'', 0x400)]"

definition numbers_AuxiliaryDisplay :: usage_numbers_table where
  "numbers_AuxiliaryDisplay = [
     (''AD_AlphanumericDisplay'', 0x01), (''AD_AuxiliaryDisplay'', 0x02), (''AD_DisplayAttributesReport'', 0x20),
     (''AD_ASCIICharacterSet'', 0x21), (''AD_DataReadBack'', 0x22), (''AD_FontReadBack'', 0x23),
     (''AD_DisplayControlReport'', 0x24), (''AD_ClearDisplay'', 0x25), (''AD_DisplayEnable'', 0x26),
     (''AD_ScreenSaverDelay'', 0x27), (''AD_ScreenSaverEnable'', 0x28), (''AD_VerticalScroll'', 0x29),
     (''AD_HorizontalScroll'', 0x2a), (''AD_CharacterReport'', 0x2b), (''AD_DisplayData'', 0x2c), (''AD_DisplayStatus'', 0x2d),
     (''AD_StatNotReady'', 0x2e), (''AD_StatReady'', 0x2f), (''AD_ErrNotaloadablecharacter'', 0x30),
     (''AD_ErrFontdatacannotberead'', 0x31), (''AD_CursorPositionReport'', 0x32), (''AD_Row'', 0x33), (''AD_Column'', 0x34),
     (''AD_Rows'', 0x35), (''AD_Columns'', 0x36), (''AD_CursorPixelPositioning'', 0x37), (''AD_CursorMode'', 0x38),
     (''AD_CursorEnable'', 0x39), (''AD_CursorBlink'', 0x3a), (''AD_FontReport'', 0x3b), (''AD_FontData'', 0x3c),
     (''AD_CharacterWidth'', 0x3d), (''AD_CharacterHeight'', 0x3e), (''AD_CharacterSpacingHorizontal'', 0x3f),
     (''AD_CharacterSpacingVertical'', 0x40), (''AD_UnicodeCharacterSet'', 0x41), (''AD_Font7Segment'', 0x42),
     (''AD_SevenSegmentDirectMap'', 0x43), (''AD_Font14Segment'', 0x44), (''AD_One4SegmentDirectMap'', 0x45),
     (''AD_DisplayBrightness'', 0x46), (''AD_DisplayContrast'', 0x47), (''AD_CharacterAttribute'', 0x48),
     (''AD_AttributeReadback'', 0x49), (''AD_AttributeData'', 0x4a), (''AD_CharAttrEnhance'', 0x4b),
     (''AD_CharAttrUnderline'', 0x4c), (''AD_CharAttrBlink'', 0x4d), (''AD_BitmapSizeX'', 0x80), (''AD_BitmapSizeY'', 0x81),
     (''AD_MaxBlitSize'', 0x82), (''AD_BitDepthFormat'', 0x83), (''AD_DisplayOrientation'', 0x84), (''AD_PaletteReport'', 0x85),
     (''AD_PaletteDataSize'', 0x86), (''AD_PaletteDataOffset'', 0x87), (''AD_PaletteData'', 0x88), (''AD_BlitReport'', 0x8a),
     (''AD_BlitRectangleX1'', 0x8b), (''AD_BlitRectangleY1'', 0x8c), (''AD_BlitRectangleX2'', 0x8d),
     (''AD_BlitRectangleY2'', 0x8e), (''AD_BlitData'', 0x8f), (''AD_SoftButton'', 0x90), (''AD_SoftButtonID'', 0x91),
     (''AD_SoftButtonSide'', 0x92), (''AD_SoftButtonOffset1'', 0x93), (''AD_SoftButtonOffset2'', 0x94),
     (''AD_SoftButtonReport'', 0x95), (''AD_SoftKeys'', 0xc2), (''AD_DisplayDataExtensions'', 0xcc),
     (''AD_CharacterMapping'', 0xcf), (''AD_UnicodeEquivalent'', 0xdd), (''AD_CharacterPageMapping'', 0xdf),
     (''AD_RequestReport'', 0xff)]"

definition numbers_Sensors_1 :: usage_numbers_table where
  "numbers_Sensors_1 = [
     (''Sen_Sensor'', 0x01), (''Sen_Biometric'', 0x10), (''Sen_BiometricHumanPresence'', 0x11),
     (''Sen_BiometricHumanProximity'', 0x12), (''Sen_BiometricHumanTouch'', 0x13), (''Sen_BiometricBloodPressure'', 0x14),
     (''Sen_BiometricBodyTemperature'', 0x15), (''Sen_BiometricHeartRate'', 0x16), (''Sen_BiometricHeartRateVariability'', 0x17),
     (''Sen_BiometricPeripheralOxygenSaturation'', 0x18), (''Sen_BiometricRespiratoryRate'', 0x19), (''Sen_Electrical'', 0x20),
     (''Sen_ElectricalCapacitance'', 0x21), (''Sen_ElectricalCurrent'', 0x22), (''Sen_ElectricalPower'', 0x23),
     (''Sen_ElectricalInductance'', 0x24), (''Sen_ElectricalResistance'', 0x25), (''Sen_ElectricalVoltage'', 0x26),
     (''Sen_ElectricalPotentiometer'', 0x27), (''Sen_ElectricalFrequency'', 0x28), (''Sen_ElectricalPeriod'', 0x29),
     (''Sen_Environmental'', 0x30), (''Sen_EnvironmentalAtmosphericPressure'', 0x31), (''Sen_EnvironmentalHumidity'', 0x32),
     (''Sen_EnvironmentalTemperature'', 0x33), (''Sen_EnvironmentalWindDirection'', 0x34), (''Sen_EnvironmentalWindSpeed'', 0x35),
     (''Sen_EnvironmentalAirQuality'', 0x36), (''Sen_EnvironmentalHeatIndex'', 0x37),
     (''Sen_EnvironmentalSurfaceTemperature'', 0x38), (''Sen_EnvironmentalVolatileOrganicCompounds'', 0x39),
     (''Sen_EnvironmentalObjectPresence'', 0x3a), (''Sen_EnvironmentalObjectProximity'', 0x3b), (''Sen_Light'', 0x40),
     (''Sen_LightAmbientLight'', 0x41), (''Sen_LightConsumerInfrared'', 0x42), (''Sen_LightInfraredLight'', 0x43),
     (''Sen_LightVisibleLight'', 0x44), (''Sen_LightUltravioletLight'', 0x45), (''Sen_Location'', 0x50),
     (''Sen_LocationBroadcast'', 0x51), (''Sen_LocationDeadReckoning'', 0x52), (''Sen_LocationGPSGlobalPositioningSystem'', 0x53),
     (''Sen_LocationLookup'', 0x54), (''Sen_LocationOther'', 0x55), (''Sen_LocationStatic'', 0x56),
     (''Sen_LocationTriangulation'', 0x57), (''Sen_Mechanical'', 0x60), (''Sen_MechanicalBooleanSwitch'', 0x61),
     (''Sen_MechanicalBooleanSwitchArray'', 0x62), (''Sen_MechanicalMultivalueSwitch'', 0x63), (''Sen_MechanicalForce'', 0x64),
     (''Sen_MechanicalPressure'', 0x65), (''Sen_MechanicalStrain'', 0x66), (''Sen_MechanicalWeight'', 0x67),
     (''Sen_MechanicalHapticVibrator'', 0x68), (''Sen_MechanicalHallEffectSwitch'', 0x69), (''Sen_Motion'', 0x70),
     (''Sen_MotionAccelerometer1D'', 0x71), (''Sen_MotionAccelerometer2D'', 0x72), (''Sen_MotionAccelerometer3D'', 0x73),
     (''Sen_MotionGyrometer1D'', 0x74), (''Sen_MotionGyrometer2D'', 0x75), (''Sen_MotionGyrometer3D'', 0x76),
     (''Sen_MotionMotionDetector'', 0x77), (''Sen_MotionSpeedometer'', 0x78), (''Sen_MotionAccelerometer'', 0x79),
     (''Sen_MotionGyrometer'', 0x7a), (''Sen_MotionGravityVector'', 0x7b), (''Sen_MotionLinearAccelerometer'', 0x7c),
     (''Sen_Orientation'', 0x80), (''Sen_OrientationCompass1D'', 0x81), (''Sen_OrientationCompass2D'', 0x82),
     (''Sen_OrientationCompass3D'', 0x83), (''Sen_OrientationInclinometer1D'', 0x84), (''Sen_OrientationInclinometer2D'', 0x85),
     (''Sen_OrientationInclinometer3D'', 0x86), (''Sen_OrientationDistance1D'', 0x87), (''Sen_OrientationDistance2D'', 0x88),
     (''Sen_OrientationDistance3D'', 0x89), (''Sen_OrientationDeviceOrientation'', 0x8a), (''Sen_OrientationCompass'', 0x8b),
     (''Sen_OrientationInclinometer'', 0x8c), (''Sen_OrientationDistance'', 0x8d), (''Sen_OrientationRelativeOrientation'', 0x8e),
     (''Sen_OrientationSimpleOrientation'', 0x8f), (''Sen_Scanner'', 0x90), (''Sen_ScannerBarcode'', 0x91),
     (''Sen_ScannerRFID'', 0x92), (''Sen_ScannerNFC'', 0x93), (''Sen_Time'', 0xa0), (''Sen_TimeAlarmTimer'', 0xa1),
     (''Sen_TimeRealTimeClock'', 0xa2), (''Sen_PersonalActivity'', 0xb0), (''Sen_PersonalActivityActivityDetection'', 0xb1),
     (''Sen_PersonalActivityDevicePosition'', 0xb2), (''Sen_PersonalActivityFloorTracker'', 0xb3),
     (''Sen_PersonalActivityPedometer'', 0xb4), (''Sen_PersonalActivityStepDetection'', 0xb5), (''Sen_OrientationExtended'', 0xc0),
     (''Sen_OrientationExtendedGeomagneticOrientation'', 0xc1), (''Sen_OrientationExtendedMagnetometer'', 0xc2),
     (''Sen_Gesture'', 0xd0), (''Sen_GestureChassisFlipGesture'', 0xd1), (''Sen_GestureHingeFoldGesture'', 0xd2),
     (''Sen_Other'', 0xe0), (''Sen_OtherCustom'', 0xe1), (''Sen_OtherGeneric'', 0xe2), (''Sen_OtherGenericEnumerator'', 0xe3),
     (''Sen_OtherHingeAngle'', 0xe4), (''Sen_VendorReserved1'', 0xf0), (''Sen_VendorReserved2'', 0xf1),
     (''Sen_VendorReserved3'', 0xf2), (''Sen_VendorReserved4'', 0xf3), (''Sen_VendorReserved5'', 0xf4),
     (''Sen_VendorReserved6'', 0xf5), (''Sen_VendorReserved7'', 0xf6), (''Sen_VendorReserved8'', 0xf7),
     (''Sen_VendorReserved9'', 0xf8), (''Sen_VendorReserved10'', 0xf9), (''Sen_VendorReserved11'', 0xfa),
     (''Sen_VendorReserved12'', 0xfb), (''Sen_VendorReserved13'', 0xfc), (''Sen_VendorReserved14'', 0xfd),
     (''Sen_VendorReserved15'', 0xfe), (''Sen_VendorReserved16'', 0xff), (''Sen_Event'', 0x200), (''Sen_EventSensorState'', 0x201),
     (''Sen_EventSensorEvent'', 0x202), (''Sen_Property'', 0x300), (''Sen_PropertyFriendlyName'', 0x301),
     (''Sen_PropertyPersistentUniqueID'', 0x302), (''Sen_PropertySensorStatus'', 0x303),
     (''Sen_PropertyMinimumReportInterval'', 0x304), (''Sen_PropertySensorManufacturer'', 0x305),
     (''Sen_PropertySensorModel'', 0x306), (''Sen_PropertySensorSerialNumber'', 0x307), (''Sen_PropertySensorDescription'', 0x308),
     (''Sen_PropertySensorConnectionType'', 0x309), (''Sen_PropertySensorDevicePath'', 0x30a),
     (''Sen_PropertyHardwareRevision'', 0x30b), (''Sen_PropertyFirmwareVersion'', 0x30c), (''Sen_PropertyReleaseDate'', 0x30d),
     (''Sen_PropertyReportInterval'', 0x30e), (''Sen_PropertyChangeSensitivityAbsolute'', 0x30f),
     (''Sen_PropertyChangeSensitivityPercentofRange'', 0x310), (''Sen_PropertyChangeSensitivityPercentRelative'', 0x311),
     (''Sen_PropertyAccuracy'', 0x312), (''Sen_PropertyResolution'', 0x313), (''Sen_PropertyMaximum'', 0x314)]"

definition numbers_Sensors_2 :: usage_numbers_table where
  "numbers_Sensors_2 = [
     (''Sen_PropertyMinimum'', 0x315), (''Sen_PropertyReportingState'', 0x316), (''Sen_PropertySamplingRate'', 0x317),
     (''Sen_PropertyResponseCurve'', 0x318), (''Sen_PropertyPowerState'', 0x319), (''Sen_PropertyMaximumFIFOEvents'', 0x31a),
     (''Sen_PropertyReportLatency'', 0x31b), (''Sen_PropertyFlushFIFOEvents'', 0x31c),
     (''Sen_PropertyMaximumPowerConsumption'', 0x31d), (''Sen_PropertyIsPrimary'', 0x31e),
     (''Sen_PropertyHumanPresenceDetectionType'', 0x31f), (''Sen_DataFieldLocation'', 0x400),
     (''Sen_DataFieldAltitudeAntennaSeaLevel'', 0x402), (''Sen_DataFieldDifferentialReferenceStationID'', 0x403),
     (''Sen_DataFieldAltitudeEllipsoidError'', 0x404), (''Sen_DataFieldAltitudeEllipsoid'', 0x405),
     (''Sen_DataFieldAltitudeSeaLevelError'', 0x406), (''Sen_DataFieldAltitudeSeaLevel'', 0x407),
     (''Sen_DataFieldDifferentialGPSDataAge'', 0x408), (''Sen_DataFieldErrorRadius'', 0x409), (''Sen_DataFieldFixQuality'', 0x40a),
     (''Sen_DataFieldFixType'', 0x40b), (''Sen_DataFieldGeoidalSeparation'', 0x40c), (''Sen_DataFieldGPSOperationMode'', 0x40d),
     (''Sen_DataFieldGPSSelectionMode'', 0x40e), (''Sen_DataFieldGPSStatus'', 0x40f),
     (''Sen_DataFieldPositionDilutionofPrecision'', 0x410), (''Sen_DataFieldHorizontalDilutionofPrecision'', 0x411),
     (''Sen_DataFieldVerticalDilutionofPrecision'', 0x412), (''Sen_DataFieldLatitude'', 0x413),
     (''Sen_DataFieldLongitude'', 0x414), (''Sen_DataFieldTrueHeading'', 0x415), (''Sen_DataFieldMagneticHeading'', 0x416),
     (''Sen_DataFieldMagneticVariation'', 0x417), (''Sen_DataFieldSpeed'', 0x418), (''Sen_DataFieldSatellitesinView'', 0x419),
     (''Sen_DataFieldSatellitesinViewAzimuth'', 0x41a), (''Sen_DataFieldSatellitesinViewElevation'', 0x41b),
     (''Sen_DataFieldSatellitesinViewIDs'', 0x41c), (''Sen_DataFieldSatellitesinViewPRNs'', 0x41d),
     (''Sen_DataFieldSatellitesinViewSNRatios'', 0x41e), (''Sen_DataFieldSatellitesUsedCount'', 0x41f),
     (''Sen_DataFieldSatellitesUsedPRNs'', 0x420), (''Sen_DataFieldNMEASentence'', 0x421), (''Sen_DataFieldAddressLine1'', 0x422),
     (''Sen_DataFieldAddressLine2'', 0x423), (''Sen_DataFieldCity'', 0x424), (''Sen_DataFieldStateorProvince'', 0x425),
     (''Sen_DataFieldCountryorRegion'', 0x426), (''Sen_DataFieldPostalCode'', 0x427), (''Sen_PropertyLocation'', 0x42a),
     (''Sen_PropertyLocationDesiredAccuracy'', 0x42b), (''Sen_DataFieldEnvironmental'', 0x430),
     (''Sen_DataFieldAtmosphericPressure'', 0x431), (''Sen_DataFieldRelativeHumidity'', 0x433),
     (''Sen_DataFieldTemperature'', 0x434), (''Sen_DataFieldWindDirection'', 0x435), (''Sen_DataFieldWindSpeed'', 0x436),
     (''Sen_DataFieldAirQualityIndex'', 0x437), (''Sen_DataFieldEquivalentCO2'', 0x438),
     (''Sen_DataFieldVolatileOrganicCompoundConcentration'', 0x439), (''Sen_DataFieldObjectPresence'', 0x43a),
     (''Sen_DataFieldObjectProximityRange'', 0x43b), (''Sen_DataFieldObjectProximityOutofRange'', 0x43c),
     (''Sen_PropertyEnvironmental'', 0x440), (''Sen_PropertyReferencePressure'', 0x441), (''Sen_DataFieldMotion'', 0x450),
     (''Sen_DataFieldMotionState'', 0x451), (''Sen_DataFieldAcceleration'', 0x452), (''Sen_DataFieldAccelerationAxisX'', 0x453),
     (''Sen_DataFieldAccelerationAxisY'', 0x454), (''Sen_DataFieldAccelerationAxisZ'', 0x455),
     (''Sen_DataFieldAngularVelocity'', 0x456), (''Sen_DataFieldAngularVelocityaboutXAxis'', 0x457),
     (''Sen_DataFieldAngularVelocityaboutYAxis'', 0x458), (''Sen_DataFieldAngularVelocityaboutZAxis'', 0x459),
     (''Sen_DataFieldAngularPosition'', 0x45a), (''Sen_DataFieldAngularPositionaboutXAxis'', 0x45b),
     (''Sen_DataFieldAngularPositionaboutYAxis'', 0x45c), (''Sen_DataFieldAngularPositionaboutZAxis'', 0x45d),
     (''Sen_DataFieldMotionSpeed'', 0x45e), (''Sen_DataFieldMotionIntensity'', 0x45f), (''Sen_DataFieldOrientation'', 0x470),
     (''Sen_DataFieldHeading'', 0x471), (''Sen_DataFieldHeadingXAxis'', 0x472), (''Sen_DataFieldHeadingYAxis'', 0x473),
     (''Sen_DataFieldHeadingZAxis'', 0x474), (''Sen_DataFieldHeadingCompensatedMagneticNorth'', 0x475),
     (''Sen_DataFieldHeadingCompensatedTrueNorth'', 0x476), (''Sen_DataFieldHeadingMagneticNorth'', 0x477),
     (''Sen_DataFieldHeadingTrueNorth'', 0x478), (''Sen_DataFieldDistance'', 0x479), (''Sen_DataFieldDistanceXAxis'', 0x47a),
     (''Sen_DataFieldDistanceYAxis'', 0x47b), (''Sen_DataFieldDistanceZAxis'', 0x47c),
     (''Sen_DataFieldDistanceOutofRange'', 0x47d), (''Sen_DataFieldTilt'', 0x47e), (''Sen_DataFieldTiltXAxis'', 0x47f),
     (''Sen_DataFieldTiltYAxis'', 0x480), (''Sen_DataFieldTiltZAxis'', 0x481), (''Sen_DataFieldRotationMatrix'', 0x482),
     (''Sen_DataFieldQuaternion'', 0x483), (''Sen_DataFieldMagneticFlux'', 0x484), (''Sen_DataFieldMagneticFluxXAxis'', 0x485),
     (''Sen_DataFieldMagneticFluxYAxis'', 0x486), (''Sen_DataFieldMagneticFluxZAxis'', 0x487),
     (''Sen_DataFieldMagnetometerAccuracy'', 0x488), (''Sen_DataFieldSimpleOrientationDirection'', 0x489),
     (''Sen_DataFieldMechanical'', 0x490), (''Sen_DataFieldBooleanSwitchState'', 0x491),
     (''Sen_DataFieldBooleanSwitchArrayStates'', 0x492), (''Sen_DataFieldMultivalueSwitchValue'', 0x493),
     (''Sen_DataFieldForce'', 0x494), (''Sen_DataFieldAbsolutePressure'', 0x495), (''Sen_DataFieldGaugePressure'', 0x496),
     (''Sen_DataFieldStrain'', 0x497), (''Sen_DataFieldWeight'', 0x498), (''Sen_PropertyMechanical'', 0x4a0),
     (''Sen_PropertyVibrationState'', 0x4a1), (''Sen_PropertyForwardVibrationSpeed'', 0x4a2),
     (''Sen_PropertyBackwardVibrationSpeed'', 0x4a3), (''Sen_DataFieldBiometric'', 0x4b0), (''Sen_DataFieldHumanPresence'', 0x4b1),
     (''Sen_DataFieldHumanProximityRange'', 0x4b2), (''Sen_DataFieldHumanProximityOutofRange'', 0x4b3),
     (''Sen_DataFieldHumanTouchState'', 0x4b4), (''Sen_DataFieldBloodPressure'', 0x4b5),
     (''Sen_DataFieldBloodPressureDiastolic'', 0x4b6), (''Sen_DataFieldBloodPressureSystolic'', 0x4b7),
     (''Sen_DataFieldHeartRate'', 0x4b8), (''Sen_DataFieldRestingHeartRate'', 0x4b9), (''Sen_DataFieldHeartbeatInterval'', 0x4ba),
     (''Sen_DataFieldRespiratoryRate'', 0x4bb), (''Sen_DataFieldSpO2'', 0x4bc), (''Sen_DataFieldHumanAttentionDetected'', 0x4bd),
     (''Sen_DataFieldHumanHeadAzimuth'', 0x4be), (''Sen_DataFieldHumanHeadAltitude'', 0x4bf),
     (''Sen_DataFieldHumanHeadRoll'', 0x4c0), (''Sen_DataFieldHumanHeadPitch'', 0x4c1), (''Sen_DataFieldHumanHeadYaw'', 0x4c2),
     (''Sen_DataFieldHumanCorrelationId'', 0x4c3), (''Sen_DataFieldLight'', 0x4d0), (''Sen_DataFieldIlluminance'', 0x4d1),
     (''Sen_DataFieldColorTemperature'', 0x4d2), (''Sen_DataFieldChromaticity'', 0x4d3), (''Sen_DataFieldChromaticityX'', 0x4d4),
     (''Sen_DataFieldChromaticityY'', 0x4d5), (''Sen_DataFieldConsumerIRSentenceReceive'', 0x4d6),
     (''Sen_DataFieldInfraredLight'', 0x4d7), (''Sen_DataFieldRedLight'', 0x4d8)]"

definition numbers_Sensors_3 :: usage_numbers_table where
  "numbers_Sensors_3 = [
     (''Sen_DataFieldGreenLight'', 0x4d9), (''Sen_DataFieldBlueLight'', 0x4da), (''Sen_DataFieldUltravioletALight'', 0x4db),
     (''Sen_DataFieldUltravioletBLight'', 0x4dc), (''Sen_DataFieldUltravioletIndex'', 0x4dd),
     (''Sen_DataFieldNearInfraredLight'', 0x4de), (''Sen_PropertyLight'', 0x4df), (''Sen_PropertyConsumerIRSentenceSend'', 0x4e0),
     (''Sen_PropertyAutoBrightnessPreferred'', 0x4e2), (''Sen_PropertyAutoColorPreferred'', 0x4e3),
     (''Sen_DataFieldScanner'', 0x4f0), (''Sen_DataFieldRFIDTag40Bit'', 0x4f1), (''Sen_DataFieldNFCSentenceReceive'', 0x4f2),
     (''Sen_PropertyScanner'', 0x4f8), (''Sen_PropertyNFCSentenceSend'', 0x4f9), (''Sen_DataFieldElectrical'', 0x500),
     (''Sen_DataFieldCapacitance'', 0x501), (''Sen_DataFieldCurrent'', 0x502), (''Sen_DataFieldElectricalPower'', 0x503),
     (''Sen_DataFieldInductance'', 0x504), (''Sen_DataFieldResistance'', 0x505), (''Sen_DataFieldVoltage'', 0x506),
     (''Sen_DataFieldFrequency'', 0x507), (''Sen_DataFieldPeriod'', 0x508), (''Sen_DataFieldPercentofRange'', 0x509),
     (''Sen_DataFieldTime'', 0x520), (''Sen_DataFieldYear'', 0x521), (''Sen_DataFieldMonth'', 0x522),
     (''Sen_DataFieldDay'', 0x523), (''Sen_DataFieldDayofWeek'', 0x524), (''Sen_DataFieldHour'', 0x525),
     (''Sen_DataFieldMinute'', 0x526), (''Sen_DataFieldSecond'', 0x527), (''Sen_DataFieldMillisecond'', 0x528),
     (''Sen_DataFieldTimestamp'', 0x529), (''Sen_DataFieldJulianDayofYear'', 0x52a), (''Sen_DataFieldTimeSinceSystemBoot'', 0x52b),
     (''Sen_PropertyTime'', 0x530), (''Sen_PropertyTimeZoneOffsetfromUTC'', 0x531), (''Sen_PropertyTimeZoneName'', 0x532),
     (''Sen_PropertyDaylightSavingsTimeObserved'', 0x533), (''Sen_PropertyTimeTrimAdjustment'', 0x534),
     (''Sen_PropertyArmAlarm'', 0x535), (''Sen_DataFieldCustom'', 0x540), (''Sen_DataFieldCustomUsage'', 0x541),
     (''Sen_DataFieldCustomBooleanArray'', 0x542), (''Sen_DataFieldCustomValue'', 0x543), (''Sen_DataFieldCustomValue1'', 0x544),
     (''Sen_DataFieldCustomValue2'', 0x545), (''Sen_DataFieldCustomValue3'', 0x546), (''Sen_DataFieldCustomValue4'', 0x547),
     (''Sen_DataFieldCustomValue5'', 0x548), (''Sen_DataFieldCustomValue6'', 0x549), (''Sen_DataFieldCustomValue7'', 0x54a),
     (''Sen_DataFieldCustomValue8'', 0x54b), (''Sen_DataFieldCustomValue9'', 0x54c), (''Sen_DataFieldCustomValue10'', 0x54d),
     (''Sen_DataFieldCustomValue11'', 0x54e), (''Sen_DataFieldCustomValue12'', 0x54f), (''Sen_DataFieldCustomValue13'', 0x550),
     (''Sen_DataFieldCustomValue14'', 0x551), (''Sen_DataFieldCustomValue15'', 0x552), (''Sen_DataFieldCustomValue16'', 0x553),
     (''Sen_DataFieldCustomValue17'', 0x554), (''Sen_DataFieldCustomValue18'', 0x555), (''Sen_DataFieldCustomValue19'', 0x556),
     (''Sen_DataFieldCustomValue20'', 0x557), (''Sen_DataFieldCustomValue21'', 0x558), (''Sen_DataFieldCustomValue22'', 0x559),
     (''Sen_DataFieldCustomValue23'', 0x55a), (''Sen_DataFieldCustomValue24'', 0x55b), (''Sen_DataFieldCustomValue25'', 0x55c),
     (''Sen_DataFieldCustomValue26'', 0x55d), (''Sen_DataFieldCustomValue27'', 0x55e), (''Sen_DataFieldCustomValue28'', 0x55f),
     (''Sen_DataFieldGeneric'', 0x560), (''Sen_DataFieldGenericGUIDorPROPERTYKEY'', 0x561),
     (''Sen_DataFieldGenericCategoryGUID'', 0x562), (''Sen_DataFieldGenericTypeGUID'', 0x563),
     (''Sen_DataFieldGenericEventPROPERTYKEY'', 0x564), (''Sen_DataFieldGenericPropertyPROPERTYKEY'', 0x565),
     (''Sen_DataFieldGenericDataFieldPROPERTYKEY'', 0x566), (''Sen_DataFieldGenericEvent'', 0x567),
     (''Sen_DataFieldGenericProperty'', 0x568), (''Sen_DataFieldGenericDataField'', 0x569),
     (''Sen_DataFieldEnumeratorTableRowIndex'', 0x56a), (''Sen_DataFieldEnumeratorTableRowCount'', 0x56b),
     (''Sen_DataFieldGenericGUIDorPROPERTYKEYkind'', 0x56c), (''Sen_DataFieldGenericGUID'', 0x56d),
     (''Sen_DataFieldGenericPROPERTYKEY'', 0x56e), (''Sen_DataFieldGenericTopLevelCollectionID'', 0x56f),
     (''Sen_DataFieldGenericReportID'', 0x570), (''Sen_DataFieldGenericReportItemPositionIndex'', 0x571),
     (''Sen_DataFieldGenericFirmwareVARTYPE'', 0x572), (''Sen_DataFieldGenericUnitofMeasure'', 0x573),
     (''Sen_DataFieldGenericUnitExponent'', 0x574), (''Sen_DataFieldGenericReportSize'', 0x575),
     (''Sen_DataFieldGenericReportCount'', 0x576), (''Sen_PropertyGeneric'', 0x580),
     (''Sen_PropertyEnumeratorTableRowIndex'', 0x581), (''Sen_PropertyEnumeratorTableRowCount'', 0x582),
     (''Sen_DataFieldPersonalActivity'', 0x590), (''Sen_DataFieldActivityType'', 0x591), (''Sen_DataFieldActivityState'', 0x592),
     (''Sen_DataFieldDevicePosition'', 0x593), (''Sen_DataFieldStepCount'', 0x594), (''Sen_DataFieldStepCountReset'', 0x595),
     (''Sen_DataFieldStepDuration'', 0x596), (''Sen_DataFieldStepType'', 0x597),
     (''Sen_PropertyMinimumActivityDetectionInterval'', 0x5a0), (''Sen_PropertySupportedActivityTypes'', 0x5a1),
     (''Sen_PropertySubscribedActivityTypes'', 0x5a2), (''Sen_PropertySupportedStepTypes'', 0x5a3),
     (''Sen_PropertySubscribedStepTypes'', 0x5a4), (''Sen_PropertyFloorHeight'', 0x5a5), (''Sen_DataFieldCustomTypeID'', 0x5b0),
     (''Sen_PropertyCustom'', 0x5c0), (''Sen_PropertyCustomValue1'', 0x5c1), (''Sen_PropertyCustomValue2'', 0x5c2),
     (''Sen_PropertyCustomValue3'', 0x5c3), (''Sen_PropertyCustomValue4'', 0x5c4), (''Sen_PropertyCustomValue5'', 0x5c5),
     (''Sen_PropertyCustomValue6'', 0x5c6), (''Sen_PropertyCustomValue7'', 0x5c7), (''Sen_PropertyCustomValue8'', 0x5c8),
     (''Sen_PropertyCustomValue9'', 0x5c9), (''Sen_PropertyCustomValue10'', 0x5ca), (''Sen_PropertyCustomValue11'', 0x5cb),
     (''Sen_PropertyCustomValue12'', 0x5cc), (''Sen_PropertyCustomValue13'', 0x5cd), (''Sen_PropertyCustomValue14'', 0x5ce),
     (''Sen_PropertyCustomValue15'', 0x5cf), (''Sen_PropertyCustomValue16'', 0x5d0), (''Sen_DataFieldHinge'', 0x5e0),
     (''Sen_DataFieldHingeAngle'', 0x5e1), (''Sen_DataFieldGestureSensor'', 0x5f0), (''Sen_DataFieldGestureState'', 0x5f1),
     (''Sen_DataFieldHingeFoldInitialAngle'', 0x5f2), (''Sen_DataFieldHingeFoldFinalAngle'', 0x5f3),
     (''Sen_DataFieldHingeFoldContributingPanel'', 0x5f4), (''Sen_DataFieldHingeFoldType'', 0x5f5),
     (''Sen_SensorStateUndefined'', 0x800), (''Sen_SensorStateReady'', 0x801), (''Sen_SensorStateNotAvailable'', 0x802),
     (''Sen_SensorStateNoData'', 0x803), (''Sen_SensorStateInitializing'', 0x804), (''Sen_SensorStateAccessDenied'', 0x805),
     (''Sen_SensorStateError'', 0x806), (''Sen_SensorEventUnknown'', 0x810), (''Sen_SensorEventStateChanged'', 0x811)]"

definition numbers_Sensors_4 :: usage_numbers_table where
  "numbers_Sensors_4 = [
     (''Sen_SensorEventPropertyChanged'', 0x812), (''Sen_SensorEventDataUpdated'', 0x813),
     (''Sen_SensorEventPollResponse'', 0x814), (''Sen_SensorEventChangeSensitivity'', 0x815),
     (''Sen_SensorEventRangeMaximumReached'', 0x816), (''Sen_SensorEventRangeMinimumReached'', 0x817),
     (''Sen_SensorEventHighThresholdCrossUpward'', 0x818), (''Sen_SensorEventHighThresholdCrossDownward'', 0x819),
     (''Sen_SensorEventLowThresholdCrossUpward'', 0x81a), (''Sen_SensorEventLowThresholdCrossDownward'', 0x81b),
     (''Sen_SensorEventZeroThresholdCrossUpward'', 0x81c), (''Sen_SensorEventZeroThresholdCrossDownward'', 0x81d),
     (''Sen_SensorEventPeriodExceeded'', 0x81e), (''Sen_SensorEventFrequencyExceeded'', 0x81f),
     (''Sen_SensorEventComplexTrigger'', 0x820), (''Sen_ConnectionTypePCIntegrated'', 0x830),
     (''Sen_ConnectionTypePCAttached'', 0x831), (''Sen_ConnectionTypePCExternal'', 0x832),
     (''Sen_ReportingStateReportNoEvents'', 0x840), (''Sen_ReportingStateReportAllEvents'', 0x841),
     (''Sen_ReportingStateReportThresholdEvents'', 0x842), (''Sen_ReportingStateWakeOnNoEvents'', 0x843),
     (''Sen_ReportingStateWakeOnAllEvents'', 0x844), (''Sen_ReportingStateWakeOnThresholdEvents'', 0x845),
     (''Sen_ReportingStateAnytime'', 0x846), (''Sen_PowerStateUndefined'', 0x850), (''Sen_PowerStateD0FullPower'', 0x851),
     (''Sen_PowerStateD1LowPower'', 0x852), (''Sen_PowerStateD2StandbyPowerwithWakeup'', 0x853),
     (''Sen_PowerStateD3SleepwithWakeup'', 0x854), (''Sen_PowerStateD4PowerOff'', 0x855), (''Sen_AccuracyDefault'', 0x860),
     (''Sen_AccuracyHigh'', 0x861), (''Sen_AccuracyMedium'', 0x862), (''Sen_AccuracyLow'', 0x863),
     (''Sen_FixQualityNoFix'', 0x870), (''Sen_FixQualityGPS'', 0x871), (''Sen_FixQualityDGPS'', 0x872),
     (''Sen_FixTypeNoFix'', 0x880), (''Sen_FixTypeGPSSPSModeFixValid'', 0x881), (''Sen_FixTypeDGPSSPSModeFixValid'', 0x882),
     (''Sen_FixTypeGPSPPSModeFixValid'', 0x883), (''Sen_FixTypeRealTimeKinematic'', 0x884), (''Sen_FixTypeFloatRTK'', 0x885),
     (''Sen_FixTypeEstimateddeadreckoned'', 0x886), (''Sen_FixTypeManualInputMode'', 0x887), (''Sen_FixTypeSimulatorMode'', 0x888),
     (''Sen_GPSOperationModeManual'', 0x890), (''Sen_GPSOperationModeAutomatic'', 0x891),
     (''Sen_GPSSelectionModeAutonomous'', 0x8a0), (''Sen_GPSSelectionModeDGPS'', 0x8a1),
     (''Sen_GPSSelectionModeEstimateddeadreckoned'', 0x8a2), (''Sen_GPSSelectionModeManualInput'', 0x8a3),
     (''Sen_GPSSelectionModeSimulator'', 0x8a4), (''Sen_GPSSelectionModeDataNotValid'', 0x8a5),
     (''Sen_GPSStatusDataValid'', 0x8b0), (''Sen_GPSStatusDataNotValid'', 0x8b1), (''Sen_DayofWeekSunday'', 0x8c0),
     (''Sen_DayofWeekMonday'', 0x8c1), (''Sen_DayofWeekTuesday'', 0x8c2), (''Sen_DayofWeekWednesday'', 0x8c3),
     (''Sen_DayofWeekThursday'', 0x8c4), (''Sen_DayofWeekFriday'', 0x8c5), (''Sen_DayofWeekSaturday'', 0x8c6),
     (''Sen_KindCategory'', 0x8d0), (''Sen_KindType'', 0x8d1), (''Sen_KindEvent'', 0x8d2), (''Sen_KindProperty'', 0x8d3),
     (''Sen_KindDataField'', 0x8d4), (''Sen_MagnetometerAccuracyLow'', 0x8e0), (''Sen_MagnetometerAccuracyMedium'', 0x8e1),
     (''Sen_MagnetometerAccuracyHigh'', 0x8e2), (''Sen_SimpleOrientationDirectionNotRotated'', 0x8f0),
     (''Sen_SimpleOrientationDirectionRotated90DegreesCCW'', 0x8f1),
     (''Sen_SimpleOrientationDirectionRotated180DegreesCCW'', 0x8f2),
     (''Sen_SimpleOrientationDirectionRotated270DegreesCCW'', 0x8f3), (''Sen_SimpleOrientationDirectionFaceUp'', 0x8f4),
     (''Sen_SimpleOrientationDirectionFaceDown'', 0x8f5), (''Sen_VT_NULL'', 0x900), (''Sen_VT_BOOL'', 0x901),
     (''Sen_VT_UI1'', 0x902), (''Sen_VT_I1'', 0x903), (''Sen_VT_UI2'', 0x904), (''Sen_VT_I2'', 0x905), (''Sen_VT_UI4'', 0x906),
     (''Sen_VT_I4'', 0x907), (''Sen_VT_UI8'', 0x908), (''Sen_VT_I8'', 0x909), (''Sen_VT_R4'', 0x90a), (''Sen_VT_R8'', 0x90b),
     (''Sen_VT_WSTR'', 0x90c), (''Sen_VT_STR'', 0x90d), (''Sen_VT_CLSID'', 0x90e), (''Sen_VT_VECTORVT_UI1'', 0x90f),
     (''Sen_VT_F16E0'', 0x910), (''Sen_VT_F16E1'', 0x911), (''Sen_VT_F16E2'', 0x912), (''Sen_VT_F16E3'', 0x913),
     (''Sen_VT_F16E4'', 0x914), (''Sen_VT_F16E5'', 0x915), (''Sen_VT_F16E6'', 0x916), (''Sen_VT_F16E7'', 0x917),
     (''Sen_VT_F16E8'', 0x918), (''Sen_VT_F16E9'', 0x919), (''Sen_VT_F16EA'', 0x91a), (''Sen_VT_F16EB'', 0x91b),
     (''Sen_VT_F16EC'', 0x91c), (''Sen_VT_F16ED'', 0x91d), (''Sen_VT_F16EE'', 0x91e), (''Sen_VT_F16EF'', 0x91f),
     (''Sen_VT_F32E0'', 0x920), (''Sen_VT_F32E1'', 0x921), (''Sen_VT_F32E2'', 0x922), (''Sen_VT_F32E3'', 0x923),
     (''Sen_VT_F32E4'', 0x924), (''Sen_VT_F32E5'', 0x925), (''Sen_VT_F32E6'', 0x926), (''Sen_VT_F32E7'', 0x927),
     (''Sen_VT_F32E8'', 0x928), (''Sen_VT_F32E9'', 0x929), (''Sen_VT_F32EA'', 0x92a), (''Sen_VT_F32EB'', 0x92b),
     (''Sen_VT_F32EC'', 0x92c), (''Sen_VT_F32ED'', 0x92d), (''Sen_VT_F32EE'', 0x92e), (''Sen_VT_F32EF'', 0x92f),
     (''Sen_ActivityTypeUnknown'', 0x930), (''Sen_ActivityTypeStationary'', 0x931), (''Sen_ActivityTypeFidgeting'', 0x932),
     (''Sen_ActivityTypeWalking'', 0x933), (''Sen_ActivityTypeRunning'', 0x934), (''Sen_ActivityTypeInVehicle'', 0x935),
     (''Sen_ActivityTypeBiking'', 0x936), (''Sen_ActivityTypeIdle'', 0x937), (''Sen_UnitNotSpecified'', 0x940),
     (''Sen_UnitLux'', 0x941), (''Sen_UnitDegreesKelvin'', 0x942), (''Sen_UnitDegreesCelsius'', 0x943),
     (''Sen_UnitPascal'', 0x944), (''Sen_UnitNewton'', 0x945), (''Sen_UnitMetersSecond'', 0x946), (''Sen_UnitKilogram'', 0x947),
     (''Sen_UnitMeter'', 0x948), (''Sen_UnitMetersSecondSecond'', 0x949), (''Sen_UnitFarad'', 0x94a), (''Sen_UnitAmpere'', 0x94b),
     (''Sen_UnitWatt'', 0x94c), (''Sen_UnitHenry'', 0x94d), (''Sen_UnitOhm'', 0x94e), (''Sen_UnitVolt'', 0x94f)]"

definition numbers_Sensors_5 :: usage_numbers_table where
  "numbers_Sensors_5 = [
     (''Sen_UnitHertz'', 0x950), (''Sen_UnitBar'', 0x951), (''Sen_UnitDegreesAnticlockwise'', 0x952),
     (''Sen_UnitDegreesClockwise'', 0x953), (''Sen_UnitDegrees'', 0x954), (''Sen_UnitDegreesSecond'', 0x955),
     (''Sen_UnitDegreesSecondSecond'', 0x956), (''Sen_UnitKnot'', 0x957), (''Sen_UnitPercent'', 0x958),
     (''Sen_UnitSecond'', 0x959), (''Sen_UnitMillisecond'', 0x95a), (''Sen_UnitG'', 0x95b), (''Sen_UnitBytes'', 0x95c),
     (''Sen_UnitMilligauss'', 0x95d), (''Sen_UnitBits'', 0x95e), (''Sen_ActivityStateNoStateChange'', 0x960),
     (''Sen_ActivityStateStartActivity'', 0x961), (''Sen_ActivityStateEndActivity'', 0x962), (''Sen_Exponent0'', 0x970),
     (''Sen_Exponent1'', 0x971), (''Sen_Exponent2'', 0x972), (''Sen_Exponent3'', 0x973), (''Sen_Exponent4'', 0x974),
     (''Sen_Exponent5'', 0x975), (''Sen_Exponent6'', 0x976), (''Sen_Exponent7'', 0x977), (''Sen_Exponent8'', 0x978),
     (''Sen_Exponent9'', 0x979), (''Sen_ExponentA'', 0x97a), (''Sen_ExponentB'', 0x97b), (''Sen_ExponentC'', 0x97c),
     (''Sen_ExponentD'', 0x97d), (''Sen_ExponentE'', 0x97e), (''Sen_ExponentF'', 0x97f), (''Sen_DevicePositionUnknown'', 0x980),
     (''Sen_DevicePositionUnchanged'', 0x981), (''Sen_DevicePositionOnDesk'', 0x982), (''Sen_DevicePositionInHand'', 0x983),
     (''Sen_DevicePositionMovinginBag'', 0x984), (''Sen_DevicePositionStationaryinBag'', 0x985), (''Sen_StepTypeUnknown'', 0x990),
     (''Sen_StepTypeWalking'', 0x991), (''Sen_StepTypeRunning'', 0x992), (''Sen_GestureStateUnknown'', 0x9a0),
     (''Sen_GestureStateStarted'', 0x9a1), (''Sen_GestureStateCompleted'', 0x9a2), (''Sen_GestureStateCancelled'', 0x9a3),
     (''Sen_HingeFoldContributingPanelUnknown'', 0x9b0), (''Sen_HingeFoldContributingPanelPanel1'', 0x9b1),
     (''Sen_HingeFoldContributingPanelPanel2'', 0x9b2), (''Sen_HingeFoldContributingPanelBoth'', 0x9b3),
     (''Sen_HingeFoldTypeUnknown'', 0x9b4), (''Sen_HingeFoldTypeIncreasing'', 0x9b5), (''Sen_HingeFoldTypeDecreasing'', 0x9b6),
     (''Sen_HumanPresenceDetectionTypeVendorDefinedNonBiometric'', 0x9c0),
     (''Sen_HumanPresenceDetectionTypeVendorDefinedBiometric'', 0x9c1), (''Sen_HumanPresenceDetectionTypeFacialBiometric'', 0x9c2),
     (''Sen_HumanPresenceDetectionTypeAudioBiometric'', 0x9c3), (''Sen_ModifierChangeSensitivityAbsolute'', 0x1000),
     (''Sen_ModifierMaximum'', 0x2000), (''Sen_ModifierMinimum'', 0x3000), (''Sen_ModifierAccuracy'', 0x4000),
     (''Sen_ModifierResolution'', 0x5000), (''Sen_ModifierThresholdHigh'', 0x6000), (''Sen_ModifierThresholdLow'', 0x7000),
     (''Sen_ModifierCalibrationOffset'', 0x8000), (''Sen_ModifierCalibrationMultiplier'', 0x9000),
     (''Sen_ModifierReportInterval'', 0xa000), (''Sen_ModifierFrequencyMax'', 0xb000), (''Sen_ModifierPeriodMax'', 0xc000),
     (''Sen_ModifierChangeSensitivityPercentofRange'', 0xd000), (''Sen_ModifierChangeSensitivityPercentRelative'', 0xe000),
     (''Sen_ModifierVendorReserved'', 0xf000)]"

definition numbers_Sensors :: usage_numbers_table where
  "numbers_Sensors = numbers_Sensors_1 @ numbers_Sensors_2 @ numbers_Sensors_3 @ numbers_Sensors_4 @ numbers_Sensors_5"

definition numbers_MedicalInstrument :: usage_numbers_table where
  "numbers_MedicalInstrument = [
     (''MI_MedicalUltrasound'', 0x01), (''MI_VCRAcquisition'', 0x20), (''MI_FreezeThaw'', 0x21), (''MI_ClipStore'', 0x22),
     (''MI_Update'', 0x23), (''MI_Next'', 0x24), (''MI_Save'', 0x25), (''MI_Print'', 0x26), (''MI_MicrophoneEnable'', 0x27),
     (''MI_Cine'', 0x40), (''MI_TransmitPower'', 0x41), (''MI_Volume'', 0x42), (''MI_Focus'', 0x43), (''MI_Depth'', 0x44),
     (''MI_SoftStepPrimary'', 0x60), (''MI_SoftStepSecondary'', 0x61), (''MI_DepthGainCompensation'', 0x70),
     (''MI_ZoomSelect'', 0x80), (''MI_ZoomAdjust'', 0x81), (''MI_SpectralDopplerModeSelect'', 0x82),
     (''MI_SpectralDopplerAdjust'', 0x83), (''MI_ColorDopplerModeSelect'', 0x84), (''MI_ColorDopplerAdjust'', 0x85),
     (''MI_MotionModeSelect'', 0x86), (''MI_MotionModeAdjust'', 0x87), (''MI_TwoDModeSelect'', 0x88),
     (''MI_TwoDModeAdjust'', 0x89), (''MI_SoftControlSelect'', 0xa0), (''MI_SoftControlAdjust'', 0xa1)]"

definition numbers_BrailleDisplay :: usage_numbers_table where
  "numbers_BrailleDisplay = [
     (''BD_BrailleDisplay'', 0x01), (''BD_BrailleRow'', 0x02), (''BD_EightDotBrailleCell'', 0x03),
     (''BD_SixDotBrailleCell'', 0x04), (''BD_NumberofBrailleCells'', 0x05), (''BD_ScreenReaderControl'', 0x06),
     (''BD_ScreenReaderIdentifier'', 0x07), (''BD_RouterSet1'', 0xfa), (''BD_RouterSet2'', 0xfb), (''BD_RouterSet3'', 0xfc),
     (''BD_RouterKey'', 0x100), (''BD_RowRouterKey'', 0x101), (''BD_BrailleButtons'', 0x200), (''BD_BrailleKeyboardDot1'', 0x201),
     (''BD_BrailleKeyboardDot2'', 0x202), (''BD_BrailleKeyboardDot3'', 0x203), (''BD_BrailleKeyboardDot4'', 0x204),
     (''BD_BrailleKeyboardDot5'', 0x205), (''BD_BrailleKeyboardDot6'', 0x206), (''BD_BrailleKeyboardDot7'', 0x207),
     (''BD_BrailleKeyboardDot8'', 0x208), (''BD_BrailleKeyboardSpace'', 0x209), (''BD_BrailleKeyboardLeftSpace'', 0x20a),
     (''BD_BrailleKeyboardRightSpace'', 0x20b), (''BD_BrailleFaceControls'', 0x20c), (''BD_BrailleLeftControls'', 0x20d),
     (''BD_BrailleRightControls'', 0x20e), (''BD_BrailleTopControls'', 0x20f), (''BD_BrailleJoystickCenter'', 0x210),
     (''BD_BrailleJoystickUp'', 0x211), (''BD_BrailleJoystickDown'', 0x212), (''BD_BrailleJoystickLeft'', 0x213),
     (''BD_BrailleJoystickRight'', 0x214), (''BD_BrailleDPadCenter'', 0x215), (''BD_BrailleDPadUp'', 0x216),
     (''BD_BrailleDPadDown'', 0x217), (''BD_BrailleDPadLeft'', 0x218), (''BD_BrailleDPadRight'', 0x219),
     (''BD_BraillePanLeft'', 0x21a), (''BD_BraillePanRight'', 0x21b), (''BD_BrailleRockerUp'', 0x21c),
     (''BD_BrailleRockerDown'', 0x21d), (''BD_BrailleRockerPress'', 0x21e)]"

definition numbers_LightingAndIllumination :: usage_numbers_table where
  "numbers_LightingAndIllumination = [
     (''LAI_LampArray'', 0x01), (''LAI_LampArrayAttributesReport'', 0x02), (''LAI_LampCount'', 0x03),
     (''LAI_BoundingBoxWidthInMicrometers'', 0x04), (''LAI_BoundingBoxHeightInMicrometers'', 0x05),
     (''LAI_BoundingBoxDepthInMicrometers'', 0x06), (''LAI_LampArrayKind'', 0x07), (''LAI_MinUpdateIntervalInMicroseconds'', 0x08),
     (''LAI_LampAttributesRequestReport'', 0x20), (''LAI_LampId'', 0x21), (''LAI_LampAttributesResponseReport'', 0x22),
     (''LAI_PositionXInMicrometers'', 0x23), (''LAI_PositionYInMicrometers'', 0x24), (''LAI_PositionZInMicrometers'', 0x25),
     (''LAI_LampPurposes'', 0x26), (''LAI_UpdateLatencyInMicroseconds'', 0x27), (''LAI_RedLevelCount'', 0x28),
     (''LAI_GreenLevelCount'', 0x29), (''LAI_BlueLevelCount'', 0x2a), (''LAI_IntensityLevelCount'', 0x2b),
     (''LAI_IsProgrammable'', 0x2c), (''LAI_InputBinding'', 0x2d), (''LAI_LampMultiUpdateReport'', 0x50),
     (''LAI_RedUpdateChannel'', 0x51), (''LAI_GreenUpdateChannel'', 0x52), (''LAI_BlueUpdateChannel'', 0x53),
     (''LAI_IntensityUpdateChannel'', 0x54), (''LAI_LampUpdateFlags'', 0x55), (''LAI_LampRangeUpdateReport'', 0x60),
     (''LAI_LampIdStart'', 0x61), (''LAI_LampIdEnd'', 0x62), (''LAI_LampArrayControlReport'', 0x70), (''LAI_AutonomousMode'', 0x71)]"

definition numbers_Monitor :: usage_numbers_table where
  "numbers_Monitor = [
     (''Mon_MonitorControl'', 0x01), (''Mon_EDIDInformation'', 0x02), (''Mon_VDIFInformation'', 0x03), (''Mon_VESAVersion'', 0x04)]"

definition numbers_VESAVirtualControls :: usage_numbers_table where
  "numbers_VESAVirtualControls = [
     (''VESAVC_Degauss'', 0x01), (''VESAVC_Brightness'', 0x10), (''VESAVC_Contrast'', 0x12), (''VESAVC_RedVideoGain'', 0x16),
     (''VESAVC_GreenVideoGain'', 0x18), (''VESAVC_BlueVideoGain'', 0x1a), (''VESAVC_Focus'', 0x1c),
     (''VESAVC_HorizontalPosition'', 0x20), (''VESAVC_HorizontalSize'', 0x22), (''VESAVC_HorizontalPincushion'', 0x24),
     (''VESAVC_HorizontalPincushionBalance'', 0x26), (''VESAVC_HorizontalMisconvergence'', 0x28),
     (''VESAVC_HorizontalLinearity'', 0x2a), (''VESAVC_HorizontalLinearityBalance'', 0x2c), (''VESAVC_VerticalPosition'', 0x30),
     (''VESAVC_VerticalSize'', 0x32), (''VESAVC_VerticalPincushion'', 0x34), (''VESAVC_VerticalPincushionBalance'', 0x36),
     (''VESAVC_VerticalMisconvergence'', 0x38), (''VESAVC_VerticalLinearity'', 0x3a), (''VESAVC_VerticalLinearityBalance'', 0x3c),
     (''VESAVC_ParallelogramDistortionKeyBalance'', 0x40), (''VESAVC_TrapezoidalDistortionKey'', 0x42),
     (''VESAVC_TiltRotation'', 0x44), (''VESAVC_TopCornerDistortionControl'', 0x46), (''VESAVC_TopCornerDistortionBalance'', 0x48),
     (''VESAVC_BottomCornerDistortionControl'', 0x4a), (''VESAVC_BottomCornerDistortionBalance'', 0x4c),
     (''VESAVC_HorizontalMoir'' @ [CHR 0xC3, CHR 0xA9], 0x56), (''VESAVC_VerticalMoir'' @ [CHR 0xC3, CHR 0xA9], 0x58),
     (''VESAVC_InputLevelSelect'', 0x5e), (''VESAVC_InputSourceSelect'', 0x60), (''VESAVC_RedVideoBlackLevel'', 0x6c),
     (''VESAVC_GreenVideoBlackLevel'', 0x6e), (''VESAVC_BlueVideoBlackLevel'', 0x70), (''VESAVC_AutoSizeCenter'', 0xa2),
     (''VESAVC_PolarityHorizontalSynchronization'', 0xa4), (''VESAVC_PolarityVerticalSynchronization'', 0xa6),
     (''VESAVC_SynchronizationType'', 0xa8), (''VESAVC_ScreenOrientation'', 0xaa), (''VESAVC_HorizontalFrequency'', 0xac),
     (''VESAVC_VerticalFrequency'', 0xae), (''VESAVC_Settings'', 0xb0), (''VESAVC_OnScreenDisplay'', 0xca),
     (''VESAVC_StereoMode'', 0xd4)]"

definition numbers_Power :: usage_numbers_table where
  "numbers_Power = [
     (''Pow_iName'', 0x01), (''Pow_PresentStatus'', 0x02), (''Pow_ChangedStatus'', 0x03), (''Pow_UPS'', 0x04),
     (''Pow_PowerSupply'', 0x05), (''Pow_BatterySystem'', 0x10), (''Pow_BatterySystemId'', 0x11), (''Pow_Battery'', 0x12),
     (''Pow_BatteryId'', 0x13), (''Pow_Charger'', 0x14), (''Pow_ChargerId'', 0x15), (''Pow_PowerConverter'', 0x16),
     (''Pow_PowerConverterId'', 0x17), (''Pow_OutletSystem'', 0x18), (''Pow_OutletSystemId'', 0x19), (''Pow_Input'', 0x1a),
     (''Pow_InputId'', 0x1b), (''Pow_Output'', 0x1c), (''Pow_OutputId'', 0x1d), (''Pow_Flow'', 0x1e), (''Pow_FlowId'', 0x1f),
     (''Pow_Outlet'', 0x20), (''Pow_OutletId'', 0x21), (''Pow_Gang'', 0x22), (''Pow_GangId'', 0x23), (''Pow_PowerSummary'', 0x24),
     (''Pow_PowerSummaryId'', 0x25), (''Pow_Voltage'', 0x30), (''Pow_Current'', 0x31), (''Pow_Frequency'', 0x32),
     (''Pow_ApparentPower'', 0x33), (''Pow_ActivePower'', 0x34), (''Pow_PercentLoad'', 0x35), (''Pow_Temperature'', 0x36),
     (''Pow_Humidity'', 0x37), (''Pow_BadCount'', 0x38), (''Pow_ConfigVoltage'', 0x40), (''Pow_ConfigCurrent'', 0x41),
     (''Pow_ConfigFrequency'', 0x42), (''Pow_ConfigApparentPower'', 0x43), (''Pow_ConfigActivePower'', 0x44),
     (''Pow_ConfigPercentLoad'', 0x45), (''Pow_ConfigTemperature'', 0x46), (''Pow_ConfigHumidity'', 0x47),
     (''Pow_SwitchOnControl'', 0x50), (''Pow_SwitchOffControl'', 0x51), (''Pow_ToggleControl'', 0x52),
     (''Pow_LowVoltageTransfer'', 0x53), (''Pow_HighVoltageTransfer'', 0x54), (''Pow_DelayBeforeReboot'', 0x55),
     (''Pow_DelayBeforeStartup'', 0x56), (''Pow_DelayBeforeShutdown'', 0x57), (''Pow_Test'', 0x58), (''Pow_ModuleReset'', 0x59),
     (''Pow_AudibleAlarmControl'', 0x5a), (''Pow_Present'', 0x60), (''Pow_Good'', 0x61), (''Pow_InternalFailure'', 0x62),
     (''Pow_VoltagOutOfRange'', 0x63), (''Pow_FrequencyOutOfRange'', 0x64), (''Pow_Overload'', 0x65), (''Pow_OverCharged'', 0x66),
     (''Pow_OverTemperature'', 0x67), (''Pow_ShutdownRequested'', 0x68), (''Pow_ShutdownImminent'', 0x69),
     (''Pow_SwitchOnOff'', 0x6b), (''Pow_Switchable'', 0x6c), (''Pow_Used'', 0x6d), (''Pow_Boost'', 0x6e), (''Pow_Buck'', 0x6f),
     (''Pow_Initialized'', 0x70), (''Pow_Tested'', 0x71), (''Pow_AwaitingPower'', 0x72), (''Pow_CommunicationLost'', 0x73),
     (''Pow_iManufacturer'', 0xfd), (''Pow_iProduct'', 0xfe), (''Pow_iSerialNumber'', 0xff)]"

definition numbers_BatterySystem :: usage_numbers_table where
  "numbers_BatterySystem = [
     (''BS_SmartBatteryBatteryMode'', 0x01), (''BS_SmartBatteryBatteryStatus'', 0x02), (''BS_SmartBatteryAlarmWarning'', 0x03),
     (''BS_SmartBatteryChargerMode'', 0x04), (''BS_SmartBatteryChargerStatus'', 0x05), (''BS_SmartBatteryChargerSpecInfo'', 0x06),
     (''BS_SmartBatterySelectorState'', 0x07), (''BS_SmartBatterySelectorPresets'', 0x08), (''BS_SmartBatterySelectorInfo'', 0x09),
     (''BS_OptionalMfgFunction1'', 0x10), (''BS_OptionalMfgFunction2'', 0x11), (''BS_OptionalMfgFunction3'', 0x12),
     (''BS_OptionalMfgFunction4'', 0x13), (''BS_OptionalMfgFunction5'', 0x14), (''BS_ConnectionToSMBus'', 0x15),
     (''BS_OutputConnection'', 0x16), (''BS_ChargerConnection'', 0x17), (''BS_BatteryInsertion'', 0x18), (''BS_UseNext'', 0x19),
     (''BS_OKToUse'', 0x1a), (''BS_BatterySupported'', 0x1b), (''BS_SelectorRevision'', 0x1c), (''BS_ChargingIndicator'', 0x1d),
     (''BS_ManufacturerAccess'', 0x28), (''BS_RemainingCapacityLimit'', 0x29), (''BS_RemainingTimeLimit'', 0x2a),
     (''BS_AtRate'', 0x2b), (''BS_CapacityMode'', 0x2c), (''BS_BroadcastToCharger'', 0x2d), (''BS_PrimaryBattery'', 0x2e),
     (''BS_ChargeController'', 0x2f), (''BS_TerminateCharge'', 0x40), (''BS_TerminateDischarge'', 0x41),
     (''BS_BelowRemainingCapacityLimit'', 0x42), (''BS_RemainingTimeLimitExpired'', 0x43), (''BS_Charging'', 0x44),
     (''BS_Discharging'', 0x45), (''BS_FullyCharged'', 0x46), (''BS_FullyDischarged'', 0x47), (''BS_ConditioningFlag'', 0x48),
     (''BS_AtRateOK'', 0x49), (''BS_SmartBatteryErrorCode'', 0x4a), (''BS_NeedReplacement'', 0x4b),
     (''BS_AtRateTimeToFull'', 0x60), (''BS_AtRateTimeToEmpty'', 0x61), (''BS_AverageCurrent'', 0x62), (''BS_MaxError'', 0x63),
     (''BS_RelativeStateOfCharge'', 0x64), (''BS_AbsoluteStateOfCharge'', 0x65), (''BS_RemainingCapacity'', 0x66),
     (''BS_FullChargeCapacity'', 0x67), (''BS_RunTimeToEmpty'', 0x68), (''BS_AverageTimeToEmpty'', 0x69),
     (''BS_AverageTimeToFull'', 0x6a), (''BS_CycleCount'', 0x6b), (''BS_BatteryPackModelLevel'', 0x80),
     (''BS_InternalChargeController'', 0x81), (''BS_PrimaryBatterySupport'', 0x82), (''BS_DesignCapacity'', 0x83),
     (''BS_SpecificationInfo'', 0x84), (''BS_ManufactureDate'', 0x85), (''BS_SerialNumber'', 0x86),
     (''BS_iManufacturerName'', 0x87), (''BS_iDeviceName'', 0x88), (''BS_iDeviceChemistry'', 0x89),
     (''BS_ManufacturerData'', 0x8a), (''BS_Rechargeable'', 0x8b), (''BS_WarningCapacityLimit'', 0x8c),
     (''BS_CapacityGranularity1'', 0x8d), (''BS_CapacityGranularity2'', 0x8e), (''BS_iOEMInformation'', 0x8f),
     (''BS_InhibitCharge'', 0xc0), (''BS_EnablePolling'', 0xc1), (''BS_ResetToZero'', 0xc2), (''BS_ACPresent'', 0xd0),
     (''BS_BatteryPresent'', 0xd1), (''BS_PowerFail'', 0xd2), (''BS_AlarmInhibited'', 0xd3), (''BS_ThermistorUnderRange'', 0xd4),
     (''BS_ThermistorHot'', 0xd5), (''BS_ThermistorCold'', 0xd6), (''BS_ThermistorOverRange'', 0xd7),
     (''BS_VoltageOutOfRange'', 0xd8), (''BS_CurrentOutOfRange'', 0xd9), (''BS_CurrentNotRegulated'', 0xda),
     (''BS_VoltageNotRegulated'', 0xdb), (''BS_MasterMode'', 0xdc), (''BS_ChargerSelectorSupport'', 0xf0),
     (''BS_ChargerSpec'', 0xf1), (''BS_Level2'', 0xf2), (''BS_Level3'', 0xf3)]"

definition numbers_BarcodeScanner_1 :: usage_numbers_table where
  "numbers_BarcodeScanner_1 = [
     (''BS_BarcodeBadgeReader'', 0x01), (''BS_BarcodeScanner'', 0x02), (''BS_DumbBarCodeScanner'', 0x03),
     (''BS_CordlessScannerBase'', 0x04), (''BS_BarCodeScannerCradle'', 0x05), (''BS_AttributeReport'', 0x10),
     (''BS_SettingsReport'', 0x11), (''BS_ScannedDataReport'', 0x12), (''BS_RawScannedDataReport'', 0x13),
     (''BS_TriggerReport'', 0x14), (''BS_StatusReport'', 0x15), (''BS_UPCEANControlReport'', 0x16),
     (''BS_EAN23LabelControlReport'', 0x17), (''BS_Code39ControlReport'', 0x18), (''BS_Interleaved2of5ControlReport'', 0x19),
     (''BS_Standard2of5ControlReport'', 0x1a), (''BS_MSIPlesseyControlReport'', 0x1b), (''BS_CodabarControlReport'', 0x1c),
     (''BS_Code128ControlReport'', 0x1d), (''BS_Misc1DControlReport'', 0x1e), (''BS_TwoDControlReport'', 0x1f),
     (''BS_AimingPointerMode'', 0x30), (''BS_BarCodePresentSensor'', 0x31), (''BS_Class1ALaser'', 0x32),
     (''BS_Class2Laser'', 0x33), (''BS_HeaterPresent'', 0x34), (''BS_ContactScanner'', 0x35),
     (''BS_ElectronicArticleSurveillanceNotification'', 0x36), (''BS_ConstantElectronicArticleSurveillance'', 0x37),
     (''BS_ErrorIndication'', 0x38), (''BS_FixedBeeper'', 0x39), (''BS_GoodDecodeIndication'', 0x3a),
     (''BS_HandsFreeScanning'', 0x3b), (''BS_IntrinsicallySafe'', 0x3c), (''BS_KlasseEinsLaser'', 0x3d),
     (''BS_LongRangeScanner'', 0x3e), (''BS_MirrorSpeedControl'', 0x3f), (''BS_NotOnFileIndication'', 0x40),
     (''BS_ProgrammableBeeper'', 0x41), (''BS_Triggerless'', 0x42), (''BS_Wand'', 0x43), (''BS_WaterResistant'', 0x44),
     (''BS_MultiRangeScanner'', 0x45), (''BS_ProximitySensor'', 0x46), (''BS_FragmentDecoding'', 0x4d),
     (''BS_ScannerReadConfidence'', 0x4e), (''BS_DataPrefix'', 0x4f), (''BS_PrefixAIMI'', 0x50), (''BS_PrefixNone'', 0x51),
     (''BS_PrefixProprietary'', 0x52), (''BS_ActiveTime'', 0x55), (''BS_AimingLaserPattern'', 0x56), (''BS_BarCodePresent'', 0x57),
     (''BS_BeeperState'', 0x58), (''BS_LaserOnTime'', 0x59), (''BS_LaserState'', 0x5a), (''BS_LockoutTime'', 0x5b),
     (''BS_MotorState'', 0x5c), (''BS_MotorTimeout'', 0x5d), (''BS_PowerOnResetScanner'', 0x5e),
     (''BS_PreventReadofBarcodes'', 0x5f), (''BS_InitiateBarcodeRead'', 0x60), (''BS_TriggerState'', 0x61),
     (''BS_TriggerMode'', 0x62), (''BS_TriggerModeBlinkingLaserOn'', 0x63), (''BS_TriggerModeContinuousLaserOn'', 0x64),
     (''BS_TriggerModeLaseronwhilePulled'', 0x65), (''BS_TriggerModeLaserstaysonafterrelease'', 0x66),
     (''BS_CommitParameterstoNVM'', 0x6d), (''BS_ParameterScanning'', 0x6e), (''BS_ParametersChanged'', 0x6f),
     (''BS_Setparameterdefaultvalues'', 0x70), (''BS_ScannerInCradle'', 0x75), (''BS_ScannerInRange'', 0x76),
     (''BS_AimDuration'', 0x7a), (''BS_GoodReadLampDuration'', 0x7b), (''BS_GoodReadLampIntensity'', 0x7c),
     (''BS_GoodReadLED'', 0x7d), (''BS_GoodReadToneFrequency'', 0x7e), (''BS_GoodReadToneLength'', 0x7f),
     (''BS_GoodReadToneVolume'', 0x80), (''BS_NoReadMessage'', 0x82), (''BS_NotonFileVolume'', 0x83), (''BS_PowerupBeep'', 0x84),
     (''BS_SoundErrorBeep'', 0x85), (''BS_SoundGoodReadBeep'', 0x86), (''BS_SoundNotOnFileBeep'', 0x87),
     (''BS_GoodReadWhentoWrite'', 0x88), (''BS_GRWTIAfterDecode'', 0x89), (''BS_GRWTIBeepLampaftertransmit'', 0x8a),
     (''BS_GRWTINoBeepLampuseatall'', 0x8b), (''BS_BooklandEAN'', 0x91), (''BS_ConvertEAN8to13Type'', 0x92),
     (''BS_ConvertUPCAtoEAN13'', 0x93), (''BS_ConvertUPCEtoA'', 0x94), (''BS_EAN13'', 0x95), (''BS_EAN8'', 0x96),
     (''BS_EAN99128Mandatory'', 0x97), (''BS_EAN99P5128Optional'', 0x98), (''BS_EnableEANTwoLabel'', 0x99), (''BS_UPCEAN'', 0x9a),
     (''BS_UPCEANCouponCode'', 0x9b), (''BS_UPCEANPeriodicals'', 0x9c), (''BS_UPCA'', 0x9d), (''BS_UPCAwith128Mandatory'', 0x9e),
     (''BS_UPCAwith128Optional'', 0x9f), (''BS_UPCAwithP5Optional'', 0xa0), (''BS_UPCE'', 0xa1), (''BS_UPCE1'', 0xa2),
     (''BS_Periodical'', 0xa9), (''BS_PeriodicalAutoDiscriminatePlus2'', 0xaa), (''BS_PeriodicalOnlyDecodewithPlus2'', 0xab),
     (''BS_PeriodicalIgnorePlus2'', 0xac), (''BS_PeriodicalAutoDiscriminatePlus5'', 0xad),
     (''BS_PeriodicalOnlyDecodewithPlus5'', 0xae), (''BS_PeriodicalIgnorePlus5'', 0xaf), (''BS_Check'', 0xb0),
     (''BS_CheckDisablePrice'', 0xb1), (''BS_CheckEnable4digitPrice'', 0xb2), (''BS_CheckEnable5digitPrice'', 0xb3),
     (''BS_CheckEnableEuropean4digitPrice'', 0xb4), (''BS_CheckEnableEuropean5digitPrice'', 0xb5), (''BS_EANTwoLabel'', 0xb7),
     (''BS_EANThreeLabel'', 0xb8), (''BS_EAN8FlagDigit1'', 0xb9), (''BS_EAN8FlagDigit2'', 0xba), (''BS_EAN8FlagDigit3'', 0xbb),
     (''BS_EAN13FlagDigit1'', 0xbc), (''BS_EAN13FlagDigit2'', 0xbd), (''BS_EAN13FlagDigit3'', 0xbe),
     (''BS_AddEAN23LabelDefinition'', 0xbf), (''BS_ClearallEAN23LabelDefinitions'', 0xc0), (''BS_Codabar'', 0xc3),
     (''BS_Code128'', 0xc4), (''BS_Code39'', 0xc7), (''BS_Code93'', 0xc8), (''BS_FullASCIIConversion'', 0xc9),
     (''BS_Interleaved2of5'', 0xca), (''BS_ItalianPharmacyCode'', 0xcb), (''BS_MSIPlessey'', 0xcc),
     (''BS_Standard2of5IATA'', 0xcd), (''BS_Standard2of5'', 0xce), (''BS_TransmitStartStop'', 0xd3), (''BS_TriOptic'', 0xd4),
     (''BS_UCCEAN128'', 0xd5), (''BS_CheckDigit'', 0xd6), (''BS_CheckDigitDisable'', 0xd7),
     (''BS_CheckDigitEnableInterleaved2of5OPCC'', 0xd8), (''BS_CheckDigitEnableInterleaved2of5USS'', 0xd9),
     (''BS_CheckDigitEnableStandard2of5OPCC'', 0xda)]"

definition numbers_BarcodeScanner_2 :: usage_numbers_table where
  "numbers_BarcodeScanner_2 = [
     (''BS_CheckDigitEnableStandard2of5USS'', 0xdb), (''BS_CheckDigitEnableOneMSIPlessey'', 0xdc),
     (''BS_CheckDigitEnableTwoMSIPlessey'', 0xdd), (''BS_CheckDigitCodabarEnable'', 0xde), (''BS_CheckDigitCode39Enable'', 0xdf),
     (''BS_TransmitCheckDigit'', 0xf0), (''BS_DisableCheckDigitTransmit'', 0xf1), (''BS_EnableCheckDigitTransmit'', 0xf2),
     (''BS_SymbologyIdentifier1'', 0xfb), (''BS_SymbologyIdentifier2'', 0xfc), (''BS_SymbologyIdentifier3'', 0xfd),
     (''BS_DecodedData'', 0xfe), (''BS_DecodeDataContinued'', 0xff), (''BS_BarSpaceData'', 0x100),
     (''BS_ScannerDataAccuracy'', 0x101), (''BS_RawDataPolarity'', 0x102), (''BS_PolarityInvertedBarCode'', 0x103),
     (''BS_PolarityNormalBarCode'', 0x104), (''BS_MinimumLengthtoDecode'', 0x106), (''BS_MaximumLengthtoDecode'', 0x107),
     (''BS_DiscreteLengthtoDecode1'', 0x108), (''BS_DiscreteLengthtoDecode2'', 0x109), (''BS_DataLengthMethod'', 0x10a),
     (''BS_DLMethodReadany'', 0x10b), (''BS_DLMethodCheckinRange'', 0x10c), (''BS_DLMethodCheckforDiscrete'', 0x10d),
     (''BS_AztecCode'', 0x110), (''BS_BC412'', 0x111), (''BS_ChannelCode'', 0x112), (''BS_Code16'', 0x113), (''BS_Code32'', 0x114),
     (''BS_Code49'', 0x115), (''BS_CodeOne'', 0x116), (''BS_Colorcode'', 0x117), (''BS_DataMatrix'', 0x118),
     (''BS_MaxiCode'', 0x119), (''BS_MicroPDF'', 0x11a), (''BS_PDF417'', 0x11b), (''BS_PosiCode'', 0x11c), (''BS_QRCode'', 0x11d),
     (''BS_SuperCode'', 0x11e), (''BS_UltraCode'', 0x11f), (''BS_USD5SlugCode'', 0x120), (''BS_VeriCode'', 0x121)]"

definition numbers_BarcodeScanner :: usage_numbers_table where
  "numbers_BarcodeScanner = numbers_BarcodeScanner_1 @ numbers_BarcodeScanner_2"

definition numbers_Scales :: usage_numbers_table where
  "numbers_Scales = [
     (''Sca_Scales'', 0x01), (''Sca_ScaleDevice'', 0x20), (''Sca_ScaleClass'', 0x21), (''Sca_ScaleClassIMetric'', 0x22),
     (''Sca_ScaleClassIIMetric'', 0x23), (''Sca_ScaleClassIIIMetric'', 0x24), (''Sca_ScaleClassIIILMetric'', 0x25),
     (''Sca_ScaleClassIVMetric'', 0x26), (''Sca_ScaleClassIIIEnglish'', 0x27), (''Sca_ScaleClassIIILEnglish'', 0x28),
     (''Sca_ScaleClassIVEnglish'', 0x29), (''Sca_ScaleClassGeneric'', 0x2a), (''Sca_ScaleAttributeReport'', 0x30),
     (''Sca_ScaleControlReport'', 0x31), (''Sca_ScaleDataReport'', 0x32), (''Sca_ScaleStatusReport'', 0x33),
     (''Sca_ScaleWeightLimitReport'', 0x34), (''Sca_ScaleStatisticsReport'', 0x35), (''Sca_DataWeight'', 0x40),
     (''Sca_DataScaling'', 0x41), (''Sca_WeightUnit'', 0x50), (''Sca_WeightUnitMilligram'', 0x51), (''Sca_WeightUnitGram'', 0x52),
     (''Sca_WeightUnitKilogram'', 0x53), (''Sca_WeightUnitCarats'', 0x54), (''Sca_WeightUnitTaels'', 0x55),
     (''Sca_WeightUnitGrains'', 0x56), (''Sca_WeightUnitPennyweights'', 0x57), (''Sca_WeightUnitMetricTon'', 0x58),
     (''Sca_WeightUnitAvoirTon'', 0x59), (''Sca_WeightUnitTroyOunce'', 0x5a), (''Sca_WeightUnitOunce'', 0x5b),
     (''Sca_WeightUnitPound'', 0x5c), (''Sca_CalibrationCount'', 0x60), (''Sca_ReZeroCount'', 0x61), (''Sca_ScaleStatus'', 0x70),
     (''Sca_ScaleStatusFault'', 0x71), (''Sca_ScaleStatusStableatCenterofZero'', 0x72), (''Sca_ScaleStatusInMotion'', 0x73),
     (''Sca_ScaleStatusWeightStable'', 0x74), (''Sca_ScaleStatusUnderZero'', 0x75), (''Sca_ScaleStatusOverWeightLimit'', 0x76),
     (''Sca_ScaleStatusRequiresCalibration'', 0x77), (''Sca_ScaleStatusRequiresRezeroing'', 0x78), (''Sca_ZeroScale'', 0x80),
     (''Sca_EnforcedZeroReturn'', 0x81)]"

definition numbers_MagneticStripeReader :: usage_numbers_table where
  "numbers_MagneticStripeReader = [
     (''MSR_MSRDeviceReadOnly'', 0x01), (''MSR_Track1Length'', 0x11), (''MSR_Track2Length'', 0x12), (''MSR_Track3Length'', 0x13),
     (''MSR_TrackJISLength'', 0x14), (''MSR_TrackData'', 0x20), (''MSR_Track1Data'', 0x21), (''MSR_Track2Data'', 0x22),
     (''MSR_Track3Data'', 0x23), (''MSR_TrackJISData'', 0x24)]"

definition numbers_CameraControl :: usage_numbers_table where
  "numbers_CameraControl = [
     (''CC_CameraAutofocus'', 0x20), (''CC_CameraShutter'', 0x21)]"

definition numbers_Arcade :: usage_numbers_table where
  "numbers_Arcade = [
     (''Arc_GeneralPurposeIOCard'', 0x01), (''Arc_CoinDoor'', 0x02), (''Arc_WatchdogTimer'', 0x03),
     (''Arc_GeneralPurposeAnalogInputState'', 0x30), (''Arc_GeneralPurposeDigitalInputState'', 0x31),
     (''Arc_GeneralPurposeOpticalInputState'', 0x32), (''Arc_GeneralPurposeDigitalOutputState'', 0x33),
     (''Arc_NumberofCoinDoors'', 0x34), (''Arc_CoinDrawerDropCount'', 0x35), (''Arc_CoinDrawerStart'', 0x36),
     (''Arc_CoinDrawerService'', 0x37), (''Arc_CoinDrawerTilt'', 0x38), (''Arc_CoinDoorTest'', 0x39),
     (''Arc_CoinDoorLockout'', 0x40), (''Arc_WatchdogTimeout'', 0x41), (''Arc_WatchdogAction'', 0x42),
     (''Arc_WatchdogReboot'', 0x43), (''Arc_WatchdogRestart'', 0x44), (''Arc_AlarmInput'', 0x45), (''Arc_CoinDoorCounter'', 0x46),
     (''Arc_IODirectionMapping'', 0x47), (''Arc_SetIODirectionMapping'', 0x48), (''Arc_ExtendedOpticalInputState'', 0x49),
     (''Arc_PinPadInputState'', 0x4a), (''Arc_PinPadStatus'', 0x4b), (''Arc_PinPadOutput'', 0x4c), (''Arc_PinPadCommand'', 0x4d)]"

definition numbers_FIDOAlliance :: usage_numbers_table where
  "numbers_FIDOAlliance = [
     (''FIDOA_U2FAuthenticatorDevice'', 0x01), (''FIDOA_InputReportData'', 0x20), (''FIDOA_OutputReportData'', 0x21)]"

definition usage_numbers :: "(string \<times> usage_numbers_table) list" where
  "usage_numbers = [
     (''GenericDesktop'', numbers_GenericDesktop), (''SimulationControls'', numbers_SimulationControls),
     (''VRControls'', numbers_VRControls), (''SportControls'', numbers_SportControls), (''GameControls'', numbers_GameControls),
     (''GenericDeviceControls'', numbers_GenericDeviceControls), (''KeyboardKeypad'', numbers_KeyboardKeypad),
     (''LED'', numbers_LED), (''TelephonyDevice'', numbers_TelephonyDevice), (''Consumer'', numbers_Consumer),
     (''Digitizers'', numbers_Digitizers), (''Haptics'', numbers_Haptics), (''PhysicalInputDevice'', numbers_PhysicalInputDevice),
     (''SoC'', numbers_SoC), (''EyeandHeadTrackers'', numbers_EyeandHeadTrackers),
     (''AuxiliaryDisplay'', numbers_AuxiliaryDisplay), (''Sensors'', numbers_Sensors),
     (''MedicalInstrument'', numbers_MedicalInstrument), (''BrailleDisplay'', numbers_BrailleDisplay),
     (''LightingAndIllumination'', numbers_LightingAndIllumination), (''Monitor'', numbers_Monitor),
     (''VESAVirtualControls'', numbers_VESAVirtualControls), (''Power'', numbers_Power),
     (''BatterySystem'', numbers_BatterySystem), (''BarcodeScanner'', numbers_BarcodeScanner), (''Scales'', numbers_Scales),
     (''MagneticStripeReader'', numbers_MagneticStripeReader), (''CameraControl'', numbers_CameraControl),
     (''Arcade'', numbers_Arcade), (''FIDOAlliance'', numbers_FIDOAlliance)]"

end
