(* ===== verification/Usage_Macros.thy ===== *)
theory Usage_Macros
  imports Report_Macros
begin

text \<open>
  The generated usage pages and usages of \<open>hid_report_helpers.h\<close>, the macros report descriptors are written with. An entry
  is the name of a macro without its prefix \<open>UsagePage_\<close> or \<open>Usage_\<close>, and what it expands to.
\<close>

type_synonym usage_macros_table = "(string \<times> initializer) list"

definition page_macros :: usage_macros_table where
  "page_macros = [
     (''GenericDesktop'', UsagePage_i8 0x1), (''SimulationControls'', UsagePage_i8 0x2), (''VRControls'', UsagePage_i8 0x3),
     (''SportControls'', UsagePage_i8 0x4), (''GameControls'', UsagePage_i8 0x5), (''GenericDeviceControls'', UsagePage_i8 0x6),
     (''KeyboardKeypad'', UsagePage_i8 0x7), (''LED'', UsagePage_i8 0x8), (''Button'', UsagePage_i8 0x9),
     (''Ordinal'', UsagePage_i8 0xa), (''TelephonyDevice'', UsagePage_i8 0xb), (''Consumer'', UsagePage_i8 0xc),
     (''Digitizers'', UsagePage_i8 0xd), (''Haptics'', UsagePage_i8 0xe), (''PhysicalInputDevice'', UsagePage_i8 0xf),
     (''Unicode'', UsagePage_i8 0x10), (''SoC'', UsagePage_i8 0x11), (''EyeandHeadTrackers'', UsagePage_i8 0x12),
     (''AuxiliaryDisplay'', UsagePage_i8 0x14), (''Sensors'', UsagePage_i8 0x20), (''MedicalInstrument'', UsagePage_i8 0x40),
     (''BrailleDisplay'', UsagePage_i8 0x41), (''LightingAndIllumination'', UsagePage_i8 0x59), (''Monitor'', UsagePage_i8 0x80),
     (''MonitorEnumerated'', UsagePage_i8 0x81), (''VESAVirtualControls'', UsagePage_i8 0x82), (''Power'', UsagePage_i8 0x84),
     (''BatterySystem'', UsagePage_i8 0x85), (''BarcodeScanner'', UsagePage_i8 0x8c), (''Scales'', UsagePage_i8 0x8d),
     (''MagneticStripeReader'', UsagePage_i8 0x8e), (''CameraControl'', UsagePage_i8 0x90), (''Arcade'', UsagePage_i8 0x91),
     (''FIDOAlliance'', UsagePage_i16 0xf1d0)]"

definition macros_GenericDesktop :: usage_macros_table where
  "macros_GenericDesktop = [
     (''GD_Pointer'', Usage_i8 0x1), (''GD_Mouse'', Usage_i8 0x2), (''GD_Joystick'', Usage_i8 0x4), (''GD_Gamepad'', Usage_i8 0x5),
     (''GD_Keyboard'', Usage_i8 0x6), (''GD_Keypad'', Usage_i8 0x7), (''GD_MultiaxisController'', Usage_i8 0x8),
     (''GD_TabletPCSystemControls'', Usage_i8 0x9), (''GD_WaterCoolingDevice'', Usage_i8 0xa),
     (''GD_ComputerChassisDevice'', Usage_i8 0xb), (''GD_WirelessRadioControls'', Usage_i8 0xc),
     (''GD_PortableDeviceControl'', Usage_i8 0xd), (''GD_SystemMultiAxisController'', Usage_i8 0xe),
     (''GD_SpatialController'', Usage_i8 0xf), (''GD_AssistiveControl'', Usage_i8 0x10), (''GD_DeviceDock'', Usage_i8 0x11),
     (''GD_DockableDevice'', Usage_i8 0x12), (''GD_CallStateManagementControl'', Usage_i8 0x13), (''GD_X'', Usage_i8 0x30),
     (''GD_Y'', Usage_i8 0x31), (''GD_Z'', Usage_i8 0x32), (''GD_Rx'', Usage_i8 0x33), (''GD_Ry'', Usage_i8 0x34),
     (''GD_Rz'', Usage_i8 0x35), (''GD_Slider'', Usage_i8 0x36), (''GD_Dial'', Usage_i8 0x37), (''GD_Wheel'', Usage_i8 0x38),
     (''GD_HatSwitch'', Usage_i8 0x39), (''GD_CountedBuffer'', Usage_i8 0x3a), (''GD_ByteCount'', Usage_i8 0x3b),
     (''GD_MotionWakeup'', Usage_i8 0x3c), (''GD_Start'', Usage_i8 0x3d), (''GD_Select'', Usage_i8 0x3e),
     (''GD_Vx'', Usage_i8 0x40), (''GD_Vy'', Usage_i8 0x41), (''GD_Vz'', Usage_i8 0x42), (''GD_Vbrx'', Usage_i8 0x43),
     (''GD_Vbry'', Usage_i8 0x44), (''GD_Vbrz'', Usage_i8 0x45), (''GD_Vno'', Usage_i8 0x46),
     (''GD_FeatureNotification'', Usage_i8 0x47), (''GD_ResolutionMultiplier'', Usage_i8 0x48), (''GD_Qx'', Usage_i8 0x49),
     (''GD_Qy'', Usage_i8 0x4a), (''GD_Qz'', Usage_i8 0x4b), (''GD_Qw'', Usage_i8 0x4c), (''GD_SystemControl'', Usage_i8 0x80),
     (''GD_SystemPowerDown'', Usage_i8 0x81), (''GD_SystemSleep'', Usage_i8 0x82), (''GD_SystemWakeUp'', Usage_i8 0x83),
     (''GD_SystemContextMenu'', Usage_i8 0x84), (''GD_SystemMainMenu'', Usage_i8 0x85), (''GD_SystemAppMenu'', Usage_i8 0x86),
     (''GD_SystemMenuHelp'', Usage_i8 0x87), (''GD_SystemMenuExit'', Usage_i8 0x88), (''GD_SystemMenuSelect'', Usage_i8 0x89),
     (''GD_SystemMenuRight'', Usage_i8 0x8a), (''GD_SystemMenuLeft'', Usage_i8 0x8b), (''GD_SystemMenuUp'', Usage_i8 0x8c),
     (''GD_SystemMenuDown'', Usage_i8 0x8d), (''GD_SystemColdRestart'', Usage_i8 0x8e), (''GD_SystemWarmRestart'', Usage_i8 0x8f),
     (''GD_DpadUp'', Usage_i8 0x90), (''GD_DpadDown'', Usage_i8 0x91), (''GD_DpadRight'', Usage_i8 0x92),
     (''GD_DpadLeft'', Usage_i8 0x93), (''GD_IndexTrigger'', Usage_i8 0x94), (''GD_PalmTrigger'', Usage_i8 0x95),
     (''GD_Thumbstick'', Usage_i8 0x96), (''GD_SystemFunctionShift'', Usage_i8 0x97),
     (''GD_SystemFunctionShiftLock'', Usage_i8 0x98), (''GD_SystemFunctionShiftLockIndicator'', Usage_i8 0x99),
     (''GD_SystemDismissNotification'', Usage_i8 0x9a), (''GD_SystemDoNotDisturb'', Usage_i8 0x9b),
     (''GD_SystemDock'', Usage_i8 0xa0), (''GD_SystemUndock'', Usage_i8 0xa1), (''GD_SystemSetup'', Usage_i8 0xa2),
     (''GD_SystemBreak'', Usage_i8 0xa3), (''GD_SystemDebuggerBreak'', Usage_i8 0xa4), (''GD_ApplicationBreak'', Usage_i8 0xa5),
     (''GD_ApplicationDebuggerBreak'', Usage_i8 0xa6), (''GD_SystemSpeakerMute'', Usage_i8 0xa7),
     (''GD_SystemHibernate'', Usage_i8 0xa8), (''GD_SystemMicrophoneMute'', Usage_i8 0xa9),
     (''GD_SystemAccessibilityBinding'', Usage_i8 0xaa), (''GD_SystemDisplayInvert'', Usage_i8 0xb0),
     (''GD_SystemDisplayInternal'', Usage_i8 0xb1), (''GD_SystemDisplayExternal'', Usage_i8 0xb2),
     (''GD_SystemDisplayBoth'', Usage_i8 0xb3), (''GD_SystemDisplayDual'', Usage_i8 0xb4),
     (''GD_SystemDisplayToggleIntExtMode'', Usage_i8 0xb5), (''GD_SystemDisplaySwapPrimarySecondary'', Usage_i8 0xb6),
     (''GD_SystemDisplayToggleLCDAutoscale'', Usage_i8 0xb7), (''GD_SensorZone'', Usage_i8 0xc0), (''GD_RPM'', Usage_i8 0xc1),
     (''GD_CoolantLevel'', Usage_i8 0xc2), (''GD_CoolantCriticalLevel'', Usage_i8 0xc3), (''GD_CoolantPump'', Usage_i8 0xc4),
     (''GD_ChassisEnclosure'', Usage_i8 0xc5), (''GD_WirelessRadioButton'', Usage_i8 0xc6),
     (''GD_WirelessRadioLED'', Usage_i8 0xc7), (''GD_WirelessRadioSliderSwitch'', Usage_i8 0xc8),
     (''GD_SystemDisplayRotationLockButton'', Usage_i8 0xc9), (''GD_SystemDisplayRotationLockSliderSwitch'', Usage_i8 0xca),
     (''GD_ControlEnable'', Usage_i8 0xcb), (''GD_DockableDeviceUniqueID'', Usage_i8 0xd0),
     (''GD_DockableDeviceVendorID'', Usage_i8 0xd1), (''GD_DockableDevicePrimaryUsagePage'', Usage_i8 0xd2),
     (''GD_DockableDevicePrimaryUsageID'', Usage_i8 0xd3), (''GD_DockableDeviceDockingState'', Usage_i8 0xd4),
     (''GD_DockableDeviceDisplayOcclusion'', Usage_i8 0xd5), (''GD_DockableDeviceObjectType'', Usage_i8 0xd6),
     (''GD_CallActiveLED'', Usage_i8 0xe0), (''GD_CallMuteToggle'', Usage_i8 0xe1), (''GD_CallMuteLED'', Usage_i8 0xe2)]"

definition macros_SimulationControls :: usage_macros_table where
  "macros_SimulationControls = [
     (''SC_FlightSimulationDevice'', Usage_i8 0x1), (''SC_AutomobileSimulationDevice'', Usage_i8 0x2),
     (''SC_TankSimulationDevice'', Usage_i8 0x3), (''SC_SpaceshipSimulationDevice'', Usage_i8 0x4),
     (''SC_SubmarineSimulationDevice'', Usage_i8 0x5), (''SC_SailingSimulationDevice'', Usage_i8 0x6),
     (''SC_MotorcycleSimulationDevice'', Usage_i8 0x7), (''SC_SportsSimulationDevice'', Usage_i8 0x8),
     (''SC_AirplaneSimulationDevice'', Usage_i8 0x9), (''SC_HelicopterSimulationDevice'', Usage_i8 0xa),
     (''SC_MagicCarpetSimulationDevice'', Usage_i8 0xb), (''SC_BicycleSimulationDevice'', Usage_i8 0xc),
     (''SC_FlightControlStick'', Usage_i8 0x20), (''SC_FlightStick'', Usage_i8 0x21), (''SC_CyclicControl'', Usage_i8 0x22),
     (''SC_CyclicTrim'', Usage_i8 0x23), (''SC_FlightYoke'', Usage_i8 0x24), (''SC_TrackControl'', Usage_i8 0x25),
     (''SC_Aileron'', Usage_i8 0xb0), (''SC_AileronTrim'', Usage_i8 0xb1), (''SC_AntiTorqueControl'', Usage_i8 0xb2),
     (''SC_AutopilotEnable'', Usage_i8 0xb3), (''SC_ChaffRelease'', Usage_i8 0xb4), (''SC_CollectiveControl'', Usage_i8 0xb5),
     (''SC_DiveBrake'', Usage_i8 0xb6), (''SC_ElectronicCountermeasures'', Usage_i8 0xb7), (''SC_Elevator'', Usage_i8 0xb8),
     (''SC_ElevatorTrim'', Usage_i8 0xb9), (''SC_Rudder'', Usage_i8 0xba), (''SC_Throttle'', Usage_i8 0xbb),
     (''SC_FlightCommunications'', Usage_i8 0xbc), (''SC_FlareRelease'', Usage_i8 0xbd), (''SC_LandingGear'', Usage_i8 0xbe),
     (''SC_ToeBrake'', Usage_i8 0xbf), (''SC_Trigger'', Usage_i8 0xc0), (''SC_WeaponsArm'', Usage_i8 0xc1),
     (''SC_WeaponsSelect'', Usage_i8 0xc2), (''SC_WingFlaps'', Usage_i8 0xc3), (''SC_Accelerator'', Usage_i8 0xc4),
     (''SC_Brake'', Usage_i8 0xc5), (''SC_Clutch'', Usage_i8 0xc6), (''SC_Shifter'', Usage_i8 0xc7),
     (''SC_Steering'', Usage_i8 0xc8), (''SC_TurretDirection'', Usage_i8 0xc9), (''SC_BarrelElevation'', Usage_i8 0xca),
     (''SC_DivePlane'', Usage_i8 0xcb), (''SC_Ballast'', Usage_i8 0xcc), (''SC_BicycleCrank'', Usage_i8 0xcd),
     (''SC_HandleBars'', Usage_i8 0xce), (''SC_FrontBrake'', Usage_i8 0xcf), (''SC_RearBrake'', Usage_i8 0xd0)]"

definition macros_VRControls :: usage_macros_table where
  "macros_VRControls = [
     (''VRC_Belt'', Usage_i8 0x1), (''VRC_BodySuit'', Usage_i8 0x2), (''VRC_Flexor'', Usage_i8 0x3), (''VRC_Glove'', Usage_i8 0x4),
     (''VRC_HeadTracker'', Usage_i8 0x5), (''VRC_HeadMountedDisplay'', Usage_i8 0x6), (''VRC_HandTracker'', Usage_i8 0x7),
     (''VRC_Oculometer'', Usage_i8 0x8), (''VRC_Vest'', Usage_i8 0x9), (''VRC_AnimatronicDevice'', Usage_i8 0xa),
     (''VRC_StereoEnable'', Usage_i8 0x20), (''VRC_DisplayEnable'', Usage_i8 0x21)]"

definition macros_SportControls :: usage_macros_table where
  "macros_SportControls = [
     (''SC_BaseballBat'', Usage_i8 0x1), (''SC_GolfClub'', Usage_i8 0x2), (''SC_RowingMachine'', Usage_i8 0x3),
     (''SC_Treadmill'', Usage_i8 0x4), (''SC_Oar'', Usage_i8 0x30), (''SC_Slope'', Usage_i8 0x31), (''SC_Rate'', Usage_i8 0x32),
     (''SC_StickSpeed'', Usage_i8 0x33), (''SC_StickFaceAngle'', Usage_i8 0x34), (''SC_StickHeelToe'', Usage_i8 0x35),
     (''SC_StickFollowThrough'', Usage_i8 0x36), (''SC_StickTempo'', Usage_i8 0x37), (''SC_StickType'', Usage_i8 0x38),
     (''SC_StickHeight'', Usage_i8 0x39), (''SC_Putter'', Usage_i8 0x50), (''SC_OneIron'', Usage_i8 0x51),
     (''SC_TwoIron'', Usage_i8 0x52), (''SC_ThreeIron'', Usage_i8 0x53), (''SC_FourIron'', Usage_i8 0x54),
     (''SC_FiveIron'', Usage_i8 0x55), (''SC_SixIron'', Usage_i8 0x56), (''SC_SevenIron'', Usage_i8 0x57),
     (''SC_EightIron'', Usage_i8 0x58), (''SC_NineIron'', Usage_i8 0x59), (''SC_One0Iron'', Usage_i8 0x5a),
     (''SC_One1Iron'', Usage_i8 0x5b), (''SC_SandWedge'', Usage_i8 0x5c), (''SC_LoftWedge'', Usage_i8 0x5d),
     (''SC_PowerWedge'', Usage_i8 0x5e), (''SC_OneWood'', Usage_i8 0x5f), (''SC_ThreeWood'', Usage_i8 0x60),
     (''SC_FiveWood'', Usage_i8 0x61), (''SC_SevenWood'', Usage_i8 0x62), (''SC_NineWood'', Usage_i8 0x63)]"

definition macros_GameControls :: usage_macros_table where
  "macros_GameControls = [
     (''GC_ThreeDGameController'', Usage_i8 0x1), (''GC_PinballDevice'', Usage_i8 0x2), (''GC_GunDevice'', Usage_i8 0x3),
     (''GC_PointofView'', Usage_i8 0x20), (''GC_TurnRightLeft'', Usage_i8 0x21), (''GC_PitchForwardBackward'', Usage_i8 0x22),
     (''GC_RollRightLeft'', Usage_i8 0x23), (''GC_MoveRightLeft'', Usage_i8 0x24), (''GC_MoveForwardBackward'', Usage_i8 0x25),
     (''GC_MoveUpDown'', Usage_i8 0x26), (''GC_LeanRightLeft'', Usage_i8 0x27), (''GC_LeanForwardBackward'', Usage_i8 0x28),
     (''GC_HeightofPOV'', Usage_i8 0x29), (''GC_Flipper'', Usage_i8 0x2a), (''GC_SecondaryFlipper'', Usage_i8 0x2b),
     (''GC_Bump'', Usage_i8 0x2c), (''GC_NewGame'', Usage_i8 0x2d), (''GC_ShootBall'', Usage_i8 0x2e),
     (''GC_Player'', Usage_i8 0x2f), (''GC_GunBolt'', Usage_i8 0x30), (''GC_GunClip'', Usage_i8 0x31),
     (''GC_GunSelector'', Usage_i8 0x32), (''GC_GunSingleShot'', Usage_i8 0x33), (''GC_GunBurst'', Usage_i8 0x34),
     (''GC_GunAutomatic'', Usage_i8 0x35), (''GC_GunSafety'', Usage_i8 0x36), (''GC_GamepadFireJump'', Usage_i8 0x37),
     (''GC_GamepadTrigger'', Usage_i8 0x39), (''GC_FormfittingGamepad'', Usage_i8 0x3a)]"

definition macros_GenericDeviceControls :: usage_macros_table where
  "macros_GenericDeviceControls = [
     (''GDC_BackgroundNonuserControls'', Usage_i8 0x1), (''GDC_BatteryStrength'', Usage_i8 0x20),
     (''GDC_WirelessChannel'', Usage_i8 0x21), (''GDC_WirelessID'', Usage_i8 0x22),
     (''GDC_DiscoverWirelessControl'', Usage_i8 0x23), (''GDC_SecurityCodeCharacterEntered'', Usage_i8 0x24),
     (''GDC_SecurityCodeCharacterErased'', Usage_i8 0x25), (''GDC_SecurityCodeCleared'', Usage_i8 0x26),
     (''GDC_SequenceID'', Usage_i8 0x27), (''GDC_SequenceIDReset'', Usage_i8 0x28), (''GDC_RFSignalStrength'', Usage_i8 0x29),
     (''GDC_SoftwareVersion'', Usage_i8 0x2a), (''GDC_ProtocolVersion'', Usage_i8 0x2b), (''GDC_HardwareVersion'', Usage_i8 0x2c),
     (''GDC_Major'', Usage_i8 0x2d), (''GDC_Minor'', Usage_i8 0x2e), (''GDC_Revision'', Usage_i8 0x2f),
     (''GDC_Handedness'', Usage_i8 0x30), (''GDC_EitherHand'', Usage_i8 0x31), (''GDC_LeftHand'', Usage_i8 0x32),
     (''GDC_RightHand'', Usage_i8 0x33), (''GDC_BothHands'', Usage_i8 0x34), (''GDC_GripPoseOffset'', Usage_i8 0x40),
     (''GDC_PointerPoseOffset'', Usage_i8 0x41)]"

definition macros_KeyboardKeypad_1 :: usage_macros_table where
  "macros_KeyboardKeypad_1 = [
     (''KK_ErrorRollOver'', Usage_i8 0x1), (''KK_POSTFail'', Usage_i8 0x2), (''KK_ErrorUndefined'', Usage_i8 0x3),
     (''KK_KeyboardA'', Usage_i8 0x4), (''KK_KeyboardB'', Usage_i8 0x5), (''KK_KeyboardC'', Usage_i8 0x6),
     (''KK_KeyboardD'', Usage_i8 0x7), (''KK_KeyboardE'', Usage_i8 0x8), (''KK_KeyboardF'', Usage_i8 0x9),
     (''KK_KeyboardG'', Usage_i8 0xa), (''KK_KeyboardH'', Usage_i8 0xb), (''KK_KeyboardI'', Usage_i8 0xc),
     (''KK_KeyboardJ'', Usage_i8 0xd), (''KK_KeyboardK'', Usage_i8 0xe), (''KK_KeyboardL'', Usage_i8 0xf),
     (''KK_KeyboardM'', Usage_i8 0x10), (''KK_KeyboardN'', Usage_i8 0x11), (''KK_KeyboardO'', Usage_i8 0x12),
     (''KK_KeyboardP'', Usage_i8 0x13), (''KK_KeyboardQ'', Usage_i8 0x14), (''KK_KeyboardR'', Usage_i8 0x15),
     (''KK_KeyboardS'', Usage_i8 0x16), (''KK_KeyboardT'', Usage_i8 0x17), (''KK_KeyboardU'', Usage_i8 0x18),
     (''KK_KeyboardV'', Usage_i8 0x19), (''KK_KeyboardW'', Usage_i8 0x1a), (''KK_KeyboardX'', Usage_i8 0x1b),
     (''KK_KeyboardY'', Usage_i8 0x1c), (''KK_KeyboardZ'', Usage_i8 0x1d), (''KK_Keyboard1andBang'', Usage_i8 0x1e),
     (''KK_Keyboard2andAt'', Usage_i8 0x1f), (''KK_Keyboard3andHash'', Usage_i8 0x20), (''KK_Keyboard4andDollar'', Usage_i8 0x21),
     (''KK_Keyboard5andPercent'', Usage_i8 0x22), (''KK_Keyboard6andCaret'', Usage_i8 0x23),
     (''KK_Keyboard7andAmpersand'', Usage_i8 0x24), (''KK_Keyboard8andStar'', Usage_i8 0x25),
     (''KK_Keyboard9andLeftBracket'', Usage_i8 0x26), (''KK_Keyboard0andRightBracket'', Usage_i8 0x27),
     (''KK_KeyboardReturnEnter'', Usage_i8 0x28), (''KK_KeyboardEscape'', Usage_i8 0x29), (''KK_KeyboardDelete'', Usage_i8 0x2a),
     (''KK_KeyboardTab'', Usage_i8 0x2b), (''KK_KeyboardSpacebar'', Usage_i8 0x2c),
     (''KK_KeyboardDashandUnderscore'', Usage_i8 0x2d), (''KK_KeyboardEqualsandPlus'', Usage_i8 0x2e),
     (''KK_KeyboardLeftBrace'', Usage_i8 0x2f), (''KK_KeyboardRightBrace'', Usage_i8 0x30),
     (''KK_KeyboardBackslashandPipe'', Usage_i8 0x31), (''KK_KeyboardNonUSHashandTilde'', Usage_i8 0x32),
     (''KK_KeyboardSemiColonandColon'', Usage_i8 0x33), (''KK_KeyboardLeftAposandDouble'', Usage_i8 0x34),
     (''KK_KeyboardGraveAccentandTilde'', Usage_i8 0x35), (''KK_KeyboardCommaandLessThan'', Usage_i8 0x36),
     (''KK_KeyboardPeriodandGreaterThan'', Usage_i8 0x37), (''KK_KeyboardForwardSlashandQuestionMark'', Usage_i8 0x38),
     (''KK_KeyboardCapsLock'', Usage_i8 0x39), (''KK_KeyboardF1'', Usage_i8 0x3a), (''KK_KeyboardF2'', Usage_i8 0x3b),
     (''KK_KeyboardF3'', Usage_i8 0x3c), (''KK_KeyboardF4'', Usage_i8 0x3d), (''KK_KeyboardF5'', Usage_i8 0x3e),
     (''KK_KeyboardF6'', Usage_i8 0x3f), (''KK_KeyboardF7'', Usage_i8 0x40), (''KK_KeyboardF8'', Usage_i8 0x41),
     (''KK_KeyboardF9'', Usage_i8 0x42), (''KK_KeyboardF10'', Usage_i8 0x43), (''KK_KeyboardF11'', Usage_i8 0x44),
     (''KK_KeyboardF12'', Usage_i8 0x45), (''KK_KeyboardPrintScreen'', Usage_i8 0x46), (''KK_KeyboardScrollLock'', Usage_i8 0x47),
     (''KK_KeyboardPause'', Usage_i8 0x48), (''KK_KeyboardInsert'', Usage_i8 0x49), (''KK_KeyboardHome'', Usage_i8 0x4a),
     (''KK_KeyboardPageUp'', Usage_i8 0x4b), (''KK_KeyboardDeleteForward'', Usage_i8 0x4c), (''KK_KeyboardEnd'', Usage_i8 0x4d),
     (''KK_KeyboardPageDown'', Usage_i8 0x4e), (''KK_KeyboardRightArrow'', Usage_i8 0x4f),
     (''KK_KeyboardLeftArrow'', Usage_i8 0x50), (''KK_KeyboardDownArrow'', Usage_i8 0x51), (''KK_KeyboardUpArrow'', Usage_i8 0x52),
     (''KK_KeypadNumLockandClear'', Usage_i8 0x53), (''KK_KeypadForwardSlash'', Usage_i8 0x54), (''KK_KeypadStar'', Usage_i8 0x55),
     (''KK_KeypadDash'', Usage_i8 0x56), (''KK_KeypadPlus'', Usage_i8 0x57), (''KK_KeypadENTER'', Usage_i8 0x58),
     (''KK_Keypad1andEnd'', Usage_i8 0x59), (''KK_Keypad2andDownArrow'', Usage_i8 0x5a), (''KK_Keypad3andPageDn'', Usage_i8 0x5b),
     (''KK_Keypad4andLeftArrow'', Usage_i8 0x5c), (''KK_Keypad5'', Usage_i8 0x5d), (''KK_Keypad6andRightArrow'', Usage_i8 0x5e),
     (''KK_Keypad7andHome'', Usage_i8 0x5f), (''KK_Keypad8andUpArrow'', Usage_i8 0x60), (''KK_Keypad9andPageUp'', Usage_i8 0x61),
     (''KK_Keypad0andInsert'', Usage_i8 0x62), (''KK_KeypadPeriodandDelete'', Usage_i8 0x63),
     (''KK_KeyboardNonUSBackslashandPipe'', Usage_i8 0x64), (''KK_KeyboardApplication'', Usage_i8 0x65),
     (''KK_KeyboardPower'', Usage_i8 0x66), (''KK_KeypadEquals'', Usage_i8 0x67), (''KK_KeyboardF13'', Usage_i8 0x68),
     (''KK_KeyboardF14'', Usage_i8 0x69), (''KK_KeyboardF15'', Usage_i8 0x6a), (''KK_KeyboardF16'', Usage_i8 0x6b),
     (''KK_KeyboardF17'', Usage_i8 0x6c), (''KK_KeyboardF18'', Usage_i8 0x6d), (''KK_KeyboardF19'', Usage_i8 0x6e),
     (''KK_KeyboardF20'', Usage_i8 0x6f), (''KK_KeyboardF21'', Usage_i8 0x70), (''KK_KeyboardF22'', Usage_i8 0x71),
     (''KK_KeyboardF23'', Usage_i8 0x72), (''KK_KeyboardF24'', Usage_i8 0x73), (''KK_KeyboardExecute'', Usage_i8 0x74),
     (''KK_KeyboardHelp'', Usage_i8 0x75), (''KK_KeyboardMenu'', Usage_i8 0x76), (''KK_KeyboardSelect'', Usage_i8 0x77),
     (''KK_KeyboardStop'', Usage_i8 0x78), (''KK_KeyboardAgain'', Usage_i8 0x79), (''KK_KeyboardUndo'', Usage_i8 0x7a),
     (''KK_KeyboardCut'', Usage_i8 0x7b), (''KK_KeyboardCopy'', Usage_i8 0x7c), (''KK_KeyboardPaste'', Usage_i8 0x7d),
     (''KK_KeyboardFind'', Usage_i8 0x7e), (''KK_KeyboardMute'', Usage_i8 0x7f), (''KK_KeyboardVolumeUp'', Usage_i8 0x80),
     (''KK_KeyboardVolumeDown'', Usage_i8 0x81), (''KK_KeyboardLockingCapsLock'', Usage_i8 0x82),
     (''KK_KeyboardLockingNumLock'', Usage_i8 0x83), (''KK_KeyboardLockingScrollLock'', Usage_i8 0x84),
     (''KK_KeypadComma'', Usage_i8 0x85), (''KK_KeypadEqualSign'', Usage_i8 0x86), (''KK_KeyboardInternational1'', Usage_i8 0x87),
     (''KK_KeyboardInternational2'', Usage_i8 0x88), (''KK_KeyboardInternational3'', Usage_i8 0x89),
     (''KK_KeyboardInternational4'', Usage_i8 0x8a), (''KK_KeyboardInternational5'', Usage_i8 0x8b),
     (''KK_KeyboardInternational6'', Usage_i8 0x8c), (''KK_KeyboardInternational7'', Usage_i8 0x8d),
     (''KK_KeyboardInternational8'', Usage_i8 0x8e), (''KK_KeyboardInternational9'', Usage_i8 0x8f),
     (''KK_KeyboardLANG1'', Usage_i8 0x90), (''KK_KeyboardLANG2'', Usage_i8 0x91), (''KK_KeyboardLANG3'', Usage_i8 0x92),
     (''KK_KeyboardLANG4'', Usage_i8 0x93), (''KK_KeyboardLANG5'', Usage_i8 0x94), (''KK_KeyboardLANG6'', Usage_i8 0x95),
     (''KK_KeyboardLANG7'', Usage_i8 0x96)]"

definition macros_KeyboardKeypad_2 :: usage_macros_table where
  "macros_KeyboardKeypad_2 = [
     (''KK_KeyboardLANG8'', Usage_i8 0x97), (''KK_KeyboardLANG9'', Usage_i8 0x98), (''KK_KeyboardAlternateErase'', Usage_i8 0x99),
     (''KK_KeyboardSysReqAttention'', Usage_i8 0x9a), (''KK_KeyboardCancel'', Usage_i8 0x9b),
     (''KK_KeyboardClear'', Usage_i8 0x9c), (''KK_KeyboardPrior'', Usage_i8 0x9d), (''KK_KeyboardReturn'', Usage_i8 0x9e),
     (''KK_KeyboardSeparator'', Usage_i8 0x9f), (''KK_KeyboardOut'', Usage_i8 0xa0), (''KK_KeyboardOper'', Usage_i8 0xa1),
     (''KK_KeyboardClearAgain'', Usage_i8 0xa2), (''KK_KeyboardCrSelProps'', Usage_i8 0xa3), (''KK_KeyboardExSel'', Usage_i8 0xa4),
     (''KK_KeypadDouble0'', Usage_i8 0xb0), (''KK_KeypadTriple0'', Usage_i8 0xb1), (''KK_ThousandsSeparator'', Usage_i8 0xb2),
     (''KK_DecimalSeparator'', Usage_i8 0xb3), (''KK_CurrencyUnit'', Usage_i8 0xb4), (''KK_CurrencySubunit'', Usage_i8 0xb5),
     (''KK_KeypadLeftBracket'', Usage_i8 0xb6), (''KK_KeypadRightBracket'', Usage_i8 0xb7),
     (''KK_KeypadLeftBrace'', Usage_i8 0xb8), (''KK_KeypadRightBrace'', Usage_i8 0xb9), (''KK_KeypadTab'', Usage_i8 0xba),
     (''KK_KeypadBackspace'', Usage_i8 0xbb), (''KK_KeypadA'', Usage_i8 0xbc), (''KK_KeypadB'', Usage_i8 0xbd),
     (''KK_KeypadC'', Usage_i8 0xbe), (''KK_KeypadD'', Usage_i8 0xbf), (''KK_KeypadE'', Usage_i8 0xc0),
     (''KK_KeypadF'', Usage_i8 0xc1), (''KK_KeypadXOR'', Usage_i8 0xc2), (''KK_KeypadCaret'', Usage_i8 0xc3),
     (''KK_KeypadPercentage'', Usage_i8 0xc4), (''KK_KeypadLess'', Usage_i8 0xc5), (''KK_KeypadGreater'', Usage_i8 0xc6),
     (''KK_KeypadAmpersand'', Usage_i8 0xc7), (''KK_KeypadDoubleAmpersand'', Usage_i8 0xc8), (''KK_KeypadBar'', Usage_i8 0xc9),
     (''KK_KeypadDoubleBar'', Usage_i8 0xca), (''KK_KeypadColon'', Usage_i8 0xcb), (''KK_KeypadHash'', Usage_i8 0xcc),
     (''KK_KeypadSpace'', Usage_i8 0xcd), (''KK_KeypadAt'', Usage_i8 0xce), (''KK_KeypadBang'', Usage_i8 0xcf),
     (''KK_KeypadMemoryStore'', Usage_i8 0xd0), (''KK_KeypadMemoryRecall'', Usage_i8 0xd1),
     (''KK_KeypadMemoryClear'', Usage_i8 0xd2), (''KK_KeypadMemoryAdd'', Usage_i8 0xd3),
     (''KK_KeypadMemorySubtract'', Usage_i8 0xd4), (''KK_KeypadMemoryMultiply'', Usage_i8 0xd5),
     (''KK_KeypadMemoryDivide'', Usage_i8 0xd6), (''KK_KeypadPlusMinus'', Usage_i8 0xd7), (''KK_KeypadClear'', Usage_i8 0xd8),
     (''KK_KeypadClearEntry'', Usage_i8 0xd9), (''KK_KeypadBinary'', Usage_i8 0xda), (''KK_KeypadOctal'', Usage_i8 0xdb),
     (''KK_KeypadDecimal'', Usage_i8 0xdc), (''KK_KeypadHexadecimal'', Usage_i8 0xdd), (''KK_KeyboardLeftControl'', Usage_i8 0xe0),
     (''KK_KeyboardLeftShift'', Usage_i8 0xe1), (''KK_KeyboardLeftAlt'', Usage_i8 0xe2), (''KK_KeyboardLeftGUI'', Usage_i8 0xe3),
     (''KK_KeyboardRightControl'', Usage_i8 0xe4), (''KK_KeyboardRightShift'', Usage_i8 0xe5),
     (''KK_KeyboardRightAlt'', Usage_i8 0xe6), (''KK_KeyboardRightGUI'', Usage_i8 0xe7)]"

definition macros_KeyboardKeypad :: usage_macros_table where
  "macros_KeyboardKeypad = macros_KeyboardKeypad_1 @ macros_KeyboardKeypad_2"

definition macros_LED :: usage_macros_table where
  "macros_LED = [
     (''LED_NumLock'', Usage_i8 0x1), (''LED_CapsLock'', Usage_i8 0x2), (''LED_ScrollLock'', Usage_i8 0x3),
     (''LED_Compose'', Usage_i8 0x4), (''LED_Kana'', Usage_i8 0x5), (''LED_Power'', Usage_i8 0x6), (''LED_Shift'', Usage_i8 0x7),
     (''LED_DoNotDisturb'', Usage_i8 0x8), (''LED_Mute'', Usage_i8 0x9), (''LED_ToneEnable'', Usage_i8 0xa),
     (''LED_HighCutFilter'', Usage_i8 0xb), (''LED_LowCutFilter'', Usage_i8 0xc), (''LED_EqualizerEnable'', Usage_i8 0xd),
     (''LED_SoundFieldOn'', Usage_i8 0xe), (''LED_SurroundOn'', Usage_i8 0xf), (''LED_Repeat'', Usage_i8 0x10),
     (''LED_Stereo'', Usage_i8 0x11), (''LED_SamplingRateDetect'', Usage_i8 0x12), (''LED_Spinning'', Usage_i8 0x13),
     (''LED_CAV'', Usage_i8 0x14), (''LED_CLV'', Usage_i8 0x15), (''LED_RecordingFormatDetect'', Usage_i8 0x16),
     (''LED_OffHook'', Usage_i8 0x17), (''LED_Ring'', Usage_i8 0x18), (''LED_MessageWaiting'', Usage_i8 0x19),
     (''LED_DataMode'', Usage_i8 0x1a), (''LED_BatteryOperation'', Usage_i8 0x1b), (''LED_BatteryOK'', Usage_i8 0x1c),
     (''LED_BatteryLow'', Usage_i8 0x1d), (''LED_Speaker'', Usage_i8 0x1e), (''LED_Headset'', Usage_i8 0x1f),
     (''LED_Hold'', Usage_i8 0x20), (''LED_Microphone'', Usage_i8 0x21), (''LED_Coverage'', Usage_i8 0x22),
     (''LED_NightMode'', Usage_i8 0x23), (''LED_SendCalls'', Usage_i8 0x24), (''LED_CallPickup'', Usage_i8 0x25),
     (''LED_Conference'', Usage_i8 0x26), (''LED_Standby'', Usage_i8 0x27), (''LED_CameraOn'', Usage_i8 0x28),
     (''LED_CameraOff'', Usage_i8 0x29), (''LED_OnLine'', Usage_i8 0x2a), (''LED_OffLine'', Usage_i8 0x2b),
     (''LED_Busy'', Usage_i8 0x2c), (''LED_Ready'', Usage_i8 0x2d), (''LED_PaperOut'', Usage_i8 0x2e),
     (''LED_PaperJam'', Usage_i8 0x2f), (''LED_Remote'', Usage_i8 0x30), (''LED_Forward'', Usage_i8 0x31),
     (''LED_Reverse'', Usage_i8 0x32), (''LED_Stop'', Usage_i8 0x33), (''LED_Rewind'', Usage_i8 0x34),
     (''LED_FastForward'', Usage_i8 0x35), (''LED_Play'', Usage_i8 0x36), (''LED_Pause'', Usage_i8 0x37),
     (''LED_Record'', Usage_i8 0x38), (''LED_Error'', Usage_i8 0x39), (''LED_UsageSelectedIndicator'', Usage_i8 0x3a),
     (''LED_UsageInUseIndicator'', Usage_i8 0x3b), (''LED_UsageMultiModeIndicator'', Usage_i8 0x3c),
     (''LED_IndicatorOn'', Usage_i8 0x3d), (''LED_IndicatorFlash'', Usage_i8 0x3e), (''LED_IndicatorSlowBlink'', Usage_i8 0x3f),
     (''LED_IndicatorFastBlink'', Usage_i8 0x40), (''LED_IndicatorOff'', Usage_i8 0x41), (''LED_FlashOnTime'', Usage_i8 0x42),
     (''LED_SlowBlinkOnTime'', Usage_i8 0x43), (''LED_SlowBlinkOffTime'', Usage_i8 0x44), (''LED_FastBlinkOnTime'', Usage_i8 0x45),
     (''LED_FastBlinkOffTime'', Usage_i8 0x46), (''LED_UsageIndicatorColor'', Usage_i8 0x47),
     (''LED_IndicatorRed'', Usage_i8 0x48), (''LED_IndicatorGreen'', Usage_i8 0x49), (''LED_IndicatorAmber'', Usage_i8 0x4a),
     (''LED_GenericIndicator'', Usage_i8 0x4b), (''LED_SystemSuspend'', Usage_i8 0x4c),
     (''LED_ExternalPowerConnected'', Usage_i8 0x4d), (''LED_IndicatorBlue'', Usage_i8 0x4e),
     (''LED_IndicatorOrange'', Usage_i8 0x4f), (''LED_GoodStatus'', Usage_i8 0x50), (''LED_WarningStatus'', Usage_i8 0x51),
     (''LED_RGBLED'', Usage_i8 0x52), (''LED_RedLEDChannel'', Usage_i8 0x53), (''LED_BlueLEDChannel'', Usage_i8 0x54),
     (''LED_GreenLEDChannel'', Usage_i8 0x55), (''LED_LEDIntensity'', Usage_i8 0x56),
     (''LED_SystemMicrophoneMute'', Usage_i8 0x57), (''LED_PlayerIndicator'', Usage_i8 0x60), (''LED_Player1'', Usage_i8 0x61),
     (''LED_Player2'', Usage_i8 0x62), (''LED_Player3'', Usage_i8 0x63), (''LED_Player4'', Usage_i8 0x64),
     (''LED_Player5'', Usage_i8 0x65), (''LED_Player6'', Usage_i8 0x66), (''LED_Player7'', Usage_i8 0x67),
     (''LED_Player8'', Usage_i8 0x68)]"

definition macros_TelephonyDevice :: usage_macros_table where
  "macros_TelephonyDevice = [
     (''TD_Phone'', Usage_i8 0x1), (''TD_AnsweringMachine'', Usage_i8 0x2), (''TD_MessageControls'', Usage_i8 0x3),
     (''TD_Handset'', Usage_i8 0x4), (''TD_Headset'', Usage_i8 0x5), (''TD_TelephonyKeyPad'', Usage_i8 0x6),
     (''TD_ProgrammableButton'', Usage_i8 0x7), (''TD_HookSwitch'', Usage_i8 0x20), (''TD_Flash'', Usage_i8 0x21),
     (''TD_Feature'', Usage_i8 0x22), (''TD_Hold'', Usage_i8 0x23), (''TD_Redial'', Usage_i8 0x24),
     (''TD_Transfer'', Usage_i8 0x25), (''TD_Drop'', Usage_i8 0x26), (''TD_Park'', Usage_i8 0x27),
     (''TD_ForwardCalls'', Usage_i8 0x28), (''TD_AlternateFunction'', Usage_i8 0x29), (''TD_Line'', Usage_i8 0x2a),
     (''TD_SpeakerPhone'', Usage_i8 0x2b), (''TD_Conference'', Usage_i8 0x2c), (''TD_RingEnable'', Usage_i8 0x2d),
     (''TD_RingSelect'', Usage_i8 0x2e), (''TD_PhoneMute'', Usage_i8 0x2f), (''TD_CallerID'', Usage_i8 0x30),
     (''TD_Send'', Usage_i8 0x31), (''TD_SpeedDial'', Usage_i8 0x50), (''TD_StoreNumber'', Usage_i8 0x51),
     (''TD_RecallNumber'', Usage_i8 0x52), (''TD_PhoneDirectory'', Usage_i8 0x53), (''TD_VoiceMail'', Usage_i8 0x70),
     (''TD_ScreenCalls'', Usage_i8 0x71), (''TD_DoNotDisturb'', Usage_i8 0x72), (''TD_Message'', Usage_i8 0x73),
     (''TD_AnswerOnOff'', Usage_i8 0x74), (''TD_InsideDialTone'', Usage_i8 0x90), (''TD_OutsideDialTone'', Usage_i8 0x91),
     (''TD_InsideRingTone'', Usage_i8 0x92), (''TD_OutsideRingTone'', Usage_i8 0x93), (''TD_PriorityRingTone'', Usage_i8 0x94),
     (''TD_InsideRingback'', Usage_i8 0x95), (''TD_PriorityRingback'', Usage_i8 0x96), (''TD_LineBusyTone'', Usage_i8 0x97),
     (''TD_ReorderTone'', Usage_i8 0x98), (''TD_CallWaitingTone'', Usage_i8 0x99), (''TD_ConfirmationTone1'', Usage_i8 0x9a),
     (''TD_ConfirmationTone2'', Usage_i8 0x9b), (''TD_TonesOff'', Usage_i8 0x9c), (''TD_OutsideRingback'', Usage_i8 0x9d),
     (''TD_Ringer'', Usage_i8 0x9e), (''TD_PhoneKey0'', Usage_i8 0xb0), (''TD_PhoneKey1'', Usage_i8 0xb1),
     (''TD_PhoneKey2'', Usage_i8 0xb2), (''TD_PhoneKey3'', Usage_i8 0xb3), (''TD_PhoneKey4'', Usage_i8 0xb4),
     (''TD_PhoneKey5'', Usage_i8 0xb5), (''TD_PhoneKey6'', Usage_i8 0xb6), (''TD_PhoneKey7'', Usage_i8 0xb7),
     (''TD_PhoneKey8'', Usage_i8 0xb8), (''TD_PhoneKey9'', Usage_i8 0xb9), (''TD_PhoneKeyStar'', Usage_i8 0xba),
     (''TD_PhoneKeyPound'', Usage_i8 0xbb), (''TD_PhoneKeyA'', Usage_i8 0xbc), (''TD_PhoneKeyB'', Usage_i8 0xbd),
     (''TD_PhoneKeyC'', Usage_i8 0xbe), (''TD_PhoneKeyD'', Usage_i8 0xbf), (''TD_PhoneCallHistoryKey'', Usage_i8 0xc0),
     (''TD_PhoneCallerIDKey'', Usage_i8 0xc1), (''TD_PhoneSettingsKey'', Usage_i8 0xc2), (''TD_HostControl'', Usage_i8 0xf0),
     (''TD_HostAvailable'', Usage_i8 0xf1), (''TD_HostCallActive'', Usage_i8 0xf2), (''TD_ActivateHandsetAudio'', Usage_i8 0xf3),
     (''TD_RingType'', Usage_i8 0xf4), (''TD_RedialablePhoneNumber'', Usage_i8 0xf5), (''TD_StopRingTone'', Usage_i8 0xf8),
     (''TD_PSTNRingTone'', Usage_i8 0xf9), (''TD_HostRingTone'', Usage_i8 0xfa), (''TD_AlertSoundError'', Usage_i8 0xfb),
     (''TD_AlertSoundConfirm'', Usage_i8 0xfc), (''TD_AlertSoundNotification'', Usage_i8 0xfd), (''TD_SilentRing'', Usage_i8 0xfe),
     (''TD_EmailMessageWaiting'', Usage_i16 0x108), (''TD_VoicemailMessageWaiting'', Usage_i16 0x109),
     (''TD_HostHold'', Usage_i16 0x10a), (''TD_IncomingCallHistoryCount'', Usage_i16 0x110),
     (''TD_OutgoingCallHistoryCount'', Usage_i16 0x111), (''TD_IncomingCallHistory'', Usage_i16 0x112),
     (''TD_OutgoingCallHistory'', Usage_i16 0x113), (''TD_PhoneLocale'', Usage_i16 0x114),
     (''TD_PhoneTimeSecond'', Usage_i16 0x140), (''TD_PhoneTimeMinute'', Usage_i16 0x141), (''TD_PhoneTimeHour'', Usage_i16 0x142),
     (''TD_PhoneDateDay'', Usage_i16 0x143), (''TD_PhoneDateMonth'', Usage_i16 0x144), (''TD_PhoneDateYear'', Usage_i16 0x145),
     (''TD_HandsetNickname'', Usage_i16 0x146), (''TD_AddressBookID'', Usage_i16 0x147), (''TD_CallDuration'', Usage_i16 0x14a),
     (''TD_DualModePhone'', Usage_i16 0x14b)]"

definition macros_Consumer_1 :: usage_macros_table where
  "macros_Consumer_1 = [
     (''Con_ConsumerControl'', Usage_i8 0x1), (''Con_NumericKeyPad'', Usage_i8 0x2), (''Con_ProgrammableButtons'', Usage_i8 0x3),
     (''Con_Microphone'', Usage_i8 0x4), (''Con_Headphone'', Usage_i8 0x5), (''Con_GraphicEqualizer'', Usage_i8 0x6),
     (''Con_Plus10'', Usage_i8 0x20), (''Con_Plus100'', Usage_i8 0x21), (''Con_AMPM'', Usage_i8 0x22),
     (''Con_Power'', Usage_i8 0x30), (''Con_Reset'', Usage_i8 0x31), (''Con_Sleep'', Usage_i8 0x32),
     (''Con_SleepAfter'', Usage_i8 0x33), (''Con_SleepMode'', Usage_i8 0x34), (''Con_Illumination'', Usage_i8 0x35),
     (''Con_FunctionButtons'', Usage_i8 0x36), (''Con_Menu'', Usage_i8 0x40), (''Con_MenuPick'', Usage_i8 0x41),
     (''Con_MenuUp'', Usage_i8 0x42), (''Con_MenuDown'', Usage_i8 0x43), (''Con_MenuLeft'', Usage_i8 0x44),
     (''Con_MenuRight'', Usage_i8 0x45), (''Con_MenuEscape'', Usage_i8 0x46), (''Con_MenuValueIncrease'', Usage_i8 0x47),
     (''Con_MenuValueDecrease'', Usage_i8 0x48), (''Con_DataOnScreen'', Usage_i8 0x60), (''Con_ClosedCaption'', Usage_i8 0x61),
     (''Con_ClosedCaptionSelect'', Usage_i8 0x62), (''Con_VCRTV'', Usage_i8 0x63), (''Con_BroadcastMode'', Usage_i8 0x64),
     (''Con_Snapshot'', Usage_i8 0x65), (''Con_Still'', Usage_i8 0x66), (''Con_PictureinPictureToggle'', Usage_i8 0x67),
     (''Con_PictureinPictureSwap'', Usage_i8 0x68), (''Con_RedMenuButton'', Usage_i8 0x69),
     (''Con_GreenMenuButton'', Usage_i8 0x6a), (''Con_BlueMenuButton'', Usage_i8 0x6b), (''Con_YellowMenuButton'', Usage_i8 0x6c),
     (''Con_Aspect'', Usage_i8 0x6d), (''Con_ThreeDModeSelect'', Usage_i8 0x6e),
     (''Con_DisplayBrightnessIncrement'', Usage_i8 0x6f), (''Con_DisplayBrightnessDecrement'', Usage_i8 0x70),
     (''Con_DisplayBrightness'', Usage_i8 0x71), (''Con_DisplayBacklightToggle'', Usage_i8 0x72),
     (''Con_DisplaySetBrightnesstoMinimum'', Usage_i8 0x73), (''Con_DisplaySetBrightnesstoMaximum'', Usage_i8 0x74),
     (''Con_DisplaySetAutoBrightness'', Usage_i8 0x75), (''Con_CameraAccessEnabled'', Usage_i8 0x76),
     (''Con_CameraAccessDisabled'', Usage_i8 0x77), (''Con_CameraAccessToggle'', Usage_i8 0x78),
     (''Con_KeyboardBrightnessIncrement'', Usage_i8 0x79), (''Con_KeyboardBrightnessDecrement'', Usage_i8 0x7a),
     (''Con_KeyboardBacklightSetLevel'', Usage_i8 0x7b), (''Con_KeyboardBacklightOOC'', Usage_i8 0x7c),
     (''Con_KeyboardBacklightSetMinimum'', Usage_i8 0x7d), (''Con_KeyboardBacklightSetMaximum'', Usage_i8 0x7e),
     (''Con_KeyboardBacklightAuto'', Usage_i8 0x7f), (''Con_Selection'', Usage_i8 0x80), (''Con_AssignSelection'', Usage_i8 0x81),
     (''Con_ModeStep'', Usage_i8 0x82), (''Con_RecallLast'', Usage_i8 0x83), (''Con_EnterChannel'', Usage_i8 0x84),
     (''Con_OrderMovie'', Usage_i8 0x85), (''Con_Channel'', Usage_i8 0x86), (''Con_MediaSelection'', Usage_i8 0x87),
     (''Con_MediaSelectComputer'', Usage_i8 0x88), (''Con_MediaSelectTV'', Usage_i8 0x89), (''Con_MediaSelectWWW'', Usage_i8 0x8a),
     (''Con_MediaSelectDVD'', Usage_i8 0x8b), (''Con_MediaSelectTelephone'', Usage_i8 0x8c),
     (''Con_MediaSelectProgramGuide'', Usage_i8 0x8d), (''Con_MediaSelectVideoPhone'', Usage_i8 0x8e),
     (''Con_MediaSelectGames'', Usage_i8 0x8f), (''Con_MediaSelectMessages'', Usage_i8 0x90),
     (''Con_MediaSelectCD'', Usage_i8 0x91), (''Con_MediaSelectVCR'', Usage_i8 0x92), (''Con_MediaSelectTuner'', Usage_i8 0x93),
     (''Con_Quit'', Usage_i8 0x94), (''Con_Help'', Usage_i8 0x95), (''Con_MediaSelectTape'', Usage_i8 0x96),
     (''Con_MediaSelectCable'', Usage_i8 0x97), (''Con_MediaSelectSatellite'', Usage_i8 0x98),
     (''Con_MediaSelectSecurity'', Usage_i8 0x99), (''Con_MediaSelectHome'', Usage_i8 0x9a),
     (''Con_MediaSelectCall'', Usage_i8 0x9b), (''Con_ChannelIncrement'', Usage_i8 0x9c),
     (''Con_ChannelDecrement'', Usage_i8 0x9d), (''Con_MediaSelectSAP'', Usage_i8 0x9e), (''Con_VCRPlus'', Usage_i8 0xa0),
     (''Con_Once'', Usage_i8 0xa1), (''Con_Daily'', Usage_i8 0xa2), (''Con_Weekly'', Usage_i8 0xa3),
     (''Con_Monthly'', Usage_i8 0xa4), (''Con_Play'', Usage_i8 0xb0), (''Con_Pause'', Usage_i8 0xb1),
     (''Con_Record'', Usage_i8 0xb2), (''Con_FastForward'', Usage_i8 0xb3), (''Con_Rewind'', Usage_i8 0xb4),
     (''Con_ScanNextTrack'', Usage_i8 0xb5), (''Con_ScanPreviousTrack'', Usage_i8 0xb6), (''Con_Stop'', Usage_i8 0xb7),
     (''Con_Eject'', Usage_i8 0xb8), (''Con_RandomPlay'', Usage_i8 0xb9), (''Con_SelectDisc'', Usage_i8 0xba),
     (''Con_EnterDisc'', Usage_i8 0xbb), (''Con_Repeat'', Usage_i8 0xbc), (''Con_Tracking'', Usage_i8 0xbd),
     (''Con_TrackNormal'', Usage_i8 0xbe), (''Con_SlowTracking'', Usage_i8 0xbf), (''Con_FrameForward'', Usage_i8 0xc0),
     (''Con_FrameBack'', Usage_i8 0xc1), (''Con_Mark'', Usage_i8 0xc2), (''Con_ClearMark'', Usage_i8 0xc3),
     (''Con_RepeatFromMark'', Usage_i8 0xc4), (''Con_ReturnToMark'', Usage_i8 0xc5), (''Con_SearchMarkForward'', Usage_i8 0xc6),
     (''Con_SearchMarkBackwards'', Usage_i8 0xc7), (''Con_CounterReset'', Usage_i8 0xc8), (''Con_ShowCounter'', Usage_i8 0xc9),
     (''Con_TrackingIncrement'', Usage_i8 0xca), (''Con_TrackingDecrement'', Usage_i8 0xcb), (''Con_StopEject'', Usage_i8 0xcc),
     (''Con_PlayPause'', Usage_i8 0xcd), (''Con_PlaySkip'', Usage_i8 0xce), (''Con_VoiceCommand'', Usage_i8 0xcf),
     (''Con_InvokeCaptureInterface'', Usage_i8 0xd0), (''Con_StartorStopGameRecording'', Usage_i8 0xd1),
     (''Con_HistoricalGameCapture'', Usage_i8 0xd2), (''Con_CaptureGameScreenshot'', Usage_i8 0xd3),
     (''Con_ShoworHideRecordingIndicator'', Usage_i8 0xd4), (''Con_StartorStopMicrophoneCapture'', Usage_i8 0xd5),
     (''Con_StartorStopCameraCapture'', Usage_i8 0xd6), (''Con_StartorStopGameBroadcast'', Usage_i8 0xd7),
     (''Con_StartorStopVoiceDictationSession'', Usage_i8 0xd8), (''Con_InvokeDismissEmojiPicker'', Usage_i8 0xd9),
     (''Con_Volume'', Usage_i8 0xe0), (''Con_Balance'', Usage_i8 0xe1), (''Con_Mute'', Usage_i8 0xe2),
     (''Con_Bass'', Usage_i8 0xe3), (''Con_Treble'', Usage_i8 0xe4), (''Con_BassBoost'', Usage_i8 0xe5),
     (''Con_SurroundMode'', Usage_i8 0xe6), (''Con_Loudness'', Usage_i8 0xe7), (''Con_MPX'', Usage_i8 0xe8),
     (''Con_VolumeIncrement'', Usage_i8 0xe9), (''Con_VolumeDecrement'', Usage_i8 0xea), (''Con_SpeedSelect'', Usage_i8 0xf0),
     (''Con_PlaybackSpeed'', Usage_i8 0xf1), (''Con_StandardPlay'', Usage_i8 0xf2), (''Con_LongPlay'', Usage_i8 0xf3)]"

definition macros_Consumer_2 :: usage_macros_table where
  "macros_Consumer_2 = [
     (''Con_ExtendedPlay'', Usage_i8 0xf4), (''Con_Slow'', Usage_i8 0xf5), (''Con_FanEnable'', Usage_i16 0x100),
     (''Con_FanSpeed'', Usage_i16 0x101), (''Con_LightEnable'', Usage_i16 0x102),
     (''Con_LightIlluminationLevel'', Usage_i16 0x103), (''Con_ClimateControlEnable'', Usage_i16 0x104),
     (''Con_RoomTemperature'', Usage_i16 0x105), (''Con_SecurityEnable'', Usage_i16 0x106), (''Con_FireAlarm'', Usage_i16 0x107),
     (''Con_PoliceAlarm'', Usage_i16 0x108), (''Con_Proximity'', Usage_i16 0x109), (''Con_Motion'', Usage_i16 0x10a),
     (''Con_DuressAlarm'', Usage_i16 0x10b), (''Con_HoldupAlarm'', Usage_i16 0x10c), (''Con_MedicalAlarm'', Usage_i16 0x10d),
     (''Con_BalanceRight'', Usage_i16 0x150), (''Con_BalanceLeft'', Usage_i16 0x151), (''Con_BassIncrement'', Usage_i16 0x152),
     (''Con_BassDecrement'', Usage_i16 0x153), (''Con_TrebleIncrement'', Usage_i16 0x154),
     (''Con_TrebleDecrement'', Usage_i16 0x155), (''Con_SpeakerSystem'', Usage_i16 0x160), (''Con_ChannelLeft'', Usage_i16 0x161),
     (''Con_ChannelRight'', Usage_i16 0x162), (''Con_ChannelCenter'', Usage_i16 0x163), (''Con_ChannelFront'', Usage_i16 0x164),
     (''Con_ChannelCenterFront'', Usage_i16 0x165), (''Con_ChannelSide'', Usage_i16 0x166),
     (''Con_ChannelSurround'', Usage_i16 0x167), (''Con_ChannelLowFrequencyEnhancement'', Usage_i16 0x168),
     (''Con_ChannelTop'', Usage_i16 0x169), (''Con_ChannelUnknown'', Usage_i16 0x16a), (''Con_Subchannel'', Usage_i16 0x170),
     (''Con_SubchannelIncrement'', Usage_i16 0x171), (''Con_SubchannelDecrement'', Usage_i16 0x172),
     (''Con_AlternateAudioIncrement'', Usage_i16 0x173), (''Con_AlternateAudioDecrement'', Usage_i16 0x174),
     (''Con_ApplicationLaunchButtons'', Usage_i16 0x180), (''Con_ALLaunchButtonConfigurationTool'', Usage_i16 0x181),
     (''Con_ALProgrammableButtonConfiguration'', Usage_i16 0x182), (''Con_ALConsumerControlConfiguration'', Usage_i16 0x183),
     (''Con_ALWordProcessor'', Usage_i16 0x184), (''Con_ALTextEditor'', Usage_i16 0x185), (''Con_ALSpreadsheet'', Usage_i16 0x186),
     (''Con_ALGraphicsEditor'', Usage_i16 0x187), (''Con_ALPresentationApp'', Usage_i16 0x188),
     (''Con_ALDatabaseApp'', Usage_i16 0x189), (''Con_ALEmailReader'', Usage_i16 0x18a), (''Con_ALNewsreader'', Usage_i16 0x18b),
     (''Con_ALVoicemail'', Usage_i16 0x18c), (''Con_ALContactsAddressBook'', Usage_i16 0x18d),
     (''Con_ALCalendarSchedule'', Usage_i16 0x18e), (''Con_ALTaskProjectManager'', Usage_i16 0x18f),
     (''Con_ALLogJournalTimecard'', Usage_i16 0x190), (''Con_ALCheckbookFinance'', Usage_i16 0x191),
     (''Con_ALCalculator'', Usage_i16 0x192), (''Con_ALAVCapturePlayback'', Usage_i16 0x193),
     (''Con_ALLocalMachineBrowser'', Usage_i16 0x194), (''Con_ALLANWANBrowser'', Usage_i16 0x195),
     (''Con_ALInternetBrowser'', Usage_i16 0x196), (''Con_ALRemoteNetworkingISPConnect'', Usage_i16 0x197),
     (''Con_ALNetworkConference'', Usage_i16 0x198), (''Con_ALNetworkChat'', Usage_i16 0x199),
     (''Con_ALTelephonyDialer'', Usage_i16 0x19a), (''Con_ALLogon'', Usage_i16 0x19b), (''Con_ALLogoff'', Usage_i16 0x19c),
     (''Con_ALLogonLogoff'', Usage_i16 0x19d), (''Con_ALTerminalLockScreensaver'', Usage_i16 0x19e),
     (''Con_ALControlPanel'', Usage_i16 0x19f), (''Con_ALCommandLineProcessorRun'', Usage_i16 0x1a0),
     (''Con_ALProcessTaskManager'', Usage_i16 0x1a1), (''Con_ALSelectTaskApplication'', Usage_i16 0x1a2),
     (''Con_ALNextTaskApplication'', Usage_i16 0x1a3), (''Con_ALPreviousTaskApplication'', Usage_i16 0x1a4),
     (''Con_ALPreemptiveHaltTaskApplication'', Usage_i16 0x1a5), (''Con_ALIntegratedHelpCenter'', Usage_i16 0x1a6),
     (''Con_ALDocuments'', Usage_i16 0x1a7), (''Con_ALThesaurus'', Usage_i16 0x1a8), (''Con_ALDictionary'', Usage_i16 0x1a9),
     (''Con_ALDesktop'', Usage_i16 0x1aa), (''Con_ALSpellCheck'', Usage_i16 0x1ab), (''Con_ALGrammarCheck'', Usage_i16 0x1ac),
     (''Con_ALWirelessStatus'', Usage_i16 0x1ad), (''Con_ALKeyboardLayout'', Usage_i16 0x1ae),
     (''Con_ALVirusProtection'', Usage_i16 0x1af), (''Con_ALEncryption'', Usage_i16 0x1b0),
     (''Con_ALScreenSaver'', Usage_i16 0x1b1), (''Con_ALAlarms'', Usage_i16 0x1b2), (''Con_ALClock'', Usage_i16 0x1b3),
     (''Con_ALFileBrowser'', Usage_i16 0x1b4), (''Con_ALPowerStatus'', Usage_i16 0x1b5), (''Con_ALImageBrowser'', Usage_i16 0x1b6),
     (''Con_ALAudioBrowser'', Usage_i16 0x1b7), (''Con_ALMovieBrowser'', Usage_i16 0x1b8),
     (''Con_ALDigitalRightsManager'', Usage_i16 0x1b9), (''Con_ALDigitalWallet'', Usage_i16 0x1ba),
     (''Con_ALInstantMessaging'', Usage_i16 0x1bc), (''Con_ALOEMFeaturesTipsTutorialBrowser'', Usage_i16 0x1bd),
     (''Con_ALOEMHelp'', Usage_i16 0x1be), (''Con_ALOnlineCommunity'', Usage_i16 0x1bf),
     (''Con_ALEntertainmentContentBrowser'', Usage_i16 0x1c0), (''Con_ALOnlineShoppingBrowser'', Usage_i16 0x1c1),
     (''Con_ALSmartCardInformationHelp'', Usage_i16 0x1c2), (''Con_ALMarketMonitorFinanceBrowser'', Usage_i16 0x1c3),
     (''Con_ALCustomizedCorporateNewsBrowser'', Usage_i16 0x1c4), (''Con_ALOnlineActivityBrowser'', Usage_i16 0x1c5),
     (''Con_ALResearchSearchBrowser'', Usage_i16 0x1c6), (''Con_ALAudioPlayer'', Usage_i16 0x1c7),
     (''Con_ALMessageStatus'', Usage_i16 0x1c8), (''Con_ALContactSync'', Usage_i16 0x1c9), (''Con_ALNavigation'', Usage_i16 0x1ca),
     (''Con_ALContextawareDesktopAssistant'', Usage_i16 0x1cb), (''Con_GenericGUIApplicationControls'', Usage_i16 0x200),
     (''Con_ACNew'', Usage_i16 0x201), (''Con_ACOpen'', Usage_i16 0x202), (''Con_ACClose'', Usage_i16 0x203),
     (''Con_ACExit'', Usage_i16 0x204), (''Con_ACMaximize'', Usage_i16 0x205), (''Con_ACMinimize'', Usage_i16 0x206),
     (''Con_ACSave'', Usage_i16 0x207), (''Con_ACPrint'', Usage_i16 0x208), (''Con_ACProperties'', Usage_i16 0x209),
     (''Con_ACUndo'', Usage_i16 0x21a), (''Con_ACCopy'', Usage_i16 0x21b), (''Con_ACCut'', Usage_i16 0x21c),
     (''Con_ACPaste'', Usage_i16 0x21d), (''Con_ACSelectAll'', Usage_i16 0x21e), (''Con_ACFind'', Usage_i16 0x21f),
     (''Con_ACFindandReplace'', Usage_i16 0x220), (''Con_ACSearch'', Usage_i16 0x221), (''Con_ACGoTo'', Usage_i16 0x222),
     (''Con_ACHome'', Usage_i16 0x223), (''Con_ACBack'', Usage_i16 0x224), (''Con_ACForward'', Usage_i16 0x225),
     (''Con_ACStop'', Usage_i16 0x226), (''Con_ACRefresh'', Usage_i16 0x227), (''Con_ACPreviousLink'', Usage_i16 0x228),
     (''Con_ACNextLink'', Usage_i16 0x229), (''Con_ACBookmarks'', Usage_i16 0x22a), (''Con_ACHistory'', Usage_i16 0x22b),
     (''Con_ACSubscriptions'', Usage_i16 0x22c), (''Con_ACZoomIn'', Usage_i16 0x22d), (''Con_ACZoomOut'', Usage_i16 0x22e),
     (''Con_ACZoom'', Usage_i16 0x22f), (''Con_ACFullScreenView'', Usage_i16 0x230), (''Con_ACNormalView'', Usage_i16 0x231),
     (''Con_ACViewToggle'', Usage_i16 0x232), (''Con_ACScrollUp'', Usage_i16 0x233), (''Con_ACScrollDown'', Usage_i16 0x234)]"

definition macros_Consumer_3 :: usage_macros_table where
  "macros_Consumer_3 = [
     (''Con_ACScroll'', Usage_i16 0x235), (''Con_ACPanLeft'', Usage_i16 0x236), (''Con_ACPanRight'', Usage_i16 0x237),
     (''Con_ACPan'', Usage_i16 0x238), (''Con_ACNewWindow'', Usage_i16 0x239), (''Con_ACTileHorizontally'', Usage_i16 0x23a),
     (''Con_ACTileVertically'', Usage_i16 0x23b), (''Con_ACFormat'', Usage_i16 0x23c), (''Con_ACEdit'', Usage_i16 0x23d),
     (''Con_ACBold'', Usage_i16 0x23e), (''Con_ACItalics'', Usage_i16 0x23f), (''Con_ACUnderline'', Usage_i16 0x240),
     (''Con_ACStrikethrough'', Usage_i16 0x241), (''Con_ACSubscript'', Usage_i16 0x242), (''Con_ACSuperscript'', Usage_i16 0x243),
     (''Con_ACAllCaps'', Usage_i16 0x244), (''Con_ACRotate'', Usage_i16 0x245), (''Con_ACResize'', Usage_i16 0x246),
     (''Con_ACFlipHorizontal'', Usage_i16 0x247), (''Con_ACFlipVertical'', Usage_i16 0x248),
     (''Con_ACMirrorHorizontal'', Usage_i16 0x249), (''Con_ACMirrorVertical'', Usage_i16 0x24a),
     (''Con_ACFontSelect'', Usage_i16 0x24b), (''Con_ACFontColor'', Usage_i16 0x24c), (''Con_ACFontSize'', Usage_i16 0x24d),
     (''Con_ACJustifyLeft'', Usage_i16 0x24e), (''Con_ACJustifyCenterH'', Usage_i16 0x24f),
     (''Con_ACJustifyRight'', Usage_i16 0x250), (''Con_ACJustifyBlockH'', Usage_i16 0x251),
     (''Con_ACJustifyTop'', Usage_i16 0x252), (''Con_ACJustifyCenterV'', Usage_i16 0x253),
     (''Con_ACJustifyBottom'', Usage_i16 0x254), (''Con_ACJustifyBlockV'', Usage_i16 0x255),
     (''Con_ACIndentDecrease'', Usage_i16 0x256), (''Con_ACIndentIncrease'', Usage_i16 0x257),
     (''Con_ACNumberedList'', Usage_i16 0x258), (''Con_ACRestartNumbering'', Usage_i16 0x259),
     (''Con_ACBulletedList'', Usage_i16 0x25a), (''Con_ACPromote'', Usage_i16 0x25b), (''Con_ACDemote'', Usage_i16 0x25c),
     (''Con_ACYes'', Usage_i16 0x25d), (''Con_ACNo'', Usage_i16 0x25e), (''Con_ACCancel'', Usage_i16 0x25f),
     (''Con_ACCatalog'', Usage_i16 0x260), (''Con_ACBuyCheckout'', Usage_i16 0x261), (''Con_ACAddtoCart'', Usage_i16 0x262),
     (''Con_ACExpand'', Usage_i16 0x263), (''Con_ACExpandAll'', Usage_i16 0x264), (''Con_ACCollapse'', Usage_i16 0x265),
     (''Con_ACCollapseAll'', Usage_i16 0x266), (''Con_ACPrintPreview'', Usage_i16 0x267),
     (''Con_ACPasteSpecial'', Usage_i16 0x268), (''Con_ACInsertMode'', Usage_i16 0x269), (''Con_ACDelete'', Usage_i16 0x26a),
     (''Con_ACLock'', Usage_i16 0x26b), (''Con_ACUnlock'', Usage_i16 0x26c), (''Con_ACProtect'', Usage_i16 0x26d),
     (''Con_ACUnprotect'', Usage_i16 0x26e), (''Con_ACAttachComment'', Usage_i16 0x26f),
     (''Con_ACDeleteComment'', Usage_i16 0x270), (''Con_ACViewComment'', Usage_i16 0x271), (''Con_ACSelectWord'', Usage_i16 0x272),
     (''Con_ACSelectSentence'', Usage_i16 0x273), (''Con_ACSelectParagraph'', Usage_i16 0x274),
     (''Con_ACSelectColumn'', Usage_i16 0x275), (''Con_ACSelectRow'', Usage_i16 0x276), (''Con_ACSelectTable'', Usage_i16 0x277),
     (''Con_ACSelectObject'', Usage_i16 0x278), (''Con_ACRedoRepeat'', Usage_i16 0x279), (''Con_ACSort'', Usage_i16 0x27a),
     (''Con_ACSortAscending'', Usage_i16 0x27b), (''Con_ACSortDescending'', Usage_i16 0x27c), (''Con_ACFilter'', Usage_i16 0x27d),
     (''Con_ACSetClock'', Usage_i16 0x27e), (''Con_ACViewClock'', Usage_i16 0x27f), (''Con_ACSelectTimeZone'', Usage_i16 0x280),
     (''Con_ACEditTimeZones'', Usage_i16 0x281), (''Con_ACSetAlarm'', Usage_i16 0x282), (''Con_ACClearAlarm'', Usage_i16 0x283),
     (''Con_ACSnoozeAlarm'', Usage_i16 0x284), (''Con_ACResetAlarm'', Usage_i16 0x285), (''Con_ACSynchronize'', Usage_i16 0x286),
     (''Con_ACSendReceive'', Usage_i16 0x287), (''Con_ACSendTo'', Usage_i16 0x288), (''Con_ACReply'', Usage_i16 0x289),
     (''Con_ACReplyAll'', Usage_i16 0x28a), (''Con_ACForwardMsg'', Usage_i16 0x28b), (''Con_ACSend'', Usage_i16 0x28c),
     (''Con_ACAttachFile'', Usage_i16 0x28d), (''Con_ACUpload'', Usage_i16 0x28e),
     (''Con_ACDownloadSaveTargetAs'', Usage_i16 0x28f), (''Con_ACSetBorders'', Usage_i16 0x290),
     (''Con_ACInsertRow'', Usage_i16 0x291), (''Con_ACInsertColumn'', Usage_i16 0x292), (''Con_ACInsertFile'', Usage_i16 0x293),
     (''Con_ACInsertPicture'', Usage_i16 0x294), (''Con_ACInsertObject'', Usage_i16 0x295),
     (''Con_ACInsertSymbol'', Usage_i16 0x296), (''Con_ACSaveandClose'', Usage_i16 0x297), (''Con_ACRename'', Usage_i16 0x298),
     (''Con_ACMerge'', Usage_i16 0x299), (''Con_ACSplit'', Usage_i16 0x29a), (''Con_ACDisributeHorizontally'', Usage_i16 0x29b),
     (''Con_ACDistributeVertically'', Usage_i16 0x29c), (''Con_ACNextKeyboardLayoutSelect'', Usage_i16 0x29d),
     (''Con_ACNavigationGuidance'', Usage_i16 0x29e), (''Con_ACDesktopShowAllWindows'', Usage_i16 0x29f),
     (''Con_ACSoftKeyLeft'', Usage_i16 0x2a0), (''Con_ACSoftKeyRight'', Usage_i16 0x2a1),
     (''Con_ACDesktopShowAllApplications'', Usage_i16 0x2a2), (''Con_ACIdleKeepAlive'', Usage_i16 0x2b0),
     (''Con_ExtendedKeyboardAttributesCollection'', Usage_i16 0x2c0), (''Con_KeyboardFormFactor'', Usage_i16 0x2c1),
     (''Con_KeyboardKeyType'', Usage_i16 0x2c2), (''Con_KeyboardPhysicalLayout'', Usage_i16 0x2c3),
     (''Con_VendorSpecificKeyboardPhysicalLayout'', Usage_i16 0x2c4), (''Con_KeyboardIETFLanguageTagIndex'', Usage_i16 0x2c5),
     (''Con_ImplementedKeyboardInputAssistControls'', Usage_i16 0x2c6), (''Con_KeyboardInputAssistPrevious'', Usage_i16 0x2c7),
     (''Con_KeyboardInputAssistNext'', Usage_i16 0x2c8), (''Con_KeyboardInputAssistPreviousGroup'', Usage_i16 0x2c9),
     (''Con_KeyboardInputAssistNextGroup'', Usage_i16 0x2ca), (''Con_KeyboardInputAssistAccept'', Usage_i16 0x2cb),
     (''Con_KeyboardInputAssistCancel'', Usage_i16 0x2cc), (''Con_PrivacyScreenToggle'', Usage_i16 0x2d0),
     (''Con_PrivacyScreenLevelDecrement'', Usage_i16 0x2d1), (''Con_PrivacyScreenLevelIncrement'', Usage_i16 0x2d2),
     (''Con_PrivacyScreenLevelMinimum'', Usage_i16 0x2d3), (''Con_PrivacyScreenLevelMaximum'', Usage_i16 0x2d4),
     (''Con_ContactEdited'', Usage_i16 0x500), (''Con_ContactAdded'', Usage_i16 0x501),
     (''Con_ContactRecordActive'', Usage_i16 0x502), (''Con_ContactIndex'', Usage_i16 0x503),
     (''Con_ContactNickname'', Usage_i16 0x504), (''Con_ContactFirstName'', Usage_i16 0x505),
     (''Con_ContactLastName'', Usage_i16 0x506), (''Con_ContactFullName'', Usage_i16 0x507),
     (''Con_ContactPhoneNumberPersonal'', Usage_i16 0x508), (''Con_ContactPhoneNumberBusiness'', Usage_i16 0x509),
     (''Con_ContactPhoneNumberMobile'', Usage_i16 0x50a), (''Con_ContactPhoneNumberPager'', Usage_i16 0x50b),
     (''Con_ContactPhoneNumberFax'', Usage_i16 0x50c), (''Con_ContactPhoneNumberOther'', Usage_i16 0x50d),
     (''Con_ContactEmailPersonal'', Usage_i16 0x50e), (''Con_ContactEmailBusiness'', Usage_i16 0x50f),
     (''Con_ContactEmailOther'', Usage_i16 0x510), (''Con_ContactEmailMain'', Usage_i16 0x511),
     (''Con_ContactSpeedDialNumber'', Usage_i16 0x512), (''Con_ContactStatusFlag'', Usage_i16 0x513),
     (''Con_ContactMisc'', Usage_i16 0x514)]"

definition macros_Consumer :: usage_macros_table where
  "macros_Consumer = macros_Consumer_1 @ macros_Consumer_2 @ macros_Consumer_3"

definition macros_Digitizers :: usage_macros_table where
  "macros_Digitizers = [
     (''Dig_Digitizer'', Usage_i8 0x1), (''Dig_Pen'', Usage_i8 0x2), (''Dig_LightPen'', Usage_i8 0x3),
     (''Dig_TouchScreen'', Usage_i8 0x4), (''Dig_TouchPad'', Usage_i8 0x5), (''Dig_Whiteboard'', Usage_i8 0x6),
     (''Dig_CoordinateMeasuringMachine'', Usage_i8 0x7), (''Dig_ThreeDDigitizer'', Usage_i8 0x8),
     (''Dig_StereoPlotter'', Usage_i8 0x9), (''Dig_ArticulatedArm'', Usage_i8 0xa), (''Dig_Armature'', Usage_i8 0xb),
     (''Dig_MultiplePointDigitizer'', Usage_i8 0xc), (''Dig_FreeSpaceWand'', Usage_i8 0xd),
     (''Dig_DeviceConfiguration'', Usage_i8 0xe), (''Dig_CapacitiveHeatMapDigitizer'', Usage_i8 0xf),
     (''Dig_Stylus'', Usage_i8 0x20), (''Dig_Puck'', Usage_i8 0x21), (''Dig_Finger'', Usage_i8 0x22),
     (''Dig_Devicesettings'', Usage_i8 0x23), (''Dig_CharacterGesture'', Usage_i8 0x24), (''Dig_TipPressure'', Usage_i8 0x30),
     (''Dig_BarrelPressure'', Usage_i8 0x31), (''Dig_InRange'', Usage_i8 0x32), (''Dig_Touch'', Usage_i8 0x33),
     (''Dig_Untouch'', Usage_i8 0x34), (''Dig_Tap'', Usage_i8 0x35), (''Dig_Quality'', Usage_i8 0x36),
     (''Dig_DataValid'', Usage_i8 0x37), (''Dig_TransducerIndex'', Usage_i8 0x38), (''Dig_TabletFunctionKeys'', Usage_i8 0x39),
     (''Dig_ProgramChangeKeys'', Usage_i8 0x3a), (''Dig_BatteryStrength'', Usage_i8 0x3b), (''Dig_Invert'', Usage_i8 0x3c),
     (''Dig_XTilt'', Usage_i8 0x3d), (''Dig_YTilt'', Usage_i8 0x3e), (''Dig_Azimuth'', Usage_i8 0x3f),
     (''Dig_Altitude'', Usage_i8 0x40), (''Dig_Twist'', Usage_i8 0x41), (''Dig_TipSwitch'', Usage_i8 0x42),
     (''Dig_SecondaryTipSwitch'', Usage_i8 0x43), (''Dig_BarrelSwitch'', Usage_i8 0x44), (''Dig_Eraser'', Usage_i8 0x45),
     (''Dig_TabletPick'', Usage_i8 0x46), (''Dig_TouchValid'', Usage_i8 0x47), (''Dig_Width'', Usage_i8 0x48),
     (''Dig_Height'', Usage_i8 0x49), (''Dig_ContactIdentifier'', Usage_i8 0x51), (''Dig_DeviceMode'', Usage_i8 0x52),
     (''Dig_DeviceIdentifier'', Usage_i8 0x53), (''Dig_ContactCount'', Usage_i8 0x54),
     (''Dig_ContactCountMaximum'', Usage_i8 0x55), (''Dig_ScanTime'', Usage_i8 0x56), (''Dig_SurfaceSwitch'', Usage_i8 0x57),
     (''Dig_ButtonSwitch'', Usage_i8 0x58), (''Dig_PadType'', Usage_i8 0x59), (''Dig_SecondaryBarrelSwitch'', Usage_i8 0x5a),
     (''Dig_TransducerSerialNumber'', Usage_i8 0x5b), (''Dig_PreferredColor'', Usage_i8 0x5c),
     (''Dig_PreferredColorisLocked'', Usage_i8 0x5d), (''Dig_PreferredLineWidth'', Usage_i8 0x5e),
     (''Dig_PreferredLineWidthisLocked'', Usage_i8 0x5f), (''Dig_LatencyMode'', Usage_i8 0x60),
     (''Dig_GestureCharacterQuality'', Usage_i8 0x61), (''Dig_CharacterGestureDataLength'', Usage_i8 0x62),
     (''Dig_CharacterGestureData'', Usage_i8 0x63), (''Dig_GestureCharacterEncoding'', Usage_i8 0x64),
     (''Dig_UTF8CharacterGestureEncoding'', Usage_i8 0x65), (''Dig_UTF16LittleEndianCharacterGestureEncoding'', Usage_i8 0x66),
     (''Dig_UTF16BigEndianCharacterGestureEncoding'', Usage_i8 0x67),
     (''Dig_UTF32LittleEndianCharacterGestureEncoding'', Usage_i8 0x68),
     (''Dig_UTF32BigEndianCharacterGestureEncoding'', Usage_i8 0x69), (''Dig_CapacitiveHeatMapProtocolVendorID'', Usage_i8 0x6a),
     (''Dig_CapacitiveHeatMapProtocolVersion'', Usage_i8 0x6b), (''Dig_CapacitiveHeatMapFrameData'', Usage_i8 0x6c),
     (''Dig_GestureCharacterEnable'', Usage_i8 0x6d), (''Dig_TransducerSerialNumberPart2'', Usage_i8 0x6e),
     (''Dig_NoPreferredColor'', Usage_i8 0x6f), (''Dig_PreferredLineStyle'', Usage_i8 0x70),
     (''Dig_PreferredLineStyleisLocked'', Usage_i8 0x71), (''Dig_Ink'', Usage_i8 0x72), (''Dig_Pencil'', Usage_i8 0x73),
     (''Dig_Highlighter'', Usage_i8 0x74), (''Dig_ChiselMarker'', Usage_i8 0x75), (''Dig_Brush'', Usage_i8 0x76),
     (''Dig_NoPreference'', Usage_i8 0x77), (''Dig_DigitizerDiagnostic'', Usage_i8 0x80), (''Dig_DigitizerError'', Usage_i8 0x81),
     (''Dig_ErrNormalStatus'', Usage_i8 0x82), (''Dig_ErrTransducersExceeded'', Usage_i8 0x83),
     (''Dig_ErrFullTransFeaturesUnavailable'', Usage_i8 0x84), (''Dig_ErrChargeLow'', Usage_i8 0x85),
     (''Dig_TransducerSoftwareInfo'', Usage_i8 0x90), (''Dig_TransducerVendorId'', Usage_i8 0x91),
     (''Dig_TransducerProductId'', Usage_i8 0x92), (''Dig_DeviceSupportedProtocols'', Usage_i8 0x93),
     (''Dig_TransducerSupportedProtocols'', Usage_i8 0x94), (''Dig_NoProtocol'', Usage_i8 0x95),
     (''Dig_WacomAESProtocol'', Usage_i8 0x96), (''Dig_USIProtocol'', Usage_i8 0x97),
     (''Dig_MicrosoftPenProtocol'', Usage_i8 0x98), (''Dig_SupportedReportRates'', Usage_i8 0xa0),
     (''Dig_ReportRate'', Usage_i8 0xa1), (''Dig_TransducerConnected'', Usage_i8 0xa2), (''Dig_SwitchDisabled'', Usage_i8 0xa3),
     (''Dig_SwitchUnimplemented'', Usage_i8 0xa4), (''Dig_TransducerSwitches'', Usage_i8 0xa5),
     (''Dig_TransducerIndexSelector'', Usage_i8 0xa6), (''Dig_ButtonPressThreshold'', Usage_i8 0xb0)]"

definition macros_Haptics :: usage_macros_table where
  "macros_Haptics = [
     (''Hap_SimpleHapticController'', Usage_i8 0x1), (''Hap_WaveformList'', Usage_i8 0x10), (''Hap_DurationList'', Usage_i8 0x11),
     (''Hap_AutoTrigger'', Usage_i8 0x20), (''Hap_ManualTrigger'', Usage_i8 0x21),
     (''Hap_AutoTriggerAssociatedControl'', Usage_i8 0x22), (''Hap_Intensity'', Usage_i8 0x23),
     (''Hap_RepeatCount'', Usage_i8 0x24), (''Hap_RetriggerPeriod'', Usage_i8 0x25), (''Hap_WaveformVendorPage'', Usage_i8 0x26),
     (''Hap_WaveformVendorID'', Usage_i8 0x27), (''Hap_WaveformCutoffTime'', Usage_i8 0x28),
     (''Hap_WaveformNone'', Usage_i16 0x1001), (''Hap_WaveformStop'', Usage_i16 0x1002), (''Hap_WaveformClick'', Usage_i16 0x1003),
     (''Hap_WaveformBuzzContinuous'', Usage_i16 0x1004), (''Hap_WaveformRumbleContinuous'', Usage_i16 0x1005),
     (''Hap_WaveformPress'', Usage_i16 0x1006), (''Hap_WaveformRelease'', Usage_i16 0x1007),
     (''Hap_WaveformHover'', Usage_i16 0x1008), (''Hap_WaveformSuccess'', Usage_i16 0x1009),
     (''Hap_WaveformError'', Usage_i16 0x100a), (''Hap_WaveformInkContinuous'', Usage_i16 0x100b),
     (''Hap_WaveformPencilContinuous'', Usage_i16 0x100c), (''Hap_WaveformMarkerContinuous'', Usage_i16 0x100d),
     (''Hap_WaveformChiselMarkerContinuous'', Usage_i16 0x100e), (''Hap_WaveformBrushContinuous'', Usage_i16 0x100f),
     (''Hap_WaveformEraserContinuous'', Usage_i16 0x1010), (''Hap_WaveformSparkleContinuous'', Usage_i16 0x1011)]"

definition macros_PhysicalInputDevice :: usage_macros_table where
  "macros_PhysicalInputDevice = [
     (''PID_PhysicalInputDevice'', Usage_i8 0x1), (''PID_Normal'', Usage_i8 0x20), (''PID_SetEffectReport'', Usage_i8 0x21),
     (''PID_EffectParameterBlockIndex'', Usage_i8 0x22), (''PID_ParameterBlockOffset'', Usage_i8 0x23),
     (''PID_ROMFlag'', Usage_i8 0x24), (''PID_EffectType'', Usage_i8 0x25), (''PID_ETConstantForce'', Usage_i8 0x26),
     (''PID_ETRamp'', Usage_i8 0x27), (''PID_ETCustomForce'', Usage_i8 0x28), (''PID_ETSquare'', Usage_i8 0x30),
     (''PID_ETSine'', Usage_i8 0x31), (''PID_ETTriangle'', Usage_i8 0x32), (''PID_ETSawtoothUp'', Usage_i8 0x33),
     (''PID_ETSawtoothDown'', Usage_i8 0x34), (''PID_ETSpring'', Usage_i8 0x40), (''PID_ETDamper'', Usage_i8 0x41),
     (''PID_ETInertia'', Usage_i8 0x42), (''PID_ETFriction'', Usage_i8 0x43), (''PID_Duration'', Usage_i8 0x50),
     (''PID_SamplePeriod'', Usage_i8 0x51), (''PID_Gain'', Usage_i8 0x52), (''PID_TriggerButton'', Usage_i8 0x53),
     (''PID_TriggerRepeatInterval'', Usage_i8 0x54), (''PID_AxesEnable'', Usage_i8 0x55), (''PID_DirectionEnable'', Usage_i8 0x56),
     (''PID_Direction'', Usage_i8 0x57), (''PID_TypeSpecificBlockOffset'', Usage_i8 0x58), (''PID_BlockType'', Usage_i8 0x59),
     (''PID_SetEnvelopeReport'', Usage_i8 0x5a), (''PID_AttackLevel'', Usage_i8 0x5b), (''PID_AttackTime'', Usage_i8 0x5c),
     (''PID_FadeLevel'', Usage_i8 0x5d), (''PID_FadeTime'', Usage_i8 0x5e), (''PID_SetConditionReport'', Usage_i8 0x5f),
     (''PID_CenterPointOffset'', Usage_i8 0x60), (''PID_PositiveCoefficient'', Usage_i8 0x61),
     (''PID_NegativeCoefficient'', Usage_i8 0x62), (''PID_PositiveSaturation'', Usage_i8 0x63),
     (''PID_NegativeSaturation'', Usage_i8 0x64), (''PID_DeadBand'', Usage_i8 0x65), (''PID_DownloadForceSample'', Usage_i8 0x66),
     (''PID_IsochCustomForceEnable'', Usage_i8 0x67), (''PID_CustomForceDataReport'', Usage_i8 0x68),
     (''PID_CustomForceData'', Usage_i8 0x69), (''PID_CustomForceVendorDefinedData'', Usage_i8 0x6a),
     (''PID_SetCustomForceReport'', Usage_i8 0x6b), (''PID_CustomForceDataOffset'', Usage_i8 0x6c),
     (''PID_SampleCount'', Usage_i8 0x6d), (''PID_SetPeriodicReport'', Usage_i8 0x6e), (''PID_Offset'', Usage_i8 0x6f),
     (''PID_Magnitude'', Usage_i8 0x70), (''PID_Phase'', Usage_i8 0x71), (''PID_Period'', Usage_i8 0x72),
     (''PID_SetConstantForceReport'', Usage_i8 0x73), (''PID_SetRampForceReport'', Usage_i8 0x74),
     (''PID_RampStart'', Usage_i8 0x75), (''PID_RampEnd'', Usage_i8 0x76), (''PID_EffectOperationReport'', Usage_i8 0x77),
     (''PID_EffectOperation'', Usage_i8 0x78), (''PID_OpEffectStart'', Usage_i8 0x79), (''PID_OpEffectStartSolo'', Usage_i8 0x7a),
     (''PID_OpEffectStop'', Usage_i8 0x7b), (''PID_LoopCount'', Usage_i8 0x7c), (''PID_DeviceGainReport'', Usage_i8 0x7d),
     (''PID_DeviceGain'', Usage_i8 0x7e), (''PID_ParameterBlockPoolsReport'', Usage_i8 0x7f), (''PID_RAMPoolSize'', Usage_i8 0x80),
     (''PID_ROMPoolSize'', Usage_i8 0x81), (''PID_ROMEffectBlockCount'', Usage_i8 0x82),
     (''PID_SimultaneousEffectsMax'', Usage_i8 0x83), (''PID_PoolAlignment'', Usage_i8 0x84),
     (''PID_ParameterBlockMoveReport'', Usage_i8 0x85), (''PID_MoveSource'', Usage_i8 0x86),
     (''PID_MoveDestination'', Usage_i8 0x87), (''PID_MoveLength'', Usage_i8 0x88),
     (''PID_EffectParameterBlockLoadReport'', Usage_i8 0x89), (''PID_EffectParameterBlockLoadStatus'', Usage_i8 0x8b),
     (''PID_BlockLoadSuccess'', Usage_i8 0x8c), (''PID_BlockLoadFull'', Usage_i8 0x8d), (''PID_BlockLoadError'', Usage_i8 0x8e),
     (''PID_BlockHandle'', Usage_i8 0x8f), (''PID_EffectParameterBlockFreeReport'', Usage_i8 0x90),
     (''PID_TypeSpecificBlockHandle'', Usage_i8 0x91), (''PID_PIDStateReport'', Usage_i8 0x92),
     (''PID_EffectPlaying'', Usage_i8 0x94), (''PID_PIDDeviceControlReport'', Usage_i8 0x95),
     (''PID_PIDDeviceControl'', Usage_i8 0x96), (''PID_DCEnableActuators'', Usage_i8 0x97),
     (''PID_DCDisableActuators'', Usage_i8 0x98), (''PID_DCStopAllEffects'', Usage_i8 0x99), (''PID_DCReset'', Usage_i8 0x9a),
     (''PID_DCPause'', Usage_i8 0x9b), (''PID_DCContinue'', Usage_i8 0x9c), (''PID_DevicePaused'', Usage_i8 0x9f),
     (''PID_ActuatorsEnabled'', Usage_i8 0xa0), (''PID_SafetySwitch'', Usage_i8 0xa4),
     (''PID_ActuatorOverrideSwitch'', Usage_i8 0xa5), (''PID_ActuatorPower'', Usage_i8 0xa6), (''PID_StartDelay'', Usage_i8 0xa7),
     (''PID_ParameterBlockSize'', Usage_i8 0xa8), (''PID_DeviceManagedPool'', Usage_i8 0xa9),
     (''PID_SharedParameterBlocks'', Usage_i8 0xaa), (''PID_CreateNewEffectParameterBlockReport'', Usage_i8 0xab),
     (''PID_RAMPoolAvailable'', Usage_i8 0xac)]"

definition macros_SoC :: usage_macros_table where
  "macros_SoC = [
     (''SC_SocControl'', Usage_i8 0x1), (''SC_FirmwareTransfer'', Usage_i8 0x2), (''SC_FirmwareFileId'', Usage_i8 0x3),
     (''SC_FileOffsetInBytes'', Usage_i8 0x4), (''SC_FileTransferSizeMaxInBytes'', Usage_i8 0x5),
     (''SC_FilePayload'', Usage_i8 0x6), (''SC_FilePayloadSizeInBytes'', Usage_i8 0x7),
     (''SC_FilePayloadContainsLastBytes'', Usage_i8 0x8), (''SC_FileTransferStop'', Usage_i8 0x9),
     (''SC_FileTransferTillEnd'', Usage_i8 0xa)]"

definition macros_EyeandHeadTrackers :: usage_macros_table where
  "macros_EyeandHeadTrackers = [
     (''EHT_EyeTracker'', Usage_i8 0x1), (''EHT_HeadTracker'', Usage_i8 0x2), (''EHT_TrackingData'', Usage_i8 0x10),
     (''EHT_Capabilities'', Usage_i8 0x11), (''EHT_Configuration'', Usage_i8 0x12), (''EHT_Status'', Usage_i8 0x13),
     (''EHT_Control'', Usage_i8 0x14), (''EHT_SensorTimestamp'', Usage_i8 0x20), (''EHT_PositionX'', Usage_i8 0x21),
     (''EHT_PositionY'', Usage_i8 0x22), (''EHT_PositionZ'', Usage_i8 0x23), (''EHT_GazePoint'', Usage_i8 0x24),
     (''EHT_LeftEyePosition'', Usage_i8 0x25), (''EHT_RightEyePosition'', Usage_i8 0x26), (''EHT_HeadPosition'', Usage_i8 0x27),
     (''EHT_HeadDirectionPoint'', Usage_i8 0x28), (''EHT_RotationaboutXaxis'', Usage_i8 0x29),
     (''EHT_RotationaboutYaxis'', Usage_i8 0x2a), (''EHT_RotationaboutZaxis'', Usage_i8 0x2b),
     (''EHT_TrackerQuality'', Usage_i16 0x100), (''EHT_MinimumTrackingDistance'', Usage_i16 0x101),
     (''EHT_OptimumTrackingDistance'', Usage_i16 0x102), (''EHT_MaximumTrackingDistance'', Usage_i16 0x103),
     (''EHT_MaximumScreenPlaneWidth'', Usage_i16 0x104), (''EHT_MaximumScreenPlaneHeight'', Usage_i16 0x105),
     (''EHT_DisplayManufacturerID'', Usage_i16 0x200), (''EHT_DisplayProductID'', Usage_i16 0x201),
     (''EHT_DisplaySerialNumber'', Usage_i16 0x202), (''EHT_DisplayManufacturerDate'', Usage_i16 0x203),
     (''EHT_CalibratedScreenWidth'', Usage_i16 0x204), (''EHT_CalibratedScreenHeight'', Usage_i16 0x205),
     (''EHT_SamplingFrequency'', Usage_i16 0x300), (''EHT_ConfigurationStatus'', Usage_i16 0x301),
     (''EHT_DeviceModeRequest'', Usage_i16 0x400)]"

definition macros_AuxiliaryDisplay :: usage_macros_table where
  "macros_AuxiliaryDisplay = [
     (''AD_AlphanumericDisplay'', Usage_i8 0x1), (''AD_AuxiliaryDisplay'', Usage_i8 0x2),
     (''AD_DisplayAttributesReport'', Usage_i8 0x20), (''AD_ASCIICharacterSet'', Usage_i8 0x21),
     (''AD_DataReadBack'', Usage_i8 0x22), (''AD_FontReadBack'', Usage_i8 0x23), (''AD_DisplayControlReport'', Usage_i8 0x24),
     (''AD_ClearDisplay'', Usage_i8 0x25), (''AD_DisplayEnable'', Usage_i8 0x26), (''AD_ScreenSaverDelay'', Usage_i8 0x27),
     (''AD_ScreenSaverEnable'', Usage_i8 0x28), (''AD_VerticalScroll'', Usage_i8 0x29), (''AD_HorizontalScroll'', Usage_i8 0x2a),
     (''AD_CharacterReport'', Usage_i8 0x2b), (''AD_DisplayData'', Usage_i8 0x2c), (''AD_DisplayStatus'', Usage_i8 0x2d),
     (''AD_StatNotReady'', Usage_i8 0x2e), (''AD_StatReady'', Usage_i8 0x2f), (''AD_ErrNotaloadablecharacter'', Usage_i8 0x30),
     (''AD_ErrFontdatacannotberead'', Usage_i8 0x31), (''AD_CursorPositionReport'', Usage_i8 0x32), (''AD_Row'', Usage_i8 0x33),
     (''AD_Column'', Usage_i8 0x34), (''AD_Rows'', Usage_i8 0x35), (''AD_Columns'', Usage_i8 0x36),
     (''AD_CursorPixelPositioning'', Usage_i8 0x37), (''AD_CursorMode'', Usage_i8 0x38), (''AD_CursorEnable'', Usage_i8 0x39),
     (''AD_CursorBlink'', Usage_i8 0x3a), (''AD_FontReport'', Usage_i8 0x3b), (''AD_FontData'', Usage_i8 0x3c),
     (''AD_CharacterWidth'', Usage_i8 0x3d), (''AD_CharacterHeight'', Usage_i8 0x3e),
     (''AD_CharacterSpacingHorizontal'', Usage_i8 0x3f), (''AD_CharacterSpacingVertical'', Usage_i8 0x40),
     (''AD_UnicodeCharacterSet'', Usage_i8 0x41), (''AD_Font7Segment'', Usage_i8 0x42),
     (''AD_SevenSegmentDirectMap'', Usage_i8 0x43), (''AD_Font14Segment'', Usage_i8 0x44),
     (''AD_One4SegmentDirectMap'', Usage_i8 0x45), (''AD_DisplayBrightness'', Usage_i8 0x46),
     (''AD_DisplayContrast'', Usage_i8 0x47), (''AD_CharacterAttribute'', Usage_i8 0x48),
     (''AD_AttributeReadback'', Usage_i8 0x49), (''AD_AttributeData'', Usage_i8 0x4a), (''AD_CharAttrEnhance'', Usage_i8 0x4b),
     (''AD_CharAttrUnderline'', Usage_i8 0x4c), (''AD_CharAttrBlink'', Usage_i8 0x4d), (''AD_BitmapSizeX'', Usage_i8 0x80),
     (''AD_BitmapSizeY'', Usage_i8 0x81), (''AD_MaxBlitSize'', Usage_i8 0x82), (''AD_BitDepthFormat'', Usage_i8 0x83),
     (''AD_DisplayOrientation'', Usage_i8 0x84), (''AD_PaletteReport'', Usage_i8 0x85), (''AD_PaletteDataSize'', Usage_i8 0x86),
     (''AD_PaletteDataOffset'', Usage_i8 0x87), (''AD_PaletteData'', Usage_i8 0x88), (''AD_BlitReport'', Usage_i8 0x8a),
     (''AD_BlitRectangleX1'', Usage_i8 0x8b), (''AD_BlitRectangleY1'', Usage_i8 0x8c), (''AD_BlitRectangleX2'', Usage_i8 0x8d),
     (''AD_BlitRectangleY2'', Usage_i8 0x8e), (''AD_BlitData'', Usage_i8 0x8f), (''AD_SoftButton'', Usage_i8 0x90),
     (''AD_SoftButtonID'', Usage_i8 0x91), (''AD_SoftButtonSide'', Usage_i8 0x92), (''AD_SoftButtonOffset1'', Usage_i8 0x93),
     (''AD_SoftButtonOffset2'', Usage_i8 0x94), (''AD_SoftButtonReport'', Usage_i8 0x95), (''AD_SoftKeys'', Usage_i8 0xc2),
     (''AD_DisplayDataExtensions'', Usage_i8 0xcc), (''AD_CharacterMapping'', Usage_i8 0xcf),
     (''AD_UnicodeEquivalent'', Usage_i8 0xdd), (''AD_CharacterPageMapping'', Usage_i8 0xdf),
     (''AD_RequestReport'', Usage_i16 0xff)]"

definition macros_Sensors_1 :: usage_macros_table where
  "macros_Sensors_1 = [
     (''Sen_Sensor'', Usage_i8 0x1), (''Sen_Biometric'', Usage_i8 0x10), (''Sen_BiometricHumanPresence'', Usage_i8 0x11),
     (''Sen_BiometricHumanProximity'', Usage_i8 0x12), (''Sen_BiometricHumanTouch'', Usage_i8 0x13),
     (''Sen_BiometricBloodPressure'', Usage_i8 0x14), (''Sen_BiometricBodyTemperature'', Usage_i8 0x15),
     (''Sen_BiometricHeartRate'', Usage_i8 0x16), (''Sen_BiometricHeartRateVariability'', Usage_i8 0x17),
     (''Sen_BiometricPeripheralOxygenSaturation'', Usage_i8 0x18), (''Sen_BiometricRespiratoryRate'', Usage_i8 0x19),
     (''Sen_Electrical'', Usage_i8 0x20), (''Sen_ElectricalCapacitance'', Usage_i8 0x21),
     (''Sen_ElectricalCurrent'', Usage_i8 0x22), (''Sen_ElectricalPower'', Usage_i8 0x23),
     (''Sen_ElectricalInductance'', Usage_i8 0x24), (''Sen_ElectricalResistance'', Usage_i8 0x25),
     (''Sen_ElectricalVoltage'', Usage_i8 0x26), (''Sen_ElectricalPotentiometer'', Usage_i8 0x27),
     (''Sen_ElectricalFrequency'', Usage_i8 0x28), (''Sen_ElectricalPeriod'', Usage_i8 0x29),
     (''Sen_Environmental'', Usage_i8 0x30), (''Sen_EnvironmentalAtmosphericPressure'', Usage_i8 0x31),
     (''Sen_EnvironmentalHumidity'', Usage_i8 0x32), (''Sen_EnvironmentalTemperature'', Usage_i8 0x33),
     (''Sen_EnvironmentalWindDirection'', Usage_i8 0x34), (''Sen_EnvironmentalWindSpeed'', Usage_i8 0x35),
     (''Sen_EnvironmentalAirQuality'', Usage_i8 0x36), (''Sen_EnvironmentalHeatIndex'', Usage_i8 0x37),
     (''Sen_EnvironmentalSurfaceTemperature'', Usage_i8 0x38), (''Sen_EnvironmentalVolatileOrganicCompounds'', Usage_i8 0x39),
     (''Sen_EnvironmentalObjectPresence'', Usage_i8 0x3a), (''Sen_EnvironmentalObjectProximity'', Usage_i8 0x3b),
     (''Sen_Light'', Usage_i8 0x40), (''Sen_LightAmbientLight'', Usage_i8 0x41), (''Sen_LightConsumerInfrared'', Usage_i8 0x42),
     (''Sen_LightInfraredLight'', Usage_i8 0x43), (''Sen_LightVisibleLight'', Usage_i8 0x44),
     (''Sen_LightUltravioletLight'', Usage_i8 0x45), (''Sen_Location'', Usage_i8 0x50), (''Sen_LocationBroadcast'', Usage_i8 0x51),
     (''Sen_LocationDeadReckoning'', Usage_i8 0x52), (''Sen_LocationGPSGlobalPositioningSystem'', Usage_i8 0x53),
     (''Sen_LocationLookup'', Usage_i8 0x54), (''Sen_LocationOther'', Usage_i8 0x55), (''Sen_LocationStatic'', Usage_i8 0x56),
     (''Sen_LocationTriangulation'', Usage_i8 0x57), (''Sen_Mechanical'', Usage_i8 0x60),
     (''Sen_MechanicalBooleanSwitch'', Usage_i8 0x61), (''Sen_MechanicalBooleanSwitchArray'', Usage_i8 0x62),
     (''Sen_MechanicalMultivalueSwitch'', Usage_i8 0x63), (''Sen_MechanicalForce'', Usage_i8 0x64),
     (''Sen_MechanicalPressure'', Usage_i8 0x65), (''Sen_MechanicalStrain'', Usage_i8 0x66),
     (''Sen_MechanicalWeight'', Usage_i8 0x67), (''Sen_MechanicalHapticVibrator'', Usage_i8 0x68),
     (''Sen_MechanicalHallEffectSwitch'', Usage_i8 0x69), (''Sen_Motion'', Usage_i8 0x70),
     (''Sen_MotionAccelerometer1D'', Usage_i8 0x71), (''Sen_MotionAccelerometer2D'', Usage_i8 0x72),
     (''Sen_MotionAccelerometer3D'', Usage_i8 0x73), (''Sen_MotionGyrometer1D'', Usage_i8 0x74),
     (''Sen_MotionGyrometer2D'', Usage_i8 0x75), (''Sen_MotionGyrometer3D'', Usage_i8 0x76),
     (''Sen_MotionMotionDetector'', Usage_i8 0x77), (''Sen_MotionSpeedometer'', Usage_i8 0x78),
     (''Sen_MotionAccelerometer'', Usage_i8 0x79), (''Sen_MotionGyrometer'', Usage_i8 0x7a),
     (''Sen_MotionGravityVector'', Usage_i8 0x7b), (''Sen_MotionLinearAccelerometer'', Usage_i8 0x7c),
     (''Sen_Orientation'', Usage_i8 0x80), (''Sen_OrientationCompass1D'', Usage_i8 0x81),
     (''Sen_OrientationCompass2D'', Usage_i8 0x82), (''Sen_OrientationCompass3D'', Usage_i8 0x83),
     (''Sen_OrientationInclinometer1D'', Usage_i8 0x84), (''Sen_OrientationInclinometer2D'', Usage_i8 0x85),
     (''Sen_OrientationInclinometer3D'', Usage_i8 0x86), (''Sen_OrientationDistance1D'', Usage_i8 0x87),
     (''Sen_OrientationDistance2D'', Usage_i8 0x88), (''Sen_OrientationDistance3D'', Usage_i8 0x89),
     (''Sen_OrientationDeviceOrientation'', Usage_i8 0x8a), (''Sen_OrientationCompass'', Usage_i8 0x8b),
     (''Sen_OrientationInclinometer'', Usage_i8 0x8c), (''Sen_OrientationDistance'', Usage_i8 0x8d),
     (''Sen_OrientationRelativeOrientation'', Usage_i8 0x8e), (''Sen_OrientationSimpleOrientation'', Usage_i8 0x8f),
     (''Sen_Scanner'', Usage_i8 0x90), (''Sen_ScannerBarcode'', Usage_i8 0x91), (''Sen_ScannerRFID'', Usage_i8 0x92),
     (''Sen_ScannerNFC'', Usage_i8 0x93), (''Sen_Time'', Usage_i8 0xa0), (''Sen_TimeAlarmTimer'', Usage_i8 0xa1),
     (''Sen_TimeRealTimeClock'', Usage_i8 0xa2), (''Sen_PersonalActivity'', Usage_i8 0xb0),
     (''Sen_PersonalActivityActivityDetection'', Usage_i8 0xb1), (''Sen_PersonalActivityDevicePosition'', Usage_i8 0xb2),
     (''Sen_PersonalActivityFloorTracker'', Usage_i8 0xb3), (''Sen_PersonalActivityPedometer'', Usage_i8 0xb4),
     (''Sen_PersonalActivityStepDetection'', Usage_i8 0xb5), (''Sen_OrientationExtended'', Usage_i8 0xc0),
     (''Sen_OrientationExtendedGeomagneticOrientation'', Usage_i8 0xc1), (''Sen_OrientationExtendedMagnetometer'', Usage_i8 0xc2),
     (''Sen_Gesture'', Usage_i8 0xd0), (''Sen_GestureChassisFlipGesture'', Usage_i8 0xd1),
     (''Sen_GestureHingeFoldGesture'', Usage_i8 0xd2), (''Sen_Other'', Usage_i8 0xe0), (''Sen_OtherCustom'', Usage_i8 0xe1),
     (''Sen_OtherGeneric'', Usage_i8 0xe2), (''Sen_OtherGenericEnumerator'', Usage_i8 0xe3),
     (''Sen_OtherHingeAngle'', Usage_i8 0xe4), (''Sen_VendorReserved1'', Usage_i8 0xf0), (''Sen_VendorReserved2'', Usage_i8 0xf1),
     (''Sen_VendorReserved3'', Usage_i8 0xf2), (''Sen_VendorReserved4'', Usage_i8 0xf3), (''Sen_VendorReserved5'', Usage_i8 0xf4),
     (''Sen_VendorReserved6'', Usage_i8 0xf5), (''Sen_VendorReserved7'', Usage_i8 0xf6), (''Sen_VendorReserved8'', Usage_i8 0xf7),
     (''Sen_VendorReserved9'', Usage_i8 0xf8), (''Sen_VendorReserved10'', Usage_i8 0xf9),
     (''Sen_VendorReserved11'', Usage_i8 0xfa), (''Sen_VendorReserved12'', Usage_i8 0xfb),
     (''Sen_VendorReserved13'', Usage_i8 0xfc), (''Sen_VendorReserved14'', Usage_i8 0xfd),
     (''Sen_VendorReserved15'', Usage_i8 0xfe), (''Sen_VendorReserved16'', Usage_i16 0xff), (''Sen_Event'', Usage_i16 0x200),
     (''Sen_EventSensorState'', Usage_i16 0x201), (''Sen_EventSensorEvent'', Usage_i16 0x202), (''Sen_Property'', Usage_i16 0x300),
     (''Sen_PropertyFriendlyName'', Usage_i16 0x301), (''Sen_PropertyPersistentUniqueID'', Usage_i16 0x302),
     (''Sen_PropertySensorStatus'', Usage_i16 0x303), (''Sen_PropertyMinimumReportInterval'', Usage_i16 0x304),
     (''Sen_PropertySensorManufacturer'', Usage_i16 0x305), (''Sen_PropertySensorModel'', Usage_i16 0x306),
     (''Sen_PropertySensorSerialNumber'', Usage_i16 0x307), (''Sen_PropertySensorDescription'', Usage_i16 0x308),
     (''Sen_PropertySensorConnectionType'', Usage_i16 0x309), (''Sen_PropertySensorDevicePath'', Usage_i16 0x30a),
     (''Sen_PropertyHardwareRevision'', Usage_i16 0x30b), (''Sen_PropertyFirmwareVersion'', Usage_i16 0x30c),
     (''Sen_PropertyReleaseDate'', Usage_i16 0x30d), (''Sen_PropertyReportInterval'', Usage_i16 0x30e),
     (''Sen_PropertyChangeSensitivityAbsolute'', Usage_i16 0x30f),
     (''Sen_PropertyChangeSensitivityPercentofRange'', Usage_i16 0x310),
     (''Sen_PropertyChangeSensitivityPercentRelative'', Usage_i16 0x311), (''Sen_PropertyAccuracy'', Usage_i16 0x312),
     (''Sen_PropertyResolution'', Usage_i16 0x313), (''Sen_PropertyMaximum'', Usage_i16 0x314)]"

definition macros_Sensors_2 :: usage_macros_table where
  "macros_Sensors_2 = [
     (''Sen_PropertyMinimum'', Usage_i16 0x315), (''Sen_PropertyReportingState'', Usage_i16 0x316),
     (''Sen_PropertySamplingRate'', Usage_i16 0x317), (''Sen_PropertyResponseCurve'', Usage_i16 0x318),
     (''Sen_PropertyPowerState'', Usage_i16 0x319), (''Sen_PropertyMaximumFIFOEvents'', Usage_i16 0x31a),
     (''Sen_PropertyReportLatency'', Usage_i16 0x31b), (''Sen_PropertyFlushFIFOEvents'', Usage_i16 0x31c),
     (''Sen_PropertyMaximumPowerConsumption'', Usage_i16 0x31d), (''Sen_PropertyIsPrimary'', Usage_i16 0x31e),
     (''Sen_PropertyHumanPresenceDetectionType'', Usage_i16 0x31f), (''Sen_DataFieldLocation'', Usage_i16 0x400),
     (''Sen_DataFieldAltitudeAntennaSeaLevel'', Usage_i16 0x402),
     (''Sen_DataFieldDifferentialReferenceStationID'', Usage_i16 0x403),
     (''Sen_DataFieldAltitudeEllipsoidError'', Usage_i16 0x404), (''Sen_DataFieldAltitudeEllipsoid'', Usage_i16 0x405),
     (''Sen_DataFieldAltitudeSeaLevelError'', Usage_i16 0x406), (''Sen_DataFieldAltitudeSeaLevel'', Usage_i16 0x407),
     (''Sen_DataFieldDifferentialGPSDataAge'', Usage_i16 0x408), (''Sen_DataFieldErrorRadius'', Usage_i16 0x409),
     (''Sen_DataFieldFixQuality'', Usage_i16 0x40a), (''Sen_DataFieldFixType'', Usage_i16 0x40b),
     (''Sen_DataFieldGeoidalSeparation'', Usage_i16 0x40c), (''Sen_DataFieldGPSOperationMode'', Usage_i16 0x40d),
     (''Sen_DataFieldGPSSelectionMode'', Usage_i16 0x40e), (''Sen_DataFieldGPSStatus'', Usage_i16 0x40f),
     (''Sen_DataFieldPositionDilutionofPrecision'', Usage_i16 0x410),
     (''Sen_DataFieldHorizontalDilutionofPrecision'', Usage_i16 0x411),
     (''Sen_DataFieldVerticalDilutionofPrecision'', Usage_i16 0x412), (''Sen_DataFieldLatitude'', Usage_i16 0x413),
     (''Sen_DataFieldLongitude'', Usage_i16 0x414), (''Sen_DataFieldTrueHeading'', Usage_i16 0x415),
     (''Sen_DataFieldMagneticHeading'', Usage_i16 0x416), (''Sen_DataFieldMagneticVariation'', Usage_i16 0x417),
     (''Sen_DataFieldSpeed'', Usage_i16 0x418), (''Sen_DataFieldSatellitesinView'', Usage_i16 0x419),
     (''Sen_DataFieldSatellitesinViewAzimuth'', Usage_i16 0x41a), (''Sen_DataFieldSatellitesinViewElevation'', Usage_i16 0x41b),
     (''Sen_DataFieldSatellitesinViewIDs'', Usage_i16 0x41c), (''Sen_DataFieldSatellitesinViewPRNs'', Usage_i16 0x41d),
     (''Sen_DataFieldSatellitesinViewSNRatios'', Usage_i16 0x41e), (''Sen_DataFieldSatellitesUsedCount'', Usage_i16 0x41f),
     (''Sen_DataFieldSatellitesUsedPRNs'', Usage_i16 0x420), (''Sen_DataFieldNMEASentence'', Usage_i16 0x421),
     (''Sen_DataFieldAddressLine1'', Usage_i16 0x422), (''Sen_DataFieldAddressLine2'', Usage_i16 0x423),
     (''Sen_DataFieldCity'', Usage_i16 0x424), (''Sen_DataFieldStateorProvince'', Usage_i16 0x425),
     (''Sen_DataFieldCountryorRegion'', Usage_i16 0x426), (''Sen_DataFieldPostalCode'', Usage_i16 0x427),
     (''Sen_PropertyLocation'', Usage_i16 0x42a), (''Sen_PropertyLocationDesiredAccuracy'', Usage_i16 0x42b),
     (''Sen_DataFieldEnvironmental'', Usage_i16 0x430), (''Sen_DataFieldAtmosphericPressure'', Usage_i16 0x431),
     (''Sen_DataFieldRelativeHumidity'', Usage_i16 0x433), (''Sen_DataFieldTemperature'', Usage_i16 0x434),
     (''Sen_DataFieldWindDirection'', Usage_i16 0x435), (''Sen_DataFieldWindSpeed'', Usage_i16 0x436),
     (''Sen_DataFieldAirQualityIndex'', Usage_i16 0x437), (''Sen_DataFieldEquivalentCO2'', Usage_i16 0x438),
     (''Sen_DataFieldVolatileOrganicCompoundConcentration'', Usage_i16 0x439), (''Sen_DataFieldObjectPresence'', Usage_i16 0x43a),
     (''Sen_DataFieldObjectProximityRange'', Usage_i16 0x43b), (''Sen_DataFieldObjectProximityOutofRange'', Usage_i16 0x43c),
     (''Sen_PropertyEnvironmental'', Usage_i16 0x440), (''Sen_PropertyReferencePressure'', Usage_i16 0x441),
     (''Sen_DataFieldMotion'', Usage_i16 0x450), (''Sen_DataFieldMotionState'', Usage_i16 0x451),
     (''Sen_DataFieldAcceleration'', Usage_i16 0x452), (''Sen_DataFieldAccelerationAxisX'', Usage_i16 0x453),
     (''Sen_DataFieldAccelerationAxisY'', Usage_i16 0x454), (''Sen_DataFieldAccelerationAxisZ'', Usage_i16 0x455),
     (''Sen_DataFieldAngularVelocity'', Usage_i16 0x456), (''Sen_DataFieldAngularVelocityaboutXAxis'', Usage_i16 0x457),
     (''Sen_DataFieldAngularVelocityaboutYAxis'', Usage_i16 0x458), (''Sen_DataFieldAngularVelocityaboutZAxis'', Usage_i16 0x459),
     (''Sen_DataFieldAngularPosition'', Usage_i16 0x45a), (''Sen_DataFieldAngularPositionaboutXAxis'', Usage_i16 0x45b),
     (''Sen_DataFieldAngularPositionaboutYAxis'', Usage_i16 0x45c), (''Sen_DataFieldAngularPositionaboutZAxis'', Usage_i16 0x45d),
     (''Sen_DataFieldMotionSpeed'', Usage_i16 0x45e), (''Sen_DataFieldMotionIntensity'', Usage_i16 0x45f),
     (''Sen_DataFieldOrientation'', Usage_i16 0x470), (''Sen_DataFieldHeading'', Usage_i16 0x471),
     (''Sen_DataFieldHeadingXAxis'', Usage_i16 0x472), (''Sen_DataFieldHeadingYAxis'', Usage_i16 0x473),
     (''Sen_DataFieldHeadingZAxis'', Usage_i16 0x474), (''Sen_DataFieldHeadingCompensatedMagneticNorth'', Usage_i16 0x475),
     (''Sen_DataFieldHeadingCompensatedTrueNorth'', Usage_i16 0x476), (''Sen_DataFieldHeadingMagneticNorth'', Usage_i16 0x477),
     (''Sen_DataFieldHeadingTrueNorth'', Usage_i16 0x478), (''Sen_DataFieldDistance'', Usage_i16 0x479),
     (''Sen_DataFieldDistanceXAxis'', Usage_i16 0x47a), (''Sen_DataFieldDistanceYAxis'', Usage_i16 0x47b),
     (''Sen_DataFieldDistanceZAxis'', Usage_i16 0x47c), (''Sen_DataFieldDistanceOutofRange'', Usage_i16 0x47d),
     (''Sen_DataFieldTilt'', Usage_i16 0x47e), (''Sen_DataFieldTiltXAxis'', Usage_i16 0x47f),
     (''Sen_DataFieldTiltYAxis'', Usage_i16 0x480), (''Sen_DataFieldTiltZAxis'', Usage_i16 0x481),
     (''Sen_DataFieldRotationMatrix'', Usage_i16 0x482), (''Sen_DataFieldQuaternion'', Usage_i16 0x483),
     (''Sen_DataFieldMagneticFlux'', Usage_i16 0x484), (''Sen_DataFieldMagneticFluxXAxis'', Usage_i16 0x485),
     (''Sen_DataFieldMagneticFluxYAxis'', Usage_i16 0x486), (''Sen_DataFieldMagneticFluxZAxis'', Usage_i16 0x487),
     (''Sen_DataFieldMagnetometerAccuracy'', Usage_i16 0x488), (''Sen_DataFieldSimpleOrientationDirection'', Usage_i16 0x489),
     (''Sen_DataFieldMechanical'', Usage_i16 0x490), (''Sen_DataFieldBooleanSwitchState'', Usage_i16 0x491),
     (''Sen_DataFieldBooleanSwitchArrayStates'', Usage_i16 0x492), (''Sen_DataFieldMultivalueSwitchValue'', Usage_i16 0x493),
     (''Sen_DataFieldForce'', Usage_i16 0x494), (''Sen_DataFieldAbsolutePressure'', Usage_i16 0x495),
     (''Sen_DataFieldGaugePressure'', Usage_i16 0x496), (''Sen_DataFieldStrain'', Usage_i16 0x497),
     (''Sen_DataFieldWeight'', Usage_i16 0x498), (''Sen_PropertyMechanical'', Usage_i16 0x4a0),
     (''Sen_PropertyVibrationState'', Usage_i16 0x4a1), (''Sen_PropertyForwardVibrationSpeed'', Usage_i16 0x4a2),
     (''Sen_PropertyBackwardVibrationSpeed'', Usage_i16 0x4a3), (''Sen_DataFieldBiometric'', Usage_i16 0x4b0),
     (''Sen_DataFieldHumanPresence'', Usage_i16 0x4b1), (''Sen_DataFieldHumanProximityRange'', Usage_i16 0x4b2),
     (''Sen_DataFieldHumanProximityOutofRange'', Usage_i16 0x4b3), (''Sen_DataFieldHumanTouchState'', Usage_i16 0x4b4),
     (''Sen_DataFieldBloodPressure'', Usage_i16 0x4b5), (''Sen_DataFieldBloodPressureDiastolic'', Usage_i16 0x4b6),
     (''Sen_DataFieldBloodPressureSystolic'', Usage_i16 0x4b7), (''Sen_DataFieldHeartRate'', Usage_i16 0x4b8),
     (''Sen_DataFieldRestingHeartRate'', Usage_i16 0x4b9), (''Sen_DataFieldHeartbeatInterval'', Usage_i16 0x4ba),
     (''Sen_DataFieldRespiratoryRate'', Usage_i16 0x4bb), (''Sen_DataFieldSpO2'', Usage_i16 0x4bc),
     (''Sen_DataFieldHumanAttentionDetected'', Usage_i16 0x4bd), (''Sen_DataFieldHumanHeadAzimuth'', Usage_i16 0x4be),
     (''Sen_DataFieldHumanHeadAltitude'', Usage_i16 0x4bf), (''Sen_DataFieldHumanHeadRoll'', Usage_i16 0x4c0),
     (''Sen_DataFieldHumanHeadPitch'', Usage_i16 0x4c1), (''Sen_DataFieldHumanHeadYaw'', Usage_i16 0x4c2),
     (''Sen_DataFieldHumanCorrelationId'', Usage_i16 0x4c3), (''Sen_DataFieldLight'', Usage_i16 0x4d0),
     (''Sen_DataFieldIlluminance'', Usage_i16 0x4d1), (''Sen_DataFieldColorTemperature'', Usage_i16 0x4d2),
     (''Sen_DataFieldChromaticity'', Usage_i16 0x4d3), (''Sen_DataFieldChromaticityX'', Usage_i16 0x4d4),
     (''Sen_DataFieldChromaticityY'', Usage_i16 0x4d5), (''Sen_DataFieldConsumerIRSentenceReceive'', Usage_i16 0x4d6),
     (''Sen_DataFieldInfraredLight'', Usage_i16 0x4d7), (''Sen_DataFieldRedLight'', Usage_i16 0x4d8)]"

definition macros_Sensors_3 :: usage_macros_table where
  "macros_Sensors_3 = [
     (''Sen_DataFieldGreenLight'', Usage_i16 0x4d9), (''Sen_DataFieldBlueLight'', Usage_i16 0x4da),
     (''Sen_DataFieldUltravioletALight'', Usage_i16 0x4db), (''Sen_DataFieldUltravioletBLight'', Usage_i16 0x4dc),
     (''Sen_DataFieldUltravioletIndex'', Usage_i16 0x4dd), (''Sen_DataFieldNearInfraredLight'', Usage_i16 0x4de),
     (''Sen_PropertyLight'', Usage_i16 0x4df), (''Sen_PropertyConsumerIRSentenceSend'', Usage_i16 0x4e0),
     (''Sen_PropertyAutoBrightnessPreferred'', Usage_i16 0x4e2), (''Sen_PropertyAutoColorPreferred'', Usage_i16 0x4e3),
     (''Sen_DataFieldScanner'', Usage_i16 0x4f0), (''Sen_DataFieldRFIDTag40Bit'', Usage_i16 0x4f1),
     (''Sen_DataFieldNFCSentenceReceive'', Usage_i16 0x4f2), (''Sen_PropertyScanner'', Usage_i16 0x4f8),
     (''Sen_PropertyNFCSentenceSend'', Usage_i16 0x4f9), (''Sen_DataFieldElectrical'', Usage_i16 0x500),
     (''Sen_DataFieldCapacitance'', Usage_i16 0x501), (''Sen_DataFieldCurrent'', Usage_i16 0x502),
     (''Sen_DataFieldElectricalPower'', Usage_i16 0x503), (''Sen_DataFieldInductance'', Usage_i16 0x504),
     (''Sen_DataFieldResistance'', Usage_i16 0x505), (''Sen_DataFieldVoltage'', Usage_i16 0x506),
     (''Sen_DataFieldFrequency'', Usage_i16 0x507), (''Sen_DataFieldPeriod'', Usage_i16 0x508),
     (''Sen_DataFieldPercentofRange'', Usage_i16 0x509), (''Sen_DataFieldTime'', Usage_i16 0x520),
     (''Sen_DataFieldYear'', Usage_i16 0x521), (''Sen_DataFieldMonth'', Usage_i16 0x522), (''Sen_DataFieldDay'', Usage_i16 0x523),
     (''Sen_DataFieldDayofWeek'', Usage_i16 0x524), (''Sen_DataFieldHour'', Usage_i16 0x525),
     (''Sen_DataFieldMinute'', Usage_i16 0x526), (''Sen_DataFieldSecond'', Usage_i16 0x527),
     (''Sen_DataFieldMillisecond'', Usage_i16 0x528), (''Sen_DataFieldTimestamp'', Usage_i16 0x529),
     (''Sen_DataFieldJulianDayofYear'', Usage_i16 0x52a), (''Sen_DataFieldTimeSinceSystemBoot'', Usage_i16 0x52b),
     (''Sen_PropertyTime'', Usage_i16 0x530), (''Sen_PropertyTimeZoneOffsetfromUTC'', Usage_i16 0x531),
     (''Sen_PropertyTimeZoneName'', Usage_i16 0x532), (''Sen_PropertyDaylightSavingsTimeObserved'', Usage_i16 0x533),
     (''Sen_PropertyTimeTrimAdjustment'', Usage_i16 0x534), (''Sen_PropertyArmAlarm'', Usage_i16 0x535),
     (''Sen_DataFieldCustom'', Usage_i16 0x540), (''Sen_DataFieldCustomUsage'', Usage_i16 0x541),
     (''Sen_DataFieldCustomBooleanArray'', Usage_i16 0x542), (''Sen_DataFieldCustomValue'', Usage_i16 0x543),
     (''Sen_DataFieldCustomValue1'', Usage_i16 0x544), (''Sen_DataFieldCustomValue2'', Usage_i16 0x545),
     (''Sen_DataFieldCustomValue3'', Usage_i16 0x546), (''Sen_DataFieldCustomValue4'', Usage_i16 0x547),
     (''Sen_DataFieldCustomValue5'', Usage_i16 0x548), (''Sen_DataFieldCustomValue6'', Usage_i16 0x549),
     (''Sen_DataFieldCustomValue7'', Usage_i16 0x54a), (''Sen_DataFieldCustomValue8'', Usage_i16 0x54b),
     (''Sen_DataFieldCustomValue9'', Usage_i16 0x54c), (''Sen_DataFieldCustomValue10'', Usage_i16 0x54d),
     (''Sen_DataFieldCustomValue11'', Usage_i16 0x54e), (''Sen_DataFieldCustomValue12'', Usage_i16 0x54f),
     (''Sen_DataFieldCustomValue13'', Usage_i16 0x550), (''Sen_DataFieldCustomValue14'', Usage_i16 0x551),
     (''Sen_DataFieldCustomValue15'', Usage_i16 0x552), (''Sen_DataFieldCustomValue16'', Usage_i16 0x553),
     (''Sen_DataFieldCustomValue17'', Usage_i16 0x554), (''Sen_DataFieldCustomValue18'', Usage_i16 0x555),
     (''Sen_DataFieldCustomValue19'', Usage_i16 0x556), (''Sen_DataFieldCustomValue20'', Usage_i16 0x557),
     (''Sen_DataFieldCustomValue21'', Usage_i16 0x558), (''Sen_DataFieldCustomValue22'', Usage_i16 0x559),
     (''Sen_DataFieldCustomValue23'', Usage_i16 0x55a), (''Sen_DataFieldCustomValue24'', Usage_i16 0x55b),
     (''Sen_DataFieldCustomValue25'', Usage_i16 0x55c), (''Sen_DataFieldCustomValue26'', Usage_i16 0x55d),
     (''Sen_DataFieldCustomValue27'', Usage_i16 0x55e), (''Sen_DataFieldCustomValue28'', Usage_i16 0x55f),
     (''Sen_DataFieldGeneric'', Usage_i16 0x560), (''Sen_DataFieldGenericGUIDorPROPERTYKEY'', Usage_i16 0x561),
     (''Sen_DataFieldGenericCategoryGUID'', Usage_i16 0x562), (''Sen_DataFieldGenericTypeGUID'', Usage_i16 0x563),
     (''Sen_DataFieldGenericEventPROPERTYKEY'', Usage_i16 0x564), (''Sen_DataFieldGenericPropertyPROPERTYKEY'', Usage_i16 0x565),
     (''Sen_DataFieldGenericDataFieldPROPERTYKEY'', Usage_i16 0x566), (''Sen_DataFieldGenericEvent'', Usage_i16 0x567),
     (''Sen_DataFieldGenericProperty'', Usage_i16 0x568), (''Sen_DataFieldGenericDataField'', Usage_i16 0x569),
     (''Sen_DataFieldEnumeratorTableRowIndex'', Usage_i16 0x56a), (''Sen_DataFieldEnumeratorTableRowCount'', Usage_i16 0x56b),
     (''Sen_DataFieldGenericGUIDorPROPERTYKEYkind'', Usage_i16 0x56c), (''Sen_DataFieldGenericGUID'', Usage_i16 0x56d),
     (''Sen_DataFieldGenericPROPERTYKEY'', Usage_i16 0x56e), (''Sen_DataFieldGenericTopLevelCollectionID'', Usage_i16 0x56f),
     (''Sen_DataFieldGenericReportID'', Usage_i16 0x570), (''Sen_DataFieldGenericReportItemPositionIndex'', Usage_i16 0x571),
     (''Sen_DataFieldGenericFirmwareVARTYPE'', Usage_i16 0x572), (''Sen_DataFieldGenericUnitofMeasure'', Usage_i16 0x573),
     (''Sen_DataFieldGenericUnitExponent'', Usage_i16 0x574), (''Sen_DataFieldGenericReportSize'', Usage_i16 0x575),
     (''Sen_DataFieldGenericReportCount'', Usage_i16 0x576), (''Sen_PropertyGeneric'', Usage_i16 0x580),
     (''Sen_PropertyEnumeratorTableRowIndex'', Usage_i16 0x581), (''Sen_PropertyEnumeratorTableRowCount'', Usage_i16 0x582),
     (''Sen_DataFieldPersonalActivity'', Usage_i16 0x590), (''Sen_DataFieldActivityType'', Usage_i16 0x591),
     (''Sen_DataFieldActivityState'', Usage_i16 0x592), (''Sen_DataFieldDevicePosition'', Usage_i16 0x593),
     (''Sen_DataFieldStepCount'', Usage_i16 0x594), (''Sen_DataFieldStepCountReset'', Usage_i16 0x595),
     (''Sen_DataFieldStepDuration'', Usage_i16 0x596), (''Sen_DataFieldStepType'', Usage_i16 0x597),
     (''Sen_PropertyMinimumActivityDetectionInterval'', Usage_i16 0x5a0),
     (''Sen_PropertySupportedActivityTypes'', Usage_i16 0x5a1), (''Sen_PropertySubscribedActivityTypes'', Usage_i16 0x5a2),
     (''Sen_PropertySupportedStepTypes'', Usage_i16 0x5a3), (''Sen_PropertySubscribedStepTypes'', Usage_i16 0x5a4),
     (''Sen_PropertyFloorHeight'', Usage_i16 0x5a5), (''Sen_DataFieldCustomTypeID'', Usage_i16 0x5b0),
     (''Sen_PropertyCustom'', Usage_i16 0x5c0), (''Sen_PropertyCustomValue1'', Usage_i16 0x5c1),
     (''Sen_PropertyCustomValue2'', Usage_i16 0x5c2), (''Sen_PropertyCustomValue3'', Usage_i16 0x5c3),
     (''Sen_PropertyCustomValue4'', Usage_i16 0x5c4), (''Sen_PropertyCustomValue5'', Usage_i16 0x5c5),
     (''Sen_PropertyCustomValue6'', Usage_i16 0x5c6), (''Sen_PropertyCustomValue7'', Usage_i16 0x5c7),
     (''Sen_PropertyCustomValue8'', Usage_i16 0x5c8), (''Sen_PropertyCustomValue9'', Usage_i16 0x5c9),
     (''Sen_PropertyCustomValue10'', Usage_i16 0x5ca), (''Sen_PropertyCustomValue11'', Usage_i16 0x5cb),
     (''Sen_PropertyCustomValue12'', Usage_i16 0x5cc), (''Sen_PropertyCustomValue13'', Usage_i16 0x5cd),
     (''Sen_PropertyCustomValue14'', Usage_i16 0x5ce), (''Sen_PropertyCustomValue15'', Usage_i16 0x5cf),
     (''Sen_PropertyCustomValue16'', Usage_i16 0x5d0), (''Sen_DataFieldHinge'', Usage_i16 0x5e0),
     (''Sen_DataFieldHingeAngle'', Usage_i16 0x5e1), (''Sen_DataFieldGestureSensor'', Usage_i16 0x5f0),
     (''Sen_DataFieldGestureState'', Usage_i16 0x5f1), (''Sen_DataFieldHingeFoldInitialAngle'', Usage_i16 0x5f2),
     (''Sen_DataFieldHingeFoldFinalAngle'', Usage_i16 0x5f3), (''Sen_DataFieldHingeFoldContributingPanel'', Usage_i16 0x5f4),
     (''Sen_DataFieldHingeFoldType'', Usage_i16 0x5f5), (''Sen_SensorStateUndefined'', Usage_i16 0x800),
     (''Sen_SensorStateReady'', Usage_i16 0x801), (''Sen_SensorStateNotAvailable'', Usage_i16 0x802),
     (''Sen_SensorStateNoData'', Usage_i16 0x803), (''Sen_SensorStateInitializing'', Usage_i16 0x804),
     (''Sen_SensorStateAccessDenied'', Usage_i16 0x805), (''Sen_SensorStateError'', Usage_i16 0x806),
     (''Sen_SensorEventUnknown'', Usage_i16 0x810), (''Sen_SensorEventStateChanged'', Usage_i16 0x811)]"

definition macros_Sensors_4 :: usage_macros_table where
  "macros_Sensors_4 = [
     (''Sen_SensorEventPropertyChanged'', Usage_i16 0x812), (''Sen_SensorEventDataUpdated'', Usage_i16 0x813),
     (''Sen_SensorEventPollResponse'', Usage_i16 0x814), (''Sen_SensorEventChangeSensitivity'', Usage_i16 0x815),
     (''Sen_SensorEventRangeMaximumReached'', Usage_i16 0x816), (''Sen_SensorEventRangeMinimumReached'', Usage_i16 0x817),
     (''Sen_SensorEventHighThresholdCrossUpward'', Usage_i16 0x818),
     (''Sen_SensorEventHighThresholdCrossDownward'', Usage_i16 0x819),
     (''Sen_SensorEventLowThresholdCrossUpward'', Usage_i16 0x81a),
     (''Sen_SensorEventLowThresholdCrossDownward'', Usage_i16 0x81b),
     (''Sen_SensorEventZeroThresholdCrossUpward'', Usage_i16 0x81c),
     (''Sen_SensorEventZeroThresholdCrossDownward'', Usage_i16 0x81d), (''Sen_SensorEventPeriodExceeded'', Usage_i16 0x81e),
     (''Sen_SensorEventFrequencyExceeded'', Usage_i16 0x81f), (''Sen_SensorEventComplexTrigger'', Usage_i16 0x820),
     (''Sen_ConnectionTypePCIntegrated'', Usage_i16 0x830), (''Sen_ConnectionTypePCAttached'', Usage_i16 0x831),
     (''Sen_ConnectionTypePCExternal'', Usage_i16 0x832), (''Sen_ReportingStateReportNoEvents'', Usage_i16 0x840),
     (''Sen_ReportingStateReportAllEvents'', Usage_i16 0x841), (''Sen_ReportingStateReportThresholdEvents'', Usage_i16 0x842),
     (''Sen_ReportingStateWakeOnNoEvents'', Usage_i16 0x843), (''Sen_ReportingStateWakeOnAllEvents'', Usage_i16 0x844),
     (''Sen_ReportingStateWakeOnThresholdEvents'', Usage_i16 0x845), (''Sen_ReportingStateAnytime'', Usage_i16 0x846),
     (''Sen_PowerStateUndefined'', Usage_i16 0x850), (''Sen_PowerStateD0FullPower'', Usage_i16 0x851),
     (''Sen_PowerStateD1LowPower'', Usage_i16 0x852), (''Sen_PowerStateD2StandbyPowerwithWakeup'', Usage_i16 0x853),
     (''Sen_PowerStateD3SleepwithWakeup'', Usage_i16 0x854), (''Sen_PowerStateD4PowerOff'', Usage_i16 0x855),
     (''Sen_AccuracyDefault'', Usage_i16 0x860), (''Sen_AccuracyHigh'', Usage_i16 0x861),
     (''Sen_AccuracyMedium'', Usage_i16 0x862), (''Sen_AccuracyLow'', Usage_i16 0x863), (''Sen_FixQualityNoFix'', Usage_i16 0x870),
     (''Sen_FixQualityGPS'', Usage_i16 0x871), (''Sen_FixQualityDGPS'', Usage_i16 0x872), (''Sen_FixTypeNoFix'', Usage_i16 0x880),
     (''Sen_FixTypeGPSSPSModeFixValid'', Usage_i16 0x881), (''Sen_FixTypeDGPSSPSModeFixValid'', Usage_i16 0x882),
     (''Sen_FixTypeGPSPPSModeFixValid'', Usage_i16 0x883), (''Sen_FixTypeRealTimeKinematic'', Usage_i16 0x884),
     (''Sen_FixTypeFloatRTK'', Usage_i16 0x885), (''Sen_FixTypeEstimateddeadreckoned'', Usage_i16 0x886),
     (''Sen_FixTypeManualInputMode'', Usage_i16 0x887), (''Sen_FixTypeSimulatorMode'', Usage_i16 0x888),
     (''Sen_GPSOperationModeManual'', Usage_i16 0x890), (''Sen_GPSOperationModeAutomatic'', Usage_i16 0x891),
     (''Sen_GPSSelectionModeAutonomous'', Usage_i16 0x8a0), (''Sen_GPSSelectionModeDGPS'', Usage_i16 0x8a1),
     (''Sen_GPSSelectionModeEstimateddeadreckoned'', Usage_i16 0x8a2), (''Sen_GPSSelectionModeManualInput'', Usage_i16 0x8a3),
     (''Sen_GPSSelectionModeSimulator'', Usage_i16 0x8a4), (''Sen_GPSSelectionModeDataNotValid'', Usage_i16 0x8a5),
     (''Sen_GPSStatusDataValid'', Usage_i16 0x8b0), (''Sen_GPSStatusDataNotValid'', Usage_i16 0x8b1),
     (''Sen_DayofWeekSunday'', Usage_i16 0x8c0), (''Sen_DayofWeekMonday'', Usage_i16 0x8c1),
     (''Sen_DayofWeekTuesday'', Usage_i16 0x8c2), (''Sen_DayofWeekWednesday'', Usage_i16 0x8c3),
     (''Sen_DayofWeekThursday'', Usage_i16 0x8c4), (''Sen_DayofWeekFriday'', Usage_i16 0x8c5),
     (''Sen_DayofWeekSaturday'', Usage_i16 0x8c6), (''Sen_KindCategory'', Usage_i16 0x8d0), (''Sen_KindType'', Usage_i16 0x8d1),
     (''Sen_KindEvent'', Usage_i16 0x8d2), (''Sen_KindProperty'', Usage_i16 0x8d3), (''Sen_KindDataField'', Usage_i16 0x8d4),
     (''Sen_MagnetometerAccuracyLow'', Usage_i16 0x8e0), (''Sen_MagnetometerAccuracyMedium'', Usage_i16 0x8e1),
     (''Sen_MagnetometerAccuracyHigh'', Usage_i16 0x8e2), (''Sen_SimpleOrientationDirectionNotRotated'', Usage_i16 0x8f0),
     (''Sen_SimpleOrientationDirectionRotated90DegreesCCW'', Usage_i16 0x8f1),
     (''Sen_SimpleOrientationDirectionRotated180DegreesCCW'', Usage_i16 0x8f2),
     (''Sen_SimpleOrientationDirectionRotated270DegreesCCW'', Usage_i16 0x8f3),
     (''Sen_SimpleOrientationDirectionFaceUp'', Usage_i16 0x8f4), (''Sen_SimpleOrientationDirectionFaceDown'', Usage_i16 0x8f5),
     (''Sen_VT_NULL'', Usage_i16 0x900), (''Sen_VT_BOOL'', Usage_i16 0x901), (''Sen_VT_UI1'', Usage_i16 0x902),
     (''Sen_VT_I1'', Usage_i16 0x903), (''Sen_VT_UI2'', Usage_i16 0x904), (''Sen_VT_I2'', Usage_i16 0x905),
     (''Sen_VT_UI4'', Usage_i16 0x906), (''Sen_VT_I4'', Usage_i16 0x907), (''Sen_VT_UI8'', Usage_i16 0x908),
     (''Sen_VT_I8'', Usage_i16 0x909), (''Sen_VT_R4'', Usage_i16 0x90a), (''Sen_VT_R8'', Usage_i16 0x90b),
     (''Sen_VT_WSTR'', Usage_i16 0x90c), (''Sen_VT_STR'', Usage_i16 0x90d), (''Sen_VT_CLSID'', Usage_i16 0x90e),
     (''Sen_VT_VECTORVT_UI1'', Usage_i16 0x90f), (''Sen_VT_F16E0'', Usage_i16 0x910), (''Sen_VT_F16E1'', Usage_i16 0x911),
     (''Sen_VT_F16E2'', Usage_i16 0x912), (''Sen_VT_F16E3'', Usage_i16 0x913), (''Sen_VT_F16E4'', Usage_i16 0x914),
     (''Sen_VT_F16E5'', Usage_i16 0x915), (''Sen_VT_F16E6'', Usage_i16 0x916), (''Sen_VT_F16E7'', Usage_i16 0x917),
     (''Sen_VT_F16E8'', Usage_i16 0x918), (''Sen_VT_F16E9'', Usage_i16 0x919), (''Sen_VT_F16EA'', Usage_i16 0x91a),
     (''Sen_VT_F16EB'', Usage_i16 0x91b), (''Sen_VT_F16EC'', Usage_i16 0x91c), (''Sen_VT_F16ED'', Usage_i16 0x91d),
     (''Sen_VT_F16EE'', Usage_i16 0x91e), (''Sen_VT_F16EF'', Usage_i16 0x91f), (''Sen_VT_F32E0'', Usage_i16 0x920),
     (''Sen_VT_F32E1'', Usage_i16 0x921), (''Sen_VT_F32E2'', Usage_i16 0x922), (''Sen_VT_F32E3'', Usage_i16 0x923),
     (''Sen_VT_F32E4'', Usage_i16 0x924), (''Sen_VT_F32E5'', Usage_i16 0x925), (''Sen_VT_F32E6'', Usage_i16 0x926),
     (''Sen_VT_F32E7'', Usage_i16 0x927), (''Sen_VT_F32E8'', Usage_i16 0x928), (''Sen_VT_F32E9'', Usage_i16 0x929),
     (''Sen_VT_F32EA'', Usage_i16 0x92a), (''Sen_VT_F32EB'', Usage_i16 0x92b), (''Sen_VT_F32EC'', Usage_i16 0x92c),
     (''Sen_VT_F32ED'', Usage_i16 0x92d), (''Sen_VT_F32EE'', Usage_i16 0x92e), (''Sen_VT_F32EF'', Usage_i16 0x92f),
     (''Sen_ActivityTypeUnknown'', Usage_i16 0x930), (''Sen_ActivityTypeStationary'', Usage_i16 0x931),
     (''Sen_ActivityTypeFidgeting'', Usage_i16 0x932), (''Sen_ActivityTypeWalking'', Usage_i16 0x933),
     (''Sen_ActivityTypeRunning'', Usage_i16 0x934), (''Sen_ActivityTypeInVehicle'', Usage_i16 0x935),
     (''Sen_ActivityTypeBiking'', Usage_i16 0x936), (''Sen_ActivityTypeIdle'', Usage_i16 0x937),
     (''Sen_UnitNotSpecified'', Usage_i16 0x940), (''Sen_UnitLux'', Usage_i16 0x941), (''Sen_UnitDegreesKelvin'', Usage_i16 0x942),
     (''Sen_UnitDegreesCelsius'', Usage_i16 0x943), (''Sen_UnitPascal'', Usage_i16 0x944), (''Sen_UnitNewton'', Usage_i16 0x945),
     (''Sen_UnitMetersSecond'', Usage_i16 0x946), (''Sen_UnitKilogram'', Usage_i16 0x947), (''Sen_UnitMeter'', Usage_i16 0x948),
     (''Sen_UnitMetersSecondSecond'', Usage_i16 0x949), (''Sen_UnitFarad'', Usage_i16 0x94a),
     (''Sen_UnitAmpere'', Usage_i16 0x94b), (''Sen_UnitWatt'', Usage_i16 0x94c), (''Sen_UnitHenry'', Usage_i16 0x94d),
     (''Sen_UnitOhm'', Usage_i16 0x94e), (''Sen_UnitVolt'', Usage_i16 0x94f)]"

definition macros_Sensors_5 :: usage_macros_table where
  "macros_Sensors_5 = [
     (''Sen_UnitHertz'', Usage_i16 0x950), (''Sen_UnitBar'', Usage_i16 0x951), (''Sen_UnitDegreesAnticlockwise'', Usage_i16 0x952),
     (''Sen_UnitDegreesClockwise'', Usage_i16 0x953), (''Sen_UnitDegrees'', Usage_i16 0x954),
     (''Sen_UnitDegreesSecond'', Usage_i16 0x955), (''Sen_UnitDegreesSecondSecond'', Usage_i16 0x956),
     (''Sen_UnitKnot'', Usage_i16 0x957), (''Sen_UnitPercent'', Usage_i16 0x958), (''Sen_UnitSecond'', Usage_i16 0x959),
     (''Sen_UnitMillisecond'', Usage_i16 0x95a), (''Sen_UnitG'', Usage_i16 0x95b), (''Sen_UnitBytes'', Usage_i16 0x95c),
     (''Sen_UnitMilligauss'', Usage_i16 0x95d), (''Sen_UnitBits'', Usage_i16 0x95e),
     (''Sen_ActivityStateNoStateChange'', Usage_i16 0x960), (''Sen_ActivityStateStartActivity'', Usage_i16 0x961),
     (''Sen_ActivityStateEndActivity'', Usage_i16 0x962), (''Sen_Exponent0'', Usage_i16 0x970),
     (''Sen_Exponent1'', Usage_i16 0x971), (''Sen_Exponent2'', Usage_i16 0x972), (''Sen_Exponent3'', Usage_i16 0x973),
     (''Sen_Exponent4'', Usage_i16 0x974), (''Sen_Exponent5'', Usage_i16 0x975), (''Sen_Exponent6'', Usage_i16 0x976),
     (''Sen_Exponent7'', Usage_i16 0x977), (''Sen_Exponent8'', Usage_i16 0x978), (''Sen_Exponent9'', Usage_i16 0x979),
     (''Sen_ExponentA'', Usage_i16 0x97a), (''Sen_ExponentB'', Usage_i16 0x97b), (''Sen_ExponentC'', Usage_i16 0x97c),
     (''Sen_ExponentD'', Usage_i16 0x97d), (''Sen_ExponentE'', Usage_i16 0x97e), (''Sen_ExponentF'', Usage_i16 0x97f),
     (''Sen_DevicePositionUnknown'', Usage_i16 0x980), (''Sen_DevicePositionUnchanged'', Usage_i16 0x981),
     (''Sen_DevicePositionOnDesk'', Usage_i16 0x982), (''Sen_DevicePositionInHand'', Usage_i16 0x983),
     (''Sen_DevicePositionMovinginBag'', Usage_i16 0x984), (''Sen_DevicePositionStationaryinBag'', Usage_i16 0x985),
     (''Sen_StepTypeUnknown'', Usage_i16 0x990), (''Sen_StepTypeWalking'', Usage_i16 0x991),
     (''Sen_StepTypeRunning'', Usage_i16 0x992), (''Sen_GestureStateUnknown'', Usage_i16 0x9a0),
     (''Sen_GestureStateStarted'', Usage_i16 0x9a1), (''Sen_GestureStateCompleted'', Usage_i16 0x9a2),
     (''Sen_GestureStateCancelled'', Usage_i16 0x9a3), (''Sen_HingeFoldContributingPanelUnknown'', Usage_i16 0x9b0),
     (''Sen_HingeFoldContributingPanelPanel1'', Usage_i16 0x9b1), (''Sen_HingeFoldContributingPanelPanel2'', Usage_i16 0x9b2),
     (''Sen_HingeFoldContributingPanelBoth'', Usage_i16 0x9b3), (''Sen_HingeFoldTypeUnknown'', Usage_i16 0x9b4),
     (''Sen_HingeFoldTypeIncreasing'', Usage_i16 0x9b5), (''Sen_HingeFoldTypeDecreasing'', Usage_i16 0x9b6),
     (''Sen_HumanPresenceDetectionTypeVendorDefinedNonBiometric'', Usage_i16 0x9c0),
     (''Sen_HumanPresenceDetectionTypeVendorDefinedBiometric'', Usage_i16 0x9c1),
     (''Sen_HumanPresenceDetectionTypeFacialBiometric'', Usage_i16 0x9c2),
     (''Sen_HumanPresenceDetectionTypeAudioBiometric'', Usage_i16 0x9c3),
     (''Sen_ModifierChangeSensitivityAbsolute'', Usage_i16 0x1000), (''Sen_ModifierMaximum'', Usage_i16 0x2000),
     (''Sen_ModifierMinimum'', Usage_i16 0x3000), (''Sen_ModifierAccuracy'', Usage_i16 0x4000),
     (''Sen_ModifierResolution'', Usage_i16 0x5000), (''Sen_ModifierThresholdHigh'', Usage_i16 0x6000),
     (''Sen_ModifierThresholdLow'', Usage_i16 0x7000), (''Sen_ModifierCalibrationOffset'', Usage_i16 0x8000),
     (''Sen_ModifierCalibrationMultiplier'', Usage_i16 0x9000), (''Sen_ModifierReportInterval'', Usage_i16 0xa000),
     (''Sen_ModifierFrequencyMax'', Usage_i16 0xb000), (''Sen_ModifierPeriodMax'', Usage_i16 0xc000),
     (''Sen_ModifierChangeSensitivityPercentofRange'', Usage_i16 0xd000),
     (''Sen_ModifierChangeSensitivityPercentRelative'', Usage_i16 0xe000), (''Sen_ModifierVendorReserved'', Usage_i16 0xf000)]"

definition macros_Sensors :: usage_macros_table where
  "macros_Sensors = macros_Sensors_1 @ macros_Sensors_2 @ macros_Sensors_3 @ macros_Sensors_4 @ macros_Sensors_5"

definition macros_MedicalInstrument :: usage_macros_table where
  "macros_MedicalInstrument = [
     (''MI_MedicalUltrasound'', Usage_i8 0x1), (''MI_VCRAcquisition'', Usage_i8 0x20), (''MI_FreezeThaw'', Usage_i8 0x21),
     (''MI_ClipStore'', Usage_i8 0x22), (''MI_Update'', Usage_i8 0x23), (''MI_Next'', Usage_i8 0x24), (''MI_Save'', Usage_i8 0x25),
     (''MI_Print'', Usage_i8 0x26), (''MI_MicrophoneEnable'', Usage_i8 0x27), (''MI_Cine'', Usage_i8 0x40),
     (''MI_TransmitPower'', Usage_i8 0x41), (''MI_Volume'', Usage_i8 0x42), (''MI_Focus'', Usage_i8 0x43),
     (''MI_Depth'', Usage_i8 0x44), (''MI_SoftStepPrimary'', Usage_i8 0x60), (''MI_SoftStepSecondary'', Usage_i8 0x61),
     (''MI_DepthGainCompensation'', Usage_i8 0x70), (''MI_ZoomSelect'', Usage_i8 0x80), (''MI_ZoomAdjust'', Usage_i8 0x81),
     (''MI_SpectralDopplerModeSelect'', Usage_i8 0x82), (''MI_SpectralDopplerAdjust'', Usage_i8 0x83),
     (''MI_ColorDopplerModeSelect'', Usage_i8 0x84), (''MI_ColorDopplerAdjust'', Usage_i8 0x85),
     (''MI_MotionModeSelect'', Usage_i8 0x86), (''MI_MotionModeAdjust'', Usage_i8 0x87), (''MI_TwoDModeSelect'', Usage_i8 0x88),
     (''MI_TwoDModeAdjust'', Usage_i8 0x89), (''MI_SoftControlSelect'', Usage_i8 0xa0), (''MI_SoftControlAdjust'', Usage_i8 0xa1)]"

definition macros_BrailleDisplay :: usage_macros_table where
  "macros_BrailleDisplay = [
     (''BD_BrailleDisplay'', Usage_i8 0x1), (''BD_BrailleRow'', Usage_i8 0x2), (''BD_EightDotBrailleCell'', Usage_i8 0x3),
     (''BD_SixDotBrailleCell'', Usage_i8 0x4), (''BD_NumberofBrailleCells'', Usage_i8 0x5),
     (''BD_ScreenReaderControl'', Usage_i8 0x6), (''BD_ScreenReaderIdentifier'', Usage_i8 0x7), (''BD_RouterSet1'', Usage_i8 0xfa),
     (''BD_RouterSet2'', Usage_i8 0xfb), (''BD_RouterSet3'', Usage_i8 0xfc), (''BD_RouterKey'', Usage_i16 0x100),
     (''BD_RowRouterKey'', Usage_i16 0x101), (''BD_BrailleButtons'', Usage_i16 0x200),
     (''BD_BrailleKeyboardDot1'', Usage_i16 0x201), (''BD_BrailleKeyboardDot2'', Usage_i16 0x202),
     (''BD_BrailleKeyboardDot3'', Usage_i16 0x203), (''BD_BrailleKeyboardDot4'', Usage_i16 0x204),
     (''BD_BrailleKeyboardDot5'', Usage_i16 0x205), (''BD_BrailleKeyboardDot6'', Usage_i16 0x206),
     (''BD_BrailleKeyboardDot7'', Usage_i16 0x207), (''BD_BrailleKeyboardDot8'', Usage_i16 0x208),
     (''BD_BrailleKeyboardSpace'', Usage_i16 0x209), (''BD_BrailleKeyboardLeftSpace'', Usage_i16 0x20a),
     (''BD_BrailleKeyboardRightSpace'', Usage_i16 0x20b), (''BD_BrailleFaceControls'', Usage_i16 0x20c),
     (''BD_BrailleLeftControls'', Usage_i16 0x20d), (''BD_BrailleRightControls'', Usage_i16 0x20e),
     (''BD_BrailleTopControls'', Usage_i16 0x20f), (''BD_BrailleJoystickCenter'', Usage_i16 0x210),
     (''BD_BrailleJoystickUp'', Usage_i16 0x211), (''BD_BrailleJoystickDown'', Usage_i16 0x212),
     (''BD_BrailleJoystickLeft'', Usage_i16 0x213), (''BD_BrailleJoystickRight'', Usage_i16 0x214),
     (''BD_BrailleDPadCenter'', Usage_i16 0x215), (''BD_BrailleDPadUp'', Usage_i16 0x216),
     (''BD_BrailleDPadDown'', Usage_i16 0x217), (''BD_BrailleDPadLeft'', Usage_i16 0x218),
     (''BD_BrailleDPadRight'', Usage_i16 0x219), (''BD_BraillePanLeft'', Usage_i16 0x21a),
     (''BD_BraillePanRight'', Usage_i16 0x21b), (''BD_BrailleRockerUp'', Usage_i16 0x21c),
     (''BD_BrailleRockerDown'', Usage_i16 0x21d), (''BD_BrailleRockerPress'', Usage_i16 0x21e)]"

definition macros_LightingAndIllumination :: usage_macros_table where
  "macros_LightingAndIllumination = [
     (''LAI_LampArray'', Usage_i8 0x1), (''LAI_LampArrayAttributesReport'', Usage_i8 0x2), (''LAI_LampCount'', Usage_i8 0x3),
     (''LAI_BoundingBoxWidthInMicrometers'', Usage_i8 0x4), (''LAI_BoundingBoxHeightInMicrometers'', Usage_i8 0x5),
     (''LAI_BoundingBoxDepthInMicrometers'', Usage_i8 0x6), (''LAI_LampArrayKind'', Usage_i8 0x7),
     (''LAI_MinUpdateIntervalInMicroseconds'', Usage_i8 0x8), (''LAI_LampAttributesRequestReport'', Usage_i8 0x20),
     (''LAI_LampId'', Usage_i8 0x21), (''LAI_LampAttributesResponseReport'', Usage_i8 0x22),
     (''LAI_PositionXInMicrometers'', Usage_i8 0x23), (''LAI_PositionYInMicrometers'', Usage_i8 0x24),
     (''LAI_PositionZInMicrometers'', Usage_i8 0x25), (''LAI_LampPurposes'', Usage_i8 0x26),
     (''LAI_UpdateLatencyInMicroseconds'', Usage_i8 0x27), (''LAI_RedLevelCount'', Usage_i8 0x28),
     (''LAI_GreenLevelCount'', Usage_i8 0x29), (''LAI_BlueLevelCount'', Usage_i8 0x2a),
     (''LAI_IntensityLevelCount'', Usage_i8 0x2b), (''LAI_IsProgrammable'', Usage_i8 0x2c), (''LAI_InputBinding'', Usage_i8 0x2d),
     (''LAI_LampMultiUpdateReport'', Usage_i8 0x50), (''LAI_RedUpdateChannel'', Usage_i8 0x51),
     (''LAI_GreenUpdateChannel'', Usage_i8 0x52), (''LAI_BlueUpdateChannel'', Usage_i8 0x53),
     (''LAI_IntensityUpdateChannel'', Usage_i8 0x54), (''LAI_LampUpdateFlags'', Usage_i8 0x55),
     (''LAI_LampRangeUpdateReport'', Usage_i8 0x60), (''LAI_LampIdStart'', Usage_i8 0x61), (''LAI_LampIdEnd'', Usage_i8 0x62),
     (''LAI_LampArrayControlReport'', Usage_i8 0x70), (''LAI_AutonomousMode'', Usage_i8 0x71)]"

definition macros_Monitor :: usage_macros_table where
  "macros_Monitor = [
     (''Mon_MonitorControl'', Usage_i8 0x1), (''Mon_EDIDInformation'', Usage_i8 0x2), (''Mon_VDIFInformation'', Usage_i8 0x3),
     (''Mon_VESAVersion'', Usage_i8 0x4)]"

definition macros_VESAVirtualControls :: usage_macros_table where
  "macros_VESAVirtualControls = [
     (''VESAVC_Degauss'', Usage_i8 0x1), (''VESAVC_Brightness'', Usage_i8 0x10), (''VESAVC_Contrast'', Usage_i8 0x12),
     (''VESAVC_RedVideoGain'', Usage_i8 0x16), (''VESAVC_GreenVideoGain'', Usage_i8 0x18),
     (''VESAVC_BlueVideoGain'', Usage_i8 0x1a), (''VESAVC_Focus'', Usage_i8 0x1c), (''VESAVC_HorizontalPosition'', Usage_i8 0x20),
     (''VESAVC_HorizontalSize'', Usage_i8 0x22), (''VESAVC_HorizontalPincushion'', Usage_i8 0x24),
     (''VESAVC_HorizontalPincushionBalance'', Usage_i8 0x26), (''VESAVC_HorizontalMisconvergence'', Usage_i8 0x28),
     (''VESAVC_HorizontalLinearity'', Usage_i8 0x2a), (''VESAVC_HorizontalLinearityBalance'', Usage_i8 0x2c),
     (''VESAVC_VerticalPosition'', Usage_i8 0x30), (''VESAVC_VerticalSize'', Usage_i8 0x32),
     (''VESAVC_VerticalPincushion'', Usage_i8 0x34), (''VESAVC_VerticalPincushionBalance'', Usage_i8 0x36),
     (''VESAVC_VerticalMisconvergence'', Usage_i8 0x38), (''VESAVC_VerticalLinearity'', Usage_i8 0x3a),
     (''VESAVC_VerticalLinearityBalance'', Usage_i8 0x3c), (''VESAVC_ParallelogramDistortionKeyBalance'', Usage_i8 0x40),
     (''VESAVC_TrapezoidalDistortionKey'', Usage_i8 0x42), (''VESAVC_TiltRotation'', Usage_i8 0x44),
     (''VESAVC_TopCornerDistortionControl'', Usage_i8 0x46), (''VESAVC_TopCornerDistortionBalance'', Usage_i8 0x48),
     (''VESAVC_BottomCornerDistortionControl'', Usage_i8 0x4a), (''VESAVC_BottomCornerDistortionBalance'', Usage_i8 0x4c),
     (''VESAVC_HorizontalMoir'' @ [CHR 0xC3, CHR 0xA9], Usage_i8 0x56),
     (''VESAVC_VerticalMoir'' @ [CHR 0xC3, CHR 0xA9], Usage_i8 0x58), (''VESAVC_InputLevelSelect'', Usage_i8 0x5e),
     (''VESAVC_InputSourceSelect'', Usage_i8 0x60), (''VESAVC_RedVideoBlackLevel'', Usage_i8 0x6c),
     (''VESAVC_GreenVideoBlackLevel'', Usage_i8 0x6e), (''VESAVC_BlueVideoBlackLevel'', Usage_i8 0x70),
     (''VESAVC_AutoSizeCenter'', Usage_i8 0xa2), (''VESAVC_PolarityHorizontalSynchronization'', Usage_i8 0xa4),
     (''VESAVC_PolarityVerticalSynchronization'', Usage_i8 0xa6), (''VESAVC_SynchronizationType'', Usage_i8 0xa8),
     (''VESAVC_ScreenOrientation'', Usage_i8 0xaa), (''VESAVC_HorizontalFrequency'', Usage_i8 0xac),
     (''VESAVC_VerticalFrequency'', Usage_i8 0xae), (''VESAVC_Settings'', Usage_i8 0xb0),
     (''VESAVC_OnScreenDisplay'', Usage_i8 0xca), (''VESAVC_StereoMode'', Usage_i8 0xd4)]"

definition macros_Power :: usage_macros_table where
  "macros_Power = [
     (''Pow_iName'', Usage_i8 0x1), (''Pow_PresentStatus'', Usage_i8 0x2), (''Pow_ChangedStatus'', Usage_i8 0x3),
     (''Pow_UPS'', Usage_i8 0x4), (''Pow_PowerSupply'', Usage_i8 0x5), (''Pow_BatterySystem'', Usage_i8 0x10),
     (''Pow_BatterySystemId'', Usage_i8 0x11), (''Pow_Battery'', Usage_i8 0x12), (''Pow_BatteryId'', Usage_i8 0x13),
     (''Pow_Charger'', Usage_i8 0x14), (''Pow_ChargerId'', Usage_i8 0x15), (''Pow_PowerConverter'', Usage_i8 0x16),
     (''Pow_PowerConverterId'', Usage_i8 0x17), (''Pow_OutletSystem'', Usage_i8 0x18), (''Pow_OutletSystemId'', Usage_i8 0x19),
     (''Pow_Input'', Usage_i8 0x1a), (''Pow_InputId'', Usage_i8 0x1b), (''Pow_Output'', Usage_i8 0x1c),
     (''Pow_OutputId'', Usage_i8 0x1d), (''Pow_Flow'', Usage_i8 0x1e), (''Pow_FlowId'', Usage_i8 0x1f),
     (''Pow_Outlet'', Usage_i8 0x20), (''Pow_OutletId'', Usage_i8 0x21), (''Pow_Gang'', Usage_i8 0x22),
     (''Pow_GangId'', Usage_i8 0x23), (''Pow_PowerSummary'', Usage_i8 0x24), (''Pow_PowerSummaryId'', Usage_i8 0x25),
     (''Pow_Voltage'', Usage_i8 0x30), (''Pow_Current'', Usage_i8 0x31), (''Pow_Frequency'', Usage_i8 0x32),
     (''Pow_ApparentPower'', Usage_i8 0x33), (''Pow_ActivePower'', Usage_i8 0x34), (''Pow_PercentLoad'', Usage_i8 0x35),
     (''Pow_Temperature'', Usage_i8 0x36), (''Pow_Humidity'', Usage_i8 0x37), (''Pow_BadCount'', Usage_i8 0x38),
     (''Pow_ConfigVoltage'', Usage_i8 0x40), (''Pow_ConfigCurrent'', Usage_i8 0x41), (''Pow_ConfigFrequency'', Usage_i8 0x42),
     (''Pow_ConfigApparentPower'', Usage_i8 0x43), (''Pow_ConfigActivePower'', Usage_i8 0x44),
     (''Pow_ConfigPercentLoad'', Usage_i8 0x45), (''Pow_ConfigTemperature'', Usage_i8 0x46),
     (''Pow_ConfigHumidity'', Usage_i8 0x47), (''Pow_SwitchOnControl'', Usage_i8 0x50), (''Pow_SwitchOffControl'', Usage_i8 0x51),
     (''Pow_ToggleControl'', Usage_i8 0x52), (''Pow_LowVoltageTransfer'', Usage_i8 0x53),
     (''Pow_HighVoltageTransfer'', Usage_i8 0x54), (''Pow_DelayBeforeReboot'', Usage_i8 0x55),
     (''Pow_DelayBeforeStartup'', Usage_i8 0x56), (''Pow_DelayBeforeShutdown'', Usage_i8 0x57), (''Pow_Test'', Usage_i8 0x58),
     (''Pow_ModuleReset'', Usage_i8 0x59), (''Pow_AudibleAlarmControl'', Usage_i8 0x5a), (''Pow_Present'', Usage_i8 0x60),
     (''Pow_Good'', Usage_i8 0x61), (''Pow_InternalFailure'', Usage_i8 0x62), (''Pow_VoltagOutOfRange'', Usage_i8 0x63),
     (''Pow_FrequencyOutOfRange'', Usage_i8 0x64), (''Pow_Overload'', Usage_i8 0x65), (''Pow_OverCharged'', Usage_i8 0x66),
     (''Pow_OverTemperature'', Usage_i8 0x67), (''Pow_ShutdownRequested'', Usage_i8 0x68),
     (''Pow_ShutdownImminent'', Usage_i8 0x69), (''Pow_SwitchOnOff'', Usage_i8 0x6b), (''Pow_Switchable'', Usage_i8 0x6c),
     (''Pow_Used'', Usage_i8 0x6d), (''Pow_Boost'', Usage_i8 0x6e), (''Pow_Buck'', Usage_i8 0x6f),
     (''Pow_Initialized'', Usage_i8 0x70), (''Pow_Tested'', Usage_i8 0x71), (''Pow_AwaitingPower'', Usage_i8 0x72),
     (''Pow_CommunicationLost'', Usage_i8 0x73), (''Pow_iManufacturer'', Usage_i8 0xfd), (''Pow_iProduct'', Usage_i8 0xfe),
     (''Pow_iSerialNumber'', Usage_i16 0xff)]"

definition macros_BatterySystem :: usage_macros_table where
  "macros_BatterySystem = [
     (''BS_SmartBatteryBatteryMode'', Usage_i8 0x1), (''BS_SmartBatteryBatteryStatus'', Usage_i8 0x2),
     (''BS_SmartBatteryAlarmWarning'', Usage_i8 0x3), (''BS_SmartBatteryChargerMode'', Usage_i8 0x4),
     (''BS_SmartBatteryChargerStatus'', Usage_i8 0x5), (''BS_SmartBatteryChargerSpecInfo'', Usage_i8 0x6),
     (''BS_SmartBatterySelectorState'', Usage_i8 0x7), (''BS_SmartBatterySelectorPresets'', Usage_i8 0x8),
     (''BS_SmartBatterySelectorInfo'', Usage_i8 0x9), (''BS_OptionalMfgFunction1'', Usage_i8 0x10),
     (''BS_OptionalMfgFunction2'', Usage_i8 0x11), (''BS_OptionalMfgFunction3'', Usage_i8 0x12),
     (''BS_OptionalMfgFunction4'', Usage_i8 0x13), (''BS_OptionalMfgFunction5'', Usage_i8 0x14),
     (''BS_ConnectionToSMBus'', Usage_i8 0x15), (''BS_OutputConnection'', Usage_i8 0x16),
     (''BS_ChargerConnection'', Usage_i8 0x17), (''BS_BatteryInsertion'', Usage_i8 0x18), (''BS_UseNext'', Usage_i8 0x19),
     (''BS_OKToUse'', Usage_i8 0x1a), (''BS_BatterySupported'', Usage_i8 0x1b), (''BS_SelectorRevision'', Usage_i8 0x1c),
     (''BS_ChargingIndicator'', Usage_i8 0x1d), (''BS_ManufacturerAccess'', Usage_i8 0x28),
     (''BS_RemainingCapacityLimit'', Usage_i8 0x29), (''BS_RemainingTimeLimit'', Usage_i8 0x2a), (''BS_AtRate'', Usage_i8 0x2b),
     (''BS_CapacityMode'', Usage_i8 0x2c), (''BS_BroadcastToCharger'', Usage_i8 0x2d), (''BS_PrimaryBattery'', Usage_i8 0x2e),
     (''BS_ChargeController'', Usage_i8 0x2f), (''BS_TerminateCharge'', Usage_i8 0x40), (''BS_TerminateDischarge'', Usage_i8 0x41),
     (''BS_BelowRemainingCapacityLimit'', Usage_i8 0x42), (''BS_RemainingTimeLimitExpired'', Usage_i8 0x43),
     (''BS_Charging'', Usage_i8 0x44), (''BS_Discharging'', Usage_i8 0x45), (''BS_FullyCharged'', Usage_i8 0x46),
     (''BS_FullyDischarged'', Usage_i8 0x47), (''BS_ConditioningFlag'', Usage_i8 0x48), (''BS_AtRateOK'', Usage_i8 0x49),
     (''BS_SmartBatteryErrorCode'', Usage_i8 0x4a), (''BS_NeedReplacement'', Usage_i8 0x4b),
     (''BS_AtRateTimeToFull'', Usage_i8 0x60), (''BS_AtRateTimeToEmpty'', Usage_i8 0x61), (''BS_AverageCurrent'', Usage_i8 0x62),
     (''BS_MaxError'', Usage_i8 0x63), (''BS_RelativeStateOfCharge'', Usage_i8 0x64),
     (''BS_AbsoluteStateOfCharge'', Usage_i8 0x65), (''BS_RemainingCapacity'', Usage_i8 0x66),
     (''BS_FullChargeCapacity'', Usage_i8 0x67), (''BS_RunTimeToEmpty'', Usage_i8 0x68),
     (''BS_AverageTimeToEmpty'', Usage_i8 0x69), (''BS_AverageTimeToFull'', Usage_i8 0x6a), (''BS_CycleCount'', Usage_i8 0x6b),
     (''BS_BatteryPackModelLevel'', Usage_i8 0x80), (''BS_InternalChargeController'', Usage_i8 0x81),
     (''BS_PrimaryBatterySupport'', Usage_i8 0x82), (''BS_DesignCapacity'', Usage_i8 0x83),
     (''BS_SpecificationInfo'', Usage_i8 0x84), (''BS_ManufactureDate'', Usage_i8 0x85), (''BS_SerialNumber'', Usage_i8 0x86),
     (''BS_iManufacturerName'', Usage_i8 0x87), (''BS_iDeviceName'', Usage_i8 0x88), (''BS_iDeviceChemistry'', Usage_i8 0x89),
     (''BS_ManufacturerData'', Usage_i8 0x8a), (''BS_Rechargeable'', Usage_i8 0x8b), (''BS_WarningCapacityLimit'', Usage_i8 0x8c),
     (''BS_CapacityGranularity1'', Usage_i8 0x8d), (''BS_CapacityGranularity2'', Usage_i8 0x8e),
     (''BS_iOEMInformation'', Usage_i8 0x8f), (''BS_InhibitCharge'', Usage_i8 0xc0), (''BS_EnablePolling'', Usage_i8 0xc1),
     (''BS_ResetToZero'', Usage_i8 0xc2), (''BS_ACPresent'', Usage_i8 0xd0), (''BS_BatteryPresent'', Usage_i8 0xd1),
     (''BS_PowerFail'', Usage_i8 0xd2), (''BS_AlarmInhibited'', Usage_i8 0xd3), (''BS_ThermistorUnderRange'', Usage_i8 0xd4),
     (''BS_ThermistorHot'', Usage_i8 0xd5), (''BS_ThermistorCold'', Usage_i8 0xd6), (''BS_ThermistorOverRange'', Usage_i8 0xd7),
     (''BS_VoltageOutOfRange'', Usage_i8 0xd8), (''BS_CurrentOutOfRange'', Usage_i8 0xd9),
     (''BS_CurrentNotRegulated'', Usage_i8 0xda), (''BS_VoltageNotRegulated'', Usage_i8 0xdb), (''BS_MasterMode'', Usage_i8 0xdc),
     (''BS_ChargerSelectorSupport'', Usage_i8 0xf0), (''BS_ChargerSpec'', Usage_i8 0xf1), (''BS_Level2'', Usage_i8 0xf2),
     (''BS_Level3'', Usage_i8 0xf3)]"

definition macros_BarcodeScanner_1 :: usage_macros_table where
  "macros_BarcodeScanner_1 = [
     (''BS_BarcodeBadgeReader'', Usage_i8 0x1), (''BS_BarcodeScanner'', Usage_i8 0x2), (''BS_DumbBarCodeScanner'', Usage_i8 0x3),
     (''BS_CordlessScannerBase'', Usage_i8 0x4), (''BS_BarCodeScannerCradle'', Usage_i8 0x5),
     (''BS_AttributeReport'', Usage_i8 0x10), (''BS_SettingsReport'', Usage_i8 0x11), (''BS_ScannedDataReport'', Usage_i8 0x12),
     (''BS_RawScannedDataReport'', Usage_i8 0x13), (''BS_TriggerReport'', Usage_i8 0x14), (''BS_StatusReport'', Usage_i8 0x15),
     (''BS_UPCEANControlReport'', Usage_i8 0x16), (''BS_EAN23LabelControlReport'', Usage_i8 0x17),
     (''BS_Code39ControlReport'', Usage_i8 0x18), (''BS_Interleaved2of5ControlReport'', Usage_i8 0x19),
     (''BS_Standard2of5ControlReport'', Usage_i8 0x1a), (''BS_MSIPlesseyControlReport'', Usage_i8 0x1b),
     (''BS_CodabarControlReport'', Usage_i8 0x1c), (''BS_Code128ControlReport'', Usage_i8 0x1d),
     (''BS_Misc1DControlReport'', Usage_i8 0x1e), (''BS_TwoDControlReport'', Usage_i8 0x1f),
     (''BS_AimingPointerMode'', Usage_i8 0x30), (''BS_BarCodePresentSensor'', Usage_i8 0x31), (''BS_Class1ALaser'', Usage_i8 0x32),
     (''BS_Class2Laser'', Usage_i8 0x33), (''BS_HeaterPresent'', Usage_i8 0x34), (''BS_ContactScanner'', Usage_i8 0x35),
     (''BS_ElectronicArticleSurveillanceNotification'', Usage_i8 0x36),
     (''BS_ConstantElectronicArticleSurveillance'', Usage_i8 0x37), (''BS_ErrorIndication'', Usage_i8 0x38),
     (''BS_FixedBeeper'', Usage_i8 0x39), (''BS_GoodDecodeIndication'', Usage_i8 0x3a), (''BS_HandsFreeScanning'', Usage_i8 0x3b),
     (''BS_IntrinsicallySafe'', Usage_i8 0x3c), (''BS_KlasseEinsLaser'', Usage_i8 0x3d), (''BS_LongRangeScanner'', Usage_i8 0x3e),
     (''BS_MirrorSpeedControl'', Usage_i8 0x3f), (''BS_NotOnFileIndication'', Usage_i8 0x40),
     (''BS_ProgrammableBeeper'', Usage_i8 0x41), (''BS_Triggerless'', Usage_i8 0x42), (''BS_Wand'', Usage_i8 0x43),
     (''BS_WaterResistant'', Usage_i8 0x44), (''BS_MultiRangeScanner'', Usage_i8 0x45), (''BS_ProximitySensor'', Usage_i8 0x46),
     (''BS_FragmentDecoding'', Usage_i8 0x4d), (''BS_ScannerReadConfidence'', Usage_i8 0x4e), (''BS_DataPrefix'', Usage_i8 0x4f),
     (''BS_PrefixAIMI'', Usage_i8 0x50), (''BS_PrefixNone'', Usage_i8 0x51), (''BS_PrefixProprietary'', Usage_i8 0x52),
     (''BS_ActiveTime'', Usage_i8 0x55), (''BS_AimingLaserPattern'', Usage_i8 0x56), (''BS_BarCodePresent'', Usage_i8 0x57),
     (''BS_BeeperState'', Usage_i8 0x58), (''BS_LaserOnTime'', Usage_i8 0x59), (''BS_LaserState'', Usage_i8 0x5a),
     (''BS_LockoutTime'', Usage_i8 0x5b), (''BS_MotorState'', Usage_i8 0x5c), (''BS_MotorTimeout'', Usage_i8 0x5d),
     (''BS_PowerOnResetScanner'', Usage_i8 0x5e), (''BS_PreventReadofBarcodes'', Usage_i8 0x5f),
     (''BS_InitiateBarcodeRead'', Usage_i8 0x60), (''BS_TriggerState'', Usage_i8 0x61), (''BS_TriggerMode'', Usage_i8 0x62),
     (''BS_TriggerModeBlinkingLaserOn'', Usage_i8 0x63), (''BS_TriggerModeContinuousLaserOn'', Usage_i8 0x64),
     (''BS_TriggerModeLaseronwhilePulled'', Usage_i8 0x65), (''BS_TriggerModeLaserstaysonafterrelease'', Usage_i8 0x66),
     (''BS_CommitParameterstoNVM'', Usage_i8 0x6d), (''BS_ParameterScanning'', Usage_i8 0x6e),
     (''BS_ParametersChanged'', Usage_i8 0x6f), (''BS_Setparameterdefaultvalues'', Usage_i8 0x70),
     (''BS_ScannerInCradle'', Usage_i8 0x75), (''BS_ScannerInRange'', Usage_i8 0x76), (''BS_AimDuration'', Usage_i8 0x7a),
     (''BS_GoodReadLampDuration'', Usage_i8 0x7b), (''BS_GoodReadLampIntensity'', Usage_i8 0x7c),
     (''BS_GoodReadLED'', Usage_i8 0x7d), (''BS_GoodReadToneFrequency'', Usage_i8 0x7e),
     (''BS_GoodReadToneLength'', Usage_i8 0x7f), (''BS_GoodReadToneVolume'', Usage_i8 0x80), (''BS_NoReadMessage'', Usage_i8 0x82),
     (''BS_NotonFileVolume'', Usage_i8 0x83), (''BS_PowerupBeep'', Usage_i8 0x84), (''BS_SoundErrorBeep'', Usage_i8 0x85),
     (''BS_SoundGoodReadBeep'', Usage_i8 0x86), (''BS_SoundNotOnFileBeep'', Usage_i8 0x87),
     (''BS_GoodReadWhentoWrite'', Usage_i8 0x88), (''BS_GRWTIAfterDecode'', Usage_i8 0x89),
     (''BS_GRWTIBeepLampaftertransmit'', Usage_i8 0x8a), (''BS_GRWTINoBeepLampuseatall'', Usage_i8 0x8b),
     (''BS_BooklandEAN'', Usage_i8 0x91), (''BS_ConvertEAN8to13Type'', Usage_i8 0x92), (''BS_ConvertUPCAtoEAN13'', Usage_i8 0x93),
     (''BS_ConvertUPCEtoA'', Usage_i8 0x94), (''BS_EAN13'', Usage_i8 0x95), (''BS_EAN8'', Usage_i8 0x96),
     (''BS_EAN99128Mandatory'', Usage_i8 0x97), (''BS_EAN99P5128Optional'', Usage_i8 0x98),
     (''BS_EnableEANTwoLabel'', Usage_i8 0x99), (''BS_UPCEAN'', Usage_i8 0x9a), (''BS_UPCEANCouponCode'', Usage_i8 0x9b),
     (''BS_UPCEANPeriodicals'', Usage_i8 0x9c), (''BS_UPCA'', Usage_i8 0x9d), (''BS_UPCAwith128Mandatory'', Usage_i8 0x9e),
     (''BS_UPCAwith128Optional'', Usage_i8 0x9f), (''BS_UPCAwithP5Optional'', Usage_i8 0xa0), (''BS_UPCE'', Usage_i8 0xa1),
     (''BS_UPCE1'', Usage_i8 0xa2), (''BS_Periodical'', Usage_i8 0xa9), (''BS_PeriodicalAutoDiscriminatePlus2'', Usage_i8 0xaa),
     (''BS_PeriodicalOnlyDecodewithPlus2'', Usage_i8 0xab), (''BS_PeriodicalIgnorePlus2'', Usage_i8 0xac),
     (''BS_PeriodicalAutoDiscriminatePlus5'', Usage_i8 0xad), (''BS_PeriodicalOnlyDecodewithPlus5'', Usage_i8 0xae),
     (''BS_PeriodicalIgnorePlus5'', Usage_i8 0xaf), (''BS_Check'', Usage_i8 0xb0), (''BS_CheckDisablePrice'', Usage_i8 0xb1),
     (''BS_CheckEnable4digitPrice'', Usage_i8 0xb2), (''BS_CheckEnable5digitPrice'', Usage_i8 0xb3),
     (''BS_CheckEnableEuropean4digitPrice'', Usage_i8 0xb4), (''BS_CheckEnableEuropean5digitPrice'', Usage_i8 0xb5),
     (''BS_EANTwoLabel'', Usage_i8 0xb7), (''BS_EANThreeLabel'', Usage_i8 0xb8), (''BS_EAN8FlagDigit1'', Usage_i8 0xb9),
     (''BS_EAN8FlagDigit2'', Usage_i8 0xba), (''BS_EAN8FlagDigit3'', Usage_i8 0xbb), (''BS_EAN13FlagDigit1'', Usage_i8 0xbc),
     (''BS_EAN13FlagDigit2'', Usage_i8 0xbd), (''BS_EAN13FlagDigit3'', Usage_i8 0xbe),
     (''BS_AddEAN23LabelDefinition'', Usage_i8 0xbf), (''BS_ClearallEAN23LabelDefinitions'', Usage_i8 0xc0),
     (''BS_Codabar'', Usage_i8 0xc3), (''BS_Code128'', Usage_i8 0xc4), (''BS_Code39'', Usage_i8 0xc7),
     (''BS_Code93'', Usage_i8 0xc8), (''BS_FullASCIIConversion'', Usage_i8 0xc9), (''BS_Interleaved2of5'', Usage_i8 0xca),
     (''BS_ItalianPharmacyCode'', Usage_i8 0xcb), (''BS_MSIPlessey'', Usage_i8 0xcc), (''BS_Standard2of5IATA'', Usage_i8 0xcd),
     (''BS_Standard2of5'', Usage_i8 0xce), (''BS_TransmitStartStop'', Usage_i8 0xd3), (''BS_TriOptic'', Usage_i8 0xd4),
     (''BS_UCCEAN128'', Usage_i8 0xd5), (''BS_CheckDigit'', Usage_i8 0xd6), (''BS_CheckDigitDisable'', Usage_i8 0xd7),
     (''BS_CheckDigitEnableInterleaved2of5OPCC'', Usage_i8 0xd8), (''BS_CheckDigitEnableInterleaved2of5USS'', Usage_i8 0xd9),
     (''BS_CheckDigitEnableStandard2of5OPCC'', Usage_i8 0xda)]"

definition macros_BarcodeScanner_2 :: usage_macros_table where
  "macros_BarcodeScanner_2 = [
     (''BS_CheckDigitEnableStandard2of5USS'', Usage_i8 0xdb), (''BS_CheckDigitEnableOneMSIPlessey'', Usage_i8 0xdc),
     (''BS_CheckDigitEnableTwoMSIPlessey'', Usage_i8 0xdd), (''BS_CheckDigitCodabarEnable'', Usage_i8 0xde),
     (''BS_CheckDigitCode39Enable'', Usage_i8 0xdf), (''BS_TransmitCheckDigit'', Usage_i8 0xf0),
     (''BS_DisableCheckDigitTransmit'', Usage_i8 0xf1), (''BS_EnableCheckDigitTransmit'', Usage_i8 0xf2),
     (''BS_SymbologyIdentifier1'', Usage_i8 0xfb), (''BS_SymbologyIdentifier2'', Usage_i8 0xfc),
     (''BS_SymbologyIdentifier3'', Usage_i8 0xfd), (''BS_DecodedData'', Usage_i8 0xfe),
     (''BS_DecodeDataContinued'', Usage_i16 0xff), (''BS_BarSpaceData'', Usage_i16 0x100),
     (''BS_ScannerDataAccuracy'', Usage_i16 0x101), (''BS_RawDataPolarity'', Usage_i16 0x102),
     (''BS_PolarityInvertedBarCode'', Usage_i16 0x103), (''BS_PolarityNormalBarCode'', Usage_i16 0x104),
     (''BS_MinimumLengthtoDecode'', Usage_i16 0x106), (''BS_MaximumLengthtoDecode'', Usage_i16 0x107),
     (''BS_DiscreteLengthtoDecode1'', Usage_i16 0x108), (''BS_DiscreteLengthtoDecode2'', Usage_i16 0x109),
     (''BS_DataLengthMethod'', Usage_i16 0x10a), (''BS_DLMethodReadany'', Usage_i16 0x10b),
     (''BS_DLMethodCheckinRange'', Usage_i16 0x10c), (''BS_DLMethodCheckforDiscrete'', Usage_i16 0x10d),
     (''BS_AztecCode'', Usage_i16 0x110), (''BS_BC412'', Usage_i16 0x111), (''BS_ChannelCode'', Usage_i16 0x112),
     (''BS_Code16'', Usage_i16 0x113), (''BS_Code32'', Usage_i16 0x114), (''BS_Code49'', Usage_i16 0x115),
     (''BS_CodeOne'', Usage_i16 0x116), (''BS_Colorcode'', Usage_i16 0x117), (''BS_DataMatrix'', Usage_i16 0x118),
     (''BS_MaxiCode'', Usage_i16 0x119), (''BS_MicroPDF'', Usage_i16 0x11a), (''BS_PDF417'', Usage_i16 0x11b),
     (''BS_PosiCode'', Usage_i16 0x11c), (''BS_QRCode'', Usage_i16 0x11d), (''BS_SuperCode'', Usage_i16 0x11e),
     (''BS_UltraCode'', Usage_i16 0x11f), (''BS_USD5SlugCode'', Usage_i16 0x120), (''BS_VeriCode'', Usage_i16 0x121)]"

definition macros_BarcodeScanner :: usage_macros_table where
  "macros_BarcodeScanner = macros_BarcodeScanner_1 @ macros_BarcodeScanner_2"

definition macros_Scales :: usage_macros_table where
  "macros_Scales = [
     (''Sca_Scales'', Usage_i8 0x1), (''Sca_ScaleDevice'', Usage_i8 0x20), (''Sca_ScaleClass'', Usage_i8 0x21),
     (''Sca_ScaleClassIMetric'', Usage_i8 0x22), (''Sca_ScaleClassIIMetric'', Usage_i8 0x23),
     (''Sca_ScaleClassIIIMetric'', Usage_i8 0x24), (''Sca_ScaleClassIIILMetric'', Usage_i8 0x25),
     (''Sca_ScaleClassIVMetric'', Usage_i8 0x26), (''Sca_ScaleClassIIIEnglish'', Usage_i8 0x27),
     (''Sca_ScaleClassIIILEnglish'', Usage_i8 0x28), (''Sca_ScaleClassIVEnglish'', Usage_i8 0x29),
     (''Sca_ScaleClassGeneric'', Usage_i8 0x2a), (''Sca_ScaleAttributeReport'', Usage_i8 0x30),
     (''Sca_ScaleControlReport'', Usage_i8 0x31), (''Sca_ScaleDataReport'', Usage_i8 0x32),
     (''Sca_ScaleStatusReport'', Usage_i8 0x33), (''Sca_ScaleWeightLimitReport'', Usage_i8 0x34),
     (''Sca_ScaleStatisticsReport'', Usage_i8 0x35), (''Sca_DataWeight'', Usage_i8 0x40), (''Sca_DataScaling'', Usage_i8 0x41),
     (''Sca_WeightUnit'', Usage_i8 0x50), (''Sca_WeightUnitMilligram'', Usage_i8 0x51), (''Sca_WeightUnitGram'', Usage_i8 0x52),
     (''Sca_WeightUnitKilogram'', Usage_i8 0x53), (''Sca_WeightUnitCarats'', Usage_i8 0x54),
     (''Sca_WeightUnitTaels'', Usage_i8 0x55), (''Sca_WeightUnitGrains'', Usage_i8 0x56),
     (''Sca_WeightUnitPennyweights'', Usage_i8 0x57), (''Sca_WeightUnitMetricTon'', Usage_i8 0x58),
     (''Sca_WeightUnitAvoirTon'', Usage_i8 0x59), (''Sca_WeightUnitTroyOunce'', Usage_i8 0x5a),
     (''Sca_WeightUnitOunce'', Usage_i8 0x5b), (''Sca_WeightUnitPound'', Usage_i8 0x5c), (''Sca_CalibrationCount'', Usage_i8 0x60),
     (''Sca_ReZeroCount'', Usage_i8 0x61), (''Sca_ScaleStatus'', Usage_i8 0x70), (''Sca_ScaleStatusFault'', Usage_i8 0x71),
     (''Sca_ScaleStatusStableatCenterofZero'', Usage_i8 0x72), (''Sca_ScaleStatusInMotion'', Usage_i8 0x73),
     (''Sca_ScaleStatusWeightStable'', Usage_i8 0x74), (''Sca_ScaleStatusUnderZero'', Usage_i8 0x75),
     (''Sca_ScaleStatusOverWeightLimit'', Usage_i8 0x76), (''Sca_ScaleStatusRequiresCalibration'', Usage_i8 0x77),
     (''Sca_ScaleStatusRequiresRezeroing'', Usage_i8 0x78), (''Sca_ZeroScale'', Usage_i8 0x80),
     (''Sca_EnforcedZeroReturn'', Usage_i8 0x81)]"

definition macros_MagneticStripeReader :: usage_macros_table where
  "macros_MagneticStripeReader = [
     (''MSR_MSRDeviceReadOnly'', Usage_i8 0x1), (''MSR_Track1Length'', Usage_i8 0x11), (''MSR_Track2Length'', Usage_i8 0x12),
     (''MSR_Track3Length'', Usage_i8 0x13), (''MSR_TrackJISLength'', Usage_i8 0x14), (''MSR_TrackData'', Usage_i8 0x20),
     (''MSR_Track1Data'', Usage_i8 0x21), (''MSR_Track2Data'', Usage_i8 0x22), (''MSR_Track3Data'', Usage_i8 0x23),
     (''MSR_TrackJISData'', Usage_i8 0x24)]"

definition macros_CameraControl :: usage_macros_table where
  "macros_CameraControl = [
     (''CC_CameraAutofocus'', Usage_i8 0x20), (''CC_CameraShutter'', Usage_i8 0x21)]"

definition macros_Arcade :: usage_macros_table where
  "macros_Arcade = [
     (''Arc_GeneralPurposeIOCard'', Usage_i8 0x1), (''Arc_CoinDoor'', Usage_i8 0x2), (''Arc_WatchdogTimer'', Usage_i8 0x3),
     (''Arc_GeneralPurposeAnalogInputState'', Usage_i8 0x30), (''Arc_GeneralPurposeDigitalInputState'', Usage_i8 0x31),
     (''Arc_GeneralPurposeOpticalInputState'', Usage_i8 0x32), (''Arc_GeneralPurposeDigitalOutputState'', Usage_i8 0x33),
     (''Arc_NumberofCoinDoors'', Usage_i8 0x34), (''Arc_CoinDrawerDropCount'', Usage_i8 0x35),
     (''Arc_CoinDrawerStart'', Usage_i8 0x36), (''Arc_CoinDrawerService'', Usage_i8 0x37), (''Arc_CoinDrawerTilt'', Usage_i8 0x38),
     (''Arc_CoinDoorTest'', Usage_i8 0x39), (''Arc_CoinDoorLockout'', Usage_i8 0x40), (''Arc_WatchdogTimeout'', Usage_i8 0x41),
     (''Arc_WatchdogAction'', Usage_i8 0x42), (''Arc_WatchdogReboot'', Usage_i8 0x43), (''Arc_WatchdogRestart'', Usage_i8 0x44),
     (''Arc_AlarmInput'', Usage_i8 0x45), (''Arc_CoinDoorCounter'', Usage_i8 0x46), (''Arc_IODirectionMapping'', Usage_i8 0x47),
     (''Arc_SetIODirectionMapping'', Usage_i8 0x48), (''Arc_ExtendedOpticalInputState'', Usage_i8 0x49),
     (''Arc_PinPadInputState'', Usage_i8 0x4a), (''Arc_PinPadStatus'', Usage_i8 0x4b), (''Arc_PinPadOutput'', Usage_i8 0x4c),
     (''Arc_PinPadCommand'', Usage_i8 0x4d)]"

definition macros_FIDOAlliance :: usage_macros_table where
  "macros_FIDOAlliance = [
     (''FIDOA_U2FAuthenticatorDevice'', Usage_i8 0x1), (''FIDOA_InputReportData'', Usage_i8 0x20),
     (''FIDOA_OutputReportData'', Usage_i8 0x21)]"

definition usage_macros :: "(string \<times> usage_macros_table) list" where
  "usage_macros = [
     (''GenericDesktop'', macros_GenericDesktop), (''SimulationControls'', macros_SimulationControls),
     (''VRControls'', macros_VRControls), (''SportControls'', macros_SportControls), (''GameControls'', macros_GameControls),
     (''GenericDeviceControls'', macros_GenericDeviceControls), (''KeyboardKeypad'', macros_KeyboardKeypad), (''LED'', macros_LED),
     (''TelephonyDevice'', macros_TelephonyDevice), (''Consumer'', macros_Consumer), (''Digitizers'', macros_Digitizers),
     (''Haptics'', macros_Haptics), (''PhysicalInputDevice'', macros_PhysicalInputDevice), (''SoC'', macros_SoC),
     (''EyeandHeadTrackers'', macros_EyeandHeadTrackers), (''AuxiliaryDisplay'', macros_AuxiliaryDisplay),
     (''Sensors'', macros_Sensors), (''MedicalInstrument'', macros_MedicalInstrument), (''BrailleDisplay'', macros_BrailleDisplay),
     (''LightingAndIllumination'', macros_LightingAndIllumination), (''Monitor'', macros_Monitor),
     (''VESAVirtualControls'', macros_VESAVirtualControls), (''Power'', macros_Power), (''BatterySystem'', macros_BatterySystem),
     (''BarcodeScanner'', macros_BarcodeScanner), (''Scales'', macros_Scales),
     (''MagneticStripeReader'', macros_MagneticStripeReader), (''CameraControl'', macros_CameraControl),
     (''Arcade'', macros_Arcade), (''FIDOAlliance'', macros_FIDOAlliance)]"

end
