(* ===== verification/Usage_Tables.thy ===== *)
theory Usage_Tables
  imports Usage_Numbers Usage_Macros Macro_Roundtrip
begin

text \<open>
  The two generated headers against each other. Both are written by \<open>tools/generate-hid-report-helpers.py\<close> from the same table,
  each with its own template: descriptors are written with the macros of one, and the programs that look at a parsed
  descriptor compare its usages with the numbers of the other.
\<close>

section \<open>The template of the macros\<close>

definition page_line :: "string \<times> int \<Rightarrow> string \<times> initializer" where
  "page_line = (\<lambda>(n, v). (n, if v < 0xff then UsagePage_i8 v else UsagePage_i16 v))"

definition usage_line :: "string \<times> int \<Rightarrow> string \<times> initializer" where
  "usage_line = (\<lambda>(n, v). (n, if v < 0xff then Usage_i8 v else Usage_i16 v))"

named_theorems table_eqs
named_theorems table_order

lemma page_macros_eq: "page_macros = map page_line page_numbers"
  by (simp add: page_macros_def page_numbers_def page_line_def)

lemma macros_GenericDesktop_eq [table_eqs]: "macros_GenericDesktop = map usage_line numbers_GenericDesktop"
  by (simp add: macros_GenericDesktop_def numbers_GenericDesktop_def usage_line_def)

lemma macros_SimulationControls_eq [table_eqs]: "macros_SimulationControls = map usage_line numbers_SimulationControls"
  by (simp add: macros_SimulationControls_def numbers_SimulationControls_def usage_line_def)

lemma macros_VRControls_eq [table_eqs]: "macros_VRControls = map usage_line numbers_VRControls"
  by (simp add: macros_VRControls_def numbers_VRControls_def usage_line_def)

lemma macros_SportControls_eq [table_eqs]: "macros_SportControls = map usage_line numbers_SportControls"
  by (simp add: macros_SportControls_def numbers_SportControls_def usage_line_def)

lemma macros_GameControls_eq [table_eqs]: "macros_GameControls = map usage_line numbers_GameControls"
  by (simp add: macros_GameControls_def numbers_GameControls_def usage_line_def)

lemma macros_GenericDeviceControls_eq [table_eqs]: "macros_GenericDeviceControls = map usage_line numbers_GenericDeviceControls"
  by (simp add: macros_GenericDeviceControls_def numbers_GenericDeviceControls_def usage_line_def)

lemma macros_KeyboardKeypad_1_eq [table_eqs]: "macros_KeyboardKeypad_1 = map usage_line numbers_KeyboardKeypad_1"
  by (simp add: macros_KeyboardKeypad_1_def numbers_KeyboardKeypad_1_def usage_line_def)

lemma macros_KeyboardKeypad_2_eq [table_eqs]: "macros_KeyboardKeypad_2 = map usage_line numbers_KeyboardKeypad_2"
  by (simp add: macros_KeyboardKeypad_2_def numbers_KeyboardKeypad_2_def usage_line_def)

lemma macros_KeyboardKeypad_eq [table_eqs]: "macros_KeyboardKeypad = map usage_line numbers_KeyboardKeypad"
  by (simp add: macros_KeyboardKeypad_def numbers_KeyboardKeypad_def table_eqs)

lemma macros_LED_eq [table_eqs]: "macros_LED = map usage_line numbers_LED"
  by (simp add: macros_LED_def numbers_LED_def usage_line_def)

lemma macros_TelephonyDevice_eq [table_eqs]: "macros_TelephonyDevice = map usage_line numbers_TelephonyDevice"
  by (simp add: macros_TelephonyDevice_def numbers_TelephonyDevice_def usage_line_def)

lemma macros_Consumer_1_eq [table_eqs]: "macros_Consumer_1 = map usage_line numbers_Consumer_1"
  by (simp add: macros_Consumer_1_def numbers_Consumer_1_def usage_line_def)

lemma macros_Consumer_2_eq [table_eqs]: "macros_Consumer_2 = map usage_line numbers_Consumer_2"
  by (simp add: macros_Consumer_2_def numbers_Consumer_2_def usage_line_def)

lemma macros_Consumer_3_eq [table_eqs]: "macros_Consumer_3 = map usage_line numbers_Consumer_3"
  by (simp add: macros_Consumer_3_def numbers_Consumer_3_def usage_line_def)

lemma macros_Consumer_eq [table_eqs]: "macros_Consumer = map usage_line numbers_Consumer"
  by (simp add: macros_Consumer_def numbers_Consumer_def table_eqs)

lemma macros_Digitizers_eq [table_eqs]: "macros_Digitizers = map usage_line numbers_Digitizers"
  by (simp add: macros_Digitizers_def numbers_Digitizers_def usage_line_def)

lemma macros_Haptics_eq [table_eqs]: "macros_Haptics = map usage_line numbers_Haptics"
  by (simp add: macros_Haptics_def numbers_Haptics_def usage_line_def)

lemma macros_PhysicalInputDevice_eq [table_eqs]: "macros_PhysicalInputDevice = map usage_line numbers_PhysicalInputDevice"
  by (simp add: macros_PhysicalInputDevice_def numbers_PhysicalInputDevice_def usage_line_def)

lemma macros_SoC_eq [table_eqs]: "macros_SoC = map usage_line numbers_SoC"
  by (simp add: macros_SoC_def numbers_SoC_def usage_line_def)

lemma macros_EyeandHeadTrackers_eq [table_eqs]: "macros_EyeandHeadTrackers = map usage_line numbers_EyeandHeadTrackers"
  by (simp add: macros_EyeandHeadTrackers_def numbers_EyeandHeadTrackers_def usage_line_def)

lemma macros_AuxiliaryDisplay_eq [table_eqs]: "macros_AuxiliaryDisplay = map usage_line numbers_AuxiliaryDisplay"
  by (simp add: macros_AuxiliaryDisplay_def numbers_AuxiliaryDisplay_def usage_line_def)

lemma macros_Sensors_1_eq [table_eqs]: "macros_Sensors_1 = map usage_line numbers_Sensors_1"
  by (simp add: macros_Sensors_1_def numbers_Sensors_1_def usage_line_def)

lemma macros_Sensors_2_eq [table_eqs]: "macros_Sensors_2 = map usage_line numbers_Sensors_2"
  by (simp add: macros_Sensors_2_def numbers_Sensors_2_def usage_line_def)

lemma macros_Sensors_3_eq [table_eqs]: "macros_Sensors_3 = map usage_line numbers_Sensors_3"
  by (simp add: macros_Sensors_3_def numbers_Sensors_3_def usage_line_def)

lemma macros_Sensors_4_eq [table_eqs]: "macros_Sensors_4 = map usage_line numbers_Sensors_4"
  by (simp add: macros_Sensors_4_def numbers_Sensors_4_def usage_line_def)

lemma macros_Sensors_5_eq [table_eqs]: "macros_Sensors_5 = map usage_line numbers_Sensors_5"
  by (simp add: macros_Sensors_5_def numbers_Sensors_5_def usage_line_def)

lemma macros_Sensors_eq [table_eqs]: "macros_Sensors = map usage_line numbers_Sensors"
  by (simp add: macros_Sensors_def numbers_Sensors_def table_eqs)

lemma macros_MedicalInstrument_eq [table_eqs]: "macros_MedicalInstrument = map usage_line numbers_MedicalInstrument"
  by (simp add: macros_MedicalInstrument_def numbers_MedicalInstrument_def usage_line_def)

lemma macros_BrailleDisplay_eq [table_eqs]: "macros_BrailleDisplay = map usage_line numbers_BrailleDisplay"
  by (simp add: macros_BrailleDisplay_def numbers_BrailleDisplay_def usage_line_def)

lemma macros_LightingAndIllumination_eq [table_eqs]: "macros_LightingAndIllumination = map usage_line numbers_LightingAndIllumination"
  by (simp add: macros_LightingAndIllumination_def numbers_LightingAndIllumination_def usage_line_def)

lemma macros_Monitor_eq [table_eqs]: "macros_Monitor = map usage_line numbers_Monitor"
  by (simp add: macros_Monitor_def numbers_Monitor_def usage_line_def)

lemma macros_VESAVirtualControls_eq [table_eqs]: "macros_VESAVirtualControls = map usage_line numbers_VESAVirtualControls"
  by (simp add: macros_VESAVirtualControls_def numbers_VESAVirtualControls_def usage_line_def)

lemma macros_Power_eq [table_eqs]: "macros_Power = map usage_line numbers_Power"
  by (simp add: macros_Power_def numbers_Power_def usage_line_def)

lemma macros_BatterySystem_eq [table_eqs]: "macros_BatterySystem = map usage_line numbers_BatterySystem"
  by (simp add: macros_BatterySystem_def numbers_BatterySystem_def usage_line_def)

lemma macros_BarcodeScanner_1_eq [table_eqs]: "macros_BarcodeScanner_1 = map usage_line numbers_BarcodeScanner_1"
  by (simp add: macros_BarcodeScanner_1_def numbers_BarcodeScanner_1_def usage_line_def)

lemma macros_BarcodeScanner_2_eq [table_eqs]: "macros_BarcodeScanner_2 = map usage_line numbers_BarcodeScanner_2"
  by (simp add: macros_BarcodeScanner_2_def numbers_BarcodeScanner_2_def usage_line_def)

lemma macros_BarcodeScanner_eq [table_eqs]: "macros_BarcodeScanner = map usage_line numbers_BarcodeScanner"
  by (simp add: macros_BarcodeScanner_def numbers_BarcodeScanner_def table_eqs)

lemma macros_Scales_eq [table_eqs]: "macros_Scales = map usage_line numbers_Scales"
  by (simp add: macros_Scales_def numbers_Scales_def usage_line_def)

lemma macros_MagneticStripeReader_eq [table_eqs]: "macros_MagneticStripeReader = map usage_line numbers_MagneticStripeReader"
  by (simp add: macros_MagneticStripeReader_def numbers_MagneticStripeReader_def usage_line_def)

lemma macros_CameraControl_eq [table_eqs]: "macros_CameraControl = map usage_line numbers_CameraControl"
  by (simp add: macros_CameraControl_def numbers_CameraControl_def usage_line_def)

lemma macros_Arcade_eq [table_eqs]: "macros_Arcade = map usage_line numbers_Arcade"
  by (simp add: macros_Arcade_def numbers_Arcade_def usage_line_def)

lemma macros_FIDOAlliance_eq [table_eqs]: "macros_FIDOAlliance = map usage_line numbers_FIDOAlliance"
  by (simp add: macros_FIDOAlliance_def numbers_FIDOAlliance_def usage_line_def)

lemma usage_macros_eq: "usage_macros = map (\<lambda>(page, table). (page, map usage_line table)) usage_numbers"
  by (simp add: usage_macros_def usage_numbers_def table_eqs)

section \<open>The order of the numbers\<close>

text \<open>The numbers of a page increase and fit into 16 bits, so each has one name.\<close>

fun increasing :: "int \<Rightarrow> (string \<times> int) list \<Rightarrow> bool" where
  "increasing lo [] = True"
| "increasing lo ((n, v) # ns) = (lo < v \<and> v < 0x10000 \<and> increasing v ns)"

lemma page_numbers_increasing: "increasing (- 1) page_numbers"
  by (simp add: page_numbers_def)

lemma numbers_GenericDesktop_increasing [table_order]: "increasing (- 1) numbers_GenericDesktop"
  by (simp add: numbers_GenericDesktop_def)

lemma numbers_SimulationControls_increasing [table_order]: "increasing (- 1) numbers_SimulationControls"
  by (simp add: numbers_SimulationControls_def)

lemma numbers_VRControls_increasing [table_order]: "increasing (- 1) numbers_VRControls"
  by (simp add: numbers_VRControls_def)

lemma numbers_SportControls_increasing [table_order]: "increasing (- 1) numbers_SportControls"
  by (simp add: numbers_SportControls_def)

lemma numbers_GameControls_increasing [table_order]: "increasing (- 1) numbers_GameControls"
  by (simp add: numbers_GameControls_def)

lemma numbers_GenericDeviceControls_increasing [table_order]: "increasing (- 1) numbers_GenericDeviceControls"
  by (simp add: numbers_GenericDeviceControls_def)

lemma numbers_KeyboardKeypad_increasing [table_order]: "increasing (- 1) numbers_KeyboardKeypad"
  by (simp add: numbers_KeyboardKeypad_def numbers_KeyboardKeypad_1_def numbers_KeyboardKeypad_2_def)

lemma numbers_LED_increasing [table_order]: "increasing (- 1) numbers_LED"
  by (simp add: numbers_LED_def)

lemma numbers_TelephonyDevice_increasing [table_order]: "increasing (- 1) numbers_TelephonyDevice"
  by (simp add: numbers_TelephonyDevice_def)

lemma numbers_Consumer_increasing [table_order]: "increasing (- 1) numbers_Consumer"
  by (simp add: numbers_Consumer_def numbers_Consumer_1_def numbers_Consumer_2_def numbers_Consumer_3_def)

lemma numbers_Digitizers_increasing [table_order]: "increasing (- 1) numbers_Digitizers"
  by (simp add: numbers_Digitizers_def)

lemma numbers_Haptics_increasing [table_order]: "increasing (- 1) numbers_Haptics"
  by (simp add: numbers_Haptics_def)

lemma numbers_PhysicalInputDevice_increasing [table_order]: "increasing (- 1) numbers_PhysicalInputDevice"
  by (simp add: numbers_PhysicalInputDevice_def)

lemma numbers_SoC_increasing [table_order]: "increasing (- 1) numbers_SoC"
  by (simp add: numbers_SoC_def)

lemma numbers_EyeandHeadTrackers_increasing [table_order]: "increasing (- 1) numbers_EyeandHeadTrackers"
  by (simp add: numbers_EyeandHeadTrackers_def)

lemma numbers_AuxiliaryDisplay_increasing [table_order]: "increasing (- 1) numbers_AuxiliaryDisplay"
  by (simp add: numbers_AuxiliaryDisplay_def)

lemma numbers_Sensors_increasing [table_order]: "increasing (- 1) numbers_Sensors"
    by (simp add: numbers_Sensors_def numbers_Sensors_1_def numbers_Sensors_2_def numbers_Sensors_3_def numbers_Sensors_4_def
      numbers_Sensors_5_def)

lemma numbers_MedicalInstrument_increasing [table_order]: "increasing (- 1) numbers_MedicalInstrument"
  by (simp add: numbers_MedicalInstrument_def)

lemma numbers_BrailleDisplay_increasing [table_order]: "increasing (- 1) numbers_BrailleDisplay"
  by (simp add: numbers_BrailleDisplay_def)

lemma numbers_LightingAndIllumination_increasing [table_order]: "increasing (- 1) numbers_LightingAndIllumination"
  by (simp add: numbers_LightingAndIllumination_def)

lemma numbers_Monitor_increasing [table_order]: "increasing (- 1) numbers_Monitor"
  by (simp add: numbers_Monitor_def)

lemma numbers_VESAVirtualControls_increasing [table_order]: "increasing (- 1) numbers_VESAVirtualControls"
  by (simp add: numbers_VESAVirtualControls_def)

lemma numbers_Power_increasing [table_order]: "increasing (- 1) numbers_Power"
  by (simp add: numbers_Power_def)

lemma numbers_BatterySystem_increasing [table_order]: "increasing (- 1) numbers_BatterySystem"
  by (simp add: numbers_BatterySystem_def)

lemma numbers_BarcodeScanner_increasing [table_order]: "increasing (- 1) numbers_BarcodeScanner"
  by (simp add: numbers_BarcodeScanner_def numbers_BarcodeScanner_1_def numbers_BarcodeScanner_2_def)

lemma numbers_Scales_increasing [table_order]: "increasing (- 1) numbers_Scales"
  by (simp add: numbers_Scales_def)

lemma numbers_MagneticStripeReader_increasing [table_order]: "increasing (- 1) numbers_MagneticStripeReader"
  by (simp add: numbers_MagneticStripeReader_def)

lemma numbers_CameraControl_increasing [table_order]: "increasing (- 1) numbers_CameraControl"
  by (simp add: numbers_CameraControl_def)

lemma numbers_Arcade_increasing [table_order]: "increasing (- 1) numbers_Arcade"
  by (simp add: numbers_Arcade_def)

lemma numbers_FIDOAlliance_increasing [table_order]: "increasing (- 1) numbers_FIDOAlliance"
  by (simp add: numbers_FIDOAlliance_def)

lemma usage_numbers_increasing: "(page, table) \<in> set usage_numbers \<Longrightarrow> increasing (- 1) table"
  by (auto simp: usage_numbers_def intro: table_order)

lemma increasing_in: "increasing lo ns \<Longrightarrow> (n, v) \<in> set ns \<Longrightarrow> lo < v \<and> v < 0x10000"
  by (induction lo ns rule: increasing.induct) fastforce+

lemma increasing_inj: "increasing lo ns \<Longrightarrow> (n, v) \<in> set ns \<Longrightarrow> (n', v) \<in> set ns \<Longrightarrow> n = n'"
  by (induction lo ns rule: increasing.induct) (auto dest: increasing_in)

section \<open>The macros of the programs\<close>

lemma programs_pages:
  "(''GenericDesktop'', UsagePage_GenericDesktop) \<in> set page_macros"
  "(''Button'', UsagePage_Button) \<in> set page_macros"
  "(''Ordinal'', UsagePage_Ordinal) \<in> set page_macros"
  "(''Consumer'', UsagePage_Consumer) \<in> set page_macros"
  "(''Digitizers'', UsagePage_Digitizers) \<in> set page_macros"
  "(''Haptics'', UsagePage_Haptics) \<in> set page_macros"
  "(''BatterySystem'', UsagePage_BatterySystem) \<in> set page_macros"
    by (simp_all add: page_macros_def UsagePage_GenericDesktop_def UsagePage_Button_def UsagePage_Ordinal_def UsagePage_Consumer_def
      UsagePage_Digitizers_def UsagePage_Haptics_def UsagePage_BatterySystem_def)

lemma programs_GenericDesktop:
  "(''GD_Dial'', Usage_GD_Dial) \<in> set macros_GenericDesktop"
  "(''GD_Keypad'', Usage_GD_Keypad) \<in> set macros_GenericDesktop"
  "(''GD_Mouse'', Usage_GD_Mouse) \<in> set macros_GenericDesktop"
  "(''GD_ResolutionMultiplier'', Usage_GD_ResolutionMultiplier) \<in> set macros_GenericDesktop"
  "(''GD_SystemControl'', Usage_GD_SystemControl) \<in> set macros_GenericDesktop"
  "(''GD_SystemMultiAxisController'', Usage_GD_SystemMultiAxisController) \<in> set macros_GenericDesktop"
  "(''GD_SystemSleep'', Usage_GD_SystemSleep) \<in> set macros_GenericDesktop"
  "(''GD_SystemWakeUp'', Usage_GD_SystemWakeUp) \<in> set macros_GenericDesktop"
  "(''GD_Wheel'', Usage_GD_Wheel) \<in> set macros_GenericDesktop"
  "(''GD_WirelessRadioButton'', Usage_GD_WirelessRadioButton) \<in> set macros_GenericDesktop"
  "(''GD_WirelessRadioLED'', Usage_GD_WirelessRadioLED) \<in> set macros_GenericDesktop"
  "(''GD_X'', Usage_GD_X) \<in> set macros_GenericDesktop"
  "(''GD_Y'', Usage_GD_Y) \<in> set macros_GenericDesktop"
    by (simp_all add: macros_GenericDesktop_def Usage_GD_Dial_def Usage_GD_Keypad_def Usage_GD_Mouse_def
      Usage_GD_ResolutionMultiplier_def Usage_GD_SystemControl_def Usage_GD_SystemMultiAxisController_def Usage_GD_SystemSleep_def
      Usage_GD_SystemWakeUp_def Usage_GD_Wheel_def Usage_GD_WirelessRadioButton_def Usage_GD_WirelessRadioLED_def Usage_GD_X_def
      Usage_GD_Y_def)

lemma programs_Consumer:
  "(''Con_ACPan'', Usage_Con_ACPan) \<in> set macros_Consumer"
  by (simp_all add: macros_Consumer_def macros_Consumer_1_def macros_Consumer_2_def macros_Consumer_3_def Usage_Con_ACPan_def)

lemma programs_Digitizers:
  "(''Dig_BarrelSwitch'', Usage_Dig_BarrelSwitch) \<in> set macros_Digitizers"
  "(''Dig_Digitizer'', Usage_Dig_Digitizer) \<in> set macros_Digitizers"
  "(''Dig_Eraser'', Usage_Dig_Eraser) \<in> set macros_Digitizers"
  "(''Dig_InRange'', Usage_Dig_InRange) \<in> set macros_Digitizers"
  "(''Dig_Invert'', Usage_Dig_Invert) \<in> set macros_Digitizers"
  "(''Dig_Pen'', Usage_Dig_Pen) \<in> set macros_Digitizers"
  "(''Dig_Puck'', Usage_Dig_Puck) \<in> set macros_Digitizers"
  "(''Dig_SecondaryBarrelSwitch'', Usage_Dig_SecondaryBarrelSwitch) \<in> set macros_Digitizers"
  "(''Dig_Stylus'', Usage_Dig_Stylus) \<in> set macros_Digitizers"
  "(''Dig_TabletFunctionKeys'', Usage_Dig_TabletFunctionKeys) \<in> set macros_Digitizers"
  "(''Dig_TipPressure'', Usage_Dig_TipPressure) \<in> set macros_Digitizers"
  "(''Dig_TipSwitch'', Usage_Dig_TipSwitch) \<in> set macros_Digitizers"
  "(''Dig_Width'', Usage_Dig_Width) \<in> set macros_Digitizers"
  "(''Dig_XTilt'', Usage_Dig_XTilt) \<in> set macros_Digitizers"
  "(''Dig_YTilt'', Usage_Dig_YTilt) \<in> set macros_Digitizers"
    by (simp_all add: macros_Digitizers_def Usage_Dig_BarrelSwitch_def Usage_Dig_Digitizer_def Usage_Dig_Eraser_def
      Usage_Dig_InRange_def Usage_Dig_Invert_def Usage_Dig_Pen_def Usage_Dig_Puck_def Usage_Dig_SecondaryBarrelSwitch_def
      Usage_Dig_Stylus_def Usage_Dig_TabletFunctionKeys_def Usage_Dig_TipPressure_def Usage_Dig_TipSwitch_def Usage_Dig_Width_def
      Usage_Dig_XTilt_def Usage_Dig_YTilt_def)

lemma programs_Haptics:
  "(''Hap_AutoTrigger'', Usage_Hap_AutoTrigger) \<in> set macros_Haptics"
  "(''Hap_AutoTriggerAssociatedControl'', Usage_Hap_AutoTriggerAssociatedControl) \<in> set macros_Haptics"
  "(''Hap_DurationList'', Usage_Hap_DurationList) \<in> set macros_Haptics"
  "(''Hap_ManualTrigger'', Usage_Hap_ManualTrigger) \<in> set macros_Haptics"
  "(''Hap_RepeatCount'', Usage_Hap_RepeatCount) \<in> set macros_Haptics"
  "(''Hap_RetriggerPeriod'', Usage_Hap_RetriggerPeriod) \<in> set macros_Haptics"
  "(''Hap_SimpleHapticController'', Usage_Hap_SimpleHapticController) \<in> set macros_Haptics"
  "(''Hap_WaveformCutoffTime'', Usage_Hap_WaveformCutoffTime) \<in> set macros_Haptics"
  "(''Hap_WaveformList'', Usage_Hap_WaveformList) \<in> set macros_Haptics"
    by (simp_all add: macros_Haptics_def Usage_Hap_AutoTrigger_def Usage_Hap_AutoTriggerAssociatedControl_def
      Usage_Hap_DurationList_def Usage_Hap_ManualTrigger_def Usage_Hap_RepeatCount_def Usage_Hap_RetriggerPeriod_def
      Usage_Hap_SimpleHapticController_def Usage_Hap_WaveformCutoffTime_def Usage_Hap_WaveformList_def)

lemma programs_BatterySystem:
  "(''BS_AbsoluteStateOfCharge'', Usage_BS_AbsoluteStateOfCharge) \<in> set macros_BatterySystem"
  "(''BS_Charging'', Usage_BS_Charging) \<in> set macros_BatterySystem"
  by (simp_all add: macros_BatterySystem_def Usage_BS_AbsoluteStateOfCharge_def Usage_BS_Charging_def)

lemmas programs_usages = programs_pages programs_GenericDesktop programs_Consumer programs_Digitizers programs_Haptics
  programs_BatterySystem

section \<open>The headers name the same usages\<close>

lemma page_item:
  assumes "0 \<le> v" "v < 0x10000"
  shows "static_ok (snd (page_line (n, v)))" "\<exists>k. split_items (map uint (bytes (snd (page_line (n, v))))) = Some [(0x04, k, v)]"
  using assms item_macro_item [of UsagePage_i8 4 1 v] item_macro_item [of UsagePage_i16 4 2 v]
  by (auto simp: page_line_def item_macros_def)

lemma usage_item:
  assumes "0 \<le> v" "v < 0x10000"
  shows "static_ok (snd (usage_line (n, v)))"
    "\<exists>k \<le> 2. split_items (map uint (bytes (snd (usage_line (n, v))))) = Some [(0x08, k, v)]"
  using assms item_macro_item [of Usage_i8 8 1 v] item_macro_item [of Usage_i16 8 2 v]
  by (auto simp: usage_line_def item_macros_def)

definition has_number :: "string \<Rightarrow> string \<Rightarrow> int \<Rightarrow> int \<Rightarrow> bool" where
  "has_number page n p u \<longleftrightarrow> (page, p) \<in> set page_numbers \<and> (\<exists>table. (page, table) \<in> set usage_numbers \<and> (n, u) \<in> set table)"

lemma usage_pages_distinct: "distinct (map fst usage_numbers)"
  by (simp add: usage_numbers_def)

lemma has_number_range: "has_number page n p u \<Longrightarrow> 0 \<le> p \<and> p < 0x10000 \<and> 0 \<le> u \<and> u < 0x10000"
  using increasing_in [OF page_numbers_increasing, of page p] increasing_in [OF usage_numbers_increasing, of page _ n u]
  by (fastforce simp: has_number_def)

lemma two_digits:
  fixes k :: int
  assumes "0 \<le> u" "u < k" "0 \<le> u'" "u' < k" "p * k + u = p' * k + u'"
  shows "p = p' \<and> u = u'"
proof -
  have "u = u'" using mod_mult_self3 [of p k u] mod_mult_self3 [of p' k u'] assms by simp
  then show ?thesis using assms by simp
qed

lemma has_number_unique:
  assumes "has_number page n p u" "has_number page' n' p' u'" "p * 0x10000 + u = p' * 0x10000 + u'"
  shows "page = page' \<and> n = n'"
proof -
  have "0 \<le> u \<and> u < 0x10000 \<and> 0 \<le> u' \<and> u' < 0x10000" using has_number_range [OF assms(1)] has_number_range [OF assms(2)] by blast
  then have pu: "p = p'" "u = u'" using assms(3) two_digits [of u 65536 u' p p'] by auto
  then have page: "page = page'"
    using assms(1,2) increasing_inj [OF page_numbers_increasing] unfolding has_number_def by blast
  obtain table where t: "(page, table) \<in> set usage_numbers" "(n, u) \<in> set table" using assms(1) unfolding has_number_def by blast
  moreover have "(n', u) \<in> set table"
    using assms(2) t(1) usage_pages_distinct unfolding has_number_def pu page by (metis eq_key_imp_eq_value)
  ultimately show ?thesis using increasing_inj [OF usage_numbers_increasing [OF t(1)]] page by blast
qed

text \<open>
  C22: The two generated headers name the same usages: a page macro and a usage macro of the page compile, and in whatever state
  a parser reads them it sets the page and adds the one usage whose page and identifier \<open>hid_usages.h\<close> has under the same names;
  no other pair of names has these numbers, so a program that compares a parsed usage with them recognises exactly the macros.
\<close>

theorem usage_macros_declare:
  assumes "(page, page_macro) \<in> set page_macros" "(page, table) \<in> set usage_macros" "(n, usage_macro) \<in> set table"
  shows "\<exists>p u. has_number page n p u \<and> (\<forall>page' n'. has_number page' n' p u \<longrightarrow> page' = page \<and> n' = n) \<and>
     static_ok (page_macro @ usage_macro) \<and>
     (\<exists>items. split_items (map uint (bytes (page_macro @ usage_macro))) = Some items \<and>
        (\<forall>st. parse_items items st =
           Some (st\<lparr>p_glob := (p_glob st)\<lparr>g_page := p\<rparr>, p_usages := p_usages st @ [p * 0x10000 + u]\<rparr>)))"
proof -
  obtain p where p: "(page, p) \<in> set page_numbers" "page_macro = snd (page_line (page, p))"
    using assms(1) by (auto simp: page_macros_eq page_line_def)
  obtain numbers u where u: "(page, numbers) \<in> set usage_numbers" "(n, u) \<in> set numbers" "usage_macro = snd (usage_line (n, u))"
    using assms(2,3) by (auto simp: usage_macros_eq usage_line_def)
  have num: "has_number page n p u" using p(1) u(1,2) unfolding has_number_def by blast
  note range = has_number_range [OF num]
  obtain k where k: "split_items (map uint (bytes page_macro)) = Some [(0x04, k, p)]" using page_item(2) range p(2) by blast
  obtain j where j: "j \<le> 2" "split_items (map uint (bytes usage_macro)) = Some [(0x08, j, u)]" using usage_item(2) range u(3) by blast
  have "split_items (map uint (bytes (page_macro @ usage_macro))) = Some [(0x04, k, p), (0x08, j, u)]"
    using split_items_append [OF k, of "map uint (bytes usage_macro)"] j(2) by simp
  moreover have "parse_items [(0x04, k, p), (0x08, j, u)] st =
      Some (st\<lparr>p_glob := (p_glob st)\<lparr>g_page := p\<rparr>, p_usages := p_usages st @ [p * 0x10000 + u]\<rparr>)" for st
    using j(1) by (simp add: parse_item_def set_globals_def ext_usage_def)
  moreover have "static_ok (page_macro @ usage_macro)" using page_item(1) usage_item(1) range p(2) u(3) by simp
  moreover have "page' = page \<and> n' = n" if "has_number page' n' p u" for page' n'
    using has_number_unique [OF that num] by blast
  ultimately show ?thesis using num by blast
qed

theorem usage_macros_declare_witness:
  "\<exists>p u. has_number ''Digitizers'' ''Dig_TipSwitch'' p u \<and>
     (\<exists>items. split_items (map uint (bytes (UsagePage_Digitizers @ Usage_Dig_TipSwitch))) = Some items \<and>
        (\<forall>st. parse_items items st =
           Some (st\<lparr>p_glob := (p_glob st)\<lparr>g_page := p\<rparr>, p_usages := p_usages st @ [p * 0x10000 + u]\<rparr>)))"
proof -
  have "(''Digitizers'', macros_Digitizers) \<in> set usage_macros" by (simp add: usage_macros_def)
  from usage_macros_declare [OF _ this] show ?thesis using programs_pages(5) programs_Digitizers(12) by blast
qed

end
