(* ===== verification/Bpf_Helpers.thy ===== *)
theory Bpf_Helpers
  imports Kernel_Iface
begin

unbundle bit_operations_syntax

text \<open>
  \<open>hid_bpf_helpers.h\<close> and \<open>hid_report_descriptor_helpers.h\<close>: the parsed report descriptor the loader
  hands to a program, the bounded iteration over it, and the extraction of a field from a report.
\<close>

section \<open>Parsed report descriptors\<close>

text \<open>
  The structures of \<open>hid_report_descriptor_helpers.h\<close>, which the loader fills. \<open>usage_id\<close> shares its
  storage with \<open>usage_minimum\<close>; \<open>rf_flags\<close> is the byte of the eight flags, \<open>is_relative\<close> in bit 0.
\<close>

record hid_rdesc_collection =
  rc_usage_page :: u16
  rc_usage_id :: u16
  rc_collection_type :: u8

record hid_rdesc_field =
  rf_field_type :: u8
  rf_num_collections :: u8
  rf_bits_start :: u16
  rf_bits_end :: u16
  rf_usage_page :: u16
  rf_usage_minimum :: u16
  rf_usage_maximum :: u16
  rf_logical_minimum :: "32 word"
  rf_logical_maximum :: "32 word"
  rf_flags :: u8
  rf_collections :: "hid_rdesc_collection list"

record hid_rdesc_report =
  rr_report_id :: u8
  rr_size_in_bits :: u16
  rr_num_fields :: u8
  rr_fields :: "hid_rdesc_field list"

record hid_rdesc_descriptor =
  rdd_num_input_reports :: u8
  rdd_num_output_reports :: u8
  rdd_num_feature_reports :: u8
  rdd_input_reports :: "hid_rdesc_report list"
  rdd_output_reports :: "hid_rdesc_report list"
  rdd_feature_reports :: "hid_rdesc_report list"

abbreviation (input) HID_MAX_COLLECTIONS :: nat where "HID_MAX_COLLECTIONS \<equiv> 32"

abbreviation (input) HID_MAX_FIELDS :: nat where "HID_MAX_FIELDS \<equiv> 64"

abbreviation (input) HID_MAX_REPORTS :: nat where "HID_MAX_REPORTS \<equiv> 16"

text \<open>
  \<open>__hid_bpf_for_each_array\<close>: the elements visited, none at all when the count exceeds the
  array. An access beyond the array would be \<open>None\<close>.
\<close>

definition for_each_array :: "'a list \<Rightarrow> u8 \<Rightarrow> nat \<Rightarrow> 'a list option" where
  "for_each_array arr num_elements max_elements =
     (let n = (if unat num_elements > max_elements then 0 else unat num_elements) in
      if n \<le> length arr then Some (take n arr) else None)"

definition for_each_input_report :: "hid_rdesc_descriptor \<Rightarrow> hid_rdesc_report list option" where
  "for_each_input_report desc =
     for_each_array (rdd_input_reports desc) (rdd_num_input_reports desc) HID_MAX_REPORTS"

definition for_each_feature_report :: "hid_rdesc_descriptor \<Rightarrow> hid_rdesc_report list option" where
  "for_each_feature_report desc =
     for_each_array (rdd_feature_reports desc) (rdd_num_feature_reports desc) HID_MAX_REPORTS"

definition for_each_output_report :: "hid_rdesc_descriptor \<Rightarrow> hid_rdesc_report list option" where
  "for_each_output_report desc =
     for_each_array (rdd_output_reports desc) (rdd_num_output_reports desc) HID_MAX_REPORTS"

definition for_each_field :: "hid_rdesc_report \<Rightarrow> hid_rdesc_field list option" where
  "for_each_field report = for_each_array (rr_fields report) (rr_num_fields report) HID_MAX_FIELDS"

definition for_each_collection :: "hid_rdesc_field \<Rightarrow> hid_rdesc_collection list option" where
  "for_each_collection field =
     for_each_array (rf_collections field) (rf_num_collections field) HID_MAX_COLLECTIONS"

text \<open>On arrays of the declared size an iteration is always in bounds.\<close>

lemma for_each_array_total:
  "length arr = max_elements \<Longrightarrow> \<exists>xs. for_each_array arr n max_elements = Some xs \<and> length xs \<le> max_elements"
  by (auto simp: for_each_array_def Let_def)

definition rdesc_arrays_ok :: "hid_rdesc_descriptor \<Rightarrow> bool" where
  "rdesc_arrays_ok desc \<longleftrightarrow>
     length (rdd_input_reports desc) = HID_MAX_REPORTS \<and>
     length (rdd_output_reports desc) = HID_MAX_REPORTS \<and>
     length (rdd_feature_reports desc) = HID_MAX_REPORTS \<and>
     list_all (\<lambda>r. length (rr_fields r) = HID_MAX_FIELDS \<and>
                   list_all (\<lambda>f. length (rf_collections f) = HID_MAX_COLLECTIONS) (rr_fields r))
       (rdd_input_reports desc @ rdd_output_reports desc @ rdd_feature_reports desc)"

section \<open>Extracting a field\<close>

definition field_start_byte :: "hid_rdesc_field \<Rightarrow> u16" where
  "field_start_byte f = rf_bits_start f div 8"

definition field_end_byte :: "hid_rdesc_field \<Rightarrow> u16" where
  "field_end_byte f = (if rf_bits_end f = 0 then 0 else (rf_bits_end f - 1) div 8)"

text \<open>The loop of the general case.\<close>

definition gather_bytes :: "u8 list \<Rightarrow> nat \<Rightarrow> nat \<Rightarrow> u64 option" where
  "gather_bytes buffer start stop =
     mfold (\<lambda>i val. do { v \<leftarrow> rd buffer i; Some (val OR push_bit ((i - start) * 8) (ucast v)) })
       [start..<stop + 1] 0"

text \<open>\<open>mask\<close> is an \<open>int\<close>: it is sign-extended when it meets the 64-bit value.\<close>

definition extract_bits :: "u8 list \<Rightarrow> nat \<Rightarrow> hid_rdesc_field \<Rightarrow> u32 option" where
  "extract_bits buffer sz field =
     (let nbits = uint (rf_bits_end field) - uint (rf_bits_start field);
          start = unat (field_start_byte field);
          stop = unat (field_end_byte field);
          base_shift = unat (rf_bits_start field mod 8)
      in if nbits \<le> 0 \<or> nbits > 32 \<or> start \<ge> sz \<or> stop \<ge> sz then Some 0
         else if base_shift = 0 \<and> nbits = 8 \<and> start < sz then do {
           b0 \<leftarrow> rd buffer start;
           Some (ucast b0) }
         else if base_shift = 0 \<and> nbits = 16 \<and> start < sz \<and> start + 1 < sz then do {
           b0 \<leftarrow> rd buffer start; b1 \<leftarrow> rd buffer (start + 1);
           Some (ucast b0 OR push_bit 8 (ucast b1)) }
         else if base_shift = 0 \<and> nbits = 32 \<and> start < sz \<and> start + 1 < sz \<and>
                 start + 2 < sz \<and> start + 3 < sz then do {
           b0 \<leftarrow> rd buffer start; b1 \<leftarrow> rd buffer (start + 1);
           b2 \<leftarrow> rd buffer (start + 2); b3 \<leftarrow> rd buffer (start + 3);
           Some (le32 b0 b1 b2 b3) }
         else do {
           let msk = (drop_bit (nat (32 - nbits)) 0xffffffff :: u32);
           val \<leftarrow> gather_bytes buffer start stop;
           Some (ucast (drop_bit base_shift val AND (scast msk :: u64))) })"

lemma unat_field_start: "unat (field_start_byte f) = unat (rf_bits_start f) div 8"
  by (simp add: field_start_byte_def unat_div)

lemma unat_field_end: "unat (field_end_byte f) = (unat (rf_bits_end f) - 1) div 8"
  by (simp add: field_end_byte_def unat_div unat_minus_one)

lemma gather_bytes_eq:
  "stop < length buffer \<Longrightarrow> gather_bytes buffer start stop =
     Some (fold (\<lambda>i acc. acc OR push_bit ((i - start) * 8) (ucast (buffer ! i))) [start..<stop + 1] 0)"
  unfolding gather_bytes_def by (rule mfold_pure) auto

lemma bit_push_byte:
  "bit (push_bit a (ucast (b :: u8)) :: u64) n \<longleftrightarrow> n < 64 \<and> a \<le> n \<and> n - a < 8 \<and> bit b (n - a)"
  by (cases "n - a < 8") (auto simp: bit_push_bit_iff bit_ucast_iff bit_high not_less)

lemma div_8_unique: "j * 8 \<le> n \<Longrightarrow> n - j * 8 < 8 \<Longrightarrow> n div 8 = j" for n j :: nat
  using div_nat_eqI [of 8 j n] by auto

lemma byte_of_bit:
  "start \<le> i \<Longrightarrow> (i - start) * 8 \<le> n \<and> n - (i - start) * 8 < 8 \<longleftrightarrow> i = start + n div 8"
  for i n start :: nat
  using div_8_unique [of "i - start" n] by (auto simp: minus_div_mult_eq_mod)

lemma bit_gather_bytes:
  assumes "gather_bytes buffer start stop = Some v" and "stop < length buffer"
  shows "bit v n \<longleftrightarrow> n < 64 \<and> start + n div 8 \<le> stop \<and> bit (buffer ! (start + n div 8)) (n mod 8)"
proof -
  have v: "v = fold (\<lambda>i acc. acc OR push_bit ((i - start) * 8) (ucast (buffer ! i))) [start..<stop + 1] 0"
    using assms by (simp add: gather_bytes_eq)
  have byte: "bit (push_bit ((i - start) * 8) (ucast (buffer ! i)) :: u64) n
      \<longleftrightarrow> n < 64 \<and> i = start + n div 8 \<and> bit (buffer ! i) (n mod 8)" if "start \<le> i" for i
  proof -
    have "(i - start) * 8 \<le> n \<and> n - (i - start) * 8 < 8 \<longleftrightarrow> i = start + n div 8"
      using that by (rule byte_of_bit)
    moreover have "n - (i - start) * 8 = n mod 8" if "i = start + n div 8"
      using that by (simp add: minus_div_mult_eq_mod)
    ultimately show ?thesis unfolding bit_push_byte by metis
  qed
  show ?thesis
    unfolding v bit_fold_or set_upt using byte by auto
qed

lemma ucast_or_le16: "ucast b0 OR push_bit 8 (ucast b1) = (ucast (le16 b0 b1) :: u32)"
proof (rule bit_word_eqI)
  fix n assume "n < LENGTH(32)"
  then show "bit (ucast b0 OR push_bit 8 (ucast b1) :: u32) n = bit (ucast (le16 b0 b1) :: u32) n"
    by (cases "n < 16")
      (auto simp: le16_def bit_or_iff bit_push_bit_iff bit_ucast_iff bit_high not_less)
qed

lemma bit_ucast_le16: "bit (ucast (le16 lo hi) :: u32) k \<longleftrightarrow> k < 16 \<and> bit ([lo, hi] ! (k div 8)) (k mod 8)"
  using bit_le16 [of k lo hi] by (cases "k < 16") (simp_all add: bit_ucast_iff bit_high not_less)

text \<open>A field of 1 to 32 bits that lies inside the first \<open>sz\<close> bytes.\<close>

definition field_fits :: "nat \<Rightarrow> hid_rdesc_field \<Rightarrow> bool" where
  "field_fits sz f \<longleftrightarrow>
     (let s = unat (rf_bits_start f); e = unat (rf_bits_end f) in s < e \<and> e \<le> s + 32 \<and> e \<le> 8 * sz)"

lemma extract_bits_guard_nat:
  "int e - int s \<le> 0 \<or> int e - int s > 32 \<or> s div 8 \<ge> sz \<or> (e - 1) div 8 \<ge> sz
     \<longleftrightarrow> \<not> (s < e \<and> e \<le> s + 32 \<and> e \<le> 8 * sz)"
proof (cases "s < e")
  case True
  have "sz \<le> s div 8 \<longleftrightarrow> sz * 8 \<le> s" "sz \<le> (e - 1) div 8 \<longleftrightarrow> sz * 8 \<le> e - 1"
    by (simp_all add: less_eq_div_iff_mult_less_eq)
  moreover have "sz * 8 \<le> e - 1 \<longleftrightarrow> \<not> e \<le> 8 * sz" "sz * 8 \<le> s \<Longrightarrow> \<not> e \<le> 8 * sz"
    using True by linarith+
  moreover have "int e - int s > 32 \<longleftrightarrow> \<not> e \<le> s + 32" "\<not> int e - int s \<le> 0"
    using True by linarith+
  ultimately show ?thesis using True by blast
qed simp

lemma extract_bits_guard:
  "uint (rf_bits_end f) - uint (rf_bits_start f) \<le> 0 \<or> uint (rf_bits_end f) - uint (rf_bits_start f) > 32 \<or>
   unat (field_start_byte f) \<ge> sz \<or> unat (field_end_byte f) \<ge> sz \<longleftrightarrow> \<not> field_fits sz f"
  using extract_bits_guard_nat [of "unat (rf_bits_end f)" "unat (rf_bits_start f)" sz]
  by (simp only: field_fits_def Let_def unat_field_start unat_field_end uint_nat)

text \<open>The general case alone already extracts every field that fits.\<close>

lemma bit_scast_low_mask:
  "m \<le> 32 \<Longrightarrow> k < 32 \<Longrightarrow> bit (scast (drop_bit (32 - m) 0xffffffff :: u32) :: u64) k \<longleftrightarrow> k < m"
proof -
  assume "m \<le> 32" "k < 32"
  have ones: "(0xffffffff :: u32) = - 1" by simp
  have "bit (drop_bit (32 - m) (- 1) :: u32) k \<longleftrightarrow> k < m"
    using \<open>m \<le> 32\<close> \<open>k < 32\<close> by (auto simp: bit_drop_bit_eq possible_bit_word bit_mask_iff)
  moreover have "bit (scast (w :: u32) :: u64) k = bit w k" for w
    using \<open>k < 32\<close> by (cases "k = 31") (auto simp: bit_signed_iff possible_bit_word min_def)
  ultimately show ?thesis unfolding ones by (simp only:)
qed

lemma div_mod_8: "(8 * q + r) div 8 = q + r div 8" "(8 * q + r) mod 8 = r mod 8" for q r :: nat
  by simp_all

lemma extract_bits_none: "\<not> field_fits sz f \<Longrightarrow> extract_bits buffer sz f = Some 0"
  unfolding extract_bits_def Let_def extract_bits_guard by simp

lemma if_cases4:
  "(c1 \<Longrightarrow> P a) \<Longrightarrow> (c2 \<Longrightarrow> P b) \<Longrightarrow> (c3 \<Longrightarrow> P c) \<Longrightarrow> P d \<Longrightarrow>
   P (if c1 then a else if c2 then b else if c3 then c else d)"
  by simp

lemma extract_bits_bit:
  assumes "field_fits sz f" and "sz \<le> length buffer"
  shows "\<exists>v. extract_bits buffer sz f = Some v \<and> (\<forall>k < 32. bit v k \<longleftrightarrow>
           unat (rf_bits_start f) + k < unat (rf_bits_end f) \<and>
           bit (buffer ! ((unat (rf_bits_start f) + k) div 8)) ((unat (rf_bits_start f) + k) mod 8))"
proof -
  define s where "s = unat (rf_bits_start f)"
  define e where "e = unat (rf_bits_end f)"
  define m where "m = e - s"
  define p where "p = s mod 8"
  have fits: "s < e" "e \<le> s + 32" "e \<le> 8 * sz"
    using assms(1) by (simp_all add: field_fits_def Let_def s_def e_def)
  have nbits: "uint (rf_bits_end f) - uint (rf_bits_start f) = int m"
    using fits by (simp add: m_def s_def e_def)
  have start: "unat (field_start_byte f) = s div 8" "unat (rf_bits_start f mod 8) = p"
    by (simp_all add: unat_field_start s_def p_def unat_mod)
  have stop: "unat (field_end_byte f) = (e - 1) div 8" "(e - 1) div 8 < length buffer"
    using fits assms(2) by (simp_all add: unat_field_end e_def)
  have s: "s = 8 * (s div 8) + p" "p < 8"
    by (simp_all add: p_def)
  have pos: "(s + k) div 8 = s div 8 + (p + k) div 8" "(s + k) mod 8 = (p + k) mod 8" for k
  proof -
    have eq: "s + k = 8 * (s div 8) + (p + k)" using s(1) by linarith
    show "(s + k) div 8 = s div 8 + (p + k) div 8" by (subst eq) (rule div_mod_8)
    show "(s + k) mod 8 = (p + k) mod 8" by (subst eq) (rule div_mod_8)
  qed
  have guard: "\<not> (int m \<le> 0 \<or> int m > 32 \<or> s div 8 \<ge> sz \<or> (e - 1) div 8 \<ge> sz)"
    using extract_bits_guard [of f sz, unfolded nbits start stop(1)] assms(1) by blast
  have aligned: "(s + k) div 8 = s div 8 + k div 8" "(s + k) mod 8 = k mod 8" if "p = 0" for k
    using pos that by simp_all
  have len: "(s + k) div 8 < length buffer" if "s + k < e" for k
    using that fits(3) assms(2) by linarith
  define good where "good r \<longleftrightarrow> (\<exists>v. r = Some v \<and> (\<forall>k < 32. bit v k \<longleftrightarrow>
      s + k < e \<and> bit (buffer ! ((s + k) div 8)) ((s + k) mod 8)))" for r :: "u32 option"
  have goodI: "good (Some v)" if "\<And>k. k < 32 \<Longrightarrow> bit v k \<longleftrightarrow>
      s + k < e \<and> bit (buffer ! ((s + k) div 8)) ((s + k) mod 8)" for v
    using that by (simp add: good_def)
  have 1: "good (rd buffer (s div 8) \<bind> (\<lambda>b0. Some (ucast b0)))" if "p = 0 \<and> int m = 8"
  proof -
    have e: "e = s + 8" "s div 8 < length buffer" using that fits guard assms(2) by (simp_all add: m_def)
    have "bit (ucast (buffer ! (s div 8)) :: u32) k \<longleftrightarrow> k < 8 \<and> bit (buffer ! (s div 8 + k div 8)) (k mod 8)"
      if "k < 32" for k
      using that by (cases "k < 8") (simp_all add: bit_ucast_iff bit_high not_less)
    then show ?thesis
      using that e by (auto intro!: goodI simp: aligned)
  qed
  have 2: "good (rd buffer (s div 8) \<bind> (\<lambda>b0. rd buffer (s div 8 + 1) \<bind>
      (\<lambda>b1. Some (ucast b0 OR push_bit 8 (ucast b1)))))" if "p = 0 \<and> int m = 16 \<and> s div 8 + 1 < sz"
  proof -
    have e: "e = s + 16" using that fits by (simp add: m_def)
    have "[buffer ! (s div 8), buffer ! (s div 8 + 1)] ! (k div 8) = buffer ! (s div 8 + k div 8)"
      if "k < 16" for k
    proof -
      have "k div 8 < 2" using that by simp
      then have "k div 8 = 0 \<or> k div 8 = 1" by linarith
      then show ?thesis by (elim disjE) simp_all
    qed
    then show ?thesis
      using that e assms(2) by (auto intro!: goodI simp: ucast_or_le16 bit_ucast_le16 aligned)
  qed
  have 3: "good (rd buffer (s div 8) \<bind> (\<lambda>b0. rd buffer (s div 8 + 1) \<bind> (\<lambda>b1.
      rd buffer (s div 8 + 2) \<bind> (\<lambda>b2. rd buffer (s div 8 + 3) \<bind> (\<lambda>b3. Some (le32 b0 b1 b2 b3))))))"
    if "p = 0 \<and> int m = 32 \<and> s div 8 + 3 < sz"
  proof -
    have e: "e = s + 32" using that fits by (simp add: m_def)
    have "[buffer ! (s div 8), buffer ! (s div 8 + 1), buffer ! (s div 8 + 2), buffer ! (s div 8 + 3)] ! (k div 8)
        = buffer ! (s div 8 + k div 8)" if "k < 32" for k
    proof -
      have "k div 8 < 4" using that by simp
      then have "k div 8 = 0 \<or> k div 8 = 1 \<or> k div 8 = 2 \<or> k div 8 = 3" by linarith
      then show ?thesis by (elim disjE) simp_all
    qed
    then show ?thesis
      using that e assms(2) by (auto intro!: goodI simp: bit_le32 aligned)
  qed
  have 4: "good (gather_bytes buffer (s div 8) ((e - 1) div 8) \<bind>
      (\<lambda>val. Some (ucast (drop_bit p val AND scast (drop_bit (nat (32 - int m)) 0xffffffff :: u32) :: u64))))"
  proof -
    obtain val where val: "gather_bytes buffer (s div 8) ((e - 1) div 8) = Some val"
      using gather_bytes_eq [OF stop(2)] by blast
    have m: "nat (32 - int m) = 32 - m" "m \<le> 32" using fits by (auto simp: m_def)
    show ?thesis
      unfolding val bind.bind_lunit m(1)
    proof (rule goodI)
      fix k :: nat assume k: "k < 32"
      have "p + k < 64" using s(2) k by linarith
      moreover have "s div 8 + (p + k) div 8 \<le> (e - 1) div 8" if "s + k < e"
        unfolding pos(1) [symmetric] using that by (intro div_le_mono) linarith
      moreover have "k < m \<longleftrightarrow> s + k < e" by (auto simp: m_def)
      ultimately show "bit (ucast (drop_bit p val AND scast (drop_bit (32 - m) 0xffffffff :: u32) :: u64) :: u32) k \<longleftrightarrow>
          s + k < e \<and> bit (buffer ! ((s + k) div 8)) ((s + k) mod 8)"
        using k m(2) by (auto simp: bit_ucast_iff bit_and_iff bit_drop_bit_eq
            bit_gather_bytes [OF val stop(2)] bit_scast_low_mask pos simp del: One_nat_def)
    qed
  qed
  have "good (extract_bits buffer sz f)"
    unfolding extract_bits_def Let_def nbits start stop(1) if_not_P [OF guard]
    by (rule if_cases4; (rule 1 2 3, blast)?, (rule 4)?)
  then show ?thesis unfolding good_def s_def e_def .
qed

end
