(* ===== verification/Bpf_Async.thy ===== *)
theory Bpf_Async
  imports Kernel_Iface
begin

unbundle bit_operations_syntax

text \<open>
  \<open>hid_bpf_async.h\<close>: the slots for asynchronous callbacks, their state machine and the operations on
  them. The kernel's timers and work queues are a parameter.
\<close>

datatype hid_bpf_async_state =
    ASYNC_UNSET
  | ASYNC_INITIALIZING
  | ASYNC_INITIALIZED
  | ASYNC_STARTING
  | ASYNC_RUNNING

definition pr_hid_bpf_async_state :: "hid_bpf_async_state \<Rightarrow> string" where
  "pr_hid_bpf_async_state state = (case state of
      ASYNC_UNSET \<Rightarrow> ''HID_BPF_ASYNC_STATE_UNSET''
    | ASYNC_INITIALIZING \<Rightarrow> ''HID_BPF_ASYNC_STATE_INITIALIZING''
    | ASYNC_INITIALIZED \<Rightarrow> ''HID_BPF_ASYNC_STATE_INITIALIZED''
    | ASYNC_STARTING \<Rightarrow> ''HID_BPF_ASYNC_STATE_STARTING''
    | ASYNC_RUNNING \<Rightarrow> ''HID_BPF_ASYNC_STATE_RUNNING'')"

text \<open>
  A slot of \<open>hid_bpf_async_ctx_map\<close>. Its timer and work queue belong to the kernel and are named by
  the key of the slot; the spin lock only delimits steps that are atomic here.
\<close>

record async_elem =
  ae_state :: hid_bpf_async_state
  ae_hid :: u32
  ae_name :: string

text \<open>
  The kernel helpers the code calls, acting on a kernel state \<open>'k\<close>; \<open>'cb\<close> is the type of work queue
  callbacks. The callback of a timer is always \<open>__start_wq_timer_cb\<close>.
\<close>

record ('k, 'cb) async_kernel =
  k_timer_init :: "nat \<Rightarrow> 'k \<Rightarrow> 'k \<times> int"
  k_timer_set_callback :: "nat \<Rightarrow> 'k \<Rightarrow> 'k \<times> int"
  k_timer_start :: "nat \<Rightarrow> u64 \<Rightarrow> 'k \<Rightarrow> 'k \<times> int"
  k_wq_init :: "nat \<Rightarrow> 'k \<Rightarrow> 'k \<times> int"
  k_wq_set_callback :: "nat \<Rightarrow> 'cb \<Rightarrow> 'k \<Rightarrow> 'k \<times> int"
  k_wq_start :: "nat \<Rightarrow> 'k \<Rightarrow> 'k \<times> int"

record 'k async_world =
  aw_map :: "async_elem list"
  aw_kernel :: 'k

text \<open>The map when the program is loaded: \<open>HID_BPF_ASYNC_MAX_CTX\<close> zeroed slots.\<close>

definition async_boot :: "nat \<Rightarrow> 'k \<Rightarrow> 'k async_world" where
  "async_boot max_ctx k =
     \<lparr>aw_map = replicate max_ctx \<lparr>ae_state = ASYNC_UNSET, ae_hid = 0, ae_name = []\<rparr>, aw_kernel = k\<rparr>"

text \<open>\<open>bpf_map_lookup_elem\<close> on an array map: every key below the number of entries has an element.\<close>

definition async_lookup :: "'k async_world \<Rightarrow> int \<Rightarrow> nat option" where
  "async_lookup w key = (if 0 \<le> key \<and> nat key < length (aw_map w) then Some (nat key) else None)"

definition set_elem :: "nat \<Rightarrow> (async_elem \<Rightarrow> async_elem) \<Rightarrow> 'k async_world \<Rightarrow> 'k async_world" where
  "set_elem i f w = w\<lparr>aw_map := (aw_map w)[i := f (aw_map w ! i)]\<rparr>"

abbreviation set_state :: "nat \<Rightarrow> hid_bpf_async_state \<Rightarrow> 'k async_world \<Rightarrow> 'k async_world" where
  "set_state i st \<equiv> set_elem i (\<lambda>e. e\<lparr>ae_state := st\<rparr>)"

abbreviation slot_state :: "'k async_world \<Rightarrow> nat \<Rightarrow> hid_bpf_async_state" where
  "slot_state w i \<equiv> ae_state (aw_map w ! i)"

text \<open>A kernel call: the new kernel state is stored, the return value is handed on.\<close>

definition kcall :: "('k \<Rightarrow> 'k \<times> int) \<Rightarrow> 'k async_world \<Rightarrow> 'k async_world \<times> int" where
  "kcall f w = (let (k, r) = f (aw_kernel w) in (w\<lparr>aw_kernel := k\<rparr>, r))"

section \<open>Operations\<close>

fun async_find_from :: "nat list \<Rightarrow> 'k async_world \<Rightarrow> 'k async_world \<times> int" where
  "async_find_from [] w = (w, - EINVAL)"
| "async_find_from (i # is) w = (case async_lookup w (int i) of
      None \<Rightarrow> (w, - ENOMEM)
    | Some _ \<Rightarrow>
        if slot_state w i = ASYNC_UNSET then (set_state i ASYNC_INITIALIZING w, int i)
        else async_find_from is w)"

definition hid_bpf_async_find_empty_key :: "'k async_world \<Rightarrow> 'k async_world \<times> int" where
  "hid_bpf_async_find_empty_key w = async_find_from [0..<length (aw_map w)] w"

definition hid_bpf_async_get_ctx ::
    "('k, 'cb) async_kernel \<Rightarrow> 'k async_world \<Rightarrow> 'k async_world \<times> int" where
  "hid_bpf_async_get_ctx K w =
     (let (w, key) = hid_bpf_async_find_empty_key w in
      if key < 0 then (w, key)
      else case async_lookup w key of
        None \<Rightarrow> (w, - EINVAL)
      | Some i \<Rightarrow>
          (let (w, err) = kcall (k_timer_init K i) w in
           if err \<noteq> 0 then (w, err)
           else let (w, err) = kcall (k_timer_set_callback K i) w in
           if err \<noteq> 0 then (w, err)
           else let (w, err) = kcall (k_wq_init K i) w in
           if err \<noteq> 0 then (w, err)
           else (set_state i ASYNC_INITIALIZED w, key)))"

definition ms_to_ns :: "u64 \<Rightarrow> u64" where
  "ms_to_ns milliseconds = milliseconds * 1000 * 1000"

definition hid_bpf_async_delayed_call ::
    "('k, 'cb) async_kernel \<Rightarrow> hid_device \<Rightarrow> u64 \<Rightarrow> int \<Rightarrow> 'cb option \<Rightarrow> 'k async_world \<Rightarrow> 'k async_world \<times> int" where
  "hid_bpf_async_delayed_call K hid milliseconds key wq_cb w =
     (case async_lookup w key of
        None \<Rightarrow> (w, - EINVAL)
      | Some i \<Rightarrow>
          if slot_state w i \<noteq> ASYNC_INITIALIZED \<and> slot_state w i \<noteq> ASYNC_RUNNING then (w, - EINVAL)
          else
            (let w = set_state i ASYNC_STARTING w;
                 w = set_elem i (\<lambda>e. e\<lparr>ae_hid := hdev_id hid\<rparr>) w;
                 (w, err) = (case wq_cb of None \<Rightarrow> (w, 0) | Some cb \<Rightarrow> kcall (k_wq_set_callback K i cb) w)
             in if err \<noteq> 0 then (w, err)
             else if milliseconds \<noteq> 0 then
               (let (w, err) = kcall (k_timer_set_callback K i) w in
                if err \<noteq> 0 then (w, err)
                else let (w, err) = kcall (k_timer_start K i (ms_to_ns milliseconds)) w in
                if err \<noteq> 0 then (w, err) else (w, 0))
             else kcall (k_wq_start K i) w))"

definition hid_bpf_async_set_delayed_cb ::
    "('k, 'cb) async_kernel \<Rightarrow> int \<Rightarrow> 'cb \<Rightarrow> 'k async_world \<Rightarrow> 'k async_world \<times> int" where
  "hid_bpf_async_set_delayed_cb K key wq_cb w =
     (case async_lookup w key of
        None \<Rightarrow> (w, key)
      | Some i \<Rightarrow>
          if slot_state w i \<noteq> ASYNC_INITIALIZED \<and> slot_state w i \<noteq> ASYNC_RUNNING then (w, - EINVAL)
          else kcall (k_wq_set_callback K i wq_cb) w)"

definition hid_bpf_async_call ::
    "('k, 'cb) async_kernel \<Rightarrow> hid_device \<Rightarrow> int \<Rightarrow> 'cb option \<Rightarrow> 'k async_world \<Rightarrow> 'k async_world \<times> int" where
  "hid_bpf_async_call K hid key wq_cb w = hid_bpf_async_delayed_call K hid 0 key wq_cb w"

text \<open>
  \<open>HID_BPF_ASYNC_CB\<close>: the work queue callback of slot \<open>i\<close> around a user function. \<open>alloc\<close> stands for
  \<open>hid_bpf_allocate_context\<close>; the result of the user function is dropped.
\<close>

definition hid_bpf_async_cb ::
    "(u32 \<Rightarrow> hid_device option) \<Rightarrow> (hid_device \<Rightarrow> nat \<Rightarrow> 'k async_world \<Rightarrow> 'k async_world) \<Rightarrow> nat \<Rightarrow>
     'k async_world \<Rightarrow> 'k async_world \<times> int" where
  "hid_bpf_async_cb alloc user i w =
     (case alloc (ae_hid (aw_map w ! i)) of
        None \<Rightarrow> (w, 0)
      | Some hid \<Rightarrow>
          (let w = set_state i ASYNC_RUNNING w;
               w = user hid i w;
               w = set_state i ASYNC_INITIALIZED w
           in (w, 0)))"

definition start_wq_timer_cb :: "('k, 'cb) async_kernel \<Rightarrow> nat \<Rightarrow> 'k async_world \<Rightarrow> 'k async_world \<times> int" where
  "start_wq_timer_cb K i w = (let (w, _) = kcall (k_wq_start K i) w in (w, 0))"

text \<open>\<open>HID_BPF_ASYNC_INIT(fun)\<close>: the result carries the new value of the global \<open>____key__fun\<close>.\<close>

definition hid_bpf_async_init ::
    "('k, 'cb) async_kernel \<Rightarrow> 'cb \<Rightarrow> string \<Rightarrow> 'k async_world \<Rightarrow> 'k async_world \<times> int \<times> int" where
  "hid_bpf_async_init K cb name w =
     (let (w, key) = hid_bpf_async_get_ctx K w in
      if key < 0 then (w, key, key)
      else case async_lookup w key of
        None \<Rightarrow> (w, key, - EINVAL)
      | Some i \<Rightarrow>
          (let (w, err) = kcall (k_wq_set_callback K i cb) w in
           if err \<noteq> 0 then (w, key, err)
           else (set_elem i (\<lambda>e. e\<lparr>ae_name := name\<rparr>) w, key, 0)))"

section \<open>What an operation does to the map\<close>

lemma kcall_map [simp]: "aw_map (fst (kcall f w)) = aw_map w"
  by (simp add: kcall_def split: prod.split)

lemma kcall_map': "kcall f w = (w', r) \<Longrightarrow> aw_map w' = aw_map w"
  using kcall_map [of f w] by simp

lemma set_elem_length [simp]: "length (aw_map (set_elem i f w)) = length (aw_map w)"
  by (simp add: set_elem_def)

lemma set_elem_nth [simp]:
  "j < length (aw_map w) \<Longrightarrow> aw_map (set_elem i f w) ! j = (if j = i then f (aw_map w ! j) else aw_map w ! j)"
  by (simp add: set_elem_def)

lemma async_lookup_Some [simp]: "async_lookup w key = Some i \<longleftrightarrow> key = int i \<and> i < length (aw_map w)"
  by (auto simp: async_lookup_def)

lemma async_lookup_int: "async_lookup w (int i) = (if i < length (aw_map w) then Some i else None)"
  by (simp add: async_lookup_def)

text \<open>The new map differs from the old one at most in the state, owner and name of slot \<open>i\<close>.\<close>

definition only_slot :: "nat \<Rightarrow> 'k async_world \<Rightarrow> 'k async_world \<Rightarrow> bool" where
  "only_slot i w w' \<longleftrightarrow> length (aw_map w') = length (aw_map w) \<and>
     (\<forall>j < length (aw_map w). j \<noteq> i \<longrightarrow> aw_map w' ! j = aw_map w ! j)"

lemma only_slot_refl [simp]: "only_slot i w w"
  by (simp add: only_slot_def)

lemma only_slot_kcall: "kcall f w = (w', r) \<Longrightarrow> only_slot i w w'"
  by (simp add: only_slot_def kcall_map')

lemma find_cases:
  assumes "list_all (\<lambda>i. i < length (aw_map w)) is"
  obtains (found) i where "i \<in> set is" "slot_state w i = ASYNC_UNSET"
      "\<forall>j \<in> set (takeWhile (\<lambda>j. j \<noteq> i) is). slot_state w j \<noteq> ASYNC_UNSET"
      "async_find_from is w = (set_state i ASYNC_INITIALIZING w, int i)"
    | (full) "\<forall>i \<in> set is. slot_state w i \<noteq> ASYNC_UNSET" "async_find_from is w = (w, - EINVAL)"
  using assms
proof (induction "is" arbitrary: thesis)
  case Nil
  then show ?case by simp
next
  case (Cons i "is")
  show ?case
  proof (cases "slot_state w i = ASYNC_UNSET")
    case True
    then show ?thesis using Cons.prems(3) by (intro Cons.prems(1) [of i]) (auto simp: async_lookup_int)
  next
    case False
    have rest: "async_find_from (i # is) w = async_find_from is w"
      using False Cons.prems(3) by (simp add: async_lookup_int)
    show ?thesis
    proof (rule Cons.IH)
      show "list_all (\<lambda>i. i < length (aw_map w)) is" using Cons.prems(3) by simp
    next
      fix k assume k: "k \<in> set is" "slot_state w k = ASYNC_UNSET"
        "\<forall>j \<in> set (takeWhile (\<lambda>j. j \<noteq> k) is). slot_state w j \<noteq> ASYNC_UNSET"
        "async_find_from is w = (set_state k ASYNC_INITIALIZING w, int k)"
      then show ?thesis using False rest by (intro Cons.prems(1) [of k]) (auto split: if_splits)
    next
      assume "\<forall>i \<in> set is. slot_state w i \<noteq> ASYNC_UNSET" "async_find_from is w = (w, - EINVAL)"
      then show ?thesis using False rest by (intro Cons.prems(2)) auto
    qed
  qed
qed

text \<open>The key found is the first free slot.\<close>

lemma find_empty_key_cases:
  obtains (found) i where "i < length (aw_map w)" "slot_state w i = ASYNC_UNSET"
      "\<forall>j < i. slot_state w j \<noteq> ASYNC_UNSET"
      "hid_bpf_async_find_empty_key w = (set_state i ASYNC_INITIALIZING w, int i)"
    | (full) "\<forall>i < length (aw_map w). slot_state w i \<noteq> ASYNC_UNSET"
      "hid_bpf_async_find_empty_key w = (w, - EINVAL)"
proof -
  have "list_all (\<lambda>i. i < length (aw_map w)) [0..<length (aw_map w)]" by (simp add: list_all_iff)
  then show ?thesis
  proof (cases rule: find_cases)
    case (found i)
    have "takeWhile (\<lambda>j. j \<noteq> i) [0..<length (aw_map w)] = [0..<i]"
    proof -
      have split: "[0..<length (aw_map w)] = [0..<i] @ i # [Suc i..<length (aw_map w)]"
        using found(1) by (simp add: upt_conv_Cons [symmetric]) (metis le_add1 less_imp_le
            le_add_diff_inverse plus_nat.add_0 upt_add_eq_append)
      show ?thesis unfolding split by (subst takeWhile_append2) auto
    qed
    with found show ?thesis
      by (intro that(1) [of i]) (auto simp: hid_bpf_async_find_empty_key_def)
  next
    case full
    then show ?thesis by (intro that(2)) (auto simp: hid_bpf_async_find_empty_key_def)
  qed
qed

text \<open>The documented behaviour of the kernel helpers the code relies on: 0 or a negative error.\<close>

definition kernel_ok :: "('k, 'cb) async_kernel \<Rightarrow> bool" where
  "kernel_ok K \<longleftrightarrow> (\<forall>i k. snd (k_timer_init K i k) \<le> 0 \<and> snd (k_timer_set_callback K i k) \<le> 0 \<and>
     snd (k_wq_init K i k) \<le> 0 \<and> snd (k_wq_start K i k) \<le> 0 \<and>
     (\<forall>cb. snd (k_wq_set_callback K i cb k) \<le> 0) \<and> (\<forall>ns. snd (k_timer_start K i ns k) \<le> 0))"

lemma kcall_le: "(\<And>k. snd (f k) \<le> 0) \<Longrightarrow> snd (kcall f w) \<le> 0"
  by (simp add: kcall_def split: prod.split) (metis snd_conv)

lemma kcall_slot [simp]: "slot_state (fst (kcall f w)) j = slot_state w j"
  by simp

lemma slot_set_state [simp]:
  "i < length (aw_map w) \<Longrightarrow> slot_state (set_state i st w) j = (if j = i then st else slot_state w j)"
  by (cases "j < length (aw_map w)") (auto simp: set_elem_def nth_list_update)

lemma get_ctx_cases:
  assumes "kernel_ok K"
  obtains (fresh) i w' where "i < length (aw_map w)" "slot_state w i = ASYNC_UNSET"
      "\<forall>j < i. slot_state w j \<noteq> ASYNC_UNSET"
      "hid_bpf_async_get_ctx K w = (w', int i)" "only_slot i w w'" "slot_state w' i = ASYNC_INITIALIZED"
    | (full) "\<forall>i < length (aw_map w). slot_state w i \<noteq> ASYNC_UNSET" "hid_bpf_async_get_ctx K w = (w, - EINVAL)"
    | (failed) i w' r where "i < length (aw_map w)" "slot_state w i = ASYNC_UNSET"
      "\<forall>j < i. slot_state w j \<noteq> ASYNC_UNSET"
      "hid_bpf_async_get_ctx K w = (w', r)" "r < 0" "only_slot i w w'" "slot_state w' i = ASYNC_INITIALIZING"
proof (cases rule: find_empty_key_cases [of w])
  case (found i)
  let ?w = "set_state i ASYNC_INITIALIZING w"
  obtain w1 e1 where 1: "kcall (k_timer_init K i) ?w = (w1, e1)" by fastforce
  obtain w2 e2 where 2: "kcall (k_timer_set_callback K i) w1 = (w2, e2)" by fastforce
  obtain w3 e3 where 3: "kcall (k_wq_init K i) w2 = (w3, e3)" by fastforce
  have maps: "aw_map w1 = aw_map ?w" "aw_map w2 = aw_map ?w" "aw_map w3 = aw_map ?w"
    using kcall_map' [OF 1] kcall_map' [OF 2] kcall_map' [OF 3] by simp_all
  have neg: "e1 \<le> 0" "e2 \<le> 0" "e3 \<le> 0"
    using assms kcall_le [of "k_timer_init K i" ?w] kcall_le [of "k_timer_set_callback K i" w1]
      kcall_le [of "k_wq_init K i" w2] 1 2 3 by (auto simp: kernel_ok_def)
  have res: "hid_bpf_async_get_ctx K w = (if e1 \<noteq> 0 then (w1, e1) else if e2 \<noteq> 0 then (w2, e2)
      else if e3 \<noteq> 0 then (w3, e3) else (set_state i ASYNC_INITIALIZED w3, int i))"
    using found(1,4) 1 2 3 by (simp add: hid_bpf_async_get_ctx_def async_lookup_int)
  have only: "only_slot i w w1" "only_slot i w w2" "only_slot i w w3" "only_slot i w (set_state i ASYNC_INITIALIZED w3)"
    by (auto simp: only_slot_def maps)
  have state: "slot_state w1 i = ASYNC_INITIALIZING" "slot_state w2 i = ASYNC_INITIALIZING"
    "slot_state w3 i = ASYNC_INITIALIZING" "slot_state (set_state i ASYNC_INITIALIZED w3) i = ASYNC_INITIALIZED"
    using found(1) by (simp_all add: maps)
  show ?thesis
  proof (cases "e1 = 0 \<and> e2 = 0 \<and> e3 = 0")
    case True
    then show ?thesis using fresh [OF found(1-3) _ only(4) state(4)] res by simp
  next
    case False
    then show ?thesis
      using failed [OF found(1-3) _ _ only(1) state(1)] failed [OF found(1-3) _ _ only(2) state(2)]
        failed [OF found(1-3) _ _ only(3) state(3)] res neg by (auto simp: less_le split: if_splits)
  qed
next
  case full
  then show ?thesis using that(2) by (simp add: hid_bpf_async_get_ctx_def)
qed

text \<open>A call changes at most the state of its slot, and only from initialised or running to starting.\<close>

lemma delayed_call_cases:
  obtains (refused) "hid_bpf_async_delayed_call K hid ms key cb w = (w, - EINVAL)"
      "\<And>i. async_lookup w key = Some i \<Longrightarrow> slot_state w i \<notin> {ASYNC_INITIALIZED, ASYNC_RUNNING}"
    | (armed) i w' r where "key = int i" "i < length (aw_map w)" "slot_state w i \<in> {ASYNC_INITIALIZED, ASYNC_RUNNING}"
      "hid_bpf_async_delayed_call K hid ms key cb w = (w', r)" "only_slot i w w'" "slot_state w' i = ASYNC_STARTING"
      "ae_hid (aw_map w' ! i) = hdev_id hid"
proof (cases "async_lookup w key")
  case None
  then show ?thesis using refused by (simp add: hid_bpf_async_delayed_call_def)
next
  case (Some i)
  show ?thesis
  proof (cases "slot_state w i \<in> {ASYNC_INITIALIZED, ASYNC_RUNNING}")
    case False
    with Some show ?thesis
      by (intro refused) (auto simp: hid_bpf_async_delayed_call_def async_lookup_int)
  next
    case True
    let ?w = "set_elem i (\<lambda>e. e\<lparr>ae_hid := hdev_id hid\<rparr>) (set_state i ASYNC_STARTING w)"
    have i: "key = int i" "i < length (aw_map w)" using Some by simp_all
    obtain w1 e1 where 1: "(case cb of None \<Rightarrow> (?w, 0) | Some cb \<Rightarrow> kcall (k_wq_set_callback K i cb) ?w) = (w1, e1)"
      by fastforce
    obtain w2 e2 where 2: "kcall (k_timer_set_callback K i) w1 = (w2, e2)" by fastforce
    obtain w3 e3 where 3: "kcall (k_timer_start K i (ms_to_ns ms)) w2 = (w3, e3)" by fastforce
    obtain w4 e4 where 4: "kcall (k_wq_start K i) w1 = (w4, e4)" by fastforce
    have maps: "aw_map w1 = aw_map ?w" "aw_map w2 = aw_map ?w" "aw_map w3 = aw_map ?w" "aw_map w4 = aw_map ?w"
      using 1 kcall_map' [OF 2] kcall_map' [OF 3] kcall_map' [OF 4]
      by (auto split: option.splits dest: kcall_map')
    obtain w' r where res: "hid_bpf_async_delayed_call K hid ms key cb w = (w', r)" by fastforce
    then have "w' \<in> {w1, w2, w3, w4}"
      using Some True 1 2 3 4 by (auto simp: hid_bpf_async_delayed_call_def Let_def split: if_splits)
    then have "aw_map w' = aw_map ?w" using maps by auto
    then show ?thesis
      using i True res by (intro armed [of i w' r]) (auto simp: only_slot_def)
  qed
qed

lemma set_delayed_cb_map: "aw_map (fst (hid_bpf_async_set_delayed_cb K key cb w)) = aw_map w"
  by (simp add: hid_bpf_async_set_delayed_cb_def split: option.split)

lemma start_wq_map: "aw_map (fst (start_wq_timer_cb K i w)) = aw_map w"
  by (simp add: start_wq_timer_cb_def split: prod.split) (metis kcall_map')

lemma only_slot_state:
  "only_slot i w w' \<Longrightarrow> j < length (aw_map w) \<Longrightarrow> j \<noteq> i \<Longrightarrow> slot_state w' j = slot_state w j"
  by (simp add: only_slot_def)

lemma only_slot_length: "only_slot i w w' \<Longrightarrow> length (aw_map w') = length (aw_map w)"
  by (simp add: only_slot_def)

lemma init_cases:
  assumes "kernel_ok K"
  obtains (fresh) i w' where "i < length (aw_map w)" "slot_state w i = ASYNC_UNSET" "\<forall>j < i. slot_state w j \<noteq> ASYNC_UNSET"
      "hid_bpf_async_init K cb name w = (w', int i, 0)" "only_slot i w w'" "slot_state w' i = ASYNC_INITIALIZED"
    | (full) "\<forall>i < length (aw_map w). slot_state w i \<noteq> ASYNC_UNSET"
      "hid_bpf_async_init K cb name w = (w, - EINVAL, - EINVAL)"
    | (failed) i w' key r where "i < length (aw_map w)" "slot_state w i = ASYNC_UNSET" "\<forall>j < i. slot_state w j \<noteq> ASYNC_UNSET"
      "hid_bpf_async_init K cb name w = (w', key, r)" "r < 0" "only_slot i w w'"
      "slot_state w' i \<in> {ASYNC_INITIALIZING, ASYNC_INITIALIZED}"
  using assms
proof (cases rule: get_ctx_cases [where w = w])
  case (fresh i w1)
  obtain w2 e where 2: "kcall (k_wq_set_callback K i cb) w1 = (w2, e)" by fastforce
  have e: "e \<le> 0" using assms kcall_le [of "k_wq_set_callback K i cb" w1] 2 by (auto simp: kernel_ok_def)
  have map: "aw_map w2 = aw_map w1" using kcall_map' [OF 2] .
  have len: "length (aw_map w1) = length (aw_map w)" using only_slot_length [OF fresh(5)] .
  let ?w3 = "set_elem i (\<lambda>x. x\<lparr>ae_name := name\<rparr>) w2"
  have res: "hid_bpf_async_init K cb name w = (if e \<noteq> 0 then (w2, int i, e) else (?w3, int i, 0))"
    using fresh(1,4) 2 len by (simp add: hid_bpf_async_init_def async_lookup_int)
  have only: "only_slot i w w2" "only_slot i w ?w3"
    using fresh(5) map by (auto simp: only_slot_def)
  have state: "slot_state w2 i = ASYNC_INITIALIZED" "slot_state ?w3 i = ASYNC_INITIALIZED"
    using fresh(1,6) map len by simp_all
  show ?thesis
  proof (cases "e = 0")
    case True
    then show ?thesis using that(1) [OF fresh(1-3) _ only(2) state(2)] res by simp
  next
    case False
    then show ?thesis using that(3) [OF fresh(1-3) _ _ only(1)] state(1) res e by simp
  qed
next
  case full
  then show ?thesis using that(2) by (simp add: hid_bpf_async_init_def)
next
  case (failed i w1 r)
  then have "hid_bpf_async_init K cb name w = (w1, r, r)" by (simp add: hid_bpf_async_init_def)
  then show ?thesis using that(3) [OF failed(1-3) _ failed(5,6)] failed(7) by simp
qed

section \<open>Runs of the slots\<close>

text \<open>What a callback may do itself: arm slots and set their callbacks.\<close>

inductive api_step :: "('k, 'cb) async_kernel \<Rightarrow> 'k async_world \<Rightarrow> 'k async_world \<Rightarrow> bool" for K where
  api_call: "api_step K w (fst (hid_bpf_async_delayed_call K hid ms key cb w))"
| api_set_cb: "api_step K w (fst (hid_bpf_async_set_delayed_cb K key f w))"

abbreviation live :: "hid_bpf_async_state \<Rightarrow> bool" where
  "live st \<equiv> st \<in> {ASYNC_INITIALIZED, ASYNC_STARTING, ASYNC_RUNNING}"

text \<open>
  One step of the system: a program initialises a context (the label is the key it gets) or arms one, a
  timer fires, or the kernel runs the work of a slot that was initialised.
\<close>

inductive async_step :: "('k, 'cb) async_kernel \<Rightarrow> 'k async_world \<Rightarrow> nat option \<Rightarrow> 'k async_world \<Rightarrow> bool" for K where
  init: "hid_bpf_async_init K cb name w = (w', key, r) \<Longrightarrow> async_step K w (if r = 0 then Some (nat key) else None) w'"
| api: "api_step K w w' \<Longrightarrow> async_step K w None w'"
| timer: "async_step K w None (fst (start_wq_timer_cb K i w))"
| work: "i < length (aw_map w) \<Longrightarrow> live (slot_state w i) \<Longrightarrow> (\<And>hid w. (api_step K)\<^sup>*\<^sup>* w (user hid i w)) \<Longrightarrow>
    async_step K w None (fst (hid_bpf_async_cb alloc user i w))"

inductive async_run :: "('k, 'cb) async_kernel \<Rightarrow> 'k async_world \<Rightarrow> nat list \<Rightarrow> 'k async_world \<Rightarrow> bool" for K where
  start: "async_run K w [] w"
| step: "async_run K w keys w' \<Longrightarrow> async_step K w' l w'' \<Longrightarrow>
    async_run K w (case l of None \<Rightarrow> keys | Some i \<Rightarrow> keys @ [i]) w''"

text \<open>How a single slot may change: live slots stay live, slots being initialised stay so.\<close>

definition slot_kept :: "'k async_world \<Rightarrow> 'k async_world \<Rightarrow> nat \<Rightarrow> bool" where
  "slot_kept w w' j \<longleftrightarrow> slot_state w' j = slot_state w j \<or> (live (slot_state w j) \<and> live (slot_state w' j))"

lemma slot_kept_trans: "slot_kept w w' j \<Longrightarrow> slot_kept w' w'' j \<Longrightarrow> slot_kept w w'' j"
  by (auto simp: slot_kept_def)

lemma api_step_kept:
  assumes "api_step K w w'"
  shows "length (aw_map w') = length (aw_map w) \<and> (\<forall>j < length (aw_map w). slot_kept w w' j)"
  using assms
proof cases
  case (api_call hid ms key cb)
  show ?thesis
  proof (cases rule: delayed_call_cases [where w = w and key = key and K = K and hid = hid and ms = ms and cb = cb])
    case refused
    then show ?thesis using api_call by (simp add: slot_kept_def)
  next
    case (armed i v r)
    have "slot_kept w v j" if "j < length (aw_map w)" for j
      using armed only_slot_state [OF armed(5) that] by (cases "j = i") (auto simp: slot_kept_def)
    then show ?thesis using api_call armed only_slot_length [OF armed(5)] by simp
  qed
next
  case (api_set_cb key f)
  then show ?thesis by (simp add: slot_kept_def set_delayed_cb_map)
qed

lemma api_steps_kept:
  assumes "(api_step K)\<^sup>*\<^sup>* w w'"
  shows "length (aw_map w') = length (aw_map w) \<and> (\<forall>j < length (aw_map w). slot_kept w w' j)"
  using assms
proof (induction rule: rtranclp_induct)
  case base
  then show ?case by (simp add: slot_kept_def)
next
  case (step y z)
  then show ?case using api_step_kept [OF step.hyps(2)] slot_kept_trans by metis
qed

lemma work_kept:
  assumes "i < length (aw_map w)" "live (slot_state w i)" "\<And>hid w. (api_step K)\<^sup>*\<^sup>* w (user hid i w)"
  shows "length (aw_map (fst (hid_bpf_async_cb alloc user i w))) = length (aw_map w)
    \<and> (\<forall>j < length (aw_map w). slot_kept w (fst (hid_bpf_async_cb alloc user i w)) j)"
proof (cases "alloc (ae_hid (aw_map w ! i))")
  case None
  then show ?thesis by (simp add: hid_bpf_async_cb_def slot_kept_def)
next
  case (Some hid)
  let ?w1 = "set_state i ASYNC_RUNNING w"
  let ?w2 = "user hid i ?w1"
  have kept: "length (aw_map ?w2) = length (aw_map w)" "\<And>j. j < length (aw_map w) \<Longrightarrow> slot_kept ?w1 ?w2 j"
    using api_steps_kept [OF assms(3) [of ?w1 hid]] by simp_all
  have "slot_kept w (set_state i ASYNC_INITIALIZED ?w2) j" if j: "j < length (aw_map w)" for j
  proof (cases "j = i")
    case True
    then show ?thesis using assms(1,2) kept(1) by (simp add: slot_kept_def)
  next
    case False
    then show ?thesis using kept(2) [OF j] assms(1) j kept(1) by (simp add: slot_kept_def)
  qed
  then show ?thesis using Some kept(1) by (simp add: hid_bpf_async_cb_def)
qed

text \<open>A step keeps every slot that is not free; it takes a free slot only by initialising it.\<close>

lemma async_step_effect:
  assumes "kernel_ok K" and "async_step K w l w'"
  shows "length (aw_map w') = length (aw_map w) \<and>
     (\<forall>j < length (aw_map w). slot_state w j \<noteq> ASYNC_UNSET \<longrightarrow> slot_kept w w' j) \<and>
     (\<forall>i. l = Some i \<longrightarrow> i < length (aw_map w) \<and> slot_state w i = ASYNC_UNSET \<and> slot_state w' i = ASYNC_INITIALIZED)"
  using assms(2)
proof cases
  case (init cb name key r)
  show ?thesis
    using assms(1)
  proof (cases rule: init_cases [where w = w and cb = cb and name = name])
    case (fresh i v)
    have "slot_kept w v j" if "j < length (aw_map w)" "slot_state w j \<noteq> ASYNC_UNSET" for j
      using only_slot_state [OF fresh(5) that(1)] fresh(2) that(2) by (cases "j = i") (auto simp: slot_kept_def)
    then show ?thesis using init fresh only_slot_length [OF fresh(5)] by auto
  next
    case full
    then show ?thesis using init by (auto simp: slot_kept_def)
  next
    case (failed i v k e)
    have "slot_kept w v j" if "j < length (aw_map w)" "slot_state w j \<noteq> ASYNC_UNSET" for j
      using only_slot_state [OF failed(6) that(1)] failed(2) that(2) by (cases "j = i") (auto simp: slot_kept_def)
    then show ?thesis using init failed only_slot_length [OF failed(6)] by auto
  qed
next
  case api
  then show ?thesis using api_step_kept [OF api(2)] by simp
next
  case (timer i)
  then show ?thesis by (simp add: slot_kept_def start_wq_map)
next
  case (work i user alloc)
  then show ?thesis using work_kept [of i w K user alloc] by simp
qed

definition keys_ok :: "'k async_world \<Rightarrow> nat list \<Rightarrow> bool" where
  "keys_ok w keys \<longleftrightarrow> distinct keys \<and> (\<forall>i \<in> set keys. i < length (aw_map w) \<and> live (slot_state w i))"

lemma async_step_keys:
  assumes "kernel_ok K" "async_step K w l w'" "keys_ok w keys"
  shows "keys_ok w' (case l of None \<Rightarrow> keys | Some i \<Rightarrow> keys @ [i])"
proof -
  note effect = async_step_effect [OF assms(1,2)]
  have old: "i < length (aw_map w') \<and> live (slot_state w' i)" if "i \<in> set keys" for i
  proof -
    have "i < length (aw_map w)" "live (slot_state w i)" using assms(3) that by (simp_all add: keys_ok_def)
    moreover from this have "slot_kept w w' i" using effect by auto
    ultimately show ?thesis using effect by (auto simp: slot_kept_def)
  qed
  have new: "i < length (aw_map w')" "live (slot_state w' i)" "i \<notin> set keys" if "l = Some i" for i
    using assms(3) that effect by (auto simp: keys_ok_def)
  show ?thesis
    using old new assms(3) by (cases l) (auto simp: keys_ok_def)
qed

lemma async_run_keys:
  assumes "kernel_ok K" "async_run K w keys w'" "w = async_boot n k"
  shows "keys_ok w' keys \<and> length (aw_map w') = n"
  using assms(2,3)
proof (induction rule: async_run.induct)
  case (start w)
  then show ?case by (simp add: keys_ok_def async_boot_def)
next
  case (step w keys w' l w'')
  then show ?case using async_step_keys [OF assms(1) step.hyps(2)] async_step_effect [OF assms(1) step.hyps(2)] by simp
qed

lemma keys_ok_length: "keys_ok w keys \<Longrightarrow> length keys \<le> length (aw_map w)"
proof -
  assume "keys_ok w keys"
  then have "distinct keys" "set keys \<subseteq> {0..<length (aw_map w)}" by (auto simp: keys_ok_def)
  then show ?thesis
    by (metis card_atLeastLessThan card_mono diff_zero distinct_card finite_atLeastLessThan)
qed

lemma async_run_stuck:
  assumes "kernel_ok K" "async_run K w keys w'" "i < length (aw_map w)" "slot_state w i = ASYNC_INITIALIZING"
  shows "i \<notin> set keys \<and> slot_state w' i = ASYNC_INITIALIZING \<and> length (aw_map w') = length (aw_map w)"
  using assms(2-4)
proof (induction rule: async_run.induct)
  case (start w)
  then show ?case by simp
next
  case (step w keys w' l w'')
  then have "i < length (aw_map w')" "slot_state w' i = ASYNC_INITIALIZING" by simp_all
  then show ?case
    using step async_step_effect [OF assms(1) step.hyps(2)]
    by (auto simp: slot_kept_def split: option.splits)
qed

section \<open>The allocator as a counter\<close>

text \<open>Slots are taken in order and never given back: \<open>m\<close> slots in use are the first \<open>m\<close>.\<close>

definition slots_used :: "nat \<Rightarrow> 'k async_world \<Rightarrow> bool" where
  "slots_used m w \<longleftrightarrow> m \<le> length (aw_map w) \<and>
     (\<forall>j < length (aw_map w). slot_state w j = ASYNC_UNSET \<longleftrightarrow> m \<le> j)"

lemma slots_used_boot: "slots_used 0 (async_boot n k)"
  by (simp add: slots_used_def async_boot_def)

lemma slots_used_same:
  assumes "slots_used m w" "length (aw_map w') = length (aw_map w)" "\<forall>j < length (aw_map w). slot_kept w w' j"
  shows "slots_used m w'"
  unfolding slots_used_def
proof (intro conjI allI impI)
  show "m \<le> length (aw_map w')" using assms by (simp add: slots_used_def)
  fix j assume "j < length (aw_map w')"
  then have "slot_kept w w' j" "slot_state w j = ASYNC_UNSET \<longleftrightarrow> m \<le> j" using assms by (simp_all add: slots_used_def)
  then show "slot_state w' j = ASYNC_UNSET \<longleftrightarrow> m \<le> j" by (auto simp: slot_kept_def)
qed

lemma slots_used_next:
  assumes "slots_used m w" "only_slot m w w'" "m < length (aw_map w)" "slot_state w' m \<noteq> ASYNC_UNSET"
  shows "slots_used (Suc m) w'"
  unfolding slots_used_def
proof (intro conjI allI impI)
  have len: "length (aw_map w') = length (aw_map w)" using only_slot_length [OF assms(2)] .
  show "Suc m \<le> length (aw_map w')" using assms(3) len by simp
  fix j assume "j < length (aw_map w')"
  then have "j < length (aw_map w)" using len by simp
  then show "slot_state w' j = ASYNC_UNSET \<longleftrightarrow> Suc m \<le> j"
    using assms(1,4) only_slot_state [OF assms(2), of j] by (cases "j = m") (auto simp: slots_used_def)
qed

lemma slots_used_first:
  assumes "slots_used m w" "i < length (aw_map w)" "slot_state w i = ASYNC_UNSET" "\<forall>j < i. slot_state w j \<noteq> ASYNC_UNSET"
  shows "i = m"
proof (rule antisym)
  have "m \<le> i" using assms(1-3) by (simp add: slots_used_def)
  then have "m < length (aw_map w)" using assms(2) by simp
  then have "slot_state w m = ASYNC_UNSET" using assms(1) by (simp add: slots_used_def)
  then show "i \<le> m" using assms(4) by (meson not_le)
  show "m \<le> i" by fact
qed


lemma async_step_used:
  assumes "kernel_ok K" "async_step K w l w'" "slots_used m w"
  shows "(l = None \<and> slots_used m w') \<or> (l \<in> {None, Some m} \<and> m < length (aw_map w) \<and> slots_used (Suc m) w')"
  using assms(2)
proof cases
  case (init cb name key r)
  show ?thesis
    using assms(1)
  proof (cases rule: init_cases [where w = w and cb = cb and name = name])
    case (fresh i v)
    then have "i = m" using slots_used_first [OF assms(3)] by simp
    then show ?thesis using init fresh slots_used_next [OF assms(3), of v] by auto
  next
    case full
    then show ?thesis using init assms(3) by auto
  next
    case (failed i v k e)
    then have "i = m" using slots_used_first [OF assms(3)] by simp
    then show ?thesis using init failed slots_used_next [OF assms(3), of v] by auto
  qed
next
  case api
  then show ?thesis using api_step_kept [OF api(2)] slots_used_same [OF assms(3)] by simp
next
  case (timer i)
  then show ?thesis using slots_used_same [OF assms(3), of w'] by (simp add: slot_kept_def start_wq_map)
next
  case (work i user alloc)
  then show ?thesis using work_kept [of i w K user alloc] slots_used_same [OF assms(3)] by simp
qed

lemma async_run_used:
  assumes "kernel_ok K" "async_run K w keys w'" "w = async_boot n k"
  shows "\<exists>m. slots_used m w' \<and> sorted_wrt (<) keys \<and> (\<forall>i \<in> set keys. i < m)"
  using assms(2,3)
proof (induction rule: async_run.induct)
  case (start w)
  then show ?case by (intro exI [of _ 0]) (simp add: slots_used_boot)
next
  case (step w keys w' l w'')
  then obtain m where m: "slots_used m w'" "sorted_wrt (<) keys" "\<forall>i \<in> set keys. i < m" by auto
  show ?case
    using async_step_used [OF assms(1) step.hyps(2) m(1)] m(2,3)
  proof (elim disjE conjE)
    assume "l = None" "slots_used m w''"
    then show ?thesis using m by (intro exI [of _ m]) simp
  next
    assume "l \<in> {None, Some m}" "slots_used (Suc m) w''"
    then show ?thesis using m by (intro exI [of _ "Suc m"]) (auto simp: sorted_wrt_append less_SucI)
  qed
qed


section \<open>What the contexts guarantee\<close>

text \<open>The concrete kernel of the witnesses: every helper succeeds and leaves its state as it is.\<close>

definition kernel0 :: "('k, 'cb) async_kernel" where
  "kernel0 = \<lparr>k_timer_init = \<lambda>i k. (k, 0), k_timer_set_callback = \<lambda>i k. (k, 0), k_timer_start = \<lambda>i ns k. (k, 0),
     k_wq_init = \<lambda>i k. (k, 0), k_wq_set_callback = \<lambda>i cb k. (k, 0), k_wq_start = \<lambda>i k. (k, 0)\<rparr>"

definition dev0 :: hid_device where
  "dev0 = \<lparr>hdev_id = 1, hdev_bus = 5, hdev_product = 2, hdev_name = []\<rparr>"

lemma kernel0_ok: "kernel_ok kernel0"
  by (simp add: kernel_ok_def kernel0_def)

lemma kernel0_run:
  "async_run (kernel0 :: (unit, unit) async_kernel) (async_boot 1 ()) [0] (fst (hid_bpf_async_init kernel0 () ''work'' (async_boot 1 ())))"
proof -
  let ?w = "fst (hid_bpf_async_init kernel0 () ''work'' (async_boot 1 ()))"
  have "hid_bpf_async_init kernel0 () ''work'' (async_boot 1 ()) = (?w, 0, 0)" by code_simp
  from async_step.init [OF this] async_run.step [OF async_run.start]
  show ?thesis by fastforce
qed



text \<open>
  C17: The allocator of contexts refines a counter: \<open>m\<close> slots in use are the first \<open>m\<close>; every step of the
  system leaves the counter, or takes slot \<open>m\<close> while there is one, and the only key it can hand out is \<open>m\<close>.
\<close>

theorem async_refines_counter:
  assumes "kernel_ok K" "async_step K w l w'" "slots_used m w"
  shows "(l = None \<and> slots_used m w') \<or> (l \<in> {None, Some m} \<and> m < length (aw_map w) \<and> slots_used (Suc m) w')"
  using async_step_used [OF assms] .

theorem async_refines_counter_witness:
  "slots_used 1 (fst (hid_bpf_async_init kernel0 () ''work'' (async_boot 1 ())))"
proof -
  let ?w = "fst (hid_bpf_async_init kernel0 () ''work'' (async_boot 1 ()))"
  have "hid_bpf_async_init kernel0 () ''work'' (async_boot 1 ()) = (?w, 0, 0)" by code_simp
  from async_refines_counter [OF kernel0_ok async_step.init [OF this] slots_used_boot]
  show ?thesis by simp
qed

text \<open>
  After as many contexts as the map has slots have been handed out, a further initialisation is
  refused with \<open>-EINVAL\<close>, stored as the key too, and changes nothing.
\<close>

theorem async_exhausted:
  assumes "kernel_ok K" "async_run K (async_boot n k) keys w" "length keys = n"
  shows "hid_bpf_async_init K cb name w = (w, - EINVAL, - EINVAL)"
proof -
  have keys: "keys_ok w keys" "length (aw_map w) = n" using async_run_keys [OF assms(1,2) refl] by simp_all
  then have "card (set keys) = n" "set keys \<subseteq> {0..<n}"
    using assms(3) by (auto simp: keys_ok_def distinct_card)
  then have "set keys = {0..<n}" by (simp add: card_subset_eq)
  then have used: "slot_state w i \<noteq> ASYNC_UNSET" if "i < n" for i
  proof -
    have "i \<in> set keys" using \<open>set keys = {0..<n}\<close> that by simp
    then have "live (slot_state w i)" using keys(1) unfolding keys_ok_def by blast
    then show ?thesis by auto
  qed
  show ?thesis
    using assms(1)
  proof (cases rule: init_cases [where w = w and cb = cb and name = name])
    case full
    then show ?thesis by simp
  qed (use used keys in auto)
qed

theorem async_exhausted_witness:
  "snd (hid_bpf_async_init kernel0 () ''next'' (fst (hid_bpf_async_init kernel0 () ''work'' (async_boot 1 ())))) =
     (- EINVAL, - EINVAL)"
  using async_exhausted [OF kernel0_ok kernel0_run, of "()" "''next''"] by simp

text \<open>
  C32: A context that the kernel refused half way through is lost: its slot stays \<open>INITIALIZING\<close> and no
  later run of the programs ever hands out its key or brings it back.
\<close>

theorem async_failed_slot_lost:
  assumes "kernel_ok K" "hid_bpf_async_get_ctx K w = (w1, r)" "r < 0" "slot_state w i = ASYNC_UNSET"
    "\<forall>j < i. slot_state w j \<noteq> ASYNC_UNSET" "i < length (aw_map w)" "async_run K w1 keys w2"
  shows "slot_state w2 i = ASYNC_INITIALIZING \<and> i \<notin> set keys"
proof -
  have "slot_state w1 i = ASYNC_INITIALIZING \<and> length (aw_map w1) = length (aw_map w)"
    using assms(1)
  proof (cases rule: get_ctx_cases [where w = w])
    case (failed j v e)
    then have "j = i" using assms(4,5) by (meson linorder_neqE_nat)
    then show ?thesis using failed assms(2) only_slot_length [OF failed(6)] by simp
  qed (use assms in auto)
  then show ?thesis using async_run_stuck [OF assms(1,7)] assms(6) by simp
qed

theorem async_failed_slot_lost_witness:
  "slot_state (fst (hid_bpf_async_get_ctx ((kernel0 :: (unit, unit) async_kernel) \<lparr>k_wq_init := \<lambda>i k. (k, - ENOMEM)\<rparr>) (async_boot 1 ()))) 0 =
     ASYNC_INITIALIZING"
proof -
  let ?K = "(kernel0 :: (unit, unit) async_kernel) \<lparr>k_wq_init := \<lambda>i k. (k, - ENOMEM)\<rparr>"
  let ?w = "fst (hid_bpf_async_get_ctx ?K (async_boot 1 ()))"
  have "kernel_ok ?K" by (simp add: kernel_ok_def kernel0_def)
  moreover have "hid_bpf_async_get_ctx ?K (async_boot 1 ()) = (?w, - ENOMEM)" by code_simp
  ultimately show ?thesis
    using async_failed_slot_lost [of ?K "async_boot 1 ()" ?w "- ENOMEM" 0 "[]" ?w] async_run.start [of ?K ?w]
    by (simp add: async_boot_def)
qed

text \<open>
  A call on an initialised or running context arms it, whatever the kernel answers, and every further
  call is then refused with \<open>-EINVAL\<close>. Once the work has run the context is initialised again, whatever the
  callback itself armed, and a call is accepted.
\<close>

theorem async_armed_once:
  assumes "hid_bpf_async_delayed_call K hid ms (int i) cb w = (w1, r)" "i < length (aw_map w)"
    "slot_state w i \<in> {ASYNC_INITIALIZED, ASYNC_RUNNING}"
    "alloc (hdev_id hid) = Some dev" "\<And>w. (api_step K)\<^sup>*\<^sup>* w (user dev i w)"
  shows "slot_state w1 i = ASYNC_STARTING \<and>
    hid_bpf_async_delayed_call K hid' ms' (int i) cb' w1 = (w1, - EINVAL) \<and>
    (let w2 = fst (hid_bpf_async_cb alloc user i w1) in slot_state w2 i = ASYNC_INITIALIZED \<and>
      slot_state (fst (hid_bpf_async_delayed_call K hid' ms' (int i) cb' w2)) i = ASYNC_STARTING)"
proof (cases rule: delayed_call_cases [where w = w and key = "int i" and K = K and hid = hid and ms = ms and cb = cb])
  case refused
  then show ?thesis using assms(2,3) by (simp add: async_lookup_int)
next
  case (armed j v s)
  then have v: "v = w1" "j = i" using assms(1) by simp_all
  have len: "i < length (aw_map w1)" using armed(2) only_slot_length [OF armed(5)] v by simp
  let ?w2 = "fst (hid_bpf_async_cb alloc user i w1)"
  have again: "hid_bpf_async_delayed_call K hid' ms' (int i) cb' w1 = (w1, - EINVAL)"
    using armed(6) v len by (simp add: hid_bpf_async_delayed_call_def async_lookup_int)
  have len2: "length (aw_map (user dev i (set_state i ASYNC_RUNNING w1))) = length (aw_map w1)"
    using api_steps_kept [OF assms(5)] by simp
  have w2: "slot_state ?w2 i = ASYNC_INITIALIZED" "length (aw_map ?w2) = length (aw_map w1)"
    using armed(7) v len len2 assms(4) by (simp_all add: hid_bpf_async_cb_def)
  have "slot_state (fst (hid_bpf_async_delayed_call K hid' ms' (int i) cb' ?w2)) i = ASYNC_STARTING"
  proof (cases rule: delayed_call_cases [where w = "?w2" and key = "int i" and K = K and hid = hid' and ms = ms' and cb = cb'])
    case refused
    then show ?thesis using w2 len by (simp add: async_lookup_int)
  qed simp
  then show ?thesis using again armed(6) v w2(1) by (simp add: Let_def)
qed

text \<open>
  A callback that arms its own slot ends \<open>INITIALIZED\<close> with its timer pending, so the next call arms the
  slot a second time.
\<close>

theorem async_armed_once_witness:
  "slot_state (fst (hid_bpf_async_cb (\<lambda>_. Some dev0)
     (\<lambda>hid i w. fst (hid_bpf_async_delayed_call (kernel0 :: (unit, unit) async_kernel) hid 100 (int i) None w)) 0
     (fst (hid_bpf_async_delayed_call (kernel0 :: (unit, unit) async_kernel) dev0 100 0 None
       (set_state 0 ASYNC_INITIALIZED (async_boot 1 ())))))) 0 = ASYNC_INITIALIZED"
proof -
  let ?w = "set_state 0 ASYNC_INITIALIZED (async_boot 1 ())"
  let ?w1 = "fst (hid_bpf_async_delayed_call (kernel0 :: (unit, unit) async_kernel) dev0 100 0 None ?w)"
  let ?user = "\<lambda>hid i w. fst (hid_bpf_async_delayed_call (kernel0 :: (unit, unit) async_kernel) hid 100 (int i) None w)"
  have run: "hid_bpf_async_delayed_call (kernel0 :: (unit, unit) async_kernel) dev0 100 (int 0) None ?w = (?w1, 0)" by code_simp
  show ?thesis
    using async_armed_once [OF run, of "\<lambda>_. Some dev0" dev0 ?user]
    by (simp add: async_boot_def set_elem_def Let_def r_into_rtranclp api_call)
qed

text \<open>
  Delays are converted to nanoseconds without wrap-around up to 18446744073709 ms, about 584 years.
\<close>

theorem ms_to_ns_exact:
  "unat milliseconds \<le> 18446744073709 \<Longrightarrow> unat (ms_to_ns milliseconds) = unat milliseconds * 1000000"
  by (simp add: ms_to_ns_def unat_word_ariths mult.assoc)

theorem ms_to_ns_exact_witness: "unat (ms_to_ns 5000) = 5000 * 1000000"
  using ms_to_ns_exact [of 5000] by simp

section \<open>The phases of a slot\<close>

text \<open>The states are ordered as their enumerators are.\<close>

fun async_state_value :: "hid_bpf_async_state \<Rightarrow> nat" where
  "async_state_value ASYNC_UNSET = 0"
| "async_state_value ASYNC_INITIALIZING = 1"
| "async_state_value ASYNC_INITIALIZED = 2"
| "async_state_value ASYNC_STARTING = 3"
| "async_state_value ASYNC_RUNNING = 4"

lemma async_state_value_eq: "async_state_value s = async_state_value t \<longleftrightarrow> s = t"
  by (cases s; cases t) simp_all

instantiation hid_bpf_async_state :: linorder
begin

definition less_eq_hid_bpf_async_state :: "hid_bpf_async_state \<Rightarrow> hid_bpf_async_state \<Rightarrow> bool" where
  "s \<le> t \<longleftrightarrow> async_state_value s \<le> async_state_value t"

definition less_hid_bpf_async_state :: "hid_bpf_async_state \<Rightarrow> hid_bpf_async_state \<Rightarrow> bool" where
  "s < t \<longleftrightarrow> async_state_value s < async_state_value t"

instance
  by standard (auto simp: less_eq_hid_bpf_async_state_def less_hid_bpf_async_state_def async_state_value_eq [symmetric])

end

lemma live_iff: "live s \<longleftrightarrow> ASYNC_INITIALIZED \<le> s"
  by (cases s) (simp_all add: less_eq_hid_bpf_async_state_def)

lemma unset_least [simp]: "ASYNC_UNSET \<le> s"
  by (simp add: less_eq_hid_bpf_async_state_def)

text \<open>
  However the system runs, the phase of a slot never goes back: up to \<open>ASYNC_INITIALIZED\<close> a slot only moves up, and
  from there on it only moves among the states above.
\<close>

definition phase :: "'k async_world \<Rightarrow> nat \<Rightarrow> hid_bpf_async_state" where
  "phase w j = min (slot_state w j) ASYNC_INITIALIZED"

lemma slot_kept_phase: "slot_kept w w' j \<Longrightarrow> phase w' j = phase w j"
  by (auto simp: slot_kept_def phase_def live_iff simp del: insert_iff)

lemma async_step_phase:
  assumes "kernel_ok K" "async_step K w l w'" "j < length (aw_map w)"
  shows "phase w j \<le> phase w' j"
proof (cases "slot_state w j = ASYNC_UNSET")
  case True
  then show ?thesis by (simp add: phase_def min_absorb1)
next
  case False
  then show ?thesis using async_step_effect [OF assms(1,2)] assms(3) slot_kept_phase [of w w' j] by simp
qed

lemma async_run_phase:
  assumes "kernel_ok K" "async_run K w keys w'" "j < length (aw_map w)"
  shows "phase w j \<le> phase w' j \<and> length (aw_map w') = length (aw_map w)"
  using assms(2,3)
proof (induction rule: async_run.induct)
  case (start w)
  then show ?case by simp
next
  case (step w keys w' l w'')
  then show ?case
    using async_step_phase [OF assms(1) step.hyps(2), of j] async_step_effect [OF assms(1) step.hyps(2)]
    by (auto intro: order_trans)
qed

end
