(* ===== verification/Helper_Users.thy ===== *)
theory Helper_Users
  imports Bpf_Helpers Rdesc_Spec
begin

unbundle bit_operations_syntax

text \<open>
  The programs that work on the parsed report descriptor: the generic touchpad probe
  (\<open>0010-Generic__touchpad.bpf.c\<close>), which reads the pad type from a feature report, and the helper
  tests (\<open>0010-test-helpers.bpf.c\<close>).
\<close>

section \<open>Generic touchpad\<close>


text \<open>The two nested searches of the probe, each ended by its \<open>break\<close>: the first pad type field.\<close>

fun touchpad_find_field :: "hid_rdesc_field list \<Rightarrow> hid_rdesc_field option" where
  "touchpad_find_field [] = None"
| "touchpad_find_field (field # fs) =
     (if rf_usage_page field = 0x0d \<and> rf_usage_minimum field = 0x59 then Some field
      else touchpad_find_field fs)"

fun touchpad_find :: "hid_rdesc_report list \<Rightarrow> (hid_rdesc_report \<times> hid_rdesc_field) option option" where
  "touchpad_find [] = Some None"
| "touchpad_find (feature # features) = do {
     fs \<leftarrow> for_each_field feature;
     case touchpad_find_field fs of
       Some field \<Rightarrow> Some (Some (feature, field))
     | None \<Rightarrow> touchpad_find features }"

definition touchpad_type_name :: "u32 \<Rightarrow> string" where
  "touchpad_type_name v =
     (if v = 0 then ''Clickpad'' else if v = 1 then ''Pressurepad''
      else if v = 2 then ''Discrete'' else ''Unknown'')"

text \<open>
  \<open>alloc\<close> stands for \<open>hid_bpf_allocate_context\<close>, \<open>get_feature\<close> for \<open>hid_bpf_hw_request\<close> with
  \<open>HID_FEATURE_REPORT\<close>, \<open>HID_REQ_GET_REPORT\<close>: its return value and the new contents of the
  1024-byte buffer, whose first byte selects the report. The result is the arguments, the buffer,
  the exported udev property and the return value.
\<close>

definition touchpad_probe ::
    "(u32 \<Rightarrow> hid_device option) \<Rightarrow> (hid_device \<Rightarrow> u8 list \<Rightarrow> int \<times> u8 list) \<Rightarrow> hid_rdesc_descriptor \<Rightarrow>
     u8 list \<Rightarrow> hid_bpf_probe_args \<Rightarrow> (hid_bpf_probe_args \<times> u8 list \<times> string option \<times> int) option" where
  "touchpad_probe alloc get_feature desc hw_req_buf a = do {
     features \<leftarrow> for_each_feature_report desc;
     found \<leftarrow> touchpad_find features;
     case found of
       None \<Rightarrow> Some (a\<lparr>pa_retval := - EINVAL\<rparr>, hw_req_buf, None, 0)
     | Some (pad_type_feature, pad_type) \<Rightarrow>
         (case alloc (pa_hid a) of
            None \<Rightarrow> Some (a, hw_req_buf, None, - 1)
          | Some hid \<Rightarrow> do {
              buf \<leftarrow> wr hw_req_buf 0 (rr_report_id pad_type_feature);
              let (ret, buf') = get_feature hid buf;
              if ret < 0 then Some (a\<lparr>pa_retval := ret\<rparr>, buf', None, 0)
              else do {
                v \<leftarrow> extract_bits buf' 1024 pad_type;
                Some (a\<lparr>pa_retval := 0\<rparr>, buf', Some (touchpad_type_name v), 0) } }) }"

lemma touchpad_find_total:
  "list_all (\<lambda>r. length (rr_fields r) = HID_MAX_FIELDS) rs \<Longrightarrow> \<exists>res. touchpad_find rs = Some res"
proof (induction rs)
  case Nil
  then show ?case by simp
next
  case (Cons r rs)
  then obtain xs where "for_each_field r = Some xs"
    using for_each_array_total [of "rr_fields r" HID_MAX_FIELDS] by (auto simp: for_each_field_def)
  with Cons show ?case by (auto split: option.split)
qed

lemma touchpad_find_some:
  "touchpad_find rs = Some (Some (r, f)) \<Longrightarrow>
     r \<in> set rs \<and> f \<in> set (rr_fields r) \<and> rf_usage_page f = 0x0d \<and> rf_usage_minimum f = 0x59"
proof (induction rs)
  case Nil
  then show ?case by simp
next
  case (Cons r' rs)
  have field: "touchpad_find_field fs = Some f \<Longrightarrow>
      f \<in> set fs \<and> rf_usage_page f = 0x0d \<and> rf_usage_minimum f = 0x59" for fs
    by (induction fs) (auto split: if_splits)
  have sub: "for_each_field r' = Some fs \<Longrightarrow> set fs \<subseteq> set (rr_fields r')" for fs
    by (auto simp: for_each_field_def for_each_array_def Let_def split: if_splits dest: in_set_takeD)
  from Cons show ?case
    using sub by (fastforce split: option.splits bind_splits dest!: field)
qed

section \<open>The helper tests\<close>

record th_state =
  th_bits_start :: u32
  th_bits_end :: u32
  th_extract_result :: u32
  th_feature_report_count :: u32
  th_input_report_count :: u32
  th_field_count :: u32
  th_collection_count :: u32
  th_max_collections_per_field :: u32

text \<open>The two fields of the local \<open>struct hid_rdesc_field\<close> that are set; the rest is not read.\<close>

definition th_extract_bits :: "th_state program" where
  "th_extract_bits s c data = (case data of None \<Rightarrow> Some (s, [], 0) | Some d \<Rightarrow> do {
     let field = \<lparr>rf_field_type = 0, rf_num_collections = 0,
                  rf_bits_start = ucast (th_bits_start s), rf_bits_end = ucast (th_bits_end s),
                  rf_usage_page = 0, rf_usage_minimum = 0, rf_usage_maximum = 0,
                  rf_logical_minimum = 0, rf_logical_maximum = 0, rf_flags = 0, rf_collections = []\<rparr>;
     v \<leftarrow> extract_bits d 64 field;
     Some (s\<lparr>th_extract_result := v\<rparr>, d, 0) })"

interpretation th_events: hid_program th_extract_bits 64
proof
  show "th_extract_bits s c None = Some (s, [], 0)" for s c
    by (simp add: th_extract_bits_def)
  show "\<exists>s' d' r. th_extract_bits s c (Some d) = Some (s', d', r) \<and> length d' = 64 \<and> r \<le> int 64"
    if "length d = 64" for d s c
  proof -
    have "\<exists>v. extract_bits d 64 f = Some v" for f
      using extract_bits_none [of 64 f d] extract_bits_bit [of 64 f d] that
      by (cases "field_fits 64 f") auto
    then obtain v where "extract_bits d 64
        \<lparr>rf_field_type = 0, rf_num_collections = 0, rf_bits_start = ucast (th_bits_start s),
         rf_bits_end = ucast (th_bits_end s), rf_usage_page = 0, rf_usage_minimum = 0, rf_usage_maximum = 0,
         rf_logical_minimum = 0, rf_logical_maximum = 0, rf_flags = 0, rf_collections = []\<rparr> = Some v" by blast
    then show ?thesis
      using that by (simp add: th_extract_bits_def)
  qed
qed

text \<open>The three levels of counting loops of the probe.\<close>

definition th_count_collections :: "hid_rdesc_field \<Rightarrow> th_state \<Rightarrow> th_state option" where
  "th_count_collections field s = do {
     cols \<leftarrow> for_each_collection field;
     let n = word_of_nat (length cols);
     let s1 = s\<lparr>th_collection_count := th_collection_count s + n\<rparr>;
     Some (if n > th_max_collections_per_field s1 then s1\<lparr>th_max_collections_per_field := n\<rparr> else s1) }"

definition th_count_input :: "hid_rdesc_report \<Rightarrow> th_state \<Rightarrow> th_state option" where
  "th_count_input input s = do {
     fs \<leftarrow> for_each_field input;
     mfold (\<lambda>field s. th_count_collections field (s\<lparr>th_field_count := th_field_count s + 1\<rparr>)) fs
       (s\<lparr>th_input_report_count := th_input_report_count s + 1\<rparr>) }"

definition th_count_feature :: "hid_rdesc_report \<Rightarrow> th_state \<Rightarrow> th_state option" where
  "th_count_feature feature s = do {
     fs \<leftarrow> for_each_field feature;
     Some (s\<lparr>th_feature_report_count := th_feature_report_count s + 1,
             th_field_count := th_field_count s + word_of_nat (length fs)\<rparr>) }"

definition th_probe ::
    "hid_rdesc_descriptor \<Rightarrow> th_state \<Rightarrow> hid_bpf_probe_args \<Rightarrow> (th_state \<times> hid_bpf_probe_args \<times> int) option" where
  "th_probe desc s a = do {
     features \<leftarrow> for_each_feature_report desc;
     s1 \<leftarrow> mfold th_count_feature features (s\<lparr>th_feature_report_count := 0\<rparr>);
     inputs \<leftarrow> for_each_input_report desc;
     s2 \<leftarrow> mfold th_count_input inputs
            (s1\<lparr>th_input_report_count := 0, th_field_count := 0, th_collection_count := 0,
                th_max_collections_per_field := 0\<rparr>);
     Some (s2, a\<lparr>pa_retval := 0\<rparr>, 0) }"

section \<open>What the extraction computes\<close>

lemma read_bits_bound: "0 \<le> read_bits rep off n \<and> read_bits rep off n < 2 ^ n"
  by (simp add: read_bits_def)

text \<open>
  C9: \<open>extract_bits\<close> with its four cases computes one thing: the little-endian slice of the buffer from the
  start bit to the end bit of the field when the field has 1 to 32 bits inside the buffer, and 0 otherwise; it
  never reads outside the buffer.
\<close>

theorem extract_bits_slice:
  assumes "sz \<le> length buffer"
  shows "extract_bits buffer sz f = Some (if field_fits sz f
    then word_of_int (read_bits buffer (unat (rf_bits_start f)) (unat (rf_bits_end f) - unat (rf_bits_start f)))
    else 0)"
proof (cases "field_fits sz f")
  case True
  let ?s = "unat (rf_bits_start f)" and ?e = "unat (rf_bits_end f)"
  have fits: "?s < ?e" "?e \<le> ?s + 32" "?e \<le> 8 * sz" using True by (simp_all add: field_fits_def Let_def)
  obtain v where v: "extract_bits buffer sz f = Some v"
    "\<forall>k < 32. bit v k \<longleftrightarrow> ?s + k < ?e \<and> bit (buffer ! ((?s + k) div 8)) ((?s + k) mod 8)"
    using extract_bits_bit [OF True assms] by blast
  have "v = word_of_int (read_bits buffer ?s (?e - ?s))"
  proof (rule bit_word_eqI)
    fix k assume k: "k < LENGTH(32)"
    have "(?s + k) div 8 < length buffer" if "?s + k < ?e" using that fits(3) assms by linarith
    then show "bit v k \<longleftrightarrow> bit (word_of_int (read_bits buffer ?s (?e - ?s)) :: u32) k"
      using k v(2) by (auto simp: bit_word_of_int_iff bit_read_bits)
  qed
  then show ?thesis using True v(1) by simp
qed (simp add: extract_bits_none)

theorem extract_bits_slice_witness:
  "extract_bits [0xab, 0xcd, 0xef] 3 \<lparr>rf_field_type = 0, rf_num_collections = 0, rf_bits_start = 4, rf_bits_end = 16,
     rf_usage_page = 0, rf_usage_minimum = 0, rf_usage_maximum = 0, rf_logical_minimum = 0, rf_logical_maximum = 0, rf_flags = 0,
     rf_collections = []\<rparr> = Some 0xcda"
proof -
  let ?f = "\<lparr>rf_field_type = 0, rf_num_collections = 0, rf_bits_start = 4, rf_bits_end = 16,
     rf_usage_page = 0, rf_usage_minimum = 0, rf_usage_maximum = 0, rf_logical_minimum = 0, rf_logical_maximum = 0, rf_flags = 0,
     rf_collections = []\<rparr> :: hid_rdesc_field"
  have "field_fits 3 ?f" by (simp add: field_fits_def)
  moreover have "read_bits [0xab, 0xcd, 0xef] 4 12 = 0xcda" by code_simp
  ultimately show ?thesis using extract_bits_slice [of 3 "[0xab, 0xcd, 0xef]" ?f] by simp
qed

section \<open>The touchpad probe\<close>

text \<open>The fields the probe searches: those of the feature reports the descriptor counts.\<close>

definition pad_type_field :: "hid_rdesc_descriptor \<Rightarrow> hid_rdesc_report \<Rightarrow> hid_rdesc_field \<Rightarrow> bool" where
  "pad_type_field desc r f \<longleftrightarrow> r \<in> set (rdd_feature_reports desc) \<and> f \<in> set (rr_fields r) \<and>
     rf_usage_page f = 0x0d \<and> rf_usage_minimum f = 0x59"

lemma for_each_set: "for_each_array arr n m = Some xs \<Longrightarrow> set xs \<subseteq> set arr"
  by (auto simp: for_each_array_def Let_def split: if_splits dest: in_set_takeD)

lemma touchpad_search:
  assumes "rdesc_arrays_ok desc"
  shows "\<exists>features found. for_each_feature_report desc = Some features \<and> touchpad_find features = Some found \<and>
    (\<forall>r f. found = Some (r, f) \<longrightarrow> pad_type_field desc r f)"
proof -
  have len: "length (rdd_feature_reports desc) = HID_MAX_REPORTS" using assms by (simp add: rdesc_arrays_ok_def)
  then obtain features where features: "for_each_feature_report desc = Some features"
    using for_each_array_total [OF len] by (auto simp: for_each_feature_report_def)
  then have sub: "set features \<subseteq> set (rdd_feature_reports desc)"
    by (simp add: for_each_feature_report_def for_each_set)
  have "list_all (\<lambda>r. length (rr_fields r) = HID_MAX_FIELDS) features"
    using assms sub by (auto simp: rdesc_arrays_ok_def list_all_iff)
  then obtain found where found: "touchpad_find features = Some found" using touchpad_find_total by blast
  have "pad_type_field desc r f" if "found = Some (r, f)" for r f
    using touchpad_find_some [of features r f] found that sub by (auto simp: pad_type_field_def)
  with features found show ?thesis by blast
qed

text \<open>
  C35: On every parsed descriptor the touchpad probe returns without leaving its arrays. It exports a pad type
  exactly when it accepts the device, and then the descriptor has a pad type field, the device answered the
  request for the report of that field, and the type is the one the field has in the answer.
\<close>

theorem touchpad_probe_result:
  assumes "rdesc_arrays_ok desc" "length buf = 1024" "\<And>hid b. length (snd (get_feature hid b)) = length b"
    "pa_retval a = - 1"
  shows "\<exists>a' buf' prop r. touchpad_probe alloc get_feature desc buf a = Some (a', buf', prop, r) \<and>
    (case prop of None \<Rightarrow> \<not> probe_accepts a'
     | Some name \<Rightarrow> probe_accepts a' \<and> r = 0 \<and>
         (\<exists>hid report f v. alloc (pa_hid a) = Some hid \<and> pad_type_field desc report f \<and>
            snd (get_feature hid (buf[0 := rr_report_id report])) = buf' \<and>
            extract_bits buf' 1024 f = Some v \<and> name = touchpad_type_name v))"
proof -
  obtain features found where search: "for_each_feature_report desc = Some features" "touchpad_find features = Some found"
      "\<forall>r f. found = Some (r, f) \<longrightarrow> pad_type_field desc r f"
    using touchpad_search [OF assms(1)] by blast
  show ?thesis
  proof (cases found)
    case None
    then show ?thesis using search by (simp add: touchpad_probe_def probe_accepts_def)
  next
    case (Some rf)
    obtain report f where rf: "rf = (report, f)" by fastforce
    show ?thesis
    proof (cases "alloc (pa_hid a)")
      case None
      then show ?thesis using search Some rf assms(4) by (simp add: touchpad_probe_def probe_accepts_def)
    next
      case hid: (Some hid)
      obtain ret buf' where req: "get_feature hid (buf[0 := rr_report_id report]) = (ret, buf')" by fastforce
      have "length buf' = 1024" using assms(2) assms(3) [of hid "buf[0 := rr_report_id report]"] req by simp
      then obtain v where v: "extract_bits buf' 1024 f = Some v"
        using extract_bits_none [of 1024 f buf'] extract_bits_bit [of 1024 f buf'] by (cases "field_fits 1024 f") auto
      have run: "touchpad_probe alloc get_feature desc buf a =
          (if ret < 0 then Some (a\<lparr>pa_retval := ret\<rparr>, buf', None, 0)
           else Some (a\<lparr>pa_retval := 0\<rparr>, buf', Some (touchpad_type_name v), 0))"
        using search Some rf hid req v assms(2) by (simp add: touchpad_probe_def)
      show ?thesis
      proof (cases "ret < 0")
        case True
        then show ?thesis by (simp add: run probe_accepts_def)
      next
        case False
        have "pad_type_field desc report f" using search(3) Some rf by simp
        then show ?thesis using False hid req v by (simp add: run probe_accepts_def) (metis snd_conv)
      qed
    qed
  qed
qed

definition example_field :: "u16 \<Rightarrow> u16 \<Rightarrow> u16 \<Rightarrow> hid_rdesc_field" where
  "example_field usage s e = \<lparr>rf_field_type = 0, rf_num_collections = 0, rf_bits_start = s, rf_bits_end = e,
     rf_usage_page = 0x0d, rf_usage_minimum = usage, rf_usage_maximum = 0, rf_logical_minimum = 0, rf_logical_maximum = 0, rf_flags = 0,
     rf_collections = replicate 32 \<lparr>rc_usage_page = 0, rc_usage_id = 0, rc_collection_type = 0\<rparr>\<rparr>"

definition example_report :: hid_rdesc_report where
  "example_report = \<lparr>rr_report_id = 7, rr_size_in_bits = 24, rr_num_fields = 2,
     rr_fields = [example_field 0x55 8 16, example_field 0x59 16 20] @ replicate 62 (example_field 0 0 0)\<rparr>"

definition example_descriptor :: hid_rdesc_descriptor where
  "example_descriptor = \<lparr>rdd_num_input_reports = 0, rdd_num_output_reports = 0, rdd_num_feature_reports = 1,
     rdd_input_reports = replicate 16 example_report, rdd_output_reports = replicate 16 example_report,
     rdd_feature_reports = replicate 16 example_report\<rparr>"

lemma example_descriptor_ok: "rdesc_arrays_ok example_descriptor"
  by (simp add: rdesc_arrays_ok_def example_descriptor_def example_report_def example_field_def list_all_iff)

theorem touchpad_probe_result_witness:
  "\<exists>a' buf' prop r. touchpad_probe (\<lambda>_. Some \<lparr>hdev_id = 1, hdev_bus = 3, hdev_product = 2, hdev_name = []\<rparr>)
     (\<lambda>hid b. (0, b)) example_descriptor (replicate 1024 1) (loader_args 1 []) = Some (a', buf', prop, r)"
  using touchpad_probe_result [OF example_descriptor_ok, of "replicate 1024 1" "\<lambda>hid b. (0, b)" "loader_args 1 []"
      "\<lambda>_. Some \<lparr>hdev_id = 1, hdev_bus = 3, hdev_product = 2, hdev_name = []\<rparr>"]
  by (auto simp: loader_args_def)

end
