(* ===== verification/Huion_Dial2.thy ===== *)
theory Huion_Dial2
  imports Kernel_Iface Rdesc_Spec
begin

unbundle bit_operations_syntax

text \<open>
  \<open>0010-Huion__Dial-2.bpf.c\<close>: the three descriptors of the tablet and their replacements, the
  translation of pad and dial reports of both modes into one pad report, and the probe.
\<close>


abbreviation (input) dial2_VID_HUION :: "'a::numeral" where "dial2_VID_HUION \<equiv> 0x256c"

abbreviation (input) dial2_PID_DIAL_2 :: "'a::numeral" where "dial2_PID_DIAL_2 \<equiv> 0x0060"

abbreviation (input) dial2_PAD_REPORT_DESCRIPTOR_LENGTH :: "'a::numeral" where "dial2_PAD_REPORT_DESCRIPTOR_LENGTH \<equiv> 148"

abbreviation (input) dial2_PEN_REPORT_DESCRIPTOR_LENGTH :: "'a::numeral" where "dial2_PEN_REPORT_DESCRIPTOR_LENGTH \<equiv> 93"

abbreviation (input) dial2_VENDOR_REPORT_DESCRIPTOR_LENGTH :: "'a::numeral" where "dial2_VENDOR_REPORT_DESCRIPTOR_LENGTH \<equiv> 18"

abbreviation (input) dial2_PAD_REPORT_ID :: "'a::numeral" where "dial2_PAD_REPORT_ID \<equiv> 3"

abbreviation (input) dial2_DIAL_REPORT_ID :: "'a::numeral" where "dial2_DIAL_REPORT_ID \<equiv> 17"

abbreviation (input) dial2_PEN_REPORT_ID :: "'a::numeral" where "dial2_PEN_REPORT_ID \<equiv> 10"

abbreviation (input) dial2_VENDOR_REPORT_ID :: "'a::numeral" where "dial2_VENDOR_REPORT_ID \<equiv> 8"

abbreviation (input) dial2_PAD_REPORT_LENGTH :: "'a::numeral" where "dial2_PAD_REPORT_LENGTH \<equiv> 9"

abbreviation (input) dial2_PEN_REPORT_LENGTH :: "'a::numeral" where "dial2_PEN_REPORT_LENGTH \<equiv> 10"

abbreviation (input) dial2_VENDOR_REPORT_LENGTH :: "'a::numeral" where "dial2_VENDOR_REPORT_LENGTH \<equiv> 12"

text \<open>The globals and the static local of the program; the firmware id is stored by the loader.\<close>

record dial2_state =
  dial2_fw_id :: "u8 list"
  dial2_last_button_state :: u8
  dial2_button :: u8


definition dial2_EXPECTED_FIRMWARE_ID :: "u8 list" where
  "dial2_EXPECTED_FIRMWARE_ID = map of_char ''HUION_T216_''"

definition dial2_fixed_rdesc_pad_ini :: initializer where
  "dial2_fixed_rdesc_pad_ini = concat [
     UsagePage_GenericDesktop,
     Usage_GD_Keypad,
     CollectionApplication (concat [
       ReportId dial2_PAD_REPORT_ID,
       LogicalMaximum_i8 0,
       LogicalMaximum_i8 1,
       UsagePage_Digitizers,
       Usage_Dig_TabletFunctionKeys,
       CollectionPhysical (concat [
         Usage_Dig_BarrelSwitch,
         ReportCount 1,
         ReportSize 1,
         Input (Var OR Abs),
         ReportCount 7,
         Input Const,
         UsagePage_GenericDesktop,
         Usage_GD_X,
         Usage_GD_Y,
         ReportCount 2,
         ReportSize 8,
         Input (Var OR Abs),
         Usage_GD_Wheel,
         LogicalMinimum_i8 (- 1),
         LogicalMaximum_i8 1,
         ReportCount 1,
         ReportSize 8,
         Input (Var OR Rel),
         UsagePage_Button,
         UsageMinimum_i8 0x01,
         UsageMaximum_i8 0x08,
         LogicalMinimum_i8 0x0,
         LogicalMaximum_i8 0x1,
         ReportCount 7,
         ReportSize 1,
         Input (Var OR Abs),
         ReportCount 1,
         Input Const]),
       FixedSizeVendorReport dial2_PAD_REPORT_LENGTH])]"

definition dial2_fixed_rdesc_pad :: "u8 list" where
  "dial2_fixed_rdesc_pad = bytes dial2_fixed_rdesc_pad_ini"

definition dial2_fixed_rdesc_pen_ini :: initializer where
  "dial2_fixed_rdesc_pen_ini = concat [
     UsagePage_Digitizers,
     Usage_Dig_Pen,
     CollectionApplication (concat [
       ReportId dial2_PEN_REPORT_ID,
       Usage_Dig_Pen,
       CollectionPhysical (concat [
         Usage_Dig_TipSwitch,
         Usage_Dig_BarrelSwitch,
         Usage_Dig_SecondaryBarrelSwitch,
         LogicalMinimum_i8 0,
         LogicalMaximum_i8 1,
         ReportSize 1,
         ReportCount 3,
         Input (Var OR Abs),
         ReportCount 4,
         Input Const,
         Usage_Dig_InRange,
         ReportCount 1,
         Input (Var OR Abs),
         ReportSize 16,
         ReportCount 1,
         PushPop (concat [
           UsagePage_GenericDesktop,
           Unit cm,
           UnitExponent (- 1),
           PhysicalMinimum_i16 0,
           PhysicalMaximum_i16 266,
           LogicalMinimum_i16 0,
           LogicalMaximum_i16 32767,
           Usage_GD_X,
           Input (Var OR Abs),
           PhysicalMinimum_i16 0,
           PhysicalMaximum_i16 166,
           LogicalMinimum_i16 0,
           LogicalMaximum_i16 32767,
           Usage_GD_Y,
           Input (Var OR Abs)]),
         UsagePage_Digitizers,
         Usage_Dig_TipPressure,
         LogicalMinimum_i16 0,
         LogicalMaximum_i16 8191,
         Input (Var OR Abs),
         ReportSize 8,
         ReportCount 2,
         LogicalMinimum_i8 (- 60),
         LogicalMaximum_i8 60,
         Usage_Dig_XTilt,
         Usage_Dig_YTilt,
         Input (Var OR Abs)])])]"

definition dial2_fixed_rdesc_pen :: "u8 list" where
  "dial2_fixed_rdesc_pen = bytes dial2_fixed_rdesc_pen_ini"

definition dial2_fixed_rdesc_vendor_ini :: initializer where
  "dial2_fixed_rdesc_vendor_ini = concat [
     UsagePage_Digitizers,
     Usage_Dig_Pen,
     CollectionApplication (concat [
       ReportId dial2_VENDOR_REPORT_ID,
       Usage_Dig_Pen,
       CollectionPhysical (concat [
         LogicalMinimum_i8 0,
         LogicalMaximum_i8 1,
         ReportSize 1,
         Usage_Dig_TipSwitch,
         Usage_Dig_BarrelSwitch,
         Usage_Dig_SecondaryBarrelSwitch,
         ReportCount 3,
         Input (Var OR Abs),
         ReportCount 4,
         Input Const,
         Usage_Dig_InRange,
         ReportCount 1,
         Input (Var OR Abs),
         ReportSize 16,
         ReportCount 1,
         PushPop (concat [
           UsagePage_GenericDesktop,
           Unit cm,
           UnitExponent (- 1),
           LogicalMinimum_i16 0,
           LogicalMaximum_i16 53340,
           PhysicalMinimum_i16 0,
           PhysicalMaximum_i16 266,
           Usage_GD_X,
           Input (Var OR Abs),
           LogicalMinimum_i16 0,
           LogicalMaximum_i16 33340,
           PhysicalMinimum_i16 0,
           PhysicalMaximum_i16 166,
           Usage_GD_Y,
           Input (Var OR Abs)]),
         LogicalMinimum_i16 0,
         LogicalMaximum_i16 8191,
         Usage_Dig_TipPressure,
         Input (Var OR Abs),
         ReportCount 1,
         Input Const,
         LogicalMinimum_i8 (- 60),
         LogicalMaximum_i8 60,
         Usage_Dig_XTilt,
         Usage_Dig_YTilt,
         ReportSize 8,
         ReportCount 2,
         Input (Var OR Abs)])]),
     UsagePage_GenericDesktop,
     Usage_GD_Keypad,
     CollectionApplication (concat [
       ReportId dial2_PAD_REPORT_ID,
       LogicalMinimum_i8 0,
       LogicalMaximum_i8 1,
       UsagePage_Digitizers,
       Usage_Dig_TabletFunctionKeys,
       CollectionPhysical (concat [
         Usage_Dig_BarrelSwitch,
         ReportCount 1,
         ReportSize 1,
         Input (Var OR Abs),
         ReportCount 7,
         Input Const,
         UsagePage_GenericDesktop,
         Usage_GD_X,
         Usage_GD_Y,
         ReportCount 2,
         ReportSize 8,
         Input (Var OR Abs),
         UsagePage_Button,
         UsageMinimum_i8 0x1,
         UsageMaximum_i8 0x8,
         LogicalMinimum_i8 0x0,
         LogicalMaximum_i8 0x1,
         ReportCount 8,
         ReportSize 1,
         Input (Var OR Abs),
         UsagePage_GenericDesktop,
         Usage_GD_Wheel,
         LogicalMinimum_i8 (- 1),
         LogicalMaximum_i8 1,
         ReportCount 1,
         ReportSize 8,
         Input (Var OR Rel),
         UsagePage_Consumer,
         Usage_Con_ACPan,
         Input (Var OR Rel)]),
       FixedSizeVendorReport dial2_VENDOR_REPORT_LENGTH])]"

definition dial2_fixed_rdesc_vendor :: "u8 list" where
  "dial2_fixed_rdesc_vendor = bytes dial2_fixed_rdesc_vendor_ini"

definition dial2_disabled_rdesc_pen_ini :: initializer where
  "dial2_disabled_rdesc_pen_ini = concat [
     FixedSizeVendorReport dial2_PEN_REPORT_LENGTH]"

definition dial2_disabled_rdesc_pen :: "u8 list" where
  "dial2_disabled_rdesc_pen = bytes dial2_disabled_rdesc_pen_ini"

definition dial2_disabled_rdesc_pad_ini :: initializer where
  "dial2_disabled_rdesc_pad_ini = concat [
     FixedSizeVendorReport dial2_PAD_REPORT_LENGTH]"

definition dial2_disabled_rdesc_pad :: "u8 list" where
  "dial2_disabled_rdesc_pad = bytes dial2_disabled_rdesc_pad_ini"

lemma length_dial2_fixed_rdesc_pad [simp]: "length dial2_fixed_rdesc_pad = 92"
  by code_simp

lemma dial2_fixed_rdesc_pad_declares [rdesc_facts]:
  "static_ok dial2_fixed_rdesc_pad_ini \<and> rdesc_declares dial2_fixed_rdesc_pad [(3, 6), (172, 9)]"
  by code_simp

lemma length_dial2_fixed_rdesc_pen [simp]: "length dial2_fixed_rdesc_pen = 110"
  by code_simp

lemma dial2_fixed_rdesc_pen_declares [rdesc_facts]:
  "static_ok dial2_fixed_rdesc_pen_ini \<and> rdesc_declares dial2_fixed_rdesc_pen [(10, 10)]"
  by code_simp

lemma length_dial2_fixed_rdesc_vendor [simp]: "length dial2_fixed_rdesc_vendor = 209"
  by code_simp

lemma dial2_fixed_rdesc_vendor_declares [rdesc_facts]:
  "static_ok dial2_fixed_rdesc_vendor_ini \<and> rdesc_declares dial2_fixed_rdesc_vendor [(8, 12), (3, 7), (172, 12)]"
  by code_simp

lemma length_dial2_disabled_rdesc_pen [simp]: "length dial2_disabled_rdesc_pen = 16"
  by code_simp

lemma dial2_disabled_rdesc_pen_declares [rdesc_facts]:
  "static_ok dial2_disabled_rdesc_pen_ini \<and> rdesc_declares dial2_disabled_rdesc_pen [(172, 10)]"
  by code_simp

lemma length_dial2_disabled_rdesc_pad [simp]: "length dial2_disabled_rdesc_pad = 16"
  by code_simp

lemma dial2_disabled_rdesc_pad_declares [rdesc_facts]:
  "static_ok dial2_disabled_rdesc_pad_ini \<and> rdesc_declares dial2_disabled_rdesc_pad [(172, 9)]"
  by code_simp

definition dial2_fix_rdesc :: "dial2_state program" where
  "dial2_fix_rdesc s c data = (case data of None \<Rightarrow> Some (s, [], 0) | Some d \<Rightarrow>
     let rdesc_size = ctx_size c; have_fw_id = has_prefix (dial2_fw_id s) dial2_EXPECTED_FIRMWARE_ID in
     if rdesc_size = dial2_PAD_REPORT_DESCRIPTOR_LENGTH then
       (if have_fw_id then
          do { d1 \<leftarrow> memcpy d 0 dial2_disabled_rdesc_pad; Some (s, d1, int (length dial2_disabled_rdesc_pad)) }
        else
          do { d1 \<leftarrow> memcpy d 0 dial2_fixed_rdesc_pad; Some (s, d1, int (length dial2_fixed_rdesc_pad)) })
     else if rdesc_size = dial2_PEN_REPORT_DESCRIPTOR_LENGTH then
       (if have_fw_id then
          do { d1 \<leftarrow> memcpy d 0 dial2_disabled_rdesc_pen; Some (s, d1, int (length dial2_disabled_rdesc_pen)) }
        else
          do { d1 \<leftarrow> memcpy d 0 dial2_fixed_rdesc_pen; Some (s, d1, int (length dial2_fixed_rdesc_pen)) })
     else if rdesc_size = dial2_VENDOR_REPORT_DESCRIPTOR_LENGTH then
       do { d1 \<leftarrow> memcpy d 0 dial2_fixed_rdesc_vendor; Some (s, d1, int (length dial2_fixed_rdesc_vendor)) }
     else Some (s, d, 0))"

definition dial2_new_rdesc :: "dial2_state \<Rightarrow> int \<Rightarrow> u8 list option" where
  "dial2_new_rdesc s n =
     (if n = dial2_PAD_REPORT_DESCRIPTOR_LENGTH then Some (if has_prefix (dial2_fw_id s) dial2_EXPECTED_FIRMWARE_ID then dial2_disabled_rdesc_pad else dial2_fixed_rdesc_pad)
      else if n = dial2_PEN_REPORT_DESCRIPTOR_LENGTH then Some (if has_prefix (dial2_fw_id s) dial2_EXPECTED_FIRMWARE_ID then dial2_disabled_rdesc_pen else dial2_fixed_rdesc_pen)
      else if n = dial2_VENDOR_REPORT_DESCRIPTOR_LENGTH then Some dial2_fixed_rdesc_vendor
      else None)"

interpretation dial2_fixup: replacing_fixup dial2_fix_rdesc "\<lambda>s c. dial2_new_rdesc s (ctx_size c)"
  by unfold_locales
    (auto simp: dial2_fix_rdesc_def dial2_new_rdesc_def Let_def split: if_splits)

text \<open>The keyboard shortcut a pad key sends in default mode, as a bit of the button mask.\<close>

definition dial2_pad_key :: "u32 \<Rightarrow> u8" where
  "dial2_pad_key code =
     (if code = 0x000000 then 0
      else if code = 0x050000 then BIT 0
      else if code = 0x080000 then BIT 1
      else if code = 0x0c0000 then BIT 2
      else if code = 0xe01600 then BIT 3
      else if code = 0x2c0000 then BIT 4
      else if code = 0xe0e21d then BIT 5
      else 0)"

definition dial2_fix_events :: "dial2_state program" where
  "dial2_fix_events s c data = (case data of None \<Rightarrow> Some (s, [], 0) | Some d \<Rightarrow> do {
     d0 \<leftarrow> rd d 0;
     if d0 = dial2_PAD_REPORT_ID then do {
       d2 \<leftarrow> rd d 2; d3 \<leftarrow> rd d 3; d4 \<leftarrow> rd d 4;
       let button = (dial2_button s AND 0xc0)
                    OR dial2_pad_key (push_bit 16 (ucast d2) OR push_bit 8 (ucast d3) OR ucast d4);
       let report = [dial2_PAD_REPORT_ID, 0x0, 0x0, 0x0, 0x00, button, 0, 0];
       let s1 = s\<lparr>dial2_button := button\<rparr>;
       d' \<leftarrow> memcpy d 0 report;
       Some (s1, d', int (length report)) }
     else if d0 = dial2_DIAL_REPORT_ID then do {
       d1 \<leftarrow> rd d 1; d2 \<leftarrow> rd d 2; d3 \<leftarrow> rd d 3;
       let dial = le16 d2 d3;
       let button = (dial2_button s AND 0x3f) OR push_bit 6 (if d1 \<noteq> 0 then 1 else 0);
       let report = [dial2_PAD_REPORT_ID, 0x0, 0x0, 0x0, ucast dial, button];
       let s1 = s\<lparr>dial2_button := button\<rparr>;
       d' \<leftarrow> memcpy d 0 report;
       Some (s1, d', int (length report)) }
     else if d0 = dial2_VENDOR_REPORT_ID then do {
       d1 \<leftarrow> rd d 1;
       if d1 AND 0x20 \<noteq> 0 then do {
         (s1, dial_1, dial_2) \<leftarrow>
           (if d1 = 0xf1 then do {
              d5 \<leftarrow> rd d 5;
              d3 \<leftarrow> rd d 3;
              let v = (if d5 = 2 then 0xff else d5);
              Some (if d3 = 1 then (s, v, 0) else (s, 0, v)) }
            else do {
              d4 \<leftarrow> rd d 4;
              Some (s\<lparr>dial2_last_button_state := d4\<rparr>, 0, 0) });
         d' \<leftarrow> memcpy d 0 [dial2_PAD_REPORT_ID, 0, 0, 0, dial2_last_button_state s1, dial_1, dial_2];
         Some (s1, d', 7) }
       else Some (s, d, 0) }
     else Some (s, d, 0) })"

interpretation dial2_events: hid_program dial2_fix_events 16
  by unfold_locales (auto simp: dial2_fix_events_def Let_def)


definition dial2_probe :: "hid_bpf_probe_args \<Rightarrow> hid_bpf_probe_args \<times> int" where
  "dial2_probe a =
     ((if pa_rdesc_size a = dial2_PAD_REPORT_DESCRIPTOR_LENGTH \<or> pa_rdesc_size a = dial2_PEN_REPORT_DESCRIPTOR_LENGTH \<or> pa_rdesc_size a = dial2_VENDOR_REPORT_DESCRIPTOR_LENGTH
       then a\<lparr>pa_retval := 0\<rparr> else a\<lparr>pa_retval := - EINVAL\<rparr>), 0)"

section \<open>Default mode\<close>

lemma dial2_fixed_rdesc_pad_layout_3:
  "rdesc_layout dial2_fixed_rdesc_pad 3 = Some [
     (0xd0044, 8, 1), (0x10030, 16, 8), (0x10031, 24, 8), (0x10038, 32, 8), (0x90001, 40, 1), (0x90002, 41, 1),
     (0x90003, 42, 1), (0x90004, 43, 1), (0x90005, 44, 1), (0x90006, 45, 1), (0x90007, 46, 1)]"
  by code_simp

lemma dial2_button_slots:
  "k < 7 \<Longrightarrow> usage_slot dial2_fixed_rdesc_pad 3 (0x90001 + int k) = Some (40 + int k, 1)"
proof -
  have "list_all (\<lambda>k. usage_slot dial2_fixed_rdesc_pad 3 (0x90001 + int k) = Some (40 + int k, 1)) [0..<7]"
    unfolding usage_slot_def dial2_fixed_rdesc_pad_layout_3 option.case by code_simp
  then show "k < 7 \<Longrightarrow> ?thesis" by (simp add: list_all_iff)
qed

lemma bit_dial2_keys: "bit ((0x3f :: u8)) k \<longleftrightarrow> k < 6" "k < 8 \<Longrightarrow> bit ((0xc0 :: u8)) k \<longleftrightarrow> 6 \<le> k"
proof -
  have "list_all (\<lambda>k. (bit (0x3f :: u8) k \<longleftrightarrow> k < 6) \<and> (bit (0xc0 :: u8) k \<longleftrightarrow> 6 \<le> k)) [0..<8]" by code_simp
  then have all: "k < 8 \<Longrightarrow> (bit (0x3f :: u8) k \<longleftrightarrow> k < 6) \<and> (bit (0xc0 :: u8) k \<longleftrightarrow> 6 \<le> k)" for k
    by (simp add: list_all_iff)
  show "bit ((0x3f :: u8)) k \<longleftrightarrow> k < 6" using all [of k] bit_high [of k "0x3f :: u8"] by (cases "k < 8") auto
  show "k < 8 \<Longrightarrow> bit ((0xc0 :: u8)) k \<longleftrightarrow> 6 \<le> k" using all by blast
qed

lemma bit_dial2_masks:
  "bit ((x :: u8) AND 0x3f) k \<longleftrightarrow> bit x k \<and> k < 6" "bit ((x :: u8) AND 0xc0) k \<longleftrightarrow> bit x k \<and> 6 \<le> k"
  using bit_dial2_keys(1) [of k] bit_dial2_keys(2) [of k] bit_high [of k x]
  by (cases "k < 8"; simp only: bit_and_iff; simp)+

lemma dial2_pad_key_low: "\<not> bit (dial2_pad_key c) k" if "6 \<le> k"
  using that by (auto simp: dial2_pad_key_def bit_BIT)

text \<open>
  C37: In default mode the Dial 2 keeps its six keys and the dial's button apart: a pad report sets the keys and
  keeps the dial's button, a dial report the other way round; both show all seven on the button usages of
  the installed descriptor, and a dial report shows the low byte of its step on the wheel usage.
\<close>

theorem dial2_default_mode:
  assumes "5 \<le> length rep" "rep ! 0 \<in> {dial2_PAD_REPORT_ID, dial2_DIAL_REPORT_ID}"
  shows "\<exists>s' out. device_event dial2_fix_events 16 hid s rep = Some (s', Some out)
    \<and> (\<forall>k < 7. usage_value dial2_fixed_rdesc_pad out (0x90001 + int k) = Some (of_bool (bit (dial2_button s') k)))
    \<and> (\<forall>k < 7. bit (dial2_button s') k =
         (if rep ! 0 = dial2_PAD_REPORT_ID
          then (if k < 6 then bit (dial2_pad_key (push_bit 16 (ucast (rep ! 2)) OR push_bit 8 (ucast (rep ! 3)) OR ucast (rep ! 4))) k
                else bit (dial2_button s) k)
          else (if k < 6 then bit (dial2_button s) k else rep ! 1 \<noteq> 0)))
    \<and> usage_value dial2_fixed_rdesc_pad out 0x10038
        = Some (if rep ! 0 = dial2_PAD_REPORT_ID then 0 else uint (rep ! 2))"
proof -
  have len: "0 < length rep" "1 < length rep" "2 < length rep" "3 < length rep" "4 < length rep" using assms(1) by linarith+
  let ?code = "push_bit 16 (ucast (rep ! 2)) OR push_bit 8 (ucast (rep ! 3)) OR ucast (rep ! 4)"
  define pad where "pad = (rep ! 0 = dial2_PAD_REPORT_ID)"
  define b where "b = (if pad then (dial2_button s AND 0xc0) OR dial2_pad_key ?code
    else (dial2_button s AND 0x3f) OR push_bit 6 (if rep ! 1 \<noteq> 0 then 1 else 0))"
  define w where "w = (if pad then 0 else rep ! 2)"
  define out where "out = [3, 0, 0, 0, w, b] @ (if pad then [0, 0] else [])"
  have low: "(ucast (le16 lo hi) :: u8) = lo" for lo hi
    by (rule bit_word_eqI) (simp add: bit_ucast_iff bit_le16)
  have ev: "device_event dial2_fix_events 16 hid s rep = Some (s\<lparr>dial2_button := b\<rparr>, Some out)"
  proof (cases pad)
    case True
    then show ?thesis unfolding out_def b_def w_def using len
      by (intro device_event_replaced [where rest = "drop 8 (take 16 (report_buffer rep))"])
        (simp_all add: pad_def dial2_fix_events_def Let_def length_report_buffer report_buffer_nth, simp_all add: eval_nat_numeral)
  next
    case False
    then have "rep ! 0 = dial2_DIAL_REPORT_ID" using assms(2) by (simp add: pad_def)
    then show ?thesis unfolding out_def b_def w_def using len False
      by (intro device_event_replaced [where rest = "drop 6 (take 16 (report_buffer rep))"])
        (simp_all add: pad_def dial2_fix_events_def Let_def length_report_buffer report_buffer_nth low, simp_all add: eval_nat_numeral)
  qed
  have val: "usage_value dial2_fixed_rdesc_pad out u =
      map_option (\<lambda>(off, n). read_bits out (nat off) (nat n)) (usage_slot dial2_fixed_rdesc_pad 3 u)" for u
    by (simp add: usage_value_def out_def)
  have "read_bits out (40 + k) 1 = of_bool (bit b k)" if "k < 7" for k
    using that read_bit [of k 5 out] by (simp add: out_def)
  then have "\<forall>k < 7. usage_value dial2_fixed_rdesc_pad out (0x90001 + int k) = Some (of_bool (bit b k))"
    by (simp add: val dial2_button_slots nat_add_distrib)
  moreover have "bit b k = (if pad then (if k < 6 then bit (dial2_pad_key ?code) k else bit (dial2_button s) k)
      else (if k < 6 then bit (dial2_button s) k else rep ! 1 \<noteq> 0))" if "k < 7" for k
    using that dial2_pad_key_low [of k ?code]
    by (cases "k < 6"; cases pad) (auto simp: b_def bit_or_iff bit_dial2_masks bit_push_bit_iff bit_1_iff)
  moreover have "usage_value dial2_fixed_rdesc_pad out 0x10038 = Some (uint w)"
    using read_byte [of 4 out] by (simp add: val usage_slot_def dial2_fixed_rdesc_pad_layout_3) (simp add: out_def)
  ultimately show ?thesis
    unfolding ev by (intro exI [of _ "s\<lparr>dial2_button := b\<rparr>"] exI [of _ out]) (simp add: w_def pad_def)
qed

theorem dial2_default_mode_witness:
  "\<exists>s' out. device_event dial2_fix_events 16 \<lparr>hdev_id = 1, hdev_bus = 3, hdev_product = 0x60, hdev_name = []\<rparr>
      \<lparr>dial2_fw_id = [], dial2_last_button_state = 0, dial2_button = 0x41\<rparr>
      [3, 0, 0x08, 0, 0, 0, 0, 0] = Some (s', Some out)
    \<and> bit (dial2_button s') 6 \<and> bit (dial2_button s') 1"
proof -
  have "bit (dial2_pad_key (push_bit 16 (ucast (0x08 :: u8)) OR push_bit 8 (ucast (0 :: u8)) OR ucast (0 :: u8))) 1"
    "bit (0x41 :: u8) 6" by code_simp+
  then show ?thesis
    using dial2_default_mode [of "[3, 0, 0x08, 0, 0, 0, 0, 0]" "\<lparr>hdev_id = 1, hdev_bus = 3, hdev_product = 0x60, hdev_name = []\<rparr>"
      "\<lparr>dial2_fw_id = [], dial2_last_button_state = 0, dial2_button = 0x41\<rparr>"] by auto
qed

end
