(* ===== verification/Huion_Inspiroy2S.thy ===== *)
theory Huion_Inspiroy2S
  imports Kernel_Iface Rdesc_Spec
begin

unbundle bit_operations_syntax

text \<open>
  \<open>0020-Huion__Inspiroy-2-S.bpf.c\<close>: the descriptors and their replacements, the translation of pad
  reports of both modes, and the filter that hides the tip-up glitch of pen reports.
\<close>


abbreviation (input) insp2s_VID_HUION :: "'a::numeral" where "insp2s_VID_HUION \<equiv> 0x256c"

abbreviation (input) insp2s_PID_INSPIROY_2_S :: "'a::numeral" where "insp2s_PID_INSPIROY_2_S \<equiv> 0x0066"

abbreviation (input) insp2s_PAD_REPORT_DESCRIPTOR_LENGTH :: "'a::numeral" where "insp2s_PAD_REPORT_DESCRIPTOR_LENGTH \<equiv> 65"

abbreviation (input) insp2s_PEN_REPORT_DESCRIPTOR_LENGTH :: "'a::numeral" where "insp2s_PEN_REPORT_DESCRIPTOR_LENGTH \<equiv> 93"

abbreviation (input) insp2s_VENDOR_REPORT_DESCRIPTOR_LENGTH :: "'a::numeral" where "insp2s_VENDOR_REPORT_DESCRIPTOR_LENGTH \<equiv> 18"

abbreviation (input) insp2s_PAD_REPORT_ID :: "'a::numeral" where "insp2s_PAD_REPORT_ID \<equiv> 3"

abbreviation (input) insp2s_PEN_REPORT_ID :: "'a::numeral" where "insp2s_PEN_REPORT_ID \<equiv> 10"

abbreviation (input) insp2s_VENDOR_REPORT_ID :: "'a::numeral" where "insp2s_VENDOR_REPORT_ID \<equiv> 8"

abbreviation (input) insp2s_PAD_REPORT_LENGTH :: "'a::numeral" where "insp2s_PAD_REPORT_LENGTH \<equiv> 8"

abbreviation (input) insp2s_PEN_REPORT_LENGTH :: "'a::numeral" where "insp2s_PEN_REPORT_LENGTH \<equiv> 10"

abbreviation (input) insp2s_VENDOR_REPORT_LENGTH :: "'a::numeral" where "insp2s_VENDOR_REPORT_LENGTH \<equiv> 12"

text \<open>The globals of the program; the firmware id is stored by the loader.\<close>

record insp2s_state =
  insp2s_fw_id :: "u8 list"
  insp2s_last_button_state :: u8
  insp2s_last_tip_state :: u8
  insp2s_last_sec_barrel_state :: u8
  insp2s_force_tip_down_count :: u8


definition insp2s_EXPECTED_FIRMWARE_ID :: "u8 list" where
  "insp2s_EXPECTED_FIRMWARE_ID = map of_char ''HUION_T21j_''"

definition insp2s_fixed_rdesc_pad_ini :: initializer where
  "insp2s_fixed_rdesc_pad_ini = concat [
     UsagePage_GenericDesktop,
     Usage_GD_Keypad,
     CollectionApplication (concat [
       ReportId insp2s_PAD_REPORT_ID,
       LogicalMinimum_i8 0,
       LogicalMaximum_i8 1,
       UsagePage_Digitizers,
       Usage_Dig_TabletFunctionKeys,
       CollectionPhysical (concat [
         Usage_Dig_BarrelSwitch,
         ReportCount 1,
         ReportSize 1,
         Input (Var OR Abs),
         ReportCount 7,
         Input Const,
         UsagePage_GenericDesktop,
         Usage_GD_X,
         Usage_GD_Y,
         ReportCount 2,
         ReportSize 8,
         Input (Var OR Abs),
         Usage_GD_Wheel,
         LogicalMinimum_i8 (- 1),
         LogicalMaximum_i8 1,
         ReportCount 1,
         ReportSize 8,
         Input (Var OR Rel),
         UsagePage_Button,
         UsageMinimum_i8 0x1,
         UsageMaximum_i8 0x6,
         LogicalMinimum_i8 0x1,
         LogicalMaximum_i8 0x6,
         ReportCount 1,
         ReportSize 8,
         Input (Arr OR Abs)]),
       FixedSizeVendorReport insp2s_PAD_REPORT_LENGTH])]"

definition insp2s_fixed_rdesc_pad :: "u8 list" where
  "insp2s_fixed_rdesc_pad = bytes insp2s_fixed_rdesc_pad_ini"

definition insp2s_fixed_rdesc_pen_ini :: initializer where
  "insp2s_fixed_rdesc_pen_ini = concat [
     UsagePage_Digitizers,
     Usage_Dig_Pen,
     CollectionApplication (concat [
       ReportId insp2s_PEN_REPORT_ID,
       Usage_Dig_Pen,
       CollectionPhysical (concat [
         Usage_Dig_TipSwitch,
         Usage_Dig_BarrelSwitch,
         Usage_Dig_SecondaryBarrelSwitch,
         LogicalMinimum_i8 0,
         LogicalMaximum_i8 1,
         ReportSize 1,
         ReportCount 3,
         Input (Var OR Abs),
         ReportCount 4,
         Input Const,
         Usage_Dig_InRange,
         ReportCount 1,
         Input (Var OR Abs),
         ReportSize 16,
         ReportCount 1,
         PushPop (concat [
           UsagePage_GenericDesktop,
           Unit cm,
           UnitExponent (- 1),
           PhysicalMinimum_i16 0,
           PhysicalMaximum_i16 160,
           LogicalMinimum_i16 0,
           LogicalMaximum_i16 32767,
           Usage_GD_X,
           Input (Var OR Abs),
           PhysicalMinimum_i16 0,
           PhysicalMaximum_i16 100,
           LogicalMinimum_i16 0,
           LogicalMaximum_i16 32767,
           Usage_GD_Y,
           Input (Var OR Abs)]),
         UsagePage_Digitizers,
         Usage_Dig_TipPressure,
         LogicalMinimum_i16 0,
         LogicalMaximum_i16 8191,
         Input (Var OR Abs),
         ReportSize 8,
         ReportCount 2,
         Input Const])])]"

definition insp2s_fixed_rdesc_pen :: "u8 list" where
  "insp2s_fixed_rdesc_pen = bytes insp2s_fixed_rdesc_pen_ini"

definition insp2s_fixed_rdesc_vendor_ini :: initializer where
  "insp2s_fixed_rdesc_vendor_ini = concat [
     UsagePage_Digitizers,
     Usage_Dig_Pen,
     CollectionApplication (concat [
       ReportId insp2s_VENDOR_REPORT_ID,
       Usage_Dig_Pen,
       CollectionPhysical (concat [
         LogicalMinimum_i8 0,
         LogicalMaximum_i8 1,
         ReportSize 1,
         Usage_Dig_TipSwitch,
         Usage_Dig_BarrelSwitch,
         Usage_Dig_SecondaryBarrelSwitch,
         ReportCount 3,
         Input (Var OR Abs),
         ReportCount 4,
         Input Const,
         Usage_Dig_InRange,
         ReportCount 1,
         Input (Var OR Abs),
         ReportSize 16,
         ReportCount 1,
         PushPop (concat [
           UsagePage_GenericDesktop,
           Unit cm,
           UnitExponent (- 1),
           LogicalMinimum_i16 0,
           LogicalMaximum_i16 32000,
           PhysicalMinimum_i16 0,
           PhysicalMaximum_i16 160,
           Usage_GD_X,
           Input (Var OR Abs),
           LogicalMinimum_i16 0,
           LogicalMaximum_i16 20000,
           PhysicalMinimum_i16 0,
           PhysicalMaximum_i16 100,
           Usage_GD_Y,
           Input (Var OR Abs)]),
         LogicalMinimum_i16 0,
         LogicalMaximum_i16 8192,
         Usage_Dig_TipPressure,
         Input (Var OR Abs)])]),
     UsagePage_GenericDesktop,
     Usage_GD_Keypad,
     CollectionApplication (concat [
       ReportId insp2s_PAD_REPORT_ID,
       LogicalMinimum_i8 0,
       LogicalMaximum_i8 1,
       UsagePage_Digitizers,
       Usage_Dig_TabletFunctionKeys,
       CollectionPhysical (concat [
         Usage_Dig_BarrelSwitch,
         ReportCount 1,
         ReportSize 1,
         Input (Var OR Abs),
         ReportCount 7,
         Input Const,
         UsagePage_GenericDesktop,
         Usage_GD_X,
         Usage_GD_Y,
         ReportCount 2,
         ReportSize 8,
         Input (Var OR Abs),
         UsagePage_Button,
         UsageMinimum_i8 0x1,
         UsageMaximum_i8 0x6,
         LogicalMinimum_i8 0x0,
         LogicalMaximum_i8 0x1,
         ReportCount 6,
         ReportSize 1,
         Input (Var OR Abs),
         ReportCount 2,
         Input Const,
         UsagePage_GenericDesktop,
         Usage_GD_Wheel,
         LogicalMinimum_i8 (- 1),
         LogicalMaximum_i8 1,
         ReportCount 1,
         ReportSize 8,
         Input (Var OR Rel)]),
       FixedSizeVendorReport insp2s_VENDOR_REPORT_LENGTH])]"

definition insp2s_fixed_rdesc_vendor :: "u8 list" where
  "insp2s_fixed_rdesc_vendor = bytes insp2s_fixed_rdesc_vendor_ini"

definition insp2s_disabled_rdesc_pen_ini :: initializer where
  "insp2s_disabled_rdesc_pen_ini = concat [
     FixedSizeVendorReport insp2s_PEN_REPORT_LENGTH]"

definition insp2s_disabled_rdesc_pen :: "u8 list" where
  "insp2s_disabled_rdesc_pen = bytes insp2s_disabled_rdesc_pen_ini"

definition insp2s_disabled_rdesc_pad_ini :: initializer where
  "insp2s_disabled_rdesc_pad_ini = concat [
     FixedSizeVendorReport insp2s_PAD_REPORT_LENGTH]"

definition insp2s_disabled_rdesc_pad :: "u8 list" where
  "insp2s_disabled_rdesc_pad = bytes insp2s_disabled_rdesc_pad_ini"

lemma length_insp2s_fixed_rdesc_pad [simp]: "length insp2s_fixed_rdesc_pad = 88"
  by code_simp

lemma insp2s_fixed_rdesc_pad_declares [rdesc_facts]:
  "static_ok insp2s_fixed_rdesc_pad_ini \<and> rdesc_declares insp2s_fixed_rdesc_pad [(3, 6), (172, 8)]"
  by code_simp

lemma length_insp2s_fixed_rdesc_pen [simp]: "length insp2s_fixed_rdesc_pen = 102"
  by code_simp

lemma insp2s_fixed_rdesc_pen_declares [rdesc_facts]:
  "static_ok insp2s_fixed_rdesc_pen_ini \<and> rdesc_declares insp2s_fixed_rdesc_pen [(10, 10)]"
  by code_simp

lemma length_insp2s_fixed_rdesc_vendor [simp]: "length insp2s_fixed_rdesc_vendor = 188"
  by code_simp

lemma insp2s_fixed_rdesc_vendor_declares [rdesc_facts]:
  "static_ok insp2s_fixed_rdesc_vendor_ini \<and> rdesc_declares insp2s_fixed_rdesc_vendor [(8, 8), (3, 6), (172, 12)]"
  by code_simp

lemma length_insp2s_disabled_rdesc_pen [simp]: "length insp2s_disabled_rdesc_pen = 16"
  by code_simp

lemma insp2s_disabled_rdesc_pen_declares [rdesc_facts]:
  "static_ok insp2s_disabled_rdesc_pen_ini \<and> rdesc_declares insp2s_disabled_rdesc_pen [(172, 10)]"
  by code_simp

lemma length_insp2s_disabled_rdesc_pad [simp]: "length insp2s_disabled_rdesc_pad = 16"
  by code_simp

lemma insp2s_disabled_rdesc_pad_declares [rdesc_facts]:
  "static_ok insp2s_disabled_rdesc_pad_ini \<and> rdesc_declares insp2s_disabled_rdesc_pad [(172, 8)]"
  by code_simp

definition insp2s_fix_rdesc :: "insp2s_state program" where
  "insp2s_fix_rdesc s c data = (case data of None \<Rightarrow> Some (s, [], 0) | Some d \<Rightarrow>
     let rdesc_size = ctx_size c; have_fw_id = has_prefix (insp2s_fw_id s) insp2s_EXPECTED_FIRMWARE_ID in
     if rdesc_size = insp2s_PAD_REPORT_DESCRIPTOR_LENGTH then
       (if have_fw_id then
          do { d1 \<leftarrow> memcpy d 0 insp2s_disabled_rdesc_pad; Some (s, d1, int (length insp2s_disabled_rdesc_pad)) }
        else
          do { d1 \<leftarrow> memcpy d 0 insp2s_fixed_rdesc_pad; Some (s, d1, int (length insp2s_fixed_rdesc_pad)) })
     else if rdesc_size = insp2s_PEN_REPORT_DESCRIPTOR_LENGTH then
       (if have_fw_id then
          do { d1 \<leftarrow> memcpy d 0 insp2s_disabled_rdesc_pen; Some (s, d1, int (length insp2s_disabled_rdesc_pen)) }
        else
          do { d1 \<leftarrow> memcpy d 0 insp2s_fixed_rdesc_pen; Some (s, d1, int (length insp2s_fixed_rdesc_pen)) })
     else if rdesc_size = insp2s_VENDOR_REPORT_DESCRIPTOR_LENGTH then
       do { d1 \<leftarrow> memcpy d 0 insp2s_fixed_rdesc_vendor; Some (s, d1, int (length insp2s_fixed_rdesc_vendor)) }
     else Some (s, d, 0))"

definition insp2s_new_rdesc :: "insp2s_state \<Rightarrow> int \<Rightarrow> u8 list option" where
  "insp2s_new_rdesc s n =
     (if n = insp2s_PAD_REPORT_DESCRIPTOR_LENGTH then Some (if has_prefix (insp2s_fw_id s) insp2s_EXPECTED_FIRMWARE_ID then insp2s_disabled_rdesc_pad else insp2s_fixed_rdesc_pad)
      else if n = insp2s_PEN_REPORT_DESCRIPTOR_LENGTH then Some (if has_prefix (insp2s_fw_id s) insp2s_EXPECTED_FIRMWARE_ID then insp2s_disabled_rdesc_pen else insp2s_fixed_rdesc_pen)
      else if n = insp2s_VENDOR_REPORT_DESCRIPTOR_LENGTH then Some insp2s_fixed_rdesc_vendor
      else None)"

interpretation insp2s_fixup: replacing_fixup insp2s_fix_rdesc "\<lambda>s c. insp2s_new_rdesc s (ctx_size c)"
  by unfold_locales
    (auto simp: insp2s_fix_rdesc_def insp2s_new_rdesc_def Let_def split: if_splits)

text \<open>The keyboard shortcut a pad key or the wheel sends in default mode: button number and wheel step.\<close>

definition insp2s_pad_key :: "u16 \<Rightarrow> u8 \<times> u8" where
  "insp2s_pad_key code =
     (if code = 0x0000 then (0, 0)
      else if code = 0x0005 then (1, 0)
      else if code = 0x000c then (2, 0)
      else if code = 0x0008 then (3, 0)
      else if code = 0x0116 then (4, 0)
      else if code = 0x002c then (5, 0)
      else if code = 0x051d then (6, 0)
      else if code = 0x012d then (0, 0xff)
      else if code = 0x012e then (0, 1)
      else (0, 0))"

text \<open>
  Pen reports in range: the new globals and the new button byte. \<open>force_tip_down_count\<close> reports
  after a press or release of the secondary barrel switch keep the tip down.
\<close>

definition insp2s_pen :: "insp2s_state \<Rightarrow> u8 \<Rightarrow> insp2s_state \<times> u8" where
  "insp2s_pen s d1 =
     (let tip_state = d1 AND 0x1;
          sec_barrel_state = d1 AND 0x4;
          (s1, v1) =
            (if 0 < insp2s_force_tip_down_count s
             then (s\<lparr>insp2s_force_tip_down_count :=
                       if tip_state \<noteq> 0 then 0 else insp2s_force_tip_down_count s - 1\<rparr>, d1 OR 0x1)
             else (s, d1));
          (s2, v2) =
            (if insp2s_last_tip_state s1 \<noteq> 0 \<and> insp2s_last_sec_barrel_state s1 \<noteq> sec_barrel_state
             then (s1\<lparr>insp2s_force_tip_down_count := 4\<rparr>, v1 OR 0x1)
             else (s1, v1))
      in (s2\<lparr>insp2s_last_tip_state := tip_state, insp2s_last_sec_barrel_state := sec_barrel_state\<rparr>, v2))"

definition insp2s_fix_events :: "insp2s_state program" where
  "insp2s_fix_events s c data = (case data of None \<Rightarrow> Some (s, [], 0) | Some d \<Rightarrow> do {
     d0 \<leftarrow> rd d 0;
     if d0 = insp2s_PAD_REPORT_ID then do {
       d1 \<leftarrow> rd d 1; d2 \<leftarrow> rd d 2;
       let (button, wheel) = insp2s_pad_key (le16 d2 d1);
       let report = [insp2s_PAD_REPORT_ID, 0x0, 0x0, 0x0, wheel, button];
       d' \<leftarrow> memcpy d 0 report;
       Some (s, d', int (length report)) }
     else if d0 = insp2s_VENDOR_REPORT_ID then do {
       d1 \<leftarrow> rd d 1;
       if d1 AND 0x20 \<noteq> 0 then do {
         (s1, wheel) \<leftarrow>
           (if d1 = 0xf1 then do {
              d5 \<leftarrow> rd d 5;
              Some (s, if d5 = 2 then 0xff else d5) }
            else do {
              d4 \<leftarrow> rd d 4;
              Some (s\<lparr>insp2s_last_button_state := d4\<rparr>, 0) });
         d' \<leftarrow> memcpy d 0 [insp2s_PAD_REPORT_ID, 0, 0, 0, insp2s_last_button_state s1, wheel];
         Some (s1, d', 6) }
       else if d1 AND 0x80 \<noteq> 0 then do {
         let (s1, v) = insp2s_pen s d1;
         d' \<leftarrow> wr d 1 v;
         Some (s1, d', 0) }
       else Some (s, d, 0) }
     else Some (s, d, 0) })"

interpretation insp2s_events: hid_program insp2s_fix_events 10
  by unfold_locales (auto simp: insp2s_fix_events_def split: prod.split)


definition insp2s_probe :: "hid_bpf_probe_args \<Rightarrow> hid_bpf_probe_args \<times> int" where
  "insp2s_probe a =
     ((if pa_rdesc_size a = insp2s_PAD_REPORT_DESCRIPTOR_LENGTH \<or> pa_rdesc_size a = insp2s_PEN_REPORT_DESCRIPTOR_LENGTH \<or> pa_rdesc_size a = insp2s_VENDOR_REPORT_DESCRIPTOR_LENGTH
       then a\<lparr>pa_retval := 0\<rparr> else a\<lparr>pa_retval := - EINVAL\<rparr>), 0)"

section \<open>What the reports deliver\<close>

lemma insp2s_fixed_rdesc_vendor_layout_8:
  "rdesc_layout insp2s_fixed_rdesc_vendor 8 = Some [
     (0xd0042, 8, 1), (0xd0044, 9, 1), (0xd005a, 10, 1), (0xd0032, 15, 1), (0x10030, 16, 16), (0x10031, 32, 16),
     (0xd0030, 48, 16)]"
  by code_simp

lemma insp2s_fixed_rdesc_vendor_layout_3:
  "rdesc_layout insp2s_fixed_rdesc_vendor 3 = Some [
     (0xd0044, 8, 1), (0x10030, 16, 8), (0x10031, 24, 8), (0x90001, 32, 1), (0x90002, 33, 1), (0x90003, 34, 1),
     (0x90004, 35, 1), (0x90005, 36, 1), (0x90006, 37, 1), (0x10038, 40, 8)]"
  by code_simp

definition insp2s_pen_report :: "u8 list \<Rightarrow> bool" where
  "insp2s_pen_report rep \<longleftrightarrow> 2 \<le> length rep \<and> rep ! 0 = insp2s_VENDOR_REPORT_ID \<and>
     rep ! 1 AND 0x20 = 0 \<and> rep ! 1 AND 0x80 \<noteq> 0"

lemma insp2s_pen_event:
  assumes "insp2s_pen_report rep"
  shows "device_event insp2s_fix_events 10 hid s rep
    = Some (fst (insp2s_pen s (rep ! 1)), Some (rep[1 := snd (insp2s_pen s (rep ! 1))]))"
proof -
  have "0 < length rep" "1 < length rep" using assms by (auto simp: insp2s_pen_report_def)
  then show ?thesis
    using assms by (intro device_event_patched)
      (auto simp: insp2s_pen_report_def insp2s_fix_events_def length_report_buffer report_buffer_nth split: prod.split)
qed

text \<open>The number of reports, from the next one on, that show the tip down although it is up.\<close>

definition insp2s_pending :: "insp2s_state \<Rightarrow> u8 \<Rightarrow> nat" where
  "insp2s_pending s d1 =
     (if insp2s_last_tip_state s \<noteq> 0 \<and> insp2s_last_sec_barrel_state s \<noteq> d1 AND 0x4 then 5
      else unat (insp2s_force_tip_down_count s))"

lemma insp2s_pen_tip_up:
  assumes "d1 AND 0x1 = 0"
  shows "snd (insp2s_pen s d1) = (if 0 < insp2s_pending s d1 then d1 OR 0x1 else d1)"
    and "insp2s_pending (fst (insp2s_pen s d1)) d2 = insp2s_pending s d1 - 1"
proof -
  have "0 < unat (insp2s_force_tip_down_count s) \<longleftrightarrow> 0 < insp2s_force_tip_down_count s"
    by (simp add: word_less_nat_alt)
  then show "snd (insp2s_pen s d1) = (if 0 < insp2s_pending s d1 then d1 OR 0x1 else d1)"
    using assms by (auto simp: insp2s_pen_def insp2s_pending_def Let_def or.assoc)
  show "insp2s_pending (fst (insp2s_pen s d1)) d2 = insp2s_pending s d1 - 1"
    using assms by (auto simp: insp2s_pen_def insp2s_pending_def Let_def unat_minus_one not_less)
qed

lemma insp2s_tip_up_run:
  "list_all (\<lambda>rep. insp2s_pen_report rep \<and> rep ! 1 AND 0x1 = 0) reps \<Longrightarrow> reps \<noteq> [] \<Longrightarrow>
   \<exists>s'. device_events insp2s_fix_events 10 hid s reps = Some (s', map Some
     (map (\<lambda>i. if i < insp2s_pending s (hd reps ! 1) then (reps ! i)[1 := reps ! i ! 1 OR 0x1] else reps ! i)
       [0..<length reps]))"
proof (induction reps arbitrary: s)
  case Nil
  then show ?case by simp
next
  case (Cons rep reps)
  let ?s1 = "fst (insp2s_pen s (rep ! 1))"
  have tip: "rep ! 1 AND 0x1 = 0" and pen: "insp2s_pen_report rep" using Cons.prems by auto
  have first: "device_event insp2s_fix_events 10 hid s rep = Some (?s1, Some
      (if 0 < insp2s_pending s (rep ! 1) then rep[1 := rep ! 1 OR 0x1] else rep))"
    using insp2s_pen_event [OF pen, of hid s] insp2s_pen_tip_up(1) [OF tip, of s] by simp
  have upt: "[0..<length (rep # reps)] = 0 # map Suc [0..<length reps]"
    by (simp add: upt_conv_Cons map_Suc_upt del: upt_Suc)
  show ?case
  proof (cases "reps = []")
    case True
    then show ?thesis using first by simp
  next
    case False
    have pend: "insp2s_pending ?s1 (hd reps ! 1) = insp2s_pending s (rep ! 1) - 1"
      using insp2s_pen_tip_up(2) [OF tip] .
    obtain s' where "device_events insp2s_fix_events 10 hid ?s1 reps = Some (s', map Some
        (map (\<lambda>i. if i < insp2s_pending s (rep ! 1) - 1 then (reps ! i)[1 := reps ! i ! 1 OR 0x1] else reps ! i)
          [0..<length reps]))"
      using Cons.IH [of ?s1] Cons.prems(1) False pend by auto
    then show ?thesis unfolding upt using first by (auto simp: less_diff_conv)
  qed
qed

text \<open>
  C1: The glitch filter of the Inspiroy 2 S, exactly, over a run of vendor pen reports with the tip
  up: after a press or release of the secondary barrel switch with the tip down (the tablet then
  sends false tip-up reports) the first five reports are delivered with the tip down, otherwise as
  many as were left from an earlier change, and every later report of the run is delivered as it is.
  No other bit of any report changes, so a lifted pen is seen as lifted at the sixth report.
\<close>

theorem insp2s_tip_filter:
  assumes "list_all (\<lambda>rep. insp2s_pen_report rep \<and> rep ! 1 AND 0x1 = 0) reps" and "reps \<noteq> []"
  shows "\<exists>s' outs. device_events insp2s_fix_events 10 hid s reps = Some (s', map Some outs)
    \<and> length outs = length reps
    \<and> (\<forall>i < length reps.
         usage_value insp2s_fixed_rdesc_vendor (outs ! i) 0xd0042
           = Some (of_bool (i < (if insp2s_last_tip_state s \<noteq> 0 \<and> insp2s_last_sec_barrel_state s \<noteq> hd reps ! 1 AND 0x4
                                 then 5 else unat (insp2s_force_tip_down_count s))))
         \<and> (\<forall>j < length (reps ! i). j \<noteq> 1 \<longrightarrow> outs ! i ! j = reps ! i ! j)
         \<and> (\<forall>k < 8. k \<noteq> 0 \<longrightarrow> bit (outs ! i ! 1) k = bit (reps ! i ! 1) k))"
proof -
  let ?n = "insp2s_pending s (hd reps ! 1)"
  let ?out = "\<lambda>i. if i < ?n then (reps ! i)[1 := reps ! i ! 1 OR 0x1] else reps ! i"
  obtain s' where ev: "device_events insp2s_fix_events 10 hid s reps = Some (s', map Some (map ?out [0..<length reps]))"
    using insp2s_tip_up_run [OF assms, of hid s] by blast
  have "usage_value insp2s_fixed_rdesc_vendor (?out i) 0xd0042 = Some (of_bool (i < ?n))
      \<and> (\<forall>j < length (reps ! i). j \<noteq> 1 \<longrightarrow> ?out i ! j = reps ! i ! j)
      \<and> (\<forall>k < 8. k \<noteq> 0 \<longrightarrow> bit (?out i ! 1) k = bit (reps ! i ! 1) k)" if i: "i < length reps" for i
  proof -
    have pen: "insp2s_pen_report (reps ! i)" and "reps ! i ! 1 AND 1 = 0"
      using assms(1) i by (auto simp: list_all_length)
    then have up: "\<not> bit (reps ! i ! 1) 0" by (simp add: and_one_eq even_iff_mod_2_eq_zero bit_0)
    have len: "1 < length (?out i)" and id: "?out i ! 0 = 8"
      using pen by (auto simp: insp2s_pen_report_def)
    obtain rest where out: "?out i = 8 # rest" using len id by (cases "?out i") auto
    have tip: "bit (?out i ! 1) 0 = (i < ?n)"
      using up pen by (auto simp: insp2s_pen_report_def bit_or_iff bit_1_iff)
    have "usage_value insp2s_fixed_rdesc_vendor (?out i) 0xd0042 = Some (read_bits (?out i) 8 1)"
      unfolding out by (simp add: usage_value_def usage_slot_def insp2s_fixed_rdesc_vendor_layout_8)
    also have "\<dots> = Some (of_bool (i < ?n))"
      using read_bit [of 0 1 "?out i"] len tip by simp
    finally show ?thesis
      using pen by (auto simp: insp2s_pen_report_def bit_or_iff bit_1_iff)
  qed
  note outs = this
  define f where "f i = (if i < ?n then (reps ! i)[1 := reps ! i ! 1 OR 0x1] else reps ! i)" for i
  note ev = ev [folded f_def] and outs = outs [folded f_def]
  show ?thesis
    unfolding insp2s_pending_def [symmetric]
  proof (intro exI conjI allI impI)
    show "device_events insp2s_fix_events 10 hid s reps = Some (s', map Some (map f [0..<length reps]))"
      by (rule ev)
  qed (use outs in simp_all)
qed

theorem insp2s_tip_filter_witness:
  "\<exists>s' outs. device_events insp2s_fix_events 10 \<lparr>hdev_id = 1, hdev_bus = 3, hdev_product = 0x66, hdev_name = []\<rparr>
      \<lparr>insp2s_fw_id = [], insp2s_last_button_state = 0, insp2s_last_tip_state = 1,
       insp2s_last_sec_barrel_state = 0, insp2s_force_tip_down_count = 0\<rparr>
      (replicate 6 [8, 0x84, 0, 0, 0, 0, 0, 0, 0, 0]) = Some (s', map Some outs)
    \<and> usage_value insp2s_fixed_rdesc_vendor (outs ! 4) 0xd0042 = Some 1
    \<and> usage_value insp2s_fixed_rdesc_vendor (outs ! 5) 0xd0042 = Some 0"
proof -
  let ?reps = "replicate 6 [8, 0x84, 0, 0, 0, 0, 0, 0, 0, 0] :: u8 list list"
  let ?s = "\<lparr>insp2s_fw_id = [], insp2s_last_button_state = 0, insp2s_last_tip_state = 1,
       insp2s_last_sec_barrel_state = 0, insp2s_force_tip_down_count = 0\<rparr>"
  let ?hid = "\<lparr>hdev_id = 1, hdev_bus = 3, hdev_product = 0x66, hdev_name = []\<rparr>"
  have "list_all (\<lambda>rep. insp2s_pen_report rep \<and> rep ! 1 AND 0x1 = 0) ?reps" by code_simp
  then obtain s' outs where ev: "device_events insp2s_fix_events 10 ?hid ?s ?reps = Some (s', map Some outs)"
    and tip: "\<And>i. i < 6 \<Longrightarrow> usage_value insp2s_fixed_rdesc_vendor (outs ! i) 0xd0042 = Some (of_bool (i < 5))"
    using insp2s_tip_filter [of ?reps ?hid ?s] by auto
  show ?thesis using ev tip [of 4] tip [of 5] by (intro exI [of _ s'] exI [of _ outs]) simp
qed

text \<open>
  Every vendor pad report of the Inspiroy 2 S (buttons or wheel) is delivered as a pad report of
  the length the installed descriptor declares; read through that descriptor its button usages show
  the buttons of the last button report, and its wheel usage is 0 for a button report and the step
  of a wheel report (2 is a step back).
\<close>

theorem insp2s_pad_usages:
  assumes "6 \<le> length rep" and "rep ! 0 = insp2s_VENDOR_REPORT_ID" and "rep ! 1 AND 0x20 \<noteq> 0"
  shows "\<exists>s' out. device_event insp2s_fix_events 10 hid s rep = Some (s', Some out)
    \<and> conforms [(8, 8), (3, 6), (172, 12)] out
    \<and> insp2s_last_button_state s' = (if rep ! 1 = 0xf1 then insp2s_last_button_state s else rep ! 4)
    \<and> (\<forall>k < 6. usage_value insp2s_fixed_rdesc_vendor out (0x90001 + int k)
         = Some (of_bool (bit (insp2s_last_button_state s') k)))
    \<and> usage_value insp2s_fixed_rdesc_vendor out 0x10038
        = Some (if rep ! 1 \<noteq> 0xf1 then 0 else if rep ! 5 = 2 then 0xff else uint (rep ! 5))"
proof -
  let ?b = "if rep ! 1 = 0xf1 then insp2s_last_button_state s else rep ! 4"
  let ?w = "if rep ! 1 \<noteq> 0xf1 then 0 else if rep ! 5 = 2 then 0xff else rep ! 5"
  let ?out = "[3, 0, 0, 0, ?b, ?w] :: u8 list"
  have len: "0 < length rep" "1 < length rep" "4 < length rep" "5 < length rep" using assms(1) by linarith+
  have ev: "device_event insp2s_fix_events 10 hid s rep = Some (s\<lparr>insp2s_last_button_state := ?b\<rparr>, Some ?out)"
    using assms(2,3) len
    by (intro device_event_replaced [where rest = "drop 6 (take 10 (report_buffer rep))"])
      (simp_all add: insp2s_fix_events_def length_report_buffer report_buffer_nth, auto simp: eval_nat_numeral)
  have "usage_value insp2s_fixed_rdesc_vendor ?out (0x90001 + int k) = Some (of_bool (bit ?b k))" if k: "k < 6" for k
  proof -
    have "list_all (\<lambda>k. map_of [(0xd0044, 8, 1), (0x10030, 16, 8), (0x10031, 24, 8), (0x90001, 32, 1),
        (0x90002, 33, 1), (0x90003, 34, 1), (0x90004, 35, 1), (0x90005, 36, 1), (0x90006, 37, 1), (0x10038, 40, 8)]
        (0x90001 + int k) = Some (32 + int k, 1 :: int)) [0..<6]"
      by code_simp
    then have "usage_slot insp2s_fixed_rdesc_vendor 3 (0x90001 + int k) = Some (32 + int k, 1)"
      using k by (simp add: usage_slot_def insp2s_fixed_rdesc_vendor_layout_3 list_all_iff)
    then show ?thesis
      using k read_bit [of k 4 ?out] by (simp add: usage_value_def nat_add_distrib)
  qed
  moreover have "usage_value insp2s_fixed_rdesc_vendor ?out 0x10038 = Some (uint ?w)"
    using read_byte [of 5 ?out] by (simp add: usage_value_def usage_slot_def insp2s_fixed_rdesc_vendor_layout_3)
  moreover have "conforms [(8, 8), (3, 6), (172, 12)] ?out" by (simp add: conforms_def)
  ultimately show ?thesis
    unfolding ev by (intro exI [of _ "s\<lparr>insp2s_last_button_state := ?b\<rparr>"] exI [of _ ?out]) auto
qed

theorem insp2s_pad_usages_witness:
  "\<exists>s' out. device_event insp2s_fix_events 10 \<lparr>hdev_id = 1, hdev_bus = 3, hdev_product = 0x66, hdev_name = []\<rparr>
      \<lparr>insp2s_fw_id = [], insp2s_last_button_state = 5, insp2s_last_tip_state = 0,
       insp2s_last_sec_barrel_state = 0, insp2s_force_tip_down_count = 0\<rparr>
      [8, 0xf1, 1, 1, 0, 2, 0, 0, 0, 0] = Some (s', Some out)
    \<and> usage_value insp2s_fixed_rdesc_vendor out 0x90003 = Some 1
    \<and> usage_value insp2s_fixed_rdesc_vendor out 0x10038 = Some 0xff"
proof -
  let ?s = "\<lparr>insp2s_fw_id = [], insp2s_last_button_state = 5, insp2s_last_tip_state = 0,
       insp2s_last_sec_barrel_state = 0, insp2s_force_tip_down_count = 0\<rparr>"
  let ?hid = "\<lparr>hdev_id = 1, hdev_bus = 3, hdev_product = 0x66, hdev_name = []\<rparr>"
  obtain s' out where
    "device_event insp2s_fix_events 10 ?hid ?s [8, 0xf1, 1, 1, 0, 2, 0, 0, 0, 0] = Some (s', Some out)"
    "insp2s_last_button_state s' = 5"
    "\<And>k. k < 6 \<Longrightarrow> usage_value insp2s_fixed_rdesc_vendor out (0x90001 + int k)
         = Some (of_bool (bit (insp2s_last_button_state s') k))"
    "usage_value insp2s_fixed_rdesc_vendor out 0x10038 = Some 0xff"
    using insp2s_pad_usages [of "[8, 0xf1, 1, 1, 0, 2, 0, 0, 0, 0]" ?hid ?s] by auto
  from this(1,2) this(3) [of 2] this(4) show ?thesis by auto
qed

end
