(* ===== verification/Huion_Inspiroy2S_0010.thy ===== *)
theory Huion_Inspiroy2S_0010
  imports Kernel_Iface Rdesc_Spec
begin

unbundle bit_operations_syntax

text \<open>
  \<open>0010-Huion__Inspiroy-2-S.bpf.c\<close>: the program 0020 supersedes, without the pen filter.
\<close>


abbreviation (input) insp2s10_VID_HUION :: "'a::numeral" where "insp2s10_VID_HUION \<equiv> 0x256c"

abbreviation (input) insp2s10_PID_INSPIROY_2_S :: "'a::numeral" where "insp2s10_PID_INSPIROY_2_S \<equiv> 0x0066"

abbreviation (input) insp2s10_PAD_REPORT_DESCRIPTOR_LENGTH :: "'a::numeral" where "insp2s10_PAD_REPORT_DESCRIPTOR_LENGTH \<equiv> 65"

abbreviation (input) insp2s10_PEN_REPORT_DESCRIPTOR_LENGTH :: "'a::numeral" where "insp2s10_PEN_REPORT_DESCRIPTOR_LENGTH \<equiv> 93"

abbreviation (input) insp2s10_VENDOR_REPORT_DESCRIPTOR_LENGTH :: "'a::numeral" where "insp2s10_VENDOR_REPORT_DESCRIPTOR_LENGTH \<equiv> 18"

abbreviation (input) insp2s10_PAD_REPORT_ID :: "'a::numeral" where "insp2s10_PAD_REPORT_ID \<equiv> 3"

abbreviation (input) insp2s10_PEN_REPORT_ID :: "'a::numeral" where "insp2s10_PEN_REPORT_ID \<equiv> 10"

abbreviation (input) insp2s10_VENDOR_REPORT_ID :: "'a::numeral" where "insp2s10_VENDOR_REPORT_ID \<equiv> 8"

abbreviation (input) insp2s10_PAD_REPORT_LENGTH :: "'a::numeral" where "insp2s10_PAD_REPORT_LENGTH \<equiv> 8"

abbreviation (input) insp2s10_PEN_REPORT_LENGTH :: "'a::numeral" where "insp2s10_PEN_REPORT_LENGTH \<equiv> 10"

abbreviation (input) insp2s10_VENDOR_REPORT_LENGTH :: "'a::numeral" where "insp2s10_VENDOR_REPORT_LENGTH \<equiv> 12"

text \<open>The globals of the program; the firmware id is stored by the loader.\<close>

record insp2s10_state =
  insp2s10_fw_id :: "u8 list"
  insp2s10_last_button_state :: u8


definition insp2s10_EXPECTED_FIRMWARE_ID :: "u8 list" where
  "insp2s10_EXPECTED_FIRMWARE_ID = map of_char ''HUION_T21j_''"

definition insp2s10_fixed_rdesc_pad_ini :: initializer where
  "insp2s10_fixed_rdesc_pad_ini = concat [
     UsagePage_GenericDesktop,
     Usage_GD_Keypad,
     CollectionApplication (concat [
       ReportId insp2s10_PAD_REPORT_ID,
       LogicalMinimum_i8 0,
       LogicalMaximum_i8 1,
       UsagePage_Digitizers,
       Usage_Dig_TabletFunctionKeys,
       CollectionPhysical (concat [
         Usage_Dig_BarrelSwitch,
         ReportCount 1,
         ReportSize 1,
         Input (Var OR Abs),
         ReportCount 7,
         Input Const,
         UsagePage_GenericDesktop,
         Usage_GD_X,
         Usage_GD_Y,
         ReportCount 2,
         ReportSize 8,
         Input (Var OR Abs),
         Usage_GD_Wheel,
         LogicalMinimum_i8 (- 1),
         LogicalMaximum_i8 1,
         ReportCount 1,
         ReportSize 8,
         Input (Var OR Rel),
         UsagePage_Button,
         UsageMinimum_i8 0x1,
         UsageMaximum_i8 0x6,
         LogicalMinimum_i8 0x1,
         LogicalMaximum_i8 0x6,
         ReportCount 1,
         ReportSize 8,
         Input (Arr OR Abs)]),
       FixedSizeVendorReport insp2s10_PAD_REPORT_LENGTH])]"

definition insp2s10_fixed_rdesc_pad :: "u8 list" where
  "insp2s10_fixed_rdesc_pad = bytes insp2s10_fixed_rdesc_pad_ini"

definition insp2s10_fixed_rdesc_pen_ini :: initializer where
  "insp2s10_fixed_rdesc_pen_ini = concat [
     UsagePage_Digitizers,
     Usage_Dig_Pen,
     CollectionApplication (concat [
       ReportId insp2s10_PEN_REPORT_ID,
       Usage_Dig_Pen,
       CollectionPhysical (concat [
         Usage_Dig_TipSwitch,
         Usage_Dig_BarrelSwitch,
         Usage_Dig_SecondaryBarrelSwitch,
         LogicalMinimum_i8 0,
         LogicalMaximum_i8 1,
         ReportSize 1,
         ReportCount 3,
         Input (Var OR Abs),
         ReportCount 4,
         Input Const,
         Usage_Dig_InRange,
         ReportCount 1,
         Input (Var OR Abs),
         ReportSize 16,
         ReportCount 1,
         PushPop (concat [
           UsagePage_GenericDesktop,
           Unit cm,
           UnitExponent (- 1),
           PhysicalMinimum_i16 0,
           PhysicalMaximum_i16 160,
           LogicalMinimum_i16 0,
           LogicalMaximum_i16 32767,
           Usage_GD_X,
           Input (Var OR Abs),
           PhysicalMinimum_i16 0,
           PhysicalMaximum_i16 100,
           LogicalMinimum_i16 0,
           LogicalMaximum_i16 32767,
           Usage_GD_Y,
           Input (Var OR Abs)]),
         UsagePage_Digitizers,
         Usage_Dig_TipPressure,
         LogicalMinimum_i16 0,
         LogicalMaximum_i16 8191,
         Input (Var OR Abs),
         ReportSize 8,
         ReportCount 2,
         Input Const])])]"

definition insp2s10_fixed_rdesc_pen :: "u8 list" where
  "insp2s10_fixed_rdesc_pen = bytes insp2s10_fixed_rdesc_pen_ini"

definition insp2s10_fixed_rdesc_vendor_ini :: initializer where
  "insp2s10_fixed_rdesc_vendor_ini = concat [
     UsagePage_Digitizers,
     Usage_Dig_Pen,
     CollectionApplication (concat [
       ReportId insp2s10_VENDOR_REPORT_ID,
       Usage_Dig_Pen,
       CollectionPhysical (concat [
         LogicalMinimum_i8 0,
         LogicalMaximum_i8 1,
         ReportSize 1,
         Usage_Dig_TipSwitch,
         Usage_Dig_BarrelSwitch,
         Usage_Dig_SecondaryBarrelSwitch,
         ReportCount 3,
         Input (Var OR Abs),
         ReportCount 4,
         Input Const,
         Usage_Dig_InRange,
         ReportCount 1,
         Input (Var OR Abs),
         ReportSize 16,
         ReportCount 1,
         PushPop (concat [
           UsagePage_GenericDesktop,
           Unit cm,
           UnitExponent (- 1),
           LogicalMinimum_i16 0,
           LogicalMaximum_i16 32000,
           PhysicalMinimum_i16 0,
           PhysicalMaximum_i16 160,
           Usage_GD_X,
           Input (Var OR Abs),
           LogicalMinimum_i16 0,
           LogicalMaximum_i16 20000,
           PhysicalMinimum_i16 0,
           PhysicalMaximum_i16 100,
           Usage_GD_Y,
           Input (Var OR Abs)]),
         LogicalMinimum_i16 0,
         LogicalMaximum_i16 8192,
         Usage_Dig_TipPressure,
         Input (Var OR Abs)])]),
     UsagePage_GenericDesktop,
     Usage_GD_Keypad,
     CollectionApplication (concat [
       ReportId insp2s10_PAD_REPORT_ID,
       LogicalMinimum_i8 0,
       LogicalMaximum_i8 1,
       UsagePage_Digitizers,
       Usage_Dig_TabletFunctionKeys,
       CollectionPhysical (concat [
         Usage_Dig_BarrelSwitch,
         ReportCount 1,
         ReportSize 1,
         Input (Var OR Abs),
         ReportCount 7,
         Input Const,
         UsagePage_GenericDesktop,
         Usage_GD_X,
         Usage_GD_Y,
         ReportCount 2,
         ReportSize 8,
         Input (Var OR Abs),
         UsagePage_Button,
         UsageMinimum_i8 0x1,
         UsageMaximum_i8 0x6,
         LogicalMinimum_i8 0x0,
         LogicalMaximum_i8 0x1,
         ReportCount 6,
         ReportSize 1,
         Input (Var OR Abs),
         ReportCount 2,
         Input Const,
         UsagePage_GenericDesktop,
         Usage_GD_Wheel,
         LogicalMinimum_i8 (- 1),
         LogicalMaximum_i8 1,
         ReportCount 1,
         ReportSize 8,
         Input (Var OR Rel)]),
       FixedSizeVendorReport insp2s10_VENDOR_REPORT_LENGTH])]"

definition insp2s10_fixed_rdesc_vendor :: "u8 list" where
  "insp2s10_fixed_rdesc_vendor = bytes insp2s10_fixed_rdesc_vendor_ini"

definition insp2s10_disabled_rdesc_pen_ini :: initializer where
  "insp2s10_disabled_rdesc_pen_ini = concat [
     FixedSizeVendorReport insp2s10_PEN_REPORT_LENGTH]"

definition insp2s10_disabled_rdesc_pen :: "u8 list" where
  "insp2s10_disabled_rdesc_pen = bytes insp2s10_disabled_rdesc_pen_ini"

definition insp2s10_disabled_rdesc_pad_ini :: initializer where
  "insp2s10_disabled_rdesc_pad_ini = concat [
     FixedSizeVendorReport insp2s10_PAD_REPORT_LENGTH]"

definition insp2s10_disabled_rdesc_pad :: "u8 list" where
  "insp2s10_disabled_rdesc_pad = bytes insp2s10_disabled_rdesc_pad_ini"

lemma length_insp2s10_fixed_rdesc_pad [simp]: "length insp2s10_fixed_rdesc_pad = 88"
  by code_simp

lemma insp2s10_fixed_rdesc_pad_declares [rdesc_facts]:
  "static_ok insp2s10_fixed_rdesc_pad_ini \<and> rdesc_declares insp2s10_fixed_rdesc_pad [(3, 6), (172, 8)]"
  by code_simp

lemma length_insp2s10_fixed_rdesc_pen [simp]: "length insp2s10_fixed_rdesc_pen = 102"
  by code_simp

lemma insp2s10_fixed_rdesc_pen_declares [rdesc_facts]:
  "static_ok insp2s10_fixed_rdesc_pen_ini \<and> rdesc_declares insp2s10_fixed_rdesc_pen [(10, 10)]"
  by code_simp

lemma length_insp2s10_fixed_rdesc_vendor [simp]: "length insp2s10_fixed_rdesc_vendor = 188"
  by code_simp

lemma insp2s10_fixed_rdesc_vendor_declares [rdesc_facts]:
  "static_ok insp2s10_fixed_rdesc_vendor_ini \<and> rdesc_declares insp2s10_fixed_rdesc_vendor [(8, 8), (3, 6), (172, 12)]"
  by code_simp

lemma length_insp2s10_disabled_rdesc_pen [simp]: "length insp2s10_disabled_rdesc_pen = 16"
  by code_simp

lemma insp2s10_disabled_rdesc_pen_declares [rdesc_facts]:
  "static_ok insp2s10_disabled_rdesc_pen_ini \<and> rdesc_declares insp2s10_disabled_rdesc_pen [(172, 10)]"
  by code_simp

lemma length_insp2s10_disabled_rdesc_pad [simp]: "length insp2s10_disabled_rdesc_pad = 16"
  by code_simp

lemma insp2s10_disabled_rdesc_pad_declares [rdesc_facts]:
  "static_ok insp2s10_disabled_rdesc_pad_ini \<and> rdesc_declares insp2s10_disabled_rdesc_pad [(172, 8)]"
  by code_simp

definition insp2s10_fix_rdesc :: "insp2s10_state program" where
  "insp2s10_fix_rdesc s c data = (case data of None \<Rightarrow> Some (s, [], 0) | Some d \<Rightarrow>
     let rdesc_size = ctx_size c; have_fw_id = has_prefix (insp2s10_fw_id s) insp2s10_EXPECTED_FIRMWARE_ID in
     if rdesc_size = insp2s10_PAD_REPORT_DESCRIPTOR_LENGTH then
       (if have_fw_id then
          do { d1 \<leftarrow> memcpy d 0 insp2s10_disabled_rdesc_pad; Some (s, d1, int (length insp2s10_disabled_rdesc_pad)) }
        else
          do { d1 \<leftarrow> memcpy d 0 insp2s10_fixed_rdesc_pad; Some (s, d1, int (length insp2s10_fixed_rdesc_pad)) })
     else if rdesc_size = insp2s10_PEN_REPORT_DESCRIPTOR_LENGTH then
       (if have_fw_id then
          do { d1 \<leftarrow> memcpy d 0 insp2s10_disabled_rdesc_pen; Some (s, d1, int (length insp2s10_disabled_rdesc_pen)) }
        else
          do { d1 \<leftarrow> memcpy d 0 insp2s10_fixed_rdesc_pen; Some (s, d1, int (length insp2s10_fixed_rdesc_pen)) })
     else if rdesc_size = insp2s10_VENDOR_REPORT_DESCRIPTOR_LENGTH then
       do { d1 \<leftarrow> memcpy d 0 insp2s10_fixed_rdesc_vendor; Some (s, d1, int (length insp2s10_fixed_rdesc_vendor)) }
     else Some (s, d, 0))"

definition insp2s10_new_rdesc :: "insp2s10_state \<Rightarrow> int \<Rightarrow> u8 list option" where
  "insp2s10_new_rdesc s n =
     (if n = insp2s10_PAD_REPORT_DESCRIPTOR_LENGTH then Some (if has_prefix (insp2s10_fw_id s) insp2s10_EXPECTED_FIRMWARE_ID then insp2s10_disabled_rdesc_pad else insp2s10_fixed_rdesc_pad)
      else if n = insp2s10_PEN_REPORT_DESCRIPTOR_LENGTH then Some (if has_prefix (insp2s10_fw_id s) insp2s10_EXPECTED_FIRMWARE_ID then insp2s10_disabled_rdesc_pen else insp2s10_fixed_rdesc_pen)
      else if n = insp2s10_VENDOR_REPORT_DESCRIPTOR_LENGTH then Some insp2s10_fixed_rdesc_vendor
      else None)"

interpretation insp2s10_fixup: replacing_fixup insp2s10_fix_rdesc "\<lambda>s c. insp2s10_new_rdesc s (ctx_size c)"
  by unfold_locales
    (auto simp: insp2s10_fix_rdesc_def insp2s10_new_rdesc_def Let_def split: if_splits)

text \<open>The keyboard shortcut a pad key or the wheel sends in default mode: button number and wheel step.\<close>

definition insp2s10_pad_key :: "u16 \<Rightarrow> u8 \<times> u8" where
  "insp2s10_pad_key code =
     (if code = 0x0000 then (0, 0)
      else if code = 0x0005 then (1, 0)
      else if code = 0x000c then (2, 0)
      else if code = 0x0008 then (3, 0)
      else if code = 0x0116 then (4, 0)
      else if code = 0x002c then (5, 0)
      else if code = 0x051d then (6, 0)
      else if code = 0x012d then (0, 0xff)
      else if code = 0x012e then (0, 1)
      else (0, 0))"

definition insp2s10_fix_events :: "insp2s10_state program" where
  "insp2s10_fix_events s c data = (case data of None \<Rightarrow> Some (s, [], 0) | Some d \<Rightarrow> do {
     d0 \<leftarrow> rd d 0;
     if d0 = insp2s10_PAD_REPORT_ID then do {
       d1 \<leftarrow> rd d 1; d2 \<leftarrow> rd d 2;
       let (button, wheel) = insp2s10_pad_key (le16 d2 d1);
       let report = [insp2s10_PAD_REPORT_ID, 0x0, 0x0, 0x0, wheel, button];
       d' \<leftarrow> memcpy d 0 report;
       Some (s, d', int (length report)) }
     else if d0 = insp2s10_VENDOR_REPORT_ID then do {
       d1 \<leftarrow> rd d 1;
       if d1 AND 0x20 \<noteq> 0 then do {
         (s1, wheel) \<leftarrow>
           (if d1 = 0xf1 then do {
              d5 \<leftarrow> rd d 5;
              Some (s, if d5 = 2 then 0xff else d5) }
            else do {
              d4 \<leftarrow> rd d 4;
              Some (s\<lparr>insp2s10_last_button_state := d4\<rparr>, 0) });
         d' \<leftarrow> memcpy d 0 [insp2s10_PAD_REPORT_ID, 0, 0, 0, insp2s10_last_button_state s1, wheel];
         Some (s1, d', 6) }
       else Some (s, d, 0) }
     else Some (s, d, 0) })"

interpretation insp2s10_events: hid_program insp2s10_fix_events 10
  by unfold_locales (auto simp: insp2s10_fix_events_def split: prod.split)


definition insp2s10_probe :: "hid_bpf_probe_args \<Rightarrow> hid_bpf_probe_args \<times> int" where
  "insp2s10_probe a =
     ((if pa_rdesc_size a = insp2s10_PAD_REPORT_DESCRIPTOR_LENGTH \<or> pa_rdesc_size a = insp2s10_PEN_REPORT_DESCRIPTOR_LENGTH \<or> pa_rdesc_size a = insp2s10_VENDOR_REPORT_DESCRIPTOR_LENGTH
       then a\<lparr>pa_retval := 0\<rparr> else a\<lparr>pa_retval := - EINVAL\<rparr>), 0)"

end
