(* ===== verification/Huion_Inspiroy2M.thy ===== *)
theory Huion_Inspiroy2M
  imports Kernel_Iface Rdesc_Spec
begin

unbundle bit_operations_syntax

text \<open>
  \<open>0010-Huion__Inspiroy-2-M.bpf.c\<close>: the descriptors and their replacements, and the translation of
  pad reports of both modes (sixteen buttons and a wheel in raw mode).
\<close>


abbreviation (input) insp2m_VID_HUION :: "'a::numeral" where "insp2m_VID_HUION \<equiv> 0x256c"

abbreviation (input) insp2m_PID_INSPIROY_2_M :: "'a::numeral" where "insp2m_PID_INSPIROY_2_M \<equiv> 0x0067"

abbreviation (input) insp2m_PAD_REPORT_DESCRIPTOR_LENGTH :: "'a::numeral" where "insp2m_PAD_REPORT_DESCRIPTOR_LENGTH \<equiv> 133"

abbreviation (input) insp2m_PEN_REPORT_DESCRIPTOR_LENGTH :: "'a::numeral" where "insp2m_PEN_REPORT_DESCRIPTOR_LENGTH \<equiv> 93"

abbreviation (input) insp2m_VENDOR_REPORT_DESCRIPTOR_LENGTH :: "'a::numeral" where "insp2m_VENDOR_REPORT_DESCRIPTOR_LENGTH \<equiv> 36"

abbreviation (input) insp2m_PAD_REPORT_ID :: "'a::numeral" where "insp2m_PAD_REPORT_ID \<equiv> 3"

abbreviation (input) insp2m_PEN_REPORT_ID :: "'a::numeral" where "insp2m_PEN_REPORT_ID \<equiv> 10"

abbreviation (input) insp2m_VENDOR_REPORT_ID :: "'a::numeral" where "insp2m_VENDOR_REPORT_ID \<equiv> 8"

abbreviation (input) insp2m_PAD_REPORT_LENGTH :: "'a::numeral" where "insp2m_PAD_REPORT_LENGTH \<equiv> 8"

abbreviation (input) insp2m_PEN_REPORT_LENGTH :: "'a::numeral" where "insp2m_PEN_REPORT_LENGTH \<equiv> 10"

abbreviation (input) insp2m_VENDOR_REPORT_LENGTH :: "'a::numeral" where "insp2m_VENDOR_REPORT_LENGTH \<equiv> 12"

text \<open>The globals of the program; the firmware id is stored by the loader.\<close>

record insp2m_state =
  insp2m_fw_id :: "u8 list"
  insp2m_last_button_state :: u16


definition insp2m_EXPECTED_FIRMWARE_ID :: "u8 list" where
  "insp2m_EXPECTED_FIRMWARE_ID = map of_char ''HUION_T21k_''"

definition insp2m_fixed_rdesc_pad_ini :: initializer where
  "insp2m_fixed_rdesc_pad_ini = concat [
     UsagePage_GenericDesktop,
     Usage_GD_Keypad,
     CollectionApplication (concat [
       ReportId insp2m_PAD_REPORT_ID,
       LogicalMinimum_i8 0,
       LogicalMaximum_i8 1,
       UsagePage_Digitizers,
       Usage_Dig_TabletFunctionKeys,
       CollectionPhysical (concat [
         Usage_Dig_BarrelSwitch,
         ReportCount 1,
         ReportSize 1,
         Input (Var OR Abs),
         ReportCount 7,
         Input Const,
         UsagePage_GenericDesktop,
         Usage_GD_X,
         Usage_GD_Y,
         ReportCount 2,
         ReportSize 8,
         Input (Var OR Abs),
         Usage_GD_Wheel,
         LogicalMinimum_i8 (- 1),
         LogicalMaximum_i8 1,
         ReportCount 1,
         ReportSize 8,
         Input (Var OR Rel),
         UsagePage_Button,
         UsageMinimum_i8 0x1,
         UsageMaximum_i8 0x8,
         LogicalMinimum_i8 0x1,
         LogicalMaximum_i8 0x8,
         ReportCount 1,
         ReportSize 8,
         Input (Arr OR Abs)]),
       FixedSizeVendorReport insp2m_PAD_REPORT_LENGTH])]"

definition insp2m_fixed_rdesc_pad :: "u8 list" where
  "insp2m_fixed_rdesc_pad = bytes insp2m_fixed_rdesc_pad_ini"

definition insp2m_fixed_rdesc_pen_ini :: initializer where
  "insp2m_fixed_rdesc_pen_ini = concat [
     UsagePage_Digitizers,
     Usage_Dig_Pen,
     CollectionApplication (concat [
       ReportId insp2m_PEN_REPORT_ID,
       Usage_Dig_Pen,
       CollectionPhysical (concat [
         Usage_Dig_TipSwitch,
         Usage_Dig_BarrelSwitch,
         Usage_Dig_SecondaryBarrelSwitch,
         LogicalMinimum_i8 0,
         LogicalMaximum_i8 1,
         ReportSize 1,
         ReportCount 3,
         Input (Var OR Abs),
         ReportCount 4,
         Input Const,
         Usage_Dig_InRange,
         ReportCount 1,
         Input (Var OR Abs),
         ReportSize 16,
         ReportCount 1,
         PushPop (concat [
           UsagePage_GenericDesktop,
           Unit cm,
           UnitExponent (- 1),
           PhysicalMinimum_i16 0,
           PhysicalMaximum_i16 160,
           LogicalMinimum_i16 0,
           LogicalMaximum_i16 32767,
           Usage_GD_X,
           Input (Var OR Abs),
           PhysicalMinimum_i16 0,
           PhysicalMaximum_i16 100,
           LogicalMinimum_i16 0,
           LogicalMaximum_i16 32767,
           Usage_GD_Y,
           Input (Var OR Abs)]),
         UsagePage_Digitizers,
         Usage_Dig_TipPressure,
         LogicalMinimum_i16 0,
         LogicalMaximum_i16 8191,
         Input (Var OR Abs),
         ReportSize 8,
         ReportCount 2,
         Input Const])])]"

definition insp2m_fixed_rdesc_pen :: "u8 list" where
  "insp2m_fixed_rdesc_pen = bytes insp2m_fixed_rdesc_pen_ini"

definition insp2m_fixed_rdesc_vendor_ini :: initializer where
  "insp2m_fixed_rdesc_vendor_ini = concat [
     UsagePage_Digitizers,
     Usage_Dig_Pen,
     CollectionApplication (concat [
       ReportId insp2m_VENDOR_REPORT_ID,
       Usage_Dig_Pen,
       CollectionPhysical (concat [
         LogicalMinimum_i8 0,
         LogicalMaximum_i8 1,
         ReportSize 1,
         Usage_Dig_TipSwitch,
         Usage_Dig_BarrelSwitch,
         Usage_Dig_SecondaryBarrelSwitch,
         ReportCount 3,
         Input (Var OR Abs),
         ReportCount 4,
         Input Const,
         Usage_Dig_InRange,
         ReportCount 1,
         Input (Var OR Abs),
         ReportSize 16,
         ReportCount 1,
         PushPop (concat [
           UsagePage_GenericDesktop,
           Unit cm,
           UnitExponent (- 1),
           LogicalMinimum_i16 0,
           LogicalMaximum_i16 32000,
           PhysicalMinimum_i16 0,
           PhysicalMaximum_i16 160,
           Usage_GD_X,
           Input (Var OR Abs),
           LogicalMinimum_i16 0,
           LogicalMaximum_i16 20000,
           PhysicalMinimum_i16 0,
           PhysicalMaximum_i16 100,
           Usage_GD_Y,
           Input (Var OR Abs)]),
         LogicalMinimum_i16 0,
         LogicalMaximum_i16 8192,
         Usage_Dig_TipPressure,
         Input (Var OR Abs)])]),
     UsagePage_GenericDesktop,
     Usage_GD_Keypad,
     CollectionApplication (concat [
       ReportId insp2m_PAD_REPORT_ID,
       LogicalMinimum_i8 0,
       LogicalMaximum_i8 1,
       UsagePage_Digitizers,
       Usage_Dig_TabletFunctionKeys,
       CollectionPhysical (concat [
         Usage_Dig_BarrelSwitch,
         ReportCount 1,
         ReportSize 1,
         Input (Var OR Abs),
         ReportCount 7,
         Input Const,
         UsagePage_GenericDesktop,
         Usage_GD_X,
         Usage_GD_Y,
         ReportCount 2,
         ReportSize 8,
         Input (Var OR Abs),
         UsagePage_Button,
         UsageMinimum_i8 0x1,
         UsageMaximum_i8 0xa,
         LogicalMinimum_i8 0x0,
         LogicalMaximum_i8 0x1,
         ReportCount 10,
         ReportSize 1,
         Input (Var OR Abs),
         Usage_i8 0x31,
         ReportCount 1,
         Input (Var OR Abs),
         ReportCount 5,
         Input Const,
         UsagePage_GenericDesktop,
         Usage_GD_Wheel,
         LogicalMinimum_i8 (- 1),
         LogicalMaximum_i8 1,
         ReportCount 1,
         ReportSize 8,
         Input (Var OR Rel)]),
       FixedSizeVendorReport insp2m_VENDOR_REPORT_LENGTH])]"

definition insp2m_fixed_rdesc_vendor :: "u8 list" where
  "insp2m_fixed_rdesc_vendor = bytes insp2m_fixed_rdesc_vendor_ini"

definition insp2m_disabled_rdesc_pen_ini :: initializer where
  "insp2m_disabled_rdesc_pen_ini = concat [
     FixedSizeVendorReport insp2m_PEN_REPORT_LENGTH]"

definition insp2m_disabled_rdesc_pen :: "u8 list" where
  "insp2m_disabled_rdesc_pen = bytes insp2m_disabled_rdesc_pen_ini"

definition insp2m_disabled_rdesc_pad_ini :: initializer where
  "insp2m_disabled_rdesc_pad_ini = concat [
     FixedSizeVendorReport insp2m_PAD_REPORT_LENGTH]"

definition insp2m_disabled_rdesc_pad :: "u8 list" where
  "insp2m_disabled_rdesc_pad = bytes insp2m_disabled_rdesc_pad_ini"

lemma length_insp2m_fixed_rdesc_pad [simp]: "length insp2m_fixed_rdesc_pad = 88"
  by code_simp

lemma insp2m_fixed_rdesc_pad_declares [rdesc_facts]:
  "static_ok insp2m_fixed_rdesc_pad_ini \<and> rdesc_declares insp2m_fixed_rdesc_pad [(3, 6), (172, 8)]"
  by code_simp

lemma length_insp2m_fixed_rdesc_pen [simp]: "length insp2m_fixed_rdesc_pen = 102"
  by code_simp

lemma insp2m_fixed_rdesc_pen_declares [rdesc_facts]:
  "static_ok insp2m_fixed_rdesc_pen_ini \<and> rdesc_declares insp2m_fixed_rdesc_pen [(10, 10)]"
  by code_simp

lemma length_insp2m_fixed_rdesc_vendor [simp]: "length insp2m_fixed_rdesc_vendor = 194"
  by code_simp

lemma insp2m_fixed_rdesc_vendor_declares [rdesc_facts]:
  "static_ok insp2m_fixed_rdesc_vendor_ini \<and> rdesc_declares insp2m_fixed_rdesc_vendor [(8, 8), (3, 7), (172, 12)]"
  by code_simp

lemma length_insp2m_disabled_rdesc_pen [simp]: "length insp2m_disabled_rdesc_pen = 16"
  by code_simp

lemma insp2m_disabled_rdesc_pen_declares [rdesc_facts]:
  "static_ok insp2m_disabled_rdesc_pen_ini \<and> rdesc_declares insp2m_disabled_rdesc_pen [(172, 10)]"
  by code_simp

lemma length_insp2m_disabled_rdesc_pad [simp]: "length insp2m_disabled_rdesc_pad = 16"
  by code_simp

lemma insp2m_disabled_rdesc_pad_declares [rdesc_facts]:
  "static_ok insp2m_disabled_rdesc_pad_ini \<and> rdesc_declares insp2m_disabled_rdesc_pad [(172, 8)]"
  by code_simp

definition insp2m_fix_rdesc :: "insp2m_state program" where
  "insp2m_fix_rdesc s c data = (case data of None \<Rightarrow> Some (s, [], 0) | Some d \<Rightarrow>
     let rdesc_size = ctx_size c; have_fw_id = has_prefix (insp2m_fw_id s) insp2m_EXPECTED_FIRMWARE_ID in
     if rdesc_size = insp2m_PAD_REPORT_DESCRIPTOR_LENGTH then
       (if have_fw_id then
          do { d1 \<leftarrow> memcpy d 0 insp2m_disabled_rdesc_pad; Some (s, d1, int (length insp2m_disabled_rdesc_pad)) }
        else
          do { d1 \<leftarrow> memcpy d 0 insp2m_fixed_rdesc_pad; Some (s, d1, int (length insp2m_fixed_rdesc_pad)) })
     else if rdesc_size = insp2m_PEN_REPORT_DESCRIPTOR_LENGTH then
       (if have_fw_id then
          do { d1 \<leftarrow> memcpy d 0 insp2m_disabled_rdesc_pen; Some (s, d1, int (length insp2m_disabled_rdesc_pen)) }
        else
          do { d1 \<leftarrow> memcpy d 0 insp2m_fixed_rdesc_pen; Some (s, d1, int (length insp2m_fixed_rdesc_pen)) })
     else if rdesc_size = insp2m_VENDOR_REPORT_DESCRIPTOR_LENGTH then
       do { d1 \<leftarrow> memcpy d 0 insp2m_fixed_rdesc_vendor; Some (s, d1, int (length insp2m_fixed_rdesc_vendor)) }
     else Some (s, d, 0))"

definition insp2m_new_rdesc :: "insp2m_state \<Rightarrow> int \<Rightarrow> u8 list option" where
  "insp2m_new_rdesc s n =
     (if n = insp2m_PAD_REPORT_DESCRIPTOR_LENGTH then Some (if has_prefix (insp2m_fw_id s) insp2m_EXPECTED_FIRMWARE_ID then insp2m_disabled_rdesc_pad else insp2m_fixed_rdesc_pad)
      else if n = insp2m_PEN_REPORT_DESCRIPTOR_LENGTH then Some (if has_prefix (insp2m_fw_id s) insp2m_EXPECTED_FIRMWARE_ID then insp2m_disabled_rdesc_pen else insp2m_fixed_rdesc_pen)
      else if n = insp2m_VENDOR_REPORT_DESCRIPTOR_LENGTH then Some insp2m_fixed_rdesc_vendor
      else None)"

interpretation insp2m_fixup: replacing_fixup insp2m_fix_rdesc "\<lambda>s c. insp2m_new_rdesc s (ctx_size c)"
  by unfold_locales
    (auto simp: insp2m_fix_rdesc_def insp2m_new_rdesc_def Let_def split: if_splits)

text \<open>The keyboard shortcut a pad key or the wheel sends in default mode: button number and wheel step.\<close>

definition insp2m_pad_key :: "u16 \<Rightarrow> u8 \<times> u8" where
  "insp2m_pad_key code =
     (if code = 0x0000 then (0, 0)
      else if code = 0x0005 then (1, 0)
      else if code = 0x0711 then (2, 0)
      else if code = 0x0008 then (3, 0)
      else if code = 0x000c then (4, 0)
      else if code = 0x002c then (5, 0)
      else if code = 0x0108 then (6, 0)
      else if code = 0x0116 then (7, 0)
      else if code = 0x051d then (8, 0)
      else if code = 0x012d then (0, 0xff)
      else if code = 0x012e then (0, 1)
      else (0, 0))"

definition insp2m_fix_events :: "insp2m_state program" where
  "insp2m_fix_events s c data = (case data of None \<Rightarrow> Some (s, [], 0) | Some d \<Rightarrow> do {
     d0 \<leftarrow> rd d 0;
     if d0 = insp2m_PAD_REPORT_ID then do {
       d1 \<leftarrow> rd d 1; d2 \<leftarrow> rd d 2;
       let (button, wheel) = insp2m_pad_key (le16 d2 d1);
       let report = [insp2m_PAD_REPORT_ID, 0x0, 0x0, 0x0, wheel, button];
       d' \<leftarrow> memcpy d 0 report;
       Some (s, d', int (length report)) }
     else if d0 = insp2m_VENDOR_REPORT_ID then do {
       d1 \<leftarrow> rd d 1;
       if d1 AND 0x20 \<noteq> 0 then do {
         (s1, wheel) \<leftarrow>
           (if d1 = 0xf1 then do {
              d5 \<leftarrow> rd d 5;
              Some (s, if d5 = 2 then 0xff else d5) }
            else do {
              d4 \<leftarrow> rd d 4;
              d5 \<leftarrow> rd d 5;
              Some (s\<lparr>insp2m_last_button_state := le16 d4 d5\<rparr>, 0) });
         d' \<leftarrow> memcpy d 0 [insp2m_PAD_REPORT_ID, 0, 0, 0,
                            byte_of 0 (insp2m_last_button_state s1), byte_of 1 (insp2m_last_button_state s1), wheel];
         Some (s1, d', 7) }
       else Some (s, d, 0) }
     else Some (s, d, 0) })"

interpretation insp2m_events: hid_program insp2m_fix_events 10
  by unfold_locales (auto simp: insp2m_fix_events_def split: prod.split)


definition insp2m_probe :: "hid_bpf_probe_args \<Rightarrow> hid_bpf_probe_args \<times> int" where
  "insp2m_probe a =
     ((if pa_rdesc_size a = insp2m_PAD_REPORT_DESCRIPTOR_LENGTH \<or> pa_rdesc_size a = insp2m_PEN_REPORT_DESCRIPTOR_LENGTH \<or> pa_rdesc_size a = insp2m_VENDOR_REPORT_DESCRIPTOR_LENGTH
       then a\<lparr>pa_retval := 0\<rparr> else a\<lparr>pa_retval := - EINVAL\<rparr>), 0)"

section \<open>Vendor pad reports\<close>

lemma insp2m_fixed_rdesc_vendor_layout_3:
  "rdesc_layout insp2m_fixed_rdesc_vendor 3 = Some [
     (0xd0044, 8, 1), (0x10030, 16, 8), (0x10031, 24, 8), (0x90001, 32, 1), (0x90002, 33, 1), (0x90003, 34, 1),
     (0x90004, 35, 1), (0x90005, 36, 1), (0x90006, 37, 1), (0x90007, 38, 1), (0x90008, 39, 1), (0x90009, 40, 1),
     (0x9000a, 41, 1), (0x90031, 42, 1), (0x10038, 48, 8)]"
  by code_simp

definition insp2m_button_usage :: "nat \<Rightarrow> int" where
  "insp2m_button_usage k = (if k < 10 then 0x90001 + int k else 0x90031)"

lemma insp2m_button_slots:
  "k < 11 \<Longrightarrow> usage_slot insp2m_fixed_rdesc_vendor 3 (insp2m_button_usage k) = Some (32 + int k, 1)"
proof -
  have "list_all (\<lambda>k. usage_slot insp2m_fixed_rdesc_vendor 3 (insp2m_button_usage k) = Some (32 + int k, 1)) [0..<11]"
    unfolding usage_slot_def insp2m_fixed_rdesc_vendor_layout_3 option.case by code_simp
  then show "k < 11 \<Longrightarrow> ?thesis" by (simp add: list_all_iff)
qed

text \<open>
  Every vendor pad report of the Inspiroy 2 M is delivered as a pad report of the declared seven bytes; its
  eleven button usages show the sixteen-bit state of the last button report, and its wheel usage the step of a
  wheel report (2 is a step back) and 0 for a button report.
\<close>

theorem insp2m_pad_usages:
  assumes "6 \<le> length rep" "rep ! 0 = insp2m_VENDOR_REPORT_ID" "rep ! 1 AND 0x20 \<noteq> 0"
  shows "\<exists>s' out. device_event insp2m_fix_events 10 hid s rep = Some (s', Some out)
    \<and> conforms [(8, 8), (3, 7), (172, 12)] out
    \<and> insp2m_last_button_state s' = (if rep ! 1 = 0xf1 then insp2m_last_button_state s else le16 (rep ! 4) (rep ! 5))
    \<and> (\<forall>k < 11. usage_value insp2m_fixed_rdesc_vendor out (insp2m_button_usage k)
         = Some (of_bool (bit (insp2m_last_button_state s') k)))
    \<and> usage_value insp2m_fixed_rdesc_vendor out 0x10038
        = Some (if rep ! 1 \<noteq> 0xf1 then 0 else if rep ! 5 = 2 then 0xff else uint (rep ! 5))"
proof -
  define b where "b = (if rep ! 1 = 0xf1 then insp2m_last_button_state s else le16 (rep ! 4) (rep ! 5))"
  define w where "w = (if rep ! 1 \<noteq> 0xf1 then 0 else if rep ! 5 = 2 then 0xff else rep ! 5)"
  define out where "out = [3, 0, 0, 0, byte_of 0 b, byte_of 1 b, w]"
  have len: "0 < length rep" "1 < length rep" "4 < length rep" "5 < length rep" using assms(1) by linarith+
  have ev: "device_event insp2m_fix_events 10 hid s rep = Some (s\<lparr>insp2m_last_button_state := b\<rparr>, Some out)"
    unfolding out_def b_def w_def using assms(2,3) len
    by (intro device_event_replaced [where rest = "drop 7 (take 10 (report_buffer rep))"])
      (simp_all add: insp2m_fix_events_def length_report_buffer report_buffer_nth, auto simp: eval_nat_numeral)
  have val: "usage_value insp2m_fixed_rdesc_vendor out u =
      map_option (\<lambda>(off, n). read_bits out (nat off) (nat n)) (usage_slot insp2m_fixed_rdesc_vendor 3 u)" for u
    by (simp add: usage_value_def out_def)
  have "read_bits out (32 + k) 1 = of_bool (bit b k)" if "k < 11" for k
    using that read_bit [of k 4 out] read_bit [of "k - 8" 5 out] bit_byte_of [of k 0 b] bit_byte_of [of "k - 8" 1 b]
    by (cases "k < 8") (simp_all add: out_def le_div_geq le_mod_geq)
  then have "\<forall>k < 11. usage_value insp2m_fixed_rdesc_vendor out (insp2m_button_usage k) = Some (of_bool (bit b k))"
    by (simp add: val insp2m_button_slots nat_add_distrib)
  moreover have "usage_value insp2m_fixed_rdesc_vendor out 0x10038 = Some (uint w)"
    using read_byte [of 6 out] by (simp add: val usage_slot_def insp2m_fixed_rdesc_vendor_layout_3) (simp add: out_def)
  moreover have "conforms [(8, 8), (3, 7), (172, 12)] out" by (simp add: conforms_def out_def)
  ultimately show ?thesis
    unfolding ev by (intro exI [of _ "s\<lparr>insp2m_last_button_state := b\<rparr>"] exI [of _ out]) (simp add: b_def w_def)
qed

theorem insp2m_pad_usages_witness:
  "\<exists>s' out. device_event insp2m_fix_events 10 \<lparr>hdev_id = 1, hdev_bus = 3, hdev_product = 0x67, hdev_name = []\<rparr>
      \<lparr>insp2m_fw_id = [], insp2m_last_button_state = 0\<rparr>
      [8, 0xe0, 1, 1, 0, 4, 0, 0, 0, 0] = Some (s', Some out)
    \<and> usage_value insp2m_fixed_rdesc_vendor out 0x10038 = Some 0 \<and> insp2m_last_button_state s' = 0x400"
proof -
  have "le16 0 4 = (0x400 :: u16)" by code_simp
  then show ?thesis
    using insp2m_pad_usages [of "[8, 0xe0, 1, 1, 0, 4, 0, 0, 0, 0]" "\<lparr>hdev_id = 1, hdev_bus = 3, hdev_product = 0x67, hdev_name = []\<rparr>"
      "\<lparr>insp2m_fw_id = [], insp2m_last_button_state = 0\<rparr>"] by auto
qed

end
