(* ===== verification/Huion_Kamvas13.thy ===== *)
theory Huion_Kamvas13
  imports Kernel_Iface Rdesc_Spec
begin

unbundle bit_operations_syntax

text \<open>
  \<open>0010-Huion__Kamvas13Gen3.bpf.c\<close>: the vendor descriptor, the pen and pad reports of vendor mode
  with the held-button filter, and the probe.
\<close>


abbreviation (input) kv13_VID_HUION :: "'a::numeral" where "kv13_VID_HUION \<equiv> 0x256c"

abbreviation (input) kv13_PID_KAMVAS13_GEN3 :: "'a::numeral" where "kv13_PID_KAMVAS13_GEN3 \<equiv> 0x2008"

abbreviation (input) kv13_VENDOR_DESCRIPTOR_LENGTH :: "'a::numeral" where "kv13_VENDOR_DESCRIPTOR_LENGTH \<equiv> 36"

abbreviation (input) kv13_TABLET_DESCRIPTOR_LENGTH :: "'a::numeral" where "kv13_TABLET_DESCRIPTOR_LENGTH \<equiv> 368"

abbreviation (input) kv13_WHEEL_DESCRIPTOR_LENGTH :: "'a::numeral" where "kv13_WHEEL_DESCRIPTOR_LENGTH \<equiv> 108"

abbreviation (input) kv13_VENDOR_REPORT_ID :: "'a::numeral" where "kv13_VENDOR_REPORT_ID \<equiv> 8"

abbreviation (input) kv13_VENDOR_REPORT_LENGTH :: "'a::numeral" where "kv13_VENDOR_REPORT_LENGTH \<equiv> 14"

abbreviation (input) kv13_VENDOR_REPORT_SUBTYPE_PEN :: "'a::numeral" where "kv13_VENDOR_REPORT_SUBTYPE_PEN \<equiv> 0x08"

abbreviation (input) kv13_VENDOR_REPORT_SUBTYPE_PEN_OUT :: "'a::zero" where "kv13_VENDOR_REPORT_SUBTYPE_PEN_OUT \<equiv> 0x00"

abbreviation (input) kv13_VENDOR_REPORT_SUBTYPE_BUTTONS :: "'a::numeral" where "kv13_VENDOR_REPORT_SUBTYPE_BUTTONS \<equiv> 0x0e"

abbreviation (input) kv13_VENDOR_REPORT_SUBTYPE_WHEELS :: "'a::numeral" where "kv13_VENDOR_REPORT_SUBTYPE_WHEELS \<equiv> 0x0f"

abbreviation (input) kv13_CUSTOM_PAD_REPORT_ID :: "'a::numeral" where "kv13_CUSTOM_PAD_REPORT_ID \<equiv> 9"

text \<open>The globals of the program; the firmware id is stored by the loader.\<close>

record kv13_state =
  kv13_fw_id :: "u8 list"
  kv13_last_button_state :: u8

definition kv13_EXPECTED_FIRMWARE_ID :: "u8 list" where
  "kv13_EXPECTED_FIRMWARE_ID = map of_char ''HUION_M22c_''"

definition kv13_disabled_rdesc_tablet_ini :: initializer where
  "kv13_disabled_rdesc_tablet_ini = concat [
     FixedSizeVendorReport 28]"

definition kv13_disabled_rdesc_tablet :: "u8 list" where
  "kv13_disabled_rdesc_tablet = bytes kv13_disabled_rdesc_tablet_ini"

definition kv13_disabled_rdesc_wheel_ini :: initializer where
  "kv13_disabled_rdesc_wheel_ini = concat [
     FixedSizeVendorReport 9]"

definition kv13_disabled_rdesc_wheel :: "u8 list" where
  "kv13_disabled_rdesc_wheel = bytes kv13_disabled_rdesc_wheel_ini"

definition kv13_fixed_rdesc_vendor_ini :: initializer where
  "kv13_fixed_rdesc_vendor_ini = concat [
     UsagePage_Digitizers,
     Usage_Dig_Pen,
     CollectionApplication (concat [
       ReportId kv13_VENDOR_REPORT_ID,
       UsagePage_Digitizers,
       Usage_Dig_Pen,
       CollectionPhysical (concat [
         ReportSize 1,
         LogicalMinimum_i8 0,
         LogicalMaximum_i8 1,
         ReportCount 3,
         Usage_Dig_TipSwitch,
         Usage_Dig_BarrelSwitch,
         Usage_Dig_SecondaryBarrelSwitch,
         Input (Var OR Abs),
         PushPop (concat [
           ReportCount 1,
           UsagePage_Button,
           Usage_i8 0x4a,
           Input (Var OR Abs)]),
         ReportCount 3,
         Input Const,
         ReportCount 1,
         Usage_Dig_InRange,
         Input (Var OR Abs),
         ReportSize 16,
         ReportCount 1,
         PushPop (concat [
           UsagePage_GenericDesktop,
           Unit cm,
           UnitExponent (- 2),
           LogicalMinimum_i16 0,
           PhysicalMinimum_i16 0,
           LogicalMaximum_i16 58760,
           PhysicalMaximum_i16 2938,
           Usage_GD_X,
           Input (Var OR Abs),
           LogicalMaximum_i16 33040,
           PhysicalMaximum_i16 1652,
           Usage_GD_Y,
           Input (Var OR Abs)]),
         LogicalMinimum_i16 0,
         LogicalMaximum_i16 16383,
         Usage_Dig_TipPressure,
         Input (Var OR Abs),
         ReportCount 1,
         Input Const,
         ReportSize 8,
         ReportCount 2,
         PushPop (concat [
           Unit deg,
           UnitExponent 0,
           LogicalMinimum_i8 (- 60),
           PhysicalMinimum_i8 (- 60),
           LogicalMaximum_i8 60,
           PhysicalMaximum_i8 60,
           Usage_Dig_XTilt,
           Usage_Dig_YTilt,
           Input (Var OR Abs)])])]),
     UsagePage_GenericDesktop,
     Usage_GD_Keypad,
     CollectionApplication (concat [
       ReportId kv13_CUSTOM_PAD_REPORT_ID,
       LogicalMinimum_i8 0,
       LogicalMaximum_i8 1,
       UsagePage_Digitizers,
       Usage_Dig_TabletFunctionKeys,
       CollectionPhysical (concat [
         ReportSize 1,
         ReportCount 1,
         Usage_Dig_BarrelSwitch,
         Input (Var OR Abs),
         ReportCount 7,
         Input Const,
         ReportSize 8,
         ReportCount 2,
         UsagePage_GenericDesktop,
         Usage_GD_X,
         Usage_GD_Y,
         Input (Var OR Abs),
         ReportSize 1,
         ReportCount 7,
         UsagePage_Button,
         UsageMinimum_i8 1,
         UsageMaximum_i8 7,
         Input (Var OR Abs),
         ReportCount 1,
         Input Const,
         ReportSize 8,
         ReportCount 1,
         UsagePage_GenericDesktop,
         Usage_GD_Wheel,
         LogicalMinimum_i8 (- 1),
         LogicalMaximum_i8 1,
         Input (Var OR Rel),
         UsagePage_Consumer,
         Usage_Con_ACPan,
         Input (Var OR Rel)]),
       FixedSizeVendorReport kv13_VENDOR_REPORT_LENGTH])]"

definition kv13_fixed_rdesc_vendor :: "u8 list" where
  "kv13_fixed_rdesc_vendor = bytes kv13_fixed_rdesc_vendor_ini"

lemma length_kv13_disabled_rdesc_tablet [simp]: "length kv13_disabled_rdesc_tablet = 16"
  by code_simp

lemma kv13_disabled_rdesc_tablet_declares [rdesc_facts]:
  "static_ok kv13_disabled_rdesc_tablet_ini \<and> rdesc_declares kv13_disabled_rdesc_tablet [(172, 28)]"
  by code_simp

lemma length_kv13_disabled_rdesc_wheel [simp]: "length kv13_disabled_rdesc_wheel = 16"
  by code_simp

lemma kv13_disabled_rdesc_wheel_declares [rdesc_facts]:
  "static_ok kv13_disabled_rdesc_wheel_ini \<and> rdesc_declares kv13_disabled_rdesc_wheel [(172, 9)]"
  by code_simp

lemma length_kv13_fixed_rdesc_vendor [simp]: "length kv13_fixed_rdesc_vendor = 225"
  by code_simp

lemma kv13_fixed_rdesc_vendor_declares [rdesc_facts]:
  "static_ok kv13_fixed_rdesc_vendor_ini \<and> rdesc_declares kv13_fixed_rdesc_vendor [(8, 12), (9, 7), (172, 14)]"
  by code_simp

definition kv13_fix_rdesc :: "kv13_state program" where
  "kv13_fix_rdesc s c data = (case data of None \<Rightarrow> Some (s, [], 0) | Some d \<Rightarrow>
     let rdesc_size = ctx_size c; have_fw_id = has_prefix (kv13_fw_id s) kv13_EXPECTED_FIRMWARE_ID in
     if have_fw_id \<and> rdesc_size = kv13_TABLET_DESCRIPTOR_LENGTH then
       do { d1 \<leftarrow> memcpy d 0 kv13_disabled_rdesc_tablet; Some (s, d1, int (length kv13_disabled_rdesc_tablet)) }
     else if have_fw_id \<and> rdesc_size = kv13_WHEEL_DESCRIPTOR_LENGTH then
       do { d1 \<leftarrow> memcpy d 0 kv13_disabled_rdesc_wheel; Some (s, d1, int (length kv13_disabled_rdesc_wheel)) }
     else if rdesc_size = kv13_VENDOR_DESCRIPTOR_LENGTH then
       do { d1 \<leftarrow> memcpy d 0 kv13_fixed_rdesc_vendor; Some (s, d1, int (length kv13_fixed_rdesc_vendor)) }
     else Some (s, d, 0))"

definition kv13_new_rdesc :: "kv13_state \<Rightarrow> int \<Rightarrow> u8 list option" where
  "kv13_new_rdesc s n =
     (if n = kv13_VENDOR_DESCRIPTOR_LENGTH then Some kv13_fixed_rdesc_vendor
      else if \<not> has_prefix (kv13_fw_id s) kv13_EXPECTED_FIRMWARE_ID then None
      else if n = kv13_TABLET_DESCRIPTOR_LENGTH then Some kv13_disabled_rdesc_tablet
      else if n = kv13_WHEEL_DESCRIPTOR_LENGTH then Some kv13_disabled_rdesc_wheel
      else None)"

interpretation kv13_fixup: replacing_fixup kv13_fix_rdesc "\<lambda>s c. kv13_new_rdesc s (ctx_size c)"
  by unfold_locales
    (auto simp: kv13_fix_rdesc_def kv13_new_rdesc_def Let_def split: if_splits)

text \<open>The wheel step of a vendor wheel report: top and bottom wheel.\<close>

definition kv13_wheels :: "u8 \<Rightarrow> u8 \<Rightarrow> u8 \<times> u8" where
  "kv13_wheels d3 d5 =
     (let step = (if d5 = 1 then 1 else - 1) in
      if d3 = 1 then (step, 0) else if d3 = 2 then (0, step) else (0, 0))"

text \<open>A button report is ignored while a button is held, unless it is a release.\<close>

definition kv13_buttons :: "u8 \<Rightarrow> u8 \<Rightarrow> u8" where
  "kv13_buttons held d4 = (if held \<noteq> 0x00 \<and> d4 \<noteq> 0x00 then held else d4)"

definition kv13_fix_event :: "kv13_state program" where
  "kv13_fix_event s c data = (case data of None \<Rightarrow> Some (s, [], 0) | Some d \<Rightarrow>
     if ctx_size c \<noteq> kv13_VENDOR_REPORT_LENGTH then Some (s, d, 0)
     else do {
       d0 \<leftarrow> rd d 0;
       if d0 \<noteq> kv13_VENDOR_REPORT_ID then Some (s, d, 0)
       else do {
         d1 \<leftarrow> rd d 1;
         let report_subtype = drop_bit 4 d1 AND 0x0f;
         if report_subtype = kv13_VENDOR_REPORT_SUBTYPE_PEN \<or>
            report_subtype = kv13_VENDOR_REPORT_SUBTYPE_PEN_OUT then do {
           d11 \<leftarrow> rd d 11;
           d' \<leftarrow> wr d 11 (- d11);
           Some (s, d', 0) }
         else if report_subtype = kv13_VENDOR_REPORT_SUBTYPE_BUTTONS \<or>
                 report_subtype = kv13_VENDOR_REPORT_SUBTYPE_WHEELS then do {
           d3 \<leftarrow> rd d 3; d4 \<leftarrow> rd d 4; d5 \<leftarrow> rd d 5;
           let (top_wheel, bottom_wheel) =
             (if report_subtype = kv13_VENDOR_REPORT_SUBTYPE_WHEELS then kv13_wheels d3 d5 else (0, 0));
           let s1 = (if report_subtype = kv13_VENDOR_REPORT_SUBTYPE_BUTTONS
                     then s\<lparr>kv13_last_button_state := kv13_buttons (kv13_last_button_state s) d4\<rparr> else s);
           d' \<leftarrow> memcpy d 0 [kv13_CUSTOM_PAD_REPORT_ID, d1 AND 0xfe, 0, 0, kv13_last_button_state s1,
                              top_wheel, bottom_wheel];
           Some (s1, d', 7) }
         else Some (s, d, 0) } })"

interpretation kv13_events: hid_program kv13_fix_event 14
  by unfold_locales (auto simp: kv13_fix_event_def Let_def split: prod.split)

definition kv13_probe :: "hid_bpf_probe_args \<Rightarrow> hid_bpf_probe_args \<times> int" where
  "kv13_probe a =
     ((if pa_rdesc_size a = kv13_VENDOR_DESCRIPTOR_LENGTH \<or> pa_rdesc_size a = kv13_TABLET_DESCRIPTOR_LENGTH \<or> pa_rdesc_size a = kv13_WHEEL_DESCRIPTOR_LENGTH
       then a\<lparr>pa_retval := 0\<rparr> else a\<lparr>pa_retval := - EINVAL\<rparr>), 0)"

section \<open>What the reports deliver\<close>

lemma kv13_fixed_rdesc_vendor_layout_9:
  "rdesc_layout kv13_fixed_rdesc_vendor 9 = Some [
     (0xd0044, 8, 1), (0x10030, 16, 8), (0x10031, 24, 8), (0x90001, 32, 1), (0x90002, 33, 1), (0x90003, 34, 1),
     (0x90004, 35, 1), (0x90005, 36, 1), (0x90006, 37, 1), (0x90007, 38, 1), (0x10038, 40, 8), (0xc0238, 48, 8)]"
  by code_simp

definition kv13_button_report :: "u8 list \<Rightarrow> bool" where
  "kv13_button_report rep \<longleftrightarrow> length rep = 14 \<and> rep ! 0 = kv13_VENDOR_REPORT_ID \<and>
     drop_bit 4 (rep ! 1) AND 0x0f = kv13_VENDOR_REPORT_SUBTYPE_BUTTONS"

lemma kv13_button_event:
  assumes "kv13_button_report rep" and h: "h = kv13_buttons (kv13_last_button_state s) (rep ! 4)"
  shows "device_event kv13_fix_event 14 hid s rep =
    Some (s\<lparr>kv13_last_button_state := h\<rparr>, Some [kv13_CUSTOM_PAD_REPORT_ID, rep ! 1 AND 0xfe, 0, 0, h, 0, 0])"
  using assms
  by (intro device_event_replaced [where rest = "drop 7 (take 14 (report_buffer rep))"])
    (simp_all add: kv13_button_report_def kv13_fix_event_def length_report_buffer report_buffer_nth,
     simp add: eval_nat_numeral)

text \<open>The button held after a history of button bytes: the first of the last run of presses.\<close>

definition held_button :: "u8 \<Rightarrow> u8 list \<Rightarrow> u8" where
  "held_button h ds = (case takeWhile (\<lambda>d. d \<noteq> 0) (rev (h # ds)) of [] \<Rightarrow> 0 | r # rs \<Rightarrow> last (r # rs))"

lemma last_takeWhile_nonzero: "takeWhile (\<lambda>d. d \<noteq> (0 :: u8)) l = x # xs \<Longrightarrow> last (x # xs) \<noteq> 0"
proof -
  assume l: "takeWhile (\<lambda>d. d \<noteq> 0) l = x # xs"
  have "last (x # xs) \<in> set (takeWhile (\<lambda>d. d \<noteq> 0) l)" unfolding l by simp
  then show "last (x # xs) \<noteq> 0" by (rule set_takeWhileD [THEN conjunct2])
qed

lemma held_button_snoc: "held_button h (ds @ [d]) = kv13_buttons (held_button h ds) d"
proof (cases "takeWhile (\<lambda>d. d \<noteq> 0) (rev (h # ds))")
  case Nil
  then show ?thesis by (simp add: held_button_def kv13_buttons_def)
next
  case (Cons x xs)
  from last_takeWhile_nonzero [OF this] show ?thesis
    using Cons by (auto simp: held_button_def kv13_buttons_def)
qed

lemma foldl_kv13_buttons: "foldl kv13_buttons h ds = held_button h ds"
proof (induction ds rule: rev_induct)
  case Nil
  then show ?case by (simp add: held_button_def)
next
  case (snoc d ds)
  then show ?case by (simp add: held_button_snoc)
qed

lemma kv13_button_events:
  assumes "list_all kv13_button_report reps"
  shows "\<exists>s' outs. device_events kv13_fix_event 14 hid s reps = Some (s', map Some outs) \<and>
     length outs = length reps \<and>
     (\<forall>i < length reps. outs ! i = [kv13_CUSTOM_PAD_REPORT_ID, reps ! i ! 1 AND 0xfe, 0, 0,
        foldl kv13_buttons (kv13_last_button_state s) (map (\<lambda>r. r ! 4) (take (Suc i) reps)), 0, 0])"
  using assms
proof (induction reps arbitrary: s)
  case Nil
  then show ?case by simp
next
  case (Cons rep reps)
  let ?s1 = "s\<lparr>kv13_last_button_state := kv13_buttons (kv13_last_button_state s) (rep ! 4)\<rparr>"
  obtain s' outs where IH: "device_events kv13_fix_event 14 hid ?s1 reps = Some (s', map Some outs)"
    "length outs = length reps"
    "\<forall>i < length reps. outs ! i = [kv13_CUSTOM_PAD_REPORT_ID, reps ! i ! 1 AND 0xfe, 0, 0,
        foldl kv13_buttons (kv13_last_button_state ?s1) (map (\<lambda>r. r ! 4) (take (Suc i) reps)), 0, 0]"
    using Cons.IH [of ?s1] Cons.prems by auto
  let ?out = "[9, rep ! 1 AND 0xfe, 0, 0, kv13_buttons (kv13_last_button_state s) (rep ! 4), 0, 0]"
  have "device_events kv13_fix_event 14 hid s (rep # reps) = Some (s', map Some (?out # outs))"
    using Cons.prems IH(1) by (simp add: kv13_button_event [OF _ refl])
  moreover have "\<forall>i < length (rep # reps). (?out # outs) ! i = [9, (rep # reps) ! i ! 1 AND 0xfe, 0, 0,
      foldl kv13_buttons (kv13_last_button_state s) (map (\<lambda>r. r ! 4) (take (Suc i) (rep # reps))), 0, 0]"
    using IH(3) by (auto simp: less_Suc_eq_0_disj)
  ultimately show ?case using IH(2) by (intro exI [of _ s'] exI [of _ "?out # outs"]) auto
qed

lemma kv13_pad_usage:
  "k < 7 \<Longrightarrow> usage_value kv13_fixed_rdesc_vendor [9, a, 0, 0, h, w1, w2] (0x90001 + int k) = Some (of_bool (bit h k))"
proof -
  assume k: "k < 7"
  have "list_all (\<lambda>k. map_of
       [(0xd0044, 8, 1), (0x10030, 16, 8), (0x10031, 24, 8), (0x90001, 32, 1), (0x90002, 33, 1), (0x90003, 34, 1),
        (0x90004, 35, 1), (0x90005, 36, 1), (0x90006, 37, 1), (0x90007, 38, 1), (0x10038, 40, 8), (0xc0238, 48, 8)]
       (0x90001 + int k) = Some (32 + int k, 1 :: int)) [0..<7]"
    by code_simp
  then have "usage_slot kv13_fixed_rdesc_vendor 9 (0x90001 + int k) = Some (32 + int k, 1)"
    using k by (simp add: usage_slot_def kv13_fixed_rdesc_vendor_layout_9 list_all_iff)
  then show ?thesis
    using k read_bit [of k 4 "[9, a, 0, 0, h, w1, w2]"] by (simp add: usage_value_def nat_add_distrib)
qed

text \<open>
  C2: The held-button filter of the Kamvas 13 over any history of button reports: every report is
  delivered as a seven-byte pad report whose button usages show one press at a time, namely the
  button byte of the first report of the current run of non-zero reports (or the button already held
  when the run began), and no button as soon as a report has none.
\<close>

theorem kv13_held_button:
  assumes "list_all kv13_button_report reps"
  shows "\<exists>s' outs. device_events kv13_fix_event 14 hid s reps = Some (s', map Some outs)
     \<and> length outs = length reps
     \<and> (\<forall>i < length reps. conforms [(8, 12), (9, 7), (172, 14)] (outs ! i)
          \<and> (\<forall>k < 7. usage_value kv13_fixed_rdesc_vendor (outs ! i) (0x90001 + int k)
               = Some (of_bool (bit (held_button (kv13_last_button_state s) (map (\<lambda>r. r ! 4) (take (Suc i) reps))) k))))"
proof -
  obtain s' outs where ev: "device_events kv13_fix_event 14 hid s reps = Some (s', map Some outs)"
    "length outs = length reps"
    and out: "\<And>i. i < length reps \<Longrightarrow> outs ! i = [9, reps ! i ! 1 AND 0xfe, 0, 0,
        held_button (kv13_last_button_state s) (map (\<lambda>r. r ! 4) (take (Suc i) reps)), 0, 0]"
    using kv13_button_events [OF assms, of hid s] unfolding foldl_kv13_buttons by blast
  have "conforms [(8, 12), (9, 7), (172, 14)] (outs ! i)" if "i < length reps" for i
    unfolding out [OF that] by (simp add: conforms_def)
  with ev show ?thesis by (metis out kv13_pad_usage)
qed

theorem kv13_held_button_witness:
  "\<exists>s' outs. device_events kv13_fix_event 14 \<lparr>hdev_id = 1, hdev_bus = 3, hdev_product = 0x2008, hdev_name = []\<rparr>
        \<lparr>kv13_fw_id = [], kv13_last_button_state = 0\<rparr>
        (map (\<lambda>b. [8, 0xe0, 0, 0, b, 0, 0, 0, 0, 0, 0, 0, 0, 0]) [1, 3, 2, 0]) = Some (s', map Some outs)
     \<and> map (\<lambda>out. usage_value kv13_fixed_rdesc_vendor out 0x90001) outs = [Some 1, Some 1, Some 1, Some 0]
     \<and> map (\<lambda>out. usage_value kv13_fixed_rdesc_vendor out 0x90002) outs = [Some 0, Some 0, Some 0, Some 0]"
proof -
  let ?hid = "\<lparr>hdev_id = 1, hdev_bus = 3, hdev_product = 0x2008, hdev_name = []\<rparr>"
  let ?s = "\<lparr>kv13_fw_id = [], kv13_last_button_state = 0\<rparr>"
  let ?reps = "map (\<lambda>b. [8, 0xe0, 0, 0, b, 0, 0, 0, 0, 0, 0, 0, 0, 0]) [1, 3, 2, 0] :: u8 list list"
  have "list_all kv13_button_report ?reps" by code_simp
  then obtain s' outs where ev: "device_events kv13_fix_event 14 ?hid ?s ?reps = Some (s', map Some outs)"
    and len: "length outs = 4"
    and use: "\<And>i k. i < 4 \<Longrightarrow> k < 7 \<Longrightarrow> usage_value kv13_fixed_rdesc_vendor (outs ! i) (0x90001 + int k)
               = Some (of_bool (bit (held_button 0 (map (\<lambda>r. r ! 4) (take (Suc i) ?reps))) k))"
    using kv13_held_button [of ?reps ?hid ?s] by auto
  have held: "map (\<lambda>i. held_button 0 (map (\<lambda>r. r ! 4) (take (Suc i) ?reps))) [0, 1, 2, 3] = [1, 1, 1, 0]"
    by code_simp
  have "outs = [outs ! 0, outs ! 1, outs ! 2, outs ! 3]"
    using len by (auto simp: list_eq_iff_nth_eq less_Suc_eq numeral_eq_Suc)
  then obtain a b c d where o: "outs = [a, b, c, d]" by blast
  have "map (\<lambda>out. usage_value kv13_fixed_rdesc_vendor out 0x90001) [a, b, c, d] = [Some 1, Some 1, Some 1, Some 0]"
    "map (\<lambda>out. usage_value kv13_fixed_rdesc_vendor out 0x90002) [a, b, c, d] = [Some 0, Some 0, Some 0, Some 0]"
    using use [of 0 0] use [of 1 0] use [of 2 0] use [of 3 0] use [of 0 1] use [of 1 1] use [of 2 1] use [of 3 1] held
    unfolding o by simp_all
  with ev show ?thesis unfolding o by (intro exI [of _ s'] exI [of _ "[a, b, c, d]"] conjI)
qed

end
