(* ===== verification/Huion_Kamvas16.thy ===== *)
theory Huion_Kamvas16
  imports Kernel_Iface Rdesc_Spec
begin

unbundle bit_operations_syntax

text \<open>
  \<open>0010-Huion__Kamvas16Gen3.bpf.c\<close>: as Kamvas 13, with pen reports whose X axis is 24 bits wide and
  whose bytes are rearranged so that the axis is contiguous.
\<close>


abbreviation (input) kv16_VID_HUION :: "'a::numeral" where "kv16_VID_HUION \<equiv> 0x256c"

abbreviation (input) kv16_PID_KAMVAS16_GEN3 :: "'a::numeral" where "kv16_PID_KAMVAS16_GEN3 \<equiv> 0x2009"

abbreviation (input) kv16_VENDOR_DESCRIPTOR_LENGTH :: "'a::numeral" where "kv16_VENDOR_DESCRIPTOR_LENGTH \<equiv> 36"

abbreviation (input) kv16_TABLET_DESCRIPTOR_LENGTH :: "'a::numeral" where "kv16_TABLET_DESCRIPTOR_LENGTH \<equiv> 328"

abbreviation (input) kv16_WHEEL_DESCRIPTOR_LENGTH :: "'a::numeral" where "kv16_WHEEL_DESCRIPTOR_LENGTH \<equiv> 200"

abbreviation (input) kv16_VENDOR_REPORT_ID :: "'a::numeral" where "kv16_VENDOR_REPORT_ID \<equiv> 8"

abbreviation (input) kv16_VENDOR_REPORT_LENGTH :: "'a::numeral" where "kv16_VENDOR_REPORT_LENGTH \<equiv> 14"

abbreviation (input) kv16_VENDOR_REPORT_SUBTYPE_PEN :: "'a::numeral" where "kv16_VENDOR_REPORT_SUBTYPE_PEN \<equiv> 0x08"

abbreviation (input) kv16_VENDOR_REPORT_SUBTYPE_PEN_OUT :: "'a::zero" where "kv16_VENDOR_REPORT_SUBTYPE_PEN_OUT \<equiv> 0x00"

abbreviation (input) kv16_VENDOR_REPORT_SUBTYPE_BUTTONS :: "'a::numeral" where "kv16_VENDOR_REPORT_SUBTYPE_BUTTONS \<equiv> 0x0e"

abbreviation (input) kv16_VENDOR_REPORT_SUBTYPE_WHEELS :: "'a::numeral" where "kv16_VENDOR_REPORT_SUBTYPE_WHEELS \<equiv> 0x0f"

abbreviation (input) kv16_CUSTOM_PAD_REPORT_ID :: "'a::numeral" where "kv16_CUSTOM_PAD_REPORT_ID \<equiv> 9"

text \<open>The globals of the program; the firmware id is stored by the loader.\<close>

record kv16_state =
  kv16_fw_id :: "u8 list"
  kv16_last_button_state :: u8

definition kv16_EXPECTED_FIRMWARE_ID :: "u8 list" where
  "kv16_EXPECTED_FIRMWARE_ID = map of_char ''HUION_M22d_''"

definition kv16_disabled_rdesc_tablet_ini :: initializer where
  "kv16_disabled_rdesc_tablet_ini = concat [
     FixedSizeVendorReport 28]"

definition kv16_disabled_rdesc_tablet :: "u8 list" where
  "kv16_disabled_rdesc_tablet = bytes kv16_disabled_rdesc_tablet_ini"

definition kv16_disabled_rdesc_wheel_ini :: initializer where
  "kv16_disabled_rdesc_wheel_ini = concat [
     FixedSizeVendorReport 9]"

definition kv16_disabled_rdesc_wheel :: "u8 list" where
  "kv16_disabled_rdesc_wheel = bytes kv16_disabled_rdesc_wheel_ini"

definition kv16_fixed_rdesc_vendor_ini :: initializer where
  "kv16_fixed_rdesc_vendor_ini = concat [
     UsagePage_Digitizers,
     Usage_Dig_Pen,
     CollectionApplication (concat [
       ReportId kv16_VENDOR_REPORT_ID,
       UsagePage_Digitizers,
       Usage_Dig_Pen,
       CollectionPhysical (concat [
         ReportSize 1,
         LogicalMinimum_i8 0,
         LogicalMaximum_i8 1,
         ReportCount 3,
         Usage_Dig_TipSwitch,
         Usage_Dig_BarrelSwitch,
         Usage_Dig_SecondaryBarrelSwitch,
         Input (Var OR Abs),
         PushPop (concat [
           ReportCount 1,
           UsagePage_Button,
           Usage_i8 0x4a,
           Input (Var OR Abs)]),
         ReportCount 3,
         Input Const,
         ReportCount 1,
         Usage_Dig_InRange,
         Input (Var OR Abs),
         ReportSize 16,
         ReportCount 1,
         PushPop (concat [
           UsagePage_GenericDesktop,
           Unit cm,
           UnitExponent (- 2),
           LogicalMinimum_i16 0,
           PhysicalMinimum_i16 0,
           ReportSize 24,
           LogicalMaximum_i32 69920,
           PhysicalMaximum_i16 3496,
           Usage_GD_X,
           Input (Var OR Abs),
           ReportSize 16,
           LogicalMaximum_i16 39340,
           PhysicalMaximum_i16 1967,
           Usage_GD_Y,
           Input (Var OR Abs)]),
         ReportSize 16,
         LogicalMinimum_i16 0,
         LogicalMaximum_i16 16383,
         Usage_Dig_TipPressure,
         Input (Var OR Abs),
         ReportSize 8,
         ReportCount 1,
         Input Const,
         ReportCount 2,
         PushPop (concat [
           Unit deg,
           UnitExponent 0,
           LogicalMinimum_i8 (- 60),
           PhysicalMinimum_i8 (- 60),
           LogicalMaximum_i8 60,
           PhysicalMaximum_i8 60,
           Usage_Dig_XTilt,
           Usage_Dig_YTilt,
           Input (Var OR Abs)])])]),
     UsagePage_GenericDesktop,
     Usage_GD_Keypad,
     CollectionApplication (concat [
       ReportId kv16_CUSTOM_PAD_REPORT_ID,
       LogicalMinimum_i8 0,
       LogicalMaximum_i8 1,
       UsagePage_Digitizers,
       Usage_Dig_TabletFunctionKeys,
       CollectionPhysical (concat [
         ReportSize 1,
         ReportCount 1,
         Usage_Dig_BarrelSwitch,
         Input (Var OR Abs),
         ReportCount 7,
         Input Const,
         ReportSize 8,
         ReportCount 2,
         UsagePage_GenericDesktop,
         Usage_GD_X,
         Usage_GD_Y,
         Input (Var OR Abs),
         ReportSize 1,
         ReportCount 8,
         UsagePage_Button,
         UsageMinimum_i8 1,
         UsageMaximum_i8 8,
         Input (Var OR Abs),
         ReportSize 8,
         ReportCount 1,
         UsagePage_GenericDesktop,
         Usage_GD_Wheel,
         LogicalMinimum_i8 (- 1),
         LogicalMaximum_i8 1,
         Input (Var OR Rel),
         UsagePage_Consumer,
         Usage_Con_ACPan,
         Input (Var OR Rel)]),
       FixedSizeVendorReport kv16_VENDOR_REPORT_LENGTH])]"

definition kv16_fixed_rdesc_vendor :: "u8 list" where
  "kv16_fixed_rdesc_vendor = bytes kv16_fixed_rdesc_vendor_ini"

lemma length_kv16_disabled_rdesc_tablet [simp]: "length kv16_disabled_rdesc_tablet = 16"
  by code_simp

lemma kv16_disabled_rdesc_tablet_declares [rdesc_facts]:
  "static_ok kv16_disabled_rdesc_tablet_ini \<and> rdesc_declares kv16_disabled_rdesc_tablet [(172, 28)]"
  by code_simp

lemma length_kv16_disabled_rdesc_wheel [simp]: "length kv16_disabled_rdesc_wheel = 16"
  by code_simp

lemma kv16_disabled_rdesc_wheel_declares [rdesc_facts]:
  "static_ok kv16_disabled_rdesc_wheel_ini \<and> rdesc_declares kv16_disabled_rdesc_wheel [(172, 9)]"
  by code_simp

lemma length_kv16_fixed_rdesc_vendor [simp]: "length kv16_fixed_rdesc_vendor = 229"
  by code_simp

lemma kv16_fixed_rdesc_vendor_declares [rdesc_facts]:
  "static_ok kv16_fixed_rdesc_vendor_ini \<and> rdesc_declares kv16_fixed_rdesc_vendor [(8, 12), (9, 7), (172, 14)]"
  by code_simp

definition kv16_fix_rdesc :: "kv16_state program" where
  "kv16_fix_rdesc s c data = (case data of None \<Rightarrow> Some (s, [], 0) | Some d \<Rightarrow>
     let rdesc_size = ctx_size c; have_fw_id = has_prefix (kv16_fw_id s) kv16_EXPECTED_FIRMWARE_ID in
     if have_fw_id \<and> rdesc_size = kv16_TABLET_DESCRIPTOR_LENGTH then
       do { d1 \<leftarrow> memcpy d 0 kv16_disabled_rdesc_tablet; Some (s, d1, int (length kv16_disabled_rdesc_tablet)) }
     else if have_fw_id \<and> rdesc_size = kv16_WHEEL_DESCRIPTOR_LENGTH then
       do { d1 \<leftarrow> memcpy d 0 kv16_disabled_rdesc_wheel; Some (s, d1, int (length kv16_disabled_rdesc_wheel)) }
     else if rdesc_size = kv16_VENDOR_DESCRIPTOR_LENGTH then
       do { d1 \<leftarrow> memcpy d 0 kv16_fixed_rdesc_vendor; Some (s, d1, int (length kv16_fixed_rdesc_vendor)) }
     else Some (s, d, 0))"

definition kv16_new_rdesc :: "kv16_state \<Rightarrow> int \<Rightarrow> u8 list option" where
  "kv16_new_rdesc s n =
     (if n = kv16_VENDOR_DESCRIPTOR_LENGTH then Some kv16_fixed_rdesc_vendor
      else if \<not> has_prefix (kv16_fw_id s) kv16_EXPECTED_FIRMWARE_ID then None
      else if n = kv16_TABLET_DESCRIPTOR_LENGTH then Some kv16_disabled_rdesc_tablet
      else if n = kv16_WHEEL_DESCRIPTOR_LENGTH then Some kv16_disabled_rdesc_wheel
      else None)"

interpretation kv16_fixup: replacing_fixup kv16_fix_rdesc "\<lambda>s c. kv16_new_rdesc s (ctx_size c)"
  by unfold_locales
    (auto simp: kv16_fix_rdesc_def kv16_new_rdesc_def Let_def split: if_splits)

text \<open>The wheel step of a vendor wheel report: top and bottom wheel.\<close>

definition kv16_wheels :: "u8 \<Rightarrow> u8 \<Rightarrow> u8 \<times> u8" where
  "kv16_wheels d3 d5 =
     (let step = (if d5 = 1 then 1 else - 1) in
      if d3 = 1 then (step, 0) else if d3 = 2 then (0, step) else (0, 0))"

text \<open>A button report is ignored while a button is held, unless it is a release.\<close>

definition kv16_buttons :: "u8 \<Rightarrow> u8 \<Rightarrow> u8" where
  "kv16_buttons held d4 = (if held \<noteq> 0x00 \<and> d4 \<noteq> 0x00 then held else d4)"

definition kv16_fix_event :: "kv16_state program" where
  "kv16_fix_event s c data = (case data of None \<Rightarrow> Some (s, [], 0) | Some d \<Rightarrow>
     if ctx_size c \<noteq> kv16_VENDOR_REPORT_LENGTH then Some (s, d, 0)
     else do {
       d0 \<leftarrow> rd d 0;
       if d0 \<noteq> kv16_VENDOR_REPORT_ID then Some (s, d, 0)
       else do {
         d1 \<leftarrow> rd d 1;
         let report_subtype = drop_bit 4 d1 AND 0x0f;
         if report_subtype = kv16_VENDOR_REPORT_SUBTYPE_PEN \<or>
            report_subtype = kv16_VENDOR_REPORT_SUBTYPE_PEN_OUT then do {
           d11 \<leftarrow> rd d 11;
           d' \<leftarrow> wr d 11 (- d11);
           x_24 \<leftarrow> rd d' 8;
           d7 \<leftarrow> rd d' 7; d' \<leftarrow> wr d' 8 d7;
           d6 \<leftarrow> rd d' 6; d' \<leftarrow> wr d' 7 d6;
           d5 \<leftarrow> rd d' 5; d' \<leftarrow> wr d' 6 d5;
           d4 \<leftarrow> rd d' 4; d' \<leftarrow> wr d' 5 d4;
           d' \<leftarrow> wr d' 4 x_24;
           Some (s, d', 0) }
         else if report_subtype = kv16_VENDOR_REPORT_SUBTYPE_BUTTONS \<or>
                 report_subtype = kv16_VENDOR_REPORT_SUBTYPE_WHEELS then do {
           d3 \<leftarrow> rd d 3; d4 \<leftarrow> rd d 4; d5 \<leftarrow> rd d 5;
           let (top_wheel, bottom_wheel) =
             (if report_subtype = kv16_VENDOR_REPORT_SUBTYPE_WHEELS then kv16_wheels d3 d5 else (0, 0));
           let s1 = (if report_subtype = kv16_VENDOR_REPORT_SUBTYPE_BUTTONS
                     then s\<lparr>kv16_last_button_state := kv16_buttons (kv16_last_button_state s) d4\<rparr> else s);
           d' \<leftarrow> memcpy d 0 [kv16_CUSTOM_PAD_REPORT_ID, d1 AND 0xfe, 0, 0, kv16_last_button_state s1,
                              top_wheel, bottom_wheel];
           Some (s1, d', 7) }
         else Some (s, d, 0) } })"

interpretation kv16_events: hid_program kv16_fix_event 14
  by unfold_locales (auto simp: kv16_fix_event_def Let_def split: prod.split)

definition kv16_probe :: "hid_bpf_probe_args \<Rightarrow> hid_bpf_probe_args \<times> int" where
  "kv16_probe a =
     ((if pa_rdesc_size a = kv16_VENDOR_DESCRIPTOR_LENGTH \<or> pa_rdesc_size a = kv16_TABLET_DESCRIPTOR_LENGTH \<or> pa_rdesc_size a = kv16_WHEEL_DESCRIPTOR_LENGTH
       then a\<lparr>pa_retval := 0\<rparr> else a\<lparr>pa_retval := - EINVAL\<rparr>), 0)"

section \<open>What pen reports deliver\<close>

lemma kv16_fixed_rdesc_vendor_layout_8:
  "rdesc_layout kv16_fixed_rdesc_vendor 8 = Some [
     (0xd0042, 8, 1), (0xd0044, 9, 1), (0xd005a, 10, 1), (0x9004a, 11, 1), (0xd0032, 15, 1), (0x10030, 16, 24),
     (0x10031, 40, 16), (0xd0030, 56, 16), (0xd003d, 80, 8), (0xd003e, 88, 8)]"
  by code_simp

lemma kv16_pen_event:
  assumes "length rep = 14" "rep ! 0 = kv16_VENDOR_REPORT_ID"
    and "drop_bit 4 (rep ! 1) AND 0x0f \<in> {kv16_VENDOR_REPORT_SUBTYPE_PEN, kv16_VENDOR_REPORT_SUBTYPE_PEN_OUT}"
  shows "device_event kv16_fix_event 14 hid s rep = Some (s, Some
    [rep ! 0, rep ! 1, rep ! 2, rep ! 3, rep ! 8, rep ! 4, rep ! 5, rep ! 6, rep ! 7, rep ! 9, rep ! 10,
     - rep ! 11, rep ! 12, rep ! 13])"
proof -
  let ?new = "[rep ! 0, rep ! 1, rep ! 2, rep ! 3, rep ! 8, rep ! 4, rep ! 5, rep ! 6, rep ! 7, rep ! 9, rep ! 10,
     - rep ! 11, rep ! 12, rep ! 13]"
  have d: "take 14 (report_buffer rep) = rep"
    using assms(1) take_report_buffer [of rep 14] by simp
  have rep: "rep = map ((!) rep) [0..<14]"
    using assms(1) map_nth [of rep] by simp
  obtain r0 r1 r2 r3 r4 r5 r6 r7 r8 r9 r10 r11 r12 r13
    where r: "rep = [r0, r1, r2, r3, r4, r5, r6, r7, r8, r9, r10, r11, r12, r13]"
    using rep by (simp add: upt_rec)
  have "kv16_fix_event s \<lparr>ctx_hid = hid, ctx_size = int (length rep)\<rparr> (Some rep) = Some (s, ?new, 0)"
    using assms unfolding r by (auto simp: kv16_fix_event_def)
  then show ?thesis
    using assms(1) device_event_in_place [of 14 rep ?new kv16_fix_event s hid s] d by simp
qed

text \<open>
  C31: A pen report of the Kamvas 16 read through the descriptor the program installs has the X axis
  the tablet sends in three separate bytes: its low 16 bits from bytes 2 and 3 and its high byte from
  byte 8. Y, pressure and X tilt are unchanged, Y tilt is negated, and so are the switches of byte 1
  unchanged.
\<close>

theorem kv16_pen_axes:
  assumes "length rep = 14" and "rep ! 0 = kv16_VENDOR_REPORT_ID"
    and "drop_bit 4 (rep ! 1) AND 0x0f \<in> {kv16_VENDOR_REPORT_SUBTYPE_PEN, kv16_VENDOR_REPORT_SUBTYPE_PEN_OUT}"
  shows "\<exists>out. device_event kv16_fix_event 14 hid s rep = Some (s, Some out)
    \<and> usage_value kv16_fixed_rdesc_vendor out 0x10030
        = Some (uint (rep ! 2) + 256 * uint (rep ! 3) + 65536 * uint (rep ! 8))
    \<and> usage_value kv16_fixed_rdesc_vendor out 0x10031 = Some (uint (rep ! 4) + 256 * uint (rep ! 5))
    \<and> usage_value kv16_fixed_rdesc_vendor out 0xd0030 = Some (uint (rep ! 6) + 256 * uint (rep ! 7))
    \<and> usage_value kv16_fixed_rdesc_vendor out 0xd003d = Some (uint (rep ! 10))
    \<and> usage_value kv16_fixed_rdesc_vendor out 0xd003e = Some (uint (- (rep ! 11)))
    \<and> usage_value kv16_fixed_rdesc_vendor out 0xd0042 = Some (of_bool (bit (rep ! 1) 0))
    \<and> usage_value kv16_fixed_rdesc_vendor out 0xd0044 = Some (of_bool (bit (rep ! 1) 1))
    \<and> usage_value kv16_fixed_rdesc_vendor out 0xd005a = Some (of_bool (bit (rep ! 1) 2))
    \<and> usage_value kv16_fixed_rdesc_vendor out 0xd0032 = Some (of_bool (bit (rep ! 1) 7))"
proof -
  let ?out = "[rep ! 0, rep ! 1, rep ! 2, rep ! 3, rep ! 8, rep ! 4, rep ! 5, rep ! 6, rep ! 7, rep ! 9, rep ! 10,
     - rep ! 11, rep ! 12, rep ! 13]"
  have bits: "read_bits ?out 8 1 = of_bool (bit (rep ! 1) 0)" "read_bits ?out 9 1 = of_bool (bit (rep ! 1) 1)"
      "read_bits ?out 10 1 = of_bool (bit (rep ! 1) 2)" "read_bits ?out 15 1 = of_bool (bit (rep ! 1) 7)"
    using read_bit [of 0 1 ?out] read_bit [of 1 1 ?out] read_bit [of 2 1 ?out] read_bit [of 7 1 ?out] by simp_all
  have bytes: "read_bits ?out 16 24 = uint (rep ! 2) + 256 * uint (rep ! 3) + 65536 * uint (rep ! 8)"
      "read_bits ?out 40 16 = uint (rep ! 4) + 256 * uint (rep ! 5)"
      "read_bits ?out 56 16 = uint (rep ! 6) + 256 * uint (rep ! 7)"
      "read_bits ?out 80 8 = uint (rep ! 10)" "read_bits ?out 88 8 = uint (- (rep ! 11))"
    using read_bytes [of 2 3 ?out] read_bytes [of 5 2 ?out] read_bytes [of 7 2 ?out]
      read_byte [of 10 ?out] read_byte [of 11 ?out] by simp_all
  show ?thesis
    unfolding kv16_pen_event [OF assms]
    using bits bytes assms(2)
    by (simp add: usage_value_def usage_slot_def kv16_fixed_rdesc_vendor_layout_8)
qed

theorem kv16_pen_axes_witness:
  "\<exists>out. device_event kv16_fix_event 14 \<lparr>hdev_id = 1, hdev_bus = 3, hdev_product = 0x2009, hdev_name = []\<rparr>
        \<lparr>kv16_fw_id = [], kv16_last_button_state = 0\<rparr>
        [8, 0x81, 0x10, 0x20, 1, 2, 3, 4, 1, 0, 5, 6, 0, 0]
      = Some (\<lparr>kv16_fw_id = [], kv16_last_button_state = 0\<rparr>, Some out)
     \<and> usage_value kv16_fixed_rdesc_vendor out 0x10030 = Some 0x12010
     \<and> usage_value kv16_fixed_rdesc_vendor out 0xd003e = Some 250"
proof -
  let ?rep = "[8, 0x81, 0x10, 0x20, 1, 2, 3, 4, 1, 0, 5, 6, 0, 0] :: u8 list"
  have "drop_bit 4 (?rep ! 1) AND 0x0f \<in> {8, 0}" by code_simp
  then show ?thesis
    using kv16_pen_axes [of ?rep "\<lparr>hdev_id = 1, hdev_bus = 3, hdev_product = 0x2009, hdev_name = []\<rparr>"
        "\<lparr>kv16_fw_id = [], kv16_last_button_state = 0\<rparr>"] by auto
qed

end
