(* ===== verification/Huion_K20.thy ===== *)
theory Huion_K20
  imports Kernel_Iface Rdesc_Spec
begin

unbundle bit_operations_syntax

text \<open>
  The Huion Keydial K20 over USB (\<open>0010-Huion__KeydialK20.bpf.c\<close>) and over Bluetooth
  (\<open>0010-Huion__KeydialK20-Bluetooth.bpf.c\<close>): the descriptors, the translation of keyboard shortcuts
  into a button mask, and the probes.
\<close>

text \<open>
  The inner loop over \<open>button_mapping\<close>: the bit of the first entry that matches, counted from \<open>b\<close>.
\<close>

fun key_bit :: "u8 list \<Rightarrow> nat \<Rightarrow> u8 \<Rightarrow> u32" where
  "key_bit [] b v = 0"
| "key_bit (m # ms) b v = (if v = m then BIT b else key_bit ms (Suc b) v)"

text \<open>
  \<open>struct pad_report\<close> as stored over a report whose second byte is \<open>d1\<close>: \<open>btn_stylus\<close> is one bit
  wide, its padding keeps the bits of \<open>d1\<close>.
\<close>

definition pad_report :: "u8 \<Rightarrow> u8 \<Rightarrow> u32 \<Rightarrow> u8 \<Rightarrow> u8 list" where
  "pad_report report_id d1 buttons wheel =
     [report_id, d1 AND 0xfe, 0, 0,
      byte_of 0 buttons, byte_of 1 buttons, byte_of 2 buttons, byte_of 3 buttons, wheel]"

lemma length_pad_report [simp]: "length (pad_report i d1 b w) = 9"
  by (simp add: pad_report_def)

lemma bit_key_bit:
  "bit (key_bit ms b v) n \<longleftrightarrow> n < 32 \<and> b \<le> n \<and> n - b < length ms \<and> ms ! (n - b) = v \<and> v \<notin> set (take (n - b) ms)"
proof (induction ms arbitrary: b)
  case Nil
  then show ?case by simp
next
  case (Cons m ms)
  show ?case
  proof (cases "n \<le> b")
    case True
    then show ?thesis by (auto simp: bit_BIT Cons.IH)
  next
    case False
    then have "n - b = Suc (n - Suc b)" by simp
    then show ?thesis using False by (auto simp: bit_BIT Cons.IH)
  qed
qed

text \<open>The keys held in a keyboard report: the codes up to the first empty slot.\<close>

definition held_keys :: "nat list \<Rightarrow> u8 list \<Rightarrow> u8 set" where
  "held_keys is d = set (takeWhile (\<lambda>v. v \<noteq> 0) (map ((!) d) is))"

lemma held_keys_Nil [simp]: "held_keys [] d = {}"
  by (simp add: held_keys_def)

lemma held_keys_Cons [simp]:
  "held_keys (i # is) d = (if d ! i = 0 then {} else insert (d ! i) (held_keys is d))"
  by (auto simp: held_keys_def)

lemma held_keys_update: "i \<notin> set is \<Longrightarrow> held_keys is (d[i := v]) = held_keys is d"
proof -
  assume "i \<notin> set is"
  then have "map ((!) (d[i := v])) is = map ((!) d) is"
    by (intro map_cong) (auto intro!: nth_list_update_neq)
  then show ?thesis by (simp only: held_keys_def)
qed

lemma held_keys_window:
  assumes "win \<le> 64" "list_all (\<lambda>i. i < win \<and> i < length rep) is"
  shows "held_keys is (take win (report_buffer rep)) = held_keys is rep"
proof -
  have "map ((!) (take win (report_buffer rep))) is = map ((!) rep) is"
    using assms by (intro map_cong) (auto simp: list_all_iff report_buffer_nth)
  then show ?thesis by (simp only: held_keys_def)
qed

text \<open>The usage of the \<open>n\<close>-th button bit: ten buttons, then the extended ones.\<close>

definition k20_button_usage :: "nat \<Rightarrow> int" where
  "k20_button_usage n = (if n < 10 then 0x90001 + int n else 0x90031 + (int n - 10))"

definition pad_slots :: "u8 list \<Rightarrow> u8 \<Rightarrow> bool" where
  "pad_slots bs i \<longleftrightarrow>
     list_all (\<lambda>n. usage_slot bs (uint i) (k20_button_usage n) = Some (32 + int n, 1)) [0..<19] \<and>
     usage_slot bs (uint i) 0x10038 = Some (64, 8)"

lemma pad_report_button:
  assumes "n < 32"
  shows "read_bits (pad_report i d b w) (32 + n) 1 = of_bool (bit b n)"
proof (rule bit_eqI)
  fix j
  have pos: "(32 + n) div 8 = 4 + n div 8" "(32 + n) mod 8 = n mod 8" by simp presburger
  have "n div 8 < 4" using assms by simp
  then consider "n div 8 = 0" | "n div 8 = 1" | "n div 8 = 2" | "n div 8 = 3" by linarith
  then have "bit (pad_report i d b w ! (4 + n div 8)) (n mod 8) = bit b (8 * (n div 8) + n mod 8)"
    by cases (simp_all add: pad_report_def bit_byte_of del: mult_div_mod_eq)
  then show "bit (read_bits (pad_report i d b w) (32 + n) 1) j = bit (of_bool (bit b n) :: int) j"
    using \<open>n div 8 < 4\<close> by (auto simp: bit_read_bits bit_1_iff pos length_pad_report)
qed

lemma pad_report_usages:
  assumes "pad_slots bs i"
  shows "n < 19 \<Longrightarrow> usage_value bs (pad_report i d b w) (k20_button_usage n) = Some (of_bool (bit b n))"
    and "usage_value bs (pad_report i d b w) 0x10038 = Some (uint w)"
proof -
  have rid: "\<exists>rest. pad_report i d b w = i # rest" by (simp add: pad_report_def)
  show "usage_value bs (pad_report i d b w) (k20_button_usage n) = Some (of_bool (bit b n))" if "n < 19"
  proof -
    have "usage_slot bs (uint i) (k20_button_usage n) = Some (32 + int n, 1)"
      using assms that by (simp add: pad_slots_def list_all_iff)
    then show ?thesis
      using rid pad_report_button [of n i d b w] that by (auto simp: usage_value_def nat_add_distrib)
  qed
  have "read_bits (pad_report i d b w) 64 8 = uint w"
    using read_byte [of 8 "pad_report i d b w"] by (simp add: pad_report_def)
  then show "usage_value bs (pad_report i d b w) 0x10038 = Some (uint w)"
    using rid assms by (auto simp: usage_value_def pad_slots_def)
qed

section \<open>USB\<close>


abbreviation (input) k20_VID_HUION :: "'a::numeral" where "k20_VID_HUION \<equiv> 0x256c"

abbreviation (input) k20_PID_KEYDIAL_K20 :: "'a::numeral" where "k20_PID_KEYDIAL_K20 \<equiv> 0x0069"

abbreviation (input) k20_PAD_REPORT_DESCRIPTOR_LENGTH :: "'a::numeral" where "k20_PAD_REPORT_DESCRIPTOR_LENGTH \<equiv> 135"

abbreviation (input) k20_PUCK_REPORT_DESCRIPTOR_LENGTH :: "'a::numeral" where "k20_PUCK_REPORT_DESCRIPTOR_LENGTH \<equiv> 108"

abbreviation (input) k20_VENDOR_REPORT_DESCRIPTOR_LENGTH :: "'a::numeral" where "k20_VENDOR_REPORT_DESCRIPTOR_LENGTH \<equiv> 18"

abbreviation (input) k20_PAD_KBD_REPORT_ID :: "'a::numeral" where "k20_PAD_KBD_REPORT_ID \<equiv> 3"

abbreviation (input) k20_PAD_CC_REPORT_ID :: "'a::numeral" where "k20_PAD_CC_REPORT_ID \<equiv> 3"

abbreviation (input) k20_PAD_MOUSE_REPORT_ID :: "'a::numeral" where "k20_PAD_MOUSE_REPORT_ID \<equiv> 4"

abbreviation (input) k20_PUCK_REPORT_ID :: "'a::numeral" where "k20_PUCK_REPORT_ID \<equiv> 17"

abbreviation (input) k20_VENDOR_REPORT_ID :: "'a::numeral" where "k20_VENDOR_REPORT_ID \<equiv> 8"

abbreviation (input) k20_PAD_KBD_REPORT_LENGTH :: "'a::numeral" where "k20_PAD_KBD_REPORT_LENGTH \<equiv> 8"

abbreviation (input) k20_PAD_CC_REPORT_LENGTH :: "'a::numeral" where "k20_PAD_CC_REPORT_LENGTH \<equiv> 3"

abbreviation (input) k20_PAD_MOUSE_REPORT_LENGTH :: "'a::numeral" where "k20_PAD_MOUSE_REPORT_LENGTH \<equiv> 7"

abbreviation (input) k20_PUCK_REPORT_LENGTH :: "'a::numeral" where "k20_PUCK_REPORT_LENGTH \<equiv> 9"

abbreviation (input) k20_VENDOR_REPORT_LENGTH :: "'a::numeral" where "k20_VENDOR_REPORT_LENGTH \<equiv> 12"

text \<open>The globals of the program; the firmware id is stored by the loader.\<close>

record k20_state =
  k20_fw_id :: "u8 list"
  k20_last_button_state :: u32

definition k20_EXPECTED_FIRMWARE_ID :: "u8 list" where
  "k20_EXPECTED_FIRMWARE_ID = map of_char ''HUION_T21h_''"

definition k20_disabled_rdesc_puck_ini :: initializer where
  "k20_disabled_rdesc_puck_ini = concat [
     FixedSizeVendorReport k20_PUCK_REPORT_LENGTH]"

definition k20_disabled_rdesc_puck :: "u8 list" where
  "k20_disabled_rdesc_puck = bytes k20_disabled_rdesc_puck_ini"

definition k20_disabled_rdesc_pad_ini :: initializer where
  "k20_disabled_rdesc_pad_ini = concat [
     FixedSizeVendorReport k20_PAD_KBD_REPORT_LENGTH,
     FixedSizeVendorReport k20_PAD_CC_REPORT_LENGTH,
     FixedSizeVendorReport k20_PAD_MOUSE_REPORT_LENGTH]"

definition k20_disabled_rdesc_pad :: "u8 list" where
  "k20_disabled_rdesc_pad = bytes k20_disabled_rdesc_pad_ini"

definition k20_fixed_rdesc_vendor_ini :: initializer where
  "k20_fixed_rdesc_vendor_ini = concat [
     UsagePage_GenericDesktop,
     Usage_GD_Keypad,
     CollectionApplication (concat [
       ReportId k20_VENDOR_REPORT_ID,
       UsagePage_Digitizers,
       Usage_Dig_TabletFunctionKeys,
       CollectionPhysical (concat [
         Usage_Dig_BarrelSwitch,
         ReportCount 1,
         ReportSize 1,
         Input (Var OR Abs),
         ReportCount 7,
         Input Const,
         UsagePage_GenericDesktop,
         Usage_GD_X,
         Usage_GD_Y,
         LogicalMinimum_i8 0x0,
         LogicalMaximum_i8 0x1,
         ReportCount 2,
         ReportSize 8,
         Input (Var OR Abs),
         UsagePage_Button,
         UsageMinimum_i8 1,
         UsageMaximum_i8 10,
         LogicalMinimum_i8 0x0,
         LogicalMaximum_i8 0x1,
         ReportCount 10,
         ReportSize 1,
         Input (Var OR Abs),
         UsageMinimum_i8 0x31,
         UsageMaximum_i8 0x3a,
         ReportCount 9,
         ReportSize 1,
         Input (Var OR Abs),
         ReportCount 13,
         ReportSize 1,
         Input Const,
         UsagePage_GenericDesktop,
         Usage_GD_Wheel,
         LogicalMinimum_i8 (- 1),
         LogicalMaximum_i8 1,
         ReportCount 1,
         ReportSize 8,
         Input (Var OR Rel)]),
       FixedSizeVendorReport k20_VENDOR_REPORT_LENGTH])]"

definition k20_fixed_rdesc_vendor :: "u8 list" where
  "k20_fixed_rdesc_vendor = bytes k20_fixed_rdesc_vendor_ini"

definition k20_fixed_rdesc_pad_ini :: initializer where
  "k20_fixed_rdesc_pad_ini = concat [
     UsagePage_GenericDesktop,
     Usage_GD_Keypad,
     CollectionApplication (concat [
       ReportId k20_VENDOR_REPORT_ID,
       UsagePage_Digitizers,
       Usage_Dig_TabletFunctionKeys,
       CollectionPhysical (concat [
         Usage_Dig_BarrelSwitch,
         ReportCount 1,
         ReportSize 1,
         Input (Var OR Abs),
         ReportCount 7,
         Input Const,
         UsagePage_GenericDesktop,
         Usage_GD_X,
         Usage_GD_Y,
         LogicalMinimum_i8 0x0,
         LogicalMaximum_i8 0x1,
         ReportCount 2,
         ReportSize 8,
         Input (Var OR Abs),
         UsagePage_Button,
         UsageMinimum_i8 1,
         UsageMaximum_i8 10,
         LogicalMinimum_i8 0x0,
         LogicalMaximum_i8 0x1,
         ReportCount 10,
         ReportSize 1,
         Input (Var OR Abs),
         UsageMinimum_i8 0x31,
         UsageMaximum_i8 0x3a,
         ReportCount 9,
         ReportSize 1,
         Input (Var OR Abs),
         ReportCount 13,
         ReportSize 1,
         Input Const,
         UsagePage_GenericDesktop,
         Usage_GD_Wheel,
         LogicalMinimum_i8 (- 1),
         LogicalMaximum_i8 1,
         ReportCount 1,
         ReportSize 8,
         Input (Var OR Rel)]),
       FixedSizeVendorReport k20_PAD_KBD_REPORT_LENGTH,
       FixedSizeVendorReport k20_PAD_CC_REPORT_LENGTH,
       FixedSizeVendorReport k20_PAD_MOUSE_REPORT_LENGTH])]"

definition k20_fixed_rdesc_pad :: "u8 list" where
  "k20_fixed_rdesc_pad = bytes k20_fixed_rdesc_pad_ini"

lemma length_k20_disabled_rdesc_puck [simp]: "length k20_disabled_rdesc_puck = 16"
  by code_simp

lemma k20_disabled_rdesc_puck_declares [rdesc_facts]:
  "static_ok k20_disabled_rdesc_puck_ini \<and> rdesc_declares k20_disabled_rdesc_puck [(172, 9)]"
  by code_simp

lemma length_k20_disabled_rdesc_pad [simp]: "length k20_disabled_rdesc_pad = 48"
  by code_simp

lemma k20_disabled_rdesc_pad_declares [rdesc_facts]:
  "static_ok k20_disabled_rdesc_pad_ini \<and> rdesc_declares k20_disabled_rdesc_pad [(172, 16)]"
  by code_simp

lemma length_k20_fixed_rdesc_vendor [simp]: "length k20_fixed_rdesc_vendor = 106"
  by code_simp

lemma k20_fixed_rdesc_vendor_declares [rdesc_facts]:
  "static_ok k20_fixed_rdesc_vendor_ini \<and> rdesc_declares k20_fixed_rdesc_vendor [(8, 9), (172, 12)]"
  by code_simp

lemma length_k20_fixed_rdesc_pad [simp]: "length k20_fixed_rdesc_pad = 138"
  by code_simp

lemma k20_fixed_rdesc_pad_declares [rdesc_facts]:
  "static_ok k20_fixed_rdesc_pad_ini \<and> rdesc_declares k20_fixed_rdesc_pad [(8, 9), (172, 16)]"
  by code_simp

definition k20_fix_rdesc :: "k20_state program" where
  "k20_fix_rdesc s c data = (case data of None \<Rightarrow> Some (s, [], 0) | Some d \<Rightarrow>
     let rdesc_size = ctx_size c; have_fw_id = has_prefix (k20_fw_id s) k20_EXPECTED_FIRMWARE_ID in
     if rdesc_size = k20_PAD_REPORT_DESCRIPTOR_LENGTH then
       (if have_fw_id then
          do { d1 \<leftarrow> memcpy d 0 k20_disabled_rdesc_pad; Some (s, d1, int (length k20_disabled_rdesc_pad)) }
        else
          do { d1 \<leftarrow> memcpy d 0 k20_fixed_rdesc_pad; Some (s, d1, int (length k20_fixed_rdesc_pad)) })
     else if rdesc_size = k20_PUCK_REPORT_DESCRIPTOR_LENGTH \<and> have_fw_id then
       do { d1 \<leftarrow> memcpy d 0 k20_disabled_rdesc_puck; Some (s, d1, int (length k20_disabled_rdesc_puck)) }
     else if rdesc_size = k20_VENDOR_REPORT_DESCRIPTOR_LENGTH then
       do { d1 \<leftarrow> memcpy d 0 k20_fixed_rdesc_vendor; Some (s, d1, int (length k20_fixed_rdesc_vendor)) }
     else Some (s, d, 0))"

definition k20_new_rdesc :: "k20_state \<Rightarrow> int \<Rightarrow> u8 list option" where
  "k20_new_rdesc s n =
     (let have_fw_id = has_prefix (k20_fw_id s) k20_EXPECTED_FIRMWARE_ID in
      if n = k20_VENDOR_REPORT_DESCRIPTOR_LENGTH then Some k20_fixed_rdesc_vendor
      else if n = k20_PAD_REPORT_DESCRIPTOR_LENGTH
           then Some (if have_fw_id then k20_disabled_rdesc_pad else k20_fixed_rdesc_pad)
      else if n = k20_PUCK_REPORT_DESCRIPTOR_LENGTH \<and> have_fw_id then Some k20_disabled_rdesc_puck
      else None)"

interpretation k20_fixup: replacing_fixup k20_fix_rdesc "\<lambda>s c. k20_new_rdesc s (ctx_size c)"
  by unfold_locales
    (auto simp: k20_fix_rdesc_def k20_new_rdesc_def Let_def split: if_splits)

definition k20_button_mapping :: "u8 list" where
  "k20_button_mapping =
    [0x0e, 0x0a, 0x0f, 0x4c, 0x0c, 0x07, 0x05, 0x08, 0x16, 0x1d, 0x06, 0x19,
     0xff, 0xff, 0xff, 0x28, 0x2c, 0x11]"

text \<open>The modifier byte of a keyboard report: Control, Shift and Alt are buttons 13, 15 and 14.\<close>

definition k20_modifier_mask :: "u8 \<Rightarrow> u32" where
  "k20_modifier_mask modifiers =
     (if modifiers AND 0x01 \<noteq> 0 then BIT 12 else 0) OR
     (if modifiers AND 0x02 \<noteq> 0 then BIT 14 else 0) OR
     (if modifiers AND 0x04 \<noteq> 0 then BIT 13 else 0)"

text \<open>The keys of a keyboard report, up to the first empty slot; every key read is cleared.\<close>

fun k20_scan :: "nat list \<Rightarrow> u8 list \<Rightarrow> u32 \<Rightarrow> (u8 list \<times> u32) option" where
  "k20_scan [] d buttons = Some (d, buttons)"
| "k20_scan (i # is) d buttons = do {
     v \<leftarrow> rd d i;
     if v = 0 then Some (d, buttons)
     else do {
       d' \<leftarrow> wr d i 0;
       k20_scan is d' (buttons OR key_bit k20_button_mapping 0 v) } }"

definition k20_fix_events :: "k20_state program" where
  "k20_fix_events s c data = (case data of None \<Rightarrow> Some (s, [], 0) | Some d \<Rightarrow> do {
     d0 \<leftarrow> rd d 0;
     if d0 = k20_VENDOR_REPORT_ID then do {
       d1 \<leftarrow> rd d 1;
       (s1, wheel) \<leftarrow>
         (if d1 = 0xf1 then do {
            d5 \<leftarrow> rd d 5;
            Some (s, if d5 = 2 then 0xff else d5) }
          else do {
            d4 \<leftarrow> rd d 4; d5 \<leftarrow> rd d 5; d6 \<leftarrow> rd d 6;
            Some (s\<lparr>k20_last_button_state := le32 d4 d5 d6 0\<rparr>, 0) });
       d' \<leftarrow> memcpy d 0 (pad_report k20_VENDOR_REPORT_ID d1 (k20_last_button_state s1) wheel);
       Some (s1, d', 9) }
     else if d0 = k20_PAD_KBD_REPORT_ID then do {
       modifiers \<leftarrow> rd d 1;
       (d1, buttons) \<leftarrow> k20_scan [2..<k20_PAD_KBD_REPORT_LENGTH] d (k20_modifier_mask modifiers);
       d' \<leftarrow> memcpy d1 0 (pad_report k20_VENDOR_REPORT_ID modifiers buttons 0);
       Some (s, d', 9) }
     else Some (s, d, 0) })"

lemma k20_scan_total:
  "list_all (\<lambda>i. i < length d) is \<Longrightarrow> \<exists>d' b'. k20_scan is d b = Some (d', b') \<and> length d' = length d"
proof (induction "is" arbitrary: d b)
  case Nil
  then show ?case by simp
next
  case (Cons i "is")
  then show ?case
    using Cons.IH [of "d[i := 0]" "b OR key_bit k20_button_mapping 0 (d ! i)"] by (auto simp: list_all_iff)
qed

interpretation k20_events: hid_program k20_fix_events 10
proof
  show "k20_fix_events s c None = Some (s, [], 0)" for s c by (simp add: k20_fix_events_def)
  show "\<exists>s' d' r. k20_fix_events s c (Some d) = Some (s', d', r) \<and> length d' = 10 \<and> r \<le> int 10"
    if "length d = 10" for d s c
  proof -
    obtain d1 b1 where "k20_scan [2..<8] d (k20_modifier_mask (d ! 1)) = Some (d1, b1)" "length d1 = 10"
      using k20_scan_total [of d "[2..<8]" "k20_modifier_mask (d ! 1)"] \<open>length d = 10\<close>
      by (auto simp: list_all_iff)
    then show ?thesis using that by (auto simp: k20_fix_events_def length_pad_report)
  qed
qed

definition k20_probe :: "hid_bpf_probe_args \<Rightarrow> hid_bpf_probe_args \<times> int" where
  "k20_probe a =
     ((if pa_rdesc_size a = k20_PAD_REPORT_DESCRIPTOR_LENGTH \<or> pa_rdesc_size a = k20_PUCK_REPORT_DESCRIPTOR_LENGTH \<or> pa_rdesc_size a = k20_VENDOR_REPORT_DESCRIPTOR_LENGTH
       then a\<lparr>pa_retval := 0\<rparr> else a\<lparr>pa_retval := - EINVAL\<rparr>), 0)"

section \<open>What USB pad reports deliver\<close>

lemma k20_fixed_rdesc_pad_layout_8:
  "rdesc_layout k20_fixed_rdesc_pad 8 = Some [
     (0xd0044, 8, 1), (0x10030, 16, 8), (0x10031, 24, 8), (0x90001, 32, 1), (0x90002, 33, 1), (0x90003, 34, 1),
     (0x90004, 35, 1), (0x90005, 36, 1), (0x90006, 37, 1), (0x90007, 38, 1), (0x90008, 39, 1), (0x90009, 40, 1),
     (0x9000a, 41, 1), (0x90031, 42, 1), (0x90032, 43, 1), (0x90033, 44, 1), (0x90034, 45, 1), (0x90035, 46, 1),
     (0x90036, 47, 1), (0x90037, 48, 1), (0x90038, 49, 1), (0x90039, 50, 1), (0x10038, 64, 8)]"
  by code_simp

lemma k20_fixed_rdesc_vendor_layout_8:
  "rdesc_layout k20_fixed_rdesc_vendor 8 = Some [
     (0xd0044, 8, 1), (0x10030, 16, 8), (0x10031, 24, 8), (0x90001, 32, 1), (0x90002, 33, 1), (0x90003, 34, 1),
     (0x90004, 35, 1), (0x90005, 36, 1), (0x90006, 37, 1), (0x90007, 38, 1), (0x90008, 39, 1), (0x90009, 40, 1),
     (0x9000a, 41, 1), (0x90031, 42, 1), (0x90032, 43, 1), (0x90033, 44, 1), (0x90034, 45, 1), (0x90035, 46, 1),
     (0x90036, 47, 1), (0x90037, 48, 1), (0x90038, 49, 1), (0x90039, 50, 1), (0x10038, 64, 8)]"
  by code_simp

lemma pad_ids: "uint (8 :: u8) = 8" "uint (11 :: u8) = 11"
  by simp_all

lemma k20_pad_slots: "pad_slots k20_fixed_rdesc_pad 8" "pad_slots k20_fixed_rdesc_vendor 8"
  unfolding pad_slots_def usage_slot_def
  by (simp_all only: pad_ids k20_fixed_rdesc_pad_layout_8 k20_fixed_rdesc_vendor_layout_8 option.case) code_simp+

lemma k20_scan_bits:
  "distinct is \<Longrightarrow> list_all (\<lambda>i. i < length d) is \<Longrightarrow> k20_scan is d m = Some (d', bm) \<Longrightarrow>
   bit bm n \<longleftrightarrow> bit m n \<or> (\<exists>v \<in> held_keys is d. bit (key_bit k20_button_mapping 0 v) n)"
proof (induction "is" arbitrary: d m)
  case Nil
  then show ?case by simp
next
  case (Cons i "is")
  show ?case
  proof (cases "d ! i = 0")
    case True
    with Cons.prems show ?thesis by simp
  next
    case False
    with Cons.prems have "bit bm n \<longleftrightarrow> bit (m OR key_bit k20_button_mapping 0 (d ! i)) n \<or>
        (\<exists>v \<in> held_keys is (d[i := 0]). bit (key_bit k20_button_mapping 0 v) n)"
      by (intro Cons.IH) simp_all
    then show ?thesis
      using False Cons.prems(1) by (simp add: held_keys_update bit_or_iff disj_assoc)
  qed
qed

lemma length_k20_button_mapping: "length k20_button_mapping = 18"
  by (simp add: k20_button_mapping_def)

lemma k20_key_bits:
  "(\<exists>v \<in> V. bit (key_bit k20_button_mapping 0 v) n) \<longleftrightarrow>
     n < 18 \<and> n \<noteq> 13 \<and> n \<noteq> 14 \<and> k20_button_mapping ! n \<in> V"
proof -
  have "list_all (\<lambda>n. k20_button_mapping ! n \<notin> set (take n k20_button_mapping) \<longleftrightarrow> n \<noteq> 13 \<and> n \<noteq> 14) [0..<18]"
    by code_simp
  then show ?thesis unfolding bit_key_bit length_k20_button_mapping list_all_iff by auto
qed

lemma k20_bit_modifier_mask:
  "bit (k20_modifier_mask m) n \<longleftrightarrow> (n = 12 \<and> bit m 0) \<or> (n = 14 \<and> bit m 1) \<or> (n = 13 \<and> bit m 2)"
proof -
  have "m AND 1 \<noteq> 0 \<longleftrightarrow> bit m 0" "m AND 2 \<noteq> 0 \<longleftrightarrow> bit m 1" "m AND 4 \<noteq> 0 \<longleftrightarrow> bit m 2"
    using BIT_mask_nonzero [of m 0] BIT_mask_nonzero [of m 1] BIT_mask_nonzero [of m 2]
    by (simp_all add: BIT_def push_bit_eq_mult)
  then show ?thesis by (simp add: k20_modifier_mask_def bit_or_iff bit_BIT)
qed

text \<open>
  Button \<open>n\<close> in a keyboard report: a modifier, or a key of the mapping. The placeholder \<open>0xff\<close> of the
  three modifier buttons is an entry like any other, found at the first of them.
\<close>

definition k20_button_held :: "u8 list \<Rightarrow> nat \<Rightarrow> bool" where
  "k20_button_held rep n \<longleftrightarrow>
     (n = 12 \<and> bit (rep ! 1) 0) \<or> (n = 14 \<and> bit (rep ! 1) 1) \<or> (n = 13 \<and> bit (rep ! 1) 2) \<or>
     (n < 18 \<and> n \<noteq> 13 \<and> n \<noteq> 14 \<and> k20_button_mapping ! n \<in> held_keys [2..<8] rep)"

lemma k20_keyboard_event:
  assumes "length rep = 8" and "rep ! 0 = k20_PAD_KBD_REPORT_ID"
  obtains bm where "device_event k20_fix_events 10 hid s rep
      = Some (s, Some (pad_report k20_VENDOR_REPORT_ID (rep ! 1) bm 0))"
    and "\<And>n. bit bm n \<longleftrightarrow> k20_button_held rep n"
proof -
  define d where "d = take 10 (report_buffer rep)"
  have d: "length d = 10" "d ! 0 = 3" "d ! 1 = rep ! 1" "held_keys [2..<8] d = held_keys [2..<8] rep"
    unfolding d_def using assms
    by (simp_all add: length_report_buffer report_buffer_nth held_keys_window list_all_iff del: upt_rec_numeral)
  have all: "list_all (\<lambda>i. i < length d) [2..<8]" using d by (simp add: list_all_iff)
  obtain d1 bm where scan: "k20_scan [2..<8] d (k20_modifier_mask (rep ! 1)) = Some (d1, bm)" "length d1 = 10"
    using k20_scan_total [OF all, of "k20_modifier_mask (rep ! 1)"] d by auto
  have bits: "bit bm n \<longleftrightarrow> k20_button_held rep n" for n
    using k20_scan_bits [OF distinct_upt all scan(1), of n] d(4)
    by (auto simp: k20_bit_modifier_mask k20_key_bits k20_button_held_def simp del: upt_rec_numeral)
  have "k20_fix_events s c (Some d) = Some (s, pad_report k20_VENDOR_REPORT_ID (rep ! 1) bm 0 @ drop 9 d1, int 9)" for c
    using d scan by (simp add: k20_fix_events_def length_pad_report del: k20_scan.simps upt_rec_numeral)
  then have "device_event k20_fix_events 10 hid s rep
      = Some (s, Some (pad_report k20_VENDOR_REPORT_ID (rep ! 1) bm 0))"
    using device_event_eq [of 10 k20_fix_events s hid rep] delivered_prefix [of 9 "pad_report k20_VENDOR_REPORT_ID (rep ! 1) bm 0"]
    by (simp add: d_def length_pad_report)
  with bits show ?thesis using that by blast
qed

text \<open>
  C10: A keyboard report of the K20 (USB, firmware mode without vendor reports) is delivered as a
  nine-byte report 8, and reading it through the descriptor the program installs gives exactly the
  buttons held: each of the 19 button usages is 1 if its modifier or its key is in the report and 0
  otherwise, and the wheel is at rest.
\<close>

theorem k20_keyboard_buttons:
  assumes "length rep = 8" and "rep ! 0 = k20_PAD_KBD_REPORT_ID"
  shows "\<exists>out. device_event k20_fix_events 10 hid s rep = Some (s, Some out)
           \<and> conforms [(8, 9), (172, 16)] out
           \<and> (\<forall>n < 19. usage_value k20_fixed_rdesc_pad out (k20_button_usage n)
                       = Some (of_bool (k20_button_held rep n)))
           \<and> usage_value k20_fixed_rdesc_pad out 0x10038 = Some 0"
proof -
  obtain bm where ev: "device_event k20_fix_events 10 hid s rep = Some (s, Some (pad_report 8 (rep ! 1) bm 0))"
    and bits: "\<And>n. bit bm n \<longleftrightarrow> k20_button_held rep n"
    using k20_keyboard_event [OF assms, of hid s] by blast
  have "conforms [(8, 9), (172, 16)] (pad_report 8 (rep ! 1) bm 0)"
    by (simp add: conforms_def pad_report_def)
  with ev bits show ?thesis
    using pad_report_usages(1) [OF k20_pad_slots(1), of _ "rep ! 1" bm 0]
      pad_report_usages(2) [OF k20_pad_slots(1), of "rep ! 1" bm 0] by auto
qed

theorem k20_keyboard_buttons_witness:
  "\<exists>out. device_event k20_fix_events 10 \<lparr>hdev_id = 1, hdev_bus = 3, hdev_product = 0x69, hdev_name = []\<rparr>
            \<lparr>k20_fw_id = [], k20_last_button_state = 0\<rparr> [3, 1, 0x0e, 0x2c, 0, 0, 0, 0]
          = Some (\<lparr>k20_fw_id = [], k20_last_button_state = 0\<rparr>, Some out)
     \<and> map (\<lambda>n. usage_value k20_fixed_rdesc_pad out (k20_button_usage n)) [0, 1, 12, 16]
         = [Some 1, Some 0, Some 1, Some 1]"
proof -
  let ?rep = "[3, 1, 0x0e, 0x2c, 0, 0, 0, 0] :: u8 list"
  have "k20_button_held ?rep 0" "\<not> k20_button_held ?rep 1" "k20_button_held ?rep 12" "k20_button_held ?rep 16"
    by code_simp+
  then show ?thesis
    using k20_keyboard_buttons [of ?rep "\<lparr>hdev_id = 1, hdev_bus = 3, hdev_product = 0x69, hdev_name = []\<rparr>"
        "\<lparr>k20_fw_id = [], k20_last_button_state = 0\<rparr>"]
    by auto
qed

section \<open>Bluetooth\<close>


abbreviation (input) k20bt_VID_HUION :: "'a::numeral" where "k20bt_VID_HUION \<equiv> 0x256c"

abbreviation (input) k20bt_PID_KEYDIAL_K20_BLUETOOTH :: "'a::numeral" where "k20bt_PID_KEYDIAL_K20_BLUETOOTH \<equiv> 0x8251"

abbreviation (input) k20bt_BT_PAD_REPORT_DESCRIPTOR_LENGTH :: "'a::numeral" where "k20bt_BT_PAD_REPORT_DESCRIPTOR_LENGTH \<equiv> 160"

abbreviation (input) k20bt_BT_PUCK_REPORT_DESCRIPTOR_LENGTH :: "'a::numeral" where "k20bt_BT_PUCK_REPORT_DESCRIPTOR_LENGTH \<equiv> 114"

abbreviation (input) k20bt_BT_PAD_KBD_REPORT_ID :: "'a::numeral" where "k20bt_BT_PAD_KBD_REPORT_ID \<equiv> 1"

abbreviation (input) k20bt_BT_PAD_CC_REPORT_ID :: "'a::numeral" where "k20bt_BT_PAD_CC_REPORT_ID \<equiv> 2"

abbreviation (input) k20bt_BT_PAD_MOUSE_REPORT_ID :: "'a::numeral" where "k20bt_BT_PAD_MOUSE_REPORT_ID \<equiv> 5"

abbreviation (input) k20bt_BT_PAD_KBD_REPORT_LENGTH :: "'a::numeral" where "k20bt_BT_PAD_KBD_REPORT_LENGTH \<equiv> 9"

abbreviation (input) k20bt_BT_PAD_CC_REPORT_LENGTH :: "'a::numeral" where "k20bt_BT_PAD_CC_REPORT_LENGTH \<equiv> 3"

abbreviation (input) k20bt_BT_PAD_MOUSE_REPORT_LENGTH :: "'a::numeral" where "k20bt_BT_PAD_MOUSE_REPORT_LENGTH \<equiv> 7"

abbreviation (input) k20bt_OUR_REPORT_ID :: "'a::numeral" where "k20bt_OUR_REPORT_ID \<equiv> 11"

record k20bt_state =
  k20bt_last_button_state :: u32

definition k20bt_disabled_rdesc_puck_ini :: initializer where
  "k20bt_disabled_rdesc_puck_ini = concat [
     FixedSizeVendorReport k20bt_BT_PUCK_REPORT_DESCRIPTOR_LENGTH]"

definition k20bt_disabled_rdesc_puck :: "u8 list" where
  "k20bt_disabled_rdesc_puck = bytes k20bt_disabled_rdesc_puck_ini"

definition k20bt_fixed_rdesc_pad_ini :: initializer where
  "k20bt_fixed_rdesc_pad_ini = concat [
     UsagePage_GenericDesktop,
     Usage_GD_Keypad,
     CollectionApplication (concat [
       ReportId k20bt_OUR_REPORT_ID,
       UsagePage_Digitizers,
       Usage_Dig_TabletFunctionKeys,
       CollectionPhysical (concat [
         Usage_Dig_BarrelSwitch,
         ReportCount 1,
         ReportSize 1,
         Input (Var OR Abs),
         ReportCount 7,
         Input Const,
         UsagePage_GenericDesktop,
         Usage_GD_X,
         Usage_GD_Y,
         LogicalMinimum_i8 0x0,
         LogicalMaximum_i8 0x1,
         ReportCount 2,
         ReportSize 8,
         Input (Var OR Abs),
         UsagePage_Button,
         UsageMinimum_i8 1,
         UsageMaximum_i8 10,
         LogicalMinimum_i8 0x0,
         LogicalMaximum_i8 0x1,
         ReportCount 10,
         ReportSize 1,
         Input (Var OR Abs),
         UsageMinimum_i8 0x31,
         UsageMaximum_i8 0x3a,
         ReportCount 9,
         ReportSize 1,
         Input (Var OR Abs),
         ReportCount 13,
         ReportSize 1,
         Input Const,
         UsagePage_GenericDesktop,
         Usage_GD_Wheel,
         LogicalMinimum_i8 (- 1),
         LogicalMaximum_i8 1,
         ReportCount 1,
         ReportSize 8,
         Input (Var OR Rel)]),
       FixedSizeVendorReport k20bt_BT_PAD_KBD_REPORT_LENGTH])]"

definition k20bt_fixed_rdesc_pad :: "u8 list" where
  "k20bt_fixed_rdesc_pad = bytes k20bt_fixed_rdesc_pad_ini"

lemma length_k20bt_disabled_rdesc_puck [simp]: "length k20bt_disabled_rdesc_puck = 16"
  by code_simp

lemma k20bt_disabled_rdesc_puck_declares [rdesc_facts]:
  "static_ok k20bt_disabled_rdesc_puck_ini \<and> rdesc_declares k20bt_disabled_rdesc_puck [(172, 114)]"
  by code_simp

lemma length_k20bt_fixed_rdesc_pad [simp]: "length k20bt_fixed_rdesc_pad = 106"
  by code_simp

lemma k20bt_fixed_rdesc_pad_declares [rdesc_facts]:
  "static_ok k20bt_fixed_rdesc_pad_ini \<and> rdesc_declares k20bt_fixed_rdesc_pad [(11, 9), (172, 9)]"
  by code_simp

definition k20bt_fix_rdesc :: "k20bt_state program" where
  "k20bt_fix_rdesc s c data = (case data of None \<Rightarrow> Some (s, [], 0) | Some d \<Rightarrow>
     let rdesc_size = ctx_size c in
     if rdesc_size = k20bt_BT_PAD_REPORT_DESCRIPTOR_LENGTH then
       do { d1 \<leftarrow> memcpy d 0 k20bt_fixed_rdesc_pad; Some (s, d1, int (length k20bt_fixed_rdesc_pad)) }
     else if rdesc_size = k20bt_BT_PUCK_REPORT_DESCRIPTOR_LENGTH then
       do { d1 \<leftarrow> memcpy d 0 k20bt_disabled_rdesc_puck; Some (s, d1, int (length k20bt_disabled_rdesc_puck)) }
     else Some (s, d, 0))"

definition k20bt_new_rdesc :: "k20bt_state \<Rightarrow> int \<Rightarrow> u8 list option" where
  "k20bt_new_rdesc s n =
     (if n = k20bt_BT_PAD_REPORT_DESCRIPTOR_LENGTH then Some k20bt_fixed_rdesc_pad
      else if n = k20bt_BT_PUCK_REPORT_DESCRIPTOR_LENGTH then Some k20bt_disabled_rdesc_puck
      else None)"

interpretation k20bt_fixup: replacing_fixup k20bt_fix_rdesc "\<lambda>s c. k20bt_new_rdesc s (ctx_size c)"
  by unfold_locales
    (auto simp: k20bt_fix_rdesc_def k20bt_new_rdesc_def Let_def split: if_splits)

definition k20bt_button_mapping :: "u8 list" where
  "k20bt_button_mapping =
    [0x0e, 0x0a, 0x0f, 0x4c, 0x0c, 0x07, 0x05, 0x08, 0x16, 0x1d, 0x06, 0x19,
     0xff, 0xff, 0xff, 0x28, 0x2c, 0x11]"

text \<open>The modifier byte of a keyboard report: Control, Shift and Alt are buttons 13, 15 and 14.\<close>

definition k20bt_modifier_mask :: "u8 \<Rightarrow> u32" where
  "k20bt_modifier_mask modifiers =
     (if modifiers AND 0x01 \<noteq> 0 then BIT 12 else 0) OR
     (if modifiers AND 0x02 \<noteq> 0 then BIT 14 else 0) OR
     (if modifiers AND 0x04 \<noteq> 0 then BIT 13 else 0)"

text \<open>
  The keys of a keyboard report, up to the first empty slot. The inner loop never matches the
  placeholder \<open>0xff\<close> of the modifier buttons.
\<close>

fun k20bt_scan :: "nat list \<Rightarrow> u8 list \<Rightarrow> u32 \<Rightarrow> u32 option" where
  "k20bt_scan [] d buttons = Some buttons"
| "k20bt_scan (i # is) d buttons = do {
     v \<leftarrow> rd d i;
     if v = 0 then Some buttons
     else k20bt_scan is d (buttons OR (if v \<noteq> 0xff then key_bit k20bt_button_mapping 0 v else 0)) }"

definition k20bt_fix_events :: "k20bt_state program" where
  "k20bt_fix_events s c data = (case data of None \<Rightarrow> Some (s, [], 0) | Some d \<Rightarrow> do {
     d0 \<leftarrow> rd d 0;
     if d0 = k20bt_BT_PAD_KBD_REPORT_ID then do {
       modifiers \<leftarrow> rd d 1;
       buttons \<leftarrow> k20bt_scan [4..<k20bt_BT_PAD_KBD_REPORT_LENGTH] d (k20bt_modifier_mask modifiers);
       let s1 = s\<lparr>k20bt_last_button_state := buttons\<rparr>;
       d' \<leftarrow> memcpy d 0 (pad_report k20bt_OUR_REPORT_ID modifiers buttons 0);
       Some (s1, d', 9) }
     else if d0 = k20bt_BT_PAD_CC_REPORT_ID then do {
       d1 \<leftarrow> rd d 1;
       let s1 = (if d1 = 0xcd
                 then s\<lparr>k20bt_last_button_state := k20bt_last_button_state s OR BIT 18\<rparr>
                 else s\<lparr>k20bt_last_button_state := k20bt_last_button_state s AND NOT (BIT 18)\<rparr>);
       d' \<leftarrow> memcpy d 0 (pad_report k20bt_OUR_REPORT_ID d1 (k20bt_last_button_state s1) 0);
       Some (s1, d', 9) }
     else if d0 = k20bt_BT_PAD_MOUSE_REPORT_ID then do {
       d1 \<leftarrow> rd d 1;
       wheel_delta \<leftarrow> rd d 6;
       d' \<leftarrow> memcpy d 0 (pad_report k20bt_OUR_REPORT_ID d1 (k20bt_last_button_state s) wheel_delta);
       Some (s, d', 9) }
     else Some (s, d, 0) })"

lemma k20bt_scan_total:
  "list_all (\<lambda>i. i < length d) is \<Longrightarrow> \<exists>b'. k20bt_scan is d b = Some b'"
  by (induction "is" d b rule: k20bt_scan.induct) auto

interpretation k20bt_events: hid_program k20bt_fix_events 12
proof
  show "k20bt_fix_events s c None = Some (s, [], 0)" for s c by (simp add: k20bt_fix_events_def)
  show "\<exists>s' d' r. k20bt_fix_events s c (Some d) = Some (s', d', r) \<and> length d' = 12 \<and> r \<le> int 12"
    if "length d = 12" for d s c
  proof -
    obtain b1 where "k20bt_scan [4..<9] d (k20bt_modifier_mask (d ! 1)) = Some b1"
      using k20bt_scan_total [of d "[4..<9]" "k20bt_modifier_mask (d ! 1)"] \<open>length d = 12\<close>
      by (auto simp: list_all_iff)
    then show ?thesis using that by (auto simp: k20bt_fix_events_def Let_def length_pad_report)
  qed
qed

definition k20bt_probe :: "hid_bpf_probe_args \<Rightarrow> hid_bpf_probe_args \<times> int" where
  "k20bt_probe a =
     ((if pa_rdesc_size a = k20bt_BT_PAD_REPORT_DESCRIPTOR_LENGTH \<or> pa_rdesc_size a = k20bt_BT_PUCK_REPORT_DESCRIPTOR_LENGTH
       then a\<lparr>pa_retval := 0\<rparr> else a\<lparr>pa_retval := - EINVAL\<rparr>), 0)"

section \<open>What Bluetooth pad reports deliver\<close>

lemma k20bt_fixed_rdesc_pad_layout_11:
  "rdesc_layout k20bt_fixed_rdesc_pad 11 = Some [
     (0xd0044, 8, 1), (0x10030, 16, 8), (0x10031, 24, 8), (0x90001, 32, 1), (0x90002, 33, 1), (0x90003, 34, 1),
     (0x90004, 35, 1), (0x90005, 36, 1), (0x90006, 37, 1), (0x90007, 38, 1), (0x90008, 39, 1), (0x90009, 40, 1),
     (0x9000a, 41, 1), (0x90031, 42, 1), (0x90032, 43, 1), (0x90033, 44, 1), (0x90034, 45, 1), (0x90035, 46, 1),
     (0x90036, 47, 1), (0x90037, 48, 1), (0x90038, 49, 1), (0x90039, 50, 1), (0x10038, 64, 8)]"
  by code_simp

lemma k20bt_pad_slots: "pad_slots k20bt_fixed_rdesc_pad 11"
  unfolding pad_slots_def usage_slot_def
  by (simp only: pad_ids k20bt_fixed_rdesc_pad_layout_11 option.case) code_simp

lemma k20bt_scan_bits:
  "list_all (\<lambda>i. i < length d) is \<Longrightarrow> k20bt_scan is d m = Some bm \<Longrightarrow>
   bit bm n \<longleftrightarrow> bit m n \<or> (\<exists>v \<in> held_keys is d - {0xff}. bit (key_bit k20bt_button_mapping 0 v) n)"
proof (induction "is" arbitrary: m)
  case Nil
  then show ?case by simp
next
  case (Cons i "is")
  show ?case
  proof (cases "d ! i = 0")
    case True
    with Cons.prems show ?thesis by simp
  next
    case False
    let ?b = "if d ! i \<noteq> 0xff then key_bit k20bt_button_mapping 0 (d ! i) else 0"
    have "bit bm n \<longleftrightarrow> bit (m OR ?b) n \<or>
        (\<exists>v \<in> held_keys is d - {0xff}. bit (key_bit k20bt_button_mapping 0 v) n)"
      using Cons.prems False by (intro Cons.IH) (simp_all split: if_splits)
    then show ?thesis
      using False by (auto simp: bit_or_iff split: if_splits)
  qed
qed

lemma length_k20bt_button_mapping: "length k20bt_button_mapping = 18"
  by (simp add: k20bt_button_mapping_def)

lemma k20bt_key_bits:
  "(\<exists>v \<in> V - {0xff}. bit (key_bit k20bt_button_mapping 0 v) n) \<longleftrightarrow>
     n < 18 \<and> n \<notin> {12, 13, 14} \<and> k20bt_button_mapping ! n \<in> V"
proof -
  have "list_all (\<lambda>n. (k20bt_button_mapping ! n \<notin> set (take n k20bt_button_mapping) \<and> k20bt_button_mapping ! n \<noteq> 0xff)
      \<longleftrightarrow> n \<noteq> 12 \<and> n \<noteq> 13 \<and> n \<noteq> 14) [0..<18]"
    by code_simp
  then have key: "n < 18 \<Longrightarrow> (k20bt_button_mapping ! n \<notin> set (take n k20bt_button_mapping) \<and> k20bt_button_mapping ! n \<noteq> 0xff)
      \<longleftrightarrow> n \<notin> {12, 13, 14}"
    by (simp add: list_all_iff)
  have "(\<exists>v \<in> V - {0xff}. bit (key_bit k20bt_button_mapping 0 v) n) \<longleftrightarrow> n < 18 \<and> k20bt_button_mapping ! n \<in> V \<and>
      (k20bt_button_mapping ! n \<notin> set (take n k20bt_button_mapping) \<and> k20bt_button_mapping ! n \<noteq> 0xff)"
    unfolding bit_key_bit length_k20bt_button_mapping diff_zero by fastforce
  with key show ?thesis by blast
qed

lemma k20bt_bit_modifier_mask:
  "bit (k20bt_modifier_mask m) n \<longleftrightarrow> (n = 12 \<and> bit m 0) \<or> (n = 14 \<and> bit m 1) \<or> (n = 13 \<and> bit m 2)"
proof -
  have "k20bt_modifier_mask m = k20_modifier_mask m" by (simp add: k20bt_modifier_mask_def k20_modifier_mask_def)
  then show ?thesis by (simp add: k20_bit_modifier_mask)
qed

text \<open>
  The buttons after a report: the keyboard report sets them all, the consumer control report sets
  or clears the wheel button, the mouse report leaves them.
\<close>

definition k20bt_button_held :: "u32 \<Rightarrow> u8 list \<Rightarrow> nat \<Rightarrow> bool" where
  "k20bt_button_held old rep n \<longleftrightarrow>
     (if rep ! 0 = k20bt_BT_PAD_KBD_REPORT_ID then
        (n = 12 \<and> bit (rep ! 1) 0) \<or> (n = 14 \<and> bit (rep ! 1) 1) \<or> (n = 13 \<and> bit (rep ! 1) 2) \<or>
        (n < 18 \<and> n \<notin> {12, 13, 14} \<and> k20bt_button_mapping ! n \<in> held_keys [4..<9] rep)
      else if rep ! 0 = k20bt_BT_PAD_CC_REPORT_ID then (if n = 18 then rep ! 1 = 0xcd else bit old n)
      else bit old n)"

lemma k20bt_event:
  assumes "9 \<le> length rep" "length rep \<le> 12"
    and "rep ! 0 \<in> {k20bt_BT_PAD_KBD_REPORT_ID, k20bt_BT_PAD_CC_REPORT_ID, k20bt_BT_PAD_MOUSE_REPORT_ID}"
  obtains bm where "device_event k20bt_fix_events 12 hid s rep
      = Some (s\<lparr>k20bt_last_button_state := bm\<rparr>, Some (pad_report k20bt_OUR_REPORT_ID (rep ! 1) bm
          (if rep ! 0 = k20bt_BT_PAD_MOUSE_REPORT_ID then rep ! 6 else 0)))"
    and "\<And>n. n < 32 \<Longrightarrow> bit bm n \<longleftrightarrow> k20bt_button_held (k20bt_last_button_state s) rep n"
proof -
  define d where "d = take 12 (report_buffer rep)"
  let ?w = "if rep ! 0 = k20bt_BT_PAD_MOUSE_REPORT_ID then rep ! 6 else 0"
  have len: "0 < length rep" "1 < length rep" "6 < length rep" using assms by linarith+
  have d: "length d = 12" "d ! 0 = rep ! 0" "d ! 1 = rep ! 1" "d ! 6 = rep ! 6"
      "held_keys [4..<9] d = held_keys [4..<9] rep"
    unfolding d_def using len assms(1,2)
    by (simp_all add: length_report_buffer report_buffer_nth held_keys_window list_all_iff del: upt_rec_numeral)
  have all: "list_all (\<lambda>i. i < length d) [4..<9]" using d by (simp add: list_all_iff)
  obtain kb where scan: "k20bt_scan [4..<9] d (k20bt_modifier_mask (rep ! 1)) = Some kb"
    using k20bt_scan_total [OF all, of "k20bt_modifier_mask (rep ! 1)"] by auto
  define bm where "bm = (if rep ! 0 = k20bt_BT_PAD_KBD_REPORT_ID then kb
     else if rep ! 0 = k20bt_BT_PAD_CC_REPORT_ID then
       (if rep ! 1 = 0xcd then k20bt_last_button_state s OR BIT 18 else k20bt_last_button_state s AND NOT (BIT 18))
     else k20bt_last_button_state s)"
  have "bit bm n \<longleftrightarrow> k20bt_button_held (k20bt_last_button_state s) rep n" if "n < 32" for n
    using k20bt_scan_bits [OF all scan, of n] d(5) that
    by (auto simp: bm_def k20bt_bit_modifier_mask k20bt_key_bits k20bt_button_held_def
        bit_or_iff bit_and_iff bit_not_iff bit_BIT simp del: upt_rec_numeral)
  moreover have "k20bt_fix_events s c (Some d)
      = Some (s\<lparr>k20bt_last_button_state := bm\<rparr>, pad_report k20bt_OUR_REPORT_ID (rep ! 1) bm ?w @ drop 9 d, int 9)" for c
    using d scan assms(3)
    by (auto simp: k20bt_fix_events_def bm_def Let_def length_pad_report simp del: k20bt_scan.simps upt_rec_numeral)
  then have "device_event k20bt_fix_events 12 hid s rep
      = Some (s\<lparr>k20bt_last_button_state := bm\<rparr>, Some (pad_report k20bt_OUR_REPORT_ID (rep ! 1) bm ?w))"
    by (intro device_event_replaced [where rest = "drop 9 d"]) (simp_all add: d_def length_pad_report, simp add: pad_report_def)
  ultimately show ?thesis using that by blast
qed



end
