(* ===== verification/Huion_H610.thy ===== *)
theory Huion_H610
  imports Kernel_Iface Rdesc_Spec
begin

unbundle bit_operations_syntax

text \<open>
  \<open>0010-Huion__H610-Pro.bpf.c\<close>: the vendor descriptor, the pad and pen reports of vendor mode, and
  the probe that checks the firmware id and the magic bytes of the device.
\<close>


abbreviation (input) h610_VID_HUION :: "'a::numeral" where "h610_VID_HUION \<equiv> 0x256c"

abbreviation (input) h610_PID_HUION_H610_PRO :: "'a::numeral" where "h610_PID_HUION_H610_PRO \<equiv> 0x006e"

abbreviation (input) h610_EXPECTED_X_LOGICAL_MAX :: "'a::numeral" where "h610_EXPECTED_X_LOGICAL_MAX \<equiv> 40000"

abbreviation (input) h610_X_LOGICAL_MAX_IDX :: "'a::numeral" where "h610_X_LOGICAL_MAX_IDX \<equiv> 4"

abbreviation (input) h610_EXPECTED_Y_LOGICAL_MAX :: "'a::numeral" where "h610_EXPECTED_Y_LOGICAL_MAX \<equiv> 25000"

abbreviation (input) h610_Y_LOGICAL_MAX_IDX :: "'a::numeral" where "h610_Y_LOGICAL_MAX_IDX \<equiv> 8"

abbreviation (input) h610_EXPECTED_PRESSURE_LOGICAL_MAX :: "'a::numeral" where "h610_EXPECTED_PRESSURE_LOGICAL_MAX \<equiv> 2047"

abbreviation (input) h610_PRESSURE_LOGICAL_MAX_IDX :: "'a::numeral" where "h610_PRESSURE_LOGICAL_MAX_IDX \<equiv> 16"

abbreviation (input) h610_EXPECTED_RESOLUTION :: "'a::numeral" where "h610_EXPECTED_RESOLUTION \<equiv> 4000"

abbreviation (input) h610_RESOLUTION_IDX :: "'a::numeral" where "h610_RESOLUTION_IDX \<equiv> 20"

abbreviation (input) h610_PAD_REPORT_DESCRIPTOR_LENGTH :: "'a::numeral" where "h610_PAD_REPORT_DESCRIPTOR_LENGTH \<equiv> 92"

abbreviation (input) h610_PEN_REPORT_DESCRIPTOR_LENGTH :: "'a::numeral" where "h610_PEN_REPORT_DESCRIPTOR_LENGTH \<equiv> 244"

abbreviation (input) h610_VENDOR_REPORT_DESCRIPTOR_LENGTH :: "'a::numeral" where "h610_VENDOR_REPORT_DESCRIPTOR_LENGTH \<equiv> 179"

abbreviation (input) h610_PAD_REPORT_ID :: "'a::numeral" where "h610_PAD_REPORT_ID \<equiv> 10"

abbreviation (input) h610_VENDOR_REPORT_ID :: "'a::numeral" where "h610_VENDOR_REPORT_ID \<equiv> 7"

abbreviation (input) h610_PAD_REPORT_LENGTH :: "'a::numeral" where "h610_PAD_REPORT_LENGTH \<equiv> 8"

abbreviation (input) h610_PEN_REPORT_LENGTH :: "'a::numeral" where "h610_PEN_REPORT_LENGTH \<equiv> 8"

abbreviation (input) h610_VENDOR_REPORT_LENGTH :: "'a::numeral" where "h610_VENDOR_REPORT_LENGTH \<equiv> 8"

text \<open>The two udev properties the loader stores before the probe; the program has no other state.\<close>

record h610_state =
  h610_fw_id :: "u8 list"
  h610_magic_bytes :: "u8 list"

definition h610_EXPECTED_FIRMWARE_ID :: "u8 list" where
  "h610_EXPECTED_FIRMWARE_ID = map of_char ''HVAN''"

definition h610_fixed_rdesc_vendor_ini :: initializer where
  "h610_fixed_rdesc_vendor_ini = concat [
     UsagePage_Digitizers,
     Usage_Dig_Digitizer,
     CollectionApplication (concat [
       ReportId h610_VENDOR_REPORT_ID,
       Usage_Dig_Stylus,
       CollectionPhysical (concat [
         LogicalMinimum_i8 0,
         LogicalMaximum_i8 1,
         ReportSize 1,
         Usage_Dig_TipSwitch,
         Usage_Dig_BarrelSwitch,
         Usage_Dig_SecondaryBarrelSwitch,
         ReportCount 3,
         Input (Var OR Abs),
         ReportCount 3,
         Input Const,
         Usage_Dig_InRange,
         ReportCount 1,
         Input (Var OR Abs),
         ReportCount 1,
         Input Const,
         ReportSize 16,
         ReportCount 1,
         PushPop (concat [
           UsagePage_GenericDesktop,
           Unit inch,
           UnitExponent (- 3),
           LogicalMinimum_i16 0,
           LogicalMaximum_i16 40000,
           PhysicalMinimum_i16 0,
           PhysicalMaximum_i16 10000,
           Usage_GD_X,
           Input (Var OR Abs),
           LogicalMinimum_i16 0,
           LogicalMaximum_i16 25000,
           PhysicalMinimum_i16 0,
           PhysicalMaximum_i16 6250,
           Usage_GD_Y,
           Input (Var OR Abs)]),
         LogicalMinimum_i16 0,
         LogicalMaximum_i16 2047,
         Usage_Dig_TipPressure,
         Input (Var OR Abs)])]),
     UsagePage_GenericDesktop,
     Usage_GD_Keypad,
     CollectionApplication (concat [
       ReportId h610_PAD_REPORT_ID,
       LogicalMinimum_i8 0,
       LogicalMaximum_i8 1,
       UsagePage_Digitizers,
       Usage_Dig_TabletFunctionKeys,
       CollectionPhysical (concat [
         Usage_Dig_BarrelSwitch,
         ReportCount 1,
         ReportSize 1,
         Input (Var OR Abs),
         ReportCount 7,
         Input Const,
         UsagePage_GenericDesktop,
         Usage_GD_X,
         Usage_GD_Y,
         ReportCount 2,
         ReportSize 8,
         Input (Var OR Abs)]),
       UsagePage_Button,
       UsageMinimum_i8 0x1,
       UsageMaximum_i8 0x8,
       LogicalMinimum_i8 0x0,
       LogicalMaximum_i8 0x1,
       ReportCount 8,
       ReportSize 1,
       Input (Var OR Abs)])]"

definition h610_fixed_rdesc_vendor :: "u8 list" where
  "h610_fixed_rdesc_vendor = bytes h610_fixed_rdesc_vendor_ini"

definition h610_disabled_rdesc_pen_ini :: initializer where
  "h610_disabled_rdesc_pen_ini = concat [
     FixedSizeVendorReport h610_PEN_REPORT_LENGTH]"

definition h610_disabled_rdesc_pen :: "u8 list" where
  "h610_disabled_rdesc_pen = bytes h610_disabled_rdesc_pen_ini"

definition h610_disabled_rdesc_pad_ini :: initializer where
  "h610_disabled_rdesc_pad_ini = concat [
     FixedSizeVendorReport h610_PAD_REPORT_LENGTH]"

definition h610_disabled_rdesc_pad :: "u8 list" where
  "h610_disabled_rdesc_pad = bytes h610_disabled_rdesc_pad_ini"

lemma length_h610_fixed_rdesc_vendor [simp]: "length h610_fixed_rdesc_vendor = 158"
  by code_simp

lemma h610_fixed_rdesc_vendor_declares [rdesc_facts]:
  "static_ok h610_fixed_rdesc_vendor_ini \<and> rdesc_declares h610_fixed_rdesc_vendor [(7, 8), (10, 5)]"
  by code_simp

lemma length_h610_disabled_rdesc_pen [simp]: "length h610_disabled_rdesc_pen = 16"
  by code_simp

lemma h610_disabled_rdesc_pen_declares [rdesc_facts]:
  "static_ok h610_disabled_rdesc_pen_ini \<and> rdesc_declares h610_disabled_rdesc_pen [(172, 8)]"
  by code_simp

lemma length_h610_disabled_rdesc_pad [simp]: "length h610_disabled_rdesc_pad = 16"
  by code_simp

lemma h610_disabled_rdesc_pad_declares [rdesc_facts]:
  "static_ok h610_disabled_rdesc_pad_ini \<and> rdesc_declares h610_disabled_rdesc_pad [(172, 8)]"
  by code_simp

definition h610_fix_rdesc :: "h610_state program" where
  "h610_fix_rdesc s c data = (case data of None \<Rightarrow> Some (s, [], 0) | Some d \<Rightarrow>
     let rdesc_size = ctx_size c in
     if rdesc_size = h610_VENDOR_REPORT_DESCRIPTOR_LENGTH then
       do { d1 \<leftarrow> memcpy d 0 h610_fixed_rdesc_vendor; Some (s, d1, int (length h610_fixed_rdesc_vendor)) }
     else if rdesc_size = h610_PAD_REPORT_DESCRIPTOR_LENGTH then
       do { d1 \<leftarrow> memcpy d 0 h610_disabled_rdesc_pad; Some (s, d1, int (length h610_disabled_rdesc_pad)) }
     else if rdesc_size = h610_PEN_REPORT_DESCRIPTOR_LENGTH then
       do { d1 \<leftarrow> memcpy d 0 h610_disabled_rdesc_pen; Some (s, d1, int (length h610_disabled_rdesc_pen)) }
     else Some (s, d, 0))"

definition h610_new_rdesc :: "h610_state \<Rightarrow> int \<Rightarrow> u8 list option" where
  "h610_new_rdesc s n =
     (if n = h610_VENDOR_REPORT_DESCRIPTOR_LENGTH then Some h610_fixed_rdesc_vendor
      else if n = h610_PAD_REPORT_DESCRIPTOR_LENGTH then Some h610_disabled_rdesc_pad
      else if n = h610_PEN_REPORT_DESCRIPTOR_LENGTH then Some h610_disabled_rdesc_pen
      else None)"

interpretation h610_fixup: replacing_fixup h610_fix_rdesc "\<lambda>s c. h610_new_rdesc s (ctx_size c)"
  by unfold_locales
    (auto simp: h610_fix_rdesc_def h610_new_rdesc_def Let_def split: if_splits)

text \<open>
  \<open>struct stylus_report\<close> and \<open>struct pad_report\<close>: bit 5 of the second byte is \<open>is_pad\<close>, bit 6 is
  \<open>in_range\<close>; the pad report reuses the button byte in place.
\<close>

definition h610_fix_event :: "h610_state program" where
  "h610_fix_event s c data = (case data of None \<Rightarrow> Some (s, [], 0) | Some d \<Rightarrow> do {
     report_id \<leftarrow> rd d 0;
     if report_id \<noteq> h610_VENDOR_REPORT_ID then Some (s, d, 0)
     else do {
       d1 \<leftarrow> rd d 1;
       if bit d1 5 then do {
         d' \<leftarrow> memcpy d 0 [h610_PAD_REPORT_ID, 0, 0, 0];
         Some (s, d', 5) }
       else do {
         d' \<leftarrow> wr d 1 (if bit d1 6 then d1 AND NOT (BIT 6) else d1 OR BIT 6);
         Some (s, d', 8) } } })"

interpretation h610_events: hid_program h610_fix_event 8
  by unfold_locales (auto simp: h610_fix_event_def)

text \<open>
  \<open>strtol buf base\<close> stands for the kernel helper \<open>bpf_strtol\<close>: its return value and the number
  parsed. The value is byte swapped, because the property holds little-endian hex digits.
\<close>

definition h610_magic_bytes_to_u16 :: "(u8 list \<Rightarrow> nat \<Rightarrow> int \<times> int) \<Rightarrow> u8 list \<Rightarrow> nat \<Rightarrow> int" where
  "h610_magic_bytes_to_u16 strtol magic idx =
     (let (ret, res) = strtol (take 4 (drop idx magic)) 16;
          r16 = (word_of_int res :: u16)
      in if ret < 0 then ret else uint (le16 (byte_of 1 r16) (byte_of 0 r16)))"

definition h610_probe ::
    "(u8 list \<Rightarrow> nat \<Rightarrow> int \<times> int) \<Rightarrow> h610_state \<Rightarrow> hid_bpf_probe_args \<Rightarrow> hid_bpf_probe_args \<times> int" where
  "h610_probe strtol s a =
     (let have_fw_id = has_prefix (h610_fw_id s) h610_EXPECTED_FIRMWARE_ID;
          x_lmax = h610_magic_bytes_to_u16 strtol (h610_magic_bytes s) h610_X_LOGICAL_MAX_IDX;
          y_lmax = h610_magic_bytes_to_u16 strtol (h610_magic_bytes s) h610_Y_LOGICAL_MAX_IDX;
          pressure_lmax = h610_magic_bytes_to_u16 strtol (h610_magic_bytes s) h610_PRESSURE_LOGICAL_MAX_IDX;
          resolution = h610_magic_bytes_to_u16 strtol (h610_magic_bytes s) h610_RESOLUTION_IDX
      in if \<not> have_fw_id \<or>
            x_lmax \<noteq> h610_EXPECTED_X_LOGICAL_MAX \<or>
            y_lmax \<noteq> h610_EXPECTED_Y_LOGICAL_MAX \<or>
            pressure_lmax \<noteq> h610_EXPECTED_PRESSURE_LOGICAL_MAX \<or>
            resolution \<noteq> h610_EXPECTED_RESOLUTION
         then (a\<lparr>pa_retval := - EINVAL\<rparr>, 0)
         else if pa_rdesc_size a = h610_PAD_REPORT_DESCRIPTOR_LENGTH \<or>
                 pa_rdesc_size a = h610_PEN_REPORT_DESCRIPTOR_LENGTH \<or>
                 pa_rdesc_size a = h610_VENDOR_REPORT_DESCRIPTOR_LENGTH
         then (a\<lparr>pa_retval := 0\<rparr>, 0)
         else (a\<lparr>pa_retval := - EINVAL\<rparr>, 0))"

section \<open>What the handler delivers\<close>

lemma h610_fixed_rdesc_vendor_layout_7:
  "rdesc_layout h610_fixed_rdesc_vendor 7 = Some [
     (0xd0042, 8, 1), (0xd0044, 9, 1), (0xd005a, 10, 1), (0xd0032, 14, 1), (0x10030, 16, 16), (0x10031, 32, 16),
     (0xd0030, 48, 16)]"
  by code_simp

lemma h610_fixed_rdesc_vendor_layout_10:
  "rdesc_layout h610_fixed_rdesc_vendor 10 = Some [
     (0xd0044, 8, 1), (0x10030, 16, 8), (0x10031, 24, 8), (0x90001, 32, 1), (0x90002, 33, 1), (0x90003, 34, 1),
     (0x90004, 35, 1), (0x90005, 36, 1), (0x90006, 37, 1), (0x90007, 38, 1), (0x90008, 39, 1)]"
  by code_simp

lemma h610_button_slots:
  "k < 8 \<Longrightarrow> usage_slot h610_fixed_rdesc_vendor 10 (0x90001 + int k) = Some (32 + int k, 1)"
proof -
  have "list_all (\<lambda>k. usage_slot h610_fixed_rdesc_vendor 10 (0x90001 + int k) = Some (32 + int k, 1)) [0..<8]"
    unfolding usage_slot_def h610_fixed_rdesc_vendor_layout_10 option.case by code_simp
  then show "k < 8 \<Longrightarrow> ?thesis" by (simp add: list_all_iff)
qed

text \<open>
  A vendor report of the H610 Pro is delivered as a pad report of five bytes that shows the eight buttons
  of byte 4 when its pad bit is set, and otherwise as a pen report of eight bytes whose in-range usage is
  the inverse of the bit the tablet sends, with tip, both barrel buttons and all axes unchanged.
\<close>

theorem h610_vendor_reports:
  assumes "length rep = 8" "rep ! 0 = h610_VENDOR_REPORT_ID"
  shows "\<exists>out. device_event h610_fix_event 8 hid s rep = Some (s, Some out)
    \<and> conforms [(7, 8), (10, 5)] out
    \<and> (if bit (rep ! 1) 5 then
         hd out = h610_PAD_REPORT_ID \<and>
         (\<forall>k < 8. usage_value h610_fixed_rdesc_vendor out (0x90001 + int k) = Some (of_bool (bit (rep ! 4) k)))
       else usage_value h610_fixed_rdesc_vendor out 0xd0032 = Some (of_bool (\<not> bit (rep ! 1) 6)) \<and>
         usage_value h610_fixed_rdesc_vendor out 0xd0042 = Some (of_bool (bit (rep ! 1) 0)) \<and>
         usage_value h610_fixed_rdesc_vendor out 0xd0044 = Some (of_bool (bit (rep ! 1) 1)) \<and>
         usage_value h610_fixed_rdesc_vendor out 0xd005a = Some (of_bool (bit (rep ! 1) 2)) \<and>
         drop 2 out = drop 2 rep)"
proof -
  have w: "take 8 (report_buffer rep) = rep" using take_report_buffer [of rep 8] assms(1) by (simp add: report_buffer_def)
  show ?thesis
  proof (cases "bit (rep ! 1) 5")
    case True
    define out where "out = [10, 0, 0, 0, rep ! 4]"
    have rest: "drop (Suc (Suc (Suc (Suc 0)))) rep = rep ! 4 # drop 5 rep"
      using assms(1) Cons_nth_drop_Suc [of 4 rep] by (simp add: eval_nat_numeral)
    have ev: "device_event h610_fix_event 8 hid s rep = Some (s, Some out)"
      unfolding out_def using assms w True rest
      by (intro device_event_replaced [where rest = "drop 5 rep"]) (simp_all add: h610_fix_event_def)
    have "usage_value h610_fixed_rdesc_vendor out (0x90001 + int k) = Some (of_bool (bit (rep ! 4) k))" if "k < 8" for k
      using that read_bit [of k 4 out] h610_button_slots [OF that] by (simp add: usage_value_def out_def nat_add_distrib)
    then show ?thesis using True ev by (intro exI [of _ out]) (simp add: out_def conforms_def)
  next
    case False
    define b where "b = (if bit (rep ! 1) 6 then rep ! 1 AND NOT (BIT 6) else rep ! 1 OR BIT 6)"
    define out where "out = rep[1 := b]"
    have ev: "device_event h610_fix_event 8 hid s rep = Some (s, Some out)"
      unfolding out_def b_def using assms w False
      by (intro device_event_replaced [where rest = "[]"]) (auto simp: h610_fix_event_def)
    have head: "out ! 0 = 7" "out ! 1 = b" "length out = 8" using assms by (simp_all add: out_def)
    then obtain tl where tl: "out = 7 # tl" by (cases out) auto
    have val: "usage_value h610_fixed_rdesc_vendor out u =
        map_option (\<lambda>(off, n). read_bits out (nat off) (nat n)) (usage_slot h610_fixed_rdesc_vendor 7 u)" for u
      unfolding tl by (simp add: usage_value_def)
    have bits: "read_bits out (8 + k) 1 = of_bool (bit b k)" if "k < 8" for k
      using that read_bit [of k 1 out] head by simp
    have b: "bit b 6 = (\<not> bit (rep ! 1) 6)" "\<And>k. k < 6 \<Longrightarrow> bit b k = bit (rep ! 1) k"
      by (auto simp: b_def bit_or_iff bit_and_iff bit_not_iff bit_BIT)
    have "conforms [(7, 8), (10, 5)] out" using head tl by (simp add: conforms_def)
    moreover have "drop 2 out = drop 2 rep" by (simp add: out_def)
    ultimately show ?thesis
      using False ev b bits [of 0] bits [of 1] bits [of 2] bits [of 6]
      by (intro exI [of _ out]) (simp add: val usage_slot_def h610_fixed_rdesc_vendor_layout_7)
  qed
qed

theorem h610_vendor_reports_witness:
  "\<exists>out. device_event h610_fix_event 8 \<lparr>hdev_id = 1, hdev_bus = 3, hdev_product = 0x6d, hdev_name = []\<rparr>
      \<lparr>h610_fw_id = [], h610_magic_bytes = []\<rparr> [7, 0x81, 0, 1, 0, 2, 0, 3]
        = Some (\<lparr>h610_fw_id = [], h610_magic_bytes = []\<rparr>, Some out)
    \<and> usage_value h610_fixed_rdesc_vendor out 0xd0032 = Some 1"
proof -
  have "\<not> bit (0x81 :: u8) 5" "\<not> bit (0x81 :: u8) 6" by code_simp+
  then show ?thesis
    using h610_vendor_reports [of "[7, 0x81, 0, 1, 0, 2, 0, 3]" "\<lparr>hdev_id = 1, hdev_bus = 3, hdev_product = 0x6d, hdev_name = []\<rparr>"
      "\<lparr>h610_fw_id = [], h610_magic_bytes = []\<rparr>"] by auto
qed

end
