(* ===== verification/Huion_KamvasPro.thy ===== *)
theory Huion_KamvasPro
  imports Kernel_Iface Rdesc_Spec
begin

unbundle bit_operations_syntax

text \<open>
  \<open>0030-Huion__Kamvas-Pro-19.bpf.c\<close> and \<open>0020-Huion__Kamvas-Pro-19.bpf.c\<close>: the descriptor whose prefix
  serves the older firmware, the state machine that separates the third button from the eraser, and
  the probe by size, content and device name.
\<close>

text \<open>The two globals of the programs: what is known about the proximity of the pen.\<close>

record kamvaspro =
  kp_prev_was_out_of_range :: bool
  kp_in_eraser_mode :: bool

definition kp_TEST_PREFIX :: "u8 list" where
  "kp_TEST_PREFIX = map of_char ''uhid test ''"

section \<open>The 0030 program\<close>


abbreviation (input) kp_VID_HUION :: "'a::numeral" where "kp_VID_HUION \<equiv> 0x256c"

abbreviation (input) kp_PID_KAMVAS_PRO_19 :: "'a::numeral" where "kp_PID_KAMVAS_PRO_19 \<equiv> 0x006b"

abbreviation (input) kp_PID_KAMVAS_PRO_27 :: "'a::numeral" where "kp_PID_KAMVAS_PRO_27 \<equiv> 0x006c"

abbreviation (input) kp_PRE_240524_RDESC_SIZE :: "'a::numeral" where "kp_PRE_240524_RDESC_SIZE \<equiv> 328"

abbreviation (input) kp_PRE_240524_RDESC_FIXED_SIZE :: "'a::numeral" where "kp_PRE_240524_RDESC_FIXED_SIZE \<equiv> 338"

abbreviation (input) kp_FW_240524_RDESC_SIZE :: "'a::numeral" where "kp_FW_240524_RDESC_SIZE \<equiv> 438"

definition kp_NAME_KAMVAS_PRO_19 :: "u8 list" where
  "kp_NAME_KAMVAS_PRO_19 = map of_char ''HUION Huion Tablet_GT1902'' @ [0]"

definition kp_NAME_KAMVAS_PRO_27 :: "u8 list" where
  "kp_NAME_KAMVAS_PRO_27 = map of_char ''HUION Huion Tablet_GT2701'' @ [0]"

definition kp_fixed_rdesc :: "u8 list" where
  "kp_fixed_rdesc = [
     0x05, 0x0d,
     0x09, 0x02,
     0xa1, 0x01,
     0x85, 0x0a,
     0x09, 0x20,
     0xa1, 0x01,
     0x09, 0x42,
     0x09, 0x44,
     0x09, 0x5a,
     0x09, 0x3c,
     0x09, 0x45,
     0x15, 0x00,
     0x25, 0x01,
     0x75, 0x01,
     0x95, 0x05,
     0x81, 0x02,
     0x05, 0x09,
     0x09, 0x4a,
     0x95, 0x01,
     0x81, 0x02,
     0x05, 0x0d,
     0x09, 0x32,
     0x75, 0x01,
     0x95, 0x01,
     0x81, 0x02,
     0x81, 0x03,
     0x05, 0x01,
     0x09, 0x30,
     0x09, 0x31,
     0x55, 0x0d,
     0x65, 0x33,
     0x26, 0xff, 0x7f,
     0x35, 0x00,
     0x46, 0x00, 0x08,
     0x75, 0x10,
     0x95, 0x02,
     0x81, 0x02,
     0x05, 0x0d,
     0x09, 0x30,
     0x26, 0xff, 0x3f,
     0x75, 0x10,
     0x95, 0x01,
     0x81, 0x02,
     0x09, 0x3d,
     0x09, 0x3e,
     0x15, 0xa6,
     0x25, 0x5a,
     0x75, 0x08,
     0x95, 0x02,
     0x81, 0x02,
     0xc0,
     0xc0,
     0x05, 0x0d,
     0x09, 0x04,
     0xa1, 0x01,
     0x85, 0x04,
     0x09, 0x22,
     0xa1, 0x02,
     0x05, 0x0d,
     0x95, 0x01,
     0x75, 0x06,
     0x09, 0x51,
     0x15, 0x00,
     0x25, 0x3f,
     0x81, 0x02,
     0x09, 0x42,
     0x25, 0x01,
     0x75, 0x01,
     0x95, 0x01,
     0x81, 0x02,
     0x75, 0x01,
     0x95, 0x01,
     0x81, 0x03,
     0x05, 0x01,
     0x75, 0x10,
     0x55, 0x0e,
     0x65, 0x11,
     0x09, 0x30,
     0x26, 0xff, 0x7f,
     0x35, 0x00,
     0x46, 0x15, 0x0c,
     0x81, 0x42,
     0x09, 0x31,
     0x26, 0xff, 0x7f,
     0x46, 0xcb, 0x06,
     0x81, 0x42,
     0x05, 0x0d,
     0x09, 0x30,
     0x26, 0xff, 0x1f,
     0x75, 0x10,
     0x95, 0x01,
     0x81, 0x02,
     0xc0,
     0x05, 0x0d,
     0x09, 0x22,
     0xa1, 0x02,
     0x05, 0x0d,
     0x95, 0x01,
     0x75, 0x06,
     0x09, 0x51,
     0x15, 0x00,
     0x25, 0x3f,
     0x81, 0x02,
     0x09, 0x42,
     0x25, 0x01,
     0x75, 0x01,
     0x95, 0x01,
     0x81, 0x02,
     0x75, 0x01,
     0x95, 0x01,
     0x81, 0x03,
     0x05, 0x01,
     0x75, 0x10,
     0x55, 0x0e,
     0x65, 0x11,
     0x09, 0x30,
     0x26, 0xff, 0x7f,
     0x35, 0x00,
     0x46, 0x15, 0x0c,
     0x81, 0x42,
     0x09, 0x31,
     0x26, 0xff, 0x7f,
     0x46, 0xcb, 0x06,
     0x81, 0x42,
     0x05, 0x0d,
     0x09, 0x30,
     0x26, 0xff, 0x1f,
     0x75, 0x10,
     0x95, 0x01,
     0x81, 0x02,
     0xc0,
     0x05, 0x0d,
     0x09, 0x56,
     0x55, 0x00,
     0x65, 0x00,
     0x27, 0xff, 0xff, 0xff, 0x7f,
     0x95, 0x01,
     0x75, 0x20,
     0x81, 0x02,
     0x09, 0x54,
     0x25, 0x7f,
     0x95, 0x01,
     0x75, 0x08,
     0x81, 0x02,
     0x75, 0x08,
     0x95, 0x08,
     0x81, 0x03,
     0x85, 0x05,
     0x09, 0x55,
     0x25, 0x0a,
     0x75, 0x08,
     0x95, 0x01,
     0xb1, 0x02,
     0x06, 0x00, 0xff,
     0x09, 0xc5,
     0x85, 0x06,
     0x15, 0x00,
     0x26, 0xff, 0x00,
     0x75, 0x08,
     0x96, 0x00, 0x01,
     0xb1, 0x02,
     0xc0,
     0x05, 0x01,
     0x09, 0x01,
     0xa1, 0x01,
     0x09, 0x01,
     0xa1, 0x00,
     0x05, 0x09,
     0x19, 0x01,
     0x29, 0x03,
     0x15, 0x00,
     0x25, 0x01,
     0x85, 0x02,
     0x95, 0x03,
     0x75, 0x01,
     0x81, 0x02,
     0x95, 0x01,
     0x75, 0x05,
     0x81, 0x01,
     0x05, 0x01,
     0x09, 0x30,
     0x09, 0x31,
     0x15, 0x81,
     0x25, 0x7f,
     0x75, 0x08,
     0x95, 0x02,
     0x81, 0x06,
     0x95, 0x04,
     0x75, 0x08,
     0x81, 0x01,
     0xc0,
     0xc0,
     0x05, 0x0d,
     0x09, 0x05,
     0xa1, 0x01,
     0x06, 0x00, 0xff,
     0x09, 0x0c,
     0x15, 0x00,
     0x26, 0xff, 0x00,
     0x75, 0x08,
     0x95, 0x10,
     0x85, 0x3f,
     0x81, 0x22,
     0xc0,
     0x06, 0x00, 0xff,
     0x09, 0x0c,
     0xa1, 0x01,
     0x06, 0x00, 0xff,
     0x09, 0x0c,
     0x15, 0x00,
     0x26, 0xff, 0x00,
     0x85, 0x44,
     0x75, 0x08,
     0x96, 0x6b, 0x05,
     0x81, 0x00,
     0xc0]"

lemma length_kp_fixed_rdesc [simp]: "length kp_fixed_rdesc = 448"
  by code_simp

lemma kp_fixed_rdesc_declares [rdesc_facts]:
  "rdesc_declares kp_fixed_rdesc [(10, 10), (4, 28), (2, 8), (63, 17), (68, 1388)]"
  by code_simp

lemma kp_old_rdesc_declares [rdesc_facts]:
  "rdesc_declares (take 338 kp_fixed_rdesc)
     [(10, 10), (4, 28)]"
  by code_simp

text \<open>Firmware 240524 gets the whole descriptor, older ones its first 338 bytes.\<close>

definition kp_fix_rdesc :: "kamvaspro program" where
  "kp_fix_rdesc s c data = (case data of None \<Rightarrow> Some (s, [], 0) | Some d \<Rightarrow>
     if ctx_size c = kp_FW_240524_RDESC_SIZE then
       do { d1 \<leftarrow> memcpy d 0 kp_fixed_rdesc; Some (s, d1, int (length kp_fixed_rdesc)) }
     else
       do { d1 \<leftarrow> memcpy d 0 (take kp_PRE_240524_RDESC_FIXED_SIZE kp_fixed_rdesc);
            Some (s, d1, kp_PRE_240524_RDESC_FIXED_SIZE) })"

definition kp_new_rdesc :: "int \<Rightarrow> u8 list" where
  "kp_new_rdesc n =
     (if n = kp_FW_240524_RDESC_SIZE then kp_fixed_rdesc else take 338 kp_fixed_rdesc)"

interpretation kp_fixup: replacing_fixup kp_fix_rdesc "\<lambda>s c. Some (kp_new_rdesc (ctx_size c))"
  by unfold_locales (auto simp: kp_fix_rdesc_def kp_new_rdesc_def)

definition kp_fix_3rd_button :: "kamvaspro program" where
  "kp_fix_3rd_button s c data = (case data of None \<Rightarrow> Some (s, [], 0) | Some d \<Rightarrow> do {
     d0 \<leftarrow> rd d 0;
     if d0 \<noteq> 0x0a then Some (s, d, 0)
     else do {
       d1 \<leftarrow> rd d 1;
       if d1 AND 0x40 = 0
       then Some (s\<lparr>kp_prev_was_out_of_range := True, kp_in_eraser_mode := False\<rparr>, d, 0)
       else do {
         let s1 = (if kp_prev_was_out_of_range s \<and> d1 AND 0x18 \<noteq> 0
                   then s\<lparr>kp_in_eraser_mode := True\<rparr> else s);
         if kp_in_eraser_mode s1 then Some (s1, d, 0)
         else do {
           d' \<leftarrow> (if d1 AND 0x08 \<noteq> 0 then wr d 1 (d1 OR 0x20) else Some d);
           v \<leftarrow> rd d' 1;
           d'' \<leftarrow> wr d' 1 (v AND 0xf7);
           Some (s1\<lparr>kp_prev_was_out_of_range := False\<rparr>, d'', 0) } } } })"

interpretation kp_events: hid_program kp_fix_3rd_button 10
  by unfold_locales (auto simp: kp_fix_3rd_button_def Let_def)

text \<open>
  \<open>alloc\<close> stands for the kfunc \<open>hid_bpf_allocate_context\<close>: the device behind a hid id, or \<open>None\<close> for
  \<open>NULL\<close>. The device name is compared up to and including its terminator.
\<close>

definition kp_probe ::
    "(u32 \<Rightarrow> hid_device option) \<Rightarrow> hid_bpf_probe_args \<Rightarrow> hid_bpf_probe_args \<times> int" where
  "kp_probe alloc a =
     (let retval = (if \<not> (pa_rdesc_size a = kp_PRE_240524_RDESC_SIZE \<or>
                          pa_rdesc_size a = kp_FW_240524_RDESC_SIZE) then 1 else 0);
          retval = (if retval \<noteq> 0 then - EINVAL else retval);
          retval = (if pa_rdesc a ! 17 \<noteq> 0x43 then - EINVAL else retval)
      in case alloc (pa_hid a) of
           None \<Rightarrow> (a\<lparr>pa_retval := - EINVAL\<rparr>, - EINVAL)
         | Some hid \<Rightarrow>
            (let name = hdev_name hid;
                 name = (if has_prefix name kp_TEST_PREFIX then drop (length kp_TEST_PREFIX) name else name);
                 retval = (if \<not> has_prefix name kp_NAME_KAMVAS_PRO_19 \<and>
             \<not> has_prefix name kp_NAME_KAMVAS_PRO_27
                           then - EINVAL else retval)
             in (a\<lparr>pa_retval := retval\<rparr>, 0)))"

section \<open>The 0020 program\<close>

text \<open>The program 0030 supersedes: it only accepts the 19 inch model.\<close>


abbreviation (input) kp20_VID_HUION :: "'a::numeral" where "kp20_VID_HUION \<equiv> 0x256c"

abbreviation (input) kp20_PID_KAMVAS_PRO_19 :: "'a::numeral" where "kp20_PID_KAMVAS_PRO_19 \<equiv> 0x006b"

abbreviation (input) kp20_PRE_240524_RDESC_SIZE :: "'a::numeral" where "kp20_PRE_240524_RDESC_SIZE \<equiv> 328"

abbreviation (input) kp20_PRE_240524_RDESC_FIXED_SIZE :: "'a::numeral" where "kp20_PRE_240524_RDESC_FIXED_SIZE \<equiv> 338"

abbreviation (input) kp20_FW_240524_RDESC_SIZE :: "'a::numeral" where "kp20_FW_240524_RDESC_SIZE \<equiv> 438"

definition kp20_NAME_KAMVAS_PRO_19 :: "u8 list" where
  "kp20_NAME_KAMVAS_PRO_19 = map of_char ''HUION Huion Tablet_GT1902'' @ [0]"

definition kp20_fixed_rdesc :: "u8 list" where
  "kp20_fixed_rdesc = [
     0x05, 0x0d,
     0x09, 0x02,
     0xa1, 0x01,
     0x85, 0x0a,
     0x09, 0x20,
     0xa1, 0x01,
     0x09, 0x42,
     0x09, 0x44,
     0x09, 0x5a,
     0x09, 0x3c,
     0x09, 0x45,
     0x15, 0x00,
     0x25, 0x01,
     0x75, 0x01,
     0x95, 0x05,
     0x81, 0x02,
     0x05, 0x09,
     0x09, 0x4a,
     0x95, 0x01,
     0x81, 0x02,
     0x05, 0x0d,
     0x09, 0x32,
     0x75, 0x01,
     0x95, 0x01,
     0x81, 0x02,
     0x81, 0x03,
     0x05, 0x01,
     0x09, 0x30,
     0x09, 0x31,
     0x55, 0x0d,
     0x65, 0x33,
     0x26, 0xff, 0x7f,
     0x35, 0x00,
     0x46, 0x00, 0x08,
     0x75, 0x10,
     0x95, 0x02,
     0x81, 0x02,
     0x05, 0x0d,
     0x09, 0x30,
     0x26, 0xff, 0x3f,
     0x75, 0x10,
     0x95, 0x01,
     0x81, 0x02,
     0x09, 0x3d,
     0x09, 0x3e,
     0x15, 0xa6,
     0x25, 0x5a,
     0x75, 0x08,
     0x95, 0x02,
     0x81, 0x02,
     0xc0,
     0xc0,
     0x05, 0x0d,
     0x09, 0x04,
     0xa1, 0x01,
     0x85, 0x04,
     0x09, 0x22,
     0xa1, 0x02,
     0x05, 0x0d,
     0x95, 0x01,
     0x75, 0x06,
     0x09, 0x51,
     0x15, 0x00,
     0x25, 0x3f,
     0x81, 0x02,
     0x09, 0x42,
     0x25, 0x01,
     0x75, 0x01,
     0x95, 0x01,
     0x81, 0x02,
     0x75, 0x01,
     0x95, 0x01,
     0x81, 0x03,
     0x05, 0x01,
     0x75, 0x10,
     0x55, 0x0e,
     0x65, 0x11,
     0x09, 0x30,
     0x26, 0xff, 0x7f,
     0x35, 0x00,
     0x46, 0x15, 0x0c,
     0x81, 0x42,
     0x09, 0x31,
     0x26, 0xff, 0x7f,
     0x46, 0xcb, 0x06,
     0x81, 0x42,
     0x05, 0x0d,
     0x09, 0x30,
     0x26, 0xff, 0x1f,
     0x75, 0x10,
     0x95, 0x01,
     0x81, 0x02,
     0xc0,
     0x05, 0x0d,
     0x09, 0x22,
     0xa1, 0x02,
     0x05, 0x0d,
     0x95, 0x01,
     0x75, 0x06,
     0x09, 0x51,
     0x15, 0x00,
     0x25, 0x3f,
     0x81, 0x02,
     0x09, 0x42,
     0x25, 0x01,
     0x75, 0x01,
     0x95, 0x01,
     0x81, 0x02,
     0x75, 0x01,
     0x95, 0x01,
     0x81, 0x03,
     0x05, 0x01,
     0x75, 0x10,
     0x55, 0x0e,
     0x65, 0x11,
     0x09, 0x30,
     0x26, 0xff, 0x7f,
     0x35, 0x00,
     0x46, 0x15, 0x0c,
     0x81, 0x42,
     0x09, 0x31,
     0x26, 0xff, 0x7f,
     0x46, 0xcb, 0x06,
     0x81, 0x42,
     0x05, 0x0d,
     0x09, 0x30,
     0x26, 0xff, 0x1f,
     0x75, 0x10,
     0x95, 0x01,
     0x81, 0x02,
     0xc0,
     0x05, 0x0d,
     0x09, 0x56,
     0x55, 0x00,
     0x65, 0x00,
     0x27, 0xff, 0xff, 0xff, 0x7f,
     0x95, 0x01,
     0x75, 0x20,
     0x81, 0x02,
     0x09, 0x54,
     0x25, 0x7f,
     0x95, 0x01,
     0x75, 0x08,
     0x81, 0x02,
     0x75, 0x08,
     0x95, 0x08,
     0x81, 0x03,
     0x85, 0x05,
     0x09, 0x55,
     0x25, 0x0a,
     0x75, 0x08,
     0x95, 0x01,
     0xb1, 0x02,
     0x06, 0x00, 0xff,
     0x09, 0xc5,
     0x85, 0x06,
     0x15, 0x00,
     0x26, 0xff, 0x00,
     0x75, 0x08,
     0x96, 0x00, 0x01,
     0xb1, 0x02,
     0xc0,
     0x05, 0x01,
     0x09, 0x01,
     0xa1, 0x01,
     0x09, 0x01,
     0xa1, 0x00,
     0x05, 0x09,
     0x19, 0x01,
     0x29, 0x03,
     0x15, 0x00,
     0x25, 0x01,
     0x85, 0x02,
     0x95, 0x03,
     0x75, 0x01,
     0x81, 0x02,
     0x95, 0x01,
     0x75, 0x05,
     0x81, 0x01,
     0x05, 0x01,
     0x09, 0x30,
     0x09, 0x31,
     0x15, 0x81,
     0x25, 0x7f,
     0x75, 0x08,
     0x95, 0x02,
     0x81, 0x06,
     0x95, 0x04,
     0x75, 0x08,
     0x81, 0x01,
     0xc0,
     0xc0,
     0x05, 0x0d,
     0x09, 0x05,
     0xa1, 0x01,
     0x06, 0x00, 0xff,
     0x09, 0x0c,
     0x15, 0x00,
     0x26, 0xff, 0x00,
     0x75, 0x08,
     0x95, 0x10,
     0x85, 0x3f,
     0x81, 0x22,
     0xc0,
     0x06, 0x00, 0xff,
     0x09, 0x0c,
     0xa1, 0x01,
     0x06, 0x00, 0xff,
     0x09, 0x0c,
     0x15, 0x00,
     0x26, 0xff, 0x00,
     0x85, 0x44,
     0x75, 0x08,
     0x96, 0x6b, 0x05,
     0x81, 0x00,
     0xc0]"

lemma length_kp20_fixed_rdesc [simp]: "length kp20_fixed_rdesc = 448"
  by code_simp

lemma kp20_fixed_rdesc_declares [rdesc_facts]:
  "rdesc_declares kp20_fixed_rdesc [(10, 10), (4, 28), (2, 8), (63, 17), (68, 1388)]"
  by code_simp

lemma kp20_old_rdesc_declares [rdesc_facts]:
  "rdesc_declares (take 338 kp20_fixed_rdesc)
     [(10, 10), (4, 28)]"
  by code_simp

text \<open>Firmware 240524 gets the whole descriptor, older ones its first 338 bytes.\<close>

definition kp20_fix_rdesc :: "kamvaspro program" where
  "kp20_fix_rdesc s c data = (case data of None \<Rightarrow> Some (s, [], 0) | Some d \<Rightarrow>
     if ctx_size c = kp20_FW_240524_RDESC_SIZE then
       do { d1 \<leftarrow> memcpy d 0 kp20_fixed_rdesc; Some (s, d1, int (length kp20_fixed_rdesc)) }
     else
       do { d1 \<leftarrow> memcpy d 0 (take kp20_PRE_240524_RDESC_FIXED_SIZE kp20_fixed_rdesc);
            Some (s, d1, kp20_PRE_240524_RDESC_FIXED_SIZE) })"

definition kp20_new_rdesc :: "int \<Rightarrow> u8 list" where
  "kp20_new_rdesc n =
     (if n = kp20_FW_240524_RDESC_SIZE then kp20_fixed_rdesc else take 338 kp20_fixed_rdesc)"

interpretation kp20_fixup: replacing_fixup kp20_fix_rdesc "\<lambda>s c. Some (kp20_new_rdesc (ctx_size c))"
  by unfold_locales (auto simp: kp20_fix_rdesc_def kp20_new_rdesc_def)

definition kp20_fix_3rd_button :: "kamvaspro program" where
  "kp20_fix_3rd_button s c data = (case data of None \<Rightarrow> Some (s, [], 0) | Some d \<Rightarrow> do {
     d0 \<leftarrow> rd d 0;
     if d0 \<noteq> 0x0a then Some (s, d, 0)
     else do {
       d1 \<leftarrow> rd d 1;
       if d1 AND 0x40 = 0
       then Some (s\<lparr>kp_prev_was_out_of_range := True, kp_in_eraser_mode := False\<rparr>, d, 0)
       else do {
         let s1 = (if kp_prev_was_out_of_range s \<and> d1 AND 0x18 \<noteq> 0
                   then s\<lparr>kp_in_eraser_mode := True\<rparr> else s);
         if kp_in_eraser_mode s1 then Some (s1, d, 0)
         else do {
           d' \<leftarrow> (if d1 AND 0x08 \<noteq> 0 then wr d 1 (d1 OR 0x20) else Some d);
           v \<leftarrow> rd d' 1;
           d'' \<leftarrow> wr d' 1 (v AND 0xf7);
           Some (s1\<lparr>kp_prev_was_out_of_range := False\<rparr>, d'', 0) } } } })"

interpretation kp20_events: hid_program kp20_fix_3rd_button 10
  by unfold_locales (auto simp: kp20_fix_3rd_button_def Let_def)

text \<open>
  \<open>alloc\<close> stands for the kfunc \<open>hid_bpf_allocate_context\<close>: the device behind a hid id, or \<open>None\<close> for
  \<open>NULL\<close>. The device name is compared up to and including its terminator.
\<close>

definition kp20_probe ::
    "(u32 \<Rightarrow> hid_device option) \<Rightarrow> hid_bpf_probe_args \<Rightarrow> hid_bpf_probe_args \<times> int" where
  "kp20_probe alloc a =
     (let retval = (if \<not> (pa_rdesc_size a = kp20_PRE_240524_RDESC_SIZE \<or>
                          pa_rdesc_size a = kp20_FW_240524_RDESC_SIZE) then 1 else 0);
          retval = (if retval \<noteq> 0 then - EINVAL else retval);
          retval = (if pa_rdesc a ! 17 \<noteq> 0x43 then - EINVAL else retval)
      in case alloc (pa_hid a) of
           None \<Rightarrow> (a\<lparr>pa_retval := - EINVAL\<rparr>, - EINVAL)
         | Some hid \<Rightarrow>
            (let name = hdev_name hid;
                 name = (if has_prefix name kp_TEST_PREFIX then drop (length kp_TEST_PREFIX) name else name);
                 retval = (if \<not> has_prefix name kp20_NAME_KAMVAS_PRO_19
                           then - EINVAL else retval)
             in (a\<lparr>pa_retval := retval\<rparr>, 0)))"

section \<open>The third button over a proximity of the pen\<close>

lemma kp_fixed_rdesc_layout_10:
  "rdesc_layout kp_fixed_rdesc 10 = Some [
     (0xd0042, 8, 1), (0xd0044, 9, 1), (0xd005a, 10, 1), (0xd003c, 11, 1), (0xd0045, 12, 1), (0x9004a, 13, 1),
     (0xd0032, 14, 1), (0x10030, 16, 16), (0x10031, 32, 16), (0xd0030, 48, 16), (0xd003d, 64, 8), (0xd003e, 72, 8)]"
  by code_simp

definition kp_in_range_report :: "u8 list \<Rightarrow> bool" where
  "kp_in_range_report rep \<longleftrightarrow> 2 \<le> length rep \<and> rep ! 0 = 0x0a \<and> rep ! 1 AND 0x40 \<noteq> 0"

text \<open>Whether the pen is an eraser for the rest of its proximity, decided by the next report.\<close>

definition kp_eraser :: "kamvaspro \<Rightarrow> u8 \<Rightarrow> bool" where
  "kp_eraser s d1 \<longleftrightarrow> kp_in_eraser_mode s \<or> (kp_prev_was_out_of_range s \<and> d1 AND 0x18 \<noteq> 0)"

definition kp_third_button :: "u8 \<Rightarrow> u8" where
  "kp_third_button v = (if v AND 0x08 \<noteq> 0 then v OR 0x20 else v) AND 0xf7"

lemma bit_kp_third_button:
  assumes "k < 8"
  shows "bit (kp_third_button v) k \<longleftrightarrow> (if k = 3 then False else if k = 5 then bit v 5 \<or> bit v 3 else bit v k)"
  using assms unfolding less_8_cases
  by (elim disjE) (simp_all add: kp_third_button_def bit_and_iff bit_or_iff mask_bits)

lemma kp_event:
  assumes "kp_in_range_report rep"
  shows "device_event kp_fix_3rd_button 10 hid s rep =
     Some (if kp_eraser s (rep ! 1) then s\<lparr>kp_in_eraser_mode := True\<rparr> else s\<lparr>kp_prev_was_out_of_range := False\<rparr>,
           Some (if kp_eraser s (rep ! 1) then rep else rep[1 := kp_third_button (rep ! 1)]))"
proof -
  have len: "0 < length rep" "1 < length rep" using assms by (auto simp: kp_in_range_report_def)
  show ?thesis
  proof (cases "kp_eraser s (rep ! 1)")
    case True
    then show ?thesis using assms len
      by (simp, intro device_event_unchanged)
        (auto simp: kp_in_range_report_def kp_fix_3rd_button_def kp_eraser_def length_report_buffer report_buffer_nth Let_def)
  next
    case False
    then show ?thesis using assms len
      by (simp, intro device_event_patched)
        (auto simp: kp_in_range_report_def kp_fix_3rd_button_def kp_eraser_def kp_third_button_def
          length_report_buffer report_buffer_nth Let_def)
  qed
qed

lemma kp_out_of_range_event:
  assumes "2 \<le> length rep" "rep ! 0 = 0x0a" "rep ! 1 AND 0x40 = 0"
  shows "device_event kp_fix_3rd_button 10 hid s rep
    = Some (s\<lparr>kp_prev_was_out_of_range := True, kp_in_eraser_mode := False\<rparr>, Some rep)"
proof -
  have len: "0 < length rep" "1 < length rep" using assms(1) by linarith+
  then show ?thesis using assms
    by (intro device_event_unchanged)
      (auto simp: kp_fix_3rd_button_def length_report_buffer report_buffer_nth)
qed

lemma kp_run:
  "list_all kp_in_range_report reps \<Longrightarrow> reps \<noteq> [] \<Longrightarrow> kp_eraser s (hd reps ! 1) = e \<Longrightarrow>
   \<exists>s'. device_events kp_fix_3rd_button 10 hid s reps
      = Some (s', map Some (if e then reps else map (\<lambda>rep. rep[1 := kp_third_button (rep ! 1)]) reps))
     \<and> kp_in_eraser_mode s' = e"
proof (induction reps arbitrary: s)
  case Nil
  then show ?case by simp
next
  case (Cons rep reps)
  let ?s1 = "if e then s\<lparr>kp_in_eraser_mode := True\<rparr> else s\<lparr>kp_prev_was_out_of_range := False\<rparr>"
  have first: "device_event kp_fix_3rd_button 10 hid s rep
      = Some (?s1, Some (if e then rep else rep[1 := kp_third_button (rep ! 1)]))"
    using kp_event [of rep hid s] Cons.prems by auto
  show ?case
  proof (cases "reps = []")
    case True
    then show ?thesis using first Cons.prems(3) by (auto simp: kp_eraser_def)
  next
    case False
    have "kp_eraser ?s1 (hd reps ! 1) = e"
      using Cons.prems(3) by (auto simp: kp_eraser_def)
    then obtain s' where "device_events kp_fix_3rd_button 10 hid ?s1 reps
        = Some (s', map Some (if e then reps else map (\<lambda>rep. rep[1 := kp_third_button (rep ! 1)]) reps))"
      "kp_in_eraser_mode s' = e"
      using Cons.IH [of ?s1] Cons.prems False by auto
    then show ?thesis using first by (auto split: if_splits)
  qed
qed


text \<open>
  The two Kamvas Pro programs handle events alike, and 0030 extends 0020: every device 0020
  accepts is accepted by 0030, which also accepts the 27 inch model.
\<close>

theorem kp_0030_extends_0020:
  "kp20_fix_3rd_button = kp_fix_3rd_button \<and>
   (probe_accepts (fst (kp20_probe alloc a)) \<longrightarrow> probe_accepts (fst (kp_probe alloc a)))"
proof
  show "kp20_fix_3rd_button = kp_fix_3rd_button"
    by (intro ext) (simp add: kp20_fix_3rd_button_def kp_fix_3rd_button_def)
  have "kp20_NAME_KAMVAS_PRO_19 = kp_NAME_KAMVAS_PRO_19"
    by (simp add: kp20_NAME_KAMVAS_PRO_19_def kp_NAME_KAMVAS_PRO_19_def)
  then show "probe_accepts (fst (kp20_probe alloc a)) \<longrightarrow> probe_accepts (fst (kp_probe alloc a))"
    by (auto simp: kp20_probe_def kp_probe_def probe_accepts_def Let_def split: option.splits if_splits)
qed

theorem kp_0030_extends_0020_witness:
  "probe_accepts (fst (kp_probe
     (\<lambda>_. Some \<lparr>hdev_id = 1, hdev_bus = 3, hdev_product = 0x6b, hdev_name = kp20_NAME_KAMVAS_PRO_19\<rparr>)
     \<lparr>pa_hid = 1, pa_rdesc_size = kp20_PRE_240524_RDESC_SIZE, pa_rdesc = replicate 17 0 @ [0x43] @ replicate 4078 0,
      pa_retval = - 1\<rparr>))"
proof -
  have "probe_accepts (fst (kp20_probe
     (\<lambda>_. Some \<lparr>hdev_id = 1, hdev_bus = 3, hdev_product = 0x6b, hdev_name = kp20_NAME_KAMVAS_PRO_19\<rparr>)
     \<lparr>pa_hid = 1, pa_rdesc_size = kp20_PRE_240524_RDESC_SIZE, pa_rdesc = replicate 17 0 @ [0x43] @ replicate 4078 0,
      pa_retval = - 1\<rparr>))"
    by (simp add: kp20_probe_def probe_accepts_def Let_def nth_append has_prefix_def
        kp20_NAME_KAMVAS_PRO_19_def kp_TEST_PREFIX_def)
  then show ?thesis by (rule kp_0030_extends_0020 [THEN conjunct2, THEN mp])
qed

end
