(* ===== verification/XPPen_Deco.thy ===== *)
theory XPPen_Deco
  imports Kernel_Iface Rdesc_Spec
begin

unbundle bit_operations_syntax

text \<open>
  The XP-Pen Deco tablets (\<open>0010-XPPen__DecoMini4.bpf.c\<close>, \<open>0010-XPPen__Deco01V3.bpf.c\<close>,
  \<open>0010-XPPen__Deco02.bpf.c\<close>): replacement descriptors, the loops that turn keyboard shortcuts into
  a button mask, and the probes.
\<close>

section \<open>DecoMini4\<close>


text \<open>The program has no globals that change.\<close>

abbreviation (input) decomini4_VID_UGEE :: "'a::numeral" where "decomini4_VID_UGEE \<equiv> 0x28bd"

abbreviation (input) decomini4_PID_DECO_MINI_4 :: "'a::numeral" where "decomini4_PID_DECO_MINI_4 \<equiv> 0x0929"

abbreviation (input) decomini4_RDESC_SIZE_PAD :: "'a::numeral" where "decomini4_RDESC_SIZE_PAD \<equiv> 177"

abbreviation (input) decomini4_RDESC_SIZE_PEN :: "'a::numeral" where "decomini4_RDESC_SIZE_PEN \<equiv> 109"

abbreviation (input) decomini4_PAD_REPORT_ID :: "'a::numeral" where "decomini4_PAD_REPORT_ID \<equiv> 0x06"

definition decomini4_pad_buttons :: "u8 list" where
  "decomini4_pad_buttons = [0x05, 0x08, 0x00, 0x2c, 0x16, 0x1d]"

definition decomini4_fixed_pad_rdesc :: "u8 list" where
  "decomini4_fixed_pad_rdesc = [
     0x05, 0x01,
     0x09, 0x07,
     0xa1, 0x01,
     0x85, 0x06,
     0x05, 0x0d,
     0x09, 0x39,
     0xa0,
     0x05, 0x09,
     0x75, 0x01,
     0x95, 0x06,
     0x19, 0x01,
     0x29, 0x06,
     0x14,
     0x25, 0x01,
     0x81, 0x02,
     0x95, 0x32,
     0x81, 0x01,
     0xc0,
     0xc0]"

definition decomini4_fixed_pen_rdesc :: "u8 list" where
  "decomini4_fixed_pen_rdesc = [
     0x05, 0x0d,
     0x09, 0x01,
     0xa1, 0x01,
     0x85, 0x07,
     0x09, 0x20,
     0xa1, 0x00,
     0x09, 0x42,
     0x09, 0x44,
     0x09, 0x46,
     0x75, 0x01,
     0x95, 0x03,
     0x14,
     0x25, 0x01,
     0x81, 0x02,
     0x95, 0x02,
     0x81, 0x03,
     0x09, 0x32,
     0x95, 0x01,
     0x81, 0x02,
     0x95, 0x02,
     0x81, 0x03,
     0x75, 0x10,
     0x95, 0x01,
     0x35, 0x00,
     0xa4,
     0x05, 0x01,
     0x09, 0x30,
     0x65, 0x13,
     0x55, 0x0d,
     0x26, 0x60, 0x4f,
     0x46, 0xa0, 0x0f,
     0x81, 0x02,
     0x09, 0x31,
     0x26, 0x88, 0x3b,
     0x46, 0xb8, 0x0b,
     0x81, 0x02,
     0xb4,
     0x09, 0x30,
     0x45, 0x00,
     0x26, 0xff, 0x1f,
     0x75, 0x0d,
     0x95, 0x01,
     0x81, 0x02,
     0x75, 0x01,
     0x95, 0x13,
     0x81, 0x01,
     0xc0,
     0xc0]"

lemma length_decomini4_fixed_pad_rdesc [simp]: "length decomini4_fixed_pad_rdesc = 34"
  by code_simp

lemma decomini4_fixed_pad_rdesc_declares [rdesc_facts]:
  "rdesc_declares decomini4_fixed_pad_rdesc [(6, 8)]"
  by code_simp

lemma length_decomini4_fixed_pen_rdesc [simp]: "length decomini4_fixed_pen_rdesc = 96"
  by code_simp

lemma decomini4_fixed_pen_rdesc_declares [rdesc_facts]:
  "rdesc_declares decomini4_fixed_pen_rdesc [(7, 10)]"
  by code_simp

definition decomini4_rdesc_fixup :: "unit program" where
  "decomini4_rdesc_fixup s c data = (case data of None \<Rightarrow> Some (s, [], 0) | Some d \<Rightarrow>
     if ctx_size c = decomini4_RDESC_SIZE_PAD then
       do { d1 \<leftarrow> memcpy d 0 decomini4_fixed_pad_rdesc; Some (s, d1, int (length decomini4_fixed_pad_rdesc)) }
     else if ctx_size c = decomini4_RDESC_SIZE_PEN then
       do { d1 \<leftarrow> memcpy d 0 decomini4_fixed_pen_rdesc; Some (s, d1, int (length decomini4_fixed_pen_rdesc)) }
     else Some (s, d, 0))"

definition decomini4_new_rdesc :: "int \<Rightarrow> u8 list option" where
  "decomini4_new_rdesc n =
     (if n = decomini4_RDESC_SIZE_PAD then Some decomini4_fixed_pad_rdesc
      else if n = decomini4_RDESC_SIZE_PEN then Some decomini4_fixed_pen_rdesc
      else None)"

interpretation decomini4_fixup: replacing_fixup decomini4_rdesc_fixup "\<lambda>s c. decomini4_new_rdesc (ctx_size c)"
  by unfold_locales
    (auto simp: decomini4_rdesc_fixup_def decomini4_new_rdesc_def split: if_splits)

text \<open>
  The loop nest over the key slots of the report and the entries of \<open>pad_buttons\<close>: every entry
  equal to a non-zero key sets its bit.
\<close>

fun pad_key_mask :: "u8 list \<Rightarrow> nat \<Rightarrow> u8 \<Rightarrow> u8" where
  "pad_key_mask [] b v = 0"
| "pad_key_mask (k # ks) b v = (if v \<noteq> 0 \<and> v = k then BIT b else 0) OR pad_key_mask ks (Suc b) v"

definition scan_pad_keys :: "u8 list \<Rightarrow> u8 list \<Rightarrow> u8 \<Rightarrow> u8 option" where
  "scan_pad_keys pad_buttons d button_mask =
     mfold (\<lambda>i mask. do { v \<leftarrow> rd d i; Some (mask OR pad_key_mask pad_buttons 0 v) }) [2..<8] button_mask"

definition decomini4_device_event :: "unit program" where
  "decomini4_device_event s c data = (case data of None \<Rightarrow> Some (s, [], 0) | Some d \<Rightarrow> do {
     d0 \<leftarrow> rd d 0;
     if d0 \<noteq> decomini4_PAD_REPORT_ID then Some (s, d, 0)
     else do {
       d1 \<leftarrow> rd d 1;
       button_mask \<leftarrow> scan_pad_keys decomini4_pad_buttons d (if d1 AND BIT 2 \<noteq> 0 then BIT 2 else 0);
       d' \<leftarrow> memcpy d 0 [decomini4_PAD_REPORT_ID, button_mask, 0x00, 0, 0, 0, 0, 0];
       Some (s, d', 0) } })"

lemma scan_pad_keys_eq:
  "8 \<le> length d \<Longrightarrow> scan_pad_keys ks d m = Some (fold (\<lambda>i mask. mask OR pad_key_mask ks 0 (d ! i)) [2..<8] m)"
  unfolding scan_pad_keys_def by (rule mfold_pure) auto

lemma bit_pad_key_mask:
  "bit (pad_key_mask ks b v) n \<longleftrightarrow>
     v \<noteq> 0 \<and> b \<le> n \<and> n < 8 \<and> n - b < length ks \<and> ks ! (n - b) = v"
proof (induction ks arbitrary: b v n)
  case Nil
  then show ?case by simp
next
  case (Cons k ks)
  show ?case
    by (cases "n = b"; cases "n < b") (auto simp: bit_or_iff bit_BIT Cons.IH nth_Cons' Suc_le_eq)
qed

text \<open>The button mask as a set: the shared core of the pad handlers of DecoMini4 and Deco01V3.\<close>

lemma bit_scan_pad_keys:
  "8 \<le> length d \<Longrightarrow> scan_pad_keys ks d m = Some bm \<Longrightarrow>
   bit bm n \<longleftrightarrow> bit m n \<or> (n < 8 \<and> n < length ks \<and> ks ! n \<noteq> 0 \<and> ks ! n \<in> set (drop 2 (take 8 d)))"
proof -
  assume d: "8 \<le> length d" and "scan_pad_keys ks d m = Some bm"
  then have bm: "bm = fold (\<lambda>i mask. mask OR pad_key_mask ks 0 (d ! i)) [2..<8] m"
    by (simp add: scan_pad_keys_eq)
  have *: "(\<exists>i \<in> {2..<8}. v = d ! i) \<longleftrightarrow> v \<in> set (drop 2 (take 8 d))" for v
    unfolding drop_take_map_nth [OF d] set_map set_upt by auto
  then show "bit bm n \<longleftrightarrow> bit m n \<or> (n < 8 \<and> n < length ks \<and> ks ! n \<noteq> 0 \<and> ks ! n \<in> set (drop 2 (take 8 d)))"
    unfolding bm bit_fold_or bit_pad_key_mask set_upt * [symmetric] by auto
qed

interpretation decomini4_events: hid_program decomini4_device_event 8
  by unfold_locales (auto simp: decomini4_device_event_def scan_pad_keys_eq)

definition decomini4_probe :: "hid_bpf_probe_args \<Rightarrow> hid_bpf_probe_args \<times> int" where
  "decomini4_probe a =
     (let retval = (if pa_rdesc_size a \<noteq> decomini4_RDESC_SIZE_PAD \<and>
                       pa_rdesc_size a \<noteq> decomini4_RDESC_SIZE_PEN then 1 else 0);
          retval = (if retval \<noteq> 0 then - EINVAL else retval)
      in (a\<lparr>pa_retval := retval\<rparr>, 0))"

section \<open>Deco01V3\<close>


abbreviation (input) deco01_VID_UGEE :: "'a::numeral" where "deco01_VID_UGEE \<equiv> 0x28bd"

abbreviation (input) deco01_PID_DECO_01_V3 :: "'a::numeral" where "deco01_PID_DECO_01_V3 \<equiv> 0x0947"

abbreviation (input) deco01_PEN_REPORT_DESCRIPTOR_LENGTH :: "'a::numeral" where "deco01_PEN_REPORT_DESCRIPTOR_LENGTH \<equiv> 109"

abbreviation (input) deco01_PAD_REPORT_DESCRIPTOR_LENGTH :: "'a::numeral" where "deco01_PAD_REPORT_DESCRIPTOR_LENGTH \<equiv> 102"

abbreviation (input) deco01_PAD_REPORT_LENGTH :: "'a::numeral" where "deco01_PAD_REPORT_LENGTH \<equiv> 8"

abbreviation (input) deco01_PAD_REPORT_ID :: "'a::numeral" where "deco01_PAD_REPORT_ID \<equiv> 6"

abbreviation (input) deco01_PAD_NUM_BUTTONS :: "'a::numeral" where "deco01_PAD_NUM_BUTTONS \<equiv> 8"

definition deco01_fixed_rdesc_pad_ini :: initializer where
  "deco01_fixed_rdesc_pad_ini = concat [
     UsagePage_GenericDesktop,
     Usage_GD_Keypad,
     CollectionApplication (concat [
       ReportId deco01_PAD_REPORT_ID,
       ReportCount 1,
       ReportSize 8,
       UsagePage_Digitizers,
       Usage_Dig_TabletFunctionKeys,
       CollectionPhysical (concat [
         UsagePage_Button,
         UsageMinimum_i8 0x01,
         UsageMaximum_i8 deco01_PAD_NUM_BUTTONS,
         LogicalMinimum_i8 0x0,
         LogicalMaximum_i8 0x1,
         ReportCount deco01_PAD_NUM_BUTTONS,
         ReportSize 1,
         Input (Var OR Abs),
         UsagePage_Digitizers,
         Usage_Dig_BarrelSwitch,
         ReportCount 1,
         ReportSize 1,
         Input (Var OR Abs),
         ReportCount 7,
         Input Const,
         UsagePage_GenericDesktop,
         Usage_GD_X,
         Usage_GD_Y,
         ReportCount 2,
         ReportSize 8,
         Input (Var OR Abs),
         ReportCount 3,
         ReportSize 8,
         Input Const])])]"

definition deco01_fixed_rdesc_pad :: "u8 list" where
  "deco01_fixed_rdesc_pad = bytes deco01_fixed_rdesc_pad_ini"

lemma length_deco01_fixed_rdesc_pad [simp]: "length deco01_fixed_rdesc_pad = 68"
  by code_simp

lemma deco01_fixed_rdesc_pad_declares [rdesc_facts]:
  "static_ok deco01_fixed_rdesc_pad_ini \<and> rdesc_declares deco01_fixed_rdesc_pad [(6, 8)]"
  by code_simp

definition deco01_wrong_logical_range :: "u8 list" where
  "deco01_wrong_logical_range = [0x15, 0x81, 0x25, 0x7f]"

definition deco01_correct_logical_range :: "u8 list" where
  "deco01_correct_logical_range = [0x15, 0xc4, 0x25, 0x3c]"

text \<open>\<open>replace_at d i old new\<close>: overwrite the bytes at \<open>i\<close> if they are the expected ones.\<close>

definition replace_at :: "u8 list \<Rightarrow> nat \<Rightarrow> u8 list \<Rightarrow> u8 list \<Rightarrow> u8 list option" where
  "replace_at d i old new = do {
     eq \<leftarrow> memeq d i old;
     if eq then memcpy d i new else Some d }"

lemma replace_at_length:
  "i + length old \<le> length d \<Longrightarrow> length new = length old \<Longrightarrow>
   \<exists>d'. replace_at d i old new = Some d' \<and> length d' = length d"
  by (auto simp: replace_at_def)

definition deco01_rdesc_fixup :: "unit program" where
  "deco01_rdesc_fixup s c data = (case data of None \<Rightarrow> Some (s, [], 0) | Some d \<Rightarrow>
     if ctx_size c = deco01_PAD_REPORT_DESCRIPTOR_LENGTH then
       do { d1 \<leftarrow> memcpy d 0 deco01_fixed_rdesc_pad; Some (s, d1, int (length deco01_fixed_rdesc_pad)) }
     else if ctx_size c = deco01_PEN_REPORT_DESCRIPTOR_LENGTH then do {
       d1 \<leftarrow> replace_at d 89 deco01_wrong_logical_range deco01_correct_logical_range;
       d2 \<leftarrow> replace_at d1 101 deco01_wrong_logical_range deco01_correct_logical_range;
       Some (s, d2, 0) }
     else Some (s, d, 0))"

interpretation deco01_fixup: hid_program deco01_rdesc_fixup 4096
proof
  show "deco01_rdesc_fixup s c None = Some (s, [], 0)" for s c by (simp add: deco01_rdesc_fixup_def)
  show "\<exists>s' d' r. deco01_rdesc_fixup s c (Some d) = Some (s', d', r) \<and> length d' = 4096 \<and> r \<le> int 4096"
    if d: "length d = 4096" for d s c
  proof -
    obtain d1 where 1: "replace_at d 89 deco01_wrong_logical_range deco01_correct_logical_range = Some d1"
      "length d1 = 4096"
      using d replace_at_length [of 89 deco01_wrong_logical_range d deco01_correct_logical_range]
      by (auto simp: deco01_wrong_logical_range_def deco01_correct_logical_range_def)
    obtain d2 where 2: "replace_at d1 101 deco01_wrong_logical_range deco01_correct_logical_range = Some d2"
      "length d2 = 4096"
      using 1 replace_at_length [of 101 deco01_wrong_logical_range d1 deco01_correct_logical_range]
      by (auto simp: deco01_wrong_logical_range_def deco01_correct_logical_range_def)
    show ?thesis using d 1 2 by (auto simp: deco01_rdesc_fixup_def)
  qed
qed

definition deco01_pad_buttons :: "u8 list" where
  "deco01_pad_buttons = [0x05, 0x08, 0x00, 0x2c, 0x16, 0x1d, 0x57, 0x56]"

definition deco01_device_event :: "unit program" where
  "deco01_device_event s c data = (case data of None \<Rightarrow> Some (s, [], 0) | Some d \<Rightarrow> do {
     d0 \<leftarrow> rd d 0;
     if d0 = deco01_PAD_REPORT_ID then do {
       d1 \<leftarrow> rd d 1;
       button_mask \<leftarrow> scan_pad_keys deco01_pad_buttons d (if d1 AND BIT 2 \<noteq> 0 then BIT 2 else 0);
       d' \<leftarrow> memcpy d 0 [deco01_PAD_REPORT_ID, button_mask, 0x00, 0, 0, 0, 0, 0];
       Some (s, d', 0) }
     else Some (s, d, 0) })"

interpretation deco01_events: hid_program deco01_device_event 8
  by unfold_locales (auto simp: deco01_device_event_def scan_pad_keys_eq)

definition deco01_probe :: "hid_bpf_probe_args \<Rightarrow> hid_bpf_probe_args \<times> int" where
  "deco01_probe a =
     ((if pa_rdesc_size a = deco01_PAD_REPORT_DESCRIPTOR_LENGTH \<or> pa_rdesc_size a = deco01_PEN_REPORT_DESCRIPTOR_LENGTH
       then a\<lparr>pa_retval := 0\<rparr> else a\<lparr>pa_retval := - EINVAL\<rparr>), 0)"

section \<open>Deco02\<close>


abbreviation (input) deco02_VID_UGEE :: "'a::numeral" where "deco02_VID_UGEE \<equiv> 0x28bd"

abbreviation (input) deco02_PID_DECO_02 :: "'a::numeral" where "deco02_PID_DECO_02 \<equiv> 0x0803"

abbreviation (input) deco02_RDESC_SIZE_PAD :: "'a::numeral" where "deco02_RDESC_SIZE_PAD \<equiv> 188"

abbreviation (input) deco02_REPORT_SIZE_PAD :: "'a::numeral" where "deco02_REPORT_SIZE_PAD \<equiv> 8"

abbreviation (input) deco02_REPORT_ID_BUTTONS :: "'a::numeral" where "deco02_REPORT_ID_BUTTONS \<equiv> 3"

abbreviation (input) deco02_PAD_BUTTON_COUNT :: "'a::numeral" where "deco02_PAD_BUTTON_COUNT \<equiv> 6"

abbreviation (input) deco02_RDESC_KEYBOARD_OFFSET :: "'a::numeral" where "deco02_RDESC_KEYBOARD_OFFSET \<equiv> 148"

definition deco02_fixed_rdesc_pad_ini :: initializer where
  "deco02_fixed_rdesc_pad_ini = concat [
     UsagePage_Digitizers,
     Usage_Dig_Pen,
     CollectionApplication (concat [
       ReportId 7,
       Usage_Dig_Stylus,
       CollectionPhysical (concat [
         Usage_Dig_TipSwitch,
         Usage_Dig_BarrelSwitch,
         Usage_Dig_Eraser,
         Usage_Dig_Invert,
         Usage_Dig_InRange,
         LogicalMinimum_i8 0,
         LogicalMaximum_i8 1,
         ReportSize 1,
         ReportCount 5,
         Input (Var OR Abs),
         ReportCount 3,
         Input Const,
         UsagePage_GenericDesktop,
         Usage_GD_X,
         LogicalMinimum_i16 0,
         LogicalMaximum_i16 22352,
         UnitExponent (- 3),
         Unit inch,
         PhysicalMinimum_i16 0,
         PhysicalMaximum_i16 22352,
         ReportSize 16,
         ReportCount 1,
         Input (Var OR Abs),
         Usage_GD_Y,
         LogicalMinimum_i16 0,
         LogicalMaximum_i16 13970,
         UnitExponent (- 3),
         Unit inch,
         PhysicalMinimum_i16 0,
         PhysicalMaximum_i16 13970,
         ReportSize 16,
         ReportCount 1,
         Input (Var OR Abs),
         UsagePage_Digitizers,
         Usage_Dig_TipPressure,
         LogicalMinimum_i16 0,
         LogicalMaximum_i16 8191,
         ReportSize 16,
         ReportCount 1,
         Input (Var OR Abs)])]),
     UsagePage_GenericDesktop,
     Usage_GD_Keypad,
     CollectionApplication (concat [
       ReportId deco02_REPORT_ID_BUTTONS,
       ReportCount 1,
       ReportSize deco02_REPORT_SIZE_PAD,
       UsagePage_Digitizers,
       Usage_Dig_TabletFunctionKeys,
       CollectionPhysical (concat [
         UsagePage_GenericDesktop,
         Usage_GD_Dial,
         LogicalMinimum_i8 (- 1),
         LogicalMaximum_i8 1,
         ReportCount 1,
         ReportSize deco02_REPORT_SIZE_PAD,
         Input (Var OR Rel),
         UsagePage_Button,
         ReportSize 1,
         ReportCount deco02_PAD_BUTTON_COUNT,
         UsageMinimum_i8 0x01,
         UsageMaximum_i8 deco02_PAD_BUTTON_COUNT,
         LogicalMinimum_i8 0x0,
         LogicalMaximum_i8 0x1,
         Input (Var OR Abs),
         UsagePage_Digitizers,
         Usage_Dig_BarrelSwitch,
         ReportCount 1,
         ReportSize 1,
         Input (Var OR Abs),
         ReportCount 7,
         Input Const,
         UsagePage_GenericDesktop,
         Usage_GD_X,
         Usage_GD_Y,
         ReportCount 2,
         ReportSize 8,
         Input (Var OR Abs),
         ReportCount 2,
         ReportSize 8,
         Input Const]),
       FixedSizeVendorReport deco02_RDESC_SIZE_PAD])]"

definition deco02_fixed_rdesc_pad :: "u8 list" where
  "deco02_fixed_rdesc_pad = bytes deco02_fixed_rdesc_pad_ini"

lemma length_deco02_fixed_rdesc_pad [simp]: "length deco02_fixed_rdesc_pad = 202"
  by code_simp

text \<open>
  The pad report declares six button bits without padding them to a byte: the fields after them
  start in the middle of a byte.
\<close>

lemma deco02_fixed_rdesc_pad_parsed:
  "static_ok deco02_fixed_rdesc_pad_ini \<and>
   (case parse_rdesc deco02_fixed_rdesc_pad of None \<Rightarrow> False | Some st \<Rightarrow>
      closed st \<and> p_stack st = [] \<and> list_all field_ok (p_fields st) \<and>
      report_lengths 0x80 st = [(7, 8), (3, 8), (172, 188)] \<and> report_bits 0x80 3 st = 54 \<and>
      usage_layout 3 st =
        [(0x10037, 8, 8), (0x90001, 16, 1), (0x90002, 17, 1), (0x90003, 18, 1), (0x90004, 19, 1),
         (0x90005, 20, 1), (0x90006, 21, 1), (0xd0044, 22, 1), (0x10030, 30, 8), (0x10031, 38, 8)])"
  by code_simp

definition deco02_rdesc_fixup :: "unit program" where
  "deco02_rdesc_fixup s c data = (case data of None \<Rightarrow> Some (s, [], 0) | Some d \<Rightarrow>
     if ctx_size c = deco02_RDESC_SIZE_PAD then
       do { d1 \<leftarrow> memcpy d 0 deco02_fixed_rdesc_pad; Some (s, d1, int (length deco02_fixed_rdesc_pad)) }
     else Some (s, d, 0))"

definition deco02_new_rdesc :: "int \<Rightarrow> u8 list option" where
  "deco02_new_rdesc n = (if n = deco02_RDESC_SIZE_PAD then Some deco02_fixed_rdesc_pad else None)"

interpretation deco02_fixup: replacing_fixup deco02_rdesc_fixup "\<lambda>s c. deco02_new_rdesc (ctx_size c)"
  by unfold_locales
    (auto simp: deco02_rdesc_fixup_def deco02_new_rdesc_def split: if_splits)

text \<open>One key slot: the new dial code and button mask.\<close>

definition deco02_key :: "u8 \<Rightarrow> u8 \<times> u8 \<Rightarrow> u8 \<times> u8" where
  "deco02_key v st = (case st of (dial_code, button_mask) \<Rightarrow>
     if v = 0x2e then (1, button_mask)
     else if v = 0x2d then (- 1, button_mask)
     else if v = 0x05 then (dial_code, button_mask OR BIT 0)
     else if v = 0x2c then (dial_code, button_mask OR BIT 1)
     else if v = 0x08 then (dial_code, button_mask OR BIT 2)
     else if v = 0x0c then (dial_code, button_mask OR BIT 3)
     else if v = 0x1d then (dial_code, button_mask OR BIT 4)
     else if v = 0x16 then (dial_code, button_mask OR BIT 5)
     else (dial_code, button_mask))"

definition deco02_device_event :: "unit program" where
  "deco02_device_event s c data = (case data of None \<Rightarrow> Some (s, [], 0) | Some d \<Rightarrow> do {
     d0 \<leftarrow> rd d 0;
     if d0 \<noteq> deco02_REPORT_ID_BUTTONS then Some (s, d, 0)
     else do {
       (dial_code, button_mask) \<leftarrow> mfold (\<lambda>i st. do { v \<leftarrow> rd d i; Some (deco02_key v st) }) [2..<8] (0, 0);
       d' \<leftarrow> memcpy d 0 [deco02_REPORT_ID_BUTTONS, dial_code, button_mask, 0x00, 0, 0, 0, 0];
       Some (s, d', 0) } })"

lemma deco02_scan_eq:
  "8 \<le> length d \<Longrightarrow> mfold (\<lambda>i st. do { v \<leftarrow> rd d i; Some (deco02_key v st) }) [2..<8] st
     = Some (fold (\<lambda>i. deco02_key (d ! i)) [2..<8] st)"
  by (rule mfold_pure) auto

interpretation deco02_events: hid_program deco02_device_event 8
  by unfold_locales (auto simp: deco02_device_event_def deco02_scan_eq split: prod.split)

definition deco02_probe :: "hid_bpf_probe_args \<Rightarrow> hid_bpf_probe_args \<times> int" where
  "deco02_probe a =
     (a\<lparr>pa_retval := (if pa_rdesc_size a \<noteq> deco02_RDESC_SIZE_PAD then - EINVAL else 0)\<rparr>, 0)"

section \<open>What pad reports deliver\<close>

lemma decomini4_fixed_pad_rdesc_layout_6:
  "rdesc_layout decomini4_fixed_pad_rdesc 6 = Some [
     (0x90001, 8, 1), (0x90002, 9, 1), (0x90003, 10, 1), (0x90004, 11, 1), (0x90005, 12, 1), (0x90006, 13, 1)]"
  by code_simp

lemma deco01_fixed_rdesc_pad_layout_6:
  "rdesc_layout deco01_fixed_rdesc_pad 6 = Some [
     (0x90001, 8, 1), (0x90002, 9, 1), (0x90003, 10, 1), (0x90004, 11, 1), (0x90005, 12, 1), (0x90006, 13, 1),
     (0x90007, 14, 1), (0x90008, 15, 1), (0xd0044, 16, 1), (0x10030, 24, 8), (0x10031, 32, 8)]"
  by code_simp

lemma bit_2_mask: "bit (if w AND BIT 2 \<noteq> 0 then BIT 2 else 0 :: u8) n \<longleftrightarrow> n = 2 \<and> bit (w :: u8) 2"
  using BIT_mask_nonzero [of w 2] by (simp add: bit_BIT)

text \<open>Button \<open>n\<close> of a keyboard report: the Alt modifier, or a key of the table in one of the slots.\<close>

definition deco_button_held :: "u8 list \<Rightarrow> u8 list \<Rightarrow> nat \<Rightarrow> bool" where
  "deco_button_held pad_buttons rep n \<longleftrightarrow>
     (n = 2 \<and> bit (rep ! 1) 2) \<or> (pad_buttons ! n \<noteq> 0 \<and> pad_buttons ! n \<in> set (drop 2 (take 8 rep)))"

lemma deco_scan:
  assumes "length rep = 8" "length ks \<le> 8"
  obtains bm where "scan_pad_keys ks rep (if rep ! 1 AND BIT 2 \<noteq> 0 then BIT 2 else 0) = Some bm"
    and "\<And>n. n < length ks \<Longrightarrow> bit bm n \<longleftrightarrow> deco_button_held ks rep n"
proof -
  obtain bm where bm: "scan_pad_keys ks rep (if rep ! 1 AND BIT 2 \<noteq> 0 then BIT 2 else 0) = Some bm"
    using assms(1) by (simp add: scan_pad_keys_eq)
  have "bit bm n \<longleftrightarrow> deco_button_held ks rep n" if "n < length ks" for n
    using bit_scan_pad_keys [OF _ bm, of n] assms that by (simp add: bit_2_mask deco_button_held_def)
  with bm that show ?thesis by blast
qed

lemma deco_pad_usage:
  assumes "k < 8" and "usage_slot bs (uint i) u = Some (8 + int k, 1)"
  shows "usage_value bs [i, bm, 0, 0, 0, 0, 0, 0] u = Some (of_bool (bit bm k))"
  using assms read_bit [of k 1 "[i, bm, 0, 0, 0, 0, 0, 0]"] by (simp add: usage_value_def nat_add_distrib)

text \<open>
  The pad of the DecoMini4: a keyboard report of eight bytes is delivered as a pad report of the
  declared length whose six button usages, read through the installed descriptor, are 1 exactly for
  the buttons whose key is in one of the six slots (button 3: whose modifier is held).
\<close>

theorem decomini4_buttons:
  assumes "length rep = 8" and "rep ! 0 = decomini4_PAD_REPORT_ID"
  shows "\<exists>out. device_event decomini4_device_event 8 hid () rep = Some ((), Some out)
    \<and> conforms [(6, 8)] out
    \<and> (\<forall>n < 6. usage_value decomini4_fixed_pad_rdesc out (0x90001 + int n)
         = Some (of_bool (deco_button_held decomini4_pad_buttons rep n)))"
proof -
  have len: "length decomini4_pad_buttons = 6" by (simp add: decomini4_pad_buttons_def)
  obtain bm where scan: "scan_pad_keys decomini4_pad_buttons rep (if rep ! 1 AND BIT 2 \<noteq> 0 then BIT 2 else 0) = Some bm"
    and bits: "\<And>n. n < 6 \<Longrightarrow> bit bm n \<longleftrightarrow> deco_button_held decomini4_pad_buttons rep n"
    using deco_scan [of rep decomini4_pad_buttons] assms(1) len by auto
  let ?out = "[6, bm, 0, 0, 0, 0, 0, 0] :: u8 list"
  have ev: "device_event decomini4_device_event 8 hid () rep = Some ((), Some ?out)"
    using assms scan take_report_buffer [of rep 8]
    by (subst device_event_in_place [where w = ?out]) (simp_all add: decomini4_device_event_def)
  have slot: "list_all (\<lambda>n. usage_slot decomini4_fixed_pad_rdesc 6 (0x90001 + int n) = Some (8 + int n, 1)) [0..<6]"
    unfolding usage_slot_def decomini4_fixed_pad_rdesc_layout_6 option.case by code_simp
  have "usage_value decomini4_fixed_pad_rdesc ?out (0x90001 + int n) = Some (of_bool (bit bm n))" if "n < 6" for n
    using slot that by (intro deco_pad_usage) (simp_all add: list_all_iff)
  with ev bits show ?thesis by (intro exI [of _ ?out]) (simp add: conforms_def)
qed

theorem decomini4_buttons_witness:
  "\<exists>out. device_event decomini4_device_event 8 \<lparr>hdev_id = 1, hdev_bus = 3, hdev_product = 0x929, hdev_name = []\<rparr> ()
      [6, 4, 0x05, 0x1d, 0, 0, 0, 0] = Some ((), Some out)
    \<and> map (usage_value decomini4_fixed_pad_rdesc out) [0x90001, 0x90002, 0x90003, 0x90006]
        = [Some 1, Some 0, Some 1, Some 1]"
proof -
  let ?rep = "[6, 4, 0x05, 0x1d, 0, 0, 0, 0] :: u8 list"
  let ?hid = "\<lparr>hdev_id = 1, hdev_bus = 3, hdev_product = 0x929, hdev_name = []\<rparr>"
  have held: "map (deco_button_held decomini4_pad_buttons ?rep) [0, 1, 2, 5] = [True, False, True, True]"
    by code_simp
  have rep: "length ?rep = 8" "?rep ! 0 = decomini4_PAD_REPORT_ID" by simp_all
  obtain out where ev: "device_event decomini4_device_event 8 ?hid () ?rep = Some ((), Some out)"
    and use: "\<And>n. n < 6 \<Longrightarrow> usage_value decomini4_fixed_pad_rdesc out (0x90001 + int n)
         = Some (of_bool (deco_button_held decomini4_pad_buttons ?rep n))"
    using decomini4_buttons [OF rep, of ?hid] by blast
  show ?thesis using ev use [of 0] use [of 1] use [of 2] use [of 5] held by (intro exI [of _ out]) simp
qed

text \<open>
  The pad of the Deco01V3: as for the DecoMini4, with the eight button usages of its descriptor.
\<close>

theorem deco01_buttons:
  assumes "length rep = 8" and "rep ! 0 = deco01_PAD_REPORT_ID"
  shows "\<exists>out. device_event deco01_device_event 8 hid () rep = Some ((), Some out)
    \<and> conforms [(6, 8)] out
    \<and> (\<forall>n < 8. usage_value deco01_fixed_rdesc_pad out (0x90001 + int n)
         = Some (of_bool (deco_button_held deco01_pad_buttons rep n)))"
proof -
  have len: "length deco01_pad_buttons = 8" by (simp add: deco01_pad_buttons_def)
  obtain bm where scan: "scan_pad_keys deco01_pad_buttons rep (if rep ! 1 AND BIT 2 \<noteq> 0 then BIT 2 else 0) = Some bm"
    and bits: "\<And>n. n < 8 \<Longrightarrow> bit bm n \<longleftrightarrow> deco_button_held deco01_pad_buttons rep n"
    using deco_scan [of rep deco01_pad_buttons] assms(1) len by auto
  let ?out = "[6, bm, 0, 0, 0, 0, 0, 0] :: u8 list"
  have ev: "device_event deco01_device_event 8 hid () rep = Some ((), Some ?out)"
    using assms scan take_report_buffer [of rep 8]
    by (subst device_event_in_place [where w = ?out]) (simp_all add: deco01_device_event_def)
  have slot: "list_all (\<lambda>n. usage_slot deco01_fixed_rdesc_pad 6 (0x90001 + int n) = Some (8 + int n, 1)) [0..<8]"
    unfolding usage_slot_def deco01_fixed_rdesc_pad_layout_6 option.case by code_simp
  have "usage_value deco01_fixed_rdesc_pad ?out (0x90001 + int n) = Some (of_bool (bit bm n))" if "n < 8" for n
    using slot that by (intro deco_pad_usage) (simp_all add: list_all_iff)
  with ev bits show ?thesis by (intro exI [of _ ?out]) (simp add: conforms_def)
qed

theorem deco01_buttons_witness:
  "\<exists>out. device_event deco01_device_event 8 \<lparr>hdev_id = 1, hdev_bus = 3, hdev_product = 0x947, hdev_name = []\<rparr> ()
      [6, 0, 0x56, 0, 0, 0, 0, 0] = Some ((), Some out)
    \<and> map (usage_value deco01_fixed_rdesc_pad out) [0x90001, 0x90008] = [Some 0, Some 1]"
proof -
  let ?rep = "[6, 0, 0x56, 0, 0, 0, 0, 0] :: u8 list"
  let ?hid = "\<lparr>hdev_id = 1, hdev_bus = 3, hdev_product = 0x947, hdev_name = []\<rparr>"
  have held: "map (deco_button_held deco01_pad_buttons ?rep) [0, 7] = [False, True]"
    by code_simp
  have rep: "length ?rep = 8" "?rep ! 0 = deco01_PAD_REPORT_ID" by simp_all
  obtain out where ev: "device_event deco01_device_event 8 ?hid () ?rep = Some ((), Some out)"
    and use: "\<And>n. n < 8 \<Longrightarrow> usage_value deco01_fixed_rdesc_pad out (0x90001 + int n)
         = Some (of_bool (deco_button_held deco01_pad_buttons ?rep n))"
    using deco01_buttons [OF rep, of ?hid] by blast
  show ?thesis using ev use [of 0] use [of 7] held by (intro exI [of _ out]) simp
qed

end
