(* ===== verification/XPPen_Artist.thy ===== *)
theory XPPen_Artist
  imports Kernel_Iface Rdesc_Spec
begin

unbundle bit_operations_syntax

text \<open>
  The XP-Pen displays: Artist 24 (\<open>0010-XPPen__Artist24.bpf.c\<close>) with the filter that drops the false
  releases around its second button, and Artist Pro Gen 2 (\<open>0020-XPPen__ArtistPro16Gen2.bpf.c\<close>) with
  the tilt compensation of the coordinates and the eraser translation.
\<close>

section \<open>Artist 24\<close>


definition artist24_fixed_rdesc :: "u8 list" where
  "artist24_fixed_rdesc = [
     0x05, 0x0d,
     0x09, 0x02,
     0xa1, 0x01,
     0x85, 0x07,
     0x09, 0x20,
     0xa1, 0x00,
     0x09, 0x42,
     0x09, 0x44,
     0x09, 0x5a,
     0x15, 0x00,
     0x25, 0x01,
     0x75, 0x01,
     0x95, 0x03,
     0x81, 0x02,
     0x95, 0x02,
     0x81, 0x03,
     0x09, 0x32,
     0x95, 0x01,
     0x81, 0x02,
     0x95, 0x02,
     0x81, 0x03,
     0x75, 0x10,
     0x95, 0x01,
     0x35, 0x00,
     0xa4,
     0x05, 0x01,
     0x09, 0x30,
     0x65, 0x13,
     0x55, 0x0d,
     0x46, 0xf0, 0x50,
     0x26, 0xff, 0x7f,
     0x81, 0x02,
     0x09, 0x31,
     0x46, 0x91, 0x2d,
     0x26, 0xff, 0x7f,
     0x81, 0x02,
     0xb4,
     0x09, 0x30,
     0x45, 0x00,
     0x26, 0xff, 0x1f,
     0x81, 0x42,
     0x09, 0x3d,
     0x15, 0x81,
     0x25, 0x7f,
     0x75, 0x08,
     0x95, 0x01,
     0x81, 0x02,
     0x09, 0x3e,
     0x15, 0x81,
     0x25, 0x7f,
     0x81, 0x02,
     0xc0,
     0xc0]"

lemma length_artist24_fixed_rdesc [simp]: "length artist24_fixed_rdesc = 107"
  by code_simp

lemma artist24_fixed_rdesc_declares [rdesc_facts]:
  "rdesc_declares artist24_fixed_rdesc [(7, 10)]"
  by code_simp

definition artist24_fix_rdesc :: "u8 program" where
  "artist24_fix_rdesc s c data = (case data of None \<Rightarrow> Some (s, [], 0) | Some d \<Rightarrow>
     do { d1 \<leftarrow> memcpy d 0 artist24_fixed_rdesc; Some (s, d1, int (length artist24_fixed_rdesc)) })"

interpretation artist24_fixup: replacing_fixup artist24_fix_rdesc "\<lambda>s c. Some artist24_fixed_rdesc"
  by unfold_locales (auto simp: artist24_fix_rdesc_def)

definition artist24_TIP_SWITCH :: u8 where "artist24_TIP_SWITCH = BIT 0"

definition artist24_ERASER :: u8 where "artist24_ERASER = BIT 2"

definition artist24_IN_RANGE :: u8 where "artist24_IN_RANGE = BIT 5"

text \<open>
  The state is the global \<open>prev_state\<close>: the button byte of the last report that was in range and
  different from its predecessor.
\<close>

definition artist24_fix_eraser :: "u8 program" where
  "artist24_fix_eraser prev_state c data = (case data of None \<Rightarrow> Some (prev_state, [], 0) | Some d \<Rightarrow> do {
     current_state \<leftarrow> rd d 1;
     if current_state = prev_state then Some (prev_state, d, 0)
     else do {
       let prev_tip = (prev_state AND artist24_TIP_SWITCH \<noteq> 0);
       if current_state AND artist24_IN_RANGE = 0
       then (if prev_tip then Some (prev_state, d, HID_IGNORE_EVENT) else Some (prev_state, d, 0))
       else do {
         let changed_state = prev_state XOR current_state;
         if changed_state AND (artist24_TIP_SWITCH OR artist24_ERASER) = (artist24_TIP_SWITCH OR artist24_ERASER)
         then Some (current_state, d, HID_IGNORE_EVENT)
         else Some (current_state, d, 0) } } })"

interpretation artist24_events: hid_program artist24_fix_eraser 10
  by unfold_locales (auto simp: artist24_fix_eraser_def Let_def)

definition artist24_probe :: "hid_bpf_probe_args \<Rightarrow> hid_bpf_probe_args \<times> int" where
  "artist24_probe a =
     (let retval = (if pa_rdesc_size a \<noteq> 107 then 1 else 0);
          retval = (if retval \<noteq> 0 then - EINVAL else retval);
          retval = (if pa_rdesc a ! 17 \<noteq> 0x45 then - EINVAL else retval)
      in (a\<lparr>pa_retval := retval\<rparr>, 0))"

section \<open>Artist Pro 14, 16 and 19 (Gen 2)\<close>


abbreviation (input) artpro_VID_UGEE :: "'a::numeral" where "artpro_VID_UGEE \<equiv> 0x28bd"

abbreviation (input) artpro_PID_ARTIST_PRO14_GEN2 :: "'a::numeral" where "artpro_PID_ARTIST_PRO14_GEN2 \<equiv> 0x095a"

abbreviation (input) artpro_PID_ARTIST_PRO16_GEN2 :: "'a::numeral" where "artpro_PID_ARTIST_PRO16_GEN2 \<equiv> 0x095b"

abbreviation (input) artpro_PID_ARTIST_PRO19_GEN2 :: "'a::numeral" where "artpro_PID_ARTIST_PRO19_GEN2 \<equiv> 0x096a"

definition artpro_fixed_rdesc :: "u8 list" where
  "artpro_fixed_rdesc = [
     0x05, 0x0d,
     0x09, 0x02,
     0xa1, 0x01,
     0x85, 0x07,
     0x09, 0x20,
     0xa1, 0x00,
     0x09, 0x42,
     0x09, 0x44,
     0x09, 0x5a,
     0x09, 0x3c,
     0x09, 0x45,
     0x15, 0x00,
     0x25, 0x01,
     0x75, 0x01,
     0x95, 0x05,
     0x81, 0x02,
     0x09, 0x32,
     0x15, 0x00,
     0x25, 0x01,
     0x95, 0x01,
     0x81, 0x02,
     0x95, 0x02,
     0x81, 0x03,
     0x75, 0x10,
     0x95, 0x01,
     0x35, 0x00,
     0xa4,
     0x05, 0x01,
     0x09, 0x30,
     0x65, 0x13,
     0x55, 0x0d,
     0x46, 0xff, 0x34,
     0x26, 0xff, 0x7f,
     0x81, 0x02,
     0x09, 0x31,
     0x46, 0x20, 0x21,
     0x26, 0xff, 0x7f,
     0x81, 0x02,
     0xb4,
     0x09, 0x30,
     0x45, 0x00,
     0x26, 0xff, 0x3f,
     0x81, 0x42,
     0x09, 0x3d,
     0x15, 0xc4,
     0x25, 0x3c,
     0x75, 0x08,
     0x95, 0x01,
     0x81, 0x02,
     0x09, 0x3e,
     0x15, 0xc4,
     0x25, 0x3c,
     0x81, 0x02,
     0xc0,
     0xc0]"

lemma length_artpro_fixed_rdesc [simp]: "length artpro_fixed_rdesc = 111"
  by code_simp

lemma artpro_fixed_rdesc_declares [rdesc_facts]:
  "rdesc_declares artpro_fixed_rdesc [(7, 10)]"
  by code_simp

text \<open>The physical maxima are patched for the 14 and 19 inch models.\<close>

definition artpro_fix_rdesc :: "unit program" where
  "artpro_fix_rdesc s c data = (case data of None \<Rightarrow> Some (s, [], 0) | Some d \<Rightarrow> do {
     d1 \<leftarrow> memcpy d 0 artpro_fixed_rdesc;
     d2 \<leftarrow>
       (if hdev_product (ctx_hid c) = artpro_PID_ARTIST_PRO14_GEN2 then do {
          x \<leftarrow> wr d1 63 0x2e; x \<leftarrow> wr x 62 0x62; x \<leftarrow> wr x 73 0x1c; wr x 72 0xfd }
        else if hdev_product (ctx_hid c) = artpro_PID_ARTIST_PRO19_GEN2 then do {
          x \<leftarrow> wr d1 63 0x3e; x \<leftarrow> wr x 62 0xe5; x \<leftarrow> wr x 73 0x23; wr x 72 0x61 }
        else Some d1);
     Some (s, d2, int (length artpro_fixed_rdesc)) })"

definition artpro_new_rdesc :: "u32 \<Rightarrow> u8 list" where
  "artpro_new_rdesc product =
     (if product = artpro_PID_ARTIST_PRO14_GEN2
      then artpro_fixed_rdesc[63 := 0x2e, 62 := 0x62, 73 := 0x1c, 72 := 0xfd]
      else if product = artpro_PID_ARTIST_PRO19_GEN2
      then artpro_fixed_rdesc[63 := 0x3e, 62 := 0xe5, 73 := 0x23, 72 := 0x61]
      else artpro_fixed_rdesc)"

interpretation artpro_fixup: replacing_fixup artpro_fix_rdesc
    "\<lambda>s c. Some (artpro_new_rdesc (hdev_product (ctx_hid c)))"
  by unfold_locales (auto simp: artpro_fix_rdesc_def artpro_new_rdesc_def list_update_append)

definition artpro_angle_offsets_horizontal_14 :: "u16 list" where
  "artpro_angle_offsets_horizontal_14 = [
     0, 3, 5, 8, 11, 13, 16, 19, 21, 24, 27, 29, 32, 35, 37, 40, 42, 45, 47, 50, 53,
     55, 58, 60, 62, 65, 67, 70, 72, 74, 77, 79, 81, 84, 86, 88, 90, 92, 95, 97, 99,
     101, 103, 105, 107, 109, 111, 112, 114, 116, 118, 119, 121, 123, 124, 126, 127,
     129, 130, 132, 133, 134, 136, 137, 138, 139, 140, 141, 142, 143, 144, 145, 146,
     147, 148, 148, 149, 150, 150, 151, 151, 152, 152, 153, 153, 153, 153, 153, 154,
     154, 154, 154, 154, 153, 153, 153, 153, 153, 152, 152, 151, 151, 150, 150, 149,
     148, 148, 147, 146, 145, 144, 143, 142, 141, 140, 139, 138, 137, 136, 134, 133,
     132, 130, 129, 127, 126, 124, 123]"

definition artpro_angle_offsets_vertical_14 :: "u16 list" where
  "artpro_angle_offsets_vertical_14 = [
     0, 4, 9, 13, 17, 21, 26, 30, 34, 38, 43, 47, 51, 55, 59, 64, 68, 72, 76, 80, 84,
     88, 92, 96, 100, 104, 108, 112, 115, 119, 123, 127, 130, 134, 137, 141, 145, 148,
     151, 155, 158, 161, 165, 168, 171, 174, 177, 180, 183, 186, 188, 191, 194, 196,
     199, 201, 204, 206, 208, 211, 213, 215, 217, 219, 221, 223, 225, 226, 228, 230,
     231, 232, 234, 235, 236, 237, 239, 240, 240, 241, 242, 243, 243, 244, 244, 245,
     245, 246, 246, 246, 246, 246, 246, 246, 245, 245, 244, 244, 243, 243, 242, 241,
     240, 240, 239, 237, 236, 235, 234, 232, 231, 230, 228, 226, 225, 223, 221, 219,
     217, 215, 213, 211, 208, 206, 204, 201, 199, 196]"

definition artpro_angle_offsets_horizontal_16 :: "u16 list" where
  "artpro_angle_offsets_horizontal_16 = [
     0, 2, 5, 7, 9, 12, 14, 16, 19, 21, 23, 26, 28, 30, 33, 35, 37, 39, 42, 44, 46, 48,
     50, 53, 55, 57, 59, 61, 63, 65, 67, 69, 71, 73, 75, 77, 79, 81, 83, 85, 86, 88, 90,
     92, 93, 95, 97, 98, 100, 101, 103, 105, 106, 107, 109, 110, 111, 113, 114, 115,
     116, 118, 119, 120, 121, 122, 123, 124, 125, 126, 126, 127, 128, 129, 129, 130,
     130, 131, 132, 132, 132, 133, 133, 133, 134, 134, 134, 134, 134, 134, 134, 134,
     134, 134, 134, 134, 134, 133, 133, 133, 132, 132, 132, 131, 130, 130, 129, 129,
     128, 127, 126, 126, 125, 124, 123, 122, 121, 120, 119, 118, 116, 115, 114, 113,
     111, 110, 109, 107]"

definition artpro_angle_offsets_vertical_16 :: "u16 list" where
  "artpro_angle_offsets_vertical_16 = [
     0, 4, 8, 11, 15, 19, 22, 26, 30, 34, 37, 41, 45, 48, 52, 56, 59, 63, 66, 70, 74,
     77, 81, 84, 88, 91, 94, 98, 101, 104, 108, 111, 114, 117, 120, 123, 126, 129, 132,
     135, 138, 141, 144, 147, 149, 152, 155, 157, 160, 162, 165, 167, 170, 172, 174,
     176, 178, 180, 182, 184, 186, 188, 190, 192, 193, 195, 197, 198, 199, 201, 202,
     203, 205, 206, 207, 208, 209, 210, 210, 211, 212, 212, 213, 214, 214, 214, 215,
     215, 215, 215, 215, 215, 215, 215, 215, 214, 214, 214, 213, 212, 212, 211, 210,
     210, 209, 208, 207, 206, 205, 203, 202, 201, 199, 198, 197, 195, 193, 192, 190,
     188, 186, 184, 182, 180, 178, 176, 174, 172]"

definition artpro_angle_offsets_horizontal_19 :: "u16 list" where
  "artpro_angle_offsets_horizontal_19 = [
     0, 2, 4, 6, 8, 10, 12, 14, 16, 18, 20, 22, 24, 25, 27, 29, 31, 33, 35, 37, 39, 41,
     42, 44, 46, 48, 50, 51, 53, 55, 57, 58, 60, 62, 63, 65, 67, 68, 70, 71, 73, 74, 76,
     77, 79, 80, 82, 83, 84, 86, 87, 88, 89, 90, 92, 93, 94, 95, 96, 97, 98, 99, 100,
     101, 102, 103, 104, 104, 105, 106, 106, 107, 108, 108, 109, 109, 110, 110, 111,
     111, 112, 112, 112, 112, 113, 113, 113, 113, 113, 113, 113, 113, 113, 113, 113,
     113, 113, 112, 112, 112, 112, 111, 111, 110, 110, 109, 109, 108, 108, 107, 106,
     106, 105, 104, 104, 103, 102, 101, 100, 99, 98, 97, 96, 95, 94, 93, 92, 90]"

definition artpro_angle_offsets_vertical_19 :: "u16 list" where
  "artpro_angle_offsets_vertical_19 = [
     0, 4, 7, 11, 14, 18, 21, 25, 28, 32, 35, 38, 42, 45, 49, 52, 56, 59, 62, 66, 69, 72,
     75, 79, 82, 85, 88, 91, 95, 98, 101, 104, 107, 110, 113, 116, 118, 121, 124, 127,
     129, 132, 135, 137, 140, 142, 145, 147, 150, 152, 154, 157, 159, 161, 163, 165, 167,
     169, 171, 173, 174, 176, 178, 179, 181, 183, 184, 185, 187, 188, 189, 190, 192, 193,
     194, 195, 195, 196, 197, 198, 198, 199, 199, 200, 200, 201, 201, 201, 201, 201, 201,
     201, 201, 201, 201, 201, 200, 200, 199, 199, 198, 198, 197, 196, 195, 195, 194, 193,
     192, 190, 189, 188, 187, 185, 184, 183, 181, 179, 178, 176, 174, 173, 171, 169, 167,
     165, 163, 161]"


definition artpro_compensate :: "u8 list \<Rightarrow> nat \<Rightarrow> 8 word \<Rightarrow> u16 list \<Rightarrow> u8 list option" where
  "artpro_compensate data idx tilt compensation_table = do {
     hi \<leftarrow> rd data (idx + 1);
     lo \<leftarrow> rd data idx;
     let coords = push_bit 8 (ucast hi :: u16) + ucast lo;
     let direction = (if 0 <s tilt then 0 else 1 :: u8);
     let angle = (if 0 <s tilt then tilt else - tilt);
     if angle > 127 then Some data
     else do {
       let compensation = compensation_table ! unat angle;
       let coords =
         (if direction = 0 then (if coords > compensation then coords - compensation else 0)
          else (let max = 32767 - compensation in if coords < max then coords + compensation else 32767));
       data \<leftarrow> wr data idx (ucast (coords AND 0xff));
       wr data (idx + 1) (ucast (drop_bit 8 coords)) } }"

text \<open>\<open>xppen_16_fix_angle_offset\<close>: the table of each axis depends on the product.\<close>

definition artpro_fix_angle_offset :: "unit program" where
  "artpro_fix_angle_offset s c data = (case data of None \<Rightarrow> Some (s, [], 0) | Some d \<Rightarrow> do {
     tilt_x \<leftarrow> rd d 8;
     tilt_y \<leftarrow> rd d 9;
     d' \<leftarrow>
       (if hdev_product (ctx_hid c) = artpro_PID_ARTIST_PRO14_GEN2 then do {
          x \<leftarrow> artpro_compensate d 2 tilt_x artpro_angle_offsets_horizontal_14;
          artpro_compensate x 4 tilt_y artpro_angle_offsets_vertical_14 }
        else if hdev_product (ctx_hid c) = artpro_PID_ARTIST_PRO16_GEN2 then do {
          x \<leftarrow> artpro_compensate d 2 tilt_x artpro_angle_offsets_horizontal_16;
          artpro_compensate x 4 tilt_y artpro_angle_offsets_vertical_16 }
        else if hdev_product (ctx_hid c) = artpro_PID_ARTIST_PRO19_GEN2 then do {
          x \<leftarrow> artpro_compensate d 2 tilt_x artpro_angle_offsets_horizontal_19;
          artpro_compensate x 4 tilt_y artpro_angle_offsets_vertical_19 }
        else Some d);
     Some (s, d', 0) })"

definition artpro_fix_eraser :: "unit program" where
  "artpro_fix_eraser s c data = (case data of None \<Rightarrow> Some (s, [], 0) | Some d \<Rightarrow> do {
     d1 \<leftarrow> rd d 1;
     if d1 AND 0x29 \<noteq> 0x29 then Some (s, d, 0)
     else do {
       d' \<leftarrow> wr d 1 (d1 XOR 0x19);
       Some (s, d', 0) } })"

text \<open>The handler runs both steps on the same window, the second one only if the first returns 0.\<close>

definition artpro_device_event :: "unit program" where
  "artpro_device_event s c data = do {
     (s1, d1, ret) \<leftarrow> artpro_fix_angle_offset s c data;
     if ret \<noteq> 0 then Some (s1, d1, ret)
     else artpro_fix_eraser s1 c (map_option (\<lambda>_. d1) data) }"

lemma artpro_compensate_total:
  "idx + 1 < length d \<Longrightarrow> \<exists>d'. artpro_compensate d idx t tab = Some d' \<and> length d' = length d"
  by (auto simp: artpro_compensate_def Let_def)

lemma artpro_axes_total:
  assumes "length d = 10"
  shows "\<exists>d'. (artpro_compensate d 2 tx t1 \<bind> (\<lambda>x. artpro_compensate x 4 ty t2)) = Some d' \<and> length d' = 10"
proof -
  obtain d1 where 1: "artpro_compensate d 2 tx t1 = Some d1" "length d1 = 10"
    using assms artpro_compensate_total [of 2 d tx t1] by auto
  obtain d2 where "artpro_compensate d1 4 ty t2 = Some d2" "length d2 = 10"
    using 1 artpro_compensate_total [of 4 d1 ty t2] by auto
  with 1 show ?thesis by simp
qed

lemma artpro_fix_angle_offset_total:
  assumes "length d = 10"
  shows "\<exists>d'. artpro_fix_angle_offset s c (Some d) = Some (s, d', 0) \<and> length d' = 10"
proof -
  have bind: "\<exists>d'. (m \<bind> (\<lambda>d'. Some (s, d', 0 :: int))) = Some (s, d', 0) \<and> length d' = 10"
    if "\<exists>d'. m = Some d' \<and> length d' = 10" for m :: "u8 list option"
    using that by auto
  show ?thesis
    unfolding artpro_fix_angle_offset_def option.case
    using assms by (simp only: rd_in [of 8] rd_in [of 9] bind.bind_lunit)
      (intro bind, auto simp: artpro_axes_total)
qed

interpretation artpro_events: hid_program artpro_device_event 10
proof
  show "artpro_device_event s c None = Some (s, [], 0)" for s c
    by (simp add: artpro_device_event_def artpro_fix_angle_offset_def artpro_fix_eraser_def)
  show "\<exists>s' d' r. artpro_device_event s c (Some d) = Some (s', d', r) \<and> length d' = 10 \<and> r \<le> int 10"
    if d: "length d = 10" for d s c
    using artpro_fix_angle_offset_total [OF d, of s c]
    by (auto simp: artpro_device_event_def artpro_fix_eraser_def)
qed

definition artpro_probe :: "hid_bpf_probe_args \<Rightarrow> hid_bpf_probe_args \<times> int" where
  "artpro_probe a =
     (let retval = (if pa_rdesc_size a \<noteq> 113 then 1 else 0);
          retval = (if retval \<noteq> 0 then - EINVAL else retval);
          retval = (if pa_rdesc a ! 17 \<noteq> 0x45 then - EINVAL else retval)
      in (a\<lparr>pa_retval := retval\<rparr>, 0))"

section \<open>The 0030 program\<close>

text \<open>
  \<open>0030-XPPen__ArtistPro16Gen2.bpf.c\<close> differs from 0020 in one thing: its descriptor keeps the tilt
  range of the device.
\<close>


definition artpro30_fixed_rdesc :: "u8 list" where
  "artpro30_fixed_rdesc = [
     0x05, 0x0d,
     0x09, 0x02,
     0xa1, 0x01,
     0x85, 0x07,
     0x09, 0x20,
     0xa1, 0x00,
     0x09, 0x42,
     0x09, 0x44,
     0x09, 0x5a,
     0x09, 0x3c,
     0x09, 0x45,
     0x15, 0x00,
     0x25, 0x01,
     0x75, 0x01,
     0x95, 0x05,
     0x81, 0x02,
     0x09, 0x32,
     0x15, 0x00,
     0x25, 0x01,
     0x95, 0x01,
     0x81, 0x02,
     0x95, 0x02,
     0x81, 0x03,
     0x75, 0x10,
     0x95, 0x01,
     0x35, 0x00,
     0xa4,
     0x05, 0x01,
     0x09, 0x30,
     0x65, 0x13,
     0x55, 0x0d,
     0x46, 0xff, 0x34,
     0x26, 0xff, 0x7f,
     0x81, 0x02,
     0x09, 0x31,
     0x46, 0x20, 0x21,
     0x26, 0xff, 0x7f,
     0x81, 0x02,
     0xb4,
     0x09, 0x30,
     0x45, 0x00,
     0x26, 0xff, 0x3f,
     0x81, 0x42,
     0x09, 0x3d,
     0x15, 0x81,
     0x25, 0x7f,
     0x75, 0x08,
     0x95, 0x01,
     0x81, 0x02,
     0x09, 0x3e,
     0x15, 0x81,
     0x25, 0x7f,
     0x81, 0x02,
     0xc0,
     0xc0]"

lemma length_artpro30_fixed_rdesc [simp]: "length artpro30_fixed_rdesc = 111"
  by code_simp

lemma artpro30_fixed_rdesc_declares [rdesc_facts]:
  "rdesc_declares artpro30_fixed_rdesc [(7, 10)]"
  by code_simp

section \<open>What reports deliver: tilt compensation and eraser\<close>

text \<open>
  The compensation on integers: away from a positive tilt and towards a negative one, clamped to the
  declared range; a tilt of -128 is not compensated.
\<close>

definition artpro_shift :: "int \<Rightarrow> int \<Rightarrow> u16 list \<Rightarrow> int" where
  "artpro_shift x tilt tab =
     (if tilt = - 128 then x
      else if 0 < tilt then max 0 (x - uint (tab ! nat tilt))
      else min 32767 (x + uint (tab ! nat (- tilt))))"

lemma le16_sum: "push_bit 8 (ucast hi :: u16) + ucast lo = le16 lo hi"
  by (rule word_unat_eq_iff [THEN iffD2])
    (use unsigned_less [of lo, where ?'a = nat] unsigned_less [of hi, where ?'a = nat] in
      \<open>simp add: unat_le16 push_bit_eq_mult unat_word_ariths unsigned_ucast_eq take_bit_eq_mod\<close>)

text \<open>The same on the 16-bit words of the code.\<close>

definition artpro_axis :: "u16 \<Rightarrow> u8 \<Rightarrow> u16 list \<Rightarrow> u16" where
  "artpro_axis coords tilt tab =
     (let angle = (if 0 <s tilt then tilt else - tilt);
          compensation = tab ! unat angle
      in if angle > 127 then coords
         else if 0 <s tilt then (if coords > compensation then coords - compensation else 0)
         else if coords < 32767 - compensation then coords + compensation else 32767)"

lemma artpro_compensate_eq:
  assumes "idx + 1 < length d"
  shows "artpro_compensate d idx tilt tab =
    (let w = artpro_axis (le16 (d ! idx) (d ! (idx + 1))) tilt tab in Some (d[idx := byte_of 0 w, idx + 1 := byte_of 1 w]))"
proof -
  have byte: "ucast (w AND 0xff) = byte_of 0 w" "ucast (drop_bit 8 w) = byte_of 1 w" for w :: u16
  proof -
    have "(ucast (w AND 0xff) :: u8) = ucast w"
      by (rule bit_word_eqI) (auto simp: bit_ucast_iff bit_and_iff less_8_cases)
    then show "ucast (w AND 0xff) = byte_of 0 w" by (simp add: byte_of_def)
  qed (simp add: byte_of_def)
  show ?thesis
    using assms by (auto simp: artpro_compensate_def artpro_axis_def Let_def le16_sum byte byte_of_le16 byte_of_le16 [unfolded One_nat_def])
qed

lemma uint_artpro_axis:
  assumes "length tab = 128" and "\<And>c. c \<in> set tab \<Longrightarrow> uint c < 32767"
  shows "uint (artpro_axis x tilt tab) = artpro_shift (uint x) (sint tilt) tab"
proof -
  have x: "0 \<le> uint x" "uint x < 65536" using uint_lt2p [of x] by simp_all
  have t: "0 \<le> uint tilt" "uint tilt < 256" using uint_lt2p [of tilt] by simp_all
  have tz: "tilt \<noteq> 0 \<Longrightarrow> 0 < uint tilt" using t uint_0_iff [of tilt] by linarith
  have pos: "0 <s tilt \<longleftrightarrow> 0 < sint tilt" by (simp add: word_sless_alt)
  have neg: "uint (- tilt) = (if tilt = 0 then 0 else 256 - uint tilt)"
    using t by (simp add: uint_word_ariths zmod_zminus1_eq_if uint_0_iff)
  define angle where "angle = (if 0 <s tilt then tilt else - tilt)"
  have angle: "uint angle = (if sint tilt = - 128 then 128 else \<bar>sint tilt\<bar>)"
    using t tz neg unfolding angle_def pos sint_u8 by (auto simp: uint_0_iff split: if_splits)
  have big: "angle > 127 \<longleftrightarrow> sint tilt = - 128"
    using angle t by (auto simp: word_less_alt sint_u8 split: if_splits)
  show ?thesis
  proof (cases "sint tilt = - 128")
    case True
    then show ?thesis
      using big unfolding angle_def by (simp add: artpro_axis_def artpro_shift_def Let_def pos)
  next
    case False
    define c where "c = tab ! unat angle"
    have ua: "unat angle = nat \<bar>sint tilt\<bar>" using angle False by (simp add: unat_eq_nat_uint)
    have "\<bar>sint tilt\<bar> < 128" using t False by (auto simp: sint_u8 split: if_splits)
    with ua have "unat angle < 128" by simp
    then have c: "0 \<le> uint c" "uint c < 32767" unfolding c_def using assms by simp_all
    have "uint c < uint x \<Longrightarrow> (uint x - uint c) mod 65536 = uint x - uint c"
      using c x by (intro mod_pos_pos_trivial) linarith+
    then have sub: "c < x \<Longrightarrow> uint (x - c) = uint x - uint c"
      by (simp add: uint_word_ariths word_less_alt)
    have "(32767 - uint c) mod 65536 = 32767 - uint c"
      using c by (intro mod_pos_pos_trivial) linarith+
    then have lim: "uint (32767 - c) = 32767 - uint c"
      by (simp add: uint_word_ariths)
    have add: "x < 32767 - c \<Longrightarrow> uint (x + c) = uint x + uint c"
      using c x lim by (simp add: uint_word_ariths word_less_alt)
    have axis: "artpro_axis x tilt tab = (if 0 < sint tilt then (if x > c then x - c else 0)
        else if x < 32767 - c then x + c else 32767)"
      unfolding artpro_axis_def Let_def angle_def [symmetric] c_def [symmetric] using big False by (simp add: pos)
    show ?thesis
    proof (cases "0 < sint tilt")
      case True
      then have "tab ! nat (sint tilt) = c" using ua by (simp add: c_def)
      with True sub x c show ?thesis
        by (auto simp: axis artpro_shift_def word_less_alt max_def)
    next
      case neg: False
      then have "tab ! nat (- sint tilt) = c" using ua by (simp add: c_def)
      with neg False add lim x c show ?thesis
        by (auto simp: axis artpro_shift_def word_less_alt min_def)
    qed
  qed
qed

definition artpro_tables :: "u32 \<Rightarrow> (u16 list \<times> u16 list) option" where
  "artpro_tables product =
     (if product = artpro_PID_ARTIST_PRO14_GEN2
      then Some (artpro_angle_offsets_horizontal_14, artpro_angle_offsets_vertical_14)
      else if product = artpro_PID_ARTIST_PRO16_GEN2
      then Some (artpro_angle_offsets_horizontal_16, artpro_angle_offsets_vertical_16)
      else if product = artpro_PID_ARTIST_PRO19_GEN2
      then Some (artpro_angle_offsets_horizontal_19, artpro_angle_offsets_vertical_19)
      else None)"

definition offsets_ok :: "u16 list \<Rightarrow> bool" where
  "offsets_ok tab \<longleftrightarrow> length tab = 128 \<and> list_all (\<lambda>c. uint c < 32767) tab"

lemma artpro_tables_ok: "artpro_tables product = Some (tx, ty) \<Longrightarrow> offsets_ok tx \<and> offsets_ok ty"
proof -
  have "offsets_ok artpro_angle_offsets_horizontal_14" "offsets_ok artpro_angle_offsets_vertical_14"
    "offsets_ok artpro_angle_offsets_horizontal_16" "offsets_ok artpro_angle_offsets_vertical_16"
    "offsets_ok artpro_angle_offsets_horizontal_19" "offsets_ok artpro_angle_offsets_vertical_19"
    by code_simp+
  then show "artpro_tables product = Some (tx, ty) \<Longrightarrow> offsets_ok tx \<and> offsets_ok ty"
    by (auto simp: artpro_tables_def split: if_splits)
qed

definition artpro_eraser :: "u8 \<Rightarrow> u8" where
  "artpro_eraser v = (if v AND 0x29 = 0x29 then v XOR 0x19 else v)"

lemma artpro_event:
  assumes "length rep = 10" and "artpro_tables (hdev_product hid) = Some (tx, ty)"
  defines "x \<equiv> artpro_axis (le16 (rep ! 2) (rep ! 3)) (rep ! 8) tx"
    and "y \<equiv> artpro_axis (le16 (rep ! 4) (rep ! 5)) (rep ! 9) ty"
  shows "device_event artpro_device_event 10 hid () rep = Some ((), Some
    [rep ! 0, artpro_eraser (rep ! 1), byte_of 0 x, byte_of 1 x, byte_of 0 y, byte_of 1 y, rep ! 6, rep ! 7, rep ! 8, rep ! 9])"
proof -
  let ?out = "[rep ! 0, artpro_eraser (rep ! 1), byte_of 0 x, byte_of 1 x, byte_of 0 y, byte_of 1 y, rep ! 6, rep ! 7, rep ! 8, rep ! 9]"
  have d: "take 10 (report_buffer rep) = rep"
    using assms(1) take_report_buffer [of rep 10] by simp
  have "rep = map ((!) rep) [0..<10]"
    using assms(1) map_nth [of rep] by simp
  then obtain r0 r1 r2 r3 r4 r5 r6 r7 r8 r9 where r: "rep = [r0, r1, r2, r3, r4, r5, r6, r7, r8, r9]"
    by (simp add: upt_rec)
  have "artpro_fix_angle_offset () \<lparr>ctx_hid = hid, ctx_size = int (length rep)\<rparr> (Some rep) =
      Some ((), [r0, r1, byte_of 0 x, byte_of 1 x, byte_of 0 y, byte_of 1 y, r6, r7, r8, r9], 0)"
    using assms(2) unfolding x_def y_def r
    by (auto simp: artpro_fix_angle_offset_def artpro_tables_def artpro_compensate_eq Let_def split: if_splits)
  then have "artpro_device_event () \<lparr>ctx_hid = hid, ctx_size = int (length rep)\<rparr> (Some rep) = Some ((), ?out, 0)"
    unfolding artpro_device_event_def by (simp add: artpro_fix_eraser_def artpro_eraser_def) (simp add: r)
  then show ?thesis
    using assms(1) device_event_in_place [of 10 rep ?out artpro_device_event "()" hid "()"] d by simp
qed

lemma bit_artpro_eraser:
  assumes "k < 8"
  shows "bit (artpro_eraser v) k \<longleftrightarrow>
    (if bit v 0 \<and> bit v 3 \<and> bit v 5 \<and> (k = 0 \<or> k = 3 \<or> k = 4) then \<not> bit v k else bit v k)"
proof -
  have "v AND 0x29 = 0x29 \<longleftrightarrow> (\<forall>k < 8. bit (v AND 0x29) k = bit (0x29 :: u8) k)"
    using u8_cases_bit [of "v AND 0x29" "0x29"] by simp
  then have cond: "v AND 0x29 = 0x29 \<longleftrightarrow> bit v 0 \<and> bit v 3 \<and> bit v 5"
    by (auto simp: less_8_cases bit_and_iff all_conj_distrib)
  show ?thesis
    using assms unfolding less_8_cases artpro_eraser_def cond
    by (elim disjE) (simp_all add: bit_xor_iff)
qed

lemma artpro_fixed_rdesc_layout_7:
  "rdesc_layout artpro_fixed_rdesc 7 = Some [
     (0xd0042, 8, 1), (0xd0044, 9, 1), (0xd005a, 10, 1), (0xd003c, 11, 1), (0xd0045, 12, 1), (0xd0032, 13, 1),
     (0x10030, 16, 16), (0x10031, 32, 16), (0xd0030, 48, 16), (0xd003d, 64, 8), (0xd003e, 72, 8)]"
  by code_simp

text \<open>
  C11: A pen report of an Artist Pro 14, 16 or 19, read through the descriptor the program installs, has
  X and Y moved against the tilt by the product's table and clamped to 0..32767 (a tilt of -128 is left
  alone), unchanged pressure and tilts, and, when the device reports tip, invert and in-range together,
  the eraser instead of tip and invert.
\<close>

theorem artpro_tilt_compensation:
  assumes "length rep = 10" and "rep ! 0 = 7" and "artpro_tables (hdev_product hid) = Some (tx, ty)"
  shows "\<exists>out. device_event artpro_device_event 10 hid () rep = Some ((), Some out)
    \<and> usage_value artpro_fixed_rdesc out 0x10030
        = Some (artpro_shift (uint (le16 (rep ! 2) (rep ! 3))) (sint (rep ! 8)) tx)
    \<and> usage_value artpro_fixed_rdesc out 0x10031
        = Some (artpro_shift (uint (le16 (rep ! 4) (rep ! 5))) (sint (rep ! 9)) ty)
    \<and> usage_value artpro_fixed_rdesc out 0xd0030 = Some (uint (le16 (rep ! 6) (rep ! 7)))
    \<and> usage_value artpro_fixed_rdesc out 0xd003d = Some (uint (rep ! 8))
    \<and> usage_value artpro_fixed_rdesc out 0xd003e = Some (uint (rep ! 9))
    \<and> (let inverted = bit (rep ! 1) 0 \<and> bit (rep ! 1) 3 \<and> bit (rep ! 1) 5 in
         usage_value artpro_fixed_rdesc out 0xd0042 = Some (of_bool (bit (rep ! 1) 0 \<and> \<not> inverted))
       \<and> usage_value artpro_fixed_rdesc out 0xd003c = Some (of_bool (bit (rep ! 1) 3 \<and> \<not> inverted))
       \<and> usage_value artpro_fixed_rdesc out 0xd0045 = Some (of_bool (bit (rep ! 1) 4 \<noteq> inverted))
       \<and> usage_value artpro_fixed_rdesc out 0xd0032 = Some (of_bool (bit (rep ! 1) 5)))"
proof -
  let ?x = "artpro_axis (le16 (rep ! 2) (rep ! 3)) (rep ! 8) tx"
  let ?y = "artpro_axis (le16 (rep ! 4) (rep ! 5)) (rep ! 9) ty"
  define out where "out = [rep ! 0, artpro_eraser (rep ! 1), byte_of 0 ?x, byte_of 1 ?x, byte_of 0 ?y, byte_of 1 ?y,
    rep ! 6, rep ! 7, rep ! 8, rep ! 9]"
  have ok: "length tx = 128" "length ty = 128"
      "\<And>c. c \<in> set tx \<Longrightarrow> uint c < 32767" "\<And>c. c \<in> set ty \<Longrightarrow> uint c < 32767"
    using artpro_tables_ok [OF assms(3)] by (auto simp: offsets_ok_def list_all_iff)
  have words: "read_bits out 16 16 = uint ?x" "read_bits out 32 16 = uint ?y"
      "read_bits out 48 16 = uint (le16 (rep ! 6) (rep ! 7))"
    using read_le16 [of 2 out] read_le16 [of 4 out] read_le16 [of 6 out]
    by (simp_all add: out_def le16_bytes [unfolded One_nat_def])
  have bytes: "read_bits out 64 8 = uint (rep ! 8)" "read_bits out 72 8 = uint (rep ! 9)"
    using read_byte [of 8 out] read_byte [of 9 out] by (simp_all add: out_def)
  have bits: "read_bits out 8 1 = of_bool (bit (artpro_eraser (rep ! 1)) 0)"
      "read_bits out 11 1 = of_bool (bit (artpro_eraser (rep ! 1)) 3)"
      "read_bits out 12 1 = of_bool (bit (artpro_eraser (rep ! 1)) 4)"
      "read_bits out 13 1 = of_bool (bit (artpro_eraser (rep ! 1)) 5)"
    using read_bit [of 0 1 out] read_bit [of 3 1 out] read_bit [of 4 1 out] read_bit [of 5 1 out]
    by (simp_all add: out_def)
  have usages: "usage_value artpro_fixed_rdesc out u =
      (case usage_slot artpro_fixed_rdesc 7 u of None \<Rightarrow> None | Some (off, n) \<Rightarrow> Some (read_bits out (nat off) (nat n)))" for u
    using assms(2) by (simp add: usage_value_def out_def split: option.split)
  have ev: "device_event artpro_device_event 10 hid () rep = Some ((), Some out)"
    unfolding out_def by (rule artpro_event [OF assms(1,3)])
  show ?thesis
    by (intro exI [of _ out])
      (simp add: ev usages usage_slot_def artpro_fixed_rdesc_layout_7 words bytes bits [unfolded One_nat_def]
        uint_artpro_axis [OF ok(1,3)] uint_artpro_axis [OF ok(2,4)] bit_artpro_eraser Let_def)
qed

theorem artpro_tilt_compensation_witness:
  "\<exists>out. device_event artpro_device_event 10
        \<lparr>hdev_id = 1, hdev_bus = 3, hdev_product = artpro_PID_ARTIST_PRO16_GEN2, hdev_name = []\<rparr> ()
        [7, 0x21, 10, 0, 0xff, 0x7f, 0, 4, 60, 0xc4] = Some ((), Some out)
     \<and> usage_value artpro_fixed_rdesc out 0x10030 = Some 0
     \<and> usage_value artpro_fixed_rdesc out 0x10031 = Some 32767"
proof -
  let ?rep = "[7, 0x21, 10, 0, 0xff, 0x7f, 0, 4, 60, 0xc4] :: u8 list"
  let ?hid = "\<lparr>hdev_id = 1, hdev_bus = 3, hdev_product = artpro_PID_ARTIST_PRO16_GEN2, hdev_name = []\<rparr> :: hid_device"
  have tabs: "artpro_tables (hdev_product ?hid) = Some (artpro_angle_offsets_horizontal_16, artpro_angle_offsets_vertical_16)"
    by (simp add: artpro_tables_def)
  have "artpro_shift (uint (le16 (?rep ! 2) (?rep ! 3))) (sint (?rep ! 8)) artpro_angle_offsets_horizontal_16 = 0"
    "artpro_shift (uint (le16 (?rep ! 4) (?rep ! 5))) (sint (?rep ! 9)) artpro_angle_offsets_vertical_16 = 32767"
    by code_simp+
  moreover have "length ?rep = 10" "?rep ! 0 = 7" by simp_all
  ultimately show ?thesis
    using artpro_tilt_compensation [of ?rep ?hid, OF _ _ tabs] by auto
qed

text \<open>
  The fixup of the Artist Pro program gives every model a well-formed descriptor of ten-byte pen
  reports whose physical size is the one of the model's screen (in the units the descriptor declares:
  11874 x 7421 for the 14, 16101 x 9057 for the 19, 13567 x 8480 otherwise).
\<close>

theorem artpro_physical_size:
  assumes "length rdesc \<le> 4096"
  shows "\<exists>new. rdesc_fixup artpro_fix_rdesc hid () rdesc = Some ((), Some new)
    \<and> rdesc_declares new [(7, 10)]
    \<and> (usage_pmax new 7 0x10030, usage_pmax new 7 0x10031)
       = (if hdev_product hid = artpro_PID_ARTIST_PRO14_GEN2 then (Some 11874, Some 7421)
          else if hdev_product hid = artpro_PID_ARTIST_PRO19_GEN2 then (Some 16101, Some 9057)
          else (Some 13567, Some 8480))"
proof -
  let ?p14 = "artpro_fixed_rdesc[63 := 0x2e, 62 := 0x62, 73 := 0x1c, 72 := 0xfd]"
  let ?p19 = "artpro_fixed_rdesc[63 := 0x3e, 62 := 0xe5, 73 := 0x23, 72 := 0x61]"
  have "rdesc_declares ?p14 [(7, 10)] \<and> usage_pmax ?p14 7 0x10030 = Some 11874 \<and> usage_pmax ?p14 7 0x10031 = Some 7421"
    "rdesc_declares ?p19 [(7, 10)] \<and> usage_pmax ?p19 7 0x10030 = Some 16101 \<and> usage_pmax ?p19 7 0x10031 = Some 9057"
    "rdesc_declares artpro_fixed_rdesc [(7, 10)] \<and> usage_pmax artpro_fixed_rdesc 7 0x10030 = Some 13567
      \<and> usage_pmax artpro_fixed_rdesc 7 0x10031 = Some 8480"
    by code_simp+
  then show ?thesis
    by (simp add: artpro_fixup.fixup_result [OF assms] artpro_new_rdesc_def)
qed

theorem artpro_physical_size_witness:
  "\<exists>new. rdesc_fixup artpro_fix_rdesc
      \<lparr>hdev_id = 1, hdev_bus = 3, hdev_product = artpro_PID_ARTIST_PRO19_GEN2, hdev_name = []\<rparr> () (replicate 113 0)
     = Some ((), Some new) \<and> usage_pmax new 7 0x10030 = Some 16101"
  using artpro_physical_size [of "replicate 113 0"
      "\<lparr>hdev_id = 1, hdev_bus = 3, hdev_product = artpro_PID_ARTIST_PRO19_GEN2, hdev_name = []\<rparr>"] by auto

section \<open>The filter of the Artist 24 over a history\<close>

definition artist24_dropped :: "u8 \<Rightarrow> u8 \<Rightarrow> bool" where
  "artist24_dropped p b \<longleftrightarrow>
     (if bit b 5 then bit p 0 \<noteq> bit b 0 \<and> bit p 2 \<noteq> bit b 2 else bit p 0)"

text \<open>The button byte of the last report in range.\<close>

fun last_in_range :: "u8 \<Rightarrow> u8 list \<Rightarrow> u8" where
  "last_in_range p [] = p"
| "last_in_range p (b # bs) = last_in_range (if bit b 5 then b else p) bs"

lemma artist24_masks:
  "(w AND artist24_TIP_SWITCH = 0) = (\<not> bit w 0)" "(w AND artist24_IN_RANGE = 0) = (\<not> bit w 5)"
  "w AND (artist24_TIP_SWITCH OR artist24_ERASER) = (artist24_TIP_SWITCH OR artist24_ERASER) \<longleftrightarrow> bit w 0 \<and> bit w 2"
proof -
  show "(w AND artist24_TIP_SWITCH = 0) = (\<not> bit w 0)" "(w AND artist24_IN_RANGE = 0) = (\<not> bit w 5)"
    using BIT_mask_nonzero [of w 0] BIT_mask_nonzero [of w 5]
    by (auto simp: artist24_TIP_SWITCH_def artist24_IN_RANGE_def)
  have "bit (artist24_TIP_SWITCH OR artist24_ERASER) k \<longleftrightarrow> k = 0 \<or> k = 2" for k
    by (auto simp: artist24_TIP_SWITCH_def artist24_ERASER_def bit_or_iff bit_BIT)
  then show "w AND (artist24_TIP_SWITCH OR artist24_ERASER) = (artist24_TIP_SWITCH OR artist24_ERASER) \<longleftrightarrow> bit w 0 \<and> bit w 2"
    unfolding u8_cases_bit by (simp add: bit_and_iff less_8_cases all_conj_distrib disj_imp) blast
qed

lemma artist24_event:
  assumes "2 \<le> length rep" and "bit p 0 \<longrightarrow> bit p 5"
  shows "device_event artist24_fix_eraser 10 hid p rep =
    Some (if bit (rep ! 1) 5 then rep ! 1 else p, if artist24_dropped p (rep ! 1) then None else Some rep)"
proof -
  have len: "1 < length rep" using assms(1) by simp
  define d where "d = take 10 (report_buffer rep)"
  have d: "length d = 10" "d ! 1 = rep ! 1"
    using len by (simp_all add: d_def length_report_buffer report_buffer_nth)
  have run: "artist24_fix_eraser p c (Some d) = Some (if bit (rep ! 1) 5 then rep ! 1 else p, d,
      if artist24_dropped p (rep ! 1) then - 1 else 0)" for c
  proof (cases "rep ! 1 = p")
    case True
    then show ?thesis using d assms(2) by (auto simp: artist24_fix_eraser_def artist24_dropped_def)
  next
    case False
    then show ?thesis using d
      by (cases "bit (rep ! 1) 5")
        (simp_all add: artist24_fix_eraser_def Let_def artist24_masks artist24_dropped_def bit_xor_iff)
  qed
  show ?thesis
  proof (cases "artist24_dropped p (rep ! 1)")
    case True
    then show ?thesis using run unfolding d_def by (simp add: device_event_dropped [where r = "- 1"])
  next
    case False
    then show ?thesis using run unfolding d_def by (simp add: device_event_unchanged)
  qed
qed

lemma last_in_range_tip: "(bit p 0 \<longrightarrow> bit p 5) \<Longrightarrow> bit (last_in_range p bs) 0 \<longrightarrow> bit (last_in_range p bs) 5"
  by (induction bs arbitrary: p) auto

lemma artist24_events:
  "list_all (\<lambda>rep. 2 \<le> length rep) reps \<Longrightarrow> (bit p 0 \<longrightarrow> bit p 5) \<Longrightarrow>
   device_events artist24_fix_eraser 10 hid p reps = Some (last_in_range p (map (\<lambda>rep. rep ! 1) reps),
     map (\<lambda>i. if artist24_dropped (last_in_range p (map (\<lambda>rep. rep ! 1) (take i reps))) (reps ! i ! 1)
              then None else Some (reps ! i)) [0..<length reps])"
proof (induction reps arbitrary: p)
  case Nil
  then show ?case by simp
next
  case (Cons rep reps)
  have upt: "[0..<length (rep # reps)] = 0 # map Suc [0..<length reps]"
    by (simp add: upt_conv_Cons map_Suc_upt del: upt_Suc)
  show ?case
    unfolding upt using Cons.prems Cons.IH [of "if bit (rep ! 1) 5 then rep ! 1 else p"]
    by (auto simp: artist24_event)
qed

text \<open>
  C26: The Artist 24 filter as a function of the whole history: whether a report is dropped depends only
  on its button byte and on that of the last report in range, so that the early return of the code for
  an unchanged state is an optimisation. Out of range is dropped exactly when the tip was down, and in
  range exactly when tip and eraser change together; every other report is delivered unchanged.
\<close>

theorem artist24_history:
  assumes "list_all (\<lambda>rep. 2 \<le> length rep) reps" and "bit p 0 \<longrightarrow> bit p 5"
  shows "\<exists>outs. device_events artist24_fix_eraser 10 hid p reps
      = Some (last_in_range p (map (\<lambda>rep. rep ! 1) reps), outs)
    \<and> length outs = length reps
    \<and> (\<forall>i < length reps. let before = last_in_range p (map (\<lambda>rep. rep ! 1) (take i reps)); now = reps ! i ! 1 in
         outs ! i = (if (\<not> bit now 5 \<and> bit before 0) \<or>
                        (bit now 5 \<and> bit before 0 \<noteq> bit now 0 \<and> bit before 2 \<noteq> bit now 2)
                     then None else Some (reps ! i)))"
  unfolding artist24_events [OF assms] by (auto simp: Let_def artist24_dropped_def)

theorem artist24_history_witness:
  "\<exists>outs. device_events artist24_fix_eraser 10 \<lparr>hdev_id = 1, hdev_bus = 3, hdev_product = 0x93a, hdev_name = []\<rparr> 0
      [[7, 0x21], [7, 0x00]] = Some (0x21, outs) \<and> outs ! 0 = Some [7, 0x21] \<and> outs ! 1 = None"
proof -
  let ?reps = "[[7, 0x21], [7, 0x00]] :: u8 list list"
  let ?hid = "\<lparr>hdev_id = 1, hdev_bus = 3, hdev_product = 0x93a, hdev_name = []\<rparr>"
  have reps: "list_all (\<lambda>rep. 2 \<le> length rep) ?reps" "bit (0 :: u8) 0 \<longrightarrow> bit (0 :: u8) 5" by simp_all
  obtain outs where ev: "device_events artist24_fix_eraser 10 ?hid 0 ?reps = Some (0x21, outs)"
    and out: "\<forall>i < length ?reps. let before = last_in_range 0 (map (\<lambda>rep. rep ! 1) (take i ?reps)); now = ?reps ! i ! 1 in
         outs ! i = (if (\<not> bit now 5 \<and> bit before 0) \<or>
                        (bit now 5 \<and> bit before 0 \<noteq> bit now 0 \<and> bit before 2 \<noteq> bit now 2)
                     then None else Some (?reps ! i))"
    using artist24_history [OF reps, of ?hid] by (elim exE conjE) simp
  have "outs ! 0 = Some [7, 0x21]" using out [rule_format, of 0] by (simp add: Let_def)
  moreover have "outs ! 1 = None" using out [rule_format, of 1] by (simp add: Let_def)
  ultimately show ?thesis using ev by blast
qed

text \<open>
  The sequence the Artist 24 sends when its second button is pressed or released with the tip down
  (out of range, then the eraser bit changed without the tip, then the tip again) loses exactly its two
  false releases, and leaves the filter in the state of the new contact.
\<close>

theorem artist24_second_button:
  assumes "2 \<le> length r1" "2 \<le> length r2" "2 \<le> length r3"
    and "bit p 0" "bit p 5" "\<not> bit (r1 ! 1) 5"
    and "bit (r2 ! 1) 5" "\<not> bit (r2 ! 1) 0" "bit (r2 ! 1) 2 \<noteq> bit p 2"
    and "bit (r3 ! 1) 5" "bit (r3 ! 1) 0" "bit (r3 ! 1) 2 = bit (r2 ! 1) 2"
  shows "device_events artist24_fix_eraser 10 hid p [r1, r2, r3] = Some (r3 ! 1, [None, None, Some r3])"
  using assms by (simp add: artist24_event artist24_dropped_def)

theorem artist24_second_button_witness:
  "device_events artist24_fix_eraser 10 \<lparr>hdev_id = 1, hdev_bus = 3, hdev_product = 0x93a, hdev_name = []\<rparr> 0x21
     [[7, 0], [7, 0x24], [7, 0x25]] = Some (0x25, [None, None, Some [7, 0x25]])"
  using artist24_second_button [of "[7, 0]" "[7, 0x24]" "[7, 0x25]" "0x21"] by simp

end
