(* ===== verification/XPPen_ACK05.thy ===== *)
theory XPPen_ACK05
  imports Kernel_Iface Rdesc_Spec Bpf_Async
begin

unbundle bit_operations_syntax

text \<open>
  The XP-Pen ACK05 remote (\<open>0010-XPPen__ACK05.bpf.c\<close>): the descriptor it appends to the vendor
  interface, its event handler, and the asynchronous function that switches the remote to its raw mode
  when it reconnects.
\<close>


abbreviation (input) ack05_HID_BPF_ASYNC_MAX_CTX :: "'a::numeral" where "ack05_HID_BPF_ASYNC_MAX_CTX \<equiv> 1"

abbreviation (input) ack05_VID_UGEE :: "'a::numeral" where "ack05_VID_UGEE \<equiv> 0x28bd"

abbreviation (input) ack05_PID_ACK05_REMOTE :: "'a::numeral" where "ack05_PID_ACK05_REMOTE \<equiv> 0x0202"

abbreviation (input) ack05_PAD_WIRED_DESCRIPTOR_LENGTH :: "'a::numeral" where "ack05_PAD_WIRED_DESCRIPTOR_LENGTH \<equiv> 102"

abbreviation (input) ack05_PAD_DONGLE_DESCRIPTOR_LENGTH :: "'a::numeral" where "ack05_PAD_DONGLE_DESCRIPTOR_LENGTH \<equiv> 177"

abbreviation (input) ack05_STYLUS_DESCRIPTOR_LENGTH :: "'a::numeral" where "ack05_STYLUS_DESCRIPTOR_LENGTH \<equiv> 109"

abbreviation (input) ack05_VENDOR_DESCRIPTOR_LENGTH :: "'a::numeral" where "ack05_VENDOR_DESCRIPTOR_LENGTH \<equiv> 36"

abbreviation (input) ack05_PAD_REPORT_ID :: "'a::numeral" where "ack05_PAD_REPORT_ID \<equiv> 6"

abbreviation (input) ack05_RAW_PAD_REPORT_ID :: "'a::numeral" where "ack05_RAW_PAD_REPORT_ID \<equiv> 0xf0"

abbreviation (input) ack05_RAW_BATTERY_REPORT_ID :: "'a::numeral" where "ack05_RAW_BATTERY_REPORT_ID \<equiv> 0xf2"

abbreviation (input) ack05_VENDOR_REPORT_ID :: "'a::numeral" where "ack05_VENDOR_REPORT_ID \<equiv> 2"

abbreviation (input) ack05_PAD_REPORT_LENGTH :: "'a::numeral" where "ack05_PAD_REPORT_LENGTH \<equiv> 8"

abbreviation (input) ack05_VENDOR_REPORT_LENGTH :: "'a::numeral" where "ack05_VENDOR_REPORT_LENGTH \<equiv> 12"

text \<open>
  The globals of the program: the key of the asynchronous function and the slots of
  \<open>hid_bpf_async.h\<close> (one, \<open>HID_BPF_ASYNC_MAX_CTX\<close>), and the name \<open>hid_set_name\<close> last gave the device.
  \<open>last_button_state\<close> is never read.
\<close>

record 'k ack05_state =
  ack05_last_button_state :: u16
  ack05_key :: int
  ack05_async :: "'k async_world"
  ack05_hid_name :: "string option"

text \<open>The only work queue callback of the program, \<open>____switch_to_raw_mode_cb\<close>.\<close>

datatype ack05_callback = Switch_to_raw_mode_cb

definition ack05_init :: "'k \<Rightarrow> 'k ack05_state" where
  "ack05_init k = \<lparr>ack05_last_button_state = 0, ack05_key = 0,
     ack05_async = async_boot ack05_HID_BPF_ASYNC_MAX_CTX k, ack05_hid_name = None\<rparr>"

definition ack05_disabled_rdesc_ini :: initializer where
  "ack05_disabled_rdesc_ini = concat [
     FixedSizeVendorReport ack05_VENDOR_REPORT_LENGTH]"

definition ack05_disabled_rdesc :: "u8 list" where
  "ack05_disabled_rdesc = bytes ack05_disabled_rdesc_ini"

definition ack05_fixed_rdesc_vendor_ini :: initializer where
  "ack05_fixed_rdesc_vendor_ini = concat [
     UsagePage_GenericDesktop,
     Usage_GD_Keypad,
     CollectionApplication (concat [
       ReportId ack05_RAW_PAD_REPORT_ID,
       ReportCount 1,
       ReportSize 8,
       Input Const,
       LogicalMaximum_i8 0,
       LogicalMaximum_i8 1,
       UsagePage_Digitizers,
       Usage_Dig_TabletFunctionKeys,
       CollectionPhysical (concat [
         UsagePage_Button,
         UsageMinimum_i8 0x01,
         UsageMaximum_i8 0x0a,
         LogicalMinimum_i8 0x0,
         LogicalMaximum_i8 0x1,
         ReportCount 10,
         ReportSize 1,
         Input (Var OR Abs),
         Usage_i8 0x31,
         ReportCount 1,
         Input (Var OR Abs),
         ReportCount 5,
         Input Const,
         UsagePage_Digitizers,
         Usage_Dig_BarrelSwitch,
         ReportCount 1,
         ReportSize 1,
         Input (Var OR Abs),
         ReportCount 7,
         Input Const,
         UsagePage_GenericDesktop,
         Usage_GD_X,
         Usage_GD_Y,
         ReportCount 2,
         ReportSize 8,
         Input (Var OR Abs),
         Usage_GD_Wheel,
         LogicalMinimum_i8 (- 1),
         LogicalMaximum_i8 1,
         ReportCount 1,
         ReportSize 8,
         Input (Var OR Rel)]),
       ReportId ack05_RAW_BATTERY_REPORT_ID,
       ReportCount 1,
       ReportSize 8,
       Input Const,
       Input Const,
       UsagePage_Digitizers,
       Usage_Dig_Stylus,
       CollectionPhysical (concat [
         UsagePage_BatterySystem,
         Usage_BS_AbsoluteStateOfCharge,
         LogicalMinimum_i8 0,
         LogicalMaximum_i8 100,
         ReportCount 1,
         ReportSize 8,
         Input (Var OR Abs),
         Usage_BS_Charging,
         LogicalMinimum_i8 0,
         LogicalMaximum_i8 1,
         ReportCount 1,
         ReportSize 8,
         Input (Var OR Abs)])])]"

definition ack05_fixed_rdesc_vendor :: "u8 list" where
  "ack05_fixed_rdesc_vendor = bytes ack05_fixed_rdesc_vendor_ini"

lemma length_ack05_disabled_rdesc [simp]: "length ack05_disabled_rdesc = 16"
  by code_simp

lemma ack05_disabled_rdesc_declares [rdesc_facts]:
  "static_ok ack05_disabled_rdesc_ini \<and> rdesc_declares ack05_disabled_rdesc [(172, 12)]"
  by code_simp

lemma length_ack05_fixed_rdesc_vendor [simp]: "length ack05_fixed_rdesc_vendor = 133"
  by code_simp

lemma ack05_fixed_rdesc_vendor_declares [rdesc_facts]:
  "static_ok ack05_fixed_rdesc_vendor_ini \<and> rdesc_declares ack05_fixed_rdesc_vendor [(240, 8), (242, 5)]"
  by code_simp

definition ack05_fix_rdesc :: "'k ack05_state program" where
  "ack05_fix_rdesc s c data = (case data of None \<Rightarrow> Some (s, [], 0) | Some d \<Rightarrow>
     let rdesc_size = ctx_size c in
     if rdesc_size = ack05_VENDOR_DESCRIPTOR_LENGTH then do {
       d1 \<leftarrow> memcpy d (nat rdesc_size) ack05_fixed_rdesc_vendor;
       Some (s, d1, int (length ack05_fixed_rdesc_vendor) + rdesc_size) }
     else do {
       let s1 = s\<lparr>ack05_hid_name := Some ''Disabled by HID-BPF Hanvon Ugee Shortcut Remote''\<rparr>;
       d1 \<leftarrow> memcpy d 0 ack05_disabled_rdesc;
       Some (s1, d1, int (length ack05_disabled_rdesc)) })"

interpretation ack05_fixup: hid_program ack05_fix_rdesc 4096
  by unfold_locales (auto simp: ack05_fix_rdesc_def Let_def)

text \<open>The 32 bytes that switch the remote to raw mode.\<close>

definition ack05_magic_0 :: "u8 list" where
  "ack05_magic_0 = [0x02, 0xb0, 0x04, 0x00, 0x00] @ replicate 27 0"

text \<open>
  \<open>output_report\<close> stands for the kernel's \<open>hid_bpf_hw_output_report\<close> on a context.
\<close>

type_synonym 'k output_report = "hid_device \<Rightarrow> u8 list \<Rightarrow> 'k \<Rightarrow> 'k \<times> int"

definition ack05_switch_to_raw_mode ::
    "'k output_report \<Rightarrow> hid_device \<Rightarrow> 'k async_world \<Rightarrow> 'k async_world \<times> int" where
  "ack05_switch_to_raw_mode output_report hid w =
     (let (w, err) = kcall (output_report hid ack05_magic_0) w in
      if err < 0 then (w, err) else (w, 0))"

text \<open>The work queue callback around it, with the result dropped.\<close>

definition ack05_switch_to_raw_mode_cb ::
    "'k output_report \<Rightarrow> (u32 \<Rightarrow> hid_device option) \<Rightarrow> nat \<Rightarrow> 'k async_world \<Rightarrow> 'k async_world \<times> int" where
  "ack05_switch_to_raw_mode_cb output_report alloc =
     hid_bpf_async_cb alloc (\<lambda>hid i w. fst (ack05_switch_to_raw_mode output_report hid w))"

definition ack05_fix_events :: "('k, ack05_callback) async_kernel \<Rightarrow> 'k ack05_state program" where
  "ack05_fix_events K s c data = (case data of None \<Rightarrow> Some (s, [], 0) | Some d \<Rightarrow> do {
     d0 \<leftarrow> rd d 0;
     if d0 \<noteq> ack05_VENDOR_REPORT_ID then Some (s, d, 0)
     else do {
       d1 \<leftarrow> rd d 1; d2 \<leftarrow> rd d 2; d3 \<leftarrow> rd d 3;
       let s1 = (if d1 = 0xf8 \<and> d2 = 0x02 \<and> d3 = 0x01
         then s\<lparr>ack05_async := fst (hid_bpf_async_delayed_call K (ctx_hid c) 10 (ack05_key s)
                                    (Some Switch_to_raw_mode_cb) (ack05_async s))\<rparr>
         else s);
       if d1 = ack05_RAW_PAD_REPORT_ID then do {
         d' \<leftarrow> wr d 0 d1;
         d7 \<leftarrow> rd d' 7;
         d'' \<leftarrow> (if d7 = 0x02 then wr d' 7 0xff else Some d');
         Some (s1, d'', 8) }
       else if d1 = ack05_RAW_BATTERY_REPORT_ID then do {
         d' \<leftarrow> wr d 0 d1;
         Some (s1, d', 5) }
       else Some (s1, d, 0) } })"

interpretation ack05_events: hid_program "ack05_fix_events K" 8
  by unfold_locales (auto simp: ack05_fix_events_def Let_def)

text \<open>
  \<open>retval\<close> becomes the value of \<open>A || B\<close>: 0 when both calls succeed, 1 when one of them fails. The switch is
  only tried when the initialisation succeeded.
\<close>

definition ack05_probe ::
    "('k, ack05_callback) async_kernel \<Rightarrow> 'k output_report \<Rightarrow> (u32 \<Rightarrow> hid_device option) \<Rightarrow>
     hid_bpf_probe_args \<Rightarrow> 'k ack05_state \<Rightarrow> 'k ack05_state \<times> hid_bpf_probe_args \<times> int" where
  "ack05_probe K output_report alloc a s =
     (let a1 = a\<lparr>pa_retval :=
        (if pa_rdesc_size a \<in> {ack05_PAD_WIRED_DESCRIPTOR_LENGTH, ack05_PAD_DONGLE_DESCRIPTOR_LENGTH,
              ack05_STYLUS_DESCRIPTOR_LENGTH, ack05_VENDOR_DESCRIPTOR_LENGTH} then 0 else - EINVAL)\<rparr>
      in if pa_rdesc_size a = ack05_VENDOR_DESCRIPTOR_LENGTH then
        (case alloc (pa_hid a) of
           None \<Rightarrow> (s, a1\<lparr>pa_retval := - EINVAL\<rparr>, 0)
         | Some hid \<Rightarrow>
             (let (w, key, err) = hid_bpf_async_init K Switch_to_raw_mode_cb ''switch_to_raw_mode'' (ack05_async s);
                  (w, ret) = (if err \<noteq> 0 then (w, 1)
                              else let (w, err) = ack05_switch_to_raw_mode output_report hid w
                                   in (w, if err \<noteq> 0 then 1 else 0))
              in (s\<lparr>ack05_key := key, ack05_async := w\<rparr>, a1\<lparr>pa_retval := ret\<rparr>, 0)))
      else (s, a1, 0))"

section \<open>Reports\<close>

lemma ack05_fixed_rdesc_vendor_layout_240:
  "rdesc_layout ack05_fixed_rdesc_vendor 240 = Some [
     (0x90001, 16, 1), (0x90002, 17, 1), (0x90003, 18, 1), (0x90004, 19, 1), (0x90005, 20, 1), (0x90006, 21, 1),
     (0x90007, 22, 1), (0x90008, 23, 1), (0x90009, 24, 1), (0x9000a, 25, 1), (0x90031, 26, 1), (0xd0044, 32, 1),
     (0x10030, 40, 8), (0x10031, 48, 8), (0x10038, 56, 8)]"
  by code_simp

lemma ack05_fixed_rdesc_vendor_layout_242:
  "rdesc_layout ack05_fixed_rdesc_vendor 242 = Some [(0x850065, 24, 8), (0x850044, 32, 8)]"
  by code_simp

definition ack05_button_usage :: "nat \<Rightarrow> int" where
  "ack05_button_usage k = (if k < 10 then 0x90001 + int k else 0x90031)"

lemma ack05_button_slots:
  "k < 11 \<Longrightarrow> usage_slot ack05_fixed_rdesc_vendor 240 (ack05_button_usage k) = Some (16 + int k, 1)"
proof -
  have "list_all (\<lambda>k. usage_slot ack05_fixed_rdesc_vendor 240 (ack05_button_usage k) = Some (16 + int k, 1)) [0..<11]"
    unfolding usage_slot_def ack05_fixed_rdesc_vendor_layout_240 option.case by code_simp
  then show "k < 11 \<Longrightarrow> ?thesis" by (simp add: list_all_iff)
qed

lemma ack05_slots:
  "usage_slot ack05_fixed_rdesc_vendor 240 0x10038 = Some (56, 8)"
  "usage_slot ack05_fixed_rdesc_vendor 242 0x850065 = Some (24, 8)"
  "usage_slot ack05_fixed_rdesc_vendor 242 0x850044 = Some (32, 8)"
  unfolding usage_slot_def ack05_fixed_rdesc_vendor_layout_240 ack05_fixed_rdesc_vendor_layout_242 option.case
  by code_simp+

lemma window_bytes: "n \<le> length rep \<Longrightarrow> n \<le> 64 \<Longrightarrow> take n (report_buffer rep) = map ((!) rep) [0..<n]"
  using length_window [of n rep] by (intro nth_equalityI) (simp_all add: report_buffer_nth)

lemma ack05_pad_event:
  assumes "8 \<le> length rep" "rep ! 0 = 2" "rep ! 1 = 0xf0"
  shows "device_event (ack05_fix_events K) 8 hid s rep
    = Some (s, Some [0xf0, 0xf0, rep ! 2, rep ! 3, rep ! 4, rep ! 5, rep ! 6, if rep ! 7 = 2 then 0xff else rep ! 7])"
    (is "_ = Some (s, Some ?new)")
proof (rule device_event_replaced [where rest = "[]"])
  let ?w = "take 8 (report_buffer rep)"
  have w': "?w = [rep ! 0, rep ! 1, rep ! 2, rep ! 3, rep ! 4, rep ! 5, rep ! 6, rep ! 7]"
    using window_bytes [of 8 rep] assms(1) by (simp add: upt_rec eval_nat_numeral)
  show "ack05_fix_events K s \<lparr>ctx_hid = hid, ctx_size = int (length rep)\<rparr> (Some ?w) = Some (s, ?new @ [], int (length ?new))"
    unfolding w' using assms(2,3) by (simp add: ack05_fix_events_def Let_def)
qed simp_all

lemma ack05_battery_event:
  assumes "8 \<le> length rep" "rep ! 0 = 2" "rep ! 1 = 0xf2"
  shows "device_event (ack05_fix_events K) 8 hid s rep
    = Some (s, Some [0xf2, 0xf2, rep ! 2, rep ! 3, rep ! 4])"
    (is "_ = Some (s, Some ?new)")
proof (rule device_event_replaced [where rest = "[rep ! 5, rep ! 6, rep ! 7]"])
  let ?w = "take 8 (report_buffer rep)"
  have w': "?w = [rep ! 0, rep ! 1, rep ! 2, rep ! 3, rep ! 4, rep ! 5, rep ! 6, rep ! 7]"
    using window_bytes [of 8 rep] assms(1) by (simp add: upt_rec eval_nat_numeral)
  show "ack05_fix_events K s \<lparr>ctx_hid = hid, ctx_size = int (length rep)\<rparr> (Some ?w)
      = Some (s, ?new @ [rep ! 5, rep ! 6, rep ! 7], int (length ?new))"
    unfolding w' using assms(2,3) by (simp add: ack05_fix_events_def Let_def)
qed simp_all

lemma bit_le16_button:
  "k < 11 \<Longrightarrow> read_bits [a, b, lo, hi, c, d, e, f] (16 + k) 1 = of_bool (bit (le16 lo hi) k)"
  using read_bit [of k 2 "[a, b, lo, hi, c, d, e, f]"] read_bit [of "k - 8" 3 "[a, b, lo, hi, c, d, e, f]"]
  by (cases "k < 8") (simp_all add: bit_le16 [of k lo hi] le_div_geq le_mod_geq)

text \<open>
  The raw reports of the remote, read through the appended descriptor: a pad report of the vendor
  interface is delivered with eight bytes, shows its eleven buttons and the wheel step with 2 turned into
  -1; a battery report is delivered with five bytes and shows level and charging state.
\<close>

theorem ack05_raw_reports:
  assumes "8 \<le> length rep" "rep ! 0 = 2" "rep ! 1 \<in> {0xf0, 0xf2}"
  shows "\<exists>out. device_event (ack05_fix_events K) 8 hid s rep = Some (s, Some out) \<and>
    conforms [(240, 8), (242, 5)] out \<and>
    (if rep ! 1 = 0xf0 then
       (\<forall>k < 11. usage_value ack05_fixed_rdesc_vendor out (ack05_button_usage k)
          = Some (of_bool (bit (le16 (rep ! 2) (rep ! 3)) k))) \<and>
       usage_value ack05_fixed_rdesc_vendor out 0x10038 = Some (if rep ! 7 = 2 then 0xff else uint (rep ! 7))
     else usage_value ack05_fixed_rdesc_vendor out 0x850065 = Some (uint (rep ! 3)) \<and>
       usage_value ack05_fixed_rdesc_vendor out 0x850044 = Some (uint (rep ! 4)))"
proof (cases "rep ! 1 = 0xf0")
  case True
  define w where "w = (if rep ! 7 = 2 then 0xff else rep ! 7)"
  define out where "out = [0xf0, 0xf0, rep ! 2, rep ! 3, rep ! 4, rep ! 5, rep ! 6, w]"
  have val: "usage_value ack05_fixed_rdesc_vendor out u =
      map_option (\<lambda>(off, n). read_bits out (nat off) (nat n)) (usage_slot ack05_fixed_rdesc_vendor 240 u)" for u
    by (simp add: usage_value_def out_def)
  have wheel: "read_bits out 56 8 = uint w" using read_byte [of 7 out] by (simp add: out_def)
  have buttons: "read_bits out (16 + k) 1 = of_bool (bit (le16 (rep ! 2) (rep ! 3)) k)" if "k < 11" for k
    unfolding out_def by (rule bit_le16_button [OF that])
  have "\<forall>k < 11. usage_value ack05_fixed_rdesc_vendor out (ack05_button_usage k)
      = Some (of_bool (bit (le16 (rep ! 2) (rep ! 3)) k))"
    using buttons by (simp add: val ack05_button_slots nat_add_distrib)
  moreover have "usage_value ack05_fixed_rdesc_vendor out 0x10038 = Some (uint w)"
    by (simp add: val ack05_slots wheel)
  moreover have "conforms [(240, 8), (242, 5)] out" by (simp add: conforms_def out_def)
  moreover have "device_event (ack05_fix_events K) 8 hid s rep = Some (s, Some out)"
    unfolding out_def w_def by (rule ack05_pad_event [OF assms(1,2) True])
  ultimately show ?thesis using True by (intro exI [of _ out]) (simp add: w_def)
next
  case False
  define out where "out = [0xf2, 0xf2, rep ! 2, rep ! 3, rep ! 4]"
  have val: "usage_value ack05_fixed_rdesc_vendor out u =
      map_option (\<lambda>(off, n). read_bits out (nat off) (nat n)) (usage_slot ack05_fixed_rdesc_vendor 242 u)" for u
    by (simp add: usage_value_def out_def)
  have "read_bits out 24 8 = uint (rep ! 3)" "read_bits out 32 8 = uint (rep ! 4)"
    using read_byte [of 3 out] read_byte [of 4 out] by (simp_all add: out_def)
  moreover have "conforms [(240, 8), (242, 5)] out" by (simp add: conforms_def out_def)
  moreover have "device_event (ack05_fix_events K) 8 hid s rep = Some (s, Some out)"
    unfolding out_def by (rule ack05_battery_event) (use assms False in auto)
  ultimately show ?thesis using False by (intro exI [of _ out]) (simp add: val ack05_slots)
qed

theorem ack05_raw_reports_witness:
  "\<exists>out. device_event (ack05_fix_events kernel0) 8 dev0 (ack05_init ()) [2, 0xf0, 0x81, 2, 0, 0, 0, 2]
     = Some (ack05_init (), Some out) \<and> usage_value ack05_fixed_rdesc_vendor out 0x10038 = Some 0xff"
  using ack05_raw_reports [of "[2, 0xf0, 0x81, 2, 0, 0, 0, 2]" kernel0 dev0 "ack05_init ()"] by auto

section \<open>The appended descriptor\<close>

lemma ack05_items:
  "split_items (map uint ack05_fixed_rdesc_vendor) = Some
  [(4, 1, 1), (8, 1, 7), (160, 1, 1), (132, 1, 240), (148, 1, 1),
   (116, 1, 8), (128, 1, 1), (36, 1, 0), (36, 1, 1), (4, 1, 13), (8, 1, 57),
   (160, 1, 0), (4, 1, 9), (24, 1, 1), (40, 1, 10), (20, 1, 0), (36, 1, 1),
   (148, 1, 10), (116, 1, 1), (128, 1, 2), (8, 1, 49), (148, 1, 1),
   (128, 1, 2), (148, 1, 5), (128, 1, 1), (4, 1, 13), (8, 1, 68),
   (148, 1, 1), (116, 1, 1), (128, 1, 2), (148, 1, 7), (128, 1, 1),
   (4, 1, 1), (8, 1, 48), (8, 1, 49), (148, 1, 2), (116, 1, 8), (128, 1, 2),
   (8, 1, 56), (20, 1, 255), (36, 1, 1), (148, 1, 1), (116, 1, 8),
   (128, 1, 6), (192, 0, 0), (132, 1, 242), (148, 1, 1), (116, 1, 8),
   (128, 1, 1), (128, 1, 1), (4, 1, 13), (8, 1, 32), (160, 1, 0),
   (4, 1, 133), (8, 1, 101), (20, 1, 0), (36, 1, 100), (148, 1, 1),
   (116, 1, 8), (128, 1, 2), (8, 1, 68), (20, 1, 0), (36, 1, 1),
   (148, 1, 1), (116, 1, 8), (128, 1, 2), (192, 0, 0), (192, 0, 0)]"
  by code_simp

lemma ack05_parse_any:
  "\<exists>st' new. parse_items (the (split_items (map uint ack05_fixed_rdesc_vendor))) st = Some st' \<and>
     p_fields st' = new @ p_fields st \<and> list_all (\<lambda>f. g_id (f_glob f) \<in> {240, 242}) new \<and>
     p_open st' = p_open st \<and> p_stack st' = p_stack st"
  unfolding ack05_items option.sel
  by (simp add: parse_item_def set_globals_def clear_locals_def add_field_def ext_usage_def)

text \<open>The reports other than \<open>new\<close> have the same fields before and after.\<close>

definition keeps_reports :: "int list \<Rightarrow> pstate \<Rightarrow> pstate \<Rightarrow> bool" where
  "keeps_reports new st st' \<longleftrightarrow> (\<forall>main rid. rid \<notin> set new \<longrightarrow> report_fields main rid st' = report_fields main rid st)"

lemma ack05_append_parse:
  assumes "parse_rdesc rdesc = Some st"
  shows "\<exists>st'. parse_rdesc (rdesc @ ack05_fixed_rdesc_vendor) = Some st' \<and> closed st' = closed st \<and>
    keeps_reports [240, 242] st st'"
proof -
  let ?items = "the (split_items (map uint ack05_fixed_rdesc_vendor))"
  obtain old where old: "split_items (map uint rdesc) = Some old" "parse_items old init_pstate = Some st"
    using assms by (auto simp: parse_rdesc_def split: option.splits)
  obtain st' new where new: "parse_items ?items st = Some st'" "p_fields st' = new @ p_fields st"
      "list_all (\<lambda>f. g_id (f_glob f) \<in> {240, 242}) new" "p_open st' = p_open st"
    using ack05_parse_any by blast
  have "parse_rdesc (rdesc @ ack05_fixed_rdesc_vendor) = Some st'"
    using split_items_append [OF old(1), of "map uint ack05_fixed_rdesc_vendor"] old(2) new(1)
    by (simp add: parse_rdesc_def ack05_items parse_items_append del: split_items.simps)
  moreover have "report_fields main rid st' = report_fields main rid st" if "rid \<notin> {240, 242}" for main rid
  proof -
    have "filter (in_report main rid) new = []"
      using new(3) that by (auto simp: list_all_iff in_report_def filter_empty_conv)
    then show ?thesis by (simp add: report_fields_def new(2))
  qed
  ultimately show ?thesis using new(4) by (auto simp: closed_def keeps_reports_def)
qed

text \<open>
  C34: On the vendor interface the program appends its descriptor to the one of the device: the reports the
  device declared itself, output reports included, keep their fields, and the two raw reports are new. On the
  other interfaces the descriptor becomes a vendor report of the old length and the device is renamed.
\<close>

theorem ack05_appends:
  assumes "length rdesc \<le> 4096"
  shows "if length rdesc = 36 then
      rdesc_fixup ack05_fix_rdesc hid s rdesc = Some (s, Some (rdesc @ ack05_fixed_rdesc_vendor)) \<and>
      (case parse_rdesc rdesc of None \<Rightarrow> True | Some st \<Rightarrow>
        (case parse_rdesc (rdesc @ ack05_fixed_rdesc_vendor) of None \<Rightarrow> False | Some st' \<Rightarrow>
           closed st' = closed st \<and> keeps_reports [240, 242] st st'))
    else rdesc_fixup ack05_fix_rdesc hid s rdesc =
      Some (s\<lparr>ack05_hid_name := Some ''Disabled by HID-BPF Hanvon Ugee Shortcut Remote''\<rparr>, Some ack05_disabled_rdesc)"
proof (cases "length rdesc = 36")
  case True
  let ?c = "\<lparr>ctx_hid = hid, ctx_size = int (length rdesc)\<rparr>"
  let ?new = "rdesc @ ack05_fixed_rdesc_vendor"
  have "ack05_fix_rdesc s ?c (Some (rdesc_buffer rdesc)) = Some (s, ?new @ drop 133 (drop 36 (rdesc_buffer rdesc)), int (length ?new))"
    using True length_rdesc_buffer [OF assms]
    by (simp add: ack05_fix_rdesc_def Let_def)
      (simp add: rdesc_buffer_def)
  from rdesc_fixup_eq [where prog = ack05_fix_rdesc, OF assms this] True
  have "rdesc_fixup ack05_fix_rdesc hid s rdesc = Some (s, Some ?new)"
    by (simp add: delivered_def)
  moreover have "\<exists>st'. parse_rdesc ?new = Some st' \<and> closed st' = closed st \<and> keeps_reports [240, 242] st st'"
    if "parse_rdesc rdesc = Some st" for st
    by (rule ack05_append_parse [OF that])
  ultimately show ?thesis using True by (auto split: option.split)
next
  case False
  let ?c = "\<lparr>ctx_hid = hid, ctx_size = int (length rdesc)\<rparr>"
  let ?s = "s\<lparr>ack05_hid_name := Some ''Disabled by HID-BPF Hanvon Ugee Shortcut Remote''\<rparr>"
  let ?new = "ack05_disabled_rdesc"
  have "ack05_fix_rdesc s ?c (Some (rdesc_buffer rdesc)) = Some (?s, ?new @ drop (length ?new) (rdesc_buffer rdesc), int (length ?new))"
    using False length_rdesc_buffer [OF assms] by (simp add: ack05_fix_rdesc_def Let_def)
  from rdesc_fixup_eq [where prog = ack05_fix_rdesc, OF assms this] False
  show ?thesis by (simp add: delivered_def)
qed

definition ack05_example_rdesc :: "u8 list" where
  "ack05_example_rdesc = [0x06, 0x0a, 0xff, 0x09, 0x01, 0xa1, 0x01, 0x85, 0x02, 0x09, 0x0a, 0x15, 0x00, 0x26, 0xff, 0x00,
     0x75, 0x08, 0x95, 0x1f, 0x81, 0x02, 0x09, 0x0b, 0x95, 0x1f, 0x91, 0x02, 0x75, 0x08, 0x25, 0x7f, 0x96, 0x1f, 0x00, 0xc0]"

theorem ack05_appends_witness:
  "\<exists>st st'. parse_rdesc ack05_example_rdesc = Some st \<and>
     parse_rdesc (ack05_example_rdesc @ ack05_fixed_rdesc_vendor) = Some st' \<and>
     report_fields 0x90 2 st' = report_fields 0x90 2 st \<and> report_fields 0x90 2 st \<noteq> []"
proof -
  have ok: "length ack05_example_rdesc = 36" by code_simp
  have "(case parse_rdesc ack05_example_rdesc of None \<Rightarrow> False | Some st \<Rightarrow> report_fields 0x90 2 st \<noteq> [])"
    by code_simp
  then obtain st where st: "parse_rdesc ack05_example_rdesc = Some st" "report_fields 0x90 2 st \<noteq> []"
    by (auto split: option.splits)
  with ack05_appends [of ack05_example_rdesc dev0 "ack05_init ()"] ok
  obtain st' where "parse_rdesc (ack05_example_rdesc @ ack05_fixed_rdesc_vendor) = Some st'" "keeps_reports [240, 242] st st'"
    by (auto split: option.splits)
  then show ?thesis using st by (auto simp: keeps_reports_def)
qed

section \<open>Switching to raw mode\<close>



end
