(* ===== verification/Surface_Dial.thy ===== *)
theory Surface_Dial
  imports Kernel_Iface Rdesc_Spec
begin

unbundle bit_operations_syntax

text \<open>
  The Microsoft Surface Dial (\<open>0010-Microsoft__Surface_Dial.bpf.c\<close>): the descriptor that turns the dial
  into a mouse wheel, the event handler, the two timers and the work that switches the resolution.
\<close>


abbreviation (input) sd_VID_MICROSOFT :: "'a::numeral" where "sd_VID_MICROSOFT \<equiv> 0x045e"

abbreviation (input) sd_PID_SURFACE_DIAL :: "'a::numeral" where "sd_PID_SURFACE_DIAL \<equiv> 0x091b"

abbreviation (input) sd_ORIGINAL_RDESC_SIZE :: "'a::numeral" where "sd_ORIGINAL_RDESC_SIZE \<equiv> 488"

abbreviation (input) sd_CLOCK_MONOTONIC :: "'a::numeral" where "sd_CLOCK_MONOTONIC \<equiv> 1"

abbreviation (input) sd_DIAL_INPUT_REPORT_ID :: "'a::numeral" where "sd_DIAL_INPUT_REPORT_ID \<equiv> 0x01"

abbreviation (input) sd_LOW_RESOLUTION :: "'a::numeral" where "sd_LOW_RESOLUTION \<equiv> 72"

abbreviation (input) sd_LOW_MULTIPLIER :: "'a::numeral" where "sd_LOW_MULTIPLIER \<equiv> 120"

abbreviation (input) sd_HIGH_RESOLUTION :: "'a::numeral" where "sd_HIGH_RESOLUTION \<equiv> 2880"

abbreviation (input) sd_HIGH_MULTIPLIER :: "'a::numeral" where "sd_HIGH_MULTIPLIER \<equiv> 3"

definition sd_fixed_rdesc_ini :: initializer where
  "sd_fixed_rdesc_ini = concat [
     UsagePage_GenericDesktop,
     Usage_GD_SystemMultiAxisController,
     CollectionApplication (concat [
       ReportId sd_DIAL_INPUT_REPORT_ID,
       UsagePage_Digitizers,
       Usage_Dig_Puck,
       CollectionLogical (concat [
         LogicalMinimum_i8 0,
         LogicalMaximum_i8 1,
         ReportSize 1,
         ReportCount 1,
         CollectionPhysical (concat [
           UsagePage_Button,
           Usage_i8 1,
           Input (Var OR Abs),
           ReportCount 7,
           Input (Var OR Const),
           CollectionLogical (concat [
             UsagePage_GenericDesktop,
             Usage_GD_Wheel,
             LogicalMinimum_i16 (- 32767),
             LogicalMaximum_i16 32767,
             ReportSize 16,
             ReportCount 1,
             Input (Var OR Rel),
             PhysicalMinimum_i8 0,
             PhysicalMaximum_i16 sd_LOW_MULTIPLIER,
             LogicalMinimum_i8 0,
             LogicalMaximum_i16 3600,
             Usage_GD_ResolutionMultiplier,
             Feature (Var OR Abs),
             PhysicalMaximum_i8 0]),
           UnitExponent (- 2),
           Unit cm,
           PhysicalMaximum_i16 0,
           LogicalMaximum_i16 0,
           Usage_GD_X,
           Input (Var OR Rel),
           Usage_GD_Y,
           PhysicalMaximum_i16 0,
           LogicalMaximum_i16 0,
           Input (Var OR Rel),
           UsagePage_Digitizers,
           Usage_Dig_Width,
           LogicalMinimum_i8 58,
           LogicalMaximum_i8 58,
           ReportSize 8,
           UnitExponent (- 1),
           PhysicalMinimum_i8 58,
           PhysicalMaximum_i8 58,
           Input (Var OR Const),
           UnitExponent 0,
           Unit 0,
           PhysicalMinimum_i8 0,
           PhysicalMaximum_i8 0,
           UsagePage_Haptics,
           Usage_Hap_SimpleHapticController,
           CollectionLogical (concat [
             LogicalMinimum_i8 0,
             LogicalMaximum_i16 255,
             Usage_Hap_RepeatCount,
             Feature (Var OR Abs OR Null),
             Usage_Hap_RepeatCount,
             Output (Var OR Abs OR Null),
             LogicalMinimum_i8 1,
             LogicalMaximum_i8 7,
             Usage_Hap_AutoTrigger,
             Feature (Var OR Abs OR Null),
             Usage_Hap_ManualTrigger,
             Output (Var OR Abs OR Null),
             LogicalMaximum_i8 10,
             Usage_Hap_WaveformCutoffTime,
             Feature (Var OR Abs OR Null),
             ReportSize 16,
             LogicalMaximum_i16 2000,
             Usage_Hap_RetriggerPeriod,
             Feature (Var OR Abs OR Null),
             Usage_Hap_RetriggerPeriod,
             Output (Var OR Abs OR Null),
             ReportId 2,
             ReportSize 32,
             LogicalMinimum_i32 65591,
             LogicalMaximum_i32 65591,
             Usage_Hap_AutoTriggerAssociatedControl,
             Feature (Var OR Abs),
             Usage_Hap_DurationList,
             CollectionLogical (concat [
               UsagePage_Ordinal,
               ReportCount 3,
               Usage_i8 3,
               Usage_i8 4,
               Usage_i8 5,
               ReportSize 8,
               LogicalMinimum_i8 0,
               LogicalMaximum_i8 255,
               Feature (Var OR Abs)]),
             UsagePage_Haptics,
             Usage_Hap_WaveformList,
             CollectionLogical (concat [
               UsagePage_Ordinal,
               ReportCount 1,
               LogicalMinimum_i8 3,
               LogicalMaximum_i8 3,
               PhysicalMinimum_i16 4099,
               PhysicalMaximum_i16 4099,
               Usage_i8 3,
               Feature (Var OR Abs),
               LogicalMinimum_i8 4,
               LogicalMaximum_i8 4,
               PhysicalMinimum_i16 4100,
               PhysicalMaximum_i16 4100,
               Usage_i8 4,
               Feature (Var OR Abs),
               LogicalMinimum_i8 5,
               LogicalMaximum_i8 5,
               PhysicalMinimum_i16 4100,
               PhysicalMaximum_i16 4100,
               Usage_i8 5,
               Feature (Var OR Abs),
               PhysicalMinimum_i8 0,
               PhysicalMaximum_i8 0])])])])]),
     UsagePage_Vendor 0xFF07,
     Usage_i8 0x70,
     CollectionApplication (concat [
       ReportId 48,
       LogicalMinimum_i8 0,
       LogicalMaximum_i8 255,
       ReportCount 1,
       ReportSize 8,
       Usage_i8 0x00,
       Output (Var OR Abs)]),
     Usage_i8 0x71,
     CollectionApplication (concat [
       LogicalMinimum_i8 0,
       LogicalMaximum_i8 255,
       ReportSize 8,
       ReportCount 72,
       ReportId 42,
       Usage_i8 0xc6,
       Input_i16 (Var OR Abs OR Buff),
       Usage_i8 0xc7,
       Output_i16 (Var OR Abs OR Buff),
       ReportCount 52,
       Usage_i8 0xc8,
       Feature_i16 (Const OR Var OR Abs OR Buff),
       ReportId 43,
       Usage_i8 0xc9,
       Input_i16 (Var OR Abs OR Buff),
       Usage_i8 0xca,
       Output_i16 (Var OR Abs OR Buff),
       Usage_i8 0xcb,
       Feature_i16 (Var OR Abs OR Buff),
       LogicalMinimum_i32 (- 2147483648),
       LogicalMaximum_i32 2147483647,
       ReportSize 32,
       ReportCount 4,
       ReportId 44,
       UsageMinimum_i8 204,
       UsageMaximum_i8 207,
       Input (Var OR Abs),
       ReportCount 4,
       ReportId 45,
       UsageMinimum_i8 216,
       UsageMaximum_i8 219,
       Input (Var OR Abs),
       ReportCount 4,
       UsageMinimum_i8 220,
       UsageMaximum_i8 223,
       Output (Var OR Abs),
       UsageMinimum_i8 224,
       UsageMaximum_i8 227,
       Feature (Var OR Abs),
       ReportId 46,
       UsageMinimum_i8 228,
       UsageMaximum_i8 231,
       Input (Var OR Abs),
       UsageMinimum_i8 232,
       UsageMaximum_i8 235,
       Output (Var OR Abs),
       ReportCount 11,
       UsageMinimum_i8 236,
       UsageMaximum_i8 239,
       Feature (Var OR Abs),
       ReportCount 4,
       ReportId 47,
       UsageMinimum_i8 240,
       UsageMaximum_i8 243,
       Input (Var OR Abs),
       UsageMinimum_i8 244,
       UsageMaximum_i8 247,
       Output (Var OR Abs),
       UsageMinimum_i8 248,
       UsageMaximum_i8 251,
       Feature (Var OR Abs)]),
     UsagePage_GenericDesktop,
     Usage_GD_SystemControl,
     CollectionApplication (concat [
       ReportId 50,
       Usage_GD_SystemSleep,
       Usage_GD_SystemWakeUp,
       LogicalMinimum_i8 0,
       LogicalMaximum_i8 1,
       ReportCount 2,
       ReportSize 1,
       Input (Var OR Abs),
       ReportCount 6,
       Input (Const OR Var OR Abs)]),
     Usage_i8 0x72,
     CollectionApplication (concat [
       ReportId 49,
       ReportCount 10,
       ReportSize 8,
       LogicalMinimum_i8 0,
       LogicalMaximum_i8 255,
       Usage_GD_WirelessRadioButton,
       Input (Var OR Abs),
       Usage_GD_WirelessRadioLED,
       Output (Var OR Abs)])]"

definition sd_fixed_rdesc :: "u8 list" where
  "sd_fixed_rdesc = bytes sd_fixed_rdesc_ini"

lemma length_sd_fixed_rdesc [simp]: "length sd_fixed_rdesc = 482"
  by code_simp

lemma sd_fixed_rdesc_declares [rdesc_facts]:
  "static_ok sd_fixed_rdesc_ini \<and> rdesc_declares sd_fixed_rdesc [(1, 9), (42, 73), (43, 53), (44, 17), (45, 17), (46, 17), (47, 17), (50, 2), (49, 11)]"
  by code_simp

lemma sd_fixed_rdesc_layout_1:
  "rdesc_layout sd_fixed_rdesc 1 = Some [
     (0x90001, 8, 1), (0x10038, 16, 16), (0x10030, 32, 16), (0x10031, 48, 16)]"
  by code_simp

definition sd_rdesc_fixup :: "'s program" where
  "sd_rdesc_fixup s c data = (case data of None \<Rightarrow> Some (s, [], 0) | Some d \<Rightarrow> do {
     d1 \<leftarrow> memcpy d 0 sd_fixed_rdesc;
     Some (s, d1, int (length sd_fixed_rdesc)) })"

interpretation sd_fixup: replacing_fixup sd_rdesc_fixup "\<lambda>s c. Some sd_fixed_rdesc"
  by unfold_locales (auto simp: sd_rdesc_fixup_def)

section \<open>State and kernel\<close>

text \<open>The two elements of \<open>timer_map\<close>; their timers and work queues belong to the kernel.\<close>

datatype sd_map_key = MAP_KEY_HAPTIC | MAP_KEY_SLEEP

text \<open>
  The globals, the \<open>hid\<close> fields of the map and the state \<open>'k\<close> of the kernel's timers, work queues and
  device.
\<close>

record 'k sd_state =
  sd_current_multiplier :: "32 word"
  sd_haptic_enabled :: bool
  sd_prev_click :: bool
  sd_initialized :: bool
  sd_hid :: "sd_map_key \<Rightarrow> u32"
  sd_kernel :: 'k

definition sd_boot :: "'k \<Rightarrow> 'k sd_state" where
  "sd_boot k = \<lparr>sd_current_multiplier = 0, sd_haptic_enabled = True, sd_prev_click = False,
     sd_initialized = False, sd_hid = (\<lambda>_. 0), sd_kernel = k\<rparr>"

text \<open>The callbacks the program registers.\<close>

datatype sd_callback = Haptic_timer_cb | Sleep_timer_cb | Haptic_wq_cb

text \<open>
  The kernel: \<open>sk_get_feature\<close> and \<open>sk_set_feature\<close> stand for \<open>hid_bpf_hw_request\<close> with \<open>HID_FEATURE_REPORT\<close>
  and the two requests, \<open>sk_output\<close> for \<open>hid_bpf_hw_output_report\<close>, the others for the timer and work queue
  helpers on the element of a key.
\<close>

record 'k sd_ops =
  sk_allocate :: "u32 \<Rightarrow> hid_device option"
  sk_get_feature :: "hid_device \<Rightarrow> u8 list \<Rightarrow> 'k \<Rightarrow> 'k \<times> u8 list \<times> int"
  sk_set_feature :: "hid_device \<Rightarrow> u8 list \<Rightarrow> 'k \<Rightarrow> 'k \<times> int"
  sk_output :: "hid_device \<Rightarrow> u8 list \<Rightarrow> 'k \<Rightarrow> 'k \<times> int"
  sk_timer_init :: "sd_map_key \<Rightarrow> 'k \<Rightarrow> 'k"
  sk_timer_set_callback :: "sd_map_key \<Rightarrow> sd_callback \<Rightarrow> 'k \<Rightarrow> 'k"
  sk_wq_init :: "sd_map_key \<Rightarrow> 'k \<Rightarrow> 'k"
  sk_wq_set_callback :: "sd_map_key \<Rightarrow> sd_callback \<Rightarrow> 'k \<Rightarrow> 'k"
  sk_timer_start :: "sd_map_key \<Rightarrow> u64 \<Rightarrow> 'k \<Rightarrow> 'k \<times> int"
  sk_timer_cancel :: "sd_map_key \<Rightarrow> 'k \<Rightarrow> 'k"
  sk_wq_start :: "sd_map_key \<Rightarrow> 'k \<Rightarrow> 'k \<times> int"

definition sd_kcall :: "('k \<Rightarrow> 'k \<times> int) \<Rightarrow> 'k sd_state \<Rightarrow> 'k sd_state \<times> int" where
  "sd_kcall f s = (let (k, r) = f (sd_kernel s) in (s\<lparr>sd_kernel := k\<rparr>, r))"

section \<open>The work: resolution and haptic feedback\<close>

definition sd_fill_feature :: "bool \<Rightarrow> u8 list \<Rightarrow> u8 list option" where
  "sd_fill_feature enable buf =
     (if enable then do {
        buf \<leftarrow> wr buf 1 (ucast ((sd_LOW_RESOLUTION :: 32 word) AND 0xff));
        buf \<leftarrow> wr buf 2 (ucast (drop_bit 8 (sd_LOW_RESOLUTION :: 32 word)));
        buf \<leftarrow> wr buf 3 0;
        wr buf 4 3 }
      else do {
        buf \<leftarrow> wr buf 1 (ucast ((sd_HIGH_RESOLUTION :: 32 word) AND 0xff));
        buf \<leftarrow> wr buf 2 (ucast (drop_bit 8 (sd_HIGH_RESOLUTION :: 32 word)));
        wr buf 4 0 })"

text \<open>
  \<open>stack\<close> is what the eight bytes of \<open>buf\<close> hold before the program writes them; the request for the current
  feature report replaces them when it succeeds.
\<close>

definition sd_set_res_and_haptic ::
    "'k sd_ops \<Rightarrow> u8 list \<Rightarrow> u32 \<Rightarrow> bool \<Rightarrow> 'k sd_state \<Rightarrow> ('k sd_state \<times> int) option" where
  "sd_set_res_and_haptic K stack hid enable s = (case sk_allocate K hid of
      None \<Rightarrow> Some (s, - 1)
    | Some ctx \<Rightarrow> do {
        buf \<leftarrow> wr stack 0 sd_DIAL_INPUT_REPORT_ID;
        let (k, buf, _) = sk_get_feature K ctx buf (sd_kernel s);
        buf \<leftarrow> sd_fill_feature enable buf;
        let (k, ret) = sk_set_feature K ctx buf k;
        let s = s\<lparr>sd_current_multiplier :=
          (if ret = 8 then (if enable then sd_LOW_MULTIPLIER else sd_HIGH_MULTIPLIER) else sd_current_multiplier s)\<rparr>;
        let (k, ret) = sk_output K ctx [sd_DIAL_INPUT_REPORT_ID, 0, 5, 80, 0] k;
        Some (s\<lparr>sd_kernel := k\<rparr>, ret) })"

definition sd_haptic_timer_cb :: "'k sd_ops \<Rightarrow> 'k sd_state \<Rightarrow> 'k sd_state \<times> int" where
  "sd_haptic_timer_cb K s =
     (let s = s\<lparr>sd_haptic_enabled := \<not> sd_haptic_enabled s\<rparr>;
          (s, _) = sd_kcall (sk_wq_start K MAP_KEY_HAPTIC) s
      in (s, 0))"

definition sd_sleep_timer_cb :: "'k sd_state \<Rightarrow> 'k sd_state \<times> int" where
  "sd_sleep_timer_cb s = (s\<lparr>sd_initialized := False\<rparr>, 0)"

definition sd_haptic_wq_cb :: "'k sd_ops \<Rightarrow> u8 list \<Rightarrow> 'k sd_state \<Rightarrow> ('k sd_state \<times> int) option" where
  "sd_haptic_wq_cb K stack s = do {
     (s', _) \<leftarrow> sd_set_res_and_haptic K stack (sd_hid s MAP_KEY_HAPTIC) (sd_haptic_enabled s) s;
     Some (s', 0) }"

section \<open>Timers\<close>

text \<open>Despite its name it converts seconds to nanoseconds; a negative \<open>int\<close> is sign-extended.\<close>

definition sd_ns_to_s :: "int \<Rightarrow> u64" where
  "sd_ns_to_s seconds = word_of_int seconds * 1000 * 1000 * 1000"

text \<open>The lookup of an element never fails: both keys are entries of the array map.\<close>

definition sd_delay_work_control :: "'k sd_ops \<Rightarrow> int \<Rightarrow> bool \<Rightarrow> 'k sd_state \<Rightarrow> 'k sd_state \<times> int" where
  "sd_delay_work_control K seconds cancel s =
     (if seconds = 0 then sd_kcall (sk_wq_start K MAP_KEY_HAPTIC) s
      else if cancel then (s\<lparr>sd_kernel := sk_timer_cancel K MAP_KEY_HAPTIC (sd_kernel s)\<rparr>, 0)
      else
        (let s = s\<lparr>sd_kernel := sk_timer_set_callback K MAP_KEY_HAPTIC Haptic_timer_cb (sd_kernel s)\<rparr>
         in sd_kcall (sk_timer_start K MAP_KEY_HAPTIC (sd_ns_to_s seconds)) s))"

definition sd_restart_sleep_timer :: "'k sd_ops \<Rightarrow> int \<Rightarrow> 'k sd_state \<Rightarrow> 'k sd_state \<times> int" where
  "sd_restart_sleep_timer K seconds s = sd_kcall (sk_timer_start K MAP_KEY_SLEEP (sd_ns_to_s seconds)) s"

section \<open>Events\<close>

text \<open>
  The handler overlays the report with \<open>struct dial_report\<close>: bit 0 of byte 1 is the button, bit 1 the touch,
  bytes 2 and 3 the signed wheel step, 4 to 7 the coordinates.
\<close>

definition sd_event :: "'k sd_ops \<Rightarrow> 'k sd_state program" where
  "sd_event K s c data = (case data of None \<Rightarrow> Some (s, [], 0) | Some d \<Rightarrow> do {
     d0 \<leftarrow> rd d 0;
     if d0 \<noteq> sd_DIAL_INPUT_REPORT_ID then Some (s, d, - 1)
     else do {
       let s = (if \<not> sd_initialized s then (fst (sd_delay_work_control K 0 False s))\<lparr>sd_initialized := True\<rparr> else s);
       d1 \<leftarrow> rd d 1;
       d \<leftarrow> wr d 1 (d1 AND NOT (BIT 1));
       let click = bit d1 0;
       let s = (if sd_prev_click s \<noteq> click then fst (sd_delay_work_control K 2 (\<not> click) s) else s);
       let s = s\<lparr>sd_prev_click := click\<rparr>;
       d \<leftarrow> wr d 4 0; d \<leftarrow> wr d 5 0; d \<leftarrow> wr d 6 0; d \<leftarrow> wr d 7 0;
       w0 \<leftarrow> rd d 2; w1 \<leftarrow> rd d 3;
       let wheel = (ucast ((scast (le16 w0 w1) :: 32 word) * sd_current_multiplier s) :: u16);
       d \<leftarrow> wr d 2 (byte_of 0 wheel); d \<leftarrow> wr d 3 (byte_of 1 wheel);
       Some (fst (sd_restart_sleep_timer K 120 s), d, 0) } })"

interpretation sd_events: hid_program "sd_event K" 9
  by unfold_locales (auto simp: sd_event_def Let_def)

text \<open>\<open>retval\<close> is the comparison of the sizes, made negative; the timers are set up either way.\<close>

definition sd_probe :: "'k sd_ops \<Rightarrow> hid_bpf_probe_args \<Rightarrow> 'k sd_state \<Rightarrow> 'k sd_state \<times> hid_bpf_probe_args \<times> int" where
  "sd_probe K a s =
     (let retval = (if pa_rdesc_size a \<noteq> sd_ORIGINAL_RDESC_SIZE then 1 else 0);
          retval = (if retval \<noteq> 0 then - 22 else retval);
          s = s\<lparr>sd_hid := (\<lambda>_. pa_hid a)\<rparr>;
          k = sk_timer_init K MAP_KEY_HAPTIC (sd_kernel s);
          k = sk_timer_set_callback K MAP_KEY_HAPTIC Haptic_timer_cb k;
          k = sk_wq_init K MAP_KEY_HAPTIC k;
          k = sk_wq_set_callback K MAP_KEY_HAPTIC Haptic_wq_cb k;
          k = sk_timer_init K MAP_KEY_SLEEP k;
          k = sk_timer_set_callback K MAP_KEY_SLEEP Sleep_timer_cb k
      in (s\<lparr>sd_kernel := k\<rparr>, a\<lparr>pa_retval := retval\<rparr>, 0))"

section \<open>What an event does\<close>

lemma nine_bytes: "length d = 9 \<Longrightarrow> d = [d ! 0, d ! 1, d ! 2, d ! 3, d ! 4, d ! 5, d ! 6, d ! 7, d ! 8]"
  by (intro nth_equalityI) (auto simp: less_Suc_eq eval_nat_numeral)

definition sd_wheel :: "u8 list \<Rightarrow> 32 word \<Rightarrow> u16" where
  "sd_wheel rep m = ucast ((scast (le16 (rep ! 2) (rep ! 3)) :: 32 word) * m)"

definition sd_new_state :: "'k sd_ops \<Rightarrow> bool \<Rightarrow> 'k sd_state \<Rightarrow> 'k sd_state" where
  "sd_new_state K click s =
     (let s = (if \<not> sd_initialized s then (fst (sd_delay_work_control K 0 False s))\<lparr>sd_initialized := True\<rparr> else s);
          s = (if sd_prev_click s \<noteq> click then fst (sd_delay_work_control K 2 (\<not> click) s) else s)
      in fst (sd_restart_sleep_timer K 120 (s\<lparr>sd_prev_click := click\<rparr>)))"

lemma sd_kcall_fields [simp]:
  "sd_current_multiplier (fst (sd_kcall f s)) = sd_current_multiplier s"
  "sd_haptic_enabled (fst (sd_kcall f s)) = sd_haptic_enabled s"
  "sd_prev_click (fst (sd_kcall f s)) = sd_prev_click s"
  "sd_initialized (fst (sd_kcall f s)) = sd_initialized s"
  "sd_kernel (fst (sd_kcall f s)) = fst (f (sd_kernel s))"
  by (simp_all add: sd_kcall_def split: prod.split)

lemma sd_work_fields [simp]:
  "sd_current_multiplier (fst (sd_delay_work_control K n c s)) = sd_current_multiplier s"
  "sd_prev_click (fst (sd_delay_work_control K n c s)) = sd_prev_click s"
  "sd_initialized (fst (sd_delay_work_control K n c s)) = sd_initialized s"
  by (simp_all add: sd_delay_work_control_def Let_def)

lemma sd_new_state_fields [simp]:
  "sd_current_multiplier (sd_new_state K click s) = sd_current_multiplier s"
  "sd_prev_click (sd_new_state K click s) = click"
  "sd_initialized (sd_new_state K click s)"
  by (simp_all add: sd_new_state_def Let_def sd_restart_sleep_timer_def)

lemma sd_device_event:
  assumes "length rep = 9" "rep ! 0 = 1"
  shows "device_event (sd_event K) 9 hid s rep = Some (sd_new_state K (bit (rep ! 1) 0) s,
    Some [1, rep ! 1 AND NOT (BIT 1), byte_of 0 (sd_wheel rep (sd_current_multiplier s)),
      byte_of 1 (sd_wheel rep (sd_current_multiplier s)), 0, 0, 0, 0, rep ! 8])"
    (is "_ = Some (_, Some ?new)")
proof -
  have w: "take 9 (report_buffer rep) = rep" using take_report_buffer [of rep 9] assms(1) by (simp add: report_buffer_def)
  have rep: "rep = [1, rep ! 1, rep ! 2, rep ! 3, rep ! 4, rep ! 5, rep ! 6, rep ! 7, rep ! 8]"
    using nine_bytes [OF assms(1)] assms(2) by simp
  have "sd_event K s \<lparr>ctx_hid = hid, ctx_size = int (length rep)\<rparr> (Some rep) =
      Some (sd_new_state K (bit (rep ! 1) 0) s, ?new, 0)"
    by (subst rep) (simp add: sd_event_def sd_new_state_def sd_wheel_def Let_def)
  with w have "device_event (sd_event K) 9 hid s rep = Some (sd_new_state K (bit (rep ! 1) 0) s, Some (take (length rep) ?new))"
    using assms(1) by (intro device_event_in_place) simp_all
  then show ?thesis using assms(1) by simp
qed

lemma sd_device_event_dropped:
  assumes "rep \<noteq> []" "rep ! 0 \<noteq> 1"
  shows "device_event (sd_event K) 9 hid s rep = Some (s, None)"
proof (rule device_event_dropped)
  let ?w = "take 9 (report_buffer rep)"
  have "?w ! 0 = rep ! 0" "length ?w = 9" using assms(1) by (simp_all add: report_buffer_nth length_report_buffer)
  then show "sd_event K s \<lparr>ctx_hid = hid, ctx_size = int (length rep)\<rparr> (Some ?w) = Some (s, ?w, - 1)"
    using assms(2) by (simp add: sd_event_def del: nth_take length_take)
qed simp_all

lemma ucast_of_int_32: "(ucast (word_of_int n :: 32 word) :: u16) = word_of_int n"
  by (rule bit_word_eqI) (simp add: bit_ucast_iff bit_word_of_int_iff)

lemma sint_sd_wheel:
  assumes "- 32768 \<le> sint (le16 (rep ! 2) (rep ! 3)) * sint m" "sint (le16 (rep ! 2) (rep ! 3)) * sint m < 32768"
  shows "sint (sd_wheel rep m) = sint (le16 (rep ! 2) (rep ! 3)) * sint m"
proof -
  let ?x = "le16 (rep ! 2) (rep ! 3)"
  have x: "(scast ?x :: 32 word) = word_of_int (sint ?x)" by (rule scast_eq)
  have "(scast ?x :: 32 word) * m = word_of_int (sint ?x) * word_of_int (sint m)" unfolding x by simp
  then have "(scast ?x :: 32 word) * m = word_of_int (sint ?x * sint m)" by (simp only: wi_hom_mult)
  then have "sd_wheel rep m = word_of_int (sint ?x * sint m)" by (simp only: sd_wheel_def ucast_of_int_32)
  then have "sint (sd_wheel rep m) = signed_take_bit 15 (sint ?x * sint m)"
    by (simp only: signed_of_int) simp
  then show ?thesis using assms by (simp add: signed_take_bit_int_eq_self)
qed

lemma le16_zero: "le16 0 0 = 0"
  by (simp add: le16_def)

lemma signed_u16: "signed 2 (uint (w :: u16)) = sint w"
proof -
  have u: "0 \<le> uint w" "uint w < 65536" using uint_lt2p [of w] by simp_all
  have "sint w = signed_take_bit 15 (uint w)" by (simp add: sint_uint)
  also have "\<dots> = (uint w + 32768) mod 65536 - 32768" by (simp add: signed_take_bit_eq_take_bit_shift take_bit_eq_mod)
  also have "\<dots> = (if uint w < 32768 then uint w else uint w - 65536)"
  proof (cases "uint w < 32768")
    case False
    then have "(uint w + 32768) mod 65536 = uint w - 32768"
      using u mod_add_self2 [of "uint w - 32768" 65536] mod_pos_pos_trivial [of "uint w - 32768" 65536]
      by (simp add: algebra_simps)
    then show ?thesis unfolding if_not_P [OF False] by linarith
  qed (use u in simp)
  finally show ?thesis by (simp add: signed_def)
qed

text \<open>
  An input report of the Surface Dial is delivered with its length and shows, through the installed
  descriptor, its button, no motion in X and Y, and the wheel step times the multiplier in force, exactly for
  steps of up to 273 units (0 until the first work has run); a report with another id is dropped.
\<close>

theorem sd_wheel_report:
  assumes "length rep = 9" "- 273 \<le> sint (le16 (rep ! 2) (rep ! 3))" "sint (le16 (rep ! 2) (rep ! 3)) \<le> 273"
    "sd_current_multiplier s \<in> {0, sd_LOW_MULTIPLIER, sd_HIGH_MULTIPLIER}"
  shows "\<exists>s' out. device_event (sd_event K) 9 hid s rep = Some (s', out) \<and>
    (case out of None \<Rightarrow> rep ! 0 \<noteq> 1 \<and> s' = s
     | Some out \<Rightarrow> rep ! 0 = 1 \<and> sd_prev_click s' = bit (rep ! 1) 0 \<and> sd_initialized s' \<and>
         conforms [(1, 9)] out \<and>
         usage_value sd_fixed_rdesc out 0x90001 = Some (of_bool (bit (rep ! 1) 0)) \<and>
         map_option (signed 2) (usage_value sd_fixed_rdesc out 0x10038)
           = Some (sint (le16 (rep ! 2) (rep ! 3)) * sint (sd_current_multiplier s)) \<and>
         usage_value sd_fixed_rdesc out 0x10030 = Some 0 \<and> usage_value sd_fixed_rdesc out 0x10031 = Some 0)"
proof (cases "rep ! 0 = 1")
  case True
  let ?x = "sint (le16 (rep ! 2) (rep ! 3))"
  define w where "w = sd_wheel rep (sd_current_multiplier s)"
  define b where "b = rep ! 1 AND NOT (BIT 1)"
  define out where "out = [1, b, byte_of 0 w, byte_of 1 w, 0, 0, 0, 0, rep ! 8]"
  have m: "sint (sd_current_multiplier s) \<in> {0, 120, 3}" using assms(4) by auto
  then have "- 32768 \<le> ?x * sint (sd_current_multiplier s) \<and> ?x * sint (sd_current_multiplier s) < 32768"
    using assms(2,3) by auto
  then have wheel: "sint w = ?x * sint (sd_current_multiplier s)" unfolding w_def by (intro sint_sd_wheel) auto
  have reads: "read_bits out 8 1 = of_bool (bit (rep ! 1) 0)" "read_bits out 16 16 = uint w"
      "read_bits out 32 16 = 0" "read_bits out 48 16 = 0"
    using read_bit [of 0 1 out] read_le16 [of 2 out] read_le16 [of 4 out] read_le16 [of 6 out]
    by (simp_all add: out_def le16_bytes [unfolded One_nat_def] b_def bit_and_iff bit_not_iff bit_BIT le16_zero)
  have val: "usage_value sd_fixed_rdesc out u =
      map_option (\<lambda>(off, n). read_bits out (nat off) (nat n)) (usage_slot sd_fixed_rdesc 1 u)" for u
    by (simp add: usage_value_def out_def)
  have ev: "device_event (sd_event K) 9 hid s rep = Some (sd_new_state K (bit (rep ! 1) 0) s, Some out)"
    using sd_device_event [OF assms(1) True] by (simp add: out_def b_def w_def)
  have "conforms [(1, 9)] out" by (simp add: conforms_def out_def)
  with ev True show ?thesis
    by (intro exI [of _ "sd_new_state K (bit (rep ! 1) 0) s"] exI [of _ "Some out"])
      (simp add: val usage_slot_def sd_fixed_rdesc_layout_1 reads [unfolded One_nat_def] signed_u16 wheel)
next
  case False
  moreover have "rep \<noteq> []" using assms(1) by auto
  ultimately show ?thesis using sd_device_event_dropped by fastforce
qed

text \<open>
  The kernel of the witnesses: its state is whether the haptic timer is armed and the last feature report of
  the device; every request succeeds.
\<close>

definition sd_kernel0 :: "(bool \<times> u8 list) sd_ops" where
  "sd_kernel0 = \<lparr>
     sk_allocate = \<lambda>id. Some \<lparr>hdev_id = id, hdev_bus = 5, hdev_product = 0x91b, hdev_name = []\<rparr>,
     sk_get_feature = \<lambda>ctx buf (t, rep). ((t, rep), if length rep = length buf then rep else buf, int (length buf)),
     sk_set_feature = \<lambda>ctx buf (t, rep). ((t, buf), int (length buf)),
     sk_output = \<lambda>ctx buf k. (k, int (length buf)),
     sk_timer_init = \<lambda>key k. k, sk_timer_set_callback = \<lambda>key cb k. k,
     sk_wq_init = \<lambda>key k. k, sk_wq_set_callback = \<lambda>key cb k. k,
     sk_timer_start = \<lambda>key ns (t, rep). ((t \<or> key = MAP_KEY_HAPTIC, rep), 0),
     sk_timer_cancel = \<lambda>key (t, rep). (t \<and> key \<noteq> MAP_KEY_HAPTIC, rep),
     sk_wq_start = \<lambda>key k. (k, 0)\<rparr>"

theorem sd_wheel_report_witness:
  "\<exists>s' out. device_event (sd_event sd_kernel0) 9 \<lparr>hdev_id = 1, hdev_bus = 5, hdev_product = 0x91b, hdev_name = []\<rparr>
       ((sd_boot (False, []))\<lparr>sd_current_multiplier := sd_LOW_MULTIPLIER\<rparr>) [1, 3, 0xfe, 0xff, 7, 0, 9, 0, 58]
     = Some (s', Some out) \<and>
     map_option (signed 2) (usage_value sd_fixed_rdesc out 0x10038) = Some (- 240) \<and>
     usage_value sd_fixed_rdesc out 0x90001 = Some 1"
proof -
  have wheel: "sint (le16 ([1, 3, 0xfe, 0xff, 7, 0, 9, 0, 58] ! 2) ([1, 3, 0xfe, 0xff, 7, 0, 9, 0, 58] ! 3)) = - 2"
    by code_simp
  then show ?thesis
    using sd_wheel_report [of "[1, 3, 0xfe, 0xff, 7, 0, 9, 0, 58]" "(sd_boot (False, []))\<lparr>sd_current_multiplier := sd_LOW_MULTIPLIER\<rparr>"
        sd_kernel0 "\<lparr>hdev_id = 1, hdev_bus = 5, hdev_product = 0x91b, hdev_name = []\<rparr>"]
    by (fastforce split: option.splits)
qed

text \<open>The laws of the kernel the work relies on: reading and writing the feature report keep its size.\<close>

definition sd_feature_ok :: "'k sd_ops \<Rightarrow> bool" where
  "sd_feature_ok K \<longleftrightarrow> (\<forall>ctx buf k. length (fst (snd (sk_get_feature K ctx buf k))) = length buf)"

text \<open>
  When the work of the Surface Dial runs it asks the device for a resolution and, exactly when the device
  takes the eight bytes, sets the multiplier that goes with it: a full turn counts 8640 wheel units in both
  modes. The request leaves the last three bytes of the feature report as the device had them.
\<close>

theorem sd_work_resolution:
  assumes "sd_feature_ok K" "length stack = 8" "sk_allocate K (sd_hid s MAP_KEY_HAPTIC) = Some ctx"
  shows "\<exists>s' k1 old k2 new r r'. sd_haptic_wq_cb K stack s = Some (s', 0) \<and>
    sk_get_feature K ctx (stack[0 := 1]) (sd_kernel s) = (k1, old, r') \<and> sk_set_feature K ctx new k1 = (k2, r) \<and>
    drop 5 new = drop 5 old \<and> length new = 8 \<and>
    (if r = 8 then uint (le16 (new ! 1) (new ! 2)) * sint (sd_current_multiplier s') = 8640 \<and>
        (sint (sd_current_multiplier s') = 120 \<longleftrightarrow> sd_haptic_enabled s)
     else sd_current_multiplier s' = sd_current_multiplier s)"
proof -
  obtain k1 old r' where get: "sk_get_feature K ctx (stack[0 := 1]) (sd_kernel s) = (k1, old, r')" by (metis prod_cases3)
  have old: "length old = 8"
    using assms(1,2) get unfolding sd_feature_ok_def by (metis fst_conv length_list_update snd_conv)
  define new where "new = (if sd_haptic_enabled s then old[1 := 72, 2 := 0, 3 := 0, 4 := 3] else old[1 := 0x40, 2 := 0x0b, 4 := 0])"
  have fill: "sd_fill_feature (sd_haptic_enabled s) old = Some new" using old by (simp add: new_def sd_fill_feature_def)
  obtain k2 r where set: "sk_set_feature K ctx new k1 = (k2, r)" by fastforce
  obtain k3 r3 where notify: "sk_output K ctx [1, 0, 5, 80, 0] k2 = (k3, r3)" by fastforce
  have new: "length new = 8" "drop 5 new = drop 5 old" using old by (simp_all add: new_def)
  have bytes: "uint (le16 (new ! 1) (new ! 2)) = (if sd_haptic_enabled s then 72 else 2880)"
    using old by (simp add: new_def nth_list_update le16_def)
  let ?s' = "s\<lparr>sd_current_multiplier :=
      (if r = 8 then (if sd_haptic_enabled s then 120 else 3) else sd_current_multiplier s), sd_kernel := k3\<rparr>"
  have work: "sd_haptic_wq_cb K stack s = Some (?s', 0)"
    using assms(2,3) get fill set notify by (simp add: sd_haptic_wq_cb_def sd_set_res_and_haptic_def)
  show ?thesis
    by (rule exI [of _ ?s'], rule exI [of _ k1], rule exI [of _ old], rule exI [of _ k2], rule exI [of _ new],
        rule exI [of _ r], rule exI [of _ r']) (simp add: work get set new bytes [simplified])
qed

theorem sd_work_resolution_witness:
  "\<exists>s'. sd_haptic_wq_cb sd_kernel0 (replicate 8 0xaa) (sd_boot (False, [])) = Some (s', 0) \<and>
     sint (sd_current_multiplier s') = 120"
proof -
  have ok: "sd_feature_ok sd_kernel0" by (simp add: sd_feature_ok_def sd_kernel0_def)
  let ?s = "sd_boot (False, [])"
  have alloc: "sk_allocate sd_kernel0 (sd_hid ?s MAP_KEY_HAPTIC) =
      Some \<lparr>hdev_id = 0, hdev_bus = 5, hdev_product = 0x91b, hdev_name = []\<rparr>"
    by (simp add: sd_kernel0_def sd_boot_def)
  show ?thesis
    using sd_work_resolution [OF ok _ alloc, of "replicate 8 0xaa"]
    by (auto simp: sd_kernel0_def sd_boot_def)
qed

section \<open>The haptic timer\<close>

text \<open>
  What the timers of the kernel do, seen through \<open>armed\<close>, the state of the haptic timer: starting arms it,
  cancelling and expiring disarm it, and nothing else touches it.
\<close>

definition sd_timer_ok :: "'k sd_ops \<Rightarrow> ('k \<Rightarrow> bool) \<Rightarrow> ('k \<Rightarrow> 'k) \<Rightarrow> bool" where
  "sd_timer_ok K armed expire \<longleftrightarrow>
     (\<forall>k ns. armed (fst (sk_timer_start K MAP_KEY_HAPTIC ns k))) \<and>
     (\<forall>k. \<not> armed (sk_timer_cancel K MAP_KEY_HAPTIC k)) \<and> (\<forall>k. \<not> armed (expire k)) \<and>
     (\<forall>k ns. armed (fst (sk_timer_start K MAP_KEY_SLEEP ns k)) = armed k) \<and>
     (\<forall>k cb. armed (sk_timer_set_callback K MAP_KEY_HAPTIC cb k) = armed k) \<and>
     (\<forall>k. armed (fst (sk_wq_start K MAP_KEY_HAPTIC k)) = armed k) \<and>
     (\<forall>k ctx buf. armed (fst (sk_get_feature K ctx buf k)) = armed k) \<and>
     (\<forall>k ctx buf. armed (fst (sk_set_feature K ctx buf k)) = armed k) \<and>
     (\<forall>k ctx buf. armed (fst (sk_output K ctx buf k)) = armed k)"

text \<open>Runs of the program: reports, the two timers expiring, and the work.\<close>

inductive sd_run :: "'k sd_ops \<Rightarrow> ('k \<Rightarrow> bool) \<Rightarrow> ('k \<Rightarrow> 'k) \<Rightarrow> 'k sd_state \<Rightarrow> bool" for K armed expire where
  boot: "\<not> armed k \<Longrightarrow> sd_run K armed expire (sd_boot k)"
| report: "sd_run K armed expire s \<Longrightarrow> length rep = 9 \<Longrightarrow>
    device_event (sd_event K) 9 hid s rep = Some (s', out) \<Longrightarrow> sd_run K armed expire s'"
| haptic: "sd_run K armed expire s \<Longrightarrow> armed (sd_kernel s) \<Longrightarrow>
    sd_run K armed expire (fst (sd_haptic_timer_cb K (s\<lparr>sd_kernel := expire (sd_kernel s)\<rparr>)))"
| sleep: "sd_run K armed expire s \<Longrightarrow> sd_run K armed expire (fst (sd_sleep_timer_cb s))"
| work: "sd_run K armed expire s \<Longrightarrow> sd_haptic_wq_cb K stack s = Some (s', r) \<Longrightarrow> sd_run K armed expire s'"

lemma sd_armed_step:
  assumes "sd_timer_ok K armed expire" "armed (sd_kernel s) \<longrightarrow> sd_prev_click s"
  shows "armed (sd_kernel (sd_new_state K click s)) \<longrightarrow> click"
  using assms
  by (auto simp: sd_timer_ok_def sd_new_state_def sd_delay_work_control_def sd_restart_sleep_timer_def Let_def)

lemma sd_work_fields_kept:
  assumes "sd_timer_ok K armed expire" "sd_haptic_wq_cb K stack s = Some (s', r)"
  shows "armed (sd_kernel s') = armed (sd_kernel s) \<and> sd_prev_click s' = sd_prev_click s \<and>
    sd_current_multiplier s' \<in> {sd_current_multiplier s, sd_LOW_MULTIPLIER, sd_HIGH_MULTIPLIER}"
proof (cases "sk_allocate K (sd_hid s MAP_KEY_HAPTIC)")
  case None
  then show ?thesis using assms(2) by (simp add: sd_haptic_wq_cb_def sd_set_res_and_haptic_def)
next
  case (Some ctx)
  from assms(2) Some obtain b where b: "wr stack 0 1 = Some b"
    by (auto simp: sd_haptic_wq_cb_def sd_set_res_and_haptic_def bind_eq_Some_conv)
  obtain k1 old r1 where get: "sk_get_feature K ctx b (sd_kernel s) = (k1, old, r1)" by (metis prod_cases3)
  from assms(2) Some b get obtain new where fill: "sd_fill_feature (sd_haptic_enabled s) old = Some new"
    by (auto simp: sd_haptic_wq_cb_def sd_set_res_and_haptic_def bind_eq_Some_conv)
  obtain k2 r2 where set: "sk_set_feature K ctx new k1 = (k2, r2)" by fastforce
  obtain k3 r3 where notify: "sk_output K ctx [1, 0, 5, 80, 0] k2 = (k3, r3)" by fastforce
  have s': "s' = s\<lparr>sd_current_multiplier :=
      (if r2 = 8 then (if sd_haptic_enabled s then 120 else 3) else sd_current_multiplier s), sd_kernel := k3\<rparr>"
    using assms(2) Some b get fill set notify by (simp add: sd_haptic_wq_cb_def sd_set_res_and_haptic_def)
  have "armed k1 = armed (sd_kernel s)" "armed k2 = armed k1" "armed k3 = armed k2"
    using assms(1) get set notify unfolding sd_timer_ok_def by (metis fst_conv)+
  then show ?thesis using s' by simp
qed



end
