(* ===== verification/Test_Wrapper.thy ===== *)
theory Test_Wrapper
  imports Kernel_Iface "HOL-Library.Multiset" "HOL-Library.Signed_Division"
begin

text \<open>
  The harness that runs the programs outside the kernel (\<open>test/test-wrapper.c\<close>): its emulation of timers
  and work queues. \<open>hid_bpf_get_data\<close> is in \<open>Kernel_Iface\<close>; the other functions only hand their arguments to
  the Python callbacks.
\<close>

text \<open>
  A pending timer: the callback to run (\<open>struct test_async_cb\<close>), its delay and the address \<open>'t\<close> of the timer.
\<close>

record ('t, 'cb) pending_timer =
  pt_cb :: 'cb
  pt_delay :: int
  pt_timer :: 't

text \<open>
  The state: the first \<open>num_pending_timers\<close> entries of the array, the nesting depth of work queue callbacks, the
  virtual time in milliseconds, and \<open>'p\<close>, the state of the program under test.
\<close>

record ('t, 'cb, 'p) wrapper =
  wr_pending :: "('t, 'cb) pending_timer list"
  wr_depth :: int
  wr_time :: u64
  wr_program :: 'p

abbreviation (input) MAX_PENDING_TIMERS :: nat where "MAX_PENDING_TIMERS \<equiv> 16"

text \<open>
  The Python callback \<open>async_start\<close> finds the callback of a timer or work queue, or fails; \<open>run\<close> executes one.
\<close>

record ('t, 'cb, 'p) wrapper_callbacks =
  wc_async_start :: "'t \<Rightarrow> int \<Rightarrow> int \<times> 'cb"
  wc_run :: "'cb \<Rightarrow> ('t, 'cb, 'p) wrapper \<Rightarrow> ('t, 'cb, 'p) wrapper"

section \<open>Operations\<close>

text \<open>The first entry of the timer is replaced by the last one; the result says whether there was one.\<close>

fun find_timer :: "'t \<Rightarrow> ('t, 'cb) pending_timer list \<Rightarrow> nat option" where
  "find_timer timer [] = None"
| "find_timer timer (p # ps) =
     (if pt_timer p = timer then Some 0 else map_option Suc (find_timer timer ps))"

definition remove_pending_timer ::
    "'t \<Rightarrow> ('t, 'cb, 'p) wrapper \<Rightarrow> ('t, 'cb, 'p) wrapper \<times> bool" where
  "remove_pending_timer timer w =
     (let ps = wr_pending w in
      case find_timer timer ps of
        None \<Rightarrow> (w, False)
      | Some i \<Rightarrow>
          (let n = length ps - 1;
               ps' = (if i \<noteq> n then ps[i := ps ! n] else ps)
           in (w\<lparr>wr_pending := take n ps'\<rparr>, True)))"

text \<open>\<open>delay\<close> is an \<open>int\<close>: a caller's 64-bit delay has been truncated to 32 bits.\<close>

definition truncate_delay :: "64 word \<Rightarrow> int" where
  "truncate_delay ns = sint (ucast ns :: 32 word)"

definition bpf_timer_start ::
    "('t, 'cb, 'p) wrapper_callbacks \<Rightarrow> 't \<Rightarrow> int \<Rightarrow> ('t, 'cb, 'p) wrapper \<Rightarrow> ('t, 'cb, 'p) wrapper \<times> int" where
  "bpf_timer_start C timer delay w =
     (let (err, cb) = wc_async_start C timer delay in
      if err \<noteq> 0 then (w, err)
      else
        (let w = fst (remove_pending_timer timer w) in
         if wr_depth w > 0 \<and> delay > 0 then
           ((if length (wr_pending w) < MAX_PENDING_TIMERS
             then w\<lparr>wr_pending := wr_pending w @ [\<lparr>pt_cb = cb, pt_delay = delay, pt_timer = timer\<rparr>]\<rparr>
             else w), 0)
         else
           (let current_time = wr_time w;
                w = w\<lparr>wr_time := current_time + word_of_int (delay sdiv 1000 sdiv 1000)\<rparr>;
                w = wc_run C cb w
            in (w\<lparr>wr_time := current_time\<rparr>, 0))))"

definition bpf_timer_cancel :: "'t \<Rightarrow> ('t, 'cb, 'p) wrapper \<Rightarrow> ('t, 'cb, 'p) wrapper \<times> int" where
  "bpf_timer_cancel timer w = (let (w, found) = remove_pending_timer timer w in (w, if found then 0 else 1))"

definition bpf_wq_start ::
    "('t, 'cb, 'p) wrapper_callbacks \<Rightarrow> 't \<Rightarrow> ('t, 'cb, 'p) wrapper \<Rightarrow> ('t, 'cb, 'p) wrapper \<times> int" where
  "bpf_wq_start C wq w =
     (let (err, cb) = wc_async_start C wq 0 in
      if err \<noteq> 0 then (w, err)
      else
        (let w = w\<lparr>wr_depth := wr_depth w + 1\<rparr>;
             w = wc_run C cb w
         in (w\<lparr>wr_depth := wr_depth w - 1\<rparr>, 0)))"


section \<open>The pending timers\<close>

lemma find_timer_None: "find_timer t ps = None \<longleftrightarrow> t \<notin> pt_timer ` set ps"
  by (induction ps) auto

lemma find_timer_Some: "find_timer t ps = Some i \<Longrightarrow> i < length ps \<and> pt_timer (ps ! i) = t"
  by (induction ps arbitrary: i) (auto split: if_splits)

text \<open>Overwriting an entry with the last one and shrinking the list removes exactly that entry.\<close>

lemma mset_swap_remove:
  assumes "i < length ps"
  shows "mset (take (length ps - 1) (if i \<noteq> length ps - 1 then ps[i := ps ! (length ps - 1)] else ps)) =
    mset ps - {#ps ! i#}"
proof -
  obtain qs p where ps: "ps = qs @ [p]" using assms by (cases ps rule: rev_cases) auto
  show ?thesis
  proof (cases "i = length qs")
    case False
    then have "i < length qs" using assms ps by simp
    then show ?thesis by (simp add: ps nth_append list_update_append mset_update add_mset_commute)
  qed (simp add: ps)
qed

definition wrapper_ok :: "('t, 'cb, 'p) wrapper \<Rightarrow> bool" where
  "wrapper_ok w \<longleftrightarrow> length (wr_pending w) \<le> MAX_PENDING_TIMERS \<and> distinct (map pt_timer (wr_pending w))"

lemma distinct_timer_filter:
  assumes "distinct (map pt_timer ps)" "p \<in> set ps"
  shows "mset ps - {#p#} = filter_mset (\<lambda>q. pt_timer q \<noteq> pt_timer p) (mset ps)"
  using assms
proof (induction ps)
  case (Cons q ps)
  show ?case
  proof (cases "p = q")
    case True
    have "filter_mset (\<lambda>r. pt_timer r \<noteq> pt_timer q) (mset ps) = mset ps"
      using Cons.prems(1) by (intro filter_mset_cong [of _ _ _ "\<lambda>_. True", simplified]) (auto simp: image_iff dest: sym)
    then show ?thesis using True by simp
  next
    case False
    then have p: "p \<in> set ps" "pt_timer q \<noteq> pt_timer p" using Cons.prems by (auto simp: image_iff)
    then have "mset ps - {#p#} = filter_mset (\<lambda>q. pt_timer q \<noteq> pt_timer p) (mset ps)"
      using Cons by simp
    then show ?thesis using False p by simp
  qed
qed simp


lemma remove_pending:
  assumes "wrapper_ok w"
  shows "\<exists>ps. remove_pending_timer t w = (w\<lparr>wr_pending := ps\<rparr>, t \<in> pt_timer ` set (wr_pending w)) \<and>
    mset ps = filter_mset (\<lambda>p. pt_timer p \<noteq> t) (mset (wr_pending w))"
proof (cases "find_timer t (wr_pending w)")
  case None
  then have t: "t \<notin> pt_timer ` set (wr_pending w)" by (simp add: find_timer_None)
  then have "filter_mset (\<lambda>p. pt_timer p \<noteq> t) (mset (wr_pending w)) = mset (wr_pending w)"
    by (intro filter_mset_cong [of _ _ _ "\<lambda>_. True", simplified]) (auto simp: image_iff dest: sym)
  then show ?thesis using None t by (intro exI [of _ "wr_pending w"]) (simp add: remove_pending_timer_def)
next
  case (Some i)
  let ?ps = "wr_pending w"
  let ?n = "length ?ps - 1"
  let ?qs = "take ?n (if i \<noteq> ?n then ?ps[i := ?ps ! ?n] else ?ps)"
  have i: "i < length ?ps" "pt_timer (?ps ! i) = t" using find_timer_Some [OF Some] by simp_all
  then have t: "t \<in> pt_timer ` set ?ps" by (metis image_eqI nth_mem)
  have "remove_pending_timer t w = (w\<lparr>wr_pending := ?qs\<rparr>, True)"
    using Some by (simp only: remove_pending_timer_def Let_def option.case)
  moreover have "mset ?qs = filter_mset (\<lambda>p. pt_timer p \<noteq> t) (mset ?ps)"
    using mset_swap_remove [OF i(1)] distinct_timer_filter [of ?ps "?ps ! i"] i assms by (simp add: wrapper_ok_def)
  ultimately show ?thesis using t by (intro exI [of _ ?qs]) simp
qed

lemma wrapper_ok_filter:
  assumes "wrapper_ok w" "mset ps = filter_mset (\<lambda>p. pt_timer p \<noteq> t) (mset (wr_pending w))"
  shows "length ps \<le> MAX_PENDING_TIMERS \<and> distinct (map pt_timer ps) \<and> t \<notin> pt_timer ` set ps"
proof -
  have ps: "mset ps = mset (filter (\<lambda>p. pt_timer p \<noteq> t) (wr_pending w))" using assms(2) by simp
  then have "length ps \<le> length (wr_pending w)" using mset_eq_length [OF ps] by simp
  moreover have "mset (map pt_timer ps) = mset (map pt_timer (filter (\<lambda>p. pt_timer p \<noteq> t) (wr_pending w)))"
    using ps by simp
  then have "distinct (map pt_timer ps) = distinct (map pt_timer (filter (\<lambda>p. pt_timer p \<noteq> t) (wr_pending w)))"
    by (rule mset_eq_imp_distinct_iff)
  moreover have "set ps = set (filter (\<lambda>p. pt_timer p \<noteq> t) (wr_pending w))" using ps by (rule mset_eq_setD)
  ultimately show ?thesis using assms(1) by (auto simp: wrapper_ok_def distinct_map_filter)
qed

text \<open>
  Cancelling a timer of the harness answers 0 exactly when the timer was pending, and leaves pending exactly
  the other timers, each with its callback and delay.
\<close>

theorem wrapper_cancel:
  assumes "wrapper_ok w"
  shows "\<exists>w'. bpf_timer_cancel t w = (w', if t \<in> pt_timer ` set (wr_pending w) then 0 else 1) \<and>
    mset (wr_pending w') = filter_mset (\<lambda>p. pt_timer p \<noteq> t) (mset (wr_pending w)) \<and> wrapper_ok w'"
proof -
  obtain ps where "remove_pending_timer t w = (w\<lparr>wr_pending := ps\<rparr>, t \<in> pt_timer ` set (wr_pending w))"
    "mset ps = filter_mset (\<lambda>p. pt_timer p \<noteq> t) (mset (wr_pending w))"
    using remove_pending [OF assms] by blast
  moreover from this(2) have "wrapper_ok (w\<lparr>wr_pending := ps\<rparr>)"
    using wrapper_ok_filter [OF assms] by (simp add: wrapper_ok_def)
  ultimately show ?thesis by (intro exI [of _ "w\<lparr>wr_pending := ps\<rparr>"]) (simp add: bpf_timer_cancel_def)
qed

theorem wrapper_cancel_witness:
  "snd (bpf_timer_cancel (1 :: nat) \<lparr>wr_pending = [\<lparr>pt_cb = (), pt_delay = 7, pt_timer = 1\<rparr>, \<lparr>pt_cb = (), pt_delay = 8, pt_timer = 2\<rparr>],
     wr_depth = 1, wr_time = 0, wr_program = ()\<rparr>) = 0"
  using wrapper_cancel [of "\<lparr>wr_pending = [\<lparr>pt_cb = (), pt_delay = 7, pt_timer = 1 :: nat\<rparr>, \<lparr>pt_cb = (), pt_delay = 8, pt_timer = 2\<rparr>],
     wr_depth = 1, wr_time = 0, wr_program = ()\<rparr>" 1]
  by (auto simp: wrapper_ok_def)

text \<open>
  Whatever callbacks do, as long as they leave them so, the pending timers of the harness stay at most sixteen,
  one entry per timer; the virtual time and the nesting depth are what they were before the call.
\<close>

theorem wrapper_start_ok:
  assumes "wrapper_ok w"
    "\<And>cb v. wrapper_ok v \<Longrightarrow> wrapper_ok (wc_run C cb v) \<and> wr_depth (wc_run C cb v) = wr_depth v \<and> wr_time (wc_run C cb v) = wr_time v"
  shows "wrapper_ok (fst (bpf_timer_start C t delay w)) \<and> wrapper_ok (fst (bpf_wq_start C t w)) \<and>
    wr_time (fst (bpf_timer_start C t delay w)) = wr_time w \<and> wr_depth (fst (bpf_wq_start C t w)) = wr_depth w"
proof (intro conjI)
  obtain ps where rem: "remove_pending_timer t w = (w\<lparr>wr_pending := ps\<rparr>, t \<in> pt_timer ` set (wr_pending w))"
    and ps: "mset ps = filter_mset (\<lambda>p. pt_timer p \<noteq> t) (mset (wr_pending w))"
    using remove_pending [OF assms(1)] by blast
  note ok = wrapper_ok_filter [OF assms(1) ps]
  have "wrapper_ok (w\<lparr>wr_pending := ps, wr_time := x\<rparr>)" for x using ok by (simp add: wrapper_ok_def)
  note run = assms(2) [OF this]
  obtain err cb where start: "wc_async_start C t delay = (err, cb)" by fastforce
  show "wrapper_ok (fst (bpf_timer_start C t delay w))"
    using assms(1) ok run rem start by (auto simp: bpf_timer_start_def wrapper_ok_def Let_def)
  show "wr_time (fst (bpf_timer_start C t delay w)) = wr_time w"
    using rem start by (simp add: bpf_timer_start_def Let_def)
  obtain err' cb' where start': "wc_async_start C t 0 = (err', cb')" by fastforce
  have "wrapper_ok (w\<lparr>wr_depth := wr_depth w + 1\<rparr>)" using assms(1) by (simp add: wrapper_ok_def)
  note run' = assms(2) [OF this]
  show "wrapper_ok (fst (bpf_wq_start C t w))"
    using assms(1) run' start' by (auto simp: bpf_wq_start_def wrapper_ok_def Let_def)
  show "wr_depth (fst (bpf_wq_start C t w)) = wr_depth w"
    using run' start' by (simp add: bpf_wq_start_def Let_def)
qed

theorem wrapper_start_ok_witness:
  "wrapper_ok (fst (bpf_timer_start \<lparr>wc_async_start = \<lambda>t d. (0, ()), wc_run = \<lambda>cb v. v\<lparr>wr_program := wr_program v + 1\<rparr>\<rparr> (3 :: nat) 7
     \<lparr>wr_pending = [], wr_depth = 1, wr_time = 0, wr_program = (0 :: nat)\<rparr>))"
  using wrapper_start_ok [of "\<lparr>wr_pending = [], wr_depth = 1, wr_time = 0, wr_program = (0 :: nat)\<rparr>"
      "\<lparr>wc_async_start = \<lambda>t d. (0, ()), wc_run = \<lambda>cb v. v\<lparr>wr_program := wr_program v + 1\<rparr>\<rparr>" "3 :: nat" 7]
  by (simp add: wrapper_ok_def)

text \<open>
  The harness passes on exactly the delays below 2147483648 ns (2.1 s); longer ones are cut to 32 bits.
\<close>

theorem wrapper_delay_exact: "(truncate_delay ns = int (unat ns)) = (unat ns < 2 ^ 31)"
proof
  assume eq: "truncate_delay ns = int (unat ns)"
  have "sint (ucast ns :: 32 word) < 2 ^ 31" using sint_lt [of "ucast ns :: 32 word"] by simp
  then have "int (unat ns) < int (2 ^ 31)" using eq by (simp add: truncate_delay_def)
  then show "unat ns < 2 ^ 31" by (simp only: of_nat_less_iff)
next
  assume "unat ns < 2 ^ 31"
  then have "int (unat ns) < int (2 ^ 31)" by (simp only: of_nat_less_iff)
  then have u: "uint ns < 2 ^ 31" by simp
  have "uint (ucast ns :: 32 word) = uint ns" using u by (simp add: unsigned_ucast_eq take_bit_int_eq_self)
  moreover have "- (2 ^ 31) \<le> uint ns" by (rule order_trans [OF _ uint_ge_0]) simp
  ultimately show "truncate_delay ns = int (unat ns)"
    using u by (simp add: truncate_delay_def sint_uint signed_take_bit_int_eq_self)
qed

end
