(* ===== verification/WALTOP_Tablet.thy ===== *)
theory WALTOP_Tablet
  imports Kernel_Iface Rdesc_Spec
begin

unbundle bit_operations_syntax

text \<open>
  \<open>0010-WALTOP__Batteryless-Tablet.bpf.c\<close>: the replacement descriptor, the pressure curve with its
  fixed-point logarithm, and the button translation.
\<close>


abbreviation (input) waltop_VID_WALTOP :: "'a::numeral" where "waltop_VID_WALTOP \<equiv> 0x172f"

abbreviation (input) waltop_PID_BATTERYLESS_TABLET :: "'a::numeral" where "waltop_PID_BATTERYLESS_TABLET \<equiv> 0x0505"

abbreviation (input) waltop_EXPECTED_RDESC_SIZE :: "'a::numeral" where "waltop_EXPECTED_RDESC_SIZE \<equiv> 335"

abbreviation (input) waltop_PEN_REPORT_ID :: "'a::numeral" where "waltop_PEN_REPORT_ID \<equiv> 16"

definition waltop_TIP_SWITCH :: u8 where "waltop_TIP_SWITCH = BIT 0"

definition waltop_BARREL_SWITCH :: u8 where "waltop_BARREL_SWITCH = BIT 1"

definition waltop_SECONDARY_BARREL_SWITCH :: u8 where "waltop_SECONDARY_BARREL_SWITCH = BIT 5"

definition waltop_fixed_rdesc :: "u8 list" where
  "waltop_fixed_rdesc = [
     0x05, 0x01,
     0x09, 0x02,
     0xa1, 0x01,
     0x85, 0x01,
     0x09, 0x01,
     0xa1, 0x00,
     0x05, 0x09,
     0x19, 0x01,
     0x29, 0x05,
     0x15, 0x00,
     0x25, 0x01,
     0x75, 0x01,
     0x95, 0x05,
     0x81, 0x02,
     0x75, 0x03,
     0x95, 0x01,
     0x81, 0x03,
     0x05, 0x01,
     0x09, 0x30,
     0x09, 0x31,
     0x09, 0x38,
     0x15, 0x81,
     0x25, 0x7f,
     0x75, 0x08,
     0x95, 0x03,
     0x81, 0x06,
     0x05, 0x0c,
     0x15, 0x81,
     0x25, 0x7f,
     0x75, 0x08,
     0x95, 0x01,
     0x0a, 0x38, 0x02,
     0x81, 0x06,
     0xc0,
     0xc0,
     0x05, 0x0d,
     0x09, 0x02,
     0xa1, 0x01,
     0x85, 0x02,
     0x09, 0x20,
     0xa1, 0x00,
     0x09, 0x00,
     0x15, 0x00,
     0x26, 0xff, 0x00,
     0x75, 0x08,
     0x95, 0x09,
     0x81, 0x02,
     0x09, 0x3f,
     0x09, 0x40,
     0x15, 0x00,
     0x26, 0xff, 0x00,
     0x75, 0x08,
     0x95, 0x02,
     0xb1, 0x02,
     0xc0,
     0x85, 0x05,
     0x05, 0x0d,
     0x09, 0x20,
     0xa1, 0x00,
     0x09, 0x00,
     0x15, 0x00,
     0x26, 0xff, 0x00,
     0x75, 0x08,
     0x95, 0x07,
     0x81, 0x02,
     0xc0,
     0x85, 0x0a,
     0x05, 0x0d,
     0x09, 0x20,
     0xa1, 0x00,
     0x09, 0x00,
     0x15, 0x00,
     0x26, 0xff, 0x00,
     0x75, 0x08,
     0x95, 0x07,
     0x81, 0x02,
     0xc0,
     0x85, 0x10,
     0x09, 0x20,
     0xa1, 0x00,
     0x09, 0x42,
     0x09, 0x44,
     0x09, 0x3c,
     0x09, 0x45,
     0x09, 0x32,
     0x09, 0x5a,
     0x15, 0x00,
     0x25, 0x01,
     0x75, 0x01,
     0x95, 0x06,
     0x81, 0x02,
     0x95, 0x02,
     0x81, 0x03,
     0x05, 0x01,
     0x09, 0x30,
     0x75, 0x10,
     0x95, 0x01,
     0xa4,
     0x55, 0x0d,
     0x65, 0x33,
     0x15, 0x00,
     0x26, 0x00, 0x7d,
     0x35, 0x00,
     0x46, 0x00, 0x7d,
     0x81, 0x02,
     0x09, 0x31,
     0x15, 0x00,
     0x26, 0x20, 0x4e,
     0x35, 0x00,
     0x46, 0x20, 0x4e,
     0x81, 0x02,
     0x05, 0x0d,
     0x09, 0x30,
     0x15, 0x00,
     0x26, 0xff, 0x07,
     0x35, 0x00,
     0x46, 0xff, 0x07,
     0x81, 0x02,
     0x05, 0x0d,
     0x09, 0x3d,
     0x09, 0x3e,
     0x15, 0xc4,
     0x25, 0x3c,
     0x75, 0x08,
     0x95, 0x02,
     0x81, 0x02,
     0xc0,
     0xc0,
     0x05, 0x01,
     0x09, 0x06,
     0xa1, 0x01,
     0x85, 0x0d,
     0x05, 0x07,
     0x19, 0xe0,
     0x29, 0xe7,
     0x15, 0x00,
     0x25, 0x01,
     0x75, 0x01,
     0x95, 0x08,
     0x81, 0x02,
     0x75, 0x08,
     0x95, 0x01,
     0x81, 0x01,
     0x05, 0x07,
     0x19, 0x00,
     0x29, 0x65,
     0x15, 0x00,
     0x25, 0x65,
     0x75, 0x08,
     0x95, 0x05,
     0x81, 0x00,
     0xc0,
     0x05, 0x0c,
     0x09, 0x01,
     0xa1, 0x01,
     0x85, 0x0c,
     0x09, 0xe9,
     0x09, 0xea,
     0x09, 0xe2,
     0x15, 0x00,
     0x25, 0x01,
     0x75, 0x01,
     0x95, 0x03,
     0x81, 0x06,
     0x75, 0x05,
     0x95, 0x01,
     0x81, 0x07,
     0xc0]"

lemma length_waltop_fixed_rdesc [simp]: "length waltop_fixed_rdesc = 337"
  by code_simp

text \<open>The descriptor is well formed except for a Push without its Pop, as in the original.\<close>

lemma waltop_fixed_rdesc_parsed:
  "case parse_rdesc waltop_fixed_rdesc of None \<Rightarrow> False | Some st \<Rightarrow>
     closed st \<and> length (p_stack st) = 1 \<and> list_all field_ok (p_fields st) \<and> whole_bytes st \<and>
     report_lengths 0x80 st = [(1, 6), (2, 10), (5, 8), (10, 8), (16, 10), (13, 8), (12, 2)]"
  by code_simp

section \<open>The pressure curve\<close>

text \<open>\<open>__builtin_clzg(x, 32)\<close>: the number of leading zeros, 32 for 0.\<close>

fun clz_from :: "nat \<Rightarrow> u32 \<Rightarrow> nat" where
  "clz_from 0 x = 0"
| "clz_from (Suc k) x = (if bit x k then 0 else Suc (clz_from k x))"

definition bitwidth32 :: "u32 \<Rightarrow> u32" where
  "bitwidth32 x = 32 - word_of_nat (clz_from 32 x)"

definition floor_log2_32 :: "u32 \<Rightarrow> u32" where
  "floor_log2_32 x = bitwidth32 x - 1"

definition scaled_log2 :: "u16 \<Rightarrow> u32" where
  "scaled_log2 v =
     (let XMAX = 2047;
          YMAX = 11;
          x = ucast v + 1;
          n = floor_log2_32 x;
          b = push_bit (unat n) 1;
          frac = push_bit YMAX (x - b);
          lerp = frac div b;
          log2 = push_bit YMAX n + lerp
      in drop_bit YMAX ((log2 * XMAX) div 11))"

text \<open>The pressure of the handler: linear up to 102, logarithmic above.\<close>

definition waltop_pressure :: "u16 \<Rightarrow> u16" where
  "waltop_pressure p = (if p \<le> 102 then p * 12 else ucast (scaled_log2 p))"

section \<open>Handlers\<close>

definition waltop_fix_rdesc :: "u8 program" where
  "waltop_fix_rdesc s c data = (case data of None \<Rightarrow> Some (s, [], 0) | Some d \<Rightarrow>
     do { d1 \<leftarrow> memcpy d 0 waltop_fixed_rdesc; Some (s, d1, int (length waltop_fixed_rdesc)) })"

interpretation waltop_fixup: replacing_fixup waltop_fix_rdesc "\<lambda>s c. Some waltop_fixed_rdesc"
  by unfold_locales (auto simp: waltop_fix_rdesc_def)

text \<open>
  The button byte: tip and barrel going down together, with neither of them held, are the second
  barrel switch. The state is the global \<open>last_button_state\<close>.
\<close>

definition waltop_buttons :: "u8 \<Rightarrow> u8 \<Rightarrow> u8" where
  "waltop_buttons last_button_state d1 =
     (let tip_switch = d1 AND waltop_TIP_SWITCH;
          barrel_switch = d1 AND waltop_BARREL_SWITCH;
          tip_held = last_button_state AND waltop_TIP_SWITCH;
          barrel_held = last_button_state AND waltop_BARREL_SWITCH
      in if tip_switch \<noteq> 0 \<and> barrel_switch \<noteq> 0 \<and> tip_held = 0 \<and> barrel_held = 0
         then (d1 AND NOT (waltop_TIP_SWITCH OR waltop_BARREL_SWITCH)) OR waltop_SECONDARY_BARREL_SWITCH
         else d1)"

definition waltop_fix_events :: "u8 program" where
  "waltop_fix_events last_button_state c data = (case data of
     None \<Rightarrow> Some (last_button_state, [], 0)
   | Some d \<Rightarrow> do {
       report_id \<leftarrow> rd d 0;
       if report_id \<noteq> waltop_PEN_REPORT_ID then Some (last_button_state, d, 0)
       else do {
         d1 \<leftarrow> rd d 1;
         let buttons = waltop_buttons last_button_state d1;
         d' \<leftarrow> wr d 1 buttons;
         d6 \<leftarrow> rd d' 6; d7 \<leftarrow> rd d' 7;
         let pressure = waltop_pressure (le16 d6 d7);
         d'' \<leftarrow> wr d' 6 (byte_of 0 pressure);
         d3 \<leftarrow> wr d'' 7 (byte_of 1 pressure);
         Some (buttons, d3, 0) } })"

interpretation waltop_events: hid_program waltop_fix_events 10
  by unfold_locales (auto simp: waltop_fix_events_def Let_def)

definition waltop_probe :: "hid_bpf_probe_args \<Rightarrow> hid_bpf_probe_args \<times> int" where
  "waltop_probe a =
     ((if pa_rdesc_size a = waltop_EXPECTED_RDESC_SIZE then a\<lparr>pa_retval := 0\<rparr>
       else a\<lparr>pa_retval := - EINVAL\<rparr>), 0)"

section \<open>The curve is monotone and fixes its ends\<close>

lemma clz_from_bounds:
  assumes "unat x < 2 ^ k" and "x \<noteq> 0"
  shows "clz_from k x < k \<and> 2 ^ (k - 1 - clz_from k x) \<le> unat x \<and> unat x < 2 ^ (k - clz_from k x)"
  using assms
proof (induction k)
  case 0
  then have "unat x = 0" by simp
  with 0 show ?case by (simp add: unat_eq_0)
next
  case (Suc k)
  have "bit (unat x) k = bit x k" by (simp add: bit_unsigned_iff)
  then have bit: "bit x k = odd (unat x div 2 ^ k)" using bit_iff_odd [of "unat x" k] by simp
  have "unat x div 2 ^ k < 2" using Suc.prems(1) by (simp add: less_mult_imp_div_less)
  then have "unat x div 2 ^ k = 0 \<or> unat x div 2 ^ k = 1" by linarith
  then have small: "bit x k \<longleftrightarrow> 2 ^ k \<le> unat x"
    unfolding bit by (cases "unat x < 2 ^ k") (auto simp: not_less, simp add: div_eq_0_iff)
  show ?case
  proof (cases "bit x k")
    case True
    then show ?thesis using Suc.prems small by simp
  next
    case False
    then have "unat x < 2 ^ k" using small by simp
    then show ?thesis using Suc False by auto
  qed
qed

text \<open>The exponent of the code is the rounded-down base-2 logarithm.\<close>

lemma floor_log2_bounds:
  assumes "x \<noteq> 0"
  obtains n where "unat (floor_log2_32 x) = n" "n < 32" "2 ^ n \<le> unat x" "unat x < 2 ^ Suc n"
proof -
  let ?c = "clz_from 32 x"
  have "unat x < 2 ^ 32" using unsigned_less [of x, where ?'a = nat] by simp
  then have c: "?c < 32" "2 ^ (31 - ?c) \<le> unat x" "unat x < 2 ^ (32 - ?c)"
    using clz_from_bounds [of x 32] assms by simp_all
  have "floor_log2_32 x = word_of_nat (31 - ?c)"
    using c(1) by (simp add: floor_log2_32_def bitwidth32_def of_nat_diff)
  then have "unat (floor_log2_32 x) = 31 - ?c"
    by (simp add: unsigned_of_nat take_bit_nat_eq_self)
  moreover have "Suc (31 - ?c) = 32 - ?c" using c(1) by simp
  ultimately show ?thesis using c that [of "31 - ?c"] by simp
qed

text \<open>The curve on natural numbers: the fixed-point logarithm with its linear interpolation.\<close>

definition log_curve :: "nat \<Rightarrow> nat \<Rightarrow> nat" where
  "log_curve n x = n * 2048 + (x - 2 ^ n) * 2048 div 2 ^ n"

lemma scaled_log2_nat:
  obtains n where "2 ^ n \<le> unat v + 1" "unat v + 1 < 2 ^ Suc n"
    "unat (scaled_log2 v) = log_curve n (unat v + 1) * 2047 div 11 div 2048"
proof -
  let ?x = "ucast v + 1 :: u32"
  have v: "unat v < 65536" using unsigned_less [of v, where ?'a = nat] by simp
  then have x: "unat ?x = unat v + 1"
    by (simp add: unat_word_ariths unsigned_ucast_eq take_bit_nat_eq_self)
  then have "?x \<noteq> 0" by (metis Suc_eq_plus1 nat.distinct(1) unsigned_0)
  then obtain n where n: "unat (floor_log2_32 ?x) = n" "2 ^ n \<le> unat ?x" "unat ?x < 2 ^ Suc n"
    by (rule floor_log2_bounds)
  have "n \<le> 16"
  proof (rule ccontr)
    assume "\<not> n \<le> 16"
    then have "(2 :: nat) ^ 17 \<le> 2 ^ n" by (intro power_increasing) simp_all
    then show False using n(2) x v by simp
  qed
  then have nb: "(2 :: nat) ^ n \<le> 65536"
    using power_increasing [of n 16 "2 :: nat"] by simp
  let ?b = "push_bit n 1 :: u32"
  have "unat (word_of_nat (2 ^ n) :: u32) = 2 ^ n"
    using nb \<open>n \<le> 16\<close> by (simp add: unsigned_of_nat take_bit_nat_eq_self del: of_nat_power)
  then have b: "unat ?b = 2 ^ n" by (simp add: push_bit_eq_mult)
  have push: "unat (push_bit 11 w :: u32) = unat w * 2048" if "unat w < 131072" for w :: u32
    using that by (simp add: push_bit_eq_mult unat_word_ariths)
  have le: "?b \<le> ?x" using n(2) b by (simp add: word_le_nat_alt)
  have diff: "unat (?x - ?b) = unat v + 1 - 2 ^ n" using unat_sub [OF le] x b by simp
  have frac: "unat (push_bit 11 (?x - ?b)) = (unat v + 1 - 2 ^ n) * 2048"
    using diff v by (subst push) simp_all
  let ?lerp = "(unat v + 1 - 2 ^ n) * 2048 div 2 ^ n"
  have lerp: "unat (push_bit 11 (?x - ?b) div ?b) = ?lerp"
    by (simp only: unat_div frac b)
  have "unat v + 1 - 2 ^ n < 2 ^ n" using n(3) x by simp
  then have lerp_less: "?lerp < 2048" by (simp add: less_mult_imp_div_less mult.commute)
  have e: "unat (push_bit 11 (floor_log2_32 ?x)) = n * 2048"
    using n(1) \<open>n \<le> 16\<close> by (subst push) simp_all
  have curve: "log_curve n (unat v + 1) = n * 2048 + ?lerp" by (simp add: log_curve_def)
  have sum: "unat (push_bit 11 (floor_log2_32 ?x) + push_bit 11 (?x - ?b) div ?b) = log_curve n (unat v + 1)"
    unfolding unat_word_ariths(1) e lerp curve using lerp_less \<open>n \<le> 16\<close> by simp
  have bound: "log_curve n (unat v + 1) < 34816" unfolding curve using lerp_less \<open>n \<le> 16\<close> by simp
  define S where "S = push_bit 11 (floor_log2_32 ?x) + push_bit 11 (?x - ?b) div ?b"
  have "unat (S * 2047) = log_curve n (unat v + 1) * 2047"
    using bound sum unfolding S_def [symmetric] unat_word_ariths by simp
  moreover have "scaled_log2 v = S * 2047 div 11 div 2048"
    by (simp add: scaled_log2_def Let_def S_def n(1) drop_bit_eq_div)
  ultimately have "unat (scaled_log2 v) = log_curve n (unat v + 1) * 2047 div 11 div 2048"
    by (simp add: unat_div)
  then show ?thesis using that n(2,3) x by simp
qed

lemma log_curve_mono:
  assumes "2 ^ m \<le> x" "x < 2 ^ Suc m" "2 ^ n \<le> y" "y < 2 ^ Suc n" "x \<le> y"
  shows "log_curve m x \<le> log_curve n y"
proof -
  have "(2 :: nat) ^ m < 2 ^ Suc n" using assms by linarith
  then have "m < Suc n" by (rule power_less_imp_less_exp [rotated]) simp
  show ?thesis
  proof (cases "m = n")
    case True
    then show ?thesis using assms(5) by (simp add: log_curve_def div_le_mono)
  next
    case False
    then have "Suc m * 2048 \<le> n * 2048" using \<open>m < Suc n\<close> by simp
    moreover have "x - 2 ^ m < 2 ^ m" using assms(2) by simp
    then have "(x - 2 ^ m) * 2048 div 2 ^ m < 2048" by (simp add: less_mult_imp_div_less mult.commute)
    ultimately show ?thesis by (simp add: log_curve_def)
  qed
qed

lemma scaled_log2_mono: "p \<le> q \<Longrightarrow> unat (scaled_log2 p) \<le> unat (scaled_log2 q)"
proof -
  assume "p \<le> q"
  then have pq: "unat p + 1 \<le> unat q + 1" by (simp add: word_le_nat_alt)
  obtain m where m: "2 ^ m \<le> unat p + 1" "unat p + 1 < 2 ^ Suc m"
    "unat (scaled_log2 p) = log_curve m (unat p + 1) * 2047 div 11 div 2048"
    by (rule scaled_log2_nat)
  obtain n where n: "2 ^ n \<le> unat q + 1" "unat q + 1 < 2 ^ Suc n"
    "unat (scaled_log2 q) = log_curve n (unat q + 1) * 2047 div 11 div 2048"
    by (rule scaled_log2_nat)
  show ?thesis
    unfolding m(3) n(3) using log_curve_mono [OF m(1,2) n(1,2) pq] by (intro div_le_mono mult_le_mono1)
qed

lemma scaled_log2_values: "scaled_log2 2047 = 2047" "scaled_log2 103 = 1232" "scaled_log2 65535 = 2977"
  by code_simp+

lemma unat_waltop_pressure:
  "unat (waltop_pressure p) = (if p \<le> 102 then 12 * unat p else unat (scaled_log2 p))"
proof (cases "p \<le> 102")
  case True
  then have "unat p \<le> 102" by (simp add: word_le_nat_alt)
  with True show ?thesis by (simp add: waltop_pressure_def unat_word_ariths)
next
  case False
  have "p \<le> 65535" using unsigned_less [of p, where ?'a = nat] by (simp add: word_le_nat_alt)
  then have "unat (scaled_log2 p) \<le> 2977" using scaled_log2_mono [of p 65535] by (simp add: scaled_log2_values)
  with False show ?thesis
    by (simp add: waltop_pressure_def unsigned_ucast_eq take_bit_nat_eq_self)
qed

lemma waltop_pressure_mono: "p \<le> q \<Longrightarrow> waltop_pressure p \<le> waltop_pressure q"
proof -
  assume pq: "p \<le> q"
  have "unat (waltop_pressure p) \<le> unat (waltop_pressure q)"
  proof (cases "q \<le> 102")
    case True
    then have "p \<le> 102" using pq by simp
    with True pq show ?thesis by (simp add: unat_waltop_pressure word_le_nat_alt)
  next
    case q: False
    show ?thesis
    proof (cases "p \<le> 102")
      case True
      have "103 \<le> q" using q by (simp add: word_le_nat_alt word_less_nat_alt not_le)
      then have "1232 \<le> unat (scaled_log2 q)" using scaled_log2_mono [of 103 q] by (simp add: scaled_log2_values)
      then show ?thesis using True q by (simp add: unat_waltop_pressure word_le_nat_alt)
    next
      case False
      with q pq show ?thesis by (simp add: unat_waltop_pressure scaled_log2_mono)
    qed
  qed
  then show ?thesis by (simp add: word_le_nat_alt)
qed

section \<open>What pen reports deliver\<close>

lemma waltop_fixed_rdesc_layout_16:
  "rdesc_layout waltop_fixed_rdesc 16 = Some [
     (0xd0042, 8, 1), (0xd0044, 9, 1), (0xd003c, 10, 1), (0xd0045, 11, 1), (0xd0032, 12, 1), (0xd005a, 13, 1),
     (0x10030, 16, 16), (0x10031, 32, 16), (0xd0030, 48, 16), (0xd003d, 64, 8), (0xd003e, 72, 8)]"
  by code_simp

lemma waltop_event:
  assumes "length rep = 10" and "rep ! 0 = waltop_PEN_REPORT_ID"
  shows "device_event waltop_fix_events 10 hid s rep =
    Some (waltop_buttons s (rep ! 1), Some (rep[1 := waltop_buttons s (rep ! 1),
      6 := byte_of 0 (waltop_pressure (le16 (rep ! 6) (rep ! 7))),
      7 := byte_of 1 (waltop_pressure (le16 (rep ! 6) (rep ! 7)))]))"
proof -
  have d: "take 10 (report_buffer rep) = rep"
    using assms(1) take_report_buffer [of rep 10] by simp
  show ?thesis
    using assms d
    by (subst device_event_in_place [where w = "rep[1 := waltop_buttons s (rep ! 1),
      6 := byte_of 0 (waltop_pressure (le16 (rep ! 6) (rep ! 7))),
      7 := byte_of 1 (waltop_pressure (le16 (rep ! 6) (rep ! 7)))]"])
      (simp_all add: waltop_fix_events_def Let_def)
qed

lemma waltop_usages:
  assumes "length out = 10" and "out ! 0 = waltop_PEN_REPORT_ID"
  shows "usage_value waltop_fixed_rdesc out 0xd0042 = Some (of_bool (bit (out ! 1) 0))"
    and "usage_value waltop_fixed_rdesc out 0xd0044 = Some (of_bool (bit (out ! 1) 1))"
    and "usage_value waltop_fixed_rdesc out 0xd005a = Some (of_bool (bit (out ! 1) 5))"
    and "usage_value waltop_fixed_rdesc out 0xd0030 = Some (uint (le16 (out ! 6) (out ! 7)))"
    and "usage_value waltop_fixed_rdesc out 0x10030 = Some (uint (le16 (out ! 2) (out ! 3)))"
    and "usage_value waltop_fixed_rdesc out 0x10031 = Some (uint (le16 (out ! 4) (out ! 5)))"
proof -
  obtain rest where out: "out = 16 # rest" using assms by (cases out) auto
  have r: "read_bits out 8 1 = of_bool (bit (out ! 1) 0)" "read_bits out 9 1 = of_bool (bit (out ! 1) 1)"
    "read_bits out 13 1 = of_bool (bit (out ! 1) 5)" "read_bits out 48 16 = uint (le16 (out ! 6) (out ! 7))"
    "read_bits out 16 16 = uint (le16 (out ! 2) (out ! 3))" "read_bits out 32 16 = uint (le16 (out ! 4) (out ! 5))"
    using assms(1) read_bit [of 0 1 out] read_bit [of 1 1 out] read_bit [of 5 1 out] read_le16 [of 6 out]
      read_le16 [of 2 out] read_le16 [of 4 out] by simp_all
  show "usage_value waltop_fixed_rdesc out 0xd0042 = Some (of_bool (bit (out ! 1) 0))"
    "usage_value waltop_fixed_rdesc out 0xd0044 = Some (of_bool (bit (out ! 1) 1))"
    "usage_value waltop_fixed_rdesc out 0xd005a = Some (of_bool (bit (out ! 1) 5))"
    "usage_value waltop_fixed_rdesc out 0xd0030 = Some (uint (le16 (out ! 6) (out ! 7)))"
    "usage_value waltop_fixed_rdesc out 0x10030 = Some (uint (le16 (out ! 2) (out ! 3)))"
    "usage_value waltop_fixed_rdesc out 0x10031 = Some (uint (le16 (out ! 4) (out ! 5)))"
    using r unfolding usage_value_def usage_slot_def by (simp_all add: out waltop_fixed_rdesc_layout_16)
qed

lemma waltop_masks:
  "bit waltop_TIP_SWITCH k \<longleftrightarrow> k = 0" "bit waltop_BARREL_SWITCH k \<longleftrightarrow> k = 1"
  "bit waltop_SECONDARY_BARREL_SWITCH k \<longleftrightarrow> k = 5"
  "(w AND waltop_TIP_SWITCH = 0) = (\<not> bit w 0)" "(w AND waltop_BARREL_SWITCH = 0) = (\<not> bit w 1)"
  using BIT_mask_nonzero [of w 0] BIT_mask_nonzero [of w 1]
  by (auto simp: waltop_TIP_SWITCH_def waltop_BARREL_SWITCH_def waltop_SECONDARY_BARREL_SWITCH_def bit_BIT)

lemma waltop_buttons_both:
  assumes "bit d 0" "bit d 1"
  shows "bit (waltop_buttons s d) k \<longleftrightarrow>
    (if bit s 0 \<or> bit s 1 then bit d k else k < 8 \<and> (k = 5 \<or> (k \<noteq> 0 \<and> k \<noteq> 1 \<and> bit d k)))"
  using assms by (auto simp: waltop_buttons_def Let_def waltop_masks bit_or_iff bit_and_iff bit_not_iff bit_high not_less)

lemma waltop_run:
  "list_all (\<lambda>rep. length rep = 10 \<and> rep ! 0 = waltop_PEN_REPORT_ID \<and> bit (rep ! 1) 0 \<and> bit (rep ! 1) 1) reps \<Longrightarrow>
   \<exists>s' outs. device_events waltop_fix_events 10 hid s reps = Some (s', map Some outs) \<and> length outs = length reps \<and>
     (\<forall>i < length reps. length (outs ! i) = 10 \<and> outs ! i ! 0 = waltop_PEN_REPORT_ID \<and>
        (\<forall>k. bit (outs ! i ! 1) k \<longleftrightarrow> (if bit s 0 \<or> bit s 1 then bit (reps ! i ! 1) k
             else k < 8 \<and> (k = 5 \<or> (k \<noteq> 0 \<and> k \<noteq> 1 \<and> bit (reps ! i ! 1) k)))))"
proof (induction reps arbitrary: s)
  case Nil
  then show ?case by simp
next
  case (Cons rep reps)
  let ?b = "waltop_buttons s (rep ! 1)"
  obtain out where ev: "device_event waltop_fix_events 10 hid s rep = Some (?b, Some out)"
    and out: "length out = 10" "out ! 0 = waltop_PEN_REPORT_ID" "out ! 1 = ?b"
    using waltop_event [of rep hid s] Cons.prems by auto
  have both: "bit (rep ! 1) 0" "bit (rep ! 1) 1" using Cons.prems by auto
  have held: "(bit ?b 0 \<or> bit ?b 1) = (bit s 0 \<or> bit s 1)"
    unfolding waltop_buttons_both [OF both] using both by auto
  obtain s' outs where IH: "device_events waltop_fix_events 10 hid ?b reps = Some (s', map Some outs)"
    "length outs = length reps"
    "\<forall>i < length reps. length (outs ! i) = 10 \<and> outs ! i ! 0 = waltop_PEN_REPORT_ID \<and>
        (\<forall>k. bit (outs ! i ! 1) k \<longleftrightarrow> (if bit s 0 \<or> bit s 1 then bit (reps ! i ! 1) k
             else k < 8 \<and> (k = 5 \<or> (k \<noteq> 0 \<and> k \<noteq> 1 \<and> bit (reps ! i ! 1) k))))"
    using Cons.IH [of ?b] Cons.prems unfolding held by auto
  have "device_events waltop_fix_events 10 hid s (rep # reps) = Some (s', map Some (out # outs))"
    using ev IH(1) by simp
  moreover have "\<forall>i < length (rep # reps). length ((out # outs) ! i) = 10 \<and> (out # outs) ! i ! 0 = waltop_PEN_REPORT_ID \<and>
      (\<forall>k. bit ((out # outs) ! i ! 1) k \<longleftrightarrow> (if bit s 0 \<or> bit s 1 then bit ((rep # reps) ! i ! 1) k
           else k < 8 \<and> (k = 5 \<or> (k \<noteq> 0 \<and> k \<noteq> 1 \<and> bit ((rep # reps) ! i ! 1) k))))"
    using IH(3) out waltop_buttons_both [OF both, of s] by (auto simp: less_Suc_eq_0_disj)
  ultimately show ?case using IH(2) by (intro exI [of _ s'] exI [of _ "out # outs"]) auto
qed

text \<open>
  C29: The pressure curve of the WALTOP tablet is monotone over all 16-bit values, also across the seam
  between its linear and its logarithmic part, maps the declared range 0..2047 into itself and fixes
  both ends.
\<close>

theorem waltop_pressure_curve:
  "(p \<le> q \<longrightarrow> waltop_pressure p \<le> waltop_pressure q) \<and> (p \<le> 2047 \<longrightarrow> waltop_pressure p \<le> 2047)
   \<and> waltop_pressure 0 = 0 \<and> waltop_pressure 2047 = 2047"
proof -
  have max: "waltop_pressure 2047 = 2047" by (simp add: waltop_pressure_def scaled_log2_values)
  moreover have "p \<le> 2047 \<longrightarrow> waltop_pressure p \<le> 2047"
    using waltop_pressure_mono [of p 2047] max by simp
  ultimately show ?thesis by (simp add: waltop_pressure_mono) (simp add: waltop_pressure_def)
qed

theorem waltop_pressure_curve_witness:
  "waltop_pressure 102 \<le> waltop_pressure 103 \<and> waltop_pressure 500 \<le> 2047"
  using waltop_pressure_curve [of 102 103] waltop_pressure_curve [of 500 500] by simp

text \<open>
  The second barrel button of the WALTOP pen, which the tablet reports as tip and barrel going
  down together: over a run of reports with both set, the delivered reports show the secondary barrel
  switch and neither tip nor barrel when neither was held before the run, and the switches of the
  device when one of them was.
\<close>

theorem waltop_secondary_button:
  assumes "list_all (\<lambda>rep. length rep = 10 \<and> rep ! 0 = waltop_PEN_REPORT_ID \<and> bit (rep ! 1) 0 \<and> bit (rep ! 1) 1) reps"
  shows "\<exists>s' outs. device_events waltop_fix_events 10 hid s reps = Some (s', map Some outs) \<and> length outs = length reps \<and>
     (\<forall>i < length reps.
        usage_value waltop_fixed_rdesc (outs ! i) 0xd0042 = Some (of_bool (bit s 0 \<or> bit s 1)) \<and>
        usage_value waltop_fixed_rdesc (outs ! i) 0xd0044 = Some (of_bool (bit s 0 \<or> bit s 1)) \<and>
        usage_value waltop_fixed_rdesc (outs ! i) 0xd005a
          = Some (of_bool (if bit s 0 \<or> bit s 1 then bit (reps ! i ! 1) 5 else True)))"
proof -
  obtain s' outs where ev: "device_events waltop_fix_events 10 hid s reps = Some (s', map Some outs)"
    "length outs = length reps"
    and out: "\<And>i. i < length reps \<Longrightarrow> length (outs ! i) = 10" "\<And>i. i < length reps \<Longrightarrow> outs ! i ! 0 = waltop_PEN_REPORT_ID"
    and bits: "\<And>i k. i < length reps \<Longrightarrow> bit (outs ! i ! 1) k \<longleftrightarrow> (if bit s 0 \<or> bit s 1 then bit (reps ! i ! 1) k
             else k < 8 \<and> (k = 5 \<or> (k \<noteq> 0 \<and> k \<noteq> 1 \<and> bit (reps ! i ! 1) k)))"
    using waltop_run [OF assms, of hid s] by blast
  have both: "bit (reps ! i ! 1) 0" "bit (reps ! i ! 1) 1" if "i < length reps" for i
    using assms that by (auto simp: list_all_length)
  have "usage_value waltop_fixed_rdesc (outs ! i) 0xd0042 = Some (of_bool (bit s 0 \<or> bit s 1)) \<and>
      usage_value waltop_fixed_rdesc (outs ! i) 0xd0044 = Some (of_bool (bit s 0 \<or> bit s 1)) \<and>
      usage_value waltop_fixed_rdesc (outs ! i) 0xd005a
        = Some (of_bool (if bit s 0 \<or> bit s 1 then bit (reps ! i ! 1) 5 else True))" if i: "i < length reps" for i
    unfolding waltop_usages [OF out(1) [OF i] out(2) [OF i]]
    using bits [OF i, of 0] bits [OF i, of 1] bits [OF i, of 5] both [OF i] by auto
  with ev show ?thesis by blast
qed

theorem waltop_secondary_button_witness:
  "\<exists>s' outs. device_events waltop_fix_events 10 \<lparr>hdev_id = 1, hdev_bus = 3, hdev_product = 0x505, hdev_name = []\<rparr> 0
      [[16, 0x13, 0, 0, 0, 0, 0, 0, 0, 0], [16, 0x13, 0, 0, 0, 0, 0, 0, 0, 0]] = Some (s', map Some outs)
    \<and> usage_value waltop_fixed_rdesc (outs ! 1) 0xd0042 = Some 0
    \<and> usage_value waltop_fixed_rdesc (outs ! 1) 0xd005a = Some 1"
proof -
  let ?hid = "\<lparr>hdev_id = 1, hdev_bus = 3, hdev_product = 0x505, hdev_name = []\<rparr>"
  let ?reps = "[[16, 0x13, 0, 0, 0, 0, 0, 0, 0, 0], [16, 0x13, 0, 0, 0, 0, 0, 0, 0, 0]] :: u8 list list"
  have reps: "list_all (\<lambda>rep. length rep = 10 \<and> rep ! 0 = waltop_PEN_REPORT_ID \<and> bit (rep ! 1) 0 \<and> bit (rep ! 1) 1) ?reps"
    by code_simp
  have "1 < length ?reps" by simp
  with waltop_secondary_button [OF reps, of ?hid 0] show ?thesis by fastforce
qed

end
