(* ===== verification/Wacom_ArtPen.thy ===== *)
theory Wacom_ArtPen
  imports Kernel_Iface Rdesc_Spec
begin

unbundle bit_operations_syntax

text \<open>
  \<open>0010-Wacom__ArtPen.bpf.c\<close>: the table of supported devices, the pressure interpolation of every
  other report, and the probe that selects the parameters.
\<close>


abbreviation (input) artpen_VID_WACOM :: "'a::numeral" where "artpen_VID_WACOM \<equiv> 0x056a"

abbreviation (input) artpen_ART_PEN_ID :: "'a::numeral" where "artpen_ART_PEN_ID \<equiv> 0x0804"

abbreviation (input) artpen_PID_INTUOS_PRO_2_M :: "'a::numeral" where "artpen_PID_INTUOS_PRO_2_M \<equiv> 0x0357"

abbreviation (input) artpen_PEN_REPORT_LEN :: "'a::numeral" where "artpen_PEN_REPORT_LEN \<equiv> 64"

record artpen_params =
  ap_pid :: u16
  ap_rdesc_len :: u16
  ap_report_id :: u8
  ap_report_len :: u8
  ap_tip_switch :: u8
  ap_pressure :: u8
  ap_tool_type :: u8

definition artpen_devices :: "artpen_params list" where
  "artpen_devices = [
     \<lparr>ap_pid = artpen_PID_INTUOS_PRO_2_M, ap_rdesc_len = 949, ap_report_id = 16, ap_report_len = 27,
      ap_tip_switch = 1, ap_pressure = 8, ap_tool_type = 25\<rparr>]"

text \<open>The globals: the parameters the probe selects, and the interpolation state.\<close>

record artpen_state =
  ap_params :: artpen_params
  ap_odd :: bool
  ap_prev_pressure :: u16

definition artpen_init :: artpen_state where
  "artpen_init =
     \<lparr>ap_params = \<lparr>ap_pid = 0, ap_rdesc_len = 0, ap_report_id = 0, ap_report_len = 0,
                   ap_tip_switch = 0, ap_pressure = 0, ap_tool_type = 0\<rparr>,
      ap_odd = False, ap_prev_pressure = 0\<rparr>"

text \<open>\<open>get_u16\<close> and \<open>get_u8\<close>, as the loads and stores through the pointers they return.\<close>

definition load_u16 :: "u8 list \<Rightarrow> nat \<Rightarrow> u16 option" where
  "load_u16 d i = do { lo \<leftarrow> rd d i; hi \<leftarrow> rd d (i + 1); Some (le16 lo hi) }"

definition store_u16 :: "u8 list \<Rightarrow> nat \<Rightarrow> u16 \<Rightarrow> u8 list option" where
  "store_u16 d i v = memcpy d i [byte_of 0 v, byte_of 1 v]"

text \<open>\<open>(*pressure + prev_pressure) / 2\<close> in \<open>int\<close>, stored back as \<open>__u16\<close>.\<close>

definition artpen_mean :: "u16 \<Rightarrow> u16 \<Rightarrow> u16" where
  "artpen_mean p q = ucast ((ucast p + ucast q :: u32) div 2)"

definition artpen_event :: "artpen_state program" where
  "artpen_event s c data = (case data of None \<Rightarrow> Some (s, [], 0) | Some d \<Rightarrow> do {
     d0 \<leftarrow> rd d 0;
     if d0 \<noteq> ap_report_id (ap_params s) \<or>
        unat (ap_tip_switch (ap_params s)) \<ge> artpen_PEN_REPORT_LEN \<or>
        unat (ap_pressure (ap_params s)) \<ge> artpen_PEN_REPORT_LEN - 1 \<or>
        unat (ap_tool_type (ap_params s)) \<ge> artpen_PEN_REPORT_LEN - 1
     then Some (s, d, 0)
     else do {
       tool_type \<leftarrow> load_u16 d (unat (ap_tool_type (ap_params s)));
       if tool_type \<noteq> artpen_ART_PEN_ID then Some (s, d, 0)
       else do {
         tip_switch \<leftarrow> rd d (unat (ap_tip_switch (ap_params s)));
         if tip_switch AND 0x01 = 0
         then Some (s\<lparr>ap_prev_pressure := 0, ap_odd := True\<rparr>, d, 0)
         else do {
           pressure \<leftarrow> load_u16 d (unat (ap_pressure (ap_params s)));
           let pressure = (if ap_odd s then artpen_mean pressure (ap_prev_pressure s) else pressure);
           d' \<leftarrow> (if ap_odd s then store_u16 d (unat (ap_pressure (ap_params s))) pressure else Some d);
           Some (s\<lparr>ap_prev_pressure := pressure, ap_odd := \<not> ap_odd s\<rparr>, d', 0) } } } })"

lemma load_u16_in [simp]: "Suc i < length d \<Longrightarrow> load_u16 d i = Some (le16 (d ! i) (d ! (i + 1)))"
  by (simp add: load_u16_def)

interpretation artpen_events: hid_program artpen_event 64
  by unfold_locales (auto simp: artpen_event_def store_u16_def Let_def not_le less_diff_conv)

text \<open>
  The probe looks the product id up (\<open>alloc\<close> stands for \<open>hid_bpf_allocate_context\<close>), and stores the
  parameters of the last matching entry.
\<close>

definition artpen_select :: "u16 \<Rightarrow> u32 \<Rightarrow> artpen_params \<Rightarrow> artpen_state \<times> int \<Rightarrow> artpen_state \<times> int" where
  "artpen_select pid rdesc_size dev st =
     (if ap_pid dev = pid \<and> ucast (ap_rdesc_len dev) = rdesc_size
      then ((fst st)\<lparr>ap_params := dev\<rparr>, 0) else st)"

definition artpen_probe ::
    "(u32 \<Rightarrow> hid_device option) \<Rightarrow> artpen_state \<Rightarrow> hid_bpf_probe_args \<Rightarrow>
     artpen_state \<times> hid_bpf_probe_args \<times> int" where
  "artpen_probe alloc s a = (case alloc (pa_hid a) of
      None \<Rightarrow> (s, a\<lparr>pa_retval := - ENODEV\<rparr>, - 1)
    | Some hid \<Rightarrow>
        (let pid = ucast (hdev_product hid);
             (s', retval) = fold (artpen_select pid (pa_rdesc_size a)) artpen_devices (s, - EINVAL)
         in (s', a\<lparr>pa_retval := retval\<rparr>, 0)))"

section \<open>The delivered pressures\<close>

lemma unat_artpen_mean: "unat (artpen_mean p q) = (unat p + unat q) div 2"
proof -
  have "unat p < 65536" "unat q < 65536"
    using unsigned_less [of p, where ?'a = nat] unsigned_less [of q, where ?'a = nat] by simp_all
  then show ?thesis
    by (simp add: artpen_mean_def unsigned_ucast_eq unat_div unat_word_ariths take_bit_nat_eq_self)
qed

definition artpen_tip_report :: "u8 list \<Rightarrow> bool" where
  "artpen_tip_report rep \<longleftrightarrow> length rep = 27 \<and> rep ! 0 = 16 \<and> le16 (rep ! 25) (rep ! 26) = artpen_ART_PEN_ID \<and>
     bit (rep ! 1) 0"

definition artpen_pressure :: "u8 list \<Rightarrow> nat" where
  "artpen_pressure rep = unat (le16 (rep ! 8) (rep ! 9))"

lemma artpen_tip_event:
  assumes "artpen_tip_report rep" and "ap_params s = hd artpen_devices"
    and p: "p = (if ap_odd s then artpen_mean (le16 (rep ! 8) (rep ! 9)) (ap_prev_pressure s) else le16 (rep ! 8) (rep ! 9))"
  shows "device_event artpen_event 64 hid s rep = Some (s\<lparr>ap_prev_pressure := p, ap_odd := \<not> ap_odd s\<rparr>,
           Some (take 8 rep @ [byte_of 0 p, byte_of 1 p] @ drop 10 rep))"
proof -
  have len: "length rep = 27" using assms by (simp add: artpen_tip_report_def)
  define d where "d = take 64 (report_buffer rep)"
  have d: "length d = 64" "take 27 d = rep" "\<And>i. i < 27 \<Longrightarrow> d ! i = rep ! i"
    using len take_report_buffer [of rep 64]
    by (simp_all add: d_def length_report_buffer report_buffer_nth)
  have fields: "d ! 0 = 16" "le16 (d ! 25) (d ! 26) = artpen_ART_PEN_ID" "bit (d ! 1) 0" "d ! 8 = rep ! 8" "d ! 9 = rep ! 9"
    using assms(1) d(3) by (simp_all add: artpen_tip_report_def)
  have same: "take 8 d @ [byte_of 0 (le16 (rep ! 8) (rep ! 9)), byte_of 1 (le16 (rep ! 8) (rep ! 9))] @ drop 10 d = d"
    unfolding byte_of_le16 fields(4,5) [symmetric] using d(1)
    by (subst (2) append_take_drop_id [of 8 d, symmetric])
      (simp add: Cons_nth_drop_Suc [symmetric] eval_nat_numeral)
  let ?w = "take 8 d @ [byte_of 0 p, byte_of 1 p] @ drop 10 d"
  have run: "artpen_event s c (Some d) = Some (s\<lparr>ap_prev_pressure := p, ap_odd := \<not> ap_odd s\<rparr>, ?w, 0)" for c
  proof (cases "ap_odd s")
    case True
    then show ?thesis using assms(2) fields d(1) unfolding p
      by (simp add: artpen_event_def artpen_devices_def store_u16_def mask_bits Let_def)
  next
    case False
    then have w: "?w = d" using same by (simp add: p)
    show ?thesis unfolding w using False assms(2) fields d(1) unfolding p
      by (simp add: artpen_event_def artpen_devices_def mask_bits Let_def)
  qed
  have "take 27 ?w = take 8 rep @ [byte_of 0 p, byte_of 1 p] @ drop 10 rep"
    unfolding d(2) [symmetric] using d(1) by (simp add: drop_take min_def)
  then show ?thesis
    using device_event_in_place [of 64 rep ?w artpen_event s hid] run len d(1) unfolding d_def by simp
qed

lemma delivered_pressure:
  "artpen_tip_report rep \<Longrightarrow>
   artpen_pressure (take 8 rep @ [byte_of 0 p, byte_of 1 p] @ drop 10 rep) = unat (p :: u16)"
  by (simp add: artpen_tip_report_def artpen_pressure_def nth_append le16_bytes [unfolded One_nat_def])

lemma artpen_run:
  "list_all artpen_tip_report reps \<Longrightarrow> ap_params s = hd artpen_devices \<Longrightarrow>
   \<exists>s' outs. device_events artpen_event 64 hid s reps = Some (s', map Some outs) \<and> length outs = length reps \<and>
     (\<forall>i < length reps.
        length (outs ! i) = 27 \<and> take 8 (outs ! i) = take 8 (reps ! i) \<and> drop 10 (outs ! i) = drop 10 (reps ! i) \<and>
        artpen_pressure (outs ! i) =
          (if even i = ap_odd s
           then (artpen_pressure (reps ! i) +
                 (if i = 0 then unat (ap_prev_pressure s) else artpen_pressure (reps ! (i - 1)))) div 2
           else artpen_pressure (reps ! i)))"
proof (induction reps arbitrary: s)
  case Nil
  then show ?case by simp
next
  case (Cons rep reps)
  let ?p = "if ap_odd s then artpen_mean (le16 (rep ! 8) (rep ! 9)) (ap_prev_pressure s) else le16 (rep ! 8) (rep ! 9)"
  let ?s1 = "s\<lparr>ap_prev_pressure := ?p, ap_odd := \<not> ap_odd s\<rparr>"
  let ?out = "take 8 rep @ [byte_of 0 ?p, byte_of 1 ?p] @ drop 10 rep"
  have rep: "artpen_tip_report rep" "length rep = 27" using Cons.prems by (auto simp: artpen_tip_report_def)
  have ev: "device_event artpen_event 64 hid s rep = Some (?s1, Some ?out)"
    using rep Cons.prems by (intro artpen_tip_event) simp_all
  have out: "length ?out = 27" "take 8 ?out = take 8 rep" "drop 10 ?out = drop 10 rep"
    using rep(2) by simp_all
  have p0: "artpen_pressure ?out = (if ap_odd s then (artpen_pressure rep + unat (ap_prev_pressure s)) div 2
      else artpen_pressure rep)"
    unfolding delivered_pressure [OF rep(1)] by (simp add: unat_artpen_mean artpen_pressure_def)
  obtain s' outs where IH: "device_events artpen_event 64 hid ?s1 reps = Some (s', map Some outs)" "length outs = length reps"
    "\<And>i. i < length reps \<Longrightarrow>
        length (outs ! i) = 27 \<and> take 8 (outs ! i) = take 8 (reps ! i) \<and> drop 10 (outs ! i) = drop 10 (reps ! i) \<and>
        artpen_pressure (outs ! i) =
          (if even i = (\<not> ap_odd s)
           then (artpen_pressure (reps ! i) +
                 (if i = 0 then unat ?p else artpen_pressure (reps ! (i - 1)))) div 2
           else artpen_pressure (reps ! i))"
    using Cons.IH [of ?s1] Cons.prems by auto
  have raw: "\<not> ap_odd s \<Longrightarrow> unat ?p = artpen_pressure rep" by (simp add: artpen_pressure_def)
  show ?case
  proof (intro exI conjI allI impI)
    show "device_events artpen_event 64 hid s (rep # reps) = Some (s', map Some (?out # outs))"
      using ev IH(1) by simp
    show "length (?out # outs) = length (rep # reps)" using IH(2) by simp
    fix i assume i: "i < length (rep # reps)"
    show "length ((?out # outs) ! i) = 27" "take 8 ((?out # outs) ! i) = take 8 ((rep # reps) ! i)"
      "drop 10 ((?out # outs) ! i) = drop 10 ((rep # reps) ! i)"
      using i out IH(3) by (cases i; simp)+
    show "artpen_pressure ((?out # outs) ! i) =
          (if even i = ap_odd s
           then (artpen_pressure ((rep # reps) ! i) +
                 (if i = 0 then unat (ap_prev_pressure s) else artpen_pressure ((rep # reps) ! (i - 1)))) div 2
           else artpen_pressure ((rep # reps) ! i))"
    proof (cases i)
      case 0
      then show ?thesis using p0 by simp
    next
      case (Suc j)
      then have "j < length reps" using i by simp
      from IH(3) [OF this] show ?thesis
        using Suc raw by (cases j) auto
    qed
  qed
qed

text \<open>
  C30: The pressure interpolation of the Art Pen in closed form: over a run of reports with the tip down
  every other report, from the first one after the tip was up, carries the mean of its own pressure and
  of the one before it (rounded down, with no overflow), the others carry their own, and no other byte
  changes.
\<close>

theorem artpen_interpolation:
  assumes "list_all artpen_tip_report reps" and "ap_params s = hd artpen_devices"
    and "ap_odd s" and "ap_prev_pressure s = 0"
  shows "\<exists>s' outs. device_events artpen_event 64 hid s reps = Some (s', map Some outs) \<and> length outs = length reps \<and>
     (\<forall>i < length reps.
        take 8 (outs ! i) = take 8 (reps ! i) \<and> drop 10 (outs ! i) = drop 10 (reps ! i) \<and>
        artpen_pressure (outs ! i) =
          (if odd i then artpen_pressure (reps ! i)
           else (artpen_pressure (reps ! i) + (if i = 0 then 0 else artpen_pressure (reps ! (i - 1)))) div 2))"
proof -
  obtain s' outs where "device_events artpen_event 64 hid s reps = Some (s', map Some outs)" "length outs = length reps"
    "\<forall>i < length reps.
        length (outs ! i) = 27 \<and> take 8 (outs ! i) = take 8 (reps ! i) \<and> drop 10 (outs ! i) = drop 10 (reps ! i) \<and>
        artpen_pressure (outs ! i) =
          (if even i = ap_odd s
           then (artpen_pressure (reps ! i) +
                 (if i = 0 then unat (ap_prev_pressure s) else artpen_pressure (reps ! (i - 1)))) div 2
           else artpen_pressure (reps ! i))"
    using artpen_run [OF assms(1,2), of hid] by blast
  with assms(3,4) show ?thesis by (intro exI [of _ s'] exI [of _ outs]) auto
qed

theorem artpen_interpolation_witness:
  "\<exists>s' outs. device_events artpen_event 64 \<lparr>hdev_id = 1, hdev_bus = 3, hdev_product = 0x357, hdev_name = []\<rparr>
      \<lparr>ap_params = hd artpen_devices, ap_odd = True, ap_prev_pressure = 0\<rparr>
      (map (\<lambda>p. [16, 1, 0, 0, 0, 0, 0, 0, p, 0, 0, 0, 0, 0, 0, 0, 0, 0, 0, 0, 0, 0, 0, 0, 0, 4, 8]) [10, 20, 40])
      = Some (s', map Some outs)
    \<and> map artpen_pressure outs = [5, 20, 30]"
proof -
  let ?reps = "map (\<lambda>p. [16, 1, 0, 0, 0, 0, 0, 0, p, 0, 0, 0, 0, 0, 0, 0, 0, 0, 0, 0, 0, 0, 0, 0, 0, 4, 8]) [10, 20, 40] :: u8 list list"
  let ?s = "\<lparr>ap_params = hd artpen_devices, ap_odd = True, ap_prev_pressure = 0\<rparr>"
  let ?hid = "\<lparr>hdev_id = 1, hdev_bus = 3, hdev_product = 0x357, hdev_name = []\<rparr>"
  have reps: "list_all artpen_tip_report ?reps" by code_simp
  have raw: "map artpen_pressure ?reps = [10, 20, 40]" by code_simp
  obtain s' outs where ev: "device_events artpen_event 64 ?hid ?s ?reps = Some (s', map Some outs)"
    and len: "length outs = 3"
    and out: "\<And>i. i < 3 \<Longrightarrow> artpen_pressure (outs ! i) =
          (if odd i then artpen_pressure (?reps ! i)
           else (artpen_pressure (?reps ! i) + (if i = 0 then 0 else artpen_pressure (?reps ! (i - 1)))) div 2)"
    using artpen_interpolation [OF reps, of ?s ?hid] by auto
  have "outs = [outs ! 0, outs ! 1, outs ! 2]"
    using len by (auto simp: list_eq_iff_nth_eq less_Suc_eq numeral_eq_Suc)
  moreover have "map artpen_pressure [outs ! 0, outs ! 1, outs ! 2] = [5, 20, 30]"
    using out [of 0] out [of 1] out [of 2] raw by simp
  ultimately have "map artpen_pressure outs = [5, 20, 30]" by simp
  with ev show ?thesis by (intro exI conjI)
qed

text \<open>
  The Art Pen probe accepts exactly a device it can allocate whose product id and descriptor size
  are those of a known device, and then has stored parameters every offset of which the event handler
  accepts; otherwise it reports an error and leaves the parameters alone.
\<close>

theorem artpen_probe_selects:
  "let (s', a', r) = artpen_probe alloc s a in
   if (\<exists>hid. alloc (pa_hid a) = Some hid \<and> ucast (hdev_product hid) = (artpen_PID_INTUOS_PRO_2_M :: u16)) \<and> pa_rdesc_size a = 949
   then probe_accepts a' \<and> r = 0 \<and> s' = s\<lparr>ap_params := hd artpen_devices\<rparr>
        \<and> unat (ap_tip_switch (ap_params s')) < artpen_PEN_REPORT_LEN
        \<and> unat (ap_pressure (ap_params s')) < artpen_PEN_REPORT_LEN - 1
        \<and> unat (ap_tool_type (ap_params s')) < artpen_PEN_REPORT_LEN - 1
   else \<not> probe_accepts a' \<and> s' = s"
  by (auto simp: artpen_probe_def artpen_select_def artpen_devices_def probe_accepts_def split: option.split)

end
