(* ===== verification/Rdesc_Patches.thy ===== *)
theory Rdesc_Patches
  imports Kernel_Iface
begin

unbundle bit_operations_syntax

text \<open>
  The programs that patch a few bytes of the descriptor in place: Rapoo M50, Mistel MD770, HP Elite
  Presenter, Trust SPK6327, IOGEAR MMOmentum, SpaceNavigator, Xbox Elite 2, Raptor Mach 2 (with its
  hat switch handler), TCA Yoke and the mini keyboard, each with its probe. Every fixup meets the
  contract \<open>patching_fixup\<close>.
\<close>

text \<open>
  \<open>if (data[offset] == 0x81 && data[offset + 1] == old) data[offset + 1] = new\<close>: the flags of an
  Input item are replaced. \<open>patch_input\<close> is the code, \<open>input_patch\<close> its effect.
\<close>

definition patch_input :: "u8 \<Rightarrow> u8 \<Rightarrow> nat \<Rightarrow> u8 list \<Rightarrow> u8 list option" where
  "patch_input old new offset d = do {
     a \<leftarrow> rd d offset;
     if a = 0x81 then do {
       b \<leftarrow> rd d (offset + 1);
       if b = old then wr d (offset + 1) new else Some d }
     else Some d }"

definition input_patch :: "u8 \<Rightarrow> u8 \<Rightarrow> nat \<Rightarrow> u8 list \<Rightarrow> u8 list" where
  "input_patch old new offset d =
     d[offset + 1 := (if d ! offset = 0x81 \<and> d ! (offset + 1) = old then new else d ! (offset + 1))]"

lemma patch_input_eq: "offset + 1 < length d \<Longrightarrow> patch_input old new offset d = Some (input_patch old new offset d)"
  by (simp add: patch_input_def input_patch_def)

lemma length_input_patch [simp]: "length (input_patch old new offset d) = length d"
  by (simp add: input_patch_def)

lemma input_patch_frame: "i \<noteq> offset + 1 \<Longrightarrow> input_patch old new offset d ! i = d ! i"
  by (simp add: input_patch_def)

lemma patch_input_loop:
  "list_all (\<lambda>offset. offset + 1 < length d) offsets \<Longrightarrow>
   mfold (patch_input old new) offsets d = Some (fold (input_patch old new) offsets d)"
  by (induction offsets arbitrary: d) (auto simp: patch_input_eq)

text \<open>Patches at separated offsets commute, and a second patch at the same offset does nothing.\<close>

lemma input_patch_idem:
  "old \<noteq> new \<Longrightarrow> input_patch old new offset (input_patch old new offset d) = input_patch old new offset d"
  by (cases "offset + 1 < length d") (auto simp: input_patch_def list_update_beyond)

lemma input_patch_commute:
  "m \<noteq> n \<Longrightarrow> m \<noteq> n + 1 \<Longrightarrow> n \<noteq> m + 1 \<Longrightarrow>
   input_patch old new m (input_patch old new n d) = input_patch old new n (input_patch old new m d)"
  by (cases "m + 1 < length d"; cases "n + 1 < length d"; rule nth_equalityI)
    (auto simp: input_patch_def nth_list_update list_update_beyond)

definition separated :: "nat list \<Rightarrow> bool" where
  "separated os \<longleftrightarrow> (\<forall>m \<in> set os. \<forall>n \<in> set os. m \<noteq> n + 1)"

lemma fold_input_patch_commute:
  "separated (m # os) \<Longrightarrow> fold (input_patch old new) os (input_patch old new m d)
     = input_patch old new m (fold (input_patch old new) os d)"
proof (induction os arbitrary: d)
  case Nil
  then show ?case by simp
next
  case (Cons n os)
  have "separated (m # os)" using Cons.prems by (auto simp: separated_def)
  moreover have "input_patch old new n (input_patch old new m d) = input_patch old new m (input_patch old new n d)"
    using Cons.prems by (cases "m = n") (auto simp: separated_def intro: input_patch_commute)
  ultimately show ?case using Cons.IH by simp
qed

lemma fold_input_patch_idem:
  "separated os \<Longrightarrow> old \<noteq> new \<Longrightarrow>
   fold (input_patch old new) os (fold (input_patch old new) os d) = fold (input_patch old new) os d"
proof (induction os arbitrary: d)
  case Nil
  then show ?case by simp
next
  case (Cons m os)
  have "separated os" using Cons.prems by (auto simp: separated_def)
  with Cons show ?case
    by (simp add: fold_input_patch_commute input_patch_idem)
qed

lemma fold_input_patch_frame:
  "i \<notin> (\<lambda>m. m + 1) ` set os \<Longrightarrow> fold (input_patch old new) os d ! i = d ! i"
  by (induction os arbitrary: d) (auto simp: input_patch_frame)

lemma length_fold_input_patch [simp]: "length (fold (input_patch old new) os d) = length d"
  by (induction os arbitrary: d) auto

section \<open>Rapoo M50 Plus Silent\<close>


definition rapoo_fix_rdesc :: "unit program" where
  "rapoo_fix_rdesc s c data = (case data of None \<Rightarrow> Some (s, [], 0) | Some d \<Rightarrow> do {
     v \<leftarrow> rd d 17;
     d' \<leftarrow> (if v = 0x03 then wr d 17 0x05 else Some d);
     Some (s, d', 0) })"

definition rapoo_patch :: "hid_bpf_ctx \<Rightarrow> u8 list \<Rightarrow> u8 list" where
  "rapoo_patch c d = (if d ! 17 = 0x03 then d[17 := 0x05] else d)"

interpretation rapoo_fixup: patching_fixup rapoo_fix_rdesc rapoo_patch "{17}"
  by unfold_locales (auto simp: rapoo_fix_rdesc_def rapoo_patch_def nth_list_update)

definition rapoo_probe :: "hid_bpf_probe_args \<Rightarrow> hid_bpf_probe_args \<times> int" where
  "rapoo_probe a =
     (let retval = (if pa_rdesc_size a \<noteq> 186 then 1 else 0);
          retval = (if retval \<noteq> 0 then - EINVAL else retval)
      in (a\<lparr>pa_retval := retval\<rparr>, 0))"

section \<open>Mistel MD770\<close>


definition mistel_fix_rdesc :: "unit program" where
  "mistel_fix_rdesc s c data = (case data of None \<Rightarrow> Some (s, [], 0) | Some d \<Rightarrow> do {
     v \<leftarrow> rd d 201;
     d' \<leftarrow> (if v = 0x00 then wr d 201 0x02 else Some d);
     Some (s, d', 0) })"

definition mistel_patch :: "hid_bpf_ctx \<Rightarrow> u8 list \<Rightarrow> u8 list" where
  "mistel_patch c d = (if d ! 201 = 0x00 then d[201 := 0x02] else d)"

interpretation mistel_fixup: patching_fixup mistel_fix_rdesc mistel_patch "{201}"
  by unfold_locales (auto simp: mistel_fix_rdesc_def mistel_patch_def nth_list_update)

definition mistel_probe :: "hid_bpf_probe_args \<Rightarrow> hid_bpf_probe_args \<times> int" where
  "mistel_probe a =
     (let retval = (if pa_rdesc_size a \<noteq> 203 then 1 else 0);
          retval = (if retval \<noteq> 0 then - EINVAL else retval)
      in (a\<lparr>pa_retval := retval\<rparr>, 0))"

section \<open>HP Elite Presenter\<close>


definition hp_fix_rdesc :: "unit program" where
  "hp_fix_rdesc s c data = (case data of None \<Rightarrow> Some (s, [], 0) | Some d \<Rightarrow> do {
     v \<leftarrow> rd d 79;
     d' \<leftarrow> (if v = 0x02 then wr d 79 0x01 else Some d);
     Some (s, d', 0) })"

definition hp_patch :: "hid_bpf_ctx \<Rightarrow> u8 list \<Rightarrow> u8 list" where
  "hp_patch c d = (if d ! 79 = 0x02 then d[79 := 0x01] else d)"

interpretation hp_fixup: patching_fixup hp_fix_rdesc hp_patch "{79}"
  by unfold_locales (auto simp: hp_fix_rdesc_def hp_patch_def nth_list_update)

definition hp_probe :: "hid_bpf_probe_args \<Rightarrow> hid_bpf_probe_args \<times> int" where
  "hp_probe a =
     (let retval = (if pa_rdesc_size a \<noteq> 264 then 1 else 0);
          retval = (if retval \<noteq> 0 then - EINVAL else retval)
      in (a\<lparr>pa_retval := retval\<rparr>, 0))"

section \<open>Trust Philips SPK6327\<close>


definition trust_fix_rdesc :: "unit program" where
  "trust_fix_rdesc s c data = (case data of None \<Rightarrow> Some (s, [], 0) | Some d \<Rightarrow> do {
     v \<leftarrow> rd d 101;
     d' \<leftarrow> (if v = 0x00 then wr d 101 0x02 else Some d);
     Some (s, d', 0) })"

definition trust_patch :: "hid_bpf_ctx \<Rightarrow> u8 list \<Rightarrow> u8 list" where
  "trust_patch c d = (if d ! 101 = 0x00 then d[101 := 0x02] else d)"

interpretation trust_fixup: patching_fixup trust_fix_rdesc trust_patch "{101}"
  by unfold_locales (auto simp: trust_fix_rdesc_def trust_patch_def nth_list_update)

text \<open>The probe has no return statement; its result is not modelled.\<close>

definition trust_probe :: "hid_bpf_probe_args \<Rightarrow> hid_bpf_probe_args" where
  "trust_probe a = (if pa_rdesc_size a = 169 then a\<lparr>pa_retval := 0\<rparr> else a\<lparr>pa_retval := - EINVAL\<rparr>)"

section \<open>IOGEAR Kaliber MMOmentum\<close>


definition iogear_offsets :: "nat list" where
  "iogear_offsets = [84, 112, 140]"

definition iogear_fix_rdesc :: "unit program" where
  "iogear_fix_rdesc s c data = (case data of None \<Rightarrow> Some (s, [], 0) | Some d \<Rightarrow> do {
     k \<leftarrow> rd d 3;
     if k \<noteq> 0x06 then Some (s, d, 0)
     else do {
       d' \<leftarrow> mfold (patch_input 0x03 0x02) iogear_offsets d;
       Some (s, d', 0) } })"

definition iogear_patch :: "hid_bpf_ctx \<Rightarrow> u8 list \<Rightarrow> u8 list" where
  "iogear_patch c d = (if d ! 3 \<noteq> 0x06 then d else fold (input_patch 0x03 0x02) iogear_offsets d)"

lemma iogear_separated: "separated iogear_offsets"
  by (simp add: separated_def iogear_offsets_def)

interpretation iogear_fixup: patching_fixup iogear_fix_rdesc iogear_patch "(\<lambda>m. m + 1) ` set iogear_offsets"
proof
  show "iogear_fix_rdesc s c None = Some (s, [], 0)" for s c
    by (simp add: iogear_fix_rdesc_def)
  show "iogear_fix_rdesc s c (Some d) = Some (s, iogear_patch c d, 0)" if "length d = 4096" for s c d
    using that patch_input_loop [where offsets = iogear_offsets and d = d and old = "0x03" and new = "0x02"]
    by (simp add: iogear_fix_rdesc_def iogear_patch_def iogear_offsets_def del: mfold.simps fold_simps)
  show "length (iogear_patch c d) = length d" for c d
    by (simp add: iogear_patch_def)
  show "iogear_patch c d ! i = d ! i" if "i \<notin> (\<lambda>m. m + 1) ` set iogear_offsets" for i c d
    using that by (simp add: iogear_patch_def fold_input_patch_frame)
  show "iogear_patch c (iogear_patch c d) = iogear_patch c d" for c d
  proof -
    have "fold (input_patch 0x03 0x02) iogear_offsets d ! 3 = d ! 3"
      by (rule fold_input_patch_frame) (simp add: iogear_offsets_def)
    then show ?thesis
      by (simp add: iogear_patch_def fold_input_patch_idem iogear_separated)
  qed
qed

definition iogear_probe :: "hid_bpf_probe_args \<Rightarrow> hid_bpf_probe_args \<times> int" where
  "iogear_probe a =
     (let retval = (if pa_rdesc_size a \<noteq> 213 then 1 else 0);
          retval = (if retval \<noteq> 0 then - EINVAL else retval)
      in (a\<lparr>pa_retval := retval\<rparr>, 0))"

section \<open>Logitech SpaceNavigator\<close>


definition spacenav_offsets :: "nat list" where
  "spacenav_offsets = [32, 36, 49, 53]"

definition spacenav_fix_rdesc :: "unit program" where
  "spacenav_fix_rdesc s c data = (case data of None \<Rightarrow> Some (s, [], 0) | Some d \<Rightarrow> do {
     d' \<leftarrow> mfold (patch_input 0x06 0x02) spacenav_offsets d;
     Some (s, d', 0) })"

definition spacenav_patch :: "hid_bpf_ctx \<Rightarrow> u8 list \<Rightarrow> u8 list" where
  "spacenav_patch c d = fold (input_patch 0x06 0x02) spacenav_offsets d"

lemma spacenav_separated: "separated spacenav_offsets"
  by (simp add: separated_def spacenav_offsets_def)

interpretation spacenav_fixup: patching_fixup spacenav_fix_rdesc spacenav_patch "(\<lambda>m. m + 1) ` set spacenav_offsets"
proof
  show "spacenav_fix_rdesc s c None = Some (s, [], 0)" for s c
    by (simp add: spacenav_fix_rdesc_def)
  show "spacenav_fix_rdesc s c (Some d) = Some (s, spacenav_patch c d, 0)" if "length d = 4096" for s c d
    using that patch_input_loop [where offsets = spacenav_offsets and d = d and old = "0x06" and new = "0x02"]
    by (simp add: spacenav_fix_rdesc_def spacenav_patch_def spacenav_offsets_def del: mfold.simps fold_simps)
  show "length (spacenav_patch c d) = length d" for c d
    by (simp add: spacenav_patch_def)
  show "spacenav_patch c d ! i = d ! i" if "i \<notin> (\<lambda>m. m + 1) ` set spacenav_offsets" for i c d
    using that by (simp add: spacenav_patch_def fold_input_patch_frame)
  show "spacenav_patch c (spacenav_patch c d) = spacenav_patch c d" for c d
    by (simp add: spacenav_patch_def fold_input_patch_idem spacenav_separated)
qed

definition spacenav_probe :: "hid_bpf_probe_args \<Rightarrow> hid_bpf_probe_args \<times> int" where
  "spacenav_probe a =
     (let r = pa_rdesc a in
      if pa_rdesc_size a \<noteq> 202 \<and> pa_rdesc_size a \<noteq> 217 \<and> pa_rdesc_size a \<noteq> 228
      then (a\<lparr>pa_retval := - EINVAL\<rparr>, 0)
      else if (r ! 32 = 0x81 \<and> r ! 33 = 0x02 \<and> r ! 49 = 0x81 \<and> r ! 50 = 0x02) \<or>
              (r ! 36 = 0x81 \<and> r ! 37 = 0x02 \<and> r ! 53 = 0x81 \<and> r ! 54 = 0x02)
      then (a\<lparr>pa_retval := - EINVAL\<rparr>, 0)
      else (a\<lparr>pa_retval := 0\<rparr>, 0))"

section \<open>Microsoft Xbox Elite 2\<close>


abbreviation (input) xbox_VID_MICROSOFT :: "'a::numeral" where "xbox_VID_MICROSOFT \<equiv> 0x045e"

abbreviation (input) xbox_PID_XBOX_ELITE_2 :: "'a::numeral" where "xbox_PID_XBOX_ELITE_2 \<equiv> 0x0b22"

abbreviation (input) xbox_OFFSET_ASSIGN_SELECTION :: "'a::numeral" where "xbox_OFFSET_ASSIGN_SELECTION \<equiv> 211"

abbreviation (input) xbox_ORIGINAL_RDESC_SIZE :: "'a::numeral" where "xbox_ORIGINAL_RDESC_SIZE \<equiv> 464"

definition xbox_rdesc_assign_selection :: "u8 list" where
  "xbox_rdesc_assign_selection = [
     0x0a, 0x99, 0x00,
     0x15, 0x00,
     0x26, 0xff, 0x00,
     0x95, 0x01,
     0x75, 0x04,
     0x81, 0x02,
     0x15, 0x00,
     0x25, 0x00,
     0x95, 0x01,
     0x75, 0x04,
     0x81, 0x03,
     0x0a, 0x81, 0x00,
     0x15, 0x00,
     0x26, 0xff, 0x00,
     0x95, 0x01,
     0x75, 0x04,
     0x81, 0x02]"

definition xbox_fixed_rdesc_assign_selection :: "u8 list" where
  "xbox_fixed_rdesc_assign_selection = [
     0x0a, 0x99, 0x00,
     0x15, 0x00,
     0x26, 0xff, 0x00,
     0x95, 0x01,
     0x75, 0x04,
     0x81, 0x02,
     0x25, 0x01,
     0x95, 0x04,
     0x75, 0x01,
     0x81, 0x03,
     0xc0,
     0x05, 0x01,
     0x0a, 0x05, 0x00,
     0xa1, 0x01,
     0x05, 0x09,
     0x19, 0x15,
     0x29, 0x18,
     0x81, 0x02]"

text \<open>The two static assertions of the file.\<close>

lemma xbox_static_asserts:
  "length xbox_rdesc_assign_selection = length xbox_fixed_rdesc_assign_selection"
  "length xbox_rdesc_assign_selection + xbox_OFFSET_ASSIGN_SELECTION < xbox_ORIGINAL_RDESC_SIZE"
  by (simp_all add: xbox_rdesc_assign_selection_def xbox_fixed_rdesc_assign_selection_def)

definition xbox_fix_rdesc :: "unit program" where
  "xbox_fix_rdesc s c data = (case data of None \<Rightarrow> Some (s, [], 0) | Some d \<Rightarrow> do {
     eq \<leftarrow> memeq d xbox_OFFSET_ASSIGN_SELECTION xbox_rdesc_assign_selection;
     if \<not> eq then Some (s, d, 0)
     else do {
       d' \<leftarrow> memcpy d xbox_OFFSET_ASSIGN_SELECTION xbox_fixed_rdesc_assign_selection;
       Some (s, d', 0) } })"

definition xbox_patch :: "hid_bpf_ctx \<Rightarrow> u8 list \<Rightarrow> u8 list" where
  "xbox_patch c d =
     (if take 38 (drop 211 d) = xbox_rdesc_assign_selection
      then take 211 d @ xbox_fixed_rdesc_assign_selection @ drop 249 d else d)"

lemma xbox_lengths [simp]:
  "length xbox_rdesc_assign_selection = 38" "length xbox_fixed_rdesc_assign_selection = 38"
  by (simp_all add: xbox_rdesc_assign_selection_def xbox_fixed_rdesc_assign_selection_def)

lemma xbox_selections_differ: "xbox_fixed_rdesc_assign_selection \<noteq> xbox_rdesc_assign_selection"
  by (simp add: xbox_rdesc_assign_selection_def xbox_fixed_rdesc_assign_selection_def)

lemma xbox_patch_window:
  "take 38 (drop 211 d) = xbox_rdesc_assign_selection \<Longrightarrow> 249 \<le> length d"
proof -
  assume "take 38 (drop 211 d) = xbox_rdesc_assign_selection"
  then have "length (take 38 (drop 211 d)) = 38" by (simp only: xbox_lengths)
  then show "249 \<le> length d" by (simp add: min_def split: if_splits)
qed

interpretation xbox_fixup: patching_fixup xbox_fix_rdesc xbox_patch "{211..<249}"
proof
  show "xbox_fix_rdesc s c None = Some (s, [], 0)" for s c
    by (simp add: xbox_fix_rdesc_def)
  show "xbox_fix_rdesc s c (Some d) = Some (s, xbox_patch c d, 0)" if "length d = 4096" for s c d
    using that by (simp add: xbox_fix_rdesc_def xbox_patch_def)
  show "length (xbox_patch c d) = length d" for c d
    using xbox_patch_window [of d] by (auto simp: xbox_patch_def min_def)
  show "xbox_patch c d ! i = d ! i" if "i \<notin> {211..<249}" for i c d
    using that xbox_patch_window [of d] by (auto simp: xbox_patch_def nth_append)
  show "xbox_patch c (xbox_patch c d) = xbox_patch c d" if "length d = 4096" for c d
    using that by (simp add: xbox_patch_def xbox_selections_differ)
qed

definition xbox_probe :: "hid_bpf_probe_args \<Rightarrow> hid_bpf_probe_args \<times> int" where
  "xbox_probe a =
     (let retval = (if pa_rdesc_size a \<noteq> xbox_ORIGINAL_RDESC_SIZE then 1 else 0);
          retval = (if retval \<noteq> 0 then - EINVAL else retval);
          retval = (if \<not> has_prefix (drop xbox_OFFSET_ASSIGN_SELECTION (pa_rdesc a)) xbox_rdesc_assign_selection
                    then - EINVAL else retval)
      in (a\<lparr>pa_retval := retval\<rparr>, 0))"

section \<open>FR-TEC Raptor Mach 2\<close>

definition raptor_fix_rdesc :: "unit program" where
  "raptor_fix_rdesc s c data = (case data of None \<Rightarrow> Some (s, [], 0) | Some d \<Rightarrow> do {
     d' \<leftarrow> wr d 177 0x07;
     Some (s, d', 0) })"

definition raptor_patch :: "hid_bpf_ctx \<Rightarrow> u8 list \<Rightarrow> u8 list" where
  "raptor_patch c d = d[177 := 0x07]"

interpretation raptor_fixup: patching_fixup raptor_fix_rdesc raptor_patch "{177}"
  by unfold_locales (auto simp: raptor_fix_rdesc_def raptor_patch_def)

text \<open>The hat switch value, reported in degrees, becomes one of eight directions.\<close>

definition raptor_fix_hat_switch :: "unit program" where
  "raptor_fix_hat_switch s c data = (case data of None \<Rightarrow> Some (s, [], 0) | Some d \<Rightarrow> do {
     d0 \<leftarrow> rd d 0;
     if d0 \<noteq> 0x01 then Some (s, d, 0)
     else do {
       v \<leftarrow> rd d 33;
       d' \<leftarrow> wr d 33 (v div 30);
       Some (s, d', 0) } })"

interpretation raptor_events: hid_program raptor_fix_hat_switch 64
  by unfold_locales (auto simp: raptor_fix_hat_switch_def)

definition raptor_probe :: "hid_bpf_probe_args \<Rightarrow> hid_bpf_probe_args \<times> int" where
  "raptor_probe a =
     (let retval = (if pa_rdesc_size a \<noteq> 232 then 1 else 0);
          retval = (if retval \<noteq> 0 then - EINVAL else retval);
          retval = (if pa_rdesc a ! 177 \<noteq> 0xef then - EINVAL else retval)
      in (a\<lparr>pa_retval := retval\<rparr>, 0))"

section \<open>Thrustmaster TCA Yoke Boeing\<close>

text \<open>This fixup looks at the size before it asks for the data.\<close>

definition tca_fix_rdesc :: "unit program" where
  "tca_fix_rdesc s c data =
     (if ctx_size c \<noteq> 148 then Some (s, case data of None \<Rightarrow> [] | Some d \<Rightarrow> d, 0)
      else case data of None \<Rightarrow> Some (s, [], 0) | Some d \<Rightarrow> do {
        d1 \<leftarrow> rd d 1;
        d3 \<leftarrow> rd d 3;
        if d1 \<noteq> 0x01 \<or> d3 \<noteq> 0x04 then Some (s, d, 0)
        else do {
          d90 \<leftarrow> rd d 90;
          d103 \<leftarrow> rd d 103;
          if d90 = 0x81 \<and> d103 = 0x81 then do {
            d' \<leftarrow> wr d 91 0x03;
            d' \<leftarrow> wr d' 104 0x03;
            Some (s, d', 0) }
          else Some (s, d, 0) } })"

definition tca_patch :: "hid_bpf_ctx \<Rightarrow> u8 list \<Rightarrow> u8 list" where
  "tca_patch c d =
     (if ctx_size c = 148 \<and> d ! 1 = 0x01 \<and> d ! 3 = 0x04 \<and> d ! 90 = 0x81 \<and> d ! 103 = 0x81
      then d[91 := 0x03, 104 := 0x03] else d)"

interpretation tca_fixup: patching_fixup tca_fix_rdesc tca_patch "{91, 104}"
proof
  show "tca_patch c (tca_patch c d) = tca_patch c d" for c d
  proof -
    have "d[91 := 3, 104 := 3, 91 := 3, 104 := 3] = d[91 := (3 :: u8), 104 := 3]"
      by (simp add: list_update_swap [of 104 91])
    then show ?thesis by (simp add: tca_patch_def)
  qed
qed (auto simp: tca_fix_rdesc_def tca_patch_def)

text \<open>The probe never sets \<open>retval\<close> to 0.\<close>

definition tca_probe :: "hid_bpf_probe_args \<Rightarrow> hid_bpf_probe_args \<times> int" where
  "tca_probe a = (if pa_rdesc a ! 91 \<noteq> 0x02 then (a\<lparr>pa_retval := - EINVAL\<rparr>, 0) else (a, 0))"

section \<open>Mini keyboard\<close>

definition minikbd_fix_rdesc :: "unit program" where
  "minikbd_fix_rdesc s c data = (case data of None \<Rightarrow> Some (s, [], 0) | Some d \<Rightarrow> do {
     a \<leftarrow> rd d 103;
     b \<leftarrow> rd d 109;
     d' \<leftarrow> (if a = 0x65 \<and> b = 0x65 then do { x \<leftarrow> wr d 103 0xff; wr x 109 0xff } else Some d);
     Some (s, d', 0) })"

definition minikbd_patch :: "hid_bpf_ctx \<Rightarrow> u8 list \<Rightarrow> u8 list" where
  "minikbd_patch c d = (if d ! 103 = 0x65 \<and> d ! 109 = 0x65 then d[103 := 0xff, 109 := 0xff] else d)"

interpretation minikbd_fixup: patching_fixup minikbd_fix_rdesc minikbd_patch "{103, 109}"
  by unfold_locales (auto simp: minikbd_fix_rdesc_def minikbd_patch_def)

definition minikbd_probe :: "hid_bpf_probe_args \<Rightarrow> hid_bpf_probe_args \<times> int" where
  "minikbd_probe a =
     (let retval = (if pa_rdesc_size a \<noteq> 140 then 1 else 0);
          retval = (if retval \<noteq> 0 then - EINVAL else retval)
      in (a\<lparr>pa_retval := retval\<rparr>, 0))"


text \<open>
  Whatever the device, the Thrustmaster TCA probe never accepts it: it only ever writes an error, and the
  loader starts from -1.
\<close>

theorem tca_probe_never_accepts: "\<not> probe_accepts (fst (tca_probe (loader_args hid rdesc)))"
  by (simp add: tca_probe_def loader_args_def probe_accepts_def)

end
