(* ===== verification/Event_Patches.thy ===== *)
theory Event_Patches
  imports Kernel_Iface Report_Macros
begin

unbundle bit_operations_syntax

text \<open>
  The programs that change a few bytes of a report: TUXEDO Sirius 16, MX Master 3S, the PCsensor foot
  switch and the inverted mouse axis; the MX Master 3B probe; the two no-op programs.
\<close>

section \<open>TUXEDO Sirius 16\<close>

definition tuxedo_fix_event :: "unit program" where
  "tuxedo_fix_event s c data =
     (if ctx_size c < 37 then Some (s, case data of None \<Rightarrow> [] | Some d \<Rightarrow> d, 0)
      else case data of None \<Rightarrow> Some (s, [], 0) | Some d \<Rightarrow> do {
        d0 \<leftarrow> rd d 0;
        if d0 \<noteq> 1 then Some (s, d, 0)
        else do {
          d1 \<leftarrow> mfold (\<lambda>i d. do { v \<leftarrow> rd d i; if v = 0x68 then wr d i 0x00 else Some d }) [3..<9] d;
          v \<leftarrow> rd d1 22;
          d2 \<leftarrow> wr d1 22 (v AND 0xfe);
          Some (s, d2, 0) } })"

text \<open>The loop clears the key in the six slots.\<close>

lemma tuxedo_clear_keys:
  assumes "list_all (\<lambda>i. i < length d) is"
  shows "mfold (\<lambda>i d. do { v \<leftarrow> rd d i; if v = 0x68 then wr d i 0x00 else Some d }) is d =
    Some (map (\<lambda>i. if i \<in> set is \<and> d ! i = 0x68 then 0 else d ! i) [0..<length d])"
  using assms
proof (induction "is" arbitrary: d)
  case Nil
  then show ?case by (simp add: map_nth)
next
  case (Cons i "is")
  let ?d = "if d ! i = 0x68 then d[i := 0] else d"
  have len: "length ?d = length d" by simp
  then have "mfold (\<lambda>i d. do { v \<leftarrow> rd d i; if v = 0x68 then wr d i 0x00 else Some d }) is ?d =
    Some (map (\<lambda>k. if k \<in> set is \<and> ?d ! k = 0x68 then 0 else ?d ! k) [0..<length ?d])"
    using Cons by simp
  moreover have "map (\<lambda>k. if k \<in> set is \<and> ?d ! k = 0x68 then 0 else ?d ! k) [0..<length ?d] =
    map (\<lambda>k. if k \<in> set (i # is) \<and> d ! k = 0x68 then 0 else d ! k) [0..<length d]"
    using Cons.prems by (auto simp: nth_list_update)
  ultimately show ?case using Cons.prems by (simp split: if_splits)
qed

interpretation tuxedo_events: hid_program tuxedo_fix_event 37
proof
  show "tuxedo_fix_event s c None = Some (s, [], 0)" for s c
    by (simp add: tuxedo_fix_event_def)
  show "\<exists>s' d' r. tuxedo_fix_event s c (Some d) = Some (s', d', r) \<and> length d' = 37 \<and> r \<le> int 37"
    if "length d = 37" for d s c
    using that tuxedo_clear_keys [of d "[3..<9]"]
    by (simp add: tuxedo_fix_event_def list_all_iff del: mfold.simps)
qed

section \<open>Logitech MX Master 3S\<close>

definition mx3s_fix_event :: "unit program" where
  "mx3s_fix_event s c data =
     (if ctx_size c < 9 then Some (s, case data of None \<Rightarrow> [] | Some d \<Rightarrow> d, 0)
      else case data of None \<Rightarrow> Some (s, [], 0) | Some d \<Rightarrow> do {
        report_id \<leftarrow> rd d 0;
        if report_id \<noteq> 2 then Some (s, d, 0)
        else do {
          pan \<leftarrow> rd d 8;
          d' \<leftarrow> wr d 8 (- pan);
          Some (s, d', 9) } })"

interpretation mx3s_events: hid_program mx3s_fix_event 9
  by unfold_locales (auto simp: mx3s_fix_event_def)

definition mx3s_probe :: "hid_bpf_probe_args \<Rightarrow> hid_bpf_probe_args \<times> int" where
  "mx3s_probe a =
     (let expected_rdesc = bytes (concat [UsagePage_GenericDesktop, Usage_GD_Mouse]) in
      if length expected_rdesc < unat (pa_rdesc_size a) \<and> has_prefix (pa_rdesc a) expected_rdesc
      then (a\<lparr>pa_retval := 0\<rparr>, 0)
      else (a\<lparr>pa_retval := - EINVAL\<rparr>, 0))"

section \<open>Logitech MX Master 3B\<close>

text \<open>The program is a probe only: it finds the vendor collection and disables smart shift.\<close>

definition mx3b_disable_smart_shift :: "u8 list" where
  "mx3b_disable_smart_shift =
     [0x11, 0x01, 0x09, 0x32, 0x00, 0xc4, 0x00, 0x00, 0x52, 0x00,
      0x00, 0x00, 0x00, 0x00, 0x00, 0x00, 0x00, 0x00, 0x00, 0x00]"

definition mx3b_check_usb :: "hid_bpf_probe_args \<Rightarrow> int" where
  "mx3b_check_usb a =
     (let r = pa_rdesc a; offset = 27 in
      if unat (pa_rdesc_size a) > offset + 9 \<and>
         r ! offset = 0x06 \<and> r ! (offset + 1) = 0x00 \<and> r ! (offset + 2) = 0xff \<and>
         r ! (offset + 3) = 0x09 \<and> r ! (offset + 4) = 0x02 \<and>
         r ! (offset + 7) = 0x85 \<and> r ! (offset + 8) = 0x11
      then 0 else - 22)"

definition mx3b_check_bluetooth :: "hid_bpf_probe_args \<Rightarrow> int" where
  "mx3b_check_bluetooth a =
     (let r = pa_rdesc a; offset = 69 in
      if unat (pa_rdesc_size a) > offset + 10 \<and>
         r ! offset = 0x06 \<and> r ! (offset + 1) = 0x43 \<and> r ! (offset + 2) = 0xff \<and>
         r ! (offset + 3) = 0x0a \<and> r ! (offset + 4) = 0x02 \<and> r ! (offset + 5) = 0x02 \<and>
         r ! (offset + 8) = 0x85 \<and> r ! (offset + 9) = 0x11
      then 0 else - 22)"

text \<open>
  \<open>alloc\<close> stands for \<open>hid_bpf_allocate_context\<close> and \<open>output_request\<close> for \<open>hid_bpf_hw_request\<close> with
  \<open>HID_OUTPUT_REPORT\<close>, \<open>HID_REQ_SET_REPORT\<close>. The third result is the report sent, if any.
\<close>

definition mx3b_probe ::
    "(u32 \<Rightarrow> hid_device option) \<Rightarrow> (hid_device \<Rightarrow> u8 list \<Rightarrow> int) \<Rightarrow> hid_bpf_probe_args \<Rightarrow>
     hid_bpf_probe_args \<times> int \<times> u8 list option" where
  "mx3b_probe alloc output_request a = (case alloc (pa_hid a) of
      None \<Rightarrow> (a, - 1, None)
    | Some hid \<Rightarrow>
        (let retval = (if hdev_bus hid = 0x03 then mx3b_check_usb a else mx3b_check_bluetooth a) in
         if retval \<noteq> 0 then (a\<lparr>pa_retval := retval\<rparr>, 0, None)
         else
           (let ret = output_request hid mx3b_disable_smart_shift;
                retval = (if ret < 0 then ret else retval)
            in (a\<lparr>pa_retval := retval\<rparr>, 0, Some mx3b_disable_smart_shift))))"

section \<open>PCsensor foot switch\<close>


abbreviation (input) footsw_VID_QINHENG :: "'a::numeral" where "footsw_VID_QINHENG \<equiv> 0x1a86"

abbreviation (input) footsw_PID_FOOTPEDAL :: "'a::numeral" where "footsw_PID_FOOTPEDAL \<equiv> 0xe026"

abbreviation (input) footsw_FOOTPEDAL_REPORT_DESCRIPTOR_LENGTH :: "'a::numeral" where "footsw_FOOTPEDAL_REPORT_DESCRIPTOR_LENGTH \<equiv> 212"

abbreviation (input) footsw_KEYBOARD_REPORT_ID :: "'a::numeral" where "footsw_KEYBOARD_REPORT_ID \<equiv> 1"

definition footsw_fix_events :: "unit program" where
  "footsw_fix_events s c data = (case data of None \<Rightarrow> Some (s, [], 0) | Some d \<Rightarrow> do {
     d0 \<leftarrow> rd d 0;
     if d0 \<noteq> footsw_KEYBOARD_REPORT_ID then Some (s, d, 0)
     else do {
       released \<leftarrow> memeq d 0 [footsw_KEYBOARD_REPORT_ID, 0, 0, 0, 0, 0, 0, 0, 0];
       if released then Some (s, d, 0)
       else do {
         let report = [footsw_KEYBOARD_REPORT_ID, 0x1, 0, 6, 0, 0, 0, 0, 0];
         d' \<leftarrow> memcpy d 0 report;
         Some (s, d', int (length report)) } } })"

interpretation footsw_events: hid_program footsw_fix_events 10
  by unfold_locales (auto simp: footsw_fix_events_def)

definition footsw_probe :: "hid_bpf_probe_args \<Rightarrow> hid_bpf_probe_args \<times> int" where
  "footsw_probe a =
     (let retval = (if pa_rdesc_size a \<noteq> footsw_FOOTPEDAL_REPORT_DESCRIPTOR_LENGTH then 1 else 0);
          retval = (if retval \<noteq> 0 then - EINVAL else retval)
      in (a\<lparr>pa_retval := retval\<rparr>, 0))"

section \<open>Inverted Y axis\<close>

definition inverty_event :: "unit program" where
  "inverty_event s c data = (case data of None \<Rightarrow> Some (s, [], 0) | Some d \<Rightarrow> do {
     d3 \<leftarrow> rd d 3; d4 \<leftarrow> rd d 4;
     let y = - le16 d3 d4;
     d' \<leftarrow> wr d 3 (byte_of 0 y);
     d'' \<leftarrow> wr d' 4 (byte_of 1 y);
     Some (s, d'', 0) })"

interpretation inverty_events: hid_program inverty_event 9
  by unfold_locales (auto simp: inverty_event_def Let_def)

definition inverty_probe :: "hid_bpf_probe_args \<Rightarrow> hid_bpf_probe_args \<times> int" where
  "inverty_probe a =
     (let retval = (if pa_rdesc_size a \<noteq> 71 then 1 else 0);
          retval = (if retval \<noteq> 0 then - EINVAL else retval)
      in (a\<lparr>pa_retval := retval\<rparr>, 0))"

section \<open>The two no-op programs\<close>

text \<open>Their handler never asks for the data.\<close>

definition noop_event :: "unit program" where
  "noop_event s c data = Some (s, case data of None \<Rightarrow> [] | Some d \<Rightarrow> d, 0)"

interpretation noop_events: hid_program noop_event 0
  by unfold_locales (auto simp: noop_event_def)

definition noop_succeed_probe :: "hid_bpf_probe_args \<Rightarrow> hid_bpf_probe_args \<times> int" where
  "noop_succeed_probe a = (a\<lparr>pa_retval := 0\<rparr>, 0)"

definition noop_fail_probe :: "hid_bpf_probe_args \<Rightarrow> hid_bpf_probe_args \<times> int" where
  "noop_fail_probe a = (a\<lparr>pa_retval := - EINVAL\<rparr>, 0)"

end
