(* ===== verification/Event_Trace.thy ===== *)
theory Event_Trace
  imports Kernel_Iface
begin

text \<open>
  \<open>hid_bpf_printk_event\<close> of \<open>hid_bpf_helpers.h\<close> and \<open>0010-trace_hid_events.bpf.c\<close>, the program that prints every
  report as lines of 64 bytes in hexadecimal and lets it pass. The calls of \<open>bpf_printk\<close> are values of
  \<open>printk\<close>. \<open>BPF_SNPRINTF\<close> is a kernel function: what it stores for \<open>"%02x "\<close> and a size of 4 is the parameter
  \<open>snprintf\<close>, and \<open>snprintf_ok\<close> is its documented result. The line buffer \<open>__printk_str\<close> is a global and is
  never cleared, so it is threaded from one report to the next.
\<close>

abbreviation (input) PRINTK_PACKET_SIZE :: nat where "PRINTK_PACKET_SIZE \<equiv> 64"

section \<open>The program\<close>

datatype printk =
    Printk_error int
  | Printk_size int
  | Printk_packet nat "u8 list"

text \<open>\<open>%s\<close>: the bytes in front of the terminating zero; \<open>None\<close> reads past the end of the buffer.\<close>

definition c_string :: "u8 list \<Rightarrow> u8 list option" where
  "c_string str = (if 0 \<in> set str then Some (takeWhile (\<lambda>c. c \<noteq> 0) str) else None)"

definition printk_str_init :: "u8 list" where
  "printk_str_init = replicate (PRINTK_PACKET_SIZE * 3 + 1) 0"

definition printk_byte ::
    "(u8 \<Rightarrow> u8 list) \<Rightarrow> nat \<Rightarrow> nat \<Rightarrow> u8 list \<Rightarrow> nat \<Rightarrow> u8 list \<Rightarrow> u8 list option" where
  "printk_byte snprintf sz offset data i str =
     (if i + offset < sz then do { v \<leftarrow> rd data i; memcpy str (i * 3) (snprintf v) } else Some str)"

fun printk_packets ::
    "(u8 list \<Rightarrow> nat \<Rightarrow> nat \<Rightarrow> nat option) \<Rightarrow> (u8 \<Rightarrow> u8 list) \<Rightarrow> nat \<Rightarrow> u8 list \<Rightarrow> nat list \<Rightarrow> u8 list \<Rightarrow>
     (u8 list \<times> printk list) option" where
  "printk_packets get_data snprintf sz buf [] str = Some (str, [])"
| "printk_packets get_data snprintf sz buf (p # ps) str =
     (let offset = p * PRINTK_PACKET_SIZE in
      case get_data buf offset PRINTK_PACKET_SIZE of
        None \<Rightarrow> Some (str, [])
      | Some q \<Rightarrow> do {
          str \<leftarrow> mfold (printk_byte snprintf sz offset (take PRINTK_PACKET_SIZE (drop q buf)))
                   [0..<PRINTK_PACKET_SIZE] str;
          line \<leftarrow> c_string str;
          (str, out) \<leftarrow> printk_packets get_data snprintf sz buf ps str;
          Some (str, Printk_packet offset line # out) })"

definition hid_bpf_printk_event ::
    "(u8 list \<Rightarrow> nat \<Rightarrow> nat \<Rightarrow> nat option) \<Rightarrow> (u8 \<Rightarrow> u8 list) \<Rightarrow> hid_bpf_ctx \<Rightarrow> u8 list \<Rightarrow> u8 list \<Rightarrow>
     (u8 list \<times> printk list) option" where
  "hid_bpf_printk_event get_data snprintf c buf str =
     (if ctx_size c < 0 then Some (str, [Printk_error (ctx_size c)])
      else
        let sz = nat (ctx_size c); packet_count = sz div PRINTK_PACKET_SIZE + 1 in do {
          (str, out) \<leftarrow> printk_packets get_data snprintf sz buf [0..<packet_count] str;
          Some (str, Printk_size (int sz) # out) })"

definition trace_hid_events ::
    "(u8 list \<Rightarrow> nat \<Rightarrow> nat \<Rightarrow> nat option) \<Rightarrow> (u8 \<Rightarrow> u8 list) \<Rightarrow> hid_bpf_ctx \<Rightarrow> u8 list \<Rightarrow> u8 list \<Rightarrow>
     (u8 list \<times> printk list \<times> int) option" where
  "trace_hid_events get_data snprintf c buf str = do {
     (str, out) \<leftarrow> hid_bpf_printk_event get_data snprintf c buf str;
     Some (str, out, 0) }"

text \<open>The reports of a device in order: what is printed for each, and what is delivered.\<close>

fun traced_events ::
    "(u8 \<Rightarrow> u8 list) \<Rightarrow> hid_device \<Rightarrow> u8 list \<Rightarrow> u8 list list \<Rightarrow>
     (u8 list \<times> printk list list \<times> u8 list option list) option" where
  "traced_events snprintf hid str [] = Some (str, [], [])"
| "traced_events snprintf hid str (rep # reps) = do {
     (str, out, r) \<leftarrow> trace_hid_events hid_bpf_get_data snprintf
                        \<lparr>ctx_hid = hid, ctx_size = int (length rep)\<rparr> (report_buffer rep) str;
     (str, outs, dels) \<leftarrow> traced_events snprintf hid str reps;
     Some (str, out # outs, delivered (length rep) (report_buffer rep) r # dels) }"

section \<open>Hexadecimal lines\<close>

definition hex_digit :: "nat \<Rightarrow> u8" where
  "hex_digit n = (if n < 10 then 0x30 + word_of_nat n else 0x57 + word_of_nat n)"

definition hex_byte :: "u8 \<Rightarrow> u8 list" where
  "hex_byte v = [hex_digit (unat v div 16), hex_digit (unat v mod 16), 0x20]"

definition hexdump :: "u8 list \<Rightarrow> u8 list" where
  "hexdump ds = concat (map hex_byte ds)"

definition snprintf_ok :: "(u8 \<Rightarrow> u8 list) \<Rightarrow> bool" where
  "snprintf_ok snprintf \<longleftrightarrow> (\<forall>v. snprintf v = hex_byte v @ [0])"

text \<open>Reading a line back.\<close>

definition hex_value :: "u8 \<Rightarrow> u8" where
  "hex_value c = (if c < 0x3a then c - 0x30 else c - 0x57)"

fun unhex :: "u8 list \<Rightarrow> u8 list" where
  "unhex (a # b # _ # cs) = (16 * hex_value a + hex_value b) # unhex cs"
| "unhex _ = []"

definition read_trace :: "printk list \<Rightarrow> u8 list" where
  "read_trace out = (case out of
     Printk_size n # lines \<Rightarrow>
       take (nat n) (concat (map (\<lambda>l. case l of Printk_packet _ line \<Rightarrow> unhex line | _ \<Rightarrow> []) lines))
   | _ \<Rightarrow> [])"

lemma length_hexdump [simp]: "length (hexdump ds) = 3 * length ds"
  by (induction ds) (simp_all add: hexdump_def hex_byte_def)

lemma hexdump_simps [simp]:
  "hexdump [] = []" "hexdump (xs @ ys) = hexdump xs @ hexdump ys" "hexdump (v # ds) = hex_byte v @ hexdump ds"
  by (simp_all add: hexdump_def)

lemma nibble_cases:
  assumes "n < (16 :: nat)"
  shows "hex_digit n \<noteq> 0 \<and> hex_value (hex_digit n) = word_of_nat n"
proof -
  have "n \<in> set [0..<16]" using assms by simp
  moreover have "list_all (\<lambda>n. hex_digit n \<noteq> 0 \<and> hex_value (hex_digit n) = word_of_nat n) [0..<16]"
    by (simp add: upt_rec hex_digit_def hex_value_def)
  ultimately show ?thesis by (simp add: list_all_iff)
qed

lemma nibbles: "unat (v :: u8) div 16 < 16" "unat v mod 16 < 16"
proof -
  have "unat v < 256" using unsigned_less [of v] by simp
  then show "unat v div 16 < 16" "unat v mod 16 < 16" by simp_all
qed

lemma unhex_byte: "16 * hex_value (hex_digit (unat v div 16)) + hex_value (hex_digit (unat v mod 16)) = v"
proof -
  have "16 * word_of_nat (unat v div 16) + word_of_nat (unat v mod 16) =
      (word_of_nat (16 * (unat v div 16) + unat v mod 16) :: u8)"
    by (simp only: of_nat_add of_nat_mult) simp
  then show ?thesis by (simp add: nibble_cases nibbles)
qed

lemma unhex_hexdump [simp]: "unhex (hexdump ds) = ds"
  by (induction ds) (simp_all add: hex_byte_def unhex_byte)

lemma hexdump_nonzero: "0 \<notin> set (hexdump ds)"
  using nibble_cases nibbles by (fastforce simp: hexdump_def hex_byte_def)

lemma c_string_hexdump: "c_string (hexdump ds @ 0 # z) = Some (hexdump ds)"
proof -
  have "takeWhile (\<lambda>c. c \<noteq> 0) (hexdump ds @ 0 # z) = hexdump ds @ takeWhile (\<lambda>c. c \<noteq> 0) (0 # z)"
    using hexdump_nonzero [of ds] by (intro takeWhile_append2) auto
  then show ?thesis by (simp add: c_string_def)
qed

section \<open>One packet\<close>

definition printk_str_ok :: "u8 list \<Rightarrow> u8 list \<Rightarrow> bool" where
  "printk_str_ok prev str \<longleftrightarrow> length str = PRINTK_PACKET_SIZE * 3 + 1 \<and> c_string str = Some prev"

lemma printk_str_init_ok: "printk_str_ok [] printk_str_init"
  by (simp add: printk_str_ok_def printk_str_init_def c_string_def)

text \<open>Every entry overwrites the zero that ended the line so far and ends it anew.\<close>

lemma printk_bytes_written:
  assumes f: "snprintf_ok snprintf" and "length str = 193" and "k \<le> length data" "k \<le> 64" "k + offset \<le> sz"
  shows "mfold (printk_byte snprintf sz offset data) [0..<k] str =
    Some (if k = 0 then str else hexdump (take k data) @ 0 # drop (3 * k + 1) str)"
  using assms(3-)
proof (induction k)
  case 0
  then show ?case by simp
next
  case (Suc k)
  let ?str = "if k = 0 then str else hexdump (take k data) @ 0 # drop (3 * k + 1) str"
  have len: "length ?str = 193" using Suc.prems assms(2) by simp
  have snp: "snprintf (data ! k) = hex_byte (data ! k) @ [0]" using f by (simp add: snprintf_ok_def)
  have h3: "length (hex_byte (data ! k)) = 3" by (simp add: hex_byte_def)
  have "memcpy ?str (k * 3) (snprintf (data ! k)) =
      Some (take (k * 3) ?str @ (hex_byte (data ! k) @ [0]) @ drop (k * 3 + 4) ?str)"
    using len h3 Suc.prems by (simp only: snp) simp
  moreover have "take (k * 3) ?str = hexdump (take k data)"
    using Suc.prems by (auto simp: min_def)
  moreover have "drop (k * 3 + 4) ?str = drop (3 * Suc k + 1) str"
    using Suc.prems by (auto simp: min_def ac_simps)
  ultimately have "printk_byte snprintf sz offset data k ?str =
      Some (hexdump (take (Suc k) data) @ 0 # drop (3 * Suc k + 1) str)"
    using Suc.prems by (simp add: printk_byte_def take_Suc_conv_app_nth)
  with Suc show ?case by (simp add: mfold_append del: upt_Suc) (simp add: mfold_append)
qed

lemma printk_bytes_skipped:
  "sz \<le> k + offset \<Longrightarrow> mfold (printk_byte snprintf sz offset data) [k..<m] str = Some str"
  using mfold_pure [of "[k..<m]" "printk_byte snprintf sz offset data" "\<lambda>i. id" str]
  by (auto simp: printk_byte_def fold_id)

text \<open>The line printed for packet \<open>p\<close>: its bytes, or the line before when the report has none there.\<close>

definition packet_line :: "u8 list \<Rightarrow> nat \<Rightarrow> u8 list" where
  "packet_line rep p = hexdump (take PRINTK_PACKET_SIZE (drop (p * PRINTK_PACKET_SIZE) rep))"

lemma packet_bytes_printed:
  assumes f: "snprintf_ok snprintf" and str: "printk_str_ok prev str"
    and buf: "take (length rep) buf = rep" "p * 64 + 64 \<le> length buf"
  defines "line \<equiv> if p * 64 < length rep then packet_line rep p else prev"
  shows "\<exists>str'. mfold (printk_byte snprintf (length rep) (p * 64) (take 64 (drop (p * 64) buf))) [0..<64] str = Some str'
           \<and> printk_str_ok line str'"
proof (cases "p * 64 < length rep")
  case False
  then show ?thesis using str printk_bytes_skipped [of "length rep" 0 "p * 64"] by (simp add: line_def del: upt_rec_numeral)
next
  case True
  define k where "k = min 64 (length rep - p * 64)"
  let ?data = "take 64 (drop (p * 64) buf)"
  have k: "0 < k" "k \<le> 64" "k \<le> length ?data" "k + p * 64 \<le> length rep"
    using True buf(2) by (auto simp: k_def)
  have "[0..<64] = [0..<k] @ [k..<64]" using k(2) upt_add_eq_append [of 0 k "64 - k"] by (simp del: upt_rec_numeral)
  moreover have "mfold (printk_byte snprintf (length rep) (p * 64) ?data) [k..<64] t = Some t" for t
    by (cases "k = 64") (auto simp: k_def intro!: printk_bytes_skipped)
  moreover have "take k ?data = take 64 (drop (p * 64) rep)"
    using arg_cong [OF buf(1), of "\<lambda>l. take 64 (drop (p * 64) l)"]
    by (simp add: k_def drop_take min.commute)
  ultimately have "mfold (printk_byte snprintf (length rep) (p * 64) ?data) [0..<64] str =
      Some (packet_line rep p @ 0 # drop (3 * k + 1) str)"
    using printk_bytes_written [OF f _ k(3,2,4)] str k(1)
    by (simp add: printk_str_ok_def mfold_append packet_line_def)
  moreover have "length (packet_line rep p) = 3 * k"
    using True by (auto simp: packet_line_def k_def)
  ultimately show ?thesis
    using True str k(2) by (simp add: line_def printk_str_ok_def packet_line_def c_string_hexdump)
qed

section \<open>Whole reports\<close>

context data_access
begin

lemma packets_append:
  assumes "\<forall>p \<in> set ps. p * 64 + 64 \<le> length buf"
  shows "printk_packets get_data f n buf (ps @ qs) str = do {
    (str, o1) \<leftarrow> printk_packets get_data f n buf ps str;
    (str, o2) \<leftarrow> printk_packets get_data f n buf qs str;
    Some (str, o1 @ o2) }"
  using assms by (induction ps arbitrary: str) (auto simp: granted_iff Let_def split: bind_splits)

lemma packets_refused: "length buf < p * 64 + 64 \<Longrightarrow> printk_packets get_data f n buf (p # ps) str = Some (str, [])"
  by (simp add: granted_iff)

lemma packets_printed:
  assumes "snprintf_ok f" and "printk_str_ok prev str" and "take (length rep) buf = rep"
    and "\<forall>p \<in> set ps. p * 64 + 64 \<le> length buf \<and> p * 64 < length rep"
  shows "\<exists>str'. printk_packets get_data f (length rep) buf ps str =
           Some (str', map (\<lambda>p. Printk_packet (p * 64) (packet_line rep p)) ps)
         \<and> printk_str_ok (last (prev # map (packet_line rep) ps)) str'"
  using assms(2,4)
proof (induction ps arbitrary: prev str)
  case Nil
  then show ?case by simp
next
  case (Cons p ps)
  obtain str1 where 1: "mfold (printk_byte f (length rep) (p * 64) (take 64 (drop (p * 64) buf))) [0..<64] str = Some str1"
      "printk_str_ok (packet_line rep p) str1"
    using packet_bytes_printed [OF assms(1) Cons.prems(1) assms(3), of p] Cons.prems(2) by auto
  from Cons.IH [OF 1(2)] Cons.prems(2) obtain str2 where
    "printk_packets get_data f (length rep) buf ps str1 =
       Some (str2, map (\<lambda>p. Printk_packet (p * 64) (packet_line rep p)) ps)"
    "printk_str_ok (last (packet_line rep p # map (packet_line rep) ps)) str2" by auto
  moreover have "get_data buf (p * 64) 64 = Some (p * 64)" using Cons.prems(2) by (simp add: granted_iff)
  moreover have "c_string str1 = Some (packet_line rep p)" using 1(2) by (simp add: printk_str_ok_def)
  ultimately show ?case using 1(1) by (simp del: upt_rec_numeral)
qed

end

text \<open>
  What is printed for a report: its size and the lines of its bytes. When the size is a multiple of 64 there is
  one line more: the loop visits an empty packet and prints the line buffer as the last packet left it.
\<close>

definition last_line :: "u8 list \<Rightarrow> u8 list \<Rightarrow> u8 list" where
  "last_line prev rep = last (prev # map (packet_line rep) [0..<(length rep + 63) div 64])"

definition trace_lines :: "u8 list \<Rightarrow> u8 list \<Rightarrow> printk list" where
  "trace_lines prev rep =
     Printk_size (int (length rep))
     # map (\<lambda>p. Printk_packet (p * 64) (packet_line rep p)) [0..<(length rep + 63) div 64]
     @ (if 64 dvd length rep then [Printk_packet (length rep) (last_line prev rep)] else [])"

fun trace_log :: "u8 list \<Rightarrow> u8 list list \<Rightarrow> printk list list" where
  "trace_log prev [] = []"
| "trace_log prev (rep # reps) = trace_lines prev rep # trace_log (last_line prev rep) reps"

lemma less_packets: "p < (n + 63) div 64 \<longleftrightarrow> p * 64 < (n :: nat)"
  using less_eq_div_iff_mult_less_eq [of 64 "Suc p" "n + 63"] by (simp add: Suc_le_eq)

lemma packet_count:
  "[0..<n div 64 + 1] = [0..<(n + 63) div 64] @ (if 64 dvd n then [n div 64] else [])"
proof (cases "64 dvd n")
  case True
  then obtain k where "n = 64 * k" ..
  then show ?thesis by simp
next
  case False
  then have "0 < n mod 64" "n mod 64 < 64" by (simp_all add: dvd_eq_mod_eq_0)
  then have "(64 * q + n mod 64 + 63) div 64 = q + 1" for q
    by (intro div_nat_eqI) simp_all
  from this [of "n div 64"] have "(n + 63) div 64 = n div 64 + 1" by simp
  with False show ?thesis by simp
qed

context data_access
begin

lemma printk_event_lines:
  assumes f: "snprintf_ok f" and str: "printk_str_ok prev str"
    and buf: "take (length rep) buf = rep" "(length rep div 64 + 1) * 64 \<le> length buf"
  shows "\<exists>str'. hid_bpf_printk_event get_data f \<lparr>ctx_hid = hid, ctx_size = int (length rep)\<rparr> buf str =
           Some (str', trace_lines prev rep) \<and> printk_str_ok (last_line prev rep) str'"
proof -
  let ?n = "length rep" and ?ps = "[0..<(length rep + 63) div 64]"
  have ps: "\<forall>p \<in> set ?ps. p * 64 + 64 \<le> length buf \<and> p * 64 < ?n"
  proof
    fix p assume "p \<in> set ?ps"
    then have "p * 64 < ?n" by (simp add: less_packets)
    moreover from this have "p \<le> ?n div 64" by (simp add: less_eq_div_iff_mult_less_eq)
    moreover have "p * 64 + 64 \<le> (q + 1) * 64" if "p \<le> q" for q using that by simp
    ultimately show "p * 64 + 64 \<le> length buf \<and> p * 64 < ?n"
      using buf(2) le_trans by blast
  qed
  obtain str1 where 1: "printk_packets get_data f ?n buf ?ps str =
      Some (str1, map (\<lambda>p. Printk_packet (p * 64) (packet_line rep p)) ?ps)" "printk_str_ok (last_line prev rep) str1"
    using packets_printed [OF f str buf(1) ps] unfolding last_line_def by blast
  have app: "printk_packets get_data f ?n buf (?ps @ qs) str = do {
      (str, o1) \<leftarrow> printk_packets get_data f ?n buf ?ps str;
      (str, o2) \<leftarrow> printk_packets get_data f ?n buf qs str; Some (str, o1 @ o2) }" for qs
    using packets_append ps by blast
  show ?thesis
  proof (cases "64 dvd ?n")
    case False
    then show ?thesis
      using 1 app [of "[]"] by (simp add: hid_bpf_printk_event_def packet_count [unfolded Suc_eq_plus1 [symmetric]] trace_lines_def Let_def del: upt_Suc)
  next
    case True
    then have n: "?n div 64 * 64 = ?n" by simp
    obtain str2 where 2: "mfold (printk_byte f ?n (?n div 64 * 64) (take 64 (drop (?n div 64 * 64) buf))) [0..<64] str1 = Some str2"
        "printk_str_ok (last_line prev rep) str2"
      using packet_bytes_printed [OF f 1(2) buf(1), of "?n div 64"] buf(2) n by auto
    moreover have "get_data buf (?n div 64 * 64) 64 = Some (?n div 64 * 64)" using buf(2) by (simp add: granted_iff)
    moreover have "c_string str2 = Some (last_line prev rep)" using 2(2) by (simp add: printk_str_ok_def)
    ultimately have "printk_packets get_data f ?n buf [?n div 64] str1 =
        Some (str2, [Printk_packet ?n (last_line prev rep)])"
      using n by (simp del: upt_rec_numeral)
    then show ?thesis
      using True 1 2(2) app [of "[?n div 64]"]
      by (simp add: hid_bpf_printk_event_def packet_count [unfolded Suc_eq_plus1 [symmetric]] trace_lines_def Let_def del: upt_Suc)
  qed
qed

end

lemma take_concat_packets:
  "concat (map (\<lambda>p. take 64 (drop (p * 64) rep)) [0..<k]) = take (k * 64) rep"
proof (induction k)
  case 0
  then show ?case by simp
next
  case (Suc k)
  have "take (Suc k * 64) rep = take (k * 64) rep @ take 64 (drop (k * 64) rep)"
    by (simp only: mult_Suc add.commute [of 64] take_add)
  with Suc show ?case by simp
qed

text \<open>The trace shows the report: read back and cut at the size that was printed, it is the report.\<close>

lemma read_trace_lines: "read_trace (trace_lines prev rep) = rep"
proof -
  have "length rep \<le> (length rep + 63) div 64 * 64"
    using less_packets [of "(length rep + 63) div 64" "length rep"] by simp
  then show ?thesis
    by (simp add: read_trace_def trace_lines_def packet_line_def comp_def take_concat_packets)
qed

lemma traced_events_log:
  assumes "snprintf_ok f" and "printk_str_ok prev str"
  shows "\<exists>str'. traced_events f hid str reps = Some (str', trace_log prev reps, map Some reps)"
  using assms(2)
proof (induction reps arbitrary: prev str)
  case Nil
  then show ?case by simp
next
  case (Cons rep reps)
  have buf: "take (length rep) (report_buffer rep) = rep" by (simp add: report_buffer_def)
  obtain str1 where "hid_bpf_printk_event hid_bpf_get_data f \<lparr>ctx_hid = hid, ctx_size = int (length rep)\<rparr>
      (report_buffer rep) str = Some (str1, trace_lines prev rep)" "printk_str_ok (last_line prev rep) str1"
    using harness.printk_event_lines [OF assms(1) Cons.prems buf] by (auto simp: length_report_buffer)
  with Cons.IH [of "last_line prev rep" str1] show ?case
    by (auto simp: trace_hid_events_def delivered_unchanged buf)
qed

text \<open>
  C38: whatever reports a device sends, the tracing program prints for each its size and its bytes, in lines of
  64 bytes in hexadecimal; a report whose size is a multiple of 64 is followed by a repetition of the line
  printed last. Every trace read back is its report, and every report is delivered unchanged.
\<close>

theorem trace_shows_reports:
  assumes "snprintf_ok snprintf"
  shows "\<exists>str. traced_events snprintf hid printk_str_init reps = Some (str, trace_log [] reps, map Some reps)
           \<and> map read_trace (trace_log [] reps) = reps"
proof -
  have "map read_trace (trace_log prev reps) = reps" for prev
    by (induction reps arbitrary: prev) (simp_all add: read_trace_lines)
  then show ?thesis using traced_events_log [OF assms printk_str_init_ok] by blast
qed

definition snprintf_02x :: "u8 \<Rightarrow> u8 list" where
  "snprintf_02x v = hex_byte v @ [0]"

theorem trace_shows_reports_witness:
  "\<exists>str. traced_events snprintf_02x \<lparr>hdev_id = 0, hdev_bus = 3, hdev_product = 0, hdev_name = []\<rparr> printk_str_init
     [[0x01, 0xab], []] = Some (str,
       [[Printk_size 2, Printk_packet 0 [0x30, 0x31, 0x20, 0x61, 0x62, 0x20]],
        [Printk_size 0, Printk_packet 0 [0x30, 0x31, 0x20, 0x61, 0x62, 0x20]]], [Some [0x01, 0xab], Some []])"
  using trace_shows_reports [of snprintf_02x "\<lparr>hdev_id = 0, hdev_bus = 3, hdev_product = 0, hdev_name = []\<rparr>" "[[0x01, 0xab], []]"]
  by (auto simp: snprintf_ok_def snprintf_02x_def trace_lines_def last_line_def packet_line_def hex_byte_def hex_digit_def
      upt_rec dvd_eq_mod_eq_0 simp del: traced_events.simps)

end
