(* ===== verification/Modalias.thy ===== *)
theory Modalias
  imports Bpf_Prelude
begin

text \<open>
  \<open>modalias.rs\<close>, \<open>inspect\<close> of \<open>main.rs\<close> and \<open>generate-hwdb.py\<close>: the device entries a program declares, how the loader
  reads and prints them, and the hwdb patterns that select the programs of a device. Strings are ASCII,
  as modaliases are. The \<open>unwrap\<close> of a failure is the outcome \<open>Panic\<close>.
\<close>

section \<open>Outcomes\<close>

datatype 'a rust = Ok 'a | Err | Panic

fun rust_bind :: "'a rust \<Rightarrow> ('a \<Rightarrow> 'b rust) \<Rightarrow> 'b rust" where
  "rust_bind (Ok x) f = f x"
| "rust_bind Err f = Err"
| "rust_bind Panic f = Panic"

fun rust_unwrap :: "'a option \<Rightarrow> 'a rust" where
  "rust_unwrap (Some x) = Ok x"
| "rust_unwrap None = Panic"

fun map_err :: "'a option \<Rightarrow> 'a rust" where
  "map_err (Some x) = Ok x"
| "map_err None = Err"

section \<open>Buses and groups\<close>

datatype bus =
    Bus_Any | Bus_PCI | Bus_ISAPnP | Bus_USB | Bus_HIL | Bus_Bluetooth | Bus_Virtual | Bus_ISA
  | Bus_I8042 | Bus_XtKbd | Bus_Rs232 | Bus_GamePort | Bus_ParPort | Bus_Amiga | Bus_ADB | Bus_I2C
  | Bus_Host | Bus_GSC | Bus_Atari | Bus_SPI | Bus_RMI | Bus_CEC | Bus_IntelIshtp | Bus_AmdSfh

definition bus_try_from :: "nat \<Rightarrow> bus option" where
  "bus_try_from sz =
     (if sz = 0x00 then Some Bus_Any
      else if sz = 0x01 then Some Bus_PCI
      else if sz = 0x02 then Some Bus_ISAPnP
      else if sz = 0x03 then Some Bus_USB
      else if sz = 0x04 then Some Bus_HIL
      else if sz = 0x05 then Some Bus_Bluetooth
      else if sz = 0x06 then Some Bus_Virtual
      else if sz = 0x10 then Some Bus_ISA
      else if sz = 0x11 then Some Bus_I8042
      else if sz = 0x12 then Some Bus_XtKbd
      else if sz = 0x13 then Some Bus_Rs232
      else if sz = 0x14 then Some Bus_GamePort
      else if sz = 0x15 then Some Bus_ParPort
      else if sz = 0x16 then Some Bus_Amiga
      else if sz = 0x17 then Some Bus_ADB
      else if sz = 0x18 then Some Bus_I2C
      else if sz = 0x19 then Some Bus_Host
      else if sz = 0x1A then Some Bus_GSC
      else if sz = 0x1B then Some Bus_Atari
      else if sz = 0x1C then Some Bus_SPI
      else if sz = 0x1D then Some Bus_RMI
      else if sz = 0x1E then Some Bus_CEC
      else if sz = 0x1F then Some Bus_IntelIshtp
      else if sz = 0x20 then Some Bus_AmdSfh
      else None)"

fun usize_of_bus :: "bus \<Rightarrow> nat" where
  "usize_of_bus Bus_Any = 0x00"
| "usize_of_bus Bus_PCI = 0x01"
| "usize_of_bus Bus_ISAPnP = 0x02"
| "usize_of_bus Bus_USB = 0x03"
| "usize_of_bus Bus_HIL = 0x04"
| "usize_of_bus Bus_Bluetooth = 0x05"
| "usize_of_bus Bus_Virtual = 0x06"
| "usize_of_bus Bus_ISA = 0x10"
| "usize_of_bus Bus_I8042 = 0x11"
| "usize_of_bus Bus_XtKbd = 0x12"
| "usize_of_bus Bus_Rs232 = 0x13"
| "usize_of_bus Bus_GamePort = 0x14"
| "usize_of_bus Bus_ParPort = 0x15"
| "usize_of_bus Bus_Amiga = 0x16"
| "usize_of_bus Bus_ADB = 0x17"
| "usize_of_bus Bus_I2C = 0x18"
| "usize_of_bus Bus_Host = 0x19"
| "usize_of_bus Bus_GSC = 0x1A"
| "usize_of_bus Bus_Atari = 0x1B"
| "usize_of_bus Bus_SPI = 0x1C"
| "usize_of_bus Bus_RMI = 0x1D"
| "usize_of_bus Bus_CEC = 0x1E"
| "usize_of_bus Bus_IntelIshtp = 0x1F"
| "usize_of_bus Bus_AmdSfh = 0x20"

datatype group =
    Group_Any | Group_Generic | Group_Multitouch | Group_SensorHub | Group_MultitouchWin8 | Group_RMI
  | Group_Wacom | Group_LogitechDJ | Group_Steam | Group_Logitech27mhz | Group_Vivaldi

definition group_try_from :: "nat \<Rightarrow> group option" where
  "group_try_from sz =
     (if sz = 0x00 then Some Group_Any
      else if sz = 0x01 then Some Group_Generic
      else if sz = 0x02 then Some Group_Multitouch
      else if sz = 0x03 then Some Group_SensorHub
      else if sz = 0x04 then Some Group_MultitouchWin8
      else if sz = 0x0100 then Some Group_RMI
      else if sz = 0x0101 then Some Group_Wacom
      else if sz = 0x0102 then Some Group_LogitechDJ
      else if sz = 0x0103 then Some Group_Steam
      else if sz = 0x0104 then Some Group_Logitech27mhz
      else if sz = 0x0105 then Some Group_Vivaldi
      else None)"

fun usize_of_group :: "group \<Rightarrow> nat" where
  "usize_of_group Group_Any = 0x00"
| "usize_of_group Group_Generic = 0x01"
| "usize_of_group Group_Multitouch = 0x02"
| "usize_of_group Group_SensorHub = 0x03"
| "usize_of_group Group_MultitouchWin8 = 0x04"
| "usize_of_group Group_RMI = 0x0100"
| "usize_of_group Group_Wacom = 0x0101"
| "usize_of_group Group_LogitechDJ = 0x0102"
| "usize_of_group Group_Steam = 0x0103"
| "usize_of_group Group_Logitech27mhz = 0x0104"
| "usize_of_group Group_Vivaldi = 0x0105"

lemma bus_usize [simp]: "bus_try_from (usize_of_bus b) = Some b"
  by (cases b) (simp_all add: bus_try_from_def)

lemma group_usize [simp]: "group_try_from (usize_of_group g) = Some g"
  by (cases g) (simp_all add: group_try_from_def)

lemma bus_try_from_Some: "bus_try_from n = Some b \<longleftrightarrow> n = usize_of_bus b"
  using bus_usize [of b] by (auto simp: bus_try_from_def simp del: bus_usize split: if_splits)

lemma group_try_from_Some: "group_try_from n = Some g \<longleftrightarrow> n = usize_of_group g"
  using group_usize [of g] by (auto simp: group_try_from_def simp del: group_usize split: if_splits)

lemma usize_of_bus_less: "usize_of_bus b < 65536"
  by (cases b) simp_all

lemma usize_of_group_less: "usize_of_group g < 65536"
  by (cases g) simp_all

section \<open>Hexadecimal numbers\<close>

text \<open>\<open>{:X}\<close> and \<open>{:0wX}\<close> of a number.\<close>

definition hex_char :: "nat \<Rightarrow> char" where
  "hex_char n = ''0123456789ABCDEF'' ! n"

fun fmt_X :: "nat \<Rightarrow> string" where
  "fmt_X n = (if n < 16 then [hex_char n] else fmt_X (n div 16) @ [hex_char (n mod 16)])"

declare fmt_X.simps [simp del]

definition fmt_0X :: "nat \<Rightarrow> nat \<Rightarrow> string" where
  "fmt_0X w n = replicate (w - length (fmt_X n)) (CHR ''0'') @ fmt_X n"

text \<open>\<open>from_str_radix(s, 16)\<close> of an unsigned type with values below \<open>bound\<close>: an optional plus sign and digits.\<close>

definition hex_digit_value :: "char \<Rightarrow> nat option" where
  "hex_digit_value c = map_of (zip ''0123456789ABCDEFabcdef'' ([0..<16] @ [10..<16])) c"

fun parse_hex :: "nat \<Rightarrow> string \<Rightarrow> nat option" where
  "parse_hex acc [] = Some acc"
| "parse_hex acc (c # cs) = do { d \<leftarrow> hex_digit_value c; parse_hex (16 * acc + d) cs }"

definition from_str_radix_16 :: "nat \<Rightarrow> string \<Rightarrow> nat option" where
  "from_str_radix_16 bound src =
     (if src = [] \<or> src = ''+'' \<or> src = ''-'' then None
      else do {
        n \<leftarrow> parse_hex 0 (if hd src = CHR ''+'' then tl src else src);
        if n < bound then Some n else None })"

lemma hex_char_cases:
  assumes "n < 16"
  shows "hex_digit_value (hex_char n) = Some n \<and> hex_char n \<notin> set ''ghv p*+-:._/''"
proof -
  have "list_all (\<lambda>n. hex_digit_value (hex_char n) = Some n \<and> hex_char n \<notin> set ''ghv p*+-:._/'') [0..<16]"
    by (simp add: upt_rec hex_char_def hex_digit_value_def)
  with assms show ?thesis by (simp add: list_all_iff)
qed

lemma fmt_X_set: "c \<in> set (fmt_X n) \<Longrightarrow> \<exists>k < 16. c = hex_char k"
proof (induction n rule: fmt_X.induct)
  case (1 n)
  show ?case
  proof (cases "n < 16")
    case True
    then show ?thesis using "1.prems" by (auto simp: fmt_X.simps [of n])
  next
    case False
    then have "c \<in> set (fmt_X (n div 16)) \<or> c = hex_char (n mod 16)" using "1.prems" by (auto simp: fmt_X.simps [of n])
    moreover have "n mod 16 < 16" by simp
    ultimately show ?thesis using "1.IH" [OF False] by blast
  qed
qed

lemma fmt_0X_set: "c \<in> set (fmt_0X w n) \<Longrightarrow> \<exists>k < 16. c = hex_char k"
proof -
  assume "c \<in> set (fmt_0X w n)"
  moreover have "CHR ''0'' = hex_char 0" by (simp add: hex_char_def)
  ultimately show ?thesis using fmt_X_set by (fastforce simp: fmt_0X_def split: if_splits)
qed

lemma fmt_0X_chars: "c \<in> set ''ghv p*+-:._/'' \<Longrightarrow> c \<notin> set (fmt_0X w n)"
  using fmt_0X_set hex_char_cases by blast

lemma parse_hex_append: "parse_hex acc (xs @ ys) = parse_hex acc xs \<bind> (\<lambda>acc. parse_hex acc ys)"
  by (induction acc xs rule: parse_hex.induct) (auto split: bind_splits)

lemma parse_fmt_X: "parse_hex 0 (fmt_X n) = Some n"
proof (induction n rule: fmt_X.induct)
  case (1 n)
  then show ?case
    using hex_char_cases [of n] hex_char_cases [of "n mod 16"]
    by (subst fmt_X.simps) (auto simp: parse_hex_append)
qed

lemma parse_fmt_0X [simp]: "parse_hex 0 (fmt_0X w n) = Some n"
proof -
  have "parse_hex 0 (replicate k (CHR ''0'')) = Some 0" for k
    by (induction k) (simp_all add: hex_digit_value_def upt_rec)
  then show ?thesis by (simp add: fmt_0X_def parse_hex_append parse_fmt_X)
qed

lemma fmt_0X_inject: "fmt_0X w n = fmt_0X w m \<longleftrightarrow> n = m"
  by (metis option.inject parse_fmt_0X)

lemma length_fmt_X: "n < 16 ^ Suc k \<Longrightarrow> length (fmt_X n) \<le> Suc k"
proof (induction k arbitrary: n)
  case 0
  then show ?case by (simp add: fmt_X.simps)
next
  case (Suc k)
  have "n div 16 < 16 ^ Suc k" using Suc.prems by (simp add: less_mult_imp_div_less)
  from Suc.IH [OF this] show ?case by (subst fmt_X.simps) simp
qed

lemma length_fmt_0X: "n < 16 ^ w \<Longrightarrow> 0 < w \<Longrightarrow> length (fmt_0X w n) = w"
  using length_fmt_X [of n "w - 1"] by (simp add: fmt_0X_def)

lemma from_str_radix_fmt [simp]:
  assumes "n < bound"
  shows "from_str_radix_16 bound (fmt_0X w n) = Some n"
proof -
  have "fmt_0X w n \<noteq> []" by (subst fmt_0X_def, subst fmt_X.simps) simp
  moreover have "fmt_0X w n \<noteq> ''+''" "fmt_0X w n \<noteq> ''-''" "hd (fmt_0X w n) \<noteq> CHR ''+''"
    using fmt_0X_chars [of "CHR ''+''" w n] fmt_0X_chars [of "CHR ''-''" w n] hd_in_set [OF calculation]
    by auto
  ultimately show ?thesis using assms by (simp add: from_str_radix_16_def)
qed

section \<open>Device entries\<close>

record modalias =
  ma_bus :: bus
  ma_group :: group
  ma_vid :: u32
  ma_pid :: u32

text \<open>\<open>trim_start_matches\<close> removes the prefix as often as it is there.\<close>

fun trim_start_matches_hid :: "string \<Rightarrow> string" where
  "trim_start_matches_hid (a # b # c # d # cs) =
     (if [a, b, c, d] = ''hid:'' then trim_start_matches_hid cs else a # b # c # d # cs)"
| "trim_start_matches_hid cs = cs"

definition slice :: "'a list \<Rightarrow> nat \<Rightarrow> nat \<Rightarrow> 'a list" where
  "slice xs i j = take (j - i) (drop i xs)"

definition modalias_from_str :: "string \<Rightarrow> modalias rust" where
  "modalias_from_str s =
     (let s = trim_start_matches_hid s in
      if length s \<noteq> 28 then Err
      else
        rust_bind (map_err (from_str_radix_16 (2 ^ 64) (slice s 1 5))) (\<lambda>n.
        rust_bind (rust_unwrap (bus_try_from n)) (\<lambda>bus.
        rust_bind (map_err (from_str_radix_16 (2 ^ 64) (slice s 6 10))) (\<lambda>n.
        rust_bind (rust_unwrap (group_try_from n)) (\<lambda>grp.
        rust_bind (map_err (from_str_radix_16 (2 ^ 32) (slice s 11 19))) (\<lambda>vid.
        rust_bind (map_err (from_str_radix_16 (2 ^ 32) (slice s 20 28))) (\<lambda>pid.
          Ok \<lparr>ma_bus = bus, ma_group = grp, ma_vid = word_of_nat vid, ma_pid = word_of_nat pid\<rparr>)))))))"

text \<open>\<open>From<Modalias> for String\<close>: a pattern, with \<open>*\<close> for a field that is not specified.\<close>

definition string_of_bus :: "bus \<Rightarrow> string" where
  "string_of_bus bus = (case bus of Bus_Any \<Rightarrow> ''*'' | _ \<Rightarrow> fmt_0X 4 (usize_of_bus bus))"

definition string_of_group :: "group \<Rightarrow> string" where
  "string_of_group grp = (case grp of Group_Any \<Rightarrow> ''*'' | _ \<Rightarrow> fmt_0X 4 (usize_of_group grp))"

definition string_of_modalias :: "modalias \<Rightarrow> string" where
  "string_of_modalias m =
     (let vid = (if ma_vid m = 0 then ''*'' else fmt_0X 8 (unat (ma_vid m)));
          pid = (if ma_pid m = 0 then ''*'' else fmt_0X 8 (unat (ma_pid m))) in
      ''b'' @ string_of_bus (ma_bus m) @ ''g'' @ string_of_group (ma_group m) @ ''v'' @ vid @ ''p'' @ pid)"

text \<open>
  \<open>HID_DEVICE\<close> of \<open>hid_bpf_helpers.h\<close>: a structure whose members are pointers to arrays; the numbers are the capacities.
  The loader sees the members by name (\<open>None\<close> for a member that is no such pointer).
\<close>

type_synonym btf_members = "(string \<times> nat option) list"

definition HID_DEVICE :: "nat \<Rightarrow> nat \<Rightarrow> nat \<Rightarrow> nat \<Rightarrow> btf_members" where
  "HID_DEVICE b g ven pid =
     [(''name'', Some 0), (''bus'', Some b), (''group'', Some g), (''vid'', Some ven), (''pid'', Some pid)]"

definition modalias_new :: modalias where
  "modalias_new = \<lparr>ma_bus = Bus_Any, ma_group = Group_Any, ma_vid = 0, ma_pid = 0\<rparr>"

definition u32_try_from :: "nat \<Rightarrow> u32 option" where
  "u32_try_from n = (if n < 2 ^ 32 then Some (word_of_nat n) else None)"

fun modalias_members :: "btf_members \<Rightarrow> modalias \<Rightarrow> modalias rust" where
  "modalias_members [] m = Ok m"
| "modalias_members ((name, None) # ms) m = modalias_members ms m"
| "modalias_members ((name, Some capacity) # ms) m =
     rust_bind
       (if name = ''bus'' then rust_bind (rust_unwrap (bus_try_from capacity)) (\<lambda>b. Ok (m\<lparr>ma_bus := b\<rparr>))
        else if name = ''group'' then rust_bind (rust_unwrap (group_try_from capacity)) (\<lambda>g. Ok (m\<lparr>ma_group := g\<rparr>))
        else if name = ''vid'' then rust_bind (rust_unwrap (u32_try_from capacity)) (\<lambda>v. Ok (m\<lparr>ma_vid := v\<rparr>))
        else if name = ''pid'' then rust_bind (rust_unwrap (u32_try_from capacity)) (\<lambda>p. Ok (m\<lparr>ma_pid := p\<rparr>))
        else Ok m)
       (modalias_members ms)"

definition modalias_from_btf :: "btf_members \<Rightarrow> modalias rust" where
  "modalias_from_btf ms = modalias_members ms modalias_new"

text \<open>The entry a program declares is the entry the loader reads.\<close>

lemma modalias_from_HID_DEVICE:
  assumes "ven < 2 ^ 32" "pid < 2 ^ 32"
  shows "modalias_from_btf (HID_DEVICE (usize_of_bus b) (usize_of_group g) ven pid) =
    Ok \<lparr>ma_bus = b, ma_group = g, ma_vid = word_of_nat ven, ma_pid = word_of_nat pid\<rparr>"
  using assms by (simp add: modalias_from_btf_def HID_DEVICE_def modalias_new_def u32_try_from_def)

section \<open>Reading a modalias\<close>

text \<open>The modalias the kernel gives a HID device.\<close>

definition kernel_modalias :: "nat \<Rightarrow> nat \<Rightarrow> u32 \<Rightarrow> u32 \<Rightarrow> string" where
  "kernel_modalias b g v p =
     ''hid:b'' @ fmt_0X 4 b @ ''g'' @ fmt_0X 4 g @ ''v'' @ fmt_0X 8 (unat v) @ ''p'' @ fmt_0X 8 (unat p)"

lemma slice_append1: "length xs \<le> i \<Longrightarrow> slice (xs @ ys) i j = slice ys (i - length xs) (j - length xs)"
  by (simp add: slice_def)

lemma slice_append2: "length xs = j \<Longrightarrow> slice (xs @ ys) 0 j = xs"
  by (simp add: slice_def)

lemma slice_all: "length xs = j \<Longrightarrow> slice xs 0 j = xs"
  by (simp add: slice_def)

lemma trim_kernel_modalias: "trim_start_matches_hid (''hid:b'' @ cs) = CHR ''b'' # cs"
  by (cases cs rule: trim_start_matches_hid.cases) simp_all

lemma unat_u32_less: "unat (v :: u32) < 2 ^ 32"
  using unsigned_less [of v] by simp

text \<open>
  The loader reads the four fields of a kernel modalias: the modalias of a device whose bus and group are in the tables
  of the loader parses to exactly its numbers, and one with another bus or group, though well formed, makes the
  parser panic.
\<close>

theorem modalias_parsed_fields:
  assumes "b < 65536" "g < 65536"
  shows "modalias_from_str (kernel_modalias b g v p) =
    (case (bus_try_from b, group_try_from g) of
       (Some bus, Some grp) \<Rightarrow> Ok \<lparr>ma_bus = bus, ma_group = grp, ma_vid = v, ma_pid = p\<rparr>
     | _ \<Rightarrow> Panic)"
proof -
  have len: "length (fmt_0X 4 b) = 4" "length (fmt_0X 4 g) = 4" "length (fmt_0X 8 (unat v)) = 8" "length (fmt_0X 8 (unat p)) = 8"
    using assms unat_u32_less [of v] unat_u32_less [of p] by (simp_all add: length_fmt_0X)
  let ?s = "CHR ''b'' # fmt_0X 4 b @ CHR ''g'' # fmt_0X 4 g @ CHR ''v'' # fmt_0X 8 (unat v) @ CHR ''p'' # fmt_0X 8 (unat p)"
  have s: "trim_start_matches_hid (kernel_modalias b g v p) = ?s"
    using trim_kernel_modalias by (simp add: kernel_modalias_def)
  have slices: "slice ?s 1 5 = fmt_0X 4 b" "slice ?s 6 10 = fmt_0X 4 g"
      "slice ?s 11 19 = fmt_0X 8 (unat v)" "slice ?s 20 28 = fmt_0X 8 (unat p)"
    using len by (simp_all add: slice_def)
  have "length ?s = 28" using len by simp
  then show ?thesis
    unfolding modalias_from_str_def s Let_def slices
    using assms unat_u32_less [of v] unat_u32_less [of p]
    by (auto split: option.splits simp del: length_append)
qed

theorem modalias_parsed_fields_witness:
  "modalias_from_str (kernel_modalias 3 1 0x256C 0x66) =
     Ok \<lparr>ma_bus = Bus_USB, ma_group = Group_Generic, ma_vid = 0x256C, ma_pid = 0x66\<rparr> \<and>
   modalias_from_str (kernel_modalias 7 1 0x256C 0x66) = Panic"
  using modalias_parsed_fields [of 3 1 "0x256C" "0x66"] modalias_parsed_fields [of 7 1 "0x256C" "0x66"]
  by (simp add: bus_try_from_def group_try_from_def)

end
