(* ===== verification/Device_Match.thy ===== *)
theory Device_Match
  imports Modalias "HOL-Library.Multiset" "HOL-Library.Product_Lexorder" "HOL-Library.List_Lexorder" "HOL-Library.Char_ord"
begin

text \<open>
  From the entries of the programs to the programs of a device: \<open>inspect\<close> and \<open>write_udev_rule\<close> of \<open>main.rs\<close>, the hwdb that
  \<open>generate-hwdb.py\<close> makes of the inspection, and the lookup of \<open>81-hid-bpf.rules\<close>. The matching of patterns is udev's:
  it is the parameter \<open>fnm\<close>, and \<open>glob_ok\<close> its documented behaviour on patterns whose only special character is \<open>*\<close>.
\<close>

section \<open>Patterns\<close>

fun globs :: "string \<Rightarrow> string \<Rightarrow> bool" where
  "globs [] s \<longleftrightarrow> s = []"
| "globs (c # p) s \<longleftrightarrow>
     (if c = CHR ''*'' then list_ex (\<lambda>k. globs p (drop k s)) [0..<Suc (length s)]
      else s \<noteq> [] \<and> hd s = c \<and> globs p (tl s))"

definition glob_ok :: "(string \<Rightarrow> string \<Rightarrow> bool) \<Rightarrow> bool" where
  "glob_ok fnm \<longleftrightarrow> (\<forall>p s. set p \<inter> {CHR ''?'', CHR ''['', CHR 0x5C} = {} \<longrightarrow> fnm p s = globs p s)"

lemma globs_literal:
  "CHR ''*'' \<notin> set lit \<Longrightarrow> length lit = length lit' \<Longrightarrow> globs (lit @ p) (lit' @ s) \<longleftrightarrow> lit = lit' \<and> globs p s"
  by (induction lit lit' rule: list_induct2') auto

lemma globs_all: "globs ''*'' s"
  by (auto simp: list_ex_iff intro: bexI [of _ "length s"])

lemma globs_star:
  assumes "c \<noteq> CHR ''*''" "c \<notin> set x" "c \<notin> set y"
  shows "globs (CHR ''*'' # c # p) (x @ c # y) \<longleftrightarrow> globs p y"
proof -
  have "k = length x" if "k \<le> length (x @ c # y)" "globs (c # p) (drop k (x @ c # y))" for k
  proof -
    have "drop k (x @ c # y) \<noteq> []" "hd (drop k (x @ c # y)) = c" using that(2) assms(1) by simp_all
    then have k: "k < length (x @ c # y)" "(x @ c # y) ! k = c"
      by (metis drop_all not_le, metis drop_all hd_drop_conv_nth not_le)
    show ?thesis
    proof (rule ccontr)
      assume "k \<noteq> length x"
      then consider "k < length x" | "length x < k" by linarith
      then show False
      proof cases
        case 1
        then show False using k(2) assms(2) by (simp add: nth_append) (metis nth_mem)
      next
        case 2
        then have "y ! (k - length x - 1) = c" "k - length x - 1 < length y"
          using k by (simp_all add: nth_append nth_Cons')
        then show False using assms(3) by (metis nth_mem)
      qed
    qed
  qed
  moreover have "globs (c # p) (drop (length x) (x @ c # y)) \<longleftrightarrow> globs p y" using assms(1) by simp
  moreover have "list_ex Q [0..<Suc n] \<longleftrightarrow> (\<exists>k \<le> n. Q k)" for Q n
    by (auto simp: list_ex_iff less_Suc_eq_le simp del: upt_Suc)
  then have "globs (CHR ''*'' # c # p) (x @ c # y) \<longleftrightarrow>
      (\<exists>k \<le> length (x @ c # y). globs (c # p) (drop k (x @ c # y)))"
    by (simp only: globs.simps(2) [of "CHR ''*''"] simp_thms if_True)
  moreover have "length x \<le> length (x @ c # y)" by simp
  ultimately show ?thesis by metis
qed

text \<open>A field of a pattern: the star, or a number of a fixed width.\<close>

lemma globs_field:
  assumes "c \<in> set ''ghvp''" "n < 16 ^ w" "m < 16 ^ w" "0 < w" "c \<notin> set y"
  shows "globs ((if n = 0 then ''*'' else fmt_0X w n) @ c # p) (fmt_0X w m @ c # y) \<longleftrightarrow>
    (n = 0 \<or> n = m) \<and> globs p y"
proof (cases "n = 0")
  case True
  moreover have "c \<noteq> CHR ''*''" "c \<notin> set (fmt_0X w m)"
    using assms(1) fmt_0X_chars [of c w m] by auto
  ultimately show ?thesis using globs_star [of c "fmt_0X w m" y p] assms(5) by simp
next
  case False
  have "CHR ''*'' \<notin> set (fmt_0X w n @ [c])" using fmt_0X_chars [of "CHR ''*''" w n] assms(1) by auto
  moreover have "length (fmt_0X w n @ [c]) = length (fmt_0X w m @ [c])" using assms by (simp add: length_fmt_0X)
  ultimately have "globs ((fmt_0X w n @ [c]) @ p) ((fmt_0X w m @ [c]) @ y) \<longleftrightarrow>
      fmt_0X w n @ [c] = fmt_0X w m @ [c] \<and> globs p y"
    by (rule globs_literal)
  with False show ?thesis by (simp add: fmt_0X_inject)
qed

lemma globs_last_field:
  assumes "n < 16 ^ w" "m < 16 ^ w" "0 < w"
  shows "globs (if n = 0 then ''*'' else fmt_0X w n) (fmt_0X w m) \<longleftrightarrow> n = 0 \<or> n = m"
proof (cases "n = 0")
  case True
  then show ?thesis by (simp add: globs_all del: globs.simps)
next
  case False
  then show ?thesis
    using globs_literal [of "fmt_0X w n" "fmt_0X w m" "[]" "[]"] fmt_0X_chars [of "CHR ''*''" w n] assms
    by (simp add: length_fmt_0X fmt_0X_inject)
qed

section \<open>Inspection\<close>

record inspection_device =
  ins_bus :: string
  ins_group :: string
  ins_vid :: string
  ins_pid :: string

definition inspect_device :: "modalias \<Rightarrow> inspection_device" where
  "inspect_device m =
     \<lparr>ins_bus = ''0x'' @ fmt_0X 4 (usize_of_bus (ma_bus m)),
      ins_group = ''0x'' @ fmt_0X 4 (usize_of_group (ma_group m)),
      ins_vid = ''0x'' @ fmt_0X 4 (unat (ma_vid m)),
      ins_pid = ''0x'' @ fmt_0X 4 (unat (ma_pid m))\<rparr>"

section \<open>The rule of an installed program\<close>

definition maybe_star :: "nat \<Rightarrow> nat \<Rightarrow> string" where
  "maybe_star w n = (if n = 0 then ''*'' else fmt_0X w n)"

definition udev_rule_match :: "inspection_device \<Rightarrow> string rust" where
  "udev_rule_match dev =
     rust_bind (rust_unwrap (from_str_radix_16 (2 ^ 32) (drop 2 (ins_bus dev)))) (\<lambda>bus.
     rust_bind (rust_unwrap (from_str_radix_16 (2 ^ 32) (drop 2 (ins_vid dev)))) (\<lambda>vid.
     rust_bind (rust_unwrap (from_str_radix_16 (2 ^ 32) (drop 2 (ins_pid dev)))) (\<lambda>pid.
     rust_bind (rust_unwrap (from_str_radix_16 (2 ^ 32) (drop 2 (ins_group dev)))) (\<lambda>grp.
       Ok (''hid:b'' @ maybe_star 4 bus @ ''g'' @ maybe_star 4 grp @
           ''v'' @ maybe_star 8 vid @ ''p'' @ maybe_star 8 pid)))))"

lemma maybe_star_bus: "maybe_star 4 (usize_of_bus b) = string_of_bus b"
  by (cases b) (simp_all add: maybe_star_def string_of_bus_def)

lemma maybe_star_group: "maybe_star 4 (usize_of_group g) = string_of_group g"
  by (cases g) (simp_all add: maybe_star_def string_of_group_def)

lemma unat_eq_0_u32: "unat (v :: u32) = 0 \<longleftrightarrow> v = 0"
  by (simp add: unat_eq_0)

text \<open>The rule matches on the printed form of the entry.\<close>

lemma udev_rule_match_entry: "udev_rule_match (inspect_device m) = Ok (''hid:'' @ string_of_modalias m)"
proof -
  have "usize_of_bus (ma_bus m) < 2 ^ 32" "usize_of_group (ma_group m) < 2 ^ 32"
    using usize_of_bus_less [of "ma_bus m"] usize_of_group_less [of "ma_group m"] by simp_all
  then show ?thesis
    using unat_u32_less [of "ma_vid m"] unat_u32_less [of "ma_pid m"]
    by (simp add: udev_rule_match_def inspect_device_def string_of_modalias_def maybe_star_bus maybe_star_group)
      (simp add: maybe_star_def unat_eq_0_u32)
qed

section \<open>The hwdb\<close>

text \<open>\<open>int(s, 16)\<close> of Python on what \<open>inspect\<close> prints.\<close>

definition py_int_16 :: "string \<Rightarrow> nat option" where
  "py_int_16 s = (if s = [] \<or> s = ''0x'' then None else parse_hex 0 (if take 2 s = ''0x'' then drop 2 s else s))"

text \<open>\<open>Device\<close>, ordered by its fields: vid, pid, bus type, group and file name.\<close>

type_synonym hwdb_device = "nat \<times> nat \<times> nat \<times> nat \<times> string"

fun extract_device :: "string \<Rightarrow> inspection_device \<Rightarrow> hwdb_device option" where
  "extract_device filename dev = do {
     bustype \<leftarrow> py_int_16 (ins_bus dev);
     grp \<leftarrow> py_int_16 (ins_group dev);
     vid \<leftarrow> py_int_16 (ins_vid dev);
     pid \<leftarrow> py_int_16 (ins_pid dev);
     Some (vid, pid, bustype, grp, filename) }"

fun extract_all :: "(string \<times> inspection_device list) list \<Rightarrow> hwdb_device list option" where
  "extract_all [] = Some []"
| "extract_all ((filename, []) # js) = extract_all js"
| "extract_all ((filename, dev # devs) # js) = do {
     d \<leftarrow> extract_device filename dev;
     ds \<leftarrow> extract_all ((filename, devs) # js);
     Some (d # ds) }"

fun hwdb_pattern :: "hwdb_device \<Rightarrow> string" where
  "hwdb_pattern (vid, pid, bustype, grp, filename) =
     ''hid-bpf:hid:b'' @ maybe_star 4 bustype @ ''g'' @ maybe_star 4 grp @
     ''v0000'' @ maybe_star 4 vid @ ''p0000'' @ maybe_star 4 pid"

text \<open>\<open>{next(counter):03}\<close>.\<close>

fun decimal :: "nat \<Rightarrow> string" where
  "decimal n = (if n < 10 then [''0123456789'' ! n] else decimal (n div 10) @ [''0123456789'' ! (n mod 10)])"

declare decimal.simps [simp del]

definition decimal_03 :: "nat \<Rightarrow> string" where
  "decimal_03 n = replicate (3 - length (decimal n)) (CHR ''0'') @ decimal n"

type_synonym hwdb_record = "string \<times> string \<times> string"

fun file_of :: "hwdb_device \<Rightarrow> string" where
  "file_of (vid, pid, bustype, grp, filename) = filename"

definition generate_hwdb :: "string \<Rightarrow> (string \<times> inspection_device list) list \<Rightarrow> hwdb_record list option" where
  "generate_hwdb prefix js = do {
     devices \<leftarrow> extract_all js;
     Some (map (\<lambda>(counter, d). (hwdb_pattern d, prefix @ decimal_03 counter, file_of d)) (enumerate 0 (sort devices))) }"

text \<open>\<open>IMPORT{builtin}="hwdb --subsystem=hid --lookup-prefix=hid-bpf:"\<close>: the properties of the records that match.\<close>

definition hwdb_lookup :: "(string \<Rightarrow> string \<Rightarrow> bool) \<Rightarrow> hwdb_record list \<Rightarrow> string \<Rightarrow> (string \<times> string) list" where
  "hwdb_lookup fnm records modalias =
     map snd (filter (\<lambda>(pattern, _). fnm pattern (''hid-bpf:'' @ modalias)) records)"

section \<open>Which entries match\<close>

text \<open>What an entry means: every field that is not zero is the field of the device.\<close>

definition entry_matches :: "modalias \<Rightarrow> nat \<Rightarrow> nat \<Rightarrow> u32 \<Rightarrow> u32 \<Rightarrow> bool" where
  "entry_matches e b g v p \<longleftrightarrow>
     (ma_bus e = Bus_Any \<or> usize_of_bus (ma_bus e) = b) \<and>
     (ma_group e = Group_Any \<or> usize_of_group (ma_group e) = g) \<and>
     (ma_vid e = 0 \<or> ma_vid e = v) \<and> (ma_pid e = 0 \<or> ma_pid e = p)"

lemma usize_of_bus_0: "usize_of_bus b = 0 \<longleftrightarrow> b = Bus_Any"
  by (cases b) simp_all

lemma usize_of_group_0: "usize_of_group g = 0 \<longleftrightarrow> g = Group_Any"
  by (cases g) simp_all

lemma set_maybe_star: "c \<in> set (maybe_star w n) \<Longrightarrow> c = CHR ''*'' \<or> (\<exists>k < 16. c = hex_char k)"
  using fmt_0X_set by (auto simp: maybe_star_def split: if_splits)

lemma hex_char_not_special: "k < 16 \<Longrightarrow> hex_char k \<notin> {CHR ''?'', CHR ''['', CHR 0x5C}"
proof -
  assume "k < 16"
  moreover have "list_all (\<lambda>k. hex_char k \<notin> {CHR ''?'', CHR ''['', CHR 0x5C}) [0..<16]"
    by (simp add: upt_rec hex_char_def)
  ultimately show ?thesis by (simp add: list_all_iff)
qed

lemma maybe_star_plain: "set (maybe_star w n) \<inter> {CHR ''?'', CHR ''['', CHR 0x5C} = {}"
  using set_maybe_star [of _ w n] hex_char_not_special by fastforce

lemma fmt_0X_split:
  assumes "n < 16 ^ 4"
  shows "fmt_0X 8 n = ''0000'' @ fmt_0X 4 n"
proof -
  have "length (fmt_X n) \<le> 4" using length_fmt_X [of n 3] assms by simp
  then have "8 - length (fmt_X n) = 4 + (4 - length (fmt_X n))" by linarith
  then have "replicate (8 - length (fmt_X n)) c = replicate 4 c @ replicate (4 - length (fmt_X n)) c" for c :: char
    by (simp only: replicate_add)
  moreover have "replicate 4 (CHR ''0'') = ''0000''" by (simp add: numeral_eq_Suc)
  ultimately show ?thesis by (simp add: fmt_0X_def)
qed
lemma pattern_literal:
  "CHR ''*'' \<notin> set lit \<Longrightarrow> globs (lit @ p) (lit @ s) \<longleftrightarrow> globs p s"
  by (simp add: globs_literal)

text \<open>The four fields, with vendor and product either in eight digits or in four after four zeros.\<close>

lemma globs_fields:
  assumes "b < 16 ^ 4" "g < 16 ^ 4" "v < 16 ^ w" "p < 16 ^ w"
    and "b' < 16 ^ 4" "g' < 16 ^ 4" "v' < 16 ^ w" "p' < 16 ^ w"
    and "0 < w" "set z \<subseteq> {CHR ''0''}"
  shows "globs (maybe_star 4 b @ ''g'' @ maybe_star 4 g @ ''v'' @ z @ maybe_star w v @ ''p'' @ z @ maybe_star w p)
      (fmt_0X 4 b' @ ''g'' @ fmt_0X 4 g' @ ''v'' @ z @ fmt_0X w v' @ ''p'' @ z @ fmt_0X w p') \<longleftrightarrow>
    (b = 0 \<or> b = b') \<and> (g = 0 \<or> g = g') \<and> (v = 0 \<or> v = v') \<and> (p = 0 \<or> p = p')"
proof -
  have z: "CHR ''*'' \<notin> set z" "CHR ''g'' \<notin> set z" "CHR ''v'' \<notin> set z" "CHR ''p'' \<notin> set z" using assms(10) by auto
  note no = fmt_0X_chars [of "CHR ''g''"] fmt_0X_chars [of "CHR ''v''"] fmt_0X_chars [of "CHR ''p''"]
  show ?thesis
    using assms z no
    by (simp add: maybe_star_def globs_field globs_last_field pattern_literal del: globs.simps)
qed

lemma entry_matches_numbers:
  "entry_matches e b g v p \<longleftrightarrow>
     (usize_of_bus (ma_bus e) = 0 \<or> usize_of_bus (ma_bus e) = b) \<and>
     (usize_of_group (ma_group e) = 0 \<or> usize_of_group (ma_group e) = g) \<and>
     (unat (ma_vid e) = 0 \<or> unat (ma_vid e) = unat v) \<and> (unat (ma_pid e) = 0 \<or> unat (ma_pid e) = unat p)"
proof -
  have "unat x = unat y \<longleftrightarrow> x = y" for x y :: u32 by (metis word_unat_eq_iff)
  then show ?thesis by (simp only: entry_matches_def usize_of_bus_0 usize_of_group_0 unat_eq_0_u32)
qed

lemma hwdb_pattern_selects:
  assumes "glob_ok fnm" "b < 65536" "g < 65536"
    and "unat v < 65536" "unat p < 65536" "unat (ma_vid e) < 65536" "unat (ma_pid e) < 65536"
  shows "fnm (hwdb_pattern (unat (ma_vid e), unat (ma_pid e), usize_of_bus (ma_bus e), usize_of_group (ma_group e), f))
      (''hid-bpf:'' @ kernel_modalias b g v p) \<longleftrightarrow> entry_matches e b g v p"
proof -
  let ?pat = "hwdb_pattern (unat (ma_vid e), unat (ma_pid e), usize_of_bus (ma_bus e), usize_of_group (ma_group e), f)"
  let ?s = "fmt_0X 4 b @ ''g'' @ fmt_0X 4 g @ ''v'' @ ''0000'' @ fmt_0X 4 (unat v) @ ''p'' @ ''0000'' @ fmt_0X 4 (unat p)"
  let ?p = "maybe_star 4 (usize_of_bus (ma_bus e)) @ ''g'' @ maybe_star 4 (usize_of_group (ma_group e)) @
      ''v'' @ ''0000'' @ maybe_star 4 (unat (ma_vid e)) @ ''p'' @ ''0000'' @ maybe_star 4 (unat (ma_pid e))"
  have s: "''hid-bpf:'' @ kernel_modalias b g v p = ''hid-bpf:hid:b'' @ ?s"
    using assms by (simp add: kernel_modalias_def fmt_0X_split)
  have pat: "?pat = ''hid-bpf:hid:b'' @ ?p" by simp
  have "set ?pat \<inter> {CHR ''?'', CHR ''['', CHR 0x5C} = {}"
    using maybe_star_plain by auto
  then have "fnm ?pat t \<longleftrightarrow> globs ?pat t" for t using assms(1) unfolding glob_ok_def by blast
  then have "fnm ?pat (''hid-bpf:'' @ kernel_modalias b g v p) \<longleftrightarrow> globs (''hid-bpf:hid:b'' @ ?p) (''hid-bpf:hid:b'' @ ?s)"
    by (simp only: s pat)
  also have "\<dots> \<longleftrightarrow> globs ?p ?s"
    by (rule pattern_literal) simp
  also have "\<dots> \<longleftrightarrow> entry_matches e b g v p"
    unfolding entry_matches_numbers
    by (rule globs_fields)
      (use assms usize_of_bus_less [of "ma_bus e"] usize_of_group_less [of "ma_group e"] in simp_all)
  finally show ?thesis .
qed

text \<open>The rule of an installed program has eight digits, and no bound on the identifiers.\<close>

lemma string_of_modalias_star:
  "string_of_modalias m = ''b'' @ maybe_star 4 (usize_of_bus (ma_bus m)) @ ''g'' @ maybe_star 4 (usize_of_group (ma_group m)) @
     ''v'' @ maybe_star 8 (unat (ma_vid m)) @ ''p'' @ maybe_star 8 (unat (ma_pid m))"
  by (simp add: string_of_modalias_def maybe_star_bus maybe_star_group) (simp add: maybe_star_def unat_eq_0_u32)

lemma udev_rule_selects:
  assumes "glob_ok fnm" "b < 65536" "g < 65536"
  shows "fnm (''hid:'' @ string_of_modalias e) (kernel_modalias b g v p) \<longleftrightarrow> entry_matches e b g v p"
proof -
  let ?s = "fmt_0X 4 b @ ''g'' @ fmt_0X 4 g @ ''v'' @ [] @ fmt_0X 8 (unat v) @ ''p'' @ [] @ fmt_0X 8 (unat p)"
  let ?p = "maybe_star 4 (usize_of_bus (ma_bus e)) @ ''g'' @ maybe_star 4 (usize_of_group (ma_group e)) @
      ''v'' @ [] @ maybe_star 8 (unat (ma_vid e)) @ ''p'' @ [] @ maybe_star 8 (unat (ma_pid e))"
  have s: "kernel_modalias b g v p = ''hid:b'' @ ?s" by (simp add: kernel_modalias_def)
  have pat: "''hid:'' @ string_of_modalias e = ''hid:b'' @ ?p" by (simp add: string_of_modalias_star)
  have "set (''hid:b'' @ ?p) \<inter> {CHR ''?'', CHR ''['', CHR 0x5C} = {}"
    using maybe_star_plain by auto
  then have "fnm (''hid:b'' @ ?p) t \<longleftrightarrow> globs (''hid:b'' @ ?p) t" for t using assms(1) unfolding glob_ok_def by blast
  then have "fnm (''hid:'' @ string_of_modalias e) (kernel_modalias b g v p) \<longleftrightarrow> globs (''hid:b'' @ ?p) (''hid:b'' @ ?s)"
    by (simp only: s pat)
  also have "\<dots> \<longleftrightarrow> globs ?p ?s"
    by (rule pattern_literal) simp
  also have "\<dots> \<longleftrightarrow> entry_matches e b g v p"
    unfolding entry_matches_numbers
    by (rule globs_fields)
      (use assms usize_of_bus_less [of "ma_bus e"] usize_of_group_less [of "ma_group e"]
        unat_u32_less [of v] unat_u32_less [of p] unat_u32_less [of "ma_vid e"] unat_u32_less [of "ma_pid e"] in simp_all)
  finally show ?thesis .
qed

section \<open>The programs of a device\<close>

definition inspect_program :: "string \<times> modalias list \<Rightarrow> string \<times> inspection_device list" where
  "inspect_program prog = (fst prog, map inspect_device (snd prog))"

definition hwdb_device_of :: "string \<Rightarrow> modalias \<Rightarrow> hwdb_device" where
  "hwdb_device_of f e = (unat (ma_vid e), unat (ma_pid e), usize_of_bus (ma_bus e), usize_of_group (ma_group e), f)"

lemma extract_inspected: "extract_device f (inspect_device e) = Some (hwdb_device_of f e)"
  by (simp add: py_int_16_def inspect_device_def hwdb_device_of_def) (simp add: fmt_0X_def fmt_X.simps)

lemma extract_all_inspected:
  "extract_all (map inspect_program progs) = Some (concat (map (\<lambda>(f, es). map (hwdb_device_of f) es) progs))"
proof (induction progs)
  case Nil
  then show ?case by simp
next
  case (Cons prog progs)
  obtain f es where prog: "prog = (f, es)" by force
  have "extract_all ((f, map inspect_device es) # js) = extract_all js \<bind> (\<lambda>ds. Some (map (hwdb_device_of f) es @ ds))" for js
    by (induction es) (simp_all add: extract_inspected del: extract_device.simps split: bind_splits)
  then show ?case using Cons.IH by (simp add: prog inspect_program_def)
qed

fun decimal_value :: "string \<Rightarrow> nat \<Rightarrow> nat" where
  "decimal_value [] acc = acc"
| "decimal_value (c # cs) acc = decimal_value cs (10 * acc + the (map_of (zip ''0123456789'' [0..<10]) c))"

lemma decimal_value_append: "decimal_value (xs @ ys) acc = decimal_value ys (decimal_value xs acc)"
  by (induction xs arbitrary: acc) simp_all

lemma decimal_digit: "n < 10 \<Longrightarrow> the (map_of (zip ''0123456789'' [0..<10]) (''0123456789'' ! n)) = n"
proof -
  assume "n < 10"
  moreover have "list_all (\<lambda>n. the (map_of (zip ''0123456789'' [0..<10]) (''0123456789'' ! n)) = n) [0..<10]"
    by (simp add: upt_rec)
  ultimately show ?thesis by (simp add: list_all_iff)
qed

lemma decimal_value_decimal: "decimal_value (decimal n) 0 = n"
proof (induction n rule: decimal.induct)
  case (1 n)
  then show ?case
    using decimal_digit [of n] decimal_digit [of "n mod 10"]
    by (subst decimal.simps) (auto simp: decimal_value_append simp del: nth_Cons_numeral)
qed

lemma decimal_03_inject: "decimal_03 n = decimal_03 m \<longleftrightarrow> n = m"
proof -
  have "decimal_value (replicate k (CHR ''0'')) 0 = 0" for k by (induction k) (simp_all add: upt_rec)
  then have "decimal_value (decimal_03 n) 0 = n" for n
    by (simp add: decimal_03_def decimal_value_append decimal_value_decimal)
  then show ?thesis by metis
qed

lemma decimal_03_digits: "set (decimal_03 n) \<subseteq> set ''0123456789''"
proof -
  have digit: "''0123456789'' ! n \<in> set ''0123456789''" if "n < 10" for n
    by (rule nth_mem) (use that in simp)
  have "set (decimal n) \<subseteq> set ''0123456789''"
  proof (induction n rule: decimal.induct)
    case (1 n)
    then show ?case
      using digit [of n] digit [of "n mod 10"] by (cases "n < 10") (simp_all add: decimal.simps [of n] del: nth_Cons_numeral)
  qed
  then show ?thesis by (auto simp: decimal_03_def)
qed

text \<open>The file names the lookup gives a device, and that no property of the hwdb shadows another.\<close>

definition small_ids :: "modalias \<Rightarrow> bool" where
  "small_ids e \<longleftrightarrow> unat (ma_vid e) < 65536 \<and> unat (ma_pid e) < 65536"

definition entry_list :: "(string \<times> modalias list) list \<Rightarrow> (string \<times> modalias) list" where
  "entry_list progs = concat (map (\<lambda>(f, es). map (Pair f) es) progs)"

lemma in_entry_list: "(f, e) \<in> set (entry_list progs) \<longleftrightarrow> (\<exists>es. (f, es) \<in> set progs \<and> e \<in> set es)"
  by (auto simp: entry_list_def)

definition hwdb_records :: "string \<Rightarrow> (string \<times> modalias list) list \<Rightarrow> hwdb_record list" where
  "hwdb_records prefix progs =
     map (\<lambda>(counter, d). (hwdb_pattern d, prefix @ decimal_03 counter, file_of d))
       (enumerate 0 (sort (map (\<lambda>(f, e). hwdb_device_of f e) (entry_list progs))))"

lemma generate_hwdb_inspected: "generate_hwdb prefix (map inspect_program progs) = Some (hwdb_records prefix progs)"
proof -
  have "concat (map (\<lambda>(f, es). map (hwdb_device_of f) es) progs) = map (\<lambda>(f, e). hwdb_device_of f e) (entry_list progs)"
    unfolding entry_list_def map_concat by (rule arg_cong [where f = concat]) (simp add: comp_def case_prod_beta)
  then show ?thesis by (simp add: generate_hwdb_def extract_all_inspected hwdb_records_def)
qed

lemma lookup_records:
  "map snd (hwdb_lookup fnm (map (\<lambda>(counter, d). (hwdb_pattern d, prefix @ decimal_03 counter, file_of d)) ys) m) =
     map file_of (filter (\<lambda>d. fnm (hwdb_pattern d) (''hid-bpf:'' @ m)) (map snd ys))"
proof (induction ys)
  case Nil
  then show ?case by (simp add: hwdb_lookup_def)
next
  case (Cons y ys)
  obtain n d where "y = (n, d)" by (cases y)
  with Cons.IH show ?case by (simp add: hwdb_lookup_def del: hwdb_pattern.simps)
qed

text \<open>Each matching entry of a program gives the device one property with the file of the program.\<close>

lemma hwdb_lookup_files:
  assumes "glob_ok fnm" and "b < 65536" "g < 65536" "unat v < 65536" "unat p < 65536"
    and small: "list_all (\<lambda>(f, e). small_ids e) (entry_list progs)"
  shows "mset (map snd (hwdb_lookup fnm (hwdb_records prefix progs) (kernel_modalias b g v p))) =
    mset (map fst (filter (\<lambda>(f, e). entry_matches e b g v p) (entry_list progs)))"
proof -
  let ?sel = "\<lambda>d. fnm (hwdb_pattern d) (''hid-bpf:'' @ kernel_modalias b g v p)"
  let ?dev = "\<lambda>(f, e). hwdb_device_of f e"
  have sel: "?sel (?dev x) \<longleftrightarrow> (case x of (f, e) \<Rightarrow> entry_matches e b g v p)" if "x \<in> set (entry_list progs)" for x
  proof -
    obtain f e where x: "x = (f, e)" by (cases x)
    then have "small_ids e" using that small by (auto simp: list_all_iff)
    then show ?thesis unfolding x hwdb_device_of_def small_ids_def prod.case
      using hwdb_pattern_selects [OF assms(1-5)] by blast
  qed
  have "mset (map snd (hwdb_lookup fnm (hwdb_records prefix progs) (kernel_modalias b g v p))) =
      mset (map file_of (filter ?sel (map ?dev (entry_list progs))))"
    unfolding hwdb_records_def lookup_records map_snd_enumerate mset_map mset_filter mset_sort ..
  also have "map file_of (filter ?sel (map ?dev (entry_list progs))) =
      map (file_of \<circ> ?dev) (filter (\<lambda>x. ?sel (?dev x)) (entry_list progs))"
    unfolding filter_map map_map comp_def ..
  also have "filter (\<lambda>x. ?sel (?dev x)) (entry_list progs) = filter (\<lambda>(f, e). entry_matches e b g v p) (entry_list progs)"
    using sel by (rule filter_cong [OF refl])
  also have "file_of \<circ> ?dev = fst"
    by (simp add: fun_eq_iff hwdb_device_of_def)
  finally show ?thesis .
qed

lemma hwdb_lookup_names: "prop \<in> set (hwdb_lookup fnm (hwdb_records prefix progs) m) \<Longrightarrow> \<exists>n. fst prop = prefix @ decimal_03 n"
  by (auto simp: hwdb_lookup_def hwdb_records_def)

text \<open>
  C12: The hwdb generated from the inspected programs gives a device, under property names that are all different,
  exactly the files of the programs with an entry for it: an entry whose bus, group, vendor and product are each
  that of the device or unspecified.
\<close>

theorem hwdb_selects_programs:
  assumes "glob_ok fnm" and "b < 65536" "g < 65536" "unat v < 65536" "unat p < 65536"
    and "\<forall>prog \<in> set progs. \<forall>e \<in> set (snd prog). small_ids e"
  shows "\<exists>records. generate_hwdb prefix (map inspect_program progs) = Some records \<and>
    distinct (map (fst \<circ> snd) records) \<and>
    snd ` set (hwdb_lookup fnm records (kernel_modalias b g v p)) =
      {f. \<exists>es e. (f, es) \<in> set progs \<and> e \<in> set es \<and> entry_matches e b g v p}"
proof (intro exI conjI)
  let ?records = "hwdb_records prefix progs" and ?sorted = "sort (map (\<lambda>(f, e). hwdb_device_of f e) (entry_list progs))"
  show "generate_hwdb prefix (map inspect_program progs) = Some ?records" by (rule generate_hwdb_inspected)
  have "map (fst \<circ> snd) (map (\<lambda>(counter, d). (hwdb_pattern d, prefix @ decimal_03 counter, file_of d)) ys) =
      map (\<lambda>n. prefix @ decimal_03 n) (map fst ys)" for ys
    by (induction ys) auto
  then have "map (fst \<circ> snd) ?records = map (\<lambda>n. prefix @ decimal_03 n) [0..<length ?sorted]"
    by (simp only: hwdb_records_def map_fst_enumerate add_0)
  then show "distinct (map (fst \<circ> snd) ?records)"
    by (simp only: distinct_map distinct_upt inj_on_def same_append_eq decimal_03_inject) blast
  have "list_all (\<lambda>(f, e). small_ids e) (entry_list progs)"
    using assms(6) by (auto simp: list_all_iff in_entry_list)
  from arg_cong [where f = set_mset, OF hwdb_lookup_files [OF assms(1-5) this]]
  have "set (map snd (hwdb_lookup fnm ?records (kernel_modalias b g v p))) =
      set (map fst (filter (\<lambda>(f, e). entry_matches e b g v p) (entry_list progs)))"
    unfolding set_mset_mset .
  then have "snd ` set (hwdb_lookup fnm ?records (kernel_modalias b g v p)) =
      fst ` {x \<in> set (entry_list progs). case x of (f, e) \<Rightarrow> entry_matches e b g v p}"
    by (simp only: set_map set_filter)
  also have "\<dots> = {f. \<exists>es e. (f, es) \<in> set progs \<and> e \<in> set es \<and> entry_matches e b g v p}"
    by (force simp: in_entry_list)
  finally show "snd ` set (hwdb_lookup fnm ?records (kernel_modalias b g v p)) =
      {f. \<exists>es e. (f, es) \<in> set progs \<and> e \<in> set es \<and> entry_matches e b g v p}" .
qed

theorem hwdb_selects_programs_witness:
  "\<exists>records. generate_hwdb ''HID_BPF_'' (map inspect_program
        [(''0010-a.bpf.o'', [\<lparr>ma_bus = Bus_USB, ma_group = Group_Any, ma_vid = 0x256C, ma_pid = 0\<rparr>]),
         (''0010-b.bpf.o'', [\<lparr>ma_bus = Bus_USB, ma_group = Group_RMI, ma_vid = 0x256C, ma_pid = 0\<rparr>])]) = Some records \<and>
     distinct (map (fst \<circ> snd) records) \<and>
     snd ` set (hwdb_lookup globs records (kernel_modalias 3 1 0x256C 0x66)) = {''0010-a.bpf.o''}"
proof -
  let ?progs = "[(''0010-a.bpf.o'', [\<lparr>ma_bus = Bus_USB, ma_group = Group_Any, ma_vid = 0x256C, ma_pid = 0\<rparr>]),
         (''0010-b.bpf.o'', [\<lparr>ma_bus = Bus_USB, ma_group = Group_RMI, ma_vid = 0x256C, ma_pid = 0\<rparr>])]"
  have "{f. \<exists>es e. (f, es) \<in> set ?progs \<and> e \<in> set es \<and> entry_matches e 3 1 0x256C 0x66} = {''0010-a.bpf.o''}"
    by (auto simp: entry_matches_def)
  then show ?thesis
    using hwdb_selects_programs [of globs 3 1 "0x256C" "0x66" ?progs "''HID_BPF_''"]
    by (simp add: glob_ok_def small_ids_def)
qed

end
