(* ===== verification/Program_Loader.thy ===== *)
theory Program_Loader
  imports Device_Match "HOL-Library.AList" "HOL-Library.Multiset"
begin

text \<open>
  \<open>hidudev.rs\<close> and the \<open>add\<close> command of \<open>main.rs\<close>: from the properties of a device to the object files that are tried, their
  grouping into versions of one program, and the loading. The file system and the loading of one object file are
  parameters. Strings are ASCII.
\<close>

section \<open>Paths\<close>

text \<open>\<open>Path::join\<close> and \<open>Path::file_name\<close> of paths that do not end in a slash.\<close>

definition path_join :: "string \<Rightarrow> string \<Rightarrow> string" where
  "path_join d f =
     (if f \<noteq> [] \<and> hd f = CHR ''/'' then f
      else if d = [] \<or> last d = CHR ''/'' then d @ f
      else d @ ''/'' @ f)"

definition file_name :: "string \<Rightarrow> string" where
  "file_name path = rev (takeWhile (\<lambda>c. c \<noteq> CHR ''/'') (rev path))"

definition ends_with :: "string \<Rightarrow> string \<Rightarrow> bool" where
  "ends_with s suf \<longleftrightarrow> length suf \<le> length s \<and> drop (length s - length suf) s = suf"

definition starts_with :: "string \<Rightarrow> string \<Rightarrow> bool" where
  "starts_with s pre \<longleftrightarrow> take (length pre) s = pre"

definition lower_char :: "char \<Rightarrow> char" where
  "lower_char c =
     (case map_of (zip ''ABCDEFGHIJKLMNOPQRSTUVWXYZ'' ''abcdefghijklmnopqrstuvwxyz'') c of Some d \<Rightarrow> d | None \<Rightarrow> c)"

definition to_lowercase :: "string \<Rightarrow> string" where
  "to_lowercase s = map lower_char s"

fun split_once :: "char \<Rightarrow> string \<Rightarrow> (string \<times> string) option" where
  "split_once c [] = None"
| "split_once c (x # xs) =
     (if x = c then Some ([], xs) else do { (a, b) \<leftarrow> split_once c xs; Some (x # a, b) })"

section \<open>Finding the object files\<close>

record file_system =
  fs_is_file :: "string \<Rightarrow> bool"
  fs_exists :: "string \<Rightarrow> bool"

definition find_first_matching_file :: "file_system \<Rightarrow> string list \<Rightarrow> string \<Rightarrow> string option" where
  "find_first_matching_file fs dirs filename = find (fs_is_file fs) (map (\<lambda>d. path_join d filename) dirs)"

definition find_named_objfiles :: "file_system \<Rightarrow> string list \<Rightarrow> string list \<Rightarrow> string list" where
  "find_named_objfiles fs filenames bpf_dirs =
     List.map_filter (\<lambda>filename.
         if fs_exists fs filename then Some filename else find_first_matching_file fs bpf_dirs filename)
       (filter (\<lambda>filename. ends_with filename ''.bpf.o'') filenames)"

text \<open>The \<open>HID_BPF_\<close> properties of the device, or else those of the environment that look like object files.\<close>

definition hid_bpf_properties :: "(string \<times> string) list \<Rightarrow> (string \<times> string) list \<Rightarrow> string list" where
  "hid_bpf_properties properties vars =
     (let from_device = map snd (filter (\<lambda>(name, _). starts_with name ''HID_BPF_'') properties) in
      if from_device \<noteq> [] then from_device
      else filter (\<lambda>value. ends_with value ''.bpf.o'')
             (map snd (filter (\<lambda>(name, _). starts_with name ''HID_BPF_'') vars)))"

definition search_for_matching_objfiles ::
    "file_system \<Rightarrow> (string \<times> string) list \<Rightarrow> (string \<times> string) list \<Rightarrow> string list \<Rightarrow> string list" where
  "search_for_matching_objfiles fs properties vars bpf_dirs =
     find_named_objfiles fs
       (List.map_filter (find_first_matching_file fs bpf_dirs) (hid_bpf_properties properties vars)) bpf_dirs"

section \<open>Versions of a program\<close>

definition stem_of :: "string \<Rightarrow> string" where
  "stem_of path =
     (let filename = file_name path in
      case split_once (CHR ''-'') filename of
        Some (_, rest) \<Rightarrow> to_lowercase rest
      | None \<Rightarrow> to_lowercase filename)"

text \<open>\<open>v.sort_by(|p1, p2| p2.cmp(p1))\<close> on the file names in lower case: a stable sort, greatest first.\<close>

definition version_key :: "string \<Rightarrow> string" where
  "version_key path = to_lowercase (file_name path)"

definition sort_versions :: "string list \<Rightarrow> string list" where
  "sort_versions v = rev (sort_key version_key (rev v))"

fun collect_stems :: "string list \<Rightarrow> (string \<times> string list) list \<Rightarrow> (string \<times> string list) list" where
  "collect_stems [] ht = ht"
| "collect_stems (path # paths) ht = collect_stems paths (AList.map_default (stem_of path) [path] (\<lambda>v. v @ [path]) ht)"

definition sort_by_stem :: "string list \<Rightarrow> string list list" where
  "sort_by_stem paths =
     (let ht = map (\<lambda>(stem, v). (stem, sort_versions v)) (collect_stems paths []);
          keys = sort (map fst ht) in
      map (\<lambda>k. the (map_of ht k)) keys)"

section \<open>Loading\<close>

text \<open>
  \<open>load_programs\<close> of one object file is a parameter: it changes the state of the kernel and succeeds, fails, or
  panics, which ends the command.
\<close>

fun load_group :: "(string \<Rightarrow> 'k \<Rightarrow> 'k \<times> unit rust) \<Rightarrow> string list \<Rightarrow> 'k \<Rightarrow> 'k \<times> unit rust" where
  "load_group load [] k = (k, Ok ())"
| "load_group load (path # paths) k =
     (case load path k of
        (k', Ok _) \<Rightarrow> (k', Ok ())
      | (k', Err) \<Rightarrow> load_group load paths k'
      | (k', Panic) \<Rightarrow> (k', Panic))"

fun load_groups :: "(string \<Rightarrow> 'k \<Rightarrow> 'k \<times> unit rust) \<Rightarrow> string list list \<Rightarrow> 'k \<Rightarrow> 'k \<times> unit rust" where
  "load_groups load [] k = (k, Ok ())"
| "load_groups load (v # vs) k =
     (case load_group load v k of (k', Ok _) \<Rightarrow> load_groups load vs k' | r \<Rightarrow> r)"

definition load_bpf_files :: "(string \<Rightarrow> 'k \<Rightarrow> 'k \<times> unit rust) \<Rightarrow> string list \<Rightarrow> 'k \<Rightarrow> 'k \<times> unit rust" where
  "load_bpf_files load paths k = load_groups load (sort_by_stem paths) k"

section \<open>What is loaded\<close>

lemma sort_versions_props:
  "mset (sort_versions v) = mset v" "set (sort_versions v) = set v"
  "sorted (rev (map version_key (sort_versions v)))"
  by (simp_all add: sort_versions_def rev_map [symmetric])

lemma sort_versions_Nil: "sort_versions v = [] \<longleftrightarrow> v = []"
  by (metis sort_versions_props(2) set_empty)

lemma collect_stems_spec:
  "distinct (map fst ht) \<Longrightarrow>
     distinct (map fst (collect_stems paths ht)) \<and>
     map_of (collect_stems paths ht) k =
       (case map_of ht k of
          None \<Rightarrow> if filter (\<lambda>p. stem_of p = k) paths = [] then None else Some (filter (\<lambda>p. stem_of p = k) paths)
        | Some v \<Rightarrow> Some (v @ filter (\<lambda>p. stem_of p = k) paths))"
proof (induction paths ht rule: collect_stems.induct)
  case (1 ht)
  then show ?case by (auto split: option.splits)
next
  case (2 path paths ht)
  let ?ht = "AList.map_default (stem_of path) [path] (\<lambda>v. v @ [path]) ht"
  have "distinct (map fst ?ht)" using "2.prems" by (simp add: distinct_map_default)
  note IH = "2.IH" [OF this]
  have "map_of ?ht k = (if k = stem_of path then Some (case map_of ht k of None \<Rightarrow> [path] | Some v \<Rightarrow> v @ [path]) else map_of ht k)"
    by (induction ht) auto
  then show ?case using IH by (auto split: option.splits)
qed

lemma sort_by_stem_eq:
  "sort_by_stem paths =
     map (\<lambda>k. sort_versions (filter (\<lambda>p. stem_of p = k) paths)) (sorted_list_of_set (stem_of ` set paths))"
proof -
  let ?ht = "collect_stems paths []"
  note spec = collect_stems_spec [of "[]" paths, simplified]
  have keys: "set (map fst ?ht) = stem_of ` set paths"
  proof (intro set_eqI)
    fix k
    have "k \<in> set (map fst ?ht) \<longleftrightarrow> map_of ?ht k \<noteq> None" by (simp add: map_of_eq_None_iff)
    also have "\<dots> \<longleftrightarrow> k \<in> stem_of ` set paths" using spec [of k] by (auto simp: filter_empty_conv)
    finally show "k \<in> set (map fst ?ht) \<longleftrightarrow> k \<in> stem_of ` set paths" .
  qed
  have "sort (map fst ?ht) = sorted_list_of_set (stem_of ` set paths)"
    using spec keys by (metis sorted_list_of_set_sort_remdups distinct_remdups_id)
  moreover have "the (map_of (map (\<lambda>(stem, v). (stem, sort_versions v)) ?ht) k) =
      sort_versions (filter (\<lambda>p. stem_of p = k) paths)" if "k \<in> stem_of ` set paths" for k
    using spec [of k] that by (auto simp: map_of_map filter_empty_conv)
  moreover have "map fst (map (\<lambda>(stem, v). (stem, sort_versions v)) ht) = map fst ht" for ht :: "(string \<times> string list) list"
    by (induction ht) auto
  ultimately show ?thesis
    unfolding sort_by_stem_def Let_def by (simp only:) (rule map_cong, simp_all)
qed

text \<open>The groups partition the paths.\<close>

lemma mset_groups:
  "distinct ks \<Longrightarrow> f ` set xs \<subseteq> set ks \<Longrightarrow> mset (concat (map (\<lambda>k. filter (\<lambda>x. f x = k) xs) ks)) = mset xs"
proof (induction ks arbitrary: xs)
  case Nil
  then show ?case by simp
next
  case (Cons k ks)
  let ?rest = "filter (\<lambda>x. f x \<noteq> k) xs"
  have "mset (concat (map (\<lambda>k. filter (\<lambda>x. f x = k) ?rest) ks)) = mset ?rest"
    using Cons.prems by (intro Cons.IH) auto
  moreover have "map (\<lambda>k'. filter (\<lambda>x. f x = k') ?rest) ks = map (\<lambda>k'. filter (\<lambda>x. f x = k') xs) ks"
    using Cons.prems by (intro map_cong) (auto intro!: filter_cong)
  ultimately have "mset (concat (map (\<lambda>k. filter (\<lambda>x. f x = k) xs) ks)) = mset ?rest" by metis
  moreover have "mset (filter (\<lambda>x. f x = k) xs) + mset ?rest = mset xs"
    using multiset_partition [of "mset xs" "\<lambda>x. f x = k"] by simp
  ultimately show ?case by simp
qed

lemma mset_concat_sort_versions: "mset (concat (map (\<lambda>k. sort_versions (F k)) ks)) = mset (concat (map F ks))"
  by (induction ks) (simp_all add: sort_versions_props)

lemma mset_sort_by_stem: "mset (concat (sort_by_stem paths)) = mset paths"
  unfolding sort_by_stem_eq mset_concat_sort_versions by (rule mset_groups) simp_all

lemma version_group:
  assumes "k \<in> stem_of ` set paths"
  defines "v \<equiv> sort_versions (filter (\<lambda>p. stem_of p = k) paths)"
  shows "v \<noteq> []" "\<forall>p \<in> set v. stem_of p = k" "stem_of (hd v) = k" "sorted (rev (map version_key v))"
proof -
  have "filter (\<lambda>p. stem_of p = k) paths \<noteq> []" using assms(1) by (auto simp: filter_empty_conv)
  then show ne: "v \<noteq> []" by (simp add: v_def sort_versions_Nil)
  show all: "\<forall>p \<in> set v. stem_of p = k" by (simp add: v_def sort_versions_props(2))
  show "stem_of (hd v) = k" using all ne by (metis hd_in_set)
  show "sorted (rev (map version_key v))" unfolding v_def by (rule sort_versions_props(3))
qed

lemma group_in_sort_by_stem:
  assumes "v \<in> set (sort_by_stem paths)"
  shows "v \<noteq> []" "\<forall>p \<in> set v. stem_of p = stem_of (hd v)" "sorted (rev (map version_key v))"
proof -
  obtain k where k: "k \<in> stem_of ` set paths" "v = sort_versions (filter (\<lambda>p. stem_of p = k) paths)"
    using assms unfolding sort_by_stem_eq by auto
  note version_group [OF k(1), folded k(2)]
  then show "v \<noteq> []" "\<forall>p \<in> set v. stem_of p = stem_of (hd v)" "sorted (rev (map version_key v))" by simp_all
qed

lemma stems_sort_by_stem: "map (\<lambda>v. stem_of (hd v)) (sort_by_stem paths) = sorted_list_of_set (stem_of ` set paths)"
  unfolding sort_by_stem_eq map_map comp_def using version_group(3) by (intro map_idI) simp

text \<open>
  The object files found for a device are tried in groups of versions of one program: every file is in one
  group, the files of a group have the same stem and come greatest version first, and there is one group for each stem.
\<close>

theorem sort_by_stem_groups:
  "mset (concat (sort_by_stem paths)) = mset paths \<and>
   sorted_wrt (<) (map (\<lambda>v. stem_of (hd v)) (sort_by_stem paths)) \<and>
   list_all (\<lambda>v. v \<noteq> [] \<and> list_all (\<lambda>p. stem_of p = stem_of (hd v)) v \<and> sorted (rev (map version_key v))) (sort_by_stem paths)"
  unfolding stems_sort_by_stem list_all_iff
  using mset_sort_by_stem group_in_sort_by_stem strict_sorted_list_of_set by blast

section \<open>Loading one version of each program\<close>

text \<open>
  What an object loader promises its caller. On a file that is fresh, nothing of its object being in the kernel yet, whether
  it is loaded and what that does to the kernel are functions of the file, and an object does not disturb the
  others. Then the loop tries, in every group, the files up to the first that is accepted.
\<close>

definition tried :: "(string \<Rightarrow> bool) \<Rightarrow> string list \<Rightarrow> string list" where
  "tried accepts v = takeWhile (\<lambda>p. \<not> accepts p) v @ take 1 (dropWhile (\<lambda>p. \<not> accepts p) v)"

lemma tried_simps [simp]:
  "tried accepts [] = []"
  "tried accepts (p # v) = p # (if accepts p then [] else tried accepts v)"
  by (simp_all add: tried_def)

lemma set_tried: "set (tried accepts v) \<subseteq> set v"
  by (induction v) auto

definition accepted :: "(string \<Rightarrow> unit rust) \<Rightarrow> string \<Rightarrow> bool" where
  "accepted outcome path \<longleftrightarrow> outcome path = Ok ()"

locale object_loading =
  fixes load :: "string \<Rightarrow> 'k \<Rightarrow> 'k \<times> unit rust" and outcome :: "string \<Rightarrow> unit rust" and effect :: "string \<Rightarrow> 'k \<Rightarrow> 'k"
    and fresh :: "string \<Rightarrow> 'k \<Rightarrow> bool" and object :: "string \<Rightarrow> 'o"
  assumes load_eq: "fresh path k \<Longrightarrow> load path k = (effect path k, outcome path)"
    and fresh_effect: "fresh path k \<Longrightarrow> object path' \<noteq> object path \<Longrightarrow> fresh path (effect path' k)"
begin

lemma fresh_fold: "fresh path k \<Longrightarrow> object path \<notin> object ` set v \<Longrightarrow> fresh path (fold effect v k)"
  by (induction v arbitrary: k) (simp_all add: fresh_effect [OF _ not_sym])

lemma load_group_tried:
  "distinct (map object v) \<Longrightarrow> list_all (\<lambda>p. fresh p k \<and> outcome p \<noteq> Panic) v \<Longrightarrow>
     load_group load v k = (fold effect (tried (accepted outcome) v) k, Ok ())"
proof (induction v arbitrary: k)
  case Nil
  then show ?case by simp
next
  case (Cons p v)
  have "list_all (\<lambda>q. fresh q (effect p k) \<and> outcome q \<noteq> Panic) v" using Cons.prems by (auto simp: list_all_iff intro!: fresh_effect)
  then show ?case using Cons by (cases "outcome p") (simp_all add: load_eq accepted_def)
qed

lemma load_groups_tried:
  "distinct (map object (concat vs)) \<Longrightarrow> list_all (\<lambda>p. fresh p k \<and> outcome p \<noteq> Panic) (concat vs) \<Longrightarrow>
     load_groups load vs k = (fold effect (concat (map (tried (accepted outcome)) vs)) k, Ok ())"
proof (induction vs arbitrary: k)
  case Nil
  then show ?case by simp
next
  case (Cons v vs)
  have "list_all (\<lambda>q. fresh q (fold effect (tried (accepted outcome) v) k) \<and> outcome q \<noteq> Panic) (concat vs)"
    unfolding list_all_iff
  proof
    fix q assume q: "q \<in> set (concat vs)"
    have "fresh q k" "outcome q \<noteq> Panic" using q Cons.prems(2) by (auto simp: list_all_iff)
    moreover have "object q \<in> object ` set (concat vs)" using q by blast
    then have "object q \<notin> object ` set v" using Cons.prems(1) by auto
    ultimately show "fresh q (fold effect (tried (accepted outcome) v) k) \<and> outcome q \<noteq> Panic" using set_tried [of "accepted outcome" v] by (auto intro!: fresh_fold)
  qed
  then show ?case using Cons by (simp add: load_group_tried)
qed

lemma load_files_tried:
  assumes "distinct (map object paths)" "list_all (\<lambda>p. fresh p k \<and> outcome p \<noteq> Panic) paths"
  shows "load_bpf_files load paths k = (fold effect (concat (map (tried (accepted outcome)) (sort_by_stem paths))) k, Ok ())"
proof -
  have m: "mset (concat (sort_by_stem paths)) = mset paths" by (rule mset_sort_by_stem)
  then have "mset (map object (concat (sort_by_stem paths))) = mset (map object paths)" by (metis mset_map)
  then have "distinct (map object (concat (sort_by_stem paths)))" using assms(1) by (metis mset_eq_imp_distinct_iff)
  moreover have "list_all (\<lambda>p. fresh p k \<and> outcome p \<noteq> Panic) (concat (sort_by_stem paths))"
    using assms(2) mset_eq_setD [OF m] by (simp only: list_all_iff)
  ultimately show ?thesis unfolding load_bpf_files_def by (rule load_groups_tried)
qed

text \<open>When a file that is not accepted leaves no trace, only the accepted files count.\<close>

lemma load_files_accepted:
  assumes "distinct (map object paths)" "list_all (\<lambda>p. fresh p k \<and> outcome p \<noteq> Panic) paths"
    and clean: "\<And>path k. path \<in> set paths \<Longrightarrow> \<not> accepted outcome path \<Longrightarrow> effect path k = k"
  shows "load_bpf_files load paths k = (fold effect (List.map_filter (find (accepted outcome)) (sort_by_stem paths)) k, Ok ())"
proof -
  have one: "fold effect (tried (accepted outcome) v) k = fold effect (case find (accepted outcome) v of None \<Rightarrow> [] | Some p \<Rightarrow> [p]) k"
    if "set v \<subseteq> set paths" for v k
    using that by (induction v) (simp_all add: clean)
  have "fold effect (concat (map (tried (accepted outcome)) vs)) k = fold effect (List.map_filter (find (accepted outcome)) vs) k"
    if "set (concat vs) \<subseteq> set paths" for vs k
    using that by (induction vs arbitrary: k) (simp_all add: map_filter_simps one split: option.splits)
  moreover have "set (concat (sort_by_stem paths)) = set paths" using mset_eq_setD [OF mset_sort_by_stem] .
  ultimately show ?thesis using load_files_tried [OF assms(1,2)] by simp
qed

end

text \<open>The greatest accepted version, as a choice among the files of a stem.\<close>

definition best_version :: "(string \<Rightarrow> bool) \<Rightarrow> string list \<Rightarrow> string \<Rightarrow> bool" where
  "best_version accepts paths p \<longleftrightarrow> p \<in> set paths \<and> accepts p \<and>
     list_all (\<lambda>q. stem_of q = stem_of p \<and> accepts q \<longrightarrow> version_key q \<le> version_key p) paths"

lemma find_sorted_best:
  "find accepts v = Some p \<Longrightarrow> sorted (rev (map version_key v)) \<Longrightarrow> q \<in> set v \<Longrightarrow> accepts q \<Longrightarrow>
     version_key q \<le> version_key p"
  by (induction v) (auto simp: sorted_append split: if_splits)

lemma find_None_accepts: "find accepts v = None \<longleftrightarrow> list_all (\<lambda>q. \<not> accepts q) v"
  by (induction v) auto

lemma find_Some_in: "find accepts v = Some p \<Longrightarrow> p \<in> set v \<and> accepts p"
  by (induction v) (auto split: if_splits)

lemma in_map_filter: "p \<in> set (List.map_filter f xs) \<longleftrightarrow> (\<exists>x \<in> set xs. f x = Some p)"
  by (induction xs) (auto simp: map_filter_simps split: option.splits)

text \<open>What the loop attaches is, for every stem with an accepted file, one best version, and nothing else.\<close>

lemma attached_best:
  "list_all (best_version accepts paths) (List.map_filter (find accepts) (sort_by_stem paths))"
  "sorted_wrt (<) (map stem_of (List.map_filter (find accepts) (sort_by_stem paths)))"
  "q \<in> set paths \<Longrightarrow> accepts q \<Longrightarrow> stem_of q \<in> stem_of ` set (List.map_filter (find accepts) (sort_by_stem paths))"
proof -
  note group = group_in_sort_by_stem
  have "set (concat (sort_by_stem paths)) = set paths" using mset_sort_by_stem by (metis set_mset_mset)
  then have elems: "q \<in> set paths \<longleftrightarrow> (\<exists>v \<in> set (sort_by_stem paths). q \<in> set v)" for q by auto
  have stems: "sorted_wrt (<) (map (\<lambda>v. stem_of (hd v)) (sort_by_stem paths))"
    unfolding stems_sort_by_stem by (rule strict_sorted_list_of_set)
  show "list_all (best_version accepts paths) (List.map_filter (find accepts) (sort_by_stem paths))"
    unfolding list_all_iff
  proof
    fix p assume "p \<in> set (List.map_filter (find accepts) (sort_by_stem paths))"
    then obtain v where v: "v \<in> set (sort_by_stem paths)" "find accepts v = Some p" unfolding in_map_filter by blast
    have p: "p \<in> set v" "accepts p" using find_Some_in [OF v(2)] by simp_all
    have "version_key q \<le> version_key p" if q: "q \<in> set paths" "stem_of q = stem_of p" "accepts q" for q
    proof -
      obtain v' where v': "v' \<in> set (sort_by_stem paths)" "q \<in> set v'" using elems q(1) by auto
      have "stem_of (hd v') = stem_of (hd v)" using group(2) [OF v(1)] group(2) [OF v'(1)] p(1) v'(2) q(2) by simp
      moreover have "distinct (map (\<lambda>v. stem_of (hd v)) (sort_by_stem paths))"
        using stems strict_sorted_iff by blast
      ultimately have "v' = v" using v(1) v'(1) by (simp add: distinct_map inj_on_def)
      then show ?thesis using find_sorted_best [OF v(2) group(3) [OF v(1)]] v'(2) q(3) by simp
    qed
    moreover have "p \<in> set paths" using elems v(1) p(1) by auto
    ultimately show "best_version accepts paths p" using p(2) by (auto simp: best_version_def list_all_iff)
  qed
  show "sorted_wrt (<) (map stem_of (List.map_filter (find accepts) (sort_by_stem paths)))"
  proof -
    have "sorted_wrt (<) (map stem_of (List.map_filter (find accepts) vs)) \<and>
        set (map stem_of (List.map_filter (find accepts) vs)) \<subseteq> set (map (\<lambda>v. stem_of (hd v)) vs)"
      if "sorted_wrt (<) (map (\<lambda>v. stem_of (hd v)) vs)" "set vs \<subseteq> set (sort_by_stem paths)" for vs
      using that
    proof (induction vs)
      case Nil
      then show ?case by (simp add: map_filter_simps)
    next
      case (Cons v vs)
      let ?out = "map stem_of (List.map_filter (find accepts) vs)"
      have IH: "sorted_wrt (<) ?out" "set ?out \<subseteq> set (map (\<lambda>v. stem_of (hd v)) vs)"
        using Cons by simp_all
      show ?case
      proof (cases "find accepts v")
        case None
        then show ?thesis using IH by (auto simp: map_filter_simps)
      next
        case (Some p)
        have "v \<in> set (sort_by_stem paths)" using Cons.prems(2) by simp
        then have "stem_of p = stem_of (hd v)" using bspec [OF group(2) conjunct1 [OF find_Some_in [OF Some]]] by blast
        moreover have "\<forall>s \<in> set ?out. stem_of (hd v) < s"
          using IH(2) Cons.prems(1) unfolding list.map sorted_wrt.simps by blast
        moreover have "List.map_filter (find accepts) (v # vs) = p # List.map_filter (find accepts) vs"
          using Some by (simp add: map_filter_simps)
        ultimately show ?thesis using IH unfolding list.map sorted_wrt.simps list.set by auto
      qed
    qed
    then show ?thesis using stems by blast
  qed
  show "stem_of q \<in> stem_of ` set (List.map_filter (find accepts) (sort_by_stem paths))" if q: "q \<in> set paths" "accepts q" for q
  proof -
    obtain v where v: "v \<in> set (sort_by_stem paths)" "q \<in> set v" using elems q(1) by auto
    then obtain p where "find accepts v = Some p" using q(2) find_None_accepts [of accepts v] by (auto simp: list_all_iff)
    moreover from this have "stem_of p = stem_of q" using group(2) [OF v(1)] v(2) find_Some_in by metis
    moreover from calculation have "p \<in> set (List.map_filter (find accepts) (sort_by_stem paths))"
      using v(1) unfolding in_map_filter by blast
    ultimately show ?thesis by (metis image_eqI)
  qed
qed

section \<open>The arguments of \<open>add\<close>\<close>

text \<open>\<open>split_paths\<close>: the devices and the object files around the first dash; \<open>None\<close> is an error.\<close>

definition split_paths :: "string list \<Rightarrow> (string list \<times> string list) option" where
  "split_paths paths =
     (let divider = ''-'';
          split = (case paths of
             [] \<Rightarrow> None
           | [d] \<Rightarrow> Some ([d], [])
           | _ \<Rightarrow>
              (if length paths = 2 \<and> paths ! 0 \<noteq> ''-'' then Some ([paths ! 0], [paths ! 1])
               else if divider \<notin> set paths then Some (paths, [])
               else Some (takeWhile (\<lambda>p. p \<noteq> divider) paths, tl (dropWhile (\<lambda>p. p \<noteq> divider) paths)))) in
      do {
        (devices, objects) \<leftarrow> split;
        if list_ex (\<lambda>d. d = [] \<or> d = divider) devices \<or> list_ex (\<lambda>o'. o' = [] \<or> o' = divider) objects then None
        else Some (devices, objects) })"

text \<open>Which arguments are accepted, and what they mean.\<close>

lemma split_paths_dash:
  assumes "''-'' \<notin> set devices" "''-'' \<notin> set objects" "[] \<notin> set devices" "[] \<notin> set objects"
    and "2 \<le> length devices + length objects \<or> devices = [] \<and> objects \<noteq> []"
  shows "split_paths (devices @ ''-'' # objects) = Some (devices, objects)"
proof -
  let ?paths = "devices @ ''-'' # objects"
  have take: "takeWhile (\<lambda>p. p \<noteq> ''-'') ?paths = devices" "dropWhile (\<lambda>p. p \<noteq> ''-'') ?paths = ''-'' # objects"
    using assms(1) by (simp_all add: takeWhile_append dropWhile_append)
  have ok: "\<not> list_ex (\<lambda>d. d = [] \<or> d = ''-'') devices" "\<not> list_ex (\<lambda>d. d = [] \<or> d = ''-'') objects"
    using assms(1-4) by (auto simp: list_ex_iff)
  have "\<not> (length ?paths = 2 \<and> ?paths ! 0 \<noteq> ''-'')" using assms(5) by (cases devices) auto
  moreover obtain a b cs where "?paths = a # b # cs"
  proof -
    have "\<exists>a b cs. ?paths = a # b # cs" using assms(5)
      by (cases devices; cases "tl devices"; cases objects) auto
    then show ?thesis using that by blast
  qed
  moreover have "''-'' \<in> set ?paths" by simp
  ultimately show ?thesis using take ok
    by (auto simp: split_paths_def Let_def simp del: set_append split: list.split)
qed

text \<open>Properties on the command line: a name without white space, the first equals sign, any value.\<close>

definition is_whitespace :: "char \<Rightarrow> bool" where
  "is_whitespace c \<longleftrightarrow> c \<in> {CHR '' '', CHR 0x09, CHR 0x0A, CHR 0x0B, CHR 0x0C, CHR 0x0D}"

definition property_try_from :: "string \<Rightarrow> (string \<times> string) option" where
  "property_try_from s = do {
     (name, value) \<leftarrow> split_once (CHR ''='') s;
     if list_ex is_whitespace name then None else Some (name, value) }"

lemma split_once_append: "c \<notin> set a \<Longrightarrow> split_once c (a @ c # b) = Some (a, b)"
  by (induction a) auto

lemma split_once_SomeD: "split_once c s = Some (a, b) \<Longrightarrow> s = a @ c # b \<and> c \<notin> set a"
proof (induction s arbitrary: a)
  case Nil
  then show ?case by simp
next
  case (Cons x s)
  show ?case
  proof (cases "x = c")
    case True
    then show ?thesis using Cons.prems by simp
  next
    case False
    then obtain a' where "split_once c s = Some (a', b)" "a = x # a'"
      using Cons.prems by (cases "split_once c s") auto
    then show ?thesis using Cons.IH [of a'] False by simp
  qed
qed

lemma property_try_from_Some:
  "property_try_from s = Some (name, val) \<longleftrightarrow>
     s = name @ CHR ''='' # val \<and> CHR ''='' \<notin> set name \<and> \<not> list_ex is_whitespace name"
proof
  assume "property_try_from s = Some (name, val)"
  then have "split_once (CHR ''='') s = Some (name, val)" "\<not> list_ex is_whitespace name"
    unfolding property_try_from_def
    by (cases "split_once (CHR ''='') s"; force split: if_splits)+
  then show "s = name @ CHR ''='' # val \<and> CHR ''='' \<notin> set name \<and> \<not> list_ex is_whitespace name"
    using split_once_SomeD by blast
next
  assume "s = name @ CHR ''='' # val \<and> CHR ''='' \<notin> set name \<and> \<not> list_ex is_whitespace name"
  then show "property_try_from s = Some (name, val)"
    using split_once_append [of "CHR ''=''" name val] by (simp add: property_try_from_def)
qed

end
