(* ===== verification/Loader_Inject.thy ===== *)
theory Loader_Inject
  imports Program_Loader
begin

text \<open>
  The part of \<open>bpf.rs\<close> that finds the \<open>UDEV_PROP_\<close> variables and maps of an object file in its BTF, writes the
  udev properties of the device into them, and reads the maps back. A \<open>String\<close> is the list of its UTF-8 bytes. The
  object is what libbpf shows of it: its maps with their values, its programs, its BTF data sections. Which updates
  and lookups of a map the kernel grants is a parameter.
\<close>

section \<open>Objects\<close>

record bpf_map =
  m_name :: string
  m_struct_ops :: bool
  m_value_size :: nat
  m_values :: "u8 list list"
  m_initial :: "u8 list option"

record bpf_prog =
  p_name :: string
  p_tracing :: bool
  p_section :: string

record bpf_object =
  o_maps :: "bpf_map list"
  o_progs :: "bpf_prog list"

text \<open>The variables of a BTF data section: name, offset and size.\<close>

type_synonym btf = "(string \<times> (string \<times> nat \<times> nat) list) list"

record variable_metadata =
  vm_name :: string
  vm_offset :: nat
  vm_size :: nat

record udev_property_map =
  pm_name :: string
  pm_size :: nat

record bpf_metadata =
  udev_properties_bss :: "variable_metadata list"
  udev_properties_data :: "variable_metadata list"
  udev_property_maps :: "udev_property_map list"
  report_descriptor_bss :: "variable_metadata option"
  report_descriptor_data :: "variable_metadata option"

definition strip_prefix :: "string \<Rightarrow> string \<Rightarrow> string option" where
  "strip_prefix pre s = (if starts_with s pre then Some (drop (length pre) s) else None)"

definition extract_variables_metadata :: "string \<Rightarrow> btf \<Rightarrow> (string \<Rightarrow> string option) \<Rightarrow> variable_metadata list" where
  "extract_variables_metadata array_name btf predicate =
     (case map_of btf array_name of
        None \<Rightarrow> []
      | Some btf_map \<Rightarrow>
          List.map_filter (\<lambda>(name, offset, size).
            map_option (\<lambda>name. \<lparr>vm_name = name, vm_offset = offset, vm_size = size\<rparr>) (predicate name)) btf_map)"

definition get_udev_properties_metadata :: "string \<Rightarrow> btf \<Rightarrow> variable_metadata list" where
  "get_udev_properties_metadata array_name btf = extract_variables_metadata array_name btf (strip_prefix ''UDEV_PROP_'')"

definition get_report_descriptor_metadata :: "string \<Rightarrow> btf \<Rightarrow> variable_metadata option" where
  "get_report_descriptor_metadata array_name btf =
     (case extract_variables_metadata array_name btf
             (\<lambda>name. if name = ''HID_REPORT_DESCRIPTOR'' then Some name else None) of
        [] \<Rightarrow> None
      | v # _ \<Rightarrow> Some v)"

definition get_udev_property_maps_metadata :: "btf \<Rightarrow> udev_property_map list" where
  "get_udev_property_maps_metadata btf =
     (case map_of btf ''.maps'' of
        None \<Rightarrow> []
      | Some btf_maps \<Rightarrow>
          List.map_filter (\<lambda>(map_name, _, size).
            map_option (\<lambda>prop_name. \<lparr>pm_name = prop_name, pm_size = size\<rparr>) (strip_prefix ''UDEV_PROP_'' map_name)) btf_maps)"

definition bpf_metadata_from_btf :: "btf \<Rightarrow> bpf_metadata" where
  "bpf_metadata_from_btf btf =
     \<lparr>udev_properties_bss = get_udev_properties_metadata ''.bss'' btf,
      udev_properties_data = get_udev_properties_metadata ''.data'' btf,
      udev_property_maps = get_udev_property_maps_metadata btf,
      report_descriptor_bss = get_report_descriptor_metadata ''.bss'' btf,
      report_descriptor_data = get_report_descriptor_metadata ''.data'' btf\<rparr>"

definition has_report_descriptor :: "bpf_metadata \<Rightarrow> bool" where
  "has_report_descriptor metadata \<longleftrightarrow>
     report_descriptor_bss metadata \<noteq> None \<or> report_descriptor_data metadata \<noteq> None"

section \<open>Writing the properties\<close>

text \<open>The bytes of a string, and the assignment to a slice, which panics when it is out of range.\<close>

definition as_bytes :: "string \<Rightarrow> u8 list" where
  "as_bytes s = map of_char s"

definition of_bytes :: "u8 list \<Rightarrow> string" where
  "of_bytes bs = map (\<lambda>b. char_of (unat b)) bs"

definition write_slice :: "nat \<Rightarrow> 'a list \<Rightarrow> 'a list \<Rightarrow> 'a list rust" where
  "write_slice offset buf data =
     (if offset + length buf \<le> length data then Ok (take offset data @ buf @ drop (offset + length buf) data) else Panic)"

fun rust_fold :: "('a \<Rightarrow> 's \<Rightarrow> 's rust) \<Rightarrow> 'a list \<Rightarrow> 's \<Rightarrow> 's rust" where
  "rust_fold f [] s = Ok s"
| "rust_fold f (x # xs) s = rust_bind (f x s) (rust_fold f xs)"

fun rust_map :: "('a \<Rightarrow> 'b rust) \<Rightarrow> 'a list \<Rightarrow> 'b list rust" where
  "rust_map f [] = Ok []"
| "rust_map f (x # xs) = rust_bind (f x) (\<lambda>y. rust_bind (rust_map f xs) (\<lambda>ys. Ok (y # ys)))"

text \<open>The properties given on the command line replace those of the device.\<close>

definition merge_properties :: "(string \<times> string) list \<Rightarrow> (string \<times> string) list \<Rightarrow> (string \<times> string) list" where
  "merge_properties device extra_props =
     filter (\<lambda>prop. \<not> list_ex (\<lambda>ep. fst ep = fst prop) extra_props) device @ extra_props"

definition inject_variable :: "(string \<times> string) list \<Rightarrow> variable_metadata \<Rightarrow> u8 list \<times> bool \<Rightarrow> (u8 list \<times> bool) rust" where
  "inject_variable udev_properties var = (\<lambda>(data, updated).
     case find (\<lambda>p. fst p = vm_name var) udev_properties of
       None \<Rightarrow> Ok (data, updated)
     | Some prop \<Rightarrow>
         (let buf = as_bytes (snd prop) in
          if length buf < vm_size var
          then rust_bind (write_slice (vm_offset var) buf data) (\<lambda>data. Ok (data, True))
          else Ok (data, updated)))"

definition inject_udev_properties_in_array ::
    "(string \<Rightarrow> bool) \<Rightarrow> string \<Rightarrow> variable_metadata list \<Rightarrow> (string \<times> string) list \<Rightarrow> bpf_object \<Rightarrow> bpf_object rust" where
  "inject_udev_properties_in_array update_ok array_name properties_metadata udev_properties object =
     (if properties_metadata = [] then Ok object
      else
        rust_bind
          (rust_map (\<lambda>m.
              if \<not> ends_with (m_name m) array_name then Ok m
              else
                rust_bind
                  (rust_map (\<lambda>data.
                      rust_bind (rust_fold (inject_variable udev_properties) properties_metadata (data, False))
                        (\<lambda>(data', updated). Ok (if updated \<and> update_ok (m_name m) then data' else data)))
                    (m_values m))
                  (\<lambda>values. Ok (m\<lparr>m_values := values\<rparr>)))
            (o_maps object))
          (\<lambda>maps. Ok (object\<lparr>o_maps := maps\<rparr>)))"

text \<open>The value of a property map is the property and zeros; there has to be room for one zero.\<close>

fun update_first :: "('a \<Rightarrow> bool) \<Rightarrow> ('a \<Rightarrow> 'a) \<Rightarrow> 'a list \<Rightarrow> 'a list" where
  "update_first P f [] = []"
| "update_first P f (x # xs) = (if P x then f x # xs else x # update_first P f xs)"

definition set_value :: "u8 list \<Rightarrow> bpf_map \<Rightarrow> bpf_map" where
  "set_value data m = m\<lparr>m_values := data # tl (m_values m)\<rparr>"

definition inject_udev_property_to_map ::
    "(string \<Rightarrow> bool) \<Rightarrow> (string \<times> string) list \<Rightarrow> udev_property_map \<Rightarrow> bpf_object \<Rightarrow> bpf_object rust" where
  "inject_udev_property_to_map update_ok udev_properties prop_map object =
     (case find (\<lambda>p. fst p = pm_name prop_map) udev_properties of
        None \<Rightarrow> Ok object
      | Some prop \<Rightarrow>
          (let map_name = ''UDEV_PROP_'' @ pm_name prop_map in
           case find (\<lambda>m. m_name m = map_name) (o_maps object) of
             None \<Rightarrow> Ok object
           | Some m \<Rightarrow>
               (let buf = as_bytes (snd prop) in
                if length buf < m_value_size m then
                  (if update_ok map_name
                   then Ok (object\<lparr>o_maps := update_first (\<lambda>m. m_name m = map_name)
                          (set_value (buf @ replicate (m_value_size m - length buf) 0)) (o_maps object)\<rparr>)
                   else Err)
                else Ok object)))"

definition inject_udev_properties_to_maps ::
    "(string \<Rightarrow> bool) \<Rightarrow> udev_property_map list \<Rightarrow> (string \<times> string) list \<Rightarrow> bpf_object \<Rightarrow> bpf_object rust" where
  "inject_udev_properties_to_maps update_ok property_maps udev_properties object =
     rust_fold (inject_udev_property_to_map update_ok udev_properties) property_maps object"

definition inject_udev_properties ::
    "(string \<Rightarrow> bool) \<Rightarrow> bpf_metadata \<Rightarrow> (string \<times> string) list \<Rightarrow> (string \<times> string) list \<Rightarrow> bpf_object \<Rightarrow> bpf_object rust" where
  "inject_udev_properties update_ok metadata device extra_props object =
     (let udev_properties = merge_properties device extra_props in
      rust_bind (inject_udev_properties_in_array update_ok ''.bss'' (udev_properties_bss metadata) udev_properties object) (\<lambda>object.
      rust_bind (inject_udev_properties_in_array update_ok ''.data'' (udev_properties_data metadata) udev_properties object) (\<lambda>object.
      inject_udev_properties_to_maps update_ok (udev_property_maps metadata) udev_properties object)))"

section \<open>Reading the property maps\<close>

text \<open>\<open>std::str::from_utf8\<close>: the byte sequences of well-formed UTF-8.\<close>

definition cont_byte :: "u8 \<Rightarrow> bool" where
  "cont_byte b \<longleftrightarrow> 0x80 \<le> b \<and> b \<le> 0xBF"

fun valid_utf8 :: "u8 list \<Rightarrow> bool" where
  "valid_utf8 [] = True"
| "valid_utf8 (a # bs) =
     (if a < 0x80 then valid_utf8 bs
      else if 0xC2 \<le> a \<and> a \<le> 0xDF then
        (case bs of b # r \<Rightarrow> cont_byte b \<and> valid_utf8 r | _ \<Rightarrow> False)
      else if 0xE0 \<le> a \<and> a \<le> 0xEF then
        (case bs of
           b # c # r \<Rightarrow>
             cont_byte b \<and> (a = 0xE0 \<longrightarrow> 0xA0 \<le> b) \<and> (a = 0xED \<longrightarrow> b \<le> 0x9F) \<and> cont_byte c \<and> valid_utf8 r
         | _ \<Rightarrow> False)
      else if 0xF0 \<le> a \<and> a \<le> 0xF4 then
        (case bs of
           b # c # d # r \<Rightarrow>
             cont_byte b \<and> (a = 0xF0 \<longrightarrow> 0x90 \<le> b) \<and> (a = 0xF4 \<longrightarrow> b \<le> 0x8F) \<and> cont_byte c \<and> cont_byte d \<and> valid_utf8 r
         | _ \<Rightarrow> False)
      else False)"

text \<open>\<open>None\<close> as the result of a successful read is a map without a property.\<close>

definition read_udev_property_map :: "(string \<Rightarrow> bool) \<Rightarrow> bpf_map \<Rightarrow> string option rust" where
  "read_udev_property_map lookup_ok m =
     (if \<not> lookup_ok (m_name m) then Err
      else
        (case m_values m of
           [] \<Rightarrow> Ok None
         | data # _ \<Rightarrow>
             (let text = takeWhile (\<lambda>b. b \<noteq> 0) data in
              if text = [] then Ok None
              else if valid_utf8 text then Ok (Some (of_bytes text))
              else Ok None)))"

definition read_udev_property_maps ::
    "(string \<Rightarrow> bool) \<Rightarrow> bpf_object \<Rightarrow> udev_property_map list \<Rightarrow> (string \<times> string) list rust" where
  "read_udev_property_maps lookup_ok object property_maps =
     rust_fold (\<lambda>prop_map result.
         case find (\<lambda>m. m_name m = ''UDEV_PROP_'' @ pm_name prop_map) (o_maps object) of
           None \<Rightarrow> Ok result
         | Some m \<Rightarrow>
             rust_bind (read_udev_property_map lookup_ok m) (\<lambda>r.
               case r of None \<Rightarrow> Ok result | Some v \<Rightarrow> Ok (result @ [(pm_name prop_map, v)])))
       property_maps []"

section \<open>What the variables hold\<close>

text \<open>A variable after the injection: a property that fits overwrites the start, the rest of the old value stays.\<close>

definition injected_value :: "(string \<times> string) list \<Rightarrow> variable_metadata \<Rightarrow> u8 list \<Rightarrow> u8 list" where
  "injected_value props var old =
     (case find (\<lambda>p. fst p = vm_name var) props of
        None \<Rightarrow> old
      | Some p \<Rightarrow> if length (as_bytes (snd p)) < vm_size var then as_bytes (snd p) @ drop (length (as_bytes (snd p))) old else old)"

definition variable_value :: "variable_metadata \<Rightarrow> u8 list \<Rightarrow> u8 list" where
  "variable_value var data = slice data (vm_offset var) (vm_offset var + vm_size var)"

definition variables_apart :: "variable_metadata \<Rightarrow> variable_metadata \<Rightarrow> bool" where
  "variables_apart v w \<longleftrightarrow> vm_offset v + vm_size v \<le> vm_offset w \<or> vm_offset w + vm_size w \<le> vm_offset v"

text \<open>The variables of a data section: apart from each other, and within the section.\<close>

definition section_ok :: "nat \<Rightarrow> variable_metadata list \<Rightarrow> bool" where
  "section_ok n vars \<longleftrightarrow> sorted_wrt variables_apart vars \<and> list_all (\<lambda>v. vm_offset v + vm_size v \<le> n) vars"

lemma write_slice_Ok:
  assumes "write_slice offset buf data = Ok data'"
  shows "length data' = length data"
    "offset + length buf \<le> b \<Longrightarrow> slice data' offset b = buf @ drop (length buf) (slice data offset b)"
    "b \<le> offset \<or> offset + length buf \<le> a \<Longrightarrow> slice data' a b = slice data a b"
proof -
  have len: "offset + length buf \<le> length data"
    and d: "data' = take offset data @ buf @ drop (offset + length buf) data"
    using assms by (simp_all add: write_slice_def split: if_splits)
  show "length data' = length data" using len d by simp
  show "slice data' offset b = buf @ drop (length buf) (slice data offset b)" if "offset + length buf \<le> b"
    using len d that by (simp add: slice_def drop_take add.commute)
  show "slice data' a b = slice data a b" if "b \<le> offset \<or> offset + length buf \<le> a"
    using that
  proof
    assume "b \<le> offset"
    then have "take b data' = take b data" using len d by (simp add: take_append)
    then show ?thesis unfolding slice_def by (metis drop_take)
  next
    assume "offset + length buf \<le> a"
    then have "drop a data' = drop a data" using len d by simp
    then show ?thesis by (simp add: slice_def)
  qed
qed

lemma inject_variable_Ok:
  assumes "vm_offset var + vm_size var \<le> length data"
  obtains data' u where "inject_variable props var (data, updated) = Ok (data', u)" "length data' = length data"
    "variable_value var data' = injected_value props var (variable_value var data)"
    "\<And>w. variables_apart var w \<Longrightarrow> variable_value w data' = variable_value w data"
    "updated \<Longrightarrow> u" "\<not> u \<Longrightarrow> data' = data"
proof (cases "\<exists>p. find (\<lambda>p. fst p = vm_name var) props = Some p \<and> length (as_bytes (snd p)) < vm_size var")
  case False
  then have "inject_variable props var (data, updated) = Ok (data, updated)"
    "injected_value props var (variable_value var data) = variable_value var data"
    by (auto simp: inject_variable_def injected_value_def Let_def split: option.splits)
  then show ?thesis by (intro that [of data updated]) simp_all
next
  case True
  then obtain p where p: "find (\<lambda>p. fst p = vm_name var) props = Some p" "length (as_bytes (snd p)) < vm_size var" by blast
  then obtain data' where w: "write_slice (vm_offset var) (as_bytes (snd p)) data = Ok data'"
    using assms by (simp add: write_slice_def)
  note props = write_slice_Ok [OF w]
  show ?thesis
  proof (rule that [of data' True])
    show "inject_variable props var (data, updated) = Ok (data', True)" using p w by (simp add: inject_variable_def)
    show "length data' = length data" by (rule props)
    show "variable_value var data' = injected_value props var (variable_value var data)"
      using p props(2) by (simp add: variable_value_def injected_value_def)
    show "variable_value v data' = variable_value v data" if "variables_apart var v" for v
      using that p(2) by (auto simp: variable_value_def variables_apart_def intro!: props(3))
  qed simp_all
qed

lemma inject_variables_Ok:
  assumes "section_ok (length data) vars"
  obtains data' u where "rust_fold (inject_variable props) vars (data, updated) = Ok (data', u)" "length data' = length data"
    "\<And>v. v \<in> set vars \<Longrightarrow> variable_value v data' = injected_value props v (variable_value v data)"
    "\<And>w. list_all (\<lambda>v. variables_apart v w) vars \<Longrightarrow> variable_value w data' = variable_value w data"
    "updated \<Longrightarrow> u" "\<not> u \<Longrightarrow> data' = data"
  using assms
proof (induction vars arbitrary: data updated thesis)
  case Nil
  show ?case by (rule Nil.prems(1) [of data updated]) simp_all
next
  case (Cons v vars)
  have v: "vm_offset v + vm_size v \<le> length data" and apart: "list_all (variables_apart v) vars"
    and ok: "section_ok (length data) vars"
    using Cons.prems(2) by (simp_all add: section_ok_def list_all_iff)
  obtain data1 u1 where 1: "inject_variable props v (data, updated) = Ok (data1, u1)" "length data1 = length data"
    "variable_value v data1 = injected_value props v (variable_value v data)"
    "\<And>w. variables_apart v w \<Longrightarrow> variable_value w data1 = variable_value w data"
    "updated \<Longrightarrow> u1" "\<not> u1 \<Longrightarrow> data1 = data"
    using inject_variable_Ok [OF v, of props updated] by metis
  have "section_ok (length data1) vars" using ok 1(2) by simp
  then obtain data2 u2 where 2: "rust_fold (inject_variable props) vars (data1, u1) = Ok (data2, u2)"
    "length data2 = length data1"
    "\<And>v. v \<in> set vars \<Longrightarrow> variable_value v data2 = injected_value props v (variable_value v data1)"
    "\<And>w. list_all (\<lambda>v. variables_apart v w) vars \<Longrightarrow> variable_value w data2 = variable_value w data1"
    "u1 \<Longrightarrow> u2" "\<not> u2 \<Longrightarrow> data2 = data1"
    using Cons.IH by blast
  have sym: "variables_apart a b \<longleftrightarrow> variables_apart b a" for a b by (auto simp: variables_apart_def)
  show ?case
  proof (rule Cons.prems(1))
    show "rust_fold (inject_variable props) (v # vars) (data, updated) = Ok (data2, u2)" using 1(1) 2(1) by simp
    show "length data2 = length data" using 1(2) 2(2) by simp
    show "variable_value w data2 = injected_value props w (variable_value w data)" if w: "w \<in> set (v # vars)" for w
    proof (cases "w \<in> set vars")
      case True
      then show ?thesis using 2(3) 1(4) [of w] apart by (simp add: list_all_iff)
    next
      case False
      then have "w = v" using w by simp
      moreover have "variable_value v data2 = variable_value v data1"
        using apart sym by (intro 2(4)) (simp add: list_all_iff)
      ultimately show ?thesis using 1(3) by simp
    qed
    show "variable_value w data2 = variable_value w data" if "list_all (\<lambda>v. variables_apart v w) (v # vars)" for w
      using that 1(4) 2(4) by simp
    show "u2" if updated using that 1(5) 2(5) by blast
    show "data2 = data" if "\<not> u2" using that 1(6) 2(5,6) by blast
  qed
qed

lemma rust_map_Ok:
  assumes "\<And>x. x \<in> set xs \<Longrightarrow> \<exists>y. f x = Ok y \<and> P x y"
  shows "\<exists>ys. rust_map f xs = Ok ys \<and> list_all2 P xs ys"
  using assms
proof (induction xs)
  case Nil
  then show ?case by simp
next
  case (Cons x xs)
  obtain y where "f x = Ok y" "P x y" using Cons.prems by auto
  moreover obtain ys where "rust_map f xs = Ok ys" "list_all2 P xs ys" using Cons by auto
  ultimately show ?case by auto
qed

text \<open>
  C24: The udev properties are written into the variables of the \<open>.bss\<close> (or \<open>.data\<close>) map without leaving a variable: when the
  variables are apart and inside the section, as the compiler lays them out, nothing panics, every map keeps its name
  and the lengths of its values, and every variable holds its injected value.
\<close>

theorem inject_array_values:
  assumes "list_all (\<lambda>m. ends_with (m_name m) array_name \<longrightarrow> list_all (\<lambda>data. section_ok (length data) vars) (m_values m))
     (o_maps object)"
  shows "\<exists>object'. inject_udev_properties_in_array update_ok array_name vars props object = Ok object' \<and>
     list_all2 (\<lambda>m m'. m_name m' = m_name m \<and>
         list_all2 (\<lambda>data data'. length data' = length data \<and>
             list_all (\<lambda>v. variable_value v data' =
                 (if ends_with (m_name m) array_name \<and> update_ok (m_name m) then injected_value props v (variable_value v data)
                  else variable_value v data)) vars)
           (m_values m) (m_values m'))
       (o_maps object) (o_maps object')"
proof (cases "vars = []")
  case True
  then show ?thesis by (simp add: inject_udev_properties_in_array_def list_all2_same)
next
  case False
  let ?written = "\<lambda>m data data'. length data' = length data \<and>
      list_all (\<lambda>v. variable_value v data' =
          (if ends_with (m_name m) array_name \<and> update_ok (m_name m) then injected_value props v (variable_value v data)
           else variable_value v data)) vars"
  let ?inject = "\<lambda>m data. rust_bind (rust_fold (inject_variable props) vars (data, False))
      (\<lambda>(data', updated). Ok (if updated \<and> update_ok (m_name m) then data' else data))"
  let ?map = "\<lambda>m. if \<not> ends_with (m_name m) array_name then Ok m
      else rust_bind (rust_map (?inject m) (m_values m)) (\<lambda>values. Ok (m\<lparr>m_values := values\<rparr>))"
  have one: "\<exists>data'. ?inject m data = Ok data' \<and> ?written m data data'"
    if ok: "section_ok (length data) vars" and ends: "ends_with (m_name m) array_name" for m data
  proof -
    obtain data' u where "rust_fold (inject_variable props) vars (data, False) = Ok (data', u)" "length data' = length data"
      "\<And>v. v \<in> set vars \<Longrightarrow> variable_value v data' = injected_value props v (variable_value v data)"
      "\<not> u \<Longrightarrow> data' = data"
      using inject_variables_Ok [OF ok] by metis
    then show ?thesis using ends by (auto simp: list_all_iff)
  qed
  have "\<exists>m'. ?map m = Ok m' \<and> (m_name m' = m_name m \<and> list_all2 (?written m) (m_values m) (m_values m'))"
    if m: "m \<in> set (o_maps object)" for m
  proof (cases "ends_with (m_name m) array_name")
    case False
    then show ?thesis by (simp add: list_all2_same list_all_iff)
  next
    case True
    then have "\<exists>ys. rust_map (?inject m) (m_values m) = Ok ys \<and> list_all2 (?written m) (m_values m) ys"
      using assms m by (intro rust_map_Ok one) (simp_all add: list_all_iff)
    then show ?thesis using True by (auto split del: if_split)
  qed
  then obtain ys where ys: "rust_map ?map (o_maps object) = Ok ys"
    "list_all2 (\<lambda>m m'. m_name m' = m_name m \<and> list_all2 (?written m) (m_values m) (m_values m')) (o_maps object) ys"
    using rust_map_Ok [of "o_maps object" ?map "\<lambda>m m'. m_name m' = m_name m \<and> list_all2 (?written m) (m_values m) (m_values m')"]
    by blast
  have "inject_udev_properties_in_array update_ok array_name vars props object = Ok (object\<lparr>o_maps := ys\<rparr>)"
    unfolding inject_udev_properties_in_array_def using False ys(1) by (simp only: if_False rust_bind.simps)
  then show ?thesis using ys(2) by (simp split del: if_split)
qed

section \<open>Reading back what was written\<close>

lemma find_update_first:
  assumes "\<And>m. m_name (f m) = m_name m"
  shows "find (\<lambda>m. m_name m = x) (update_first (\<lambda>m. m_name m = y) f ms) =
     map_option (if x = y then f else id) (find (\<lambda>m. m_name m = x) ms)"
  by (induction ms) (simp_all add: assms option.map_ident)

lemma set_value_simps [simp]:
  "m_name (set_value data m) = m_name m" "m_value_size (set_value data m) = m_value_size m"
  "m_values (set_value data m) = data # tl (m_values m)"
  by (simp_all add: set_value_def)

lemma inject_to_map_other:
  assumes "inject_udev_property_to_map update_ok props pm object = Ok object'" "x \<noteq> ''UDEV_PROP_'' @ pm_name pm"
  shows "find (\<lambda>m. m_name m = x) (o_maps object') = find (\<lambda>m. m_name m = x) (o_maps object)"
  using assms
  by (auto simp: inject_udev_property_to_map_def Let_def find_update_first option.map_id split: option.splits if_splits)

lemma inject_to_maps_other:
  "inject_udev_properties_to_maps update_ok pms props object = Ok object' \<Longrightarrow>
     x \<notin> (\<lambda>pm. ''UDEV_PROP_'' @ pm_name pm) ` set pms \<Longrightarrow>
     find (\<lambda>m. m_name m = x) (o_maps object') = find (\<lambda>m. m_name m = x) (o_maps object)"
  unfolding inject_udev_properties_to_maps_def
proof (induction pms arbitrary: object)
  case Nil
  then show ?case by simp
next
  case (Cons pm pms)
  obtain object1 where 1: "inject_udev_property_to_map update_ok props pm object = Ok object1"
    "rust_fold (inject_udev_property_to_map update_ok props) pms object1 = Ok object'"
    using Cons.prems(1) by (cases "inject_udev_property_to_map update_ok props pm object") simp_all
  then show ?case using Cons.IH [OF 1(2)] inject_to_map_other [OF 1(1)] Cons.prems(2) by simp
qed

lemma inject_to_map_this:
  assumes "inject_udev_property_to_map update_ok props pm object = Ok object'"
    and "find (\<lambda>p. fst p = pm_name pm) props = Some p" "find (\<lambda>m. m_name m = ''UDEV_PROP_'' @ pm_name pm) (o_maps object) = Some m"
    and "length (as_bytes (snd p)) < m_value_size m"
  shows "find (\<lambda>m. m_name m = ''UDEV_PROP_'' @ pm_name pm) (o_maps object') =
     Some (set_value (as_bytes (snd p) @ replicate (m_value_size m - length (as_bytes (snd p))) 0) m)"
  using assms by (auto simp: inject_udev_property_to_map_def Let_def find_update_first split: if_splits)

lemma inject_to_maps_this:
  assumes "inject_udev_properties_to_maps update_ok pms props object = Ok object'"
    and "pm \<in> set pms" "distinct (map pm_name pms)"
    and "find (\<lambda>p. fst p = pm_name pm) props = Some p" "find (\<lambda>m. m_name m = ''UDEV_PROP_'' @ pm_name pm) (o_maps object) = Some m"
    and "length (as_bytes (snd p)) < m_value_size m"
  shows "find (\<lambda>m. m_name m = ''UDEV_PROP_'' @ pm_name pm) (o_maps object') =
     Some (set_value (as_bytes (snd p) @ replicate (m_value_size m - length (as_bytes (snd p))) 0) m)"
  using assms
proof (induction pms arbitrary: object)
  case Nil
  then show ?case by simp
next
  case (Cons pm' pms)
  obtain object1 where 1: "inject_udev_property_to_map update_ok props pm' object = Ok object1"
    "inject_udev_properties_to_maps update_ok pms props object1 = Ok object'"
    using Cons.prems(1) unfolding inject_udev_properties_to_maps_def
    by (cases "inject_udev_property_to_map update_ok props pm' object") simp_all
  show ?case
  proof (cases "pm = pm'")
    case True
    have "pm_name pm \<notin> pm_name ` set pms" using Cons.prems(3) True by simp
    then have "''UDEV_PROP_'' @ pm_name pm \<notin> (\<lambda>pm. ''UDEV_PROP_'' @ pm_name pm) ` set pms" by auto
    from inject_to_maps_other [OF 1(2) this] show ?thesis
      using inject_to_map_this [of update_ok props pm object object1 p m] 1(1) True Cons.prems(4-6) by simp
  next
    case False
    then have "pm \<in> set pms" using Cons.prems(2) by simp
    then have "pm_name pm \<in> pm_name ` set pms" by (rule imageI)
    then have "pm_name pm \<noteq> pm_name pm'" using Cons.prems(3) by auto
    then have "find (\<lambda>m. m_name m = ''UDEV_PROP_'' @ pm_name pm) (o_maps object1) = Some m"
      using inject_to_map_other [OF 1(1), of "''UDEV_PROP_'' @ pm_name pm"] Cons.prems(5) by simp
    then show ?thesis using Cons.IH [OF 1(2) \<open>pm \<in> set pms\<close>] Cons.prems(3,4,6) by simp
  qed
qed

lemma rust_fold_collect:
  assumes "\<And>x result. f x result = Ok (result @ (case g x of None \<Rightarrow> [] | Some r \<Rightarrow> [r]))"
  shows "rust_fold f xs result = Ok (result @ List.map_filter g xs)"
  by (induction xs arbitrary: result) (simp_all add: assms map_filter_simps split: option.splits)

definition property_value :: "bpf_object \<Rightarrow> udev_property_map \<Rightarrow> (string \<times> string) option" where
  "property_value object pm = do {
     m \<leftarrow> find (\<lambda>m. m_name m = ''UDEV_PROP_'' @ pm_name pm) (o_maps object);
     text \<leftarrow> (case m_values m of [] \<Rightarrow> None | data # _ \<Rightarrow> Some (takeWhile (\<lambda>b. b \<noteq> 0) data));
     if text = [] \<or> \<not> valid_utf8 text then None else Some (pm_name pm, of_bytes text) }"

lemma read_property_maps_eq:
  assumes "\<And>x. lookup_ok x"
  shows "read_udev_property_maps lookup_ok object pms = Ok (List.map_filter (property_value object) pms)"
  unfolding read_udev_property_maps_def
  by (subst rust_fold_collect [where g = "property_value object"])
     (auto simp: property_value_def read_udev_property_map_def assms Let_def split: option.splits list.splits)

lemma unat_of_char: "unat (of_char c :: u8) = of_char c"
proof -
  have "(of_char c :: u8) = word_of_nat (of_char c)" by (rule of_nat_of_char [symmetric])
  moreover have "(of_char c :: nat) < 2 ^ 8" using nat_of_char_less_256 [of c] by simp
  ultimately show ?thesis by (simp add: unsigned_of_nat take_bit_nat_eq_self)
qed

lemma of_char_eq_0: "(of_char c :: u8) = 0 \<longleftrightarrow> c = CHR 0x00"
proof -
  have "(of_char c :: u8) = 0 \<longleftrightarrow> unat (of_char c :: u8) = 0" by (simp add: unat_eq_zero)
  also have "\<dots> \<longleftrightarrow> (of_char c :: nat) = of_char (CHR 0x00)" unfolding unat_of_char by simp
  finally show ?thesis by (simp only: of_char_eq_iff)
qed

lemma zero_terminated: "0 \<notin> set bs \<Longrightarrow> takeWhile (\<lambda>b. b \<noteq> 0) (bs @ replicate n 0) = bs"
  by (cases n) (auto simp: takeWhile_append)

lemma of_as_bytes [simp]: "of_bytes (as_bytes s) = s"
  by (simp add: of_bytes_def as_bytes_def unat_of_char comp_def)

text \<open>
  C25: A udev property written into its map is read back unchanged: when the map of the property exists, the value
  is not empty, has no zero and fits with one zero after it, the properties printed after loading contain it.
\<close>

theorem property_map_roundtrip:
  assumes inject: "inject_udev_properties_to_maps update_ok pms props object = Ok object'"
    and pm: "pm \<in> set pms" "distinct (map pm_name pms)"
    and found: "find (\<lambda>p. fst p = pm_name pm) props = Some p"
      "find (\<lambda>m. m_name m = ''UDEV_PROP_'' @ pm_name pm) (o_maps object) = Some m"
    and fits: "length (snd p) < m_value_size m" "snd p \<noteq> []" "CHR 0x00 \<notin> set (snd p)" "valid_utf8 (as_bytes (snd p))"
    and lookups: "\<And>x. lookup_ok x"
  shows "\<exists>result. read_udev_property_maps lookup_ok object' pms = Ok result \<and> p \<in> set result"
proof -
  have len: "length (as_bytes (snd p)) = length (snd p)" by (simp add: as_bytes_def)
  have "find (\<lambda>m. m_name m = ''UDEV_PROP_'' @ pm_name pm) (o_maps object') =
      Some (set_value (as_bytes (snd p) @ replicate (m_value_size m - length (snd p)) 0) m)" (is "_ = Some ?m")
    using inject_to_maps_this [OF inject pm found] fits(1) by (simp add: len)
  moreover have "takeWhile (\<lambda>b. b \<noteq> 0) (hd (m_values ?m)) = as_bytes (snd p)"
    using fits(3) by (simp add: zero_terminated as_bytes_def image_iff of_char_eq_0)
  moreover have "fst p = pm_name pm" using found(1) by (simp add: find_Some_iff) metis
  moreover have "as_bytes (snd p) \<noteq> []" using fits(2) by (simp add: as_bytes_def)
  ultimately have "property_value object' pm = Some p" using fits(4) by (simp add: property_value_def prod_eq_iff)
  then have "p \<in> set (List.map_filter (property_value object') pms)" using pm(1) unfolding in_map_filter by blast
  then show ?thesis using read_property_maps_eq [of lookup_ok, OF lookups] by blast
qed

theorem inject_array_values_witness:
  "\<exists>object'. inject_udev_properties_in_array (\<lambda>_. True) ''.bss'' [\<lparr>vm_name = ''A'', vm_offset = 1, vm_size = 3\<rparr>] [(''A'', ''xy'')]
      \<lparr>o_maps = [\<lparr>m_name = ''p.bss'', m_struct_ops = False, m_value_size = 4, m_values = [[9, 0, 0, 0]], m_initial = None\<rparr>],
        o_progs = []\<rparr> = Ok object'"
  using inject_array_values [of "''.bss''" "[\<lparr>vm_name = ''A'', vm_offset = 1, vm_size = 3\<rparr>]"
      "\<lparr>o_maps = [\<lparr>m_name = ''p.bss'', m_struct_ops = False, m_value_size = 4, m_values = [[9, 0, 0, 0]], m_initial = None\<rparr>],
        o_progs = []\<rparr>" "\<lambda>_. True" "[(''A'', ''xy'')]"]
  by (auto simp: section_ok_def)

theorem property_map_roundtrip_witness:
  "\<exists>object' result.
     inject_udev_properties_to_maps (\<lambda>_. True) [\<lparr>pm_name = ''A'', pm_size = 32\<rparr>] [(''A'', ''xy'')]
      \<lparr>o_maps = [\<lparr>m_name = ''UDEV_PROP_A'', m_struct_ops = False, m_value_size = 4, m_values = [[0, 0, 0, 0]], m_initial = None\<rparr>],
        o_progs = []\<rparr> = Ok object' \<and>
     read_udev_property_maps (\<lambda>_. True) object' [\<lparr>pm_name = ''A'', pm_size = 32\<rparr>] = Ok result \<and> (''A'', ''xy'') \<in> set result"
proof -
  let ?m = "\<lparr>m_name = ''UDEV_PROP_A'', m_struct_ops = False, m_value_size = 4, m_values = [[0, 0, 0, 0]], m_initial = None\<rparr>"
  let ?o = "\<lparr>o_maps = [?m], o_progs = []\<rparr>" and ?pms = "[\<lparr>pm_name = ''A'', pm_size = 32\<rparr>]"
  obtain object' where 1: "inject_udev_properties_to_maps (\<lambda>_. True) ?pms [(''A'', ''xy'')] ?o = Ok object'"
    by (simp add: inject_udev_properties_to_maps_def inject_udev_property_to_map_def as_bytes_def)
  have "valid_utf8 (as_bytes ''xy'')" by (simp add: as_bytes_def of_char_def)
  with property_map_roundtrip [OF 1, of "hd ?pms" "(''A'', ''xy'')" ?m "\<lambda>_. True"] 1 show ?thesis by simp
qed

end
