(* ===== verification/Loader_Descriptor.thy ===== *)
theory Loader_Descriptor
  imports Bpf_Helpers Loader_Inject
begin

text \<open>
  The structures of \<open>bpf.rs\<close> that carry the parsed report descriptor into a program: the conversion from what the
  \<open>hidreport\<close> parser returns, the packed image of the structure, and its injection into the data of the object. The
  parser and the check of the BTF layout are parameters.
\<close>

section \<open>What the parser returns\<close>

record hr_usage =
  us_page :: u16
  us_id :: u16

record hr_collection =
  cl_usages :: "hr_usage list"
  cl_type :: u8

record hr_attributes =
  at_is_relative :: bool
  at_wraps :: bool
  at_is_nonlinear :: bool
  at_has_no_preferred_state :: bool
  at_has_null_state :: bool
  at_is_volatile :: "bool option"
  at_is_buffered_bytes :: bool

record hr_bits =
  bits_first :: nat
  bits_stop :: nat

datatype hr_field =
    Variable_Field hr_bits hr_usage "32 word" "32 word" hr_attributes "hr_collection list"
  | Array_Field hr_bits "hr_usage list" "32 word" "32 word" hr_attributes "hr_collection list"
  | Constant_Field hr_bits

record hr_report =
  hr_id :: "u8 option"
  hr_size_in_bits :: nat
  hr_fields :: "hr_field list"

record hr_descriptor =
  hr_input_reports :: "hr_report list"
  hr_output_reports :: "hr_report list"
  hr_feature_reports :: "hr_report list"

section \<open>The structures of the program\<close>

definition rdesc_collection_from :: "hr_collection \<Rightarrow> hid_rdesc_collection" where
  "rdesc_collection_from c =
     (case cl_usages c of
        [] \<Rightarrow> \<lparr>rc_usage_page = 0, rc_usage_id = 0, rc_collection_type = cl_type c\<rparr>
      | u # _ \<Rightarrow> \<lparr>rc_usage_page = us_page u, rc_usage_id = us_id u, rc_collection_type = cl_type c\<rparr>)"

definition pack_flags :: "hr_attributes \<Rightarrow> u8" where
  "pack_flags a =
     push_bit 0 (of_bool (at_is_relative a)) OR push_bit 1 (of_bool (at_wraps a)) OR
     push_bit 2 (of_bool (at_is_nonlinear a)) OR push_bit 3 (of_bool (at_has_no_preferred_state a)) OR
     push_bit 4 (of_bool (at_has_null_state a)) OR
     push_bit 5 (of_bool (case at_is_volatile a of None \<Rightarrow> False | Some b \<Rightarrow> b)) OR
     push_bit 6 (of_bool (at_is_buffered_bytes a))"

text \<open>An array of the given size whose first elements are assigned.\<close>

definition fill_array :: "nat \<Rightarrow> 'a \<Rightarrow> 'a list \<Rightarrow> 'a list" where
  "fill_array n filler xs = take n xs @ replicate (n - length xs) filler"

definition no_collection :: hid_rdesc_collection where
  "no_collection = \<lparr>rc_usage_page = 0, rc_usage_id = 0, rc_collection_type = 0\<rparr>"

definition no_field :: hid_rdesc_field where
  "no_field = \<lparr>rf_field_type = 0, rf_num_collections = 0, rf_bits_start = 0, rf_bits_end = 0, rf_usage_page = 0,
     rf_usage_minimum = 0, rf_usage_maximum = 0, rf_logical_minimum = 0, rf_logical_maximum = 0, rf_flags = 0,
     rf_collections = replicate HID_MAX_COLLECTIONS no_collection\<rparr>"

text \<open>
  The two bytes of the union after \<open>usage_id\<close> are not initialised; \<open>rest\<close> is what they hold. Positions are truncated
  to 16 bits, the collections to the size of the array.
\<close>

fun rdesc_field_from :: "u16 \<Rightarrow> hr_field \<Rightarrow> hid_rdesc_field" where
  "rdesc_field_from rest (Variable_Field bits usage lmin lmax attrs collections) =
     no_field\<lparr>rf_field_type := 0, rf_bits_start := word_of_nat (bits_first bits), rf_bits_end := word_of_nat (bits_stop bits),
       rf_usage_page := us_page usage, rf_usage_minimum := us_id usage, rf_usage_maximum := rest,
       rf_logical_minimum := lmin, rf_logical_maximum := lmax, rf_flags := pack_flags attrs,
       rf_num_collections := word_of_nat (min (length collections) HID_MAX_COLLECTIONS),
       rf_collections := fill_array HID_MAX_COLLECTIONS no_collection (map rdesc_collection_from collections)\<rparr>"
| "rdesc_field_from rest (Array_Field bits usages lmin lmax attrs collections) =
     no_field\<lparr>rf_field_type := 1, rf_bits_start := word_of_nat (bits_first bits), rf_bits_end := word_of_nat (bits_stop bits),
       rf_usage_page := (case usages of [] \<Rightarrow> 0 | u # _ \<Rightarrow> us_page u),
       rf_usage_minimum := (case usages of [] \<Rightarrow> 0 | u # _ \<Rightarrow> us_id u),
       rf_usage_maximum := (if usages = [] then 0 else us_id (last usages)),
       rf_logical_minimum := lmin, rf_logical_maximum := lmax, rf_flags := pack_flags attrs,
       rf_num_collections := word_of_nat (min (length collections) HID_MAX_COLLECTIONS),
       rf_collections := fill_array HID_MAX_COLLECTIONS no_collection (map rdesc_collection_from collections)\<rparr>"
| "rdesc_field_from rest (Constant_Field bits) =
     no_field\<lparr>rf_field_type := 2, rf_bits_start := word_of_nat (bits_first bits), rf_bits_end := word_of_nat (bits_stop bits),
       rf_num_collections := 0\<rparr>"

definition no_report :: hid_rdesc_report where
  "no_report = \<lparr>rr_report_id = 0, rr_size_in_bits = 0, rr_num_fields = 0, rr_fields = replicate HID_MAX_FIELDS no_field\<rparr>"

definition rdesc_report_from :: "u16 \<Rightarrow> hr_report \<Rightarrow> hid_rdesc_report" where
  "rdesc_report_from rest r =
     \<lparr>rr_report_id = (case hr_id r of Some i \<Rightarrow> i | None \<Rightarrow> 0),
      rr_size_in_bits = word_of_nat (hr_size_in_bits r),
      rr_num_fields = word_of_nat (min (length (hr_fields r)) HID_MAX_FIELDS),
      rr_fields = fill_array HID_MAX_FIELDS no_field (map (rdesc_field_from rest) (hr_fields r))\<rparr>"

definition rdesc_descriptor_from :: "u16 \<Rightarrow> hr_descriptor \<Rightarrow> hid_rdesc_descriptor" where
  "rdesc_descriptor_from rest rdesc =
     \<lparr>rdd_num_input_reports = word_of_nat (min (length (hr_input_reports rdesc)) HID_MAX_REPORTS),
      rdd_num_output_reports = word_of_nat (min (length (hr_output_reports rdesc)) HID_MAX_REPORTS),
      rdd_num_feature_reports = word_of_nat (min (length (hr_feature_reports rdesc)) HID_MAX_REPORTS),
      rdd_input_reports = fill_array HID_MAX_REPORTS no_report (map (rdesc_report_from rest) (hr_input_reports rdesc)),
      rdd_output_reports = fill_array HID_MAX_REPORTS no_report (map (rdesc_report_from rest) (hr_output_reports rdesc)),
      rdd_feature_reports = fill_array HID_MAX_REPORTS no_report (map (rdesc_report_from rest) (hr_feature_reports rdesc))\<rparr>"

section \<open>The descriptor a program iterates over\<close>

lemma length_fill_array [simp]: "length (fill_array n d xs) = n"
  by (simp add: fill_array_def)

lemma take_fill_array: "take (min (length xs) n) (fill_array n d xs) = take n xs"
  by (cases "length xs \<le> n") (simp_all add: fill_array_def)

lemma list_all_fill_array: "P d \<Longrightarrow> list_all P xs \<Longrightarrow> list_all P (fill_array n d xs)"
  by (auto simp: fill_array_def list_all_iff dest: in_set_takeD)

lemma field_from_collections [simp]: "length (rf_collections (rdesc_field_from rest f)) = HID_MAX_COLLECTIONS"
  by (cases f) (simp_all add: no_field_def)

lemma descriptor_from_arrays_ok: "rdesc_arrays_ok (rdesc_descriptor_from rest rdesc)"
proof -
  have field: "list_all (\<lambda>f. length (rf_collections f) = HID_MAX_COLLECTIONS) (fill_array HID_MAX_FIELDS no_field (map (rdesc_field_from rest) fs))" for fs
    by (rule list_all_fill_array) (simp_all add: no_field_def list_all_iff)
  have "list_all (\<lambda>r. length (rr_fields r) = HID_MAX_FIELDS \<and>
        list_all (\<lambda>f. length (rf_collections f) = HID_MAX_COLLECTIONS) (rr_fields r))
      (fill_array HID_MAX_REPORTS no_report (map (rdesc_report_from rest) rs))" for rs
    using field by (intro list_all_fill_array) (simp_all add: no_report_def no_field_def rdesc_report_from_def list_all_iff)
  then show ?thesis by (simp add: rdesc_arrays_ok_def rdesc_descriptor_from_def)
qed

lemma for_each_filled:
  assumes "n < 256"
  shows "for_each_array (fill_array n d (map f xs)) (word_of_nat (min (length xs) n)) n = Some (map f (take n xs))"
proof -
  have "unat (word_of_nat (min (length xs) n) :: u8) = min (length xs) n"
    using assms by (simp add: unsigned_of_nat take_bit_nat_eq_self)
  then show ?thesis
    using take_fill_array [of "map f xs" n d] by (simp add: for_each_array_def take_map)
qed

text \<open>
  A program that iterates over the injected descriptor visits exactly the parsed reports in order, up to the 16, and
  in each of them its fields, up to the 64: nothing is skipped, nothing outside the arrays is read.
\<close>

theorem injected_descriptor_visits:
  "for_each_input_report (rdesc_descriptor_from rest rdesc) = Some (map (rdesc_report_from rest) (take 16 (hr_input_reports rdesc))) \<and>
   for_each_output_report (rdesc_descriptor_from rest rdesc) = Some (map (rdesc_report_from rest) (take 16 (hr_output_reports rdesc))) \<and>
   for_each_feature_report (rdesc_descriptor_from rest rdesc) = Some (map (rdesc_report_from rest) (take 16 (hr_feature_reports rdesc))) \<and>
   for_each_field (rdesc_report_from rest report) = Some (map (rdesc_field_from rest) (take 64 (hr_fields report))) \<and>
   for_each_collection (rdesc_field_from rest (Variable_Field bits usage lmin lmax attrs cs)) = Some (map rdesc_collection_from (take 32 cs))"
  by (simp add: for_each_input_report_def for_each_output_report_def for_each_feature_report_def for_each_field_def
      for_each_collection_def rdesc_descriptor_from_def rdesc_report_from_def for_each_filled)

section \<open>The image in memory\<close>

text \<open>
  The structures are packed: the image is the fields in order, little endian. \<open>read_\<close> is the program's view of its data.
\<close>

definition u16_bytes :: "u16 \<Rightarrow> u8 list" where
  "u16_bytes v = [ucast v, ucast (drop_bit 8 v)]"

definition u32_bytes :: "32 word \<Rightarrow> u8 list" where
  "u32_bytes v = [ucast v, ucast (drop_bit 8 v), ucast (drop_bit 16 v), ucast (drop_bit 24 v)]"

definition collection_bytes :: "hid_rdesc_collection \<Rightarrow> u8 list" where
  "collection_bytes c = u16_bytes (rc_usage_page c) @ u16_bytes (rc_usage_id c) @ [rc_collection_type c]"

definition field_bytes :: "hid_rdesc_field \<Rightarrow> u8 list" where
  "field_bytes f =
     [rf_field_type f, rf_num_collections f] @ u16_bytes (rf_bits_start f) @ u16_bytes (rf_bits_end f) @ u16_bytes (rf_usage_page f) @
     u16_bytes (rf_usage_minimum f) @ u16_bytes (rf_usage_maximum f) @ u32_bytes (rf_logical_minimum f) @ u32_bytes (rf_logical_maximum f) @
     [rf_flags f] @ concat (map collection_bytes (rf_collections f))"

definition report_bytes :: "hid_rdesc_report \<Rightarrow> u8 list" where
  "report_bytes r =
     [rr_report_id r] @ u16_bytes (rr_size_in_bits r) @ [rr_num_fields r] @ concat (map field_bytes (rr_fields r))"

definition descriptor_bytes :: "hid_rdesc_descriptor \<Rightarrow> u8 list" where
  "descriptor_bytes d =
     [rdd_num_input_reports d, rdd_num_output_reports d, rdd_num_feature_reports d] @
     concat (map report_bytes (rdd_input_reports d)) @ concat (map report_bytes (rdd_output_reports d)) @
     concat (map report_bytes (rdd_feature_reports d))"

definition read_u8 :: "u8 list \<Rightarrow> (u8 \<times> u8 list) option" where
  "read_u8 bs = (case bs of b # r \<Rightarrow> Some (b, r) | _ \<Rightarrow> None)"

definition read_u16 :: "u8 list \<Rightarrow> (u16 \<times> u8 list) option" where
  "read_u16 bs = (case bs of a # b # r \<Rightarrow> Some (ucast a OR push_bit 8 (ucast b), r) | _ \<Rightarrow> None)"

definition read_u32 :: "u8 list \<Rightarrow> (32 word \<times> u8 list) option" where
  "read_u32 bs =
     (case bs of
        a # b # c # d # r \<Rightarrow> Some (ucast a OR push_bit 8 (ucast b) OR push_bit 16 (ucast c) OR push_bit 24 (ucast d), r)
      | _ \<Rightarrow> None)"

fun read_array :: "(u8 list \<Rightarrow> ('a \<times> u8 list) option) \<Rightarrow> nat \<Rightarrow> u8 list \<Rightarrow> ('a list \<times> u8 list) option" where
  "read_array get 0 bs = Some ([], bs)"
| "read_array get (Suc n) bs = do { (x, bs) \<leftarrow> get bs; (xs, bs) \<leftarrow> read_array get n bs; Some (x # xs, bs) }"

definition read_collection :: "u8 list \<Rightarrow> (hid_rdesc_collection \<times> u8 list) option" where
  "read_collection bs = do {
     (page, bs) \<leftarrow> read_u16 bs;
     (usage, bs) \<leftarrow> read_u16 bs;
     (ty, bs) \<leftarrow> read_u8 bs;
     Some (\<lparr>rc_usage_page = page, rc_usage_id = usage, rc_collection_type = ty\<rparr>, bs) }"

definition read_field :: "u8 list \<Rightarrow> (hid_rdesc_field \<times> u8 list) option" where
  "read_field bs = do {
     (ty, bs) \<leftarrow> read_u8 bs;
     (num, bs) \<leftarrow> read_u8 bs;
     (bits_start, bs) \<leftarrow> read_u16 bs;
     (bits_end, bs) \<leftarrow> read_u16 bs;
     (page, bs) \<leftarrow> read_u16 bs;
     (umin, bs) \<leftarrow> read_u16 bs;
     (umax, bs) \<leftarrow> read_u16 bs;
     (lmin, bs) \<leftarrow> read_u32 bs;
     (lmax, bs) \<leftarrow> read_u32 bs;
     (flags, bs) \<leftarrow> read_u8 bs;
     (cs, bs) \<leftarrow> read_array read_collection HID_MAX_COLLECTIONS bs;
     Some (\<lparr>rf_field_type = ty, rf_num_collections = num, rf_bits_start = bits_start, rf_bits_end = bits_end,
            rf_usage_page = page, rf_usage_minimum = umin, rf_usage_maximum = umax, rf_logical_minimum = lmin,
            rf_logical_maximum = lmax, rf_flags = flags, rf_collections = cs\<rparr>, bs) }"

definition read_report :: "u8 list \<Rightarrow> (hid_rdesc_report \<times> u8 list) option" where
  "read_report bs = do {
     (report_id, bs) \<leftarrow> read_u8 bs;
     (size_in_bits, bs) \<leftarrow> read_u16 bs;
     (num, bs) \<leftarrow> read_u8 bs;
     (fs, bs) \<leftarrow> read_array read_field HID_MAX_FIELDS bs;
     Some (\<lparr>rr_report_id = report_id, rr_size_in_bits = size_in_bits, rr_num_fields = num, rr_fields = fs\<rparr>, bs) }"

definition read_descriptor :: "u8 list \<Rightarrow> (hid_rdesc_descriptor \<times> u8 list) option" where
  "read_descriptor bs = do {
     (ni, bs) \<leftarrow> read_u8 bs;
     (no, bs) \<leftarrow> read_u8 bs;
     (nf, bs) \<leftarrow> read_u8 bs;
     (ins, bs) \<leftarrow> read_array read_report HID_MAX_REPORTS bs;
     (outs, bs) \<leftarrow> read_array read_report HID_MAX_REPORTS bs;
     (feats, bs) \<leftarrow> read_array read_report HID_MAX_REPORTS bs;
     Some (\<lparr>rdd_num_input_reports = ni, rdd_num_output_reports = no, rdd_num_feature_reports = nf,
            rdd_input_reports = ins, rdd_output_reports = outs, rdd_feature_reports = feats\<rparr>, bs) }"

named_theorems read_back

lemma read_u8_back [read_back]: "read_u8 (b # r) = Some (b, r)"
  by (simp add: read_u8_def)

lemma read_u16_back [read_back]: "read_u16 (u16_bytes v @ r) = Some (v, r)"
proof -
  have "(ucast (ucast v :: u8) :: u16) OR push_bit 8 (ucast (ucast (drop_bit 8 v) :: u8)) = v"
    by (rule bit_word_eqI) (auto simp: bit_simps)
  then show ?thesis by (simp add: read_u16_def u16_bytes_def)
qed

lemma read_u32_back [read_back]: "read_u32 (u32_bytes v @ r) = Some (v, r)"
proof -
  have "(ucast (ucast v :: u8) :: 32 word) OR push_bit 8 (ucast (ucast (drop_bit 8 v) :: u8)) OR
      push_bit 16 (ucast (ucast (drop_bit 16 v) :: u8)) OR push_bit 24 (ucast (ucast (drop_bit 24 v) :: u8)) = v"
  proof (rule bit_word_eqI)
    fix n assume "n < LENGTH(32)"
    then consider "n < 8" | "8 \<le> n" "n < 16" | "16 \<le> n" "n < 24" | "24 \<le> n" "n < 32" by fastforce
    then show "bit ((ucast (ucast v :: u8) :: 32 word) OR push_bit 8 (ucast (ucast (drop_bit 8 v) :: u8)) OR
      push_bit 16 (ucast (ucast (drop_bit 16 v) :: u8)) OR push_bit 24 (ucast (ucast (drop_bit 24 v) :: u8))) n = bit v n"
      by cases (auto simp: bit_simps)
  qed
  then show ?thesis by (simp add: read_u32_def u32_bytes_def)
qed

lemma read_array_back:
  assumes "\<And>x r. x \<in> set xs \<Longrightarrow> get (enc x @ r) = Some (x, r)" "length xs = n"
  shows "read_array get n (concat (map enc xs) @ r) = Some (xs, r)"
  using assms by (induction xs arbitrary: n) auto

lemma read_collection_back: "read_collection (collection_bytes c @ r) = Some (c, r)"
  by (simp add: read_collection_def collection_bytes_def read_back)

lemma read_field_back: "length (rf_collections f) = HID_MAX_COLLECTIONS \<Longrightarrow> read_field (field_bytes f @ r) = Some (f, r)"
  by (simp add: read_field_def field_bytes_def read_back read_array_back [where enc = collection_bytes] read_collection_back)

definition report_arrays_ok :: "hid_rdesc_report \<Rightarrow> bool" where
  "report_arrays_ok r \<longleftrightarrow>
     length (rr_fields r) = HID_MAX_FIELDS \<and> list_all (\<lambda>f. length (rf_collections f) = HID_MAX_COLLECTIONS) (rr_fields r)"

lemma read_report_back: "report_arrays_ok r \<Longrightarrow> read_report (report_bytes r @ bs) = Some (r, bs)"
  by (simp add: report_arrays_ok_def list_all_iff read_report_def report_bytes_def read_back
      read_array_back [where enc = field_bytes] read_field_back)

lemma read_reports_back:
  "length rs = HID_MAX_REPORTS \<Longrightarrow> list_all report_arrays_ok rs \<Longrightarrow>
     read_array read_report HID_MAX_REPORTS (concat (map report_bytes rs) @ bs) = Some (rs, bs)"
  by (rule read_array_back) (simp_all add: list_all_iff read_report_back)

lemma rdesc_arrays_ok_reports:
  "rdesc_arrays_ok d \<longleftrightarrow>
     length (rdd_input_reports d) = HID_MAX_REPORTS \<and> length (rdd_output_reports d) = HID_MAX_REPORTS \<and>
     length (rdd_feature_reports d) = HID_MAX_REPORTS \<and> list_all report_arrays_ok (rdd_input_reports d) \<and>
     list_all report_arrays_ok (rdd_output_reports d) \<and> list_all report_arrays_ok (rdd_feature_reports d)"
  by (auto simp: rdesc_arrays_ok_def report_arrays_ok_def list_all_iff)

lemma read_descriptor_back: "rdesc_arrays_ok d \<Longrightarrow> read_descriptor (descriptor_bytes d @ bs) = Some (d, bs)"
  by (simp add: rdesc_arrays_ok_reports read_descriptor_def descriptor_bytes_def read_back read_reports_back)

lemma length_concat_map: "list_all (\<lambda>x. length (f x) = k) xs \<Longrightarrow> length (concat (map f xs)) = length xs * k"
  by (induction xs) simp_all

lemma length_field_bytes: "length (rf_collections f) = HID_MAX_COLLECTIONS \<Longrightarrow> length (field_bytes f) = 181"
  using length_concat_map [of collection_bytes 5 "rf_collections f"]
  by (simp add: field_bytes_def u16_bytes_def u32_bytes_def collection_bytes_def list_all_iff)

lemma length_report_bytes: "report_arrays_ok r \<Longrightarrow> length (report_bytes r) = 11588"
  using length_concat_map [of field_bytes 181 "rr_fields r"]
  by (simp add: report_arrays_ok_def report_bytes_def u16_bytes_def length_field_bytes list_all_iff)

lemma length_descriptor_bytes: "rdesc_arrays_ok d \<Longrightarrow> length (descriptor_bytes d) = 556227"
proof -
  have "length (concat (map report_bytes rs)) = 185408" if "length rs = HID_MAX_REPORTS" "list_all report_arrays_ok rs" for rs
    using length_concat_map [of report_bytes 11588 rs] that by (simp add: list_all_iff length_report_bytes)
  then show "rdesc_arrays_ok d \<Longrightarrow> length (descriptor_bytes d) = 556227"
    by (simp add: rdesc_arrays_ok_reports descriptor_bytes_def)
qed

section \<open>The injection\<close>

definition inject_report_descriptor_in_array ::
    "(string \<Rightarrow> bool) \<Rightarrow> string \<Rightarrow> variable_metadata option \<Rightarrow> u8 list \<Rightarrow> bpf_object \<Rightarrow> bpf_object rust" where
  "inject_report_descriptor_in_array update_ok array_name rdesc_metadata rdesc_bytes object =
     (case rdesc_metadata of
        None \<Rightarrow> Ok object
      | Some var \<Rightarrow>
          if length rdesc_bytes > vm_size var then Ok object
          else
            rust_bind
              (rust_map (\<lambda>m.
                  if \<not> ends_with (m_name m) array_name then Ok m
                  else
                    rust_bind
                      (rust_map (\<lambda>data.
                          rust_bind (write_slice (vm_offset var) rdesc_bytes data)
                            (\<lambda>data'. Ok (if update_ok (m_name m) then data' else data)))
                        (m_values m))
                      (\<lambda>values. Ok (m\<lparr>m_values := values\<rparr>)))
                (o_maps object))
              (\<lambda>maps. Ok (object\<lparr>o_maps := maps\<rparr>)))"

definition inject_report_descriptor ::
    "(string \<Rightarrow> bool) \<Rightarrow> (btf \<Rightarrow> bool) \<Rightarrow> (u8 list \<Rightarrow> hr_descriptor option) \<Rightarrow> u16 \<Rightarrow>
     bpf_object \<Rightarrow> btf \<Rightarrow> bpf_metadata \<Rightarrow> u8 list \<Rightarrow> bpf_object rust" where
  "inject_report_descriptor update_ok layout_ok parse rest object btf metadata rdesc_bytes =
     (if \<not> has_report_descriptor metadata then Ok object
      else if \<not> layout_ok btf then Err
      else
        rust_bind (rust_unwrap (parse rdesc_bytes)) (\<lambda>rdesc.
          let c_rdesc_bytes = descriptor_bytes (rdesc_descriptor_from rest rdesc) in
          rust_bind (inject_report_descriptor_in_array update_ok ''.bss'' (report_descriptor_bss metadata) c_rdesc_bytes object) (\<lambda>object.
          inject_report_descriptor_in_array update_ok ''.data'' (report_descriptor_data metadata) c_rdesc_bytes object)))"



end
