(* ===== verification/Btf_Validation.thy ===== *)
theory Btf_Validation
  imports Program_Loader
begin

text \<open>
  \<open>btf_validation.rs\<close> and the structures of \<open>bpf.rs\<close> it checks: before the loader writes the parsed descriptor into a
  program it compares the layout of its own structures with the one the BTF of the program declares. The BTF is
  a map from type numbers to types, the way \<open>type_by_id\<close> of libbpf answers. A function that follows references
  may run forever on a BTF with a cycle: \<open>None\<close> is not returning.
\<close>

section \<open>Types in the BTF\<close>

record btf_member =
  bm_name :: "string option"
  bm_ty :: nat
  bm_offset :: u32

text \<open>\<open>Btf_Next\<close> stands for the kinds \<open>next_type\<close> follows, such as typedefs, qualifiers and variables.\<close>

datatype btf_type =
    Btf_Int nat
  | Btf_Struct "string option" u32 "btf_member list"
  | Btf_Union "string option" u32 "btf_member list"
  | Btf_Enum u32
  | Btf_Array nat u32
  | Btf_Next nat
  | Btf_Other

type_synonym btf_types = "nat \<Rightarrow> btf_type option"

fun next_type :: "btf_types \<Rightarrow> btf_type \<Rightarrow> btf_type option" where
  "next_type btf (Btf_Next i) = btf i"
| "next_type btf _ = None"

partial_function (option) resolve_btf_type :: "btf_types \<Rightarrow> btf_type \<Rightarrow> btf_type option" where
  "resolve_btf_type btf t = (case next_type btf t of Some next \<Rightarrow> resolve_btf_type btf next | None \<Rightarrow> Some t)"

partial_function (option) get_btf_type_size :: "btf_types \<Rightarrow> btf_type \<Rightarrow> nat rust option" where
  "get_btf_type_size btf t =
     (case t of
        Btf_Int sz \<Rightarrow> Some (Ok sz)
      | Btf_Struct _ sz _ \<Rightarrow> Some (Ok (unat sz))
      | Btf_Union _ sz _ \<Rightarrow> Some (Ok (unat sz))
      | Btf_Enum sz \<Rightarrow> Some (Ok (unat sz))
      | Btf_Array ty capacity \<Rightarrow>
          (case btf ty of
             None \<Rightarrow> Some Err
           | Some elem_type \<Rightarrow>
               Option.bind (resolve_btf_type btf elem_type) (\<lambda>resolved_elem.
               Option.bind (get_btf_type_size btf resolved_elem) (\<lambda>elem_size.
               Some (rust_bind elem_size (\<lambda>elem_size. Ok ((elem_size * unat capacity) mod 2 ^ 64))))))
      | _ \<Rightarrow> Some Err)"

section \<open>The structures of the loader\<close>

text \<open>A field type with the text \<open>stringify!\<close> makes of it; an array has the name of the constant that is its length.\<close>

datatype rust_type = Scalar string nat | Composite string nat | Array_of rust_type string nat

fun size_of :: "rust_type \<Rightarrow> nat" where
  "size_of (Scalar n k) = k"
| "size_of (Composite n k) = k"
| "size_of (Array_of t c k) = k * size_of t"

fun stringify :: "rust_type \<Rightarrow> string" where
  "stringify (Scalar n k) = n"
| "stringify (Composite n k) = n"
| "stringify (Array_of t c k) = ''['' @ stringify t @ ''; '' @ c @ '']''"

record validation_field =
  vf_name :: string
  vf_offset :: nat
  vf_size :: nat
  vf_type_name :: string

text \<open>A \<open>repr(C, packed)\<close> structure, or a \<open>repr(C)\<close> union with its alignment.\<close>

datatype rust_composite = Packed_Struct "(string \<times> rust_type) list" | C_Union nat "(string \<times> rust_type) list"

fun packed_offsets :: "nat \<Rightarrow> (string \<times> rust_type) list \<Rightarrow> (string \<times> nat \<times> rust_type) list" where
  "packed_offsets start [] = []"
| "packed_offsets start ((n, t) # fs) = (n, start, t) # packed_offsets (start + size_of t) fs"

fun field_offsets :: "rust_composite \<Rightarrow> (string \<times> nat \<times> rust_type) list" where
  "field_offsets (Packed_Struct fs) = packed_offsets 0 fs"
| "field_offsets (C_Union al fs) = map (\<lambda>(n, t). (n, 0, t)) fs"

fun size_of_composite :: "rust_composite \<Rightarrow> nat" where
  "size_of_composite (Packed_Struct fs) = sum_list (map (size_of \<circ> snd) fs)"
| "size_of_composite (C_Union al fs) = (fold max (map (size_of \<circ> snd) fs) 0 + al - 1) div al * al"

definition get_validation_fields :: "rust_composite \<Rightarrow> validation_field list" where
  "get_validation_fields c =
     map (\<lambda>(n, start, t). \<lparr>vf_name = n, vf_offset = start, vf_size = size_of t, vf_type_name = stringify t\<rparr>) (field_offsets c)"

abbreviation rust_u8 :: rust_type where "rust_u8 \<equiv> Scalar ''u8'' 1"
abbreviation rust_u16 :: rust_type where "rust_u16 \<equiv> Scalar ''u16'' 2"
abbreviation rust_i32 :: rust_type where "rust_i32 \<equiv> Scalar ''i32'' 4"

definition HidRdescCollection :: rust_composite where
  "HidRdescCollection = Packed_Struct [(''usage_page'', rust_u16), (''usage_id'', rust_u16), (''collection_type'', rust_u8)]"

definition UsageRange :: rust_composite where
  "UsageRange = Packed_Struct [(''usage_minimum'', rust_u16), (''usage_maximum'', rust_u16)]"

definition UsageIdUnion :: rust_composite where
  "UsageIdUnion = C_Union 2 [(''usage_id'', rust_u16), (''anon_range'', Composite ''UsageRange'' (size_of_composite UsageRange))]"

definition HidRdescField :: rust_composite where
  "HidRdescField = Packed_Struct
     [(''field_type'', rust_u8), (''num_collections'', rust_u8), (''bits_start'', rust_u16), (''bits_end'', rust_u16),
      (''usage_page'', rust_u16), (''anon_usage_id'', Composite ''UsageIdUnion'' (size_of_composite UsageIdUnion)),
      (''logical_minimum'', rust_i32), (''logical_maximum'', rust_i32), (''flags'', rust_u8),
      (''collections'', Array_of (Composite ''HidRdescCollection'' (size_of_composite HidRdescCollection)) ''HID_MAX_COLLECTIONS'' 32)]"

definition HidRdescReport :: rust_composite where
  "HidRdescReport = Packed_Struct
     [(''report_id'', rust_u8), (''size_in_bits'', rust_u16), (''num_fields'', rust_u8),
      (''fields'', Array_of (Composite ''HidRdescField'' (size_of_composite HidRdescField)) ''HID_MAX_FIELDS'' 64)]"

definition rust_reports :: rust_type where
  "rust_reports = Array_of (Composite ''HidRdescReport'' (size_of_composite HidRdescReport)) ''HID_MAX_REPORTS'' 16"

definition HidRdescDescriptor :: rust_composite where
  "HidRdescDescriptor = Packed_Struct
     [(''num_input_reports'', rust_u8), (''num_output_reports'', rust_u8), (''num_feature_reports'', rust_u8),
      (''input_reports'', rust_reports), (''output_reports'', rust_reports), (''feature_reports'', rust_reports)]"

definition BTF_VALIDATORS :: "(string \<times> rust_composite) list" where
  "BTF_VALIDATORS =
     [(''HidRdescCollection'', HidRdescCollection), (''UsageRange'', UsageRange), (''UsageIdUnion'', UsageIdUnion),
      (''HidRdescField'', HidRdescField), (''HidRdescReport'', HidRdescReport), (''HidRdescDescriptor'', HidRdescDescriptor)]"

section \<open>The check\<close>

definition is_whitespace :: "char \<Rightarrow> bool" where
  "is_whitespace c \<longleftrightarrow> c \<in> {CHR '' '', CHR 0x09, CHR 0x0A, CHR 0x0B, CHR 0x0C, CHR 0x0D}"

definition trim :: "string \<Rightarrow> string" where
  "trim s = rev (dropWhile is_whitespace (rev (dropWhile is_whitespace s)))"

definition base_type_name :: "string \<Rightarrow> string" where
  "base_type_name type_name = trim (takeWhile (\<lambda>c. c \<noteq> CHR '';'') (dropWhile (\<lambda>c. c = CHR ''['') type_name))"

definition is_primitive :: "string \<Rightarrow> bool" where
  "is_primitive n \<longleftrightarrow> n \<in> {''u8'', ''u16'', ''u32'', ''u64'', ''i8'', ''i16'', ''i32'', ''i64'', ''usize'', ''isize'',
     ''bool'', ''char'', ''f32'', ''f64''}"

type_synonym cache = "string set"

type_synonym btf_validator_fn = "btf_type \<Rightarrow> cache \<Rightarrow> cache rust option"

text \<open>The type handed on: the element of an array, the resolved type itself otherwise.\<close>

fun validation_type :: "btf_types \<Rightarrow> btf_type \<Rightarrow> btf_type option" where
  "validation_type btf (Btf_Array ty capacity) = btf ty"
| "validation_type btf t = Some t"

definition validate_complex_type_by_name ::
    "(string \<Rightarrow> btf_validator_fn option) \<Rightarrow> btf_types \<Rightarrow> btf_type \<Rightarrow> string \<Rightarrow> cache \<Rightarrow> cache rust option" where
  "validate_complex_type_by_name validators btf t type_name cache =
     (if type_name \<in> cache then Some (Ok cache)
      else
        Option.bind (resolve_btf_type btf t) (\<lambda>resolved.
        case validation_type btf resolved of
          None \<Rightarrow> Some Err
        | Some v \<Rightarrow>
            Option.bind
              (if is_primitive (base_type_name type_name) then Some (Ok cache)
               else
                 (case validators (base_type_name type_name) of
                    Some validator \<Rightarrow> validator v cache
                  | None \<Rightarrow> Some (Ok cache)))
              (\<lambda>r. Some (rust_bind r (\<lambda>cache'. Ok (insert type_name cache'))))))"

definition is_anonymous :: "string \<Rightarrow> bool" where
  "is_anonymous n \<longleftrightarrow> starts_with n ''anon_''"

text \<open>Unions have no offsets, so their first argument is \<open>False\<close>.\<close>

definition find_member :: "bool \<Rightarrow> validation_field \<Rightarrow> btf_member list \<Rightarrow> btf_member option" where
  "find_member validates_offset fld members =
     (if is_anonymous (vf_name fld) \<and> validates_offset
      then find (\<lambda>m. bm_name m = None \<and> unat (bm_offset m) div 8 = vf_offset fld) members
      else if is_anonymous (vf_name fld) then find (\<lambda>m. bm_name m = None) members
      else find (\<lambda>m. bm_name m = Some (vf_name fld)) members)"

definition validate_member :: "btf_types \<Rightarrow> bool \<Rightarrow> validation_field \<Rightarrow> btf_member \<Rightarrow> btf_type rust option" where
  "validate_member btf validates_offset fld m =
     (if validates_offset \<and> unat (bm_offset m) div 8 \<noteq> vf_offset fld then Some Err
      else
        (case btf (bm_ty m) of
           None \<Rightarrow> Some Err
         | Some member_type \<Rightarrow>
             Option.bind (resolve_btf_type btf member_type) (\<lambda>resolved.
             Option.bind (get_btf_type_size btf resolved) (\<lambda>sz.
             Some (rust_bind sz (\<lambda>btf_field_size. if btf_field_size \<noteq> vf_size fld then Err else Ok resolved))))))"

fun validate_fields ::
    "(btf_type \<Rightarrow> string \<Rightarrow> cache \<Rightarrow> cache rust option) \<Rightarrow> btf_types \<Rightarrow> bool \<Rightarrow> btf_member list \<Rightarrow> validation_field list \<Rightarrow>
     cache \<Rightarrow> cache rust option" where
  "validate_fields complex btf validates_offset members [] cache = Some (Ok cache)"
| "validate_fields complex btf validates_offset members (fld # flds) cache =
     (case find_member validates_offset fld members of
        None \<Rightarrow> Some Err
      | Some m \<Rightarrow>
          (case validate_member btf validates_offset fld m of
             Some (Ok resolved) \<Rightarrow>
               (case complex resolved (vf_type_name fld) cache of
                  Some (Ok cache') \<Rightarrow> validate_fields complex btf validates_offset members flds cache'
                | r \<Rightarrow> r)
           | Some Err \<Rightarrow> Some Err
           | Some Panic \<Rightarrow> Some Panic
           | None \<Rightarrow> None))"

text \<open>\<open>Struct::try_from\<close> and \<open>Union::try_from\<close>.\<close>

fun composite_members :: "rust_composite \<Rightarrow> btf_type \<Rightarrow> (u32 \<times> btf_member list) option" where
  "composite_members (Packed_Struct fs) (Btf_Struct n sz ms) = Some (sz, ms)"
| "composite_members (C_Union al fs) (Btf_Union n sz ms) = Some (sz, ms)"
| "composite_members _ _ = None"

fun validates_offset :: "rust_composite \<Rightarrow> bool" where
  "validates_offset (Packed_Struct fs) = True"
| "validates_offset (C_Union al fs) = False"

definition validate_btf_layout_from_type ::
    "(btf_type \<Rightarrow> string \<Rightarrow> cache \<Rightarrow> cache rust option) \<Rightarrow> btf_types \<Rightarrow> rust_composite \<Rightarrow> btf_validator_fn" where
  "validate_btf_layout_from_type complex btf c t cache =
     Option.bind (resolve_btf_type btf t) (\<lambda>resolved.
     case composite_members c resolved of
       None \<Rightarrow> Some Err
     | Some (sz, members) \<Rightarrow>
         if unat sz \<noteq> size_of_composite c then Some Err
         else validate_fields complex btf (validates_offset c) members (get_validation_fields c) cache)"

text \<open>The registered function of a type, for structures nested less deep than the first argument.\<close>

fun validator :: "nat \<Rightarrow> btf_types \<Rightarrow> string \<Rightarrow> btf_validator_fn option" where
  "validator 0 btf n = map_option (\<lambda>c t cache. None) (map_of BTF_VALIDATORS n)"
| "validator (Suc k) btf n =
     map_option (\<lambda>c. validate_btf_layout_from_type (validate_complex_type_by_name (validator k btf) btf) btf c) (map_of BTF_VALIDATORS n)"

definition validate_descriptor_layout :: "btf_types \<Rightarrow> btf_type \<Rightarrow> cache rust option" where
  "validate_descriptor_layout btf t =
     validate_btf_layout_from_type (validate_complex_type_by_name (validator 5 btf) btf) btf HidRdescDescriptor t {}"

lemmas rust_structs = HidRdescCollection_def UsageRange_def UsageIdUnion_def HidRdescField_def HidRdescReport_def
  rust_reports_def HidRdescDescriptor_def

text \<open>The structures of \<open>hid_report_descriptor_helpers.h\<close> as a compiler describes them.\<close>

definition named :: "string \<Rightarrow> nat \<Rightarrow> u32 \<Rightarrow> btf_member" where
  "named n ty byte = \<lparr>bm_name = Some n, bm_ty = ty, bm_offset = 8 * byte\<rparr>"

definition unnamed :: "nat \<Rightarrow> u32 \<Rightarrow> btf_member" where
  "unnamed ty byte = \<lparr>bm_name = None, bm_ty = ty, bm_offset = 8 * byte\<rparr>"

definition header_btf_list :: "(nat \<times> btf_type) list" where
  "header_btf_list =
     [(1, Btf_Int 1), (2, Btf_Next 1), (3, Btf_Int 2), (4, Btf_Next 3), (5, Btf_Int 4), (6, Btf_Next 5),
      (7, Btf_Struct (Some ''hid_rdesc_collection'') 5 [named ''usage_page'' 4 0, named ''usage_id'' 4 2, named ''collection_type'' 2 4]),
      (8, Btf_Array 7 32),
      (9, Btf_Struct None 4 [named ''usage_minimum'' 4 0, named ''usage_maximum'' 4 2]),
      (10, Btf_Union None 4 [named ''usage_id'' 4 0, unnamed 9 0]),
      (11, Btf_Struct None 1
        [\<lparr>bm_name = Some ''is_relative'', bm_ty = 2, bm_offset = 0\<rparr>, \<lparr>bm_name = Some ''wraps'', bm_ty = 2, bm_offset = 1\<rparr>,
         \<lparr>bm_name = Some ''is_nonlinear'', bm_ty = 2, bm_offset = 2\<rparr>, \<lparr>bm_name = Some ''has_no_preferred_state'', bm_ty = 2, bm_offset = 3\<rparr>,
         \<lparr>bm_name = Some ''has_null_state'', bm_ty = 2, bm_offset = 4\<rparr>, \<lparr>bm_name = Some ''is_volatile'', bm_ty = 2, bm_offset = 5\<rparr>,
         \<lparr>bm_name = Some ''is_buffered_bytes'', bm_ty = 2, bm_offset = 6\<rparr>, \<lparr>bm_name = Some ''reserved'', bm_ty = 2, bm_offset = 7\<rparr>]),
      (12, Btf_Struct (Some ''hid_rdesc_field'') 181
        [named ''field_type'' 2 0, named ''num_collections'' 2 1, named ''bits_start'' 4 2, named ''bits_end'' 4 4,
         named ''usage_page'' 4 6, unnamed 10 8, named ''logical_minimum'' 6 12, named ''logical_maximum'' 6 16,
         named ''flags'' 11 20, named ''collections'' 8 21]),
      (13, Btf_Array 12 64),
      (14, Btf_Struct (Some ''hid_rdesc_report'') 11588
        [named ''report_id'' 2 0, named ''size_in_bits'' 4 1, named ''num_fields'' 2 3, named ''fields'' 13 4]),
      (15, Btf_Array 14 16),
      (16, Btf_Struct (Some ''hid_rdesc_descriptor'') 556227
        [named ''num_input_reports'' 2 0, named ''num_output_reports'' 2 1, named ''num_feature_reports'' 2 2,
         named ''input_reports'' 15 3, named ''output_reports'' 15 185411, named ''feature_reports'' 15 370819])]"

definition header_btf :: btf_types where
  "header_btf = map_of header_btf_list"

section \<open>Evaluating references\<close>

lemma resolve_simps [simp]:
  "resolve_btf_type btf (Btf_Int k) = Some (Btf_Int k)"
  "resolve_btf_type btf (Btf_Struct n sz ms) = Some (Btf_Struct n sz ms)"
  "resolve_btf_type btf (Btf_Union n sz ms) = Some (Btf_Union n sz ms)"
  "resolve_btf_type btf (Btf_Enum sz) = Some (Btf_Enum sz)"
  "resolve_btf_type btf (Btf_Array ty capacity) = Some (Btf_Array ty capacity)"
  "resolve_btf_type btf Btf_Other = Some Btf_Other"
  "resolve_btf_type btf (Btf_Next i) = (case btf i of Some t \<Rightarrow> resolve_btf_type btf t | None \<Rightarrow> Some (Btf_Next i))"
  by (subst resolve_btf_type.simps; simp)+

lemma get_size_simps [simp]:
  "get_btf_type_size btf (Btf_Int k) = Some (Ok k)"
  "get_btf_type_size btf (Btf_Struct n sz ms) = Some (Ok (unat sz))"
  "get_btf_type_size btf (Btf_Union n sz ms) = Some (Ok (unat sz))"
  "get_btf_type_size btf (Btf_Enum sz) = Some (Ok (unat sz))"
  "get_btf_type_size btf (Btf_Next i) = Some Err"
  "get_btf_type_size btf Btf_Other = Some Err"
  by (subst get_btf_type_size.simps; simp)+

lemma get_size_array [simp]:
  "get_btf_type_size btf (Btf_Array ty capacity) =
     (case btf ty of
        None \<Rightarrow> Some Err
      | Some elem_type \<Rightarrow>
          Option.bind (resolve_btf_type btf elem_type) (\<lambda>resolved_elem.
          Option.bind (get_btf_type_size btf resolved_elem) (\<lambda>elem_size.
          Some (rust_bind elem_size (\<lambda>elem_size. Ok ((elem_size * unat capacity) mod 2 ^ 64))))))"
  by (subst get_btf_type_size.simps) simp

text \<open>What \<open>resolve_btf_type\<close> returns refers to no further type.\<close>

lemma resolve_final: "resolve_btf_type btf t = Some r \<Longrightarrow> next_type btf r = None"
proof (rule resolve_btf_type.raw_induct [where P = "\<lambda>btf t r. next_type btf r = None"])
  fix f btf t r
  assume "\<And>btf t r. f btf t = Some r \<Longrightarrow> next_type btf r = None"
    and "(case next_type btf t of None \<Rightarrow> Some t | Some next \<Rightarrow> f btf next) = Some r"
  then show "next_type btf r = None" by (cases "next_type btf t") auto
qed

lemma resolve_resolved [simp]: "next_type btf t = None \<Longrightarrow> resolve_btf_type btf t = Some t"
  by (subst resolve_btf_type.simps) simp

section \<open>Having the same layout\<close>

text \<open>
  A resolved BTF type has the layout of a Rust type when the sizes agree and, through structures and arrays, every
  field is found at its offset. An array stands for its first element where a structure is expected.
\<close>

inductive same_layout :: "btf_types \<Rightarrow> rust_type \<Rightarrow> btf_type \<Rightarrow> bool" for btf where
  scalar: "get_btf_type_size btf t = Some (Ok k) \<Longrightarrow> same_layout btf (Scalar n k) t"
| composite:
    "get_btf_type_size btf t = Some (Ok k) \<Longrightarrow> map_of BTF_VALIDATORS n = Some c \<Longrightarrow>
     Option.bind (validation_type btf t) (resolve_btf_type btf) = Some v \<Longrightarrow> composite_members c v = Some (sz, ms) \<Longrightarrow>
     unat sz = size_of_composite c \<Longrightarrow>
     \<forall>fld start ty. (fld, start, ty) \<in> set (field_offsets c) \<longrightarrow>
       (\<exists>m member_type t'.
          find_member (validates_offset c) \<lparr>vf_name = fld, vf_offset = start, vf_size = size_of ty, vf_type_name = stringify ty\<rparr> ms = Some m \<and>
          (validates_offset c \<longrightarrow> unat (bm_offset m) div 8 = start) \<and> btf (bm_ty m) = Some member_type \<and>
          resolve_btf_type btf member_type = Some t' \<and> same_layout btf ty t') \<Longrightarrow>
     same_layout btf (Composite n k) t"
| array:
    "btf ty = Some elem_type \<Longrightarrow> resolve_btf_type btf elem_type = Some t' \<Longrightarrow> validation_type btf t' = Some t' \<Longrightarrow>
     same_layout btf t t' \<Longrightarrow> unat capacity = k \<Longrightarrow>
     get_btf_type_size btf (Btf_Array ty capacity) = Some (Ok (k * size_of t)) \<Longrightarrow>
     same_layout btf (Array_of t c k) (Btf_Array ty capacity)"

lemma same_layout_size: "same_layout btf ty t \<Longrightarrow> get_btf_type_size btf t = Some (Ok (size_of ty))"
  by (cases rule: same_layout.cases) auto

text \<open>The name of the structure in a field type.\<close>

fun nested :: "rust_type \<Rightarrow> string option" where
  "nested (Scalar n k) = None"
| "nested (Composite n k) = Some n"
| "nested (Array_of t c k) = nested t"

definition member_of :: "btf_types \<Rightarrow> rust_composite \<Rightarrow> btf_member list \<Rightarrow> string \<times> nat \<times> rust_type \<Rightarrow> btf_type \<Rightarrow> bool" where
  "member_of btf c ms = (\<lambda>(fld, start, ty) t'. \<exists>m member_type.
     find_member (validates_offset c) \<lparr>vf_name = fld, vf_offset = start, vf_size = size_of ty, vf_type_name = stringify ty\<rparr> ms = Some m \<and>
     btf (bm_ty m) = Some member_type \<and> resolve_btf_type btf member_type = Some t')"

text \<open>The pairs of a Rust type and a BTF type that meet when the fields of a type are followed.\<close>

inductive occurs :: "btf_types \<Rightarrow> rust_type \<Rightarrow> btf_type \<Rightarrow> rust_type \<Rightarrow> btf_type \<Rightarrow> bool" for btf ty0 t0 where
  root: "occurs btf ty0 t0 ty0 t0"
| member: "occurs btf ty0 t0 ty t \<Longrightarrow> nested ty = Some n \<Longrightarrow> map_of BTF_VALIDATORS n = Some c \<Longrightarrow>
    Option.bind (validation_type btf t) (resolve_btf_type btf) = Some v \<Longrightarrow> composite_members c v = Some (sz, ms) \<Longrightarrow>
    f \<in> set (field_offsets c) \<Longrightarrow> member_of btf c ms f t' \<Longrightarrow> occurs btf ty0 t0 (snd (snd f)) t'"

definition rust_descriptor :: rust_type where
  "rust_descriptor = Composite ''HidRdescDescriptor'' (size_of_composite HidRdescDescriptor)"

text \<open>Fields of one Rust type have one type in the program.\<close>

definition uniform :: "btf_types \<Rightarrow> btf_type \<Rightarrow> bool" where
  "uniform btf t0 \<longleftrightarrow> (\<forall>ty t1 t2. nested ty \<noteq> None \<and> occurs btf rust_descriptor t0 ty t1 \<and> occurs btf rust_descriptor t0 ty t2 \<longrightarrow> t1 = t2)"

section \<open>The registered types\<close>

abbreviation rust_fields :: rust_type where
  "rust_fields \<equiv> Array_of (Composite ''HidRdescField'' 181) ''HID_MAX_FIELDS'' 64"

abbreviation rust_collections :: rust_type where
  "rust_collections \<equiv> Array_of (Composite ''HidRdescCollection'' 5) ''HID_MAX_COLLECTIONS'' 32"

lemma size_of_structs [simp]:
  "size_of_composite HidRdescCollection = 5" "size_of_composite UsageRange = 4" "size_of_composite UsageIdUnion = 4"
  "size_of_composite HidRdescField = 181" "size_of_composite HidRdescReport = 11588" "size_of_composite HidRdescDescriptor = 556227"
  by (simp_all add: rust_structs)

lemma field_offsets_structs [simp]:
  "field_offsets HidRdescCollection = [(''usage_page'', 0, rust_u16), (''usage_id'', 2, rust_u16), (''collection_type'', 4, rust_u8)]"
  "field_offsets UsageRange = [(''usage_minimum'', 0, rust_u16), (''usage_maximum'', 2, rust_u16)]"
  "field_offsets UsageIdUnion = [(''usage_id'', 0, rust_u16), (''anon_range'', 0, Composite ''UsageRange'' 4)]"
  "field_offsets HidRdescField =
     [(''field_type'', 0, rust_u8), (''num_collections'', 1, rust_u8), (''bits_start'', 2, rust_u16), (''bits_end'', 4, rust_u16),
      (''usage_page'', 6, rust_u16), (''anon_usage_id'', 8, Composite ''UsageIdUnion'' 4), (''logical_minimum'', 12, rust_i32),
      (''logical_maximum'', 16, rust_i32), (''flags'', 20, rust_u8), (''collections'', 21, rust_collections)]"
  "field_offsets HidRdescReport = [(''report_id'', 0, rust_u8), (''size_in_bits'', 1, rust_u16), (''num_fields'', 3, rust_u8),
      (''fields'', 4, rust_fields)]"
  "field_offsets HidRdescDescriptor =
     [(''num_input_reports'', 0, rust_u8), (''num_output_reports'', 1, rust_u8), (''num_feature_reports'', 2, rust_u8),
      (''input_reports'', 3, rust_reports), (''output_reports'', 185411, rust_reports), (''feature_reports'', 370819, rust_reports)]"
  by (simp_all add: rust_structs)

lemma rust_reports_eq [simp]: "rust_reports = Array_of (Composite ''HidRdescReport'' 11588) ''HID_MAX_REPORTS'' 16"
  by (simp add: rust_reports_def)

text \<open>The field types that name a structure.\<close>

definition struct_types :: "rust_type list" where
  "struct_types = [Composite ''UsageRange'' 4, Composite ''UsageIdUnion'' 4, rust_collections, rust_fields, rust_reports, rust_descriptor]"

lemma validators_cases:
  assumes "map_of BTF_VALIDATORS n = Some c"
  shows "(n, c) \<in> {(''HidRdescCollection'', HidRdescCollection), (''UsageRange'', UsageRange), (''UsageIdUnion'', UsageIdUnion),
      (''HidRdescField'', HidRdescField), (''HidRdescReport'', HidRdescReport), (''HidRdescDescriptor'', HidRdescDescriptor)}"
  using map_of_SomeD [OF assms] by (simp add: BTF_VALIDATORS_def)

lemma field_types:
  assumes "map_of BTF_VALIDATORS n = Some c" "f \<in> set (field_offsets c)"
  shows "snd (snd f) \<in> {rust_u8, rust_u16, rust_i32} \<union> set struct_types"
  using validators_cases [OF assms(1)] assms(2) by (auto simp: struct_types_def)

lemma occurs_types: "occurs btf rust_descriptor t0 ty t \<Longrightarrow> nested ty = None \<or> ty \<in> set struct_types"
proof (induction rule: occurs.induct)
  case root
  then show ?case by (simp add: struct_types_def)
next
  case (member ty t n c v sz ms f t')
  then show ?case using field_types [of n c f] by auto
qed

lemma struct_type_names:
  assumes "ty \<in> set struct_types"
  shows "\<exists>n c. nested ty = Some n \<and> base_type_name (stringify ty) = n \<and> \<not> is_primitive n \<and> map_of BTF_VALIDATORS n = Some c"
  using assms unfolding struct_types_def
  by (auto simp: rust_descriptor_def base_type_name_def trim_def is_whitespace_def is_primitive_def BTF_VALIDATORS_def)

lemma struct_types_inj: "ty \<in> set struct_types \<Longrightarrow> ty' \<in> set struct_types \<Longrightarrow> stringify ty = stringify ty' \<Longrightarrow> ty = ty'"
  unfolding struct_types_def by (auto simp: rust_descriptor_def)

text \<open>A structure by itself, or an array of at least two.\<close>

lemma struct_type_cases:
  assumes "ty \<in> set struct_types"
  obtains (composite) n c where "ty = Composite n (size_of_composite c)" "map_of BTF_VALIDATORS n = Some c"
  | (array) n c k l where "ty = Array_of (Composite n (size_of_composite c)) l k" "map_of BTF_VALIDATORS n = Some c" "1 < k"
      "0 < size_of_composite c" "k < 2 ^ 32"
proof -
  have "map_of BTF_VALIDATORS ''UsageRange'' = Some UsageRange" "map_of BTF_VALIDATORS ''UsageIdUnion'' = Some UsageIdUnion"
    "map_of BTF_VALIDATORS ''HidRdescCollection'' = Some HidRdescCollection" "map_of BTF_VALIDATORS ''HidRdescField'' = Some HidRdescField"
    "map_of BTF_VALIDATORS ''HidRdescReport'' = Some HidRdescReport" "map_of BTF_VALIDATORS ''HidRdescDescriptor'' = Some HidRdescDescriptor"
    by (simp_all add: BTF_VALIDATORS_def)
  note maps = this
  from assms consider "ty = Composite ''UsageRange'' 4" | "ty = Composite ''UsageIdUnion'' 4" | "ty = rust_collections"
    | "ty = rust_fields" | "ty = rust_reports" | "ty = rust_descriptor"
    unfolding struct_types_def by auto
  then show ?thesis
  proof cases
    case 1 then show ?thesis using composite [OF _ maps(1)] by simp
  next
    case 2 then show ?thesis using composite [OF _ maps(2)] by simp
  next
    case 3 then show ?thesis using array [OF _ maps(3)] by simp
  next
    case 4 then show ?thesis using array [OF _ maps(4)] by simp
  next
    case 5 then show ?thesis using array [OF _ maps(5)] by simp
  next
    case 6 then show ?thesis using composite [OF _ maps(6)] by (simp add: rust_descriptor_def)
  qed
qed

section \<open>The check accepts the same layout only\<close>

abbreviation field_check :: "string \<times> nat \<times> rust_type \<Rightarrow> validation_field" where
  "field_check \<equiv> \<lambda>(n, start, t). \<lparr>vf_name = n, vf_offset = start, vf_size = size_of t, vf_type_name = stringify t\<rparr>"

lemma validate_member_Ok:
  "validate_member btf offs f m = Some (Ok r) \<longleftrightarrow>
     (offs \<longrightarrow> unat (bm_offset m) div 8 = vf_offset f) \<and>
     (\<exists>mt. btf (bm_ty m) = Some mt \<and> resolve_btf_type btf mt = Some r \<and> get_btf_type_size btf r = Some (Ok (vf_size f)))"
proof -
  have "rust_bind z (\<lambda>k. if k \<noteq> x then Err else Ok r') = Ok r \<longleftrightarrow> z = Ok x \<and> r' = r" for z and x :: nat and r'
    by (cases z) auto
  then show ?thesis by (auto simp: validate_member_def bind_eq_Some_conv split: option.split)
qed

text \<open>The fields of a structure agree with members of the BTF type, as \<open>same_layout\<close> has it.\<close>

definition fields_agree :: "btf_types \<Rightarrow> rust_composite \<Rightarrow> btf_member list \<Rightarrow> (string \<times> nat \<times> rust_type) list \<Rightarrow> bool" where
  "fields_agree btf c ms fs \<longleftrightarrow> (\<forall>fld start ty. (fld, start, ty) \<in> set fs \<longrightarrow>
     (\<exists>m member_type t'.
        find_member (validates_offset c) (field_check (fld, start, ty)) ms = Some m \<and>
        (validates_offset c \<longrightarrow> unat (bm_offset m) div 8 = start) \<and> btf (bm_ty m) = Some member_type \<and>
        resolve_btf_type btf member_type = Some t' \<and> same_layout btf ty t'))"

lemma fields_sound:
  assumes "validate_fields complex btf (validates_offset c) ms (map field_check fs) cache = Some (Ok cache')" "Q cache"
    and "\<And>f t cache cache'. f \<in> set fs \<Longrightarrow> member_of btf c ms f t \<Longrightarrow> next_type btf t = None \<Longrightarrow>
      get_btf_type_size btf t = Some (Ok (size_of (snd (snd f)))) \<Longrightarrow>
      complex t (stringify (snd (snd f))) cache = Some (Ok cache') \<Longrightarrow> Q cache \<Longrightarrow> same_layout btf (snd (snd f)) t \<and> Q cache'"
  shows "fields_agree btf c ms fs \<and> Q cache'"
  using assms
proof (induction fs arbitrary: cache)
  case Nil
  then show ?case by (simp add: fields_agree_def)
next
  case (Cons f fs)
  obtain n start ty where f: "f = (n, start, ty)" by (metis prod_cases3)
  obtain m r cache1 where m: "find_member (validates_offset c) (field_check f) ms = Some m"
      "validate_member btf (validates_offset c) (field_check f) m = Some (Ok r)"
      "complex r (stringify ty) cache = Some (Ok cache1)"
    and rest: "validate_fields complex btf (validates_offset c) ms (map field_check fs) cache1 = Some (Ok cache')"
    using Cons.prems(1) unfolding f by (auto split: option.splits rust.splits)
  obtain mt where mt: "btf (bm_ty m) = Some mt" "resolve_btf_type btf mt = Some r"
      "get_btf_type_size btf r = Some (Ok (size_of ty))" "validates_offset c \<longrightarrow> unat (bm_offset m) div 8 = start"
    using m(2) unfolding validate_member_Ok f by auto
  have "member_of btf c ms f r" using m(1) mt(1,2) unfolding member_of_def f by auto
  then have this_field: "same_layout btf ty r \<and> Q cache1"
    using Cons.prems(3) [of f r cache cache1] Cons.prems(2) mt(2,3) m(3) resolve_final unfolding f by simp
  have "fields_agree btf c ms fs \<and> Q cache'"
  proof (rule Cons.IH [OF rest])
    show "Q cache1" using this_field by blast
    show "same_layout btf (snd (snd g)) t \<and> Q cache2'" if "g \<in> set fs" "member_of btf c ms g t" "next_type btf t = None"
      "get_btf_type_size btf t = Some (Ok (size_of (snd (snd g))))" "complex t (stringify (snd (snd g))) cache2 = Some (Ok cache2')" "Q cache2"
      for g t cache2 cache2'
      using Cons.prems(3) [OF _ that(2-6)] that(1) by simp
  qed
  then show ?case using this_field m(1) mt unfolding fields_agree_def f by auto
qed

text \<open>The cache holds the names of structures that have been compared wherever they occur.\<close>

definition checked :: "btf_types \<Rightarrow> btf_type \<Rightarrow> cache \<Rightarrow> bool" where
  "checked btf t0 cache \<longleftrightarrow> (\<forall>ty t. stringify ty \<in> cache \<and> nested ty \<noteq> None \<and> occurs btf rust_descriptor t0 ty t \<longrightarrow> same_layout btf ty t)"

lemma checked_insert:
  assumes "uniform btf t0" "checked btf t0 cache" "occurs btf rust_descriptor t0 ty t" "same_layout btf ty t" "ty \<in> set struct_types"
  shows "checked btf t0 (insert (stringify ty) cache)"
  unfolding checked_def
proof (intro allI impI)
  fix ty' t'
  assume *: "stringify ty' \<in> insert (stringify ty) cache \<and> nested ty' \<noteq> None \<and> occurs btf rust_descriptor t0 ty' t'"
  show "same_layout btf ty' t'"
  proof (cases "stringify ty' \<in> cache")
    case True
    then show ?thesis using * assms(2) unfolding checked_def by blast
  next
    case False
    then have "stringify ty' = stringify ty" using * by simp
    moreover have "ty' \<in> set struct_types" using * occurs_types [of btf t0 ty' t'] by auto
    ultimately have "ty' = ty" using struct_types_inj assms(5) by blast
    then have "t' = t" using * assms(1,3) unfolding uniform_def by blast
    then show ?thesis using assms(4) \<open>ty' = ty\<close> by simp
  qed
qed

lemma checked_insert_scalar:
  "checked btf t0 cache \<Longrightarrow> s \<in> {''u8'', ''u16'', ''i32''} \<Longrightarrow> checked btf t0 (insert s cache)"
  unfolding checked_def
proof (intro allI impI)
  fix ty t
  assume cache: "\<forall>ty t. stringify ty \<in> cache \<and> nested ty \<noteq> None \<and> occurs btf rust_descriptor t0 ty t \<longrightarrow> same_layout btf ty t"
    and s: "s \<in> {''u8'', ''u16'', ''i32''}"
    and *: "stringify ty \<in> insert s cache \<and> nested ty \<noteq> None \<and> occurs btf rust_descriptor t0 ty t"
  have "ty \<in> set struct_types" using * occurs_types [of btf t0 ty t] by auto
  then have "stringify ty \<noteq> s" using s by (auto simp: struct_types_def rust_descriptor_def)
  then show "same_layout btf ty t" using * cache by blast
qed

text \<open>An array type whose element is a structure of the right size has the right length.\<close>

lemma array_length:
  assumes "get_btf_type_size btf (Btf_Array i capacity) = Some (Ok (k * s))" "btf i = Some e" "resolve_btf_type btf e = Some r"
    and "get_btf_type_size btf r = Some (Ok s)" "0 < s" "s < 2 ^ 32" "k < 2 ^ 32"
  shows "unat capacity = k"
proof -
  have "unat capacity < 2 ^ 32" using unsigned_less [of capacity] by simp
  with assms(6,7) have "s * unat capacity < 2 ^ 32 * 2 ^ 32" "k * s < 2 ^ 32 * 2 ^ 32"
    by (intro mult_strict_mono; simp)+
  moreover have "(s * unat capacity) mod 2 ^ 64 = k * s" using assms(1-4) by simp
  ultimately have "s * unat capacity = k * s" by simp
  then show ?thesis using assms(5) by simp
qed

lemma fields_agree_composite:
  assumes "fields_agree btf c ms (field_offsets c)" "get_btf_type_size btf t = Some (Ok (size_of_composite c))" "map_of BTF_VALIDATORS n = Some c"
    and "Option.bind (validation_type btf t) (resolve_btf_type btf) = Some v" "composite_members c v = Some (sz, ms)" "unat sz = size_of_composite c"
  shows "same_layout btf (Composite n (size_of_composite c)) t"
  using assms by (intro same_layout.composite [OF _ assms(3-6)]) (simp_all add: fields_agree_def)

lemma layout_from_type_Ok:
  assumes "validate_btf_layout_from_type complex btf c t cache = Some (Ok cache')"
  obtains v sz ms where "resolve_btf_type btf t = Some v" "composite_members c v = Some (sz, ms)" "unat sz = size_of_composite c"
    "validate_fields complex btf (validates_offset c) ms (map field_check (field_offsets c)) cache = Some (Ok cache')"
proof -
  obtain v where v: "resolve_btf_type btf t = Some v" using assms by (auto simp: validate_btf_layout_from_type_def bind_eq_Some_conv)
  then obtain sz ms where ms: "composite_members c v = Some (sz, ms)"
    using assms by (cases "composite_members c v") (auto simp: validate_btf_layout_from_type_def)
  show ?thesis
    by (rule that [OF v ms])
      (use assms v ms in \<open>simp_all add: validate_btf_layout_from_type_def get_validation_fields_def split: if_splits\<close>)
qed

text \<open>What the members hold has the size that \<open>try_from\<close> and the size check leave.\<close>

lemma composite_size: "composite_members c v = Some (sz, ms) \<Longrightarrow> get_btf_type_size btf v = Some (Ok (unat sz)) \<and> validation_type btf v = Some v"
  by (cases c; cases v) auto

text \<open>A structure type with its BTF type, given the agreement of the fields.\<close>

lemma struct_type_agrees:
  assumes "ty \<in> set struct_types" "nested ty = Some n" "map_of BTF_VALIDATORS n = Some c"
    and "next_type btf t = None" "get_btf_type_size btf t = Some (Ok (size_of ty))" "validation_type btf t = Some w"
    and "resolve_btf_type btf w = Some v" "composite_members c v = Some (sz, ms)" "unat sz = size_of_composite c"
    and "fields_agree btf c ms (field_offsets c)"
  shows "same_layout btf ty t"
  using assms(1)
proof (cases rule: struct_type_cases)
  case (composite n' c')
  then have "c' = c" "n' = n" using assms(2,3) by auto
  then show ?thesis using composite fields_agree_composite [OF assms(10) _ assms(3) _ assms(8,9), of t] assms(5-7) by simp
next
  case (array n' c' k l)
  then have c: "c' = c" "n' = n" using assms(2,3) by auto
  have v: "get_btf_type_size btf v = Some (Ok (size_of_composite c))" "validation_type btf v = Some v"
    using composite_size [OF assms(8)] assms(9) by auto
  have elem: "same_layout btf (Composite n (size_of_composite c)) v"
    using fields_agree_composite [OF assms(10) v(1) assms(3) _ assms(8,9)] v(2) resolve_resolved [OF resolve_final [OF assms(7)]] by simp
  show ?thesis
  proof (cases "\<exists>i capacity. t = Btf_Array i capacity")
    case True
    then obtain i capacity where t: "t = Btf_Array i capacity" by blast
    then have i: "btf i = Some w" using assms(6) by simp
    have "unat sz < 2 ^ 32" using unsigned_less [of sz] by simp
    then have "size_of_composite c < 2 ^ 32" using assms(9) by simp
    then have "unat capacity = k"
      using array_length [OF _ i assms(7) v(1)] assms(5) array c t by simp
    then show ?thesis using same_layout.array [OF i assms(7) v(2) elem, of capacity k l] assms(5) array c t by simp
  next
    case False
    then have "w = t" using assms(6) by (cases t) auto
    then have "v = t" using assms(4,7) by simp
    then have "size_of_composite c = k * size_of_composite c" using v(1) assms(5) array c by simp
    then show ?thesis using array c by simp
  qed
qed

lemma complex_cases:
  assumes "validate_complex_type_by_name validators btf t s cache = Some (Ok cache')" "next_type btf t = None"
  obtains (cached) "s \<in> cache" "cache' = cache"
  | (fresh) w cache1 where "validation_type btf t = Some w" "cache' = insert s cache1"
      "(if is_primitive (base_type_name s) then Some (Ok cache)
        else (case validators (base_type_name s) of Some run \<Rightarrow> run w cache | None \<Rightarrow> Some (Ok cache))) = Some (Ok cache1)"
proof (cases "s \<in> cache")
  case True
  with assms(1) have "cache' = cache" by (simp add: validate_complex_type_by_name_def)
  with True show ?thesis by (rule cached)
next
  case False
  then obtain w where w: "validation_type btf t = Some w"
    using assms by (cases "validation_type btf t") (simp_all add: validate_complex_type_by_name_def)
  define r where "r = (if is_primitive (base_type_name s) then Some (Ok cache)
        else (case validators (base_type_name s) of Some run \<Rightarrow> run w cache | None \<Rightarrow> Some (Ok cache)))"
  have "Option.bind r (\<lambda>r. Some (rust_bind r (\<lambda>cache'. Ok (insert s cache')))) = Some (Ok cache')"
    using assms False w unfolding validate_complex_type_by_name_def r_def by (simp del: if_split add: if_not_P)
  then obtain z where z: "r = Some z" "rust_bind z (\<lambda>cache'. Ok (insert s cache')) = Ok cache'"
    unfolding bind_eq_Some_conv by blast
  obtain cache1 where "z = Ok cache1" "cache' = insert s cache1" using z(2) by (cases z) auto
  then show ?thesis using fresh [OF w, of cache1] z(1) unfolding r_def by blast
qed

lemma complex_sound_scalar:
  assumes "validate_complex_type_by_name validators btf t (stringify ty) cache = Some (Ok cache')" "ty \<in> {rust_u8, rust_u16, rust_i32}"
    and "next_type btf t = None" "get_btf_type_size btf t = Some (Ok (size_of ty))" "checked btf t0 cache"
  shows "same_layout btf ty t \<and> checked btf t0 cache'"
proof -
  have "is_primitive (base_type_name (stringify ty))"
    using assms(2) by (auto simp: base_type_name_def trim_def is_whitespace_def is_primitive_def)
  with assms(1,3) have "cache' = cache \<or> cache' = insert (stringify ty) cache"
    by (cases rule: complex_cases) simp_all
  moreover have "stringify ty \<in> {''u8'', ''u16'', ''i32''}" using assms(2) by auto
  ultimately have "checked btf t0 cache'" using checked_insert_scalar [OF assms(5)] assms(5) by metis
  moreover have "same_layout btf ty t" using assms(2,4) by (auto intro!: same_layout.scalar)
  ultimately show ?thesis by blast
qed

lemma complex_sound_struct:
  assumes "validate_complex_type_by_name validators btf t (stringify ty) cache = Some (Ok cache')" "ty \<in> set struct_types"
    and "occurs btf rust_descriptor t0 ty t" "next_type btf t = None" "get_btf_type_size btf t = Some (Ok (size_of ty))"
    and "checked btf t0 cache" "uniform btf t0"
    and registered: "\<And>n c. map_of BTF_VALIDATORS n = Some c \<Longrightarrow> validators n \<noteq> None"
    and run: "\<And>n c w run cache1. nested ty = Some n \<Longrightarrow> map_of BTF_VALIDATORS n = Some c \<Longrightarrow> validation_type btf t = Some w \<Longrightarrow>
      validators n = Some run \<Longrightarrow> run w cache = Some (Ok cache1) \<Longrightarrow>
      \<exists>v sz ms. resolve_btf_type btf w = Some v \<and> composite_members c v = Some (sz, ms) \<and> unat sz = size_of_composite c \<and>
        fields_agree btf c ms (field_offsets c) \<and> checked btf t0 cache1"
  shows "same_layout btf ty t \<and> checked btf t0 cache'"
  using assms(1,4)
proof (cases rule: complex_cases)
  case cached
  obtain n where "nested ty = Some n" using struct_type_names [OF assms(2)] by blast
  then show ?thesis using cached assms(3,6) by (auto simp: checked_def)
next
  case (fresh w cache1)
  obtain n c where n: "nested ty = Some n" "base_type_name (stringify ty) = n" "\<not> is_primitive n" "map_of BTF_VALIDATORS n = Some c"
    using struct_type_names [OF assms(2)] by blast
  obtain f where f: "validators n = Some f" using registered [OF n(4)] by blast
  have "f w cache = Some (Ok cache1)" using fresh(3) n(2,3) f by simp
  from run [OF n(1,4) fresh(1) f this] obtain v sz ms where v: "resolve_btf_type btf w = Some v" "composite_members c v = Some (sz, ms)"
    "unat sz = size_of_composite c" "fields_agree btf c ms (field_offsets c)" "checked btf t0 cache1"
    by blast
  have "same_layout btf ty t" by (rule struct_type_agrees [OF assms(2) n(1,4) assms(4,5) fresh(1) v(1-4)])
  then show ?thesis using checked_insert [OF assms(7) v(5) assms(3) _ assms(2)] fresh(2) by simp
qed

lemma validator_registered: "map_of BTF_VALIDATORS n = Some c \<Longrightarrow> validator k btf n \<noteq> None"
  by (cases k) auto

lemma complex_sound:
  assumes "validate_complex_type_by_name (validator k btf) btf t (stringify ty) cache = Some (Ok cache')"
    and "occurs btf rust_descriptor t0 ty t" "ty \<in> {rust_u8, rust_u16, rust_i32} \<union> set struct_types"
    and "next_type btf t = None" "get_btf_type_size btf t = Some (Ok (size_of ty))" "checked btf t0 cache" "uniform btf t0"
  shows "same_layout btf ty t \<and> checked btf t0 cache'"
  using assms
proof (induction k arbitrary: ty t cache cache')
  case 0
  show ?case
  proof (cases "ty \<in> set struct_types")
    case True
    show ?thesis
      by (rule complex_sound_struct [OF 0(1) True 0(2,4-7) validator_registered]) auto
  next
    case False
    then show ?thesis using complex_sound_scalar [OF 0(1) _ 0(4-6)] 0(3) by blast
  qed
next
  case (Suc k)
  show ?case
  proof (cases "ty \<in> set struct_types")
    case False
    then show ?thesis using complex_sound_scalar [OF Suc(2) _ Suc(5-7)] Suc(4) by blast
  next
    case True
    show ?thesis
    proof (rule complex_sound_struct [OF Suc(2) True Suc(3,5-8) validator_registered])
      fix n c w run cache1
      assume n: "nested ty = Some n" "map_of BTF_VALIDATORS n = Some c" "validation_type btf t = Some w"
        "validator (Suc k) btf n = Some run" "run w cache = Some (Ok cache1)"
      then have "validate_btf_layout_from_type (validate_complex_type_by_name (validator k btf) btf) btf c w cache = Some (Ok cache1)"
        by auto
      then obtain v sz ms where v: "resolve_btf_type btf w = Some v" "composite_members c v = Some (sz, ms)" "unat sz = size_of_composite c"
        "validate_fields (validate_complex_type_by_name (validator k btf) btf) btf (validates_offset c) ms
           (map field_check (field_offsets c)) cache = Some (Ok cache1)"
        by (rule layout_from_type_Ok)
      have "fields_agree btf c ms (field_offsets c) \<and> checked btf t0 cache1"
      proof (rule fields_sound [where Q = "checked btf t0", OF v(4) Suc(7)])
        fix f t1 cache2 cache3
        assume f: "f \<in> set (field_offsets c)" "member_of btf c ms f t1" "next_type btf t1 = None"
          "get_btf_type_size btf t1 = Some (Ok (size_of (snd (snd f))))"
          "validate_complex_type_by_name (validator k btf) btf t1 (stringify (snd (snd f))) cache2 = Some (Ok cache3)" "checked btf t0 cache2"
        have "occurs btf rust_descriptor t0 (snd (snd f)) t1"
          by (rule occurs.member [OF Suc(3) n(1,2) _ v(2) f(1,2)]) (simp add: n(3) v(1))
        from Suc(1) [OF f(5) this field_types [OF n(2) f(1)] f(3,4,6) Suc(8)]
        show "same_layout btf (snd (snd f)) t1 \<and> checked btf t0 cache3" .
      qed
      then show "\<exists>v sz ms. resolve_btf_type btf w = Some v \<and> composite_members c v = Some (sz, ms) \<and> unat sz = size_of_composite c \<and>
        fields_agree btf c ms (field_offsets c) \<and> checked btf t0 cache1"
        using v by blast
    qed
  qed
qed

lemma validated_same_layout:
  assumes "validate_descriptor_layout btf t = Some (Ok cache)" "resolve_btf_type btf t = Some t0" "uniform btf t0"
  shows "same_layout btf rust_descriptor t0"
proof -
  from assms(1) obtain v sz ms where v: "resolve_btf_type btf t = Some v" "composite_members HidRdescDescriptor v = Some (sz, ms)"
    "unat sz = size_of_composite HidRdescDescriptor"
    "validate_fields (validate_complex_type_by_name (validator 5 btf) btf) btf (validates_offset HidRdescDescriptor) ms
      (map field_check (field_offsets HidRdescDescriptor)) {} = Some (Ok cache)"
    unfolding validate_descriptor_layout_def by (rule layout_from_type_Ok)
  have "v = t0" using v(1) assms(2) by simp
  note size = composite_size [OF v(2)]
  have reg: "map_of BTF_VALIDATORS ''HidRdescDescriptor'' = Some HidRdescDescriptor" by (simp add: BTF_VALIDATORS_def)
  have final: "Option.bind (validation_type btf t0) (resolve_btf_type btf) = Some t0"
    using size \<open>v = t0\<close> resolve_resolved [OF resolve_final [OF assms(2)]] by simp
  have "fields_agree btf HidRdescDescriptor ms (field_offsets HidRdescDescriptor) \<and> checked btf t0 cache"
  proof (rule fields_sound [where Q = "checked btf t0", OF v(4)])
    show "checked btf t0 {}" by (simp add: checked_def)
    fix f t1 cache2 cache3
    assume f: "f \<in> set (field_offsets HidRdescDescriptor)" "member_of btf HidRdescDescriptor ms f t1" "next_type btf t1 = None"
      "get_btf_type_size btf t1 = Some (Ok (size_of (snd (snd f))))"
      "validate_complex_type_by_name (validator 5 btf) btf t1 (stringify (snd (snd f))) cache2 = Some (Ok cache3)" "checked btf t0 cache2"
    have "occurs btf rust_descriptor t0 (snd (snd f)) t1"
      by (rule occurs.member [OF occurs.root _ reg final _ f(1,2)]) (use v(2) \<open>v = t0\<close> in \<open>simp_all add: rust_descriptor_def\<close>)
    from complex_sound [OF f(5) this field_types [OF reg f(1)] f(3,4,6) assms(3)]
    show "same_layout btf (snd (snd f)) t1 \<and> checked btf t0 cache3" .
  qed
  then have agree: "fields_agree btf HidRdescDescriptor ms (field_offsets HidRdescDescriptor)" by (rule conjunct1)
  show ?thesis
    unfolding rust_descriptor_def
    by (rule fields_agree_composite [OF agree _ reg final v(2) [unfolded \<open>v = t0\<close>] v(3)]) (use size v(3) \<open>v = t0\<close> in simp)
qed

section \<open>Fields of one Rust type\<close>

text \<open>In the header the three arrays of reports have one type; no other structure is used twice.\<close>

fun member_type_id :: "btf_type \<Rightarrow> string \<Rightarrow> nat option" where
  "member_type_id (Btf_Struct n sz ms) fld = map_option bm_ty (find (\<lambda>m. bm_name m = Some fld) ms)"
| "member_type_id t fld = None"

definition reports_alike :: "btf_type \<Rightarrow> bool" where
  "reports_alike t \<longleftrightarrow> member_type_id t ''output_reports'' = member_type_id t ''input_reports'' \<and>
     member_type_id t ''feature_reports'' = member_type_id t ''input_reports''"

lemma member_of_unique: "member_of btf c ms f t1 \<Longrightarrow> member_of btf c ms f t2 \<Longrightarrow> t1 = t2"
  unfolding member_of_def by (auto split: prod.splits)

lemma occurs_parent:
  assumes "occurs btf rust_descriptor t0 ty t"
  shows "ty = rust_descriptor \<and> t = t0 \<or>
    (\<exists>ty1 t1 n c v sz ms f. occurs btf rust_descriptor t0 ty1 t1 \<and> nested ty1 = Some n \<and> map_of BTF_VALIDATORS n = Some c \<and>
       Option.bind (validation_type btf t1) (resolve_btf_type btf) = Some v \<and> composite_members c v = Some (sz, ms) \<and>
       f \<in> set (field_offsets c) \<and> snd (snd f) = ty \<and> member_of btf c ms f t)"
  using assms by (cases rule: occurs.cases) blast+

lemma nested_inj: "ty \<in> set struct_types \<Longrightarrow> ty' \<in> set struct_types \<Longrightarrow> nested ty = nested ty' \<Longrightarrow> ty = ty'"
  unfolding struct_types_def by (auto simp: rust_descriptor_def)

definition occurs_once :: "btf_types \<Rightarrow> btf_type \<Rightarrow> rust_type \<Rightarrow> bool" where
  "occurs_once btf t0 ty \<longleftrightarrow> (\<forall>t1 t2. occurs btf rust_descriptor t0 ty t1 \<and> occurs btf rust_descriptor t0 ty t2 \<longrightarrow> t1 = t2)"

lemma descriptor_no_field: "map_of BTF_VALIDATORS n = Some c \<Longrightarrow> f \<in> set (field_offsets c) \<Longrightarrow> snd (snd f) \<noteq> rust_descriptor"
  using validators_cases [of n c] by (auto simp: rust_descriptor_def)

lemma occurs_once_descriptor: "occurs_once btf t0 rust_descriptor"
  using occurs_parent [of btf t0 rust_descriptor] descriptor_no_field unfolding occurs_once_def by metis

lemma occurs_once_field:
  assumes "occurs_once btf t0 ty1" "ty1 \<in> set struct_types" "nested ty1 = Some n1" "ty \<noteq> rust_descriptor"
    and "\<And>n c f. map_of BTF_VALIDATORS n = Some c \<Longrightarrow> f \<in> set (field_offsets c) \<Longrightarrow> snd (snd f) = ty \<Longrightarrow> n = n1"
    and "\<And>c v sz ms f g t1 t2 t. map_of BTF_VALIDATORS n1 = Some c \<Longrightarrow> occurs btf rust_descriptor t0 ty1 t \<Longrightarrow>
      Option.bind (validation_type btf t) (resolve_btf_type btf) = Some v \<Longrightarrow> composite_members c v = Some (sz, ms) \<Longrightarrow>
      f \<in> set (field_offsets c) \<Longrightarrow> g \<in> set (field_offsets c) \<Longrightarrow> snd (snd f) = ty \<Longrightarrow> snd (snd g) = ty \<Longrightarrow>
      member_of btf c ms f t1 \<Longrightarrow> member_of btf c ms g t2 \<Longrightarrow> t1 = t2"
  shows "occurs_once btf t0 ty"
  unfolding occurs_once_def
proof (intro allI impI)
  fix t1 t2 assume *: "occurs btf rust_descriptor t0 ty t1 \<and> occurs btf rust_descriptor t0 ty t2"
  have parent: "\<exists>c v sz ms f t. occurs btf rust_descriptor t0 ty1 t \<and> map_of BTF_VALIDATORS n1 = Some c \<and>
      Option.bind (validation_type btf t) (resolve_btf_type btf) = Some v \<and> composite_members c v = Some (sz, ms) \<and>
      f \<in> set (field_offsets c) \<and> snd (snd f) = ty \<and> member_of btf c ms f t'" if occ: "occurs btf rust_descriptor t0 ty t'" for t'
  proof -
    obtain ty2 t n c v sz ms f where p: "occurs btf rust_descriptor t0 ty2 t" "nested ty2 = Some n" "map_of BTF_VALIDATORS n = Some c"
      "Option.bind (validation_type btf t) (resolve_btf_type btf) = Some v" "composite_members c v = Some (sz, ms)"
      "f \<in> set (field_offsets c)" "snd (snd f) = ty" "member_of btf c ms f t'"
      using occurs_parent [OF occ] assms(4) by blast
    have "n = n1" by (rule assms(5) [OF p(3,6,7)])
    moreover have "ty2 \<in> set struct_types" using occurs_types [OF p(1)] p(2) by simp
    ultimately have "ty2 = ty1" using nested_inj [OF _ assms(2)] p(2) assms(3) by simp
    then show ?thesis using p \<open>n = n1\<close> by blast
  qed
  obtain c v sz ms f t where 1: "occurs btf rust_descriptor t0 ty1 t" "map_of BTF_VALIDATORS n1 = Some c"
      "Option.bind (validation_type btf t) (resolve_btf_type btf) = Some v" "composite_members c v = Some (sz, ms)"
      "f \<in> set (field_offsets c)" "snd (snd f) = ty" "member_of btf c ms f t1"
    using parent * by metis
  obtain c' v' sz' ms' g t' where 2: "occurs btf rust_descriptor t0 ty1 t'" "map_of BTF_VALIDATORS n1 = Some c'"
      "Option.bind (validation_type btf t') (resolve_btf_type btf) = Some v'" "composite_members c' v' = Some (sz', ms')"
      "g \<in> set (field_offsets c')" "snd (snd g) = ty" "member_of btf c' ms' g t2"
    using parent * by metis
  have "t' = t" using 1(1) 2(1) assms(1) unfolding occurs_once_def by blast
  then have "c' = c" "v' = v" using 1 2 by simp_all
  then have "ms' = ms" using 1(4) 2(4) by simp
  show "t1 = t2" by (rule assms(6) [OF 1(2,1,3,4,5) _ 1(6) 2(6) 1(7)]) (use 2 \<open>c' = c\<close> \<open>ms' = ms\<close> in simp_all)
qed

lemma occurs_once_single:
  assumes "occurs_once btf t0 ty1" "ty1 \<in> set struct_types" "nested ty1 = Some n1" "ty \<noteq> rust_descriptor"
    and parent: "\<And>n c f. map_of BTF_VALIDATORS n = Some c \<Longrightarrow> f \<in> set (field_offsets c) \<Longrightarrow> snd (snd f) = ty \<Longrightarrow> n = n1 \<and> f = f1"
  shows "occurs_once btf t0 ty"
proof (rule occurs_once_field [OF assms(1-4)])
  show "n = n1" if "map_of BTF_VALIDATORS n = Some c" "f \<in> set (field_offsets c)" "snd (snd f) = ty" for n c f
    using parent [OF that] by blast
  show "t1 = t2" if "map_of BTF_VALIDATORS n1 = Some c" "f \<in> set (field_offsets c)" "g \<in> set (field_offsets c)"
      "snd (snd f) = ty" "snd (snd g) = ty" "member_of btf c ms f t1" "member_of btf c ms g t2" for c f g ms t1 t2
    using parent [OF that(1,2,4)] parent [OF that(1,3,5)] member_of_unique that(6,7) by blast
qed

lemma struct_parents:
  assumes "map_of BTF_VALIDATORS n = Some c" "f \<in> set (field_offsets c)"
  shows "snd (snd f) = Composite ''UsageRange'' 4 \<Longrightarrow> n = ''UsageIdUnion'' \<and> f = (''anon_range'', 0, Composite ''UsageRange'' 4)"
    and "snd (snd f) = Composite ''UsageIdUnion'' 4 \<Longrightarrow> n = ''HidRdescField'' \<and> f = (''anon_usage_id'', 8, Composite ''UsageIdUnion'' 4)"
    and "snd (snd f) = rust_collections \<Longrightarrow> n = ''HidRdescField'' \<and> f = (''collections'', 21, rust_collections)"
    and "snd (snd f) = rust_fields \<Longrightarrow> n = ''HidRdescReport'' \<and> f = (''fields'', 4, rust_fields)"
    and "snd (snd f) = rust_reports \<Longrightarrow> n = ''HidRdescDescriptor'' \<and> fst f \<in> {''input_reports'', ''output_reports'', ''feature_reports''}"
proof -
  let ?P = "\<lambda>n f. (snd (snd f) = Composite ''UsageRange'' 4 \<longrightarrow> n = ''UsageIdUnion'' \<and> f = (''anon_range'', 0, Composite ''UsageRange'' 4)) \<and>
    (snd (snd f) = Composite ''UsageIdUnion'' 4 \<longrightarrow> n = ''HidRdescField'' \<and> f = (''anon_usage_id'', 8, Composite ''UsageIdUnion'' 4)) \<and>
    (snd (snd f) = rust_collections \<longrightarrow> n = ''HidRdescField'' \<and> f = (''collections'', 21, rust_collections)) \<and>
    (snd (snd f) = rust_fields \<longrightarrow> n = ''HidRdescReport'' \<and> f = (''fields'', 4, rust_fields)) \<and>
    (snd (snd f) = rust_reports \<longrightarrow> n = ''HidRdescDescriptor'' \<and> fst f \<in> {''input_reports'', ''output_reports'', ''feature_reports''})"
  have "\<forall>x \<in> set BTF_VALIDATORS. \<forall>f \<in> set (field_offsets (snd x)). ?P (fst x) f"
    unfolding BTF_VALIDATORS_def by simp
  then have "?P n f" using map_of_SomeD [OF assms(1)] assms(2) by fastforce
  then show "snd (snd f) = Composite ''UsageRange'' 4 \<Longrightarrow> n = ''UsageIdUnion'' \<and> f = (''anon_range'', 0, Composite ''UsageRange'' 4)"
    and "snd (snd f) = Composite ''UsageIdUnion'' 4 \<Longrightarrow> n = ''HidRdescField'' \<and> f = (''anon_usage_id'', 8, Composite ''UsageIdUnion'' 4)"
    and "snd (snd f) = rust_collections \<Longrightarrow> n = ''HidRdescField'' \<and> f = (''collections'', 21, rust_collections)"
    and "snd (snd f) = rust_fields \<Longrightarrow> n = ''HidRdescReport'' \<and> f = (''fields'', 4, rust_fields)"
    and "snd (snd f) = rust_reports \<Longrightarrow> n = ''HidRdescDescriptor'' \<and> fst f \<in> {''input_reports'', ''output_reports'', ''feature_reports''}"
    by blast+
qed

lemma member_type_id_of:
  assumes "member_of btf c ms f t" "fst f \<in> {''input_reports'', ''output_reports'', ''feature_reports''}"
  shows "\<exists>i mt. member_type_id (Btf_Struct n sz ms) (fst f) = Some i \<and> btf i = Some mt \<and> resolve_btf_type btf mt = Some t"
  using assms by (cases f) (auto simp: member_of_def find_member_def is_anonymous_def starts_with_def)

lemma reports_alike_uniform:
  assumes "reports_alike t0" "t0 = Btf_Struct n0 sz0 ms0"
  shows "uniform btf t0"
proof -
  have in_types: "rust_descriptor \<in> set struct_types" "rust_reports \<in> set struct_types" "rust_fields \<in> set struct_types"
    "Composite ''UsageIdUnion'' 4 \<in> set struct_types"
    by (simp_all add: struct_types_def)
  have "occurs_once btf t0 rust_reports"
  proof (rule occurs_once_field [OF occurs_once_descriptor in_types(1)])
    show "nested rust_descriptor = Some ''HidRdescDescriptor''" "rust_reports \<noteq> rust_descriptor" by (simp_all add: rust_descriptor_def)
    show "n = ''HidRdescDescriptor''" if "map_of BTF_VALIDATORS n = Some c" "f \<in> set (field_offsets c)" "snd (snd f) = rust_reports" for n c f
      using struct_parents(5) [OF that] by blast
    fix c v sz ms f g t1 t2 t
    assume c: "map_of BTF_VALIDATORS ''HidRdescDescriptor'' = Some c" and t: "occurs btf rust_descriptor t0 rust_descriptor t"
      and v: "Option.bind (validation_type btf t) (resolve_btf_type btf) = Some v" "composite_members c v = Some (sz, ms)"
      and f: "f \<in> set (field_offsets c)" "g \<in> set (field_offsets c)" "snd (snd f) = rust_reports" "snd (snd g) = rust_reports"
      and m: "member_of btf c ms f t1" "member_of btf c ms g t2"
    have "t = t0" using t occurs.root occurs_once_descriptor unfolding occurs_once_def by blast
    have "c = HidRdescDescriptor" using validators_cases [OF c] by simp
    have "v = Btf_Struct n0 sz0 ms0" using v(1) \<open>t = t0\<close> assms(2) by simp
    then have "ms = ms0" using v(2) \<open>c = HidRdescDescriptor\<close> by (simp add: rust_structs)
    have fg: "fst f \<in> {''input_reports'', ''output_reports'', ''feature_reports''}"
      "fst g \<in> {''input_reports'', ''output_reports'', ''feature_reports''}"
      by (fact struct_parents(5) [OF c f(1,3), THEN conjunct2] struct_parents(5) [OF c f(2,4), THEN conjunct2])+
    have alike: "member_type_id t0 x = member_type_id t0 ''input_reports''" if "x \<in> {''input_reports'', ''output_reports'', ''feature_reports''}" for x
      using that assms(1) unfolding reports_alike_def by blast
    obtain i mt where 1: "member_type_id t0 (fst f) = Some i" "btf i = Some mt" "resolve_btf_type btf mt = Some t1"
      using member_type_id_of [OF m(1) fg(1), of n0 sz0] unfolding assms(2) \<open>ms = ms0\<close> by blast
    obtain j mt' where 2: "member_type_id t0 (fst g) = Some j" "btf j = Some mt'" "resolve_btf_type btf mt' = Some t2"
      using member_type_id_of [OF m(2) fg(2), of n0 sz0] unfolding assms(2) \<open>ms = ms0\<close> by blast
    have "j = i" using 1(1) 2(1) alike [OF fg(1)] alike [OF fg(2)] by simp
    then show "t1 = t2" using 1 2 by simp
  qed
  moreover from this have flds: "occurs_once btf t0 rust_fields"
    by (rule occurs_once_single [OF _ in_types(2)]) (use struct_parents(4) in \<open>simp_all add: rust_descriptor_def\<close>)
  moreover have "occurs_once btf t0 rust_collections"
    by (rule occurs_once_single [OF flds in_types(3)]) (use struct_parents(3) in \<open>simp_all add: rust_descriptor_def\<close>)
  moreover have "occurs_once btf t0 (Composite ''UsageIdUnion'' 4)"
    by (rule occurs_once_single [OF flds in_types(3)]) (use struct_parents(2) in \<open>simp_all add: rust_descriptor_def\<close>)
  moreover from this have "occurs_once btf t0 (Composite ''UsageRange'' 4)"
    by (rule occurs_once_single [OF _ in_types(4)]) (use struct_parents(1) in \<open>simp_all add: rust_descriptor_def\<close>)
  ultimately have "\<forall>ty \<in> set struct_types. occurs_once btf t0 ty"
    using occurs_once_descriptor by (simp add: struct_types_def)
  then show ?thesis unfolding uniform_def occurs_once_def using occurs_types [of btf t0] by metis
qed

section \<open>Offsets\<close>

text \<open>
  A path through the structures. A field without a name in C is reached by its offset. The offset of what a path
  reaches, in the structures of the loader and in the BTF of the program.
\<close>

datatype path_step = Field_Step string | Unnamed_Step nat | Elem_Step nat

definition field_step :: "string \<times> nat \<times> rust_type \<Rightarrow> path_step" where
  "field_step = (\<lambda>(fld, start, ty). if is_anonymous fld then Unnamed_Step start else Field_Step fld)"

fun rust_step :: "rust_type \<Rightarrow> path_step \<Rightarrow> (nat \<times> rust_type) option" where
  "rust_step (Composite n k) st =
     (case map_of BTF_VALIDATORS n of
        None \<Rightarrow> None
      | Some c \<Rightarrow> map_option snd (find (\<lambda>f. field_step f = st) (field_offsets c)))"
| "rust_step (Array_of t c k) (Elem_Step i) = (if i < k then Some (i * size_of t, t) else None)"
| "rust_step t st = None"

fun rust_at :: "rust_type \<Rightarrow> path_step list \<Rightarrow> (nat \<times> rust_type) option" where
  "rust_at t [] = Some (0, t)"
| "rust_at t (st # path) =
     (case rust_step t st of
        None \<Rightarrow> None
      | Some (start, t') \<Rightarrow> map_option (\<lambda>(rest, u). (start + rest, u)) (rust_at t' path))"

fun btf_members :: "btf_type \<Rightarrow> (bool \<times> btf_member list) option" where
  "btf_members (Btf_Struct n sz ms) = Some (True, ms)"
| "btf_members (Btf_Union n sz ms) = Some (False, ms)"
| "btf_members t = None"

fun btf_member_at :: "bool \<Rightarrow> btf_member list \<Rightarrow> path_step \<Rightarrow> btf_member option" where
  "btf_member_at offs ms (Field_Step fld) = find (\<lambda>m. bm_name m = Some fld) ms"
| "btf_member_at offs ms (Unnamed_Step start) = find (\<lambda>m. bm_name m = None \<and> (offs \<longrightarrow> unat (bm_offset m) div 8 = start)) ms"
| "btf_member_at offs ms (Elem_Step i) = None"

fun btf_step :: "btf_types \<Rightarrow> btf_type \<Rightarrow> path_step \<Rightarrow> (nat \<times> btf_type) option" where
  "btf_step btf t (Elem_Step i) =
     (case t of
        Btf_Array ty capacity \<Rightarrow>
          (if i < unat capacity
           then Option.bind (Option.bind (btf ty) (resolve_btf_type btf)) (\<lambda>t'.
             case get_btf_type_size btf t' of Some (Ok k) \<Rightarrow> Some (i * k, t') | _ \<Rightarrow> None)
           else None)
      | _ \<Rightarrow> None)"
| "btf_step btf t st =
     Option.bind (Option.bind (validation_type btf t) (resolve_btf_type btf)) (\<lambda>v.
     Option.bind (btf_members v) (\<lambda>(offs, ms).
     Option.bind (btf_member_at offs ms st) (\<lambda>m.
     Option.bind (Option.bind (btf (bm_ty m)) (resolve_btf_type btf)) (\<lambda>t'.
     Some (if offs then unat (bm_offset m) div 8 else 0, t')))))"

fun btf_at :: "btf_types \<Rightarrow> btf_type \<Rightarrow> path_step list \<Rightarrow> (nat \<times> btf_type) option" where
  "btf_at btf t [] = Some (0, t)"
| "btf_at btf t (st # path) =
     (case btf_step btf t st of
        None \<Rightarrow> None
      | Some (start, t') \<Rightarrow> map_option (\<lambda>(rest, u). (start + rest, u)) (btf_at btf t' path))"

lemma composite_btf_members: "composite_members c v = Some (sz, ms) \<Longrightarrow> btf_members v = Some (validates_offset c, ms)"
  by (cases c; cases v) auto

lemma union_start: "(fld, start, ty) \<in> set (field_offsets c) \<Longrightarrow> \<not> validates_offset c \<Longrightarrow> start = 0"
  by (cases c) auto

lemma same_layout_step:
  assumes "same_layout btf ty t" "rust_step ty st = Some (start, ty')"
  shows "\<exists>t'. btf_step btf t st = Some (start, t') \<and> same_layout btf ty' t'"
  using assms(1)
proof (cases rule: same_layout.cases)
  case (scalar k n)
  then show ?thesis using assms(2) by simp
next
  case (composite k n c v sz ms)
  obtain f where f: "find (\<lambda>f. field_step f = st) (field_offsets c) = Some f" "snd f = (start, ty')"
    using assms(2) composite(1,3) by auto
  then have f': "f \<in> set (field_offsets c)" "field_step f = st" by (auto simp: find_Some_iff)
  obtain fld where fld: "f = (fld, start, ty')" using f(2) by (cases f) auto
  obtain m mt t' where m: "find_member (validates_offset c) (field_check f) ms = Some m"
      "validates_offset c \<longrightarrow> unat (bm_offset m) div 8 = start" "btf (bm_ty m) = Some mt" "resolve_btf_type btf mt = Some t'"
      "same_layout btf ty' t'"
    using composite(7) f'(1) unfolding fld prod.case by blast
  have "btf_member_at (validates_offset c) ms st = Some m"
    using m(1) f'(2) unfolding fld find_member_def field_step_def by (auto split: if_splits)
  moreover have "st \<noteq> Elem_Step j" for j using f'(2) unfolding field_step_def fld by (auto split: if_splits)
  ultimately have "btf_step btf t st = Some (if validates_offset c then unat (bm_offset m) div 8 else 0, t')"
    using composite(4) composite_btf_members [OF composite(5)] m(3,4) by (cases st) simp_all
  moreover have "(if validates_offset c then unat (bm_offset m) div 8 else 0) = start"
    using m(2) union_start f'(1) unfolding fld by metis
  ultimately show ?thesis using m(5) by blast
next
  case (array i elem_type t' u capacity k c)
  have "\<exists>j. st = Elem_Step j \<and> j < k \<and> j * size_of u = start \<and> u = ty'"
    using assms(2) unfolding array(1) by (cases st) (auto split: if_split_asm)
  then obtain j where j: "st = Elem_Step j" "j < k" "start = j * size_of u" "ty' = u" by metis
  have "btf_step btf t st = Some (start, t')"
    unfolding array(2) j(1,3) using j(2) array(3,4,7) same_layout_size [OF array(6)] by simp
  then show ?thesis using array(6) j(4) by blast
qed

lemma same_layout_at:
  "same_layout btf ty t \<Longrightarrow> rust_at ty path = Some (start, ty') \<Longrightarrow> \<exists>t'. btf_at btf t path = Some (start, t') \<and> same_layout btf ty' t'"
proof (induction path arbitrary: ty t start)
  case Nil
  then show ?case by simp
next
  case (Cons st path)
  obtain s1 ty1 s2 where 1: "rust_step ty st = Some (s1, ty1)" "rust_at ty1 path = Some (s2, ty')" "start = s1 + s2"
    using Cons.prems(2) by (auto split: option.splits)
  obtain t1 where t1: "btf_step btf t st = Some (s1, t1)" "same_layout btf ty1 t1"
    using same_layout_step [OF Cons.prems(1) 1(1)] by blast
  then show ?case using Cons.IH [OF t1(2) 1(2)] 1(3) by auto
qed

lemma validated_struct:
  assumes "validate_descriptor_layout btf t = Some (Ok cache)" "resolve_btf_type btf t = Some t0"
  shows "\<exists>n sz ms. t0 = Btf_Struct n sz ms"
proof -
  obtain v sz ms where "resolve_btf_type btf t = Some v" "composite_members HidRdescDescriptor v = Some (sz, ms)"
    using assms(1) unfolding validate_descriptor_layout_def by (rule layout_from_type_Ok)
  then show ?thesis using assms(2) by (cases v) (simp_all add: rust_structs)
qed

lemma validated_alike_layout:
  assumes "validate_descriptor_layout btf t = Some (Ok cache)" "resolve_btf_type btf t = Some t0" "reports_alike t0"
  shows "same_layout btf rust_descriptor t0"
proof -
  obtain n sz ms where "t0 = Btf_Struct n sz ms" using validated_struct [OF assms(1,2)] by blast
  then have "uniform btf t0" using reports_alike_uniform [OF assms(3)] by blast
  then show ?thesis by (rule validated_same_layout [OF assms(1,2)])
qed

text \<open>
  A program that passes the layout check has the descriptor the way the loader writes it: when the check accepts the type
  of its variable, and the three arrays of reports in it have one type, everything that a path of fields and array
  indices reaches in the structures of the loader lies in the structures of the program at the same offset and
  with the same size.
\<close>

theorem layout_check_offsets:
  assumes "validate_descriptor_layout btf t = Some (Ok cache)" "resolve_btf_type btf t = Some t0" "reports_alike t0"
    and "rust_at rust_descriptor path = Some (start, ty)"
  shows "\<exists>t'. btf_at btf t0 path = Some (start, t') \<and> get_btf_type_size btf t' = Some (Ok (size_of ty))"
  using same_layout_at [OF validated_alike_layout [OF assms(1-3)] assms(4)] same_layout_size by blast

end
