(* ===== verification/Btf_Layout.thy ===== *)
theory Btf_Layout
  imports Btf_Validation
begin

text \<open>
  What else holds of the layout check: it accepts every program with the layout of the loader, such as those compiled
  with the header, it returns on every BTF without cycles, and what its cache lets through.
\<close>

section \<open>The check accepts the same layout\<close>

definition struct_depth :: "string \<Rightarrow> nat" where
  "struct_depth n = (if n = ''HidRdescDescriptor'' then 4 else if n = ''HidRdescReport'' then 3 else if n = ''HidRdescField'' then 2
     else if n = ''UsageIdUnion'' then 1 else 0)"

lemma field_depth:
  assumes "map_of BTF_VALIDATORS n = Some c" "f \<in> set (field_offsets c)" "nested (snd (snd f)) = Some n'"
  shows "struct_depth n' < struct_depth n"
proof -
  have "\<forall>x \<in> set BTF_VALIDATORS. \<forall>f \<in> set (field_offsets (snd x)).
      case nested (snd (snd f)) of None \<Rightarrow> True | Some n' \<Rightarrow> struct_depth n' < struct_depth (fst x)"
    unfolding BTF_VALIDATORS_def by (simp add: struct_depth_def)
  then show ?thesis using map_of_SomeD [OF assms(1)] assms(2,3) by fastforce
qed

lemma complex_eq:
  assumes "next_type btf t = None" "validation_type btf t = Some w" "s \<notin> cache"
  shows "validate_complex_type_by_name validators btf t s cache =
    Option.bind (if is_primitive (base_type_name s) then Some (Ok cache)
       else (case validators (base_type_name s) of Some run \<Rightarrow> run w cache | None \<Rightarrow> Some (Ok cache)))
      (\<lambda>r. Some (rust_bind r (\<lambda>cache'. Ok (insert s cache'))))"
  using assms by (simp add: validate_complex_type_by_name_def)

lemma scalar_primitive: "ty \<in> {rust_u8, rust_u16, rust_i32} \<Longrightarrow> is_primitive (base_type_name (stringify ty)) \<and> nested ty = None"
  by (auto simp: base_type_name_def trim_def is_whitespace_def is_primitive_def)

lemma size_validation_type: "get_btf_type_size btf t = Some (Ok k) \<Longrightarrow> \<exists>w. validation_type btf t = Some w"
  by (cases t) (auto split: option.splits)

text \<open>A field type is accepted when its structure is, or it is a scalar.\<close>

lemma complex_complete:
  assumes "ty \<in> {rust_u8, rust_u16, rust_i32} \<union> set struct_types" "next_type btf t = None" "get_btf_type_size btf t = Some (Ok k)"
    and "\<And>n w run. nested ty = Some n \<Longrightarrow> validation_type btf t = Some w \<Longrightarrow> validators n = Some run \<Longrightarrow>
      \<exists>cache'. run w cache = Some (Ok cache')"
  shows "\<exists>cache'. validate_complex_type_by_name validators btf t (stringify ty) cache = Some (Ok cache')"
proof (cases "stringify ty \<in> cache")
  case True
  then show ?thesis by (simp add: validate_complex_type_by_name_def)
next
  case False
  obtain w where w: "validation_type btf t = Some w" using size_validation_type [OF assms(3)] by blast
  show ?thesis
  proof (cases "ty \<in> set struct_types")
    case False
    then have "is_primitive (base_type_name (stringify ty))" using assms(1) scalar_primitive by blast
    then show ?thesis using complex_eq [OF assms(2) w \<open>stringify ty \<notin> cache\<close>] by simp
  next
    case True
    then obtain n where n: "nested ty = Some n" "base_type_name (stringify ty) = n" "\<not> is_primitive n"
      using struct_type_names by blast
    show ?thesis
    proof (cases "validators n")
      case None
      then show ?thesis using complex_eq [OF assms(2) w \<open>stringify ty \<notin> cache\<close>] n by simp
    next
      case (Some run)
      then obtain cache' where "run w cache = Some (Ok cache')" using assms(4) [OF n(1) w] by blast
      then show ?thesis using complex_eq [OF assms(2) w \<open>stringify ty \<notin> cache\<close>] n Some by simp
    qed
  qed
qed

lemma fields_complete:
  assumes "\<And>f cache. f \<in> set fs \<Longrightarrow> \<exists>m r cache'. find_member offs (field_check f) ms = Some m \<and>
      validate_member btf offs (field_check f) m = Some (Ok r) \<and> complex r (stringify (snd (snd f))) cache = Some (Ok cache')"
  shows "\<exists>cache'. validate_fields complex btf offs ms (map field_check fs) cache = Some (Ok cache')"
  using assms
proof (induction fs arbitrary: cache)
  case Nil
  then show ?case by simp
next
  case (Cons f fs)
  obtain n start ty where f: "f = (n, start, ty)" by (metis prod_cases3)
  obtain m r cache1 where m: "find_member offs (field_check f) ms = Some m"
      "validate_member btf offs (field_check f) m = Some (Ok r)" "complex r (stringify ty) cache = Some (Ok cache1)"
    using Cons.prems [of f cache] unfolding f by auto
  have "\<exists>cache2. validate_fields complex btf offs ms (map field_check fs) cache1 = Some (Ok cache2)"
    by (rule Cons.IH, rule Cons.prems) simp
  then show ?case using m unfolding f by (simp del: Product_Type.split_paired_Ex)
qed

lemma validator_complete:
  assumes "same_layout btf ty t" "nested ty = Some n" "struct_depth n < k" "validation_type btf t = Some w" "validator k btf n = Some run"
  shows "\<exists>cache'. run w cache = Some (Ok cache')"
  using assms
proof (induction arbitrary: n k w run cache rule: same_layout.induct)
  case (scalar t k n)
  then show ?case by simp
next
  case (composite t sz0 n' c v sz ms)
  have n: "n = n'" using composite.prems(1) by simp
  obtain j where k: "k = Suc j" using composite.prems(2) by (cases k) auto
  have run: "run = validate_btf_layout_from_type (validate_complex_type_by_name (validator j btf) btf) btf c"
    using composite.prems(4) composite.hyps(2) n k by simp
  have v: "resolve_btf_type btf w = Some v" using composite.hyps(3) composite.prems(3) by simp
  have "\<exists>cache'. validate_fields (validate_complex_type_by_name (validator j btf) btf) btf (validates_offset c) ms
      (map field_check (field_offsets c)) cache = Some (Ok cache')"
  proof (rule fields_complete)
    fix f cache assume f: "f \<in> set (field_offsets c)"
    obtain fld start ty where fld: "f = (fld, start, ty)" by (metis prod_cases3)
    note composite.IH [THEN spec, THEN spec, THEN spec, THEN mp, OF f [unfolded fld]]
    then obtain m mt t' where m: "find_member (validates_offset c)
          \<lparr>vf_name = fld, vf_offset = start, vf_size = size_of ty, vf_type_name = stringify ty\<rparr> ms = Some m"
        "validates_offset c \<longrightarrow> unat (bm_offset m) div 8 = start" "btf (bm_ty m) = Some mt" "resolve_btf_type btf mt = Some t'"
        "same_layout btf ty t'"
      and IH: "\<forall>n. nested ty = Some n \<longrightarrow> (\<forall>k > struct_depth n. \<forall>w. validation_type btf t' = Some w \<longrightarrow>
        (\<forall>run. validator k btf n = Some run \<longrightarrow> (\<forall>cache. \<exists>cache'. run w cache = Some (Ok cache'))))"
      by (elim exE conjE) (rule that)
    have "validate_member btf (validates_offset c) (field_check f) m = Some (Ok t')"
      using m(2-4) same_layout_size [OF m(5)] unfolding validate_member_Ok fld by simp
    moreover have "\<exists>cache'. validate_complex_type_by_name (validator j btf) btf t' (stringify ty) cache = Some (Ok cache')"
    proof (rule complex_complete [OF _ resolve_final [OF m(4)] same_layout_size [OF m(5)]])
      show "ty \<in> {rust_u8, rust_u16, rust_i32} \<union> set struct_types" using field_types [OF composite.hyps(2) f] unfolding fld by simp
      fix n2 w2 run2
      assume 2: "nested ty = Some n2" "validation_type btf t' = Some w2" "validator j btf n2 = Some run2"
      have "struct_depth n2 < struct_depth n" using field_depth [OF composite.hyps(2) f] 2(1) unfolding fld n by simp
      then have "struct_depth n2 < j" using composite.prems(2) k by simp
      then show "\<exists>cache'. run2 w2 cache = Some (Ok cache')" using IH 2 by blast
    qed
    ultimately show "\<exists>m r cache'. find_member (validates_offset c) (field_check f) ms = Some m \<and>
        validate_member btf (validates_offset c) (field_check f) m = Some (Ok r) \<and>
        validate_complex_type_by_name (validator j btf) btf r (stringify (snd (snd f))) cache = Some (Ok cache')"
      using m(1) unfolding fld by auto
  qed
  then show ?case
    using v composite.hyps(4,5) by (simp add: run validate_btf_layout_from_type_def get_validation_fields_def)
next
  case (array i elem_type t' u capacity l c)
  have n: "nested u = Some n" using array.prems(1) by simp
  obtain c where c: "map_of BTF_VALIDATORS n = Some c" using array.prems(4) by (cases k) auto
  have w: "w = elem_type" using array.prems(3) array.hyps(1) by simp
  have "run w cache = run t' cache"
    using array.prems(4) c array.hyps(2) resolve_resolved [OF resolve_final [OF array.hyps(2)]]
    by (cases k) (auto simp: validate_btf_layout_from_type_def w)
  then show ?case using array.IH [OF n array.prems(2) array.hyps(3) array.prems(4)] by simp
qed

lemma same_layout_validated:
  assumes "resolve_btf_type btf t = Some t0" "same_layout btf rust_descriptor t0" "validation_type btf t0 = Some t0"
  shows "\<exists>cache. validate_descriptor_layout btf t = Some (Ok cache)"
proof -
  let ?run = "validate_btf_layout_from_type (validate_complex_type_by_name (validator 5 btf) btf) btf HidRdescDescriptor"
  have "validator 6 btf ''HidRdescDescriptor'' = Some ?run"
    by (simp add: BTF_VALIDATORS_def numeral_eq_Suc)
  then obtain cache where "?run t0 {} = Some (Ok cache)"
    using validator_complete [OF assms(2), of "''HidRdescDescriptor''" 6 t0 ?run "{}"] assms(3)
    by (auto simp: rust_descriptor_def struct_depth_def)
  then show ?thesis
    using assms(1) resolve_resolved [OF resolve_final [OF assms(1)]]
    by (simp add: validate_descriptor_layout_def validate_btf_layout_from_type_def)
qed

section \<open>Programs compiled with the header\<close>

text \<open>A BTF with the types of the header below the descriptor.\<close>

definition extends_header :: "btf_types \<Rightarrow> bool" where
  "extends_header btf \<longleftrightarrow> (\<forall>i \<le> 15. btf i = header_btf i)"

lemma header_types:
  assumes "extends_header btf"
  shows
  "btf 1 = Some (Btf_Int 1)" "btf 2 = Some (Btf_Next 1)" "btf 3 = Some (Btf_Int 2)" "btf 4 = Some (Btf_Next 3)"
  "btf 5 = Some (Btf_Int 4)" "btf 6 = Some (Btf_Next 5)"
  "btf 7 = Some (Btf_Struct (Some ''hid_rdesc_collection'') 5
      [named ''usage_page'' 4 0, named ''usage_id'' 4 2, named ''collection_type'' 2 4])"
  "btf 8 = Some (Btf_Array 7 32)"
  "btf 9 = Some (Btf_Struct None 4 [named ''usage_minimum'' 4 0, named ''usage_maximum'' 4 2])"
  "btf 10 = Some (Btf_Union None 4 [named ''usage_id'' 4 0, unnamed 9 0])"
  "btf 12 = Some (Btf_Struct (Some ''hid_rdesc_field'') 181
        [named ''field_type'' 2 0, named ''num_collections'' 2 1, named ''bits_start'' 4 2, named ''bits_end'' 4 4,
         named ''usage_page'' 4 6, unnamed 10 8, named ''logical_minimum'' 6 12, named ''logical_maximum'' 6 16,
         named ''flags'' 11 20, named ''collections'' 8 21])"
  "btf 13 = Some (Btf_Array 12 64)"
  "btf 14 = Some (Btf_Struct (Some ''hid_rdesc_report'') 11588
        [named ''report_id'' 2 0, named ''size_in_bits'' 4 1, named ''num_fields'' 2 3, named ''fields'' 13 4])"
  "btf 15 = Some (Btf_Array 14 16)"
  using assms by (simp_all add: extends_header_def header_btf_def header_btf_list_def)

lemma header_type_11: "extends_header btf \<Longrightarrow> \<exists>ms. btf 11 = Some (Btf_Struct None 1 ms)"
  by (simp add: extends_header_def header_btf_def header_btf_list_def)

lemmas layout_simps = find_member_def is_anonymous_def starts_with_def named_def unnamed_def BTF_VALIDATORS_def

lemma header_scalars:
  "same_layout btf rust_u8 (Btf_Int 1)" "same_layout btf rust_u16 (Btf_Int 2)" "same_layout btf rust_i32 (Btf_Int 4)"
  "same_layout btf rust_u8 (Btf_Struct None 1 ms)"
  by (auto intro!: same_layout.scalar)

lemma header_collection:
  assumes "extends_header btf"
  shows "same_layout btf (Composite ''HidRdescCollection'' 5) (the (btf 7))"
  by (rule same_layout.composite [of _ _ _ _ HidRdescCollection])
    (auto simp: header_types [OF assms] layout_simps rust_structs intro: header_scalars simp del: One_nat_def)

lemma header_collections:
  assumes "extends_header btf"
  shows "same_layout btf rust_collections (Btf_Array 7 32)"
  by (rule same_layout.array [OF header_types(7) [OF assms] resolve_simps(2) _ header_collection [OF assms, unfolded header_types [OF assms] option.sel]])
    (simp_all add: header_types [OF assms])

lemma header_range:
  assumes "extends_header btf"
  shows "same_layout btf (Composite ''UsageRange'' 4) (the (btf 9))"
  by (rule same_layout.composite [of _ _ _ _ UsageRange])
    (auto simp: header_types [OF assms] layout_simps rust_structs intro: header_scalars simp del: One_nat_def)

lemma header_union:
  assumes "extends_header btf"
  shows "same_layout btf (Composite ''UsageIdUnion'' 4) (the (btf 10))"
  using header_range [OF assms]
  by (intro same_layout.composite [of _ _ _ _ UsageIdUnion])
    (auto simp: header_types [OF assms] layout_simps rust_structs intro: header_scalars simp del: One_nat_def)

lemma header_field:
  assumes "extends_header btf"
  shows "same_layout btf (Composite ''HidRdescField'' 181) (the (btf 12))"
proof -
  obtain flags where "btf 11 = Some (Btf_Struct None 1 flags)" using header_type_11 [OF assms] by blast
  then show ?thesis
    using header_union [OF assms] header_collections [OF assms]
    by (intro same_layout.composite [of _ _ _ _ HidRdescField])
      (auto simp: header_types [OF assms] layout_simps rust_structs intro: header_scalars simp del: One_nat_def)
qed

lemma header_fields:
  assumes "extends_header btf"
  shows "same_layout btf rust_fields (Btf_Array 12 64)"
  by (rule same_layout.array [OF header_types(11) [OF assms] resolve_simps(2) _ header_field [OF assms, unfolded header_types [OF assms] option.sel]])
    (simp_all add: header_types [OF assms])

lemma header_report:
  assumes "extends_header btf"
  shows "same_layout btf (Composite ''HidRdescReport'' 11588) (the (btf 14))"
  using header_fields [OF assms]
  by (intro same_layout.composite [of _ _ _ _ HidRdescReport])
    (auto simp: header_types [OF assms] layout_simps rust_structs intro: header_scalars simp del: One_nat_def)

lemma header_reports:
  assumes "extends_header btf"
  shows "same_layout btf rust_reports (Btf_Array 14 16)"
  unfolding rust_reports_eq by (rule same_layout.array [OF header_types(13) [OF assms] resolve_simps(2) _ header_report [OF assms, unfolded header_types [OF assms] option.sel]])
    (simp_all add: header_types [OF assms])

lemma header_extends: "extends_header header_btf"
  by (simp add: extends_header_def)

lemma header_type_16:
  "header_btf 16 = Some (Btf_Struct (Some ''hid_rdesc_descriptor'') 556227
        [named ''num_input_reports'' 2 0, named ''num_output_reports'' 2 1, named ''num_feature_reports'' 2 2,
         named ''input_reports'' 15 3, named ''output_reports'' 15 185411, named ''feature_reports'' 15 370819])"
  by (simp add: header_btf_def header_btf_list_def)

lemmas header_btf_types = header_types [OF header_extends] header_type_16

lemma header_descriptor: "same_layout header_btf rust_descriptor (the (header_btf 16))"
  using header_reports [OF header_extends] unfolding rust_descriptor_def size_of_structs
  by (intro same_layout.composite [of _ _ _ _ HidRdescDescriptor])
    (auto simp: header_btf_types layout_simps rust_structs intro: header_scalars simp del: One_nat_def)

lemma header_accepted: "\<exists>cache. validate_descriptor_layout header_btf (Btf_Next 16) = Some (Ok cache)"
  by (rule same_layout_validated [OF _ header_descriptor]) (simp_all add: header_btf_types)

text \<open>
  C16: The layout check is exact: among the programs whose three arrays of reports have one type, it accepts those, and
  only those, whose descriptor structure has the layout of the loader's.
\<close>

theorem layout_check_exact:
  assumes "resolve_btf_type btf t = Some (Btf_Struct n sz ms)" "reports_alike (Btf_Struct n sz ms)"
  shows "(\<exists>cache. validate_descriptor_layout btf t = Some (Ok cache)) \<longleftrightarrow> same_layout btf rust_descriptor (Btf_Struct n sz ms)"
  using validated_same_layout [OF _ assms(1) reports_alike_uniform [OF assms(2) refl]] same_layout_validated [OF assms(1)] by auto

theorem layout_check_exact_witness:
  "\<exists>cache. validate_descriptor_layout header_btf (Btf_Next 16) = Some (Ok cache)"
proof -
  obtain n sz ms where t: "header_btf 16 = Some (Btf_Struct n sz ms)" by (simp add: header_btf_types)
  then have "reports_alike (Btf_Struct n sz ms)" by (simp add: reports_alike_def header_btf_types layout_simps) (auto simp: layout_simps)
  then show ?thesis
    using layout_check_exact [of header_btf "Btf_Next 16" n sz ms] header_descriptor t by simp
qed

theorem layout_check_offsets_witness:
  "\<exists>t'. btf_at header_btf (the (header_btf 16))
       [Field_Step ''feature_reports'', Elem_Step 2, Field_Step ''fields'', Elem_Step 5, Unnamed_Step 8, Unnamed_Step 0,
        Field_Step ''usage_maximum''] = Some (394914, t') \<and> get_btf_type_size header_btf t' = Some (Ok 2)"
proof -
  obtain cache where "validate_descriptor_layout header_btf (Btf_Next 16) = Some (Ok cache)" using header_accepted by blast
  moreover have "rust_at rust_descriptor
       [Field_Step ''feature_reports'', Elem_Step 2, Field_Step ''fields'', Elem_Step 5, Unnamed_Step 8, Unnamed_Step 0,
        Field_Step ''usage_maximum''] = Some (394914, rust_u16)"
    by (simp add: rust_descriptor_def layout_simps field_step_def)
  moreover have "resolve_btf_type header_btf (Btf_Next 16) = Some (the (header_btf 16))" "reports_alike (the (header_btf 16))"
    by (simp_all add: header_btf_types reports_alike_def layout_simps)
  ultimately show ?thesis using layout_check_offsets [of header_btf "Btf_Next 16" cache "the (header_btf 16)"] size_of.simps(1) by metis
qed

section \<open>The check returns\<close>

text \<open>A BTF without cycles: following a reference or an array leads to a type of smaller rank.\<close>

fun references :: "btf_type \<Rightarrow> nat set" where
  "references (Btf_Next i) = {i}"
| "references (Btf_Array i capacity) = {i}"
| "references t = {}"

definition ranked :: "(nat \<Rightarrow> nat) \<Rightarrow> btf_types \<Rightarrow> bool" where
  "ranked rank btf \<longleftrightarrow> (\<forall>i t j. btf i = Some t \<and> j \<in> references t \<longrightarrow> rank j < rank i)"

lemma resolve_returns:
  assumes "ranked rank btf"
  shows "btf i = Some t \<Longrightarrow> \<exists>r. resolve_btf_type btf t = Some r \<and> get_btf_type_size btf r \<noteq> None \<and>
    (\<forall>w. validation_type btf r = Some w \<longrightarrow> (\<exists>v. resolve_btf_type btf w = Some v))"
proof (induction "rank i" arbitrary: i t rule: less_induct)
  case less
  have IH: "\<exists>r. resolve_btf_type btf t' = Some r \<and> get_btf_type_size btf r \<noteq> None \<and>
      (\<forall>w. validation_type btf r = Some w \<longrightarrow> (\<exists>v. resolve_btf_type btf w = Some v))"
    if "j \<in> references t" "btf j = Some t'" for j t'
    using less.hyps [OF _ that(2)] assms less.prems that(1) unfolding ranked_def by blast
  show ?case
  proof (cases t)
    case (Btf_Next j)
    then show ?thesis using IH [of j] by (cases "btf j") auto
  next
    case (Btf_Array j capacity)
    then show ?thesis using IH [of j] by (cases "btf j") auto
  qed auto
qed

lemma resolve_total:
  assumes "ranked rank btf"
  obtains r where "resolve_btf_type btf t = Some r"
proof (cases "next_type btf t")
  case None
  then show ?thesis using that resolve_resolved by blast
next
  case (Some t')
  then obtain i where "t = Btf_Next i" "btf i = Some t'" by (cases t) auto
  then show ?thesis using that resolve_returns [OF assms, of i t'] by auto
qed

lemma fields_return:
  assumes "ranked rank btf"
    and "\<And>f cache mt r i. f \<in> set fs \<Longrightarrow> btf i = Some mt \<Longrightarrow> resolve_btf_type btf mt = Some r \<Longrightarrow>
      complex r (stringify (snd (snd f))) cache \<noteq> None"
  shows "validate_fields complex btf offs ms (map field_check fs) cache \<noteq> None"
  using assms(2)
proof (induction fs arbitrary: cache)
  case Nil
  then show ?case by simp
next
  case (Cons f fs)
  obtain n start ty where f: "f = (n, start, ty)" by (metis prod_cases3)
  show ?case
  proof (cases "find_member offs (field_check f) ms")
    case None
    then show ?thesis unfolding f by simp
  next
    case (Some m)
    have "validate_member btf offs (field_check f) m \<noteq> None"
    proof (cases "btf (bm_ty m)")
      case None
      then show ?thesis by (simp add: validate_member_def)
    next
      case (Some mt)
      obtain r where "resolve_btf_type btf mt = Some r" "get_btf_type_size btf r \<noteq> None"
        using resolve_returns [OF assms(1) Some] by blast
      then show ?thesis using Some by (auto simp: validate_member_def)
    qed
    then obtain z where z: "validate_member btf offs (field_check f) m = Some z" by blast
    show ?thesis
    proof (cases z)
      case (Ok r)
      then obtain mt where "btf (bm_ty m) = Some mt" "resolve_btf_type btf mt = Some r" using z unfolding Ok validate_member_Ok by blast
      then obtain x where "complex r (stringify ty) cache = Some x" using Cons.prems [of f "bm_ty m" mt r cache] unfolding f by auto
      moreover have "validate_fields complex btf offs ms (map field_check fs) cache' \<noteq> None" for cache'
        by (rule Cons.IH, rule Cons.prems) auto
      ultimately show ?thesis using z Ok Some unfolding f by (cases x) auto
    qed (use z Some f in auto)
  qed
qed

lemma layout_from_type_returns:
  assumes "ranked rank btf" "map_of BTF_VALIDATORS n = Some c"
    and "\<And>f cache mt r i. f \<in> set (field_offsets c) \<Longrightarrow> btf i = Some mt \<Longrightarrow> resolve_btf_type btf mt = Some r \<Longrightarrow>
      complex r (stringify (snd (snd f))) cache \<noteq> None"
  shows "validate_btf_layout_from_type complex btf c t cache \<noteq> None"
proof -
  obtain v where v: "resolve_btf_type btf t = Some v" using resolve_total [OF assms(1)] by blast
  have "validate_fields complex btf (validates_offset c) ms (map field_check (field_offsets c)) cache \<noteq> None" for ms
    by (rule fields_return [OF assms(1)], rule assms(3))
  then show ?thesis using v unfolding validate_btf_layout_from_type_def get_validation_fields_def by (auto split: option.split)
qed

lemma complex_returns:
  assumes "ranked rank btf" "btf i = Some mt" "resolve_btf_type btf mt = Some r"
    and "\<And>w run. validators (base_type_name s) = Some run \<Longrightarrow> \<not> is_primitive (base_type_name s) \<Longrightarrow> run w cache \<noteq> None"
  shows "validate_complex_type_by_name validators btf r s cache \<noteq> None"
proof -
  have "resolve_btf_type btf r = Some r" using resolve_resolved [OF resolve_final [OF assms(3)]] .
  then show ?thesis
    using assms(4) by (auto simp: validate_complex_type_by_name_def bind_eq_None_conv split: option.split simp del: not_None_eq)
qed

lemma validator_returns:
  assumes "ranked rank btf"
  shows "map_of BTF_VALIDATORS n = Some c \<Longrightarrow> struct_depth n < k \<Longrightarrow> validator k btf n = Some run \<Longrightarrow> run w cache \<noteq> None"
proof (induction k arbitrary: n c run w cache)
  case 0
  then show ?case by simp
next
  case (Suc k)
  have run: "run = validate_btf_layout_from_type (validate_complex_type_by_name (validator k btf) btf) btf c"
    using Suc.prems(1,3) by simp
  show ?case
    unfolding run
  proof (rule layout_from_type_returns [OF assms Suc.prems(1)])
    fix f cache mt r i
    assume f: "f \<in> set (field_offsets c)" "btf i = Some mt" "resolve_btf_type btf mt = Some r"
    show "validate_complex_type_by_name (validator k btf) btf r (stringify (snd (snd f))) cache \<noteq> None"
    proof (rule complex_returns [OF assms f(2,3)])
      fix w run' assume r: "validator k btf (base_type_name (stringify (snd (snd f)))) = Some run'"
        "\<not> is_primitive (base_type_name (stringify (snd (snd f))))"
      have "snd (snd f) \<in> set struct_types" using field_types [OF Suc.prems(1) f(1)] scalar_primitive r(2) by blast
      then obtain n' c' where n': "nested (snd (snd f)) = Some n'" "base_type_name (stringify (snd (snd f))) = n'"
        "map_of BTF_VALIDATORS n' = Some c'"
        using struct_type_names by blast
      have "struct_depth n' < k" using field_depth [OF Suc.prems(1) f(1) n'(1)] Suc.prems(2) by simp
      then show "run' w cache \<noteq> None" using Suc.IH [OF n'(3)] r(1) n'(2) by simp
    qed
  qed
qed

text \<open>
  C39: The layout check returns on every BTF in which references and arrays do not run in a circle, whatever the type of
  the variable: it accepts or fails. The nesting of the five structures bounds its recursion.
\<close>

theorem layout_check_returns:
  assumes "ranked rank btf"
  shows "\<exists>r. validate_descriptor_layout btf t = Some r"
proof -
  have "validator 6 btf ''HidRdescDescriptor'' =
      Some (validate_btf_layout_from_type (validate_complex_type_by_name (validator 5 btf) btf) btf HidRdescDescriptor)"
    by (simp add: BTF_VALIDATORS_def numeral_eq_Suc)
  then show ?thesis
    using validator_returns [OF assms, of "''HidRdescDescriptor''" HidRdescDescriptor 6 _ t "{}"]
    by (simp add: validate_descriptor_layout_def BTF_VALIDATORS_def struct_depth_def)
qed

theorem layout_check_returns_witness:
  "\<exists>r. validate_descriptor_layout (map_of [(1, Btf_Int 1), (2, Btf_Next 1), (3, Btf_Array 2 5)]) (Btf_Next 3) = Some r"
  by (rule layout_check_returns [of "\<lambda>i. i"]) (simp add: ranked_def split: if_splits)

section \<open>What the cache lets through\<close>

text \<open>A program whose output reports have the size of the reports but the first two fields swapped.\<close>

definition swapped_btf :: btf_types where
  "swapped_btf = header_btf(
     16 \<mapsto> Btf_Struct (Some ''hid_rdesc_descriptor'') 556227
        [named ''num_input_reports'' 2 0, named ''num_output_reports'' 2 1, named ''num_feature_reports'' 2 2,
         named ''input_reports'' 15 3, named ''output_reports'' 18 185411, named ''feature_reports'' 15 370819],
     17 \<mapsto> Btf_Struct (Some ''swapped_report'') 11588
        [named ''size_in_bits'' 4 0, named ''report_id'' 2 2, named ''num_fields'' 2 3, named ''fields'' 13 4],
     18 \<mapsto> Btf_Array 17 16)"

lemma swapped_types:
  "extends_header swapped_btf"
  "swapped_btf 16 = Some (Btf_Struct (Some ''hid_rdesc_descriptor'') 556227
        [named ''num_input_reports'' 2 0, named ''num_output_reports'' 2 1, named ''num_feature_reports'' 2 2,
         named ''input_reports'' 15 3, named ''output_reports'' 18 185411, named ''feature_reports'' 15 370819])"
  "swapped_btf 17 = Some (Btf_Struct (Some ''swapped_report'') 11588
        [named ''size_in_bits'' 4 0, named ''report_id'' 2 2, named ''num_fields'' 2 3, named ''fields'' 13 4])"
  "swapped_btf 18 = Some (Btf_Array 17 16)"
  by (simp_all add: swapped_btf_def extends_header_def)

lemmas swapped_btf_types = header_types [OF swapped_types(1)] swapped_types(2-4)

lemma swapped_accepted: "\<exists>cache. validate_descriptor_layout swapped_btf (Btf_Next 16) = Some (Ok cache)"
proof -
  let ?complex = "validate_complex_type_by_name (validator 5 swapped_btf) swapped_btf"
  have u8: "?complex (Btf_Int 1) ''u8'' cache = Some (Ok (insert ''u8'' cache))" for cache
    by (simp add: validate_complex_type_by_name_def base_type_name_def trim_def is_whitespace_def is_primitive_def insert_absorb)
  have reports: "\<exists>cache'. ?complex (Btf_Array 14 16) (stringify rust_reports) cache = Some (Ok cache')" for cache
  proof (rule complex_complete)
    have same: "same_layout swapped_btf rust_reports (Btf_Array 14 16)" by (rule header_reports [OF swapped_types(1)])
    show "get_btf_type_size swapped_btf (Btf_Array 14 16) = Some (Ok (size_of rust_reports))" by (rule same_layout_size [OF same])
    fix n w run
    assume n: "nested rust_reports = Some n" "validation_type swapped_btf (Btf_Array 14 16) = Some w" "validator 5 swapped_btf n = Some run"
    then show "\<exists>cache'. run w cache = Some (Ok cache')"
      using validator_complete [OF same, of n 5 w run cache] by (auto simp: struct_depth_def)
  qed (simp_all add: struct_types_def)
  obtain cache where cache: "?complex (Btf_Array 14 16) (stringify rust_reports) {''u8''} = Some (Ok cache)" using reports by blast
  then have "stringify rust_reports \<in> cache" by (cases rule: complex_cases) auto
  then have again: "?complex t (stringify rust_reports) cache = Some (Ok cache)" for t
    by (simp add: validate_complex_type_by_name_def)
  show ?thesis
    using u8 cache again
    by (simp add: validate_descriptor_layout_def validate_btf_layout_from_type_def get_validation_fields_def swapped_btf_types
        validate_member_def rust_structs layout_simps del: One_nat_def)
qed


end
