(* ===== verification/Object_Loader.thy ===== *)
theory Object_Loader
  imports Loader_Descriptor
begin

text \<open>
  \<open>load_programs\<close> of \<open>bpf.rs\<close> with its two loaders, and the \<open>add\<close> and \<open>remove\<close> commands of \<open>main.rs\<close> around it. What a
  command leaves behind are the paths it pins in the bpf file system: the state is the list of the pinned paths. Errors
  carry no detail here; printing is left out.
\<close>

section \<open>Names\<close>

definition replace_colon_dot :: "string \<Rightarrow> string" where
  "replace_colon_dot s = map (\<lambda>c. if c = CHR '':'' \<or> c = CHR ''.'' then CHR ''_'' else c) s"

definition sysname_to_bpffs :: "string \<Rightarrow> string" where
  "sysname_to_bpffs sysname = replace_colon_dot sysname"

fun splitn :: "nat \<Rightarrow> char \<Rightarrow> string \<Rightarrow> string list" where
  "splitn 0 c s = []"
| "splitn (Suc 0) c s = [s]"
| "splitn (Suc (Suc n)) c s = (case split_once c s of None \<Rightarrow> [s] | Some (a, b) \<Rightarrow> a # splitn (Suc n) c b)"

fun join_with :: "string \<Rightarrow> string list \<Rightarrow> string" where
  "join_with sep [] = []"
| "join_with sep [p] = p"
| "join_with sep (p # ps) = p @ sep @ join_with sep ps"

definition bpffs_to_sysname :: "string \<Rightarrow> string" where
  "bpffs_to_sysname bpffs_name =
     (let parts = splitn 4 (CHR ''_'') bpffs_name in
      case parts of
        [b, ven, dev, inst] \<Rightarrow> b @ '':'' @ ven @ '':'' @ dev @ ''.'' @ inst
      | _ \<Rightarrow> join_with '':'' parts)"

definition BPFFS_ROOT :: string where
  "BPFFS_ROOT = ''/sys/fs/bpf/hid''"

definition get_bpffs_path :: "string \<Rightarrow> string \<Rightarrow> string" where
  "get_bpffs_path sysname object = BPFFS_ROOT @ ''/'' @ sysname_to_bpffs sysname @ ''/'' @ replace_colon_dot object"

text \<open>\<open>Path::file_stem\<close> of a path with a file name.\<close>

definition file_stem :: "string \<Rightarrow> string" where
  "file_stem path =
     (let f = file_name path in
      case split_once (CHR ''.'') (rev f) of
        None \<Rightarrow> f
      | Some (_, before) \<Rightarrow> if before = [] then f else rev before)"

record hid_udev =
  ud_sysname :: string
  ud_syspath :: string
  ud_properties :: "(string \<times> string) list"

definition device_id :: "hid_udev \<Rightarrow> u32 rust" where
  "device_id device =
     (if length (ud_sysname device) < 15 then Panic
      else rust_unwrap (map_option word_of_nat (from_str_radix_16 (2 ^ 32) (drop 15 (ud_sysname device)))))"

text \<open>The name the kernel gives a HID device: bus, vendor, product and a running number.\<close>

definition kernel_sysname :: "nat \<Rightarrow> nat \<Rightarrow> nat \<Rightarrow> nat \<Rightarrow> string" where
  "kernel_sysname b v p i = fmt_0X 4 b @ '':'' @ fmt_0X 4 v @ '':'' @ fmt_0X 4 p @ ''.'' @ fmt_0X 4 i"

section \<open>The kernel\<close>

text \<open>
  What libbpf, the kernel and the file system answer: the file read, the object opened and loaded, the maps updated and
  read, the programs run, the links attached. A link can be pinned where \<open>k_pin\<close> allows it and nothing is pinned yet.
\<close>

record kernel =
  k_read :: "string \<Rightarrow> u8 list option"
  k_open :: "string \<Rightarrow> (bpf_object \<times> btf) option"
  k_load :: "bpf_object \<Rightarrow> bpf_object option"
  k_update_ok :: "string \<Rightarrow> bool"
  k_lookup_ok :: "string \<Rightarrow> bool"
  k_layout_ok :: "btf \<Rightarrow> bool"
  k_parse :: "u8 list \<Rightarrow> hr_descriptor option"
  k_rest :: u16
  k_run_probe :: "bpf_object \<Rightarrow> hid_bpf_probe_args \<Rightarrow> hid_bpf_probe_args option"
  k_attach_struct_ops :: "bpf_object \<Rightarrow> string \<Rightarrow> bool"
  k_pin :: "string \<Rightarrow> bool"
  k_skel_open :: bool
  k_skel_load :: bool
  k_syscall_ok :: bool
  k_prog_fd :: "string \<Rightarrow> int"
  k_attach_prog :: "u32 \<Rightarrow> int \<Rightarrow> u32 \<Rightarrow> int"

type_synonym pins = "string list"

definition pin_path :: "kernel \<Rightarrow> string \<Rightarrow> pins \<Rightarrow> pins option" where
  "pin_path k path pins = (if k_pin k path \<and> path \<notin> set pins then Some (pins @ [path]) else None)"

text \<open>\<open>std::fs::remove_dir_all\<close>: everything below the directory.\<close>

definition below :: "string \<Rightarrow> string \<Rightarrow> bool" where
  "below dir p \<longleftrightarrow> starts_with p (if dir \<noteq> [] \<and> last dir = CHR ''/'' then dir else dir @ ''/'')"

definition remove_dir_all :: "string \<Rightarrow> pins \<Rightarrow> pins" where
  "remove_dir_all dir pins = filter (\<lambda>p. \<not> below dir p) pins"

section \<open>The two loaders\<close>

datatype loader = HidBPFTrace | HidBPFStructOps

definition get_bpf_loader :: "bpf_object \<Rightarrow> loader" where
  "get_bpf_loader object =
     (if list_ex (\<lambda>p. p_tracing p \<and> starts_with (p_section p) ''fmodret/hid_'') (o_progs object) then HidBPFTrace
      else HidBPFStructOps)"

text \<open>\<open>is_ok\<close> looks at the opening only: the outcome of the loading inside is not part of it.\<close>

definition hid_bpf_trace_supported :: "kernel \<Rightarrow> bool" where
  "hid_bpf_trace_supported k \<longleftrightarrow> (if k_skel_open k then Some (k_skel_load k) else None) \<noteq> None"

text \<open>The struct_ops loader writes the number of the device into the first four bytes of its maps.\<close>

definition set_hid_id :: "u32 \<Rightarrow> bpf_map \<Rightarrow> bpf_map rust" where
  "set_hid_id hid m =
     (if \<not> m_struct_ops m then Ok m
      else
        (case m_initial m of
           None \<Rightarrow> Ok m
         | Some data \<Rightarrow> rust_bind (write_slice 0 (u32_bytes hid) data) (\<lambda>data'. Ok (m\<lparr>m_initial := Some data'\<rparr>))))"

definition loader_load :: "kernel \<Rightarrow> loader \<Rightarrow> bpf_object \<Rightarrow> hid_udev \<Rightarrow> bpf_object rust" where
  "loader_load k loader open_object device =
     (case loader of
        HidBPFTrace \<Rightarrow> if hid_bpf_trace_supported k then map_err (k_load k open_object) else Err
      | HidBPFStructOps \<Rightarrow>
          rust_bind (device_id device) (\<lambda>hid.
          rust_bind (rust_map (set_hid_id hid) (o_maps open_object)) (\<lambda>maps.
          map_err (k_load k (open_object\<lparr>o_maps := maps\<rparr>)))))"

definition loader_probe :: "kernel \<Rightarrow> bpf_object \<Rightarrow> hid_udev \<Rightarrow> u8 list \<Rightarrow> unit rust" where
  "loader_probe k object device rdesc_bytes =
     (case find (\<lambda>prog. p_name prog = ''probe'') (o_progs object) of
        None \<Rightarrow> Ok ()
      | Some _ \<Rightarrow>
          rust_bind (device_id device) (\<lambda>hid.
          case k_run_probe k object (loader_args hid rdesc_bytes) of
            None \<Rightarrow> Err
          | Some args \<Rightarrow> if pa_retval args \<noteq> 0 then Err else Ok ()))"

definition pin_name :: "string \<Rightarrow> string \<Rightarrow> string" where
  "pin_name bpffs_path n = bpffs_path @ ''/'' @ n"

text \<open>\<open>attach.bpf.c\<close>: the program of the skeleton calls \<open>hid_bpf_attach_prog\<close> in the kernel, which makes a link.\<close>

record attach_prog_args =
  at_prog_fd :: int
  at_hid :: u32
  at_retval :: int

definition attach_prog :: "(u32 \<Rightarrow> int \<Rightarrow> u32 \<Rightarrow> int) \<Rightarrow> attach_prog_args \<Rightarrow> attach_prog_args \<times> int" where
  "attach_prog hid_bpf_attach_prog ctx =
     (ctx\<lparr>at_retval := hid_bpf_attach_prog (at_hid ctx) (at_prog_fd ctx) 0\<rparr>, 0)"

definition run_syscall_prog_attach :: "kernel \<Rightarrow> attach_prog_args \<Rightarrow> int rust" where
  "run_syscall_prog_attach k attach_args =
     (if \<not> k_syscall_ok k then Err
      else
        (let args = fst (attach_prog (k_attach_prog k) attach_args) in
         if at_retval args < 0 then Err else Ok (at_retval args)))"

text \<open>\<open>load_prog\<close>: the link the attach program returns is pinned.\<close>

definition load_prog :: "kernel \<Rightarrow> string \<Rightarrow> u32 \<Rightarrow> string \<Rightarrow> pins \<Rightarrow> pins \<times> string rust" where
  "load_prog k prog hid_id bpffs_path pins =
     (if \<not> k_skel_open k \<or> \<not> k_skel_load k then (pins, Err)
      else
        (case run_syscall_prog_attach k \<lparr>at_prog_fd = k_prog_fd k prog, at_hid = hid_id, at_retval = - 1\<rparr> of
           Ok link \<Rightarrow>
             (case pin_path k (pin_name bpffs_path prog) pins of
                None \<Rightarrow> (pins, Err)
              | Some pins' \<Rightarrow> (pins', Ok (pin_name bpffs_path prog)))
         | _ \<Rightarrow> (pins, Err)))"

text \<open>A tracing program that cannot be attached is skipped; one attached program is enough.\<close>

fun load_progs :: "kernel \<Rightarrow> string list \<Rightarrow> u32 \<Rightarrow> string \<Rightarrow> pins \<Rightarrow> pins \<times> string list" where
  "load_progs k [] hid_id bpffs_path pins = (pins, [])"
| "load_progs k (p # ps) hid_id bpffs_path pins =
     (case load_prog k p hid_id bpffs_path pins of
        (pins', Ok path) \<Rightarrow> (case load_progs k ps hid_id bpffs_path pins' of (pins'', paths) \<Rightarrow> (pins'', path # paths))
      | (pins', _) \<Rightarrow> load_progs k ps hid_id bpffs_path pins')"

text \<open>A struct_ops map that cannot be attached or pinned ends the loop; the earlier ones stay pinned.\<close>

fun attach_struct_ops_maps :: "kernel \<Rightarrow> bpf_object \<Rightarrow> string list \<Rightarrow> string \<Rightarrow> pins \<Rightarrow> pins \<times> unit rust" where
  "attach_struct_ops_maps k object [] bpffs_path pins = (pins, Ok ())"
| "attach_struct_ops_maps k object (n # ns) bpffs_path pins =
     (if \<not> k_attach_struct_ops k object n then (pins, Err)
      else
        (case pin_path k (pin_name bpffs_path n) pins of
           None \<Rightarrow> (pins, Err)
         | Some pins' \<Rightarrow> attach_struct_ops_maps k object ns bpffs_path pins'))"

definition struct_ops_names :: "bpf_object \<Rightarrow> string list" where
  "struct_ops_names object = map m_name (filter m_struct_ops (o_maps object))"

definition attach_and_pin :: "kernel \<Rightarrow> loader \<Rightarrow> bpf_object \<Rightarrow> hid_udev \<Rightarrow> string \<Rightarrow> pins \<Rightarrow> pins \<times> unit rust" where
  "attach_and_pin k loader object device bpffs_path pins =
     (case loader of
        HidBPFTrace \<Rightarrow>
          (case device_id device of
             Ok hid \<Rightarrow>
               (case load_progs k (map p_name (filter p_tracing (o_progs object))) hid bpffs_path pins of
                  (pins', attached) \<Rightarrow> (pins', if attached = [] then Err else Ok ()))
           | Err \<Rightarrow> (pins, Err)
           | Panic \<Rightarrow> (pins, Panic))
      | HidBPFStructOps \<Rightarrow> attach_struct_ops_maps k object (struct_ops_names object) bpffs_path pins)"

section \<open>Loading an object file\<close>

fun pin_map_names :: "kernel \<Rightarrow> string list \<Rightarrow> string \<Rightarrow> pins \<Rightarrow> pins \<times> unit rust" where
  "pin_map_names k [] bpffs_path pins = (pins, Ok ())"
| "pin_map_names k (n # ns) bpffs_path pins =
     (case pin_path k (pin_name bpffs_path n) pins of
        None \<Rightarrow> (pins, Err)
      | Some pins' \<Rightarrow> pin_map_names k ns bpffs_path pins')"

definition shared_map_names :: "bpf_object \<Rightarrow> string list" where
  "shared_map_names object = map m_name (filter (\<lambda>m. \<not> m_struct_ops m) (filter (\<lambda>m. CHR ''.'' \<notin> set (m_name m)) (o_maps object)))"

definition pin_maps :: "kernel \<Rightarrow> bpf_object \<Rightarrow> string \<Rightarrow> pins \<Rightarrow> pins \<times> unit rust" where
  "pin_maps k object bpffs_path pins = pin_map_names k (shared_map_names object) bpffs_path pins"

text \<open>Up to the probe nothing is pinned: the object is opened, loaded, and given its properties and descriptor.\<close>

definition prepare_object ::
    "kernel \<Rightarrow> string \<Rightarrow> hid_udev \<Rightarrow> (string \<times> string) list \<Rightarrow> (loader \<times> bpf_object \<times> bpf_metadata) rust" where
  "prepare_object k path device properties =
     rust_bind (map_err (k_read k (ud_syspath device @ ''/report_descriptor''))) (\<lambda>rdesc_bytes.
     rust_bind (map_err (k_open k path)) (\<lambda>(open_object, btf).
     let loader = get_bpf_loader open_object in
     rust_bind (loader_load k loader open_object device) (\<lambda>object.
     let metadata = bpf_metadata_from_btf btf in
     rust_bind (inject_udev_properties (k_update_ok k) metadata (ud_properties device) properties object) (\<lambda>object.
     rust_bind (inject_report_descriptor (k_update_ok k) (k_layout_ok k) (k_parse k) (k_rest k) object btf metadata rdesc_bytes) (\<lambda>object.
     rust_bind (loader_probe k object device rdesc_bytes) (\<lambda>_.
     Ok (loader, object, metadata)))))))"

text \<open>From the attaching on. Only a failure to pin the maps removes what was pinned.\<close>

definition commit_object ::
    "kernel \<Rightarrow> loader \<Rightarrow> bpf_object \<Rightarrow> bpf_metadata \<Rightarrow> hid_udev \<Rightarrow> string \<Rightarrow> pins \<Rightarrow> pins \<times> unit rust" where
  "commit_object k loader object metadata device bpffs_path pins =
     (case attach_and_pin k loader object device bpffs_path pins of
        (pins1, Ok _) \<Rightarrow>
          (case pin_maps k object bpffs_path pins1 of
             (pins2, Ok _) \<Rightarrow>
               (pins2, rust_bind (read_udev_property_maps (k_lookup_ok k) object (udev_property_maps metadata)) (\<lambda>_. Ok ()))
           | (pins2, _) \<Rightarrow> (remove_dir_all bpffs_path pins2, Err))
      | r \<Rightarrow> r)"

definition load_programs ::
    "kernel \<Rightarrow> hid_udev \<Rightarrow> (string \<times> string) list \<Rightarrow> string \<Rightarrow> pins \<Rightarrow> pins \<times> unit rust" where
  "load_programs k device properties path pins =
     (case prepare_object k path device properties of
        Ok (loader, object, metadata) \<Rightarrow>
          commit_object k loader object metadata device (get_bpffs_path (ud_sysname device) (file_stem path)) pins
      | Err \<Rightarrow> (pins, Err)
      | Panic \<Rightarrow> (pins, Panic))"

section \<open>The commands\<close>

definition remove_bpf_objects :: "string \<Rightarrow> pins \<Rightarrow> pins" where
  "remove_bpf_objects sysname pins = remove_dir_all (get_bpffs_path sysname '''') pins"

text \<open>One device of \<open>add\<close>: the object files given, or those its properties name.\<close>

definition add_device ::
    "kernel \<Rightarrow> file_system \<Rightarrow> (string \<times> string) list \<Rightarrow> string list \<Rightarrow> string list \<Rightarrow> (string \<times> string) list \<Rightarrow>
     hid_udev \<Rightarrow> pins \<Rightarrow> pins \<times> unit rust" where
  "add_device k fs vars target_bpf_dirs objfiles properties dev pins =
     (if objfiles = [] then
        (if \<not> list_ex (\<lambda>p. fst p = ''HID_BPF_IGNORE_DEVICE'') (ud_properties dev) then
           load_bpf_files (load_programs k dev properties)
             (search_for_matching_objfiles fs (ud_properties dev) vars target_bpf_dirs) pins
         else (pins, Ok ()))
      else
        (let bpf_files = find_named_objfiles fs objfiles target_bpf_dirs in
         if bpf_files = [] then (pins, Ok ())
         else load_bpf_files (load_programs k dev properties) bpf_files pins))"

end
