(* ===== verification/Loader_Effects.thy ===== *)
theory Loader_Effects
  imports Object_Loader
begin

text \<open>
  What the commands do to the bpf file system: the names of its directories, the pins of one object, \<open>add\<close> as the
  loading of one version of each program, and \<open>remove\<close> as its inverse.
\<close>

section \<open>Names\<close>

lemma split_once_None: "c \<notin> set s \<Longrightarrow> split_once c s = None"
  by (induction s) auto

lemma fmt_0X_notin [simp]:
  "CHR '':'' \<notin> set (fmt_0X w n)" "CHR ''.'' \<notin> set (fmt_0X w n)" "CHR ''_'' \<notin> set (fmt_0X w n)" "CHR ''/'' \<notin> set (fmt_0X w n)"
  by (rule fmt_0X_chars; simp)+

lemma replace_colon_dot_id: "CHR '':'' \<notin> set s \<Longrightarrow> CHR ''.'' \<notin> set s \<Longrightarrow> replace_colon_dot s = s"
  unfolding replace_colon_dot_def by (rule map_idI) auto

lemma replace_colon_dot_append [simp]: "replace_colon_dot (s @ t) = replace_colon_dot s @ replace_colon_dot t"
  by (simp add: replace_colon_dot_def)

lemma replace_colon_dot_Cons [simp]:
  "replace_colon_dot (c # s) = (if c = CHR '':'' \<or> c = CHR ''.'' then CHR ''_'' else c) # replace_colon_dot s"
  by (simp add: replace_colon_dot_def)

lemma replace_colon_dot_fmt [simp]: "replace_colon_dot (fmt_0X w n) = fmt_0X w n"
  by (rule replace_colon_dot_id) simp_all

text \<open>
  The directory of a device in the bpf file system stands for the device: from the name the kernel gives it the loader
  gets the directory, from the directory \<open>list-loaded\<close> gets the name back, and the number of the device is read from it.
\<close>

theorem bpffs_name_roundtrip:
  "bpffs_to_sysname (sysname_to_bpffs (kernel_sysname b v p i)) = kernel_sysname b v p i \<and>
   (b < 2 ^ 16 \<and> v < 2 ^ 16 \<and> p < 2 ^ 16 \<and> i < 2 ^ 32 \<longrightarrow>
      device_id \<lparr>ud_sysname = kernel_sysname b v p i, ud_syspath = syspath, ud_properties = props\<rparr> = Ok (word_of_nat i))"
proof (intro conjI impI)
  have "sysname_to_bpffs (kernel_sysname b v p i) =
      fmt_0X 4 b @ CHR ''_'' # fmt_0X 4 v @ CHR ''_'' # fmt_0X 4 p @ CHR ''_'' # fmt_0X 4 i"
    by (simp add: sysname_to_bpffs_def kernel_sysname_def)
  then show "bpffs_to_sysname (sysname_to_bpffs (kernel_sysname b v p i)) = kernel_sysname b v p i"
    by (simp add: bpffs_to_sysname_def numeral_eq_Suc split_once_append split_once_None kernel_sysname_def)
  assume *: "b < 2 ^ 16 \<and> v < 2 ^ 16 \<and> p < 2 ^ 16 \<and> i < 2 ^ 32"
  then have len: "length (fmt_0X 4 b) = 4" "length (fmt_0X 4 v) = 4" "length (fmt_0X 4 p) = 4"
    by (simp_all add: length_fmt_0X)
  then have "drop 15 (kernel_sysname b v p i) = fmt_0X 4 i" by (simp add: kernel_sysname_def)
  moreover have "15 \<le> length (kernel_sysname b v p i)" using len by (simp add: kernel_sysname_def)
  ultimately show "device_id \<lparr>ud_sysname = kernel_sysname b v p i, ud_syspath = syspath, ud_properties = props\<rparr> = Ok (word_of_nat i)"
    using * by (simp add: device_id_def)
qed

section \<open>The pins of one directory\<close>

definition in_dir :: "string \<Rightarrow> string \<Rightarrow> bool" where
  "in_dir dir p \<longleftrightarrow> starts_with p (dir @ ''/'')"

definition apart :: "string \<Rightarrow> pins \<Rightarrow> bool" where
  "apart dir pins \<longleftrightarrow> list_all (\<lambda>p. \<not> below dir p) pins"

lemma starts_with_append [simp]: "starts_with (pre @ s) pre"
  by (simp add: starts_with_def)

lemma starts_withD: "starts_with s pre \<Longrightarrow> \<exists>t. s = pre @ t"
  unfolding starts_with_def by (metis append_take_drop_id)

lemma starts_with_shorter: "starts_with s (pre @ t) \<Longrightarrow> starts_with s pre"
  by (auto dest!: starts_withD)

lemma pin_name_in_dir [simp]: "in_dir dir (pin_name dir n)"
  by (simp add: in_dir_def pin_name_def starts_with_def)

lemma in_dir_below: "in_dir dir p \<Longrightarrow> below dir p"
  by (auto simp: in_dir_def below_def dest: starts_with_shorter)

lemma pin_path_cases:
  "pin_path k (pin_name dir n) pins = None \<or> pin_path k (pin_name dir n) pins = Some (pins @ [pin_name dir n])"
  by (simp add: pin_path_def)

lemma pin_path_frame:
  assumes "apart dir pins"
  shows "pin_path k (pin_name dir n) (pins @ q) = map_option ((@) pins) (pin_path k (pin_name dir n) q)"
proof -
  have "pin_name dir n \<notin> set pins" using assms in_dir_below [OF pin_name_in_dir] by (auto simp: apart_def list_all_iff)
  then show ?thesis by (simp add: pin_path_def)
qed

lemma remove_dir_frame: "apart dir pins \<Longrightarrow> remove_dir_all dir (pins @ q) = pins @ remove_dir_all dir q"
  by (simp add: remove_dir_all_def apart_def list_all_iff)

text \<open>The steps of the loading add pins in the directory of the object, or remove pins below it, and see no others.\<close>

lemma load_prog_frame:
  "apart dir pins \<Longrightarrow> load_prog k p hid dir (pins @ q) = apfst ((@) pins) (load_prog k p hid dir q)"
  by (auto simp: load_prog_def pin_path_frame split: option.split rust.split)

lemma load_progs_frame:
  assumes "apart dir pins"
  shows "load_progs k ps hid dir (pins @ q) = apfst ((@) pins) (load_progs k ps hid dir q)"
proof (induction ps arbitrary: q)
  case Nil
  then show ?case by simp
next
  case (Cons p ps)
  then show ?case
    by (auto simp: load_prog_frame [OF assms] split: prod.split rust.split)
qed

lemma attach_frame:
  assumes "apart dir pins"
  shows "attach_struct_ops_maps k obj ns dir (pins @ q) = apfst ((@) pins) (attach_struct_ops_maps k obj ns dir q)"
  by (induction ns arbitrary: q) (auto simp: pin_path_frame [OF assms] split: option.split)

lemma pin_map_names_frame:
  assumes "apart dir pins"
  shows "pin_map_names k ns dir (pins @ q) = apfst ((@) pins) (pin_map_names k ns dir q)"
  by (induction ns arbitrary: q) (auto simp: pin_path_frame [OF assms] split: option.split)

lemma attach_and_pin_frame:
  assumes "apart dir pins"
  shows "attach_and_pin k loader obj device dir (pins @ q) = apfst ((@) pins) (attach_and_pin k loader obj device dir q)"
  by (auto simp: attach_and_pin_def load_progs_frame [OF assms] attach_frame [OF assms]
      split: loader.split rust.split prod.split)

lemma commit_frame:
  assumes "apart dir pins"
  shows "commit_object k loader obj metadata device dir (pins @ q) = apfst ((@) pins) (commit_object k loader obj metadata device dir q)"
  by (auto simp: commit_object_def attach_and_pin_frame [OF assms] pin_maps_def pin_map_names_frame [OF assms]
      remove_dir_frame [OF assms] split: rust.split prod.split)

abbreviation (input) object_dir :: "hid_udev \<Rightarrow> string \<Rightarrow> string" where
  "object_dir device path \<equiv> get_bpffs_path (ud_sysname device) (file_stem path)"

lemma load_programs_frame:
  assumes "apart (object_dir device path) pins"
  shows "load_programs k device properties path pins =
    (pins @ fst (load_programs k device properties path []), snd (load_programs k device properties path []))"
  using commit_frame [OF assms, where q = "[]"]
  by (auto simp: load_programs_def prod_eq_iff split: rust.split prod.split)

text \<open>What it adds to a file system that is empty is all inside the directory of the object.\<close>

lemma pin_path_in:
  "pin_path k (pin_name dir n) q = Some q' \<Longrightarrow> list_all (in_dir dir) q \<Longrightarrow> list_all (in_dir dir) q'"
  by (auto simp: pin_path_def split: if_splits)

lemma load_progs_in: "list_all (in_dir dir) q \<Longrightarrow> list_all (in_dir dir) (fst (load_progs k ps hid dir q))"
  by (induction ps arbitrary: q)
     (auto simp: load_prog_def case_prod_beta dest: pin_path_in split: option.split rust.split)

lemma attach_in: "list_all (in_dir dir) q \<Longrightarrow> list_all (in_dir dir) (fst (attach_struct_ops_maps k obj ns dir q))"
  by (induction ns arbitrary: q) (auto dest: pin_path_in split: option.split)

lemma pin_map_names_in: "list_all (in_dir dir) q \<Longrightarrow> list_all (in_dir dir) (fst (pin_map_names k ns dir q))"
  by (induction ns arbitrary: q) (auto dest: pin_path_in split: option.split)

lemma attach_and_pin_in:
  assumes "list_all (in_dir dir) q"
  shows "list_all (in_dir dir) (fst (attach_and_pin k loader obj device dir q))"
proof -
  have "load_progs k ps hid dir q = (q', attached) \<Longrightarrow> list_all (in_dir dir) q'" for ps hid q' attached
    using load_progs_in [OF assms, of k ps hid] by simp
  then show ?thesis using assms attach_in [OF assms]
    by (auto simp: attach_and_pin_def split: loader.split rust.split prod.split)
qed

lemma commit_in:
  assumes "list_all (in_dir dir) q"
  shows "list_all (in_dir dir) (fst (commit_object k loader obj metadata device dir q))"
proof -
  have 1: "attach_and_pin k loader obj device dir q = (q1, r) \<Longrightarrow> list_all (in_dir dir) q1" for q1 r
    using attach_and_pin_in [OF assms, of k loader obj device] by simp
  moreover have "pin_maps k obj dir q1 = (q2, r) \<Longrightarrow> list_all (in_dir dir) q1 \<Longrightarrow> list_all (in_dir dir) q2" for q1 q2 r
    using pin_map_names_in [of dir q1 k "shared_map_names obj"] by (simp add: pin_maps_def)
  moreover have "list_all (in_dir dir) q2 \<Longrightarrow> list_all (in_dir dir) (remove_dir_all dir q2)" for q2
    by (auto simp: remove_dir_all_def list_all_iff)
  ultimately show ?thesis by (auto simp: commit_object_def split: rust.split prod.split)
qed

lemma load_programs_in:
  "list_all (in_dir (object_dir device path)) (fst (load_programs k device properties path []))"
  using commit_in [where q = "[]"] by (auto simp: load_programs_def split: rust.split prod.split)

text \<open>The directories of different objects are apart.\<close>

lemma below_get_bpffs_path:
  "replace_colon_dot obj \<noteq> [] \<Longrightarrow> CHR ''/'' \<notin> set obj \<Longrightarrow>
     below (get_bpffs_path sysname obj) p \<longleftrightarrow> in_dir (get_bpffs_path sysname obj) p"
proof -
  assume *: "replace_colon_dot obj \<noteq> []" "CHR ''/'' \<notin> set obj"
  have "CHR ''/'' \<notin> set (replace_colon_dot obj)" using *(2) by (auto simp: replace_colon_dot_def)
  then have "last (replace_colon_dot obj) \<noteq> CHR ''/''" using last_in_set [OF *(1)] by metis
  then show ?thesis using *(1) by (simp add: below_def in_dir_def get_bpffs_path_def)
qed

lemma in_dir_disjoint:
  assumes "in_dir (get_bpffs_path sysname obj) p" "in_dir (get_bpffs_path sysname obj') p"
    and "CHR ''/'' \<notin> set obj" "CHR ''/'' \<notin> set obj'"
  shows "replace_colon_dot obj = replace_colon_dot obj'"
proof -
  let ?a = "BPFFS_ROOT @ ''/'' @ sysname_to_bpffs sysname @ ''/''"
  obtain x y where x: "p = (?a @ replace_colon_dot obj @ ''/'') @ x" and y: "p = (?a @ replace_colon_dot obj' @ ''/'') @ y"
    using assms(1,2) by (force simp: in_dir_def get_bpffs_path_def dest!: starts_withD)
  then have "replace_colon_dot obj @ CHR ''/'' # x = replace_colon_dot obj' @ CHR ''/'' # y" by simp
  moreover have "CHR ''/'' \<notin> set (replace_colon_dot obj)" "CHR ''/'' \<notin> set (replace_colon_dot obj')"
    using assms(3,4) by (auto simp: replace_colon_dot_def)
  then have "takeWhile (\<lambda>c. c \<noteq> CHR ''/'') (replace_colon_dot obj @ CHR ''/'' # x) = replace_colon_dot obj"
    "takeWhile (\<lambda>c. c \<noteq> CHR ''/'') (replace_colon_dot obj' @ CHR ''/'' # y) = replace_colon_dot obj'"
    by (auto simp: takeWhile_append)
  ultimately show ?thesis by metis
qed

lemma file_stem_no_slash: "CHR ''/'' \<notin> set (file_stem path)"
proof -
  have name: "CHR ''/'' \<notin> set (file_name path)"
    unfolding file_name_def by (auto dest: set_takeWhileD)
  show ?thesis
  proof (cases "split_once (CHR ''.'') (rev (file_name path))")
    case None
    then show ?thesis using name by (simp add: file_stem_def Let_def)
  next
    case (Some r)
    then obtain a b where "rev (file_name path) = a @ CHR ''.'' # b" "r = (a, b)"
      using split_once_SomeD by (metis surj_pair)
    moreover from this have "set b \<subseteq> set (file_name path)" by (metis set_rev set_append set_subset_Cons le_supI2)
    ultimately show ?thesis using name Some by (auto simp: file_stem_def Let_def)
  qed
qed

lemma file_stem_Nil: "file_stem path = [] \<longleftrightarrow> file_name path = []"
proof -
  have "split_once c [] = None" for c by simp
  then show ?thesis by (auto simp: file_stem_def Let_def split: option.split)
qed

section \<open>What \<open>add\<close> leaves, and what \<open>remove\<close> takes away\<close>

definition other_pins :: "string \<Rightarrow> pins \<Rightarrow> pins" where
  "other_pins sysname pins = filter (\<lambda>p. \<not> starts_with p (get_bpffs_path sysname [])) pins"

lemma remove_bpf_objects_eq: "remove_bpf_objects sysname pins = other_pins sysname pins"
  by (simp add: remove_bpf_objects_def remove_dir_all_def other_pins_def below_def get_bpffs_path_def replace_colon_dot_def)

lemma object_dir_in_device: "starts_with p (get_bpffs_path sysname obj) \<Longrightarrow> starts_with p (get_bpffs_path sysname [])"
  unfolding get_bpffs_path_def replace_colon_dot_def by (rule starts_with_shorter [where t = "map _ obj"]) simp

lemma pin_path_other:
  assumes "pin_path k (pin_name (get_bpffs_path sysname obj) n) q = Some q'"
  shows "other_pins sysname q' = other_pins sysname q"
proof -
  have "starts_with (pin_name (get_bpffs_path sysname obj) n) (get_bpffs_path sysname [])"
    by (rule object_dir_in_device [of _ _ obj]) (simp add: pin_name_def)
  then show ?thesis using assms by (auto simp: pin_path_def other_pins_def split: if_splits)
qed

lemma load_progs_other:
  "other_pins sysname (fst (load_progs k ps hid (get_bpffs_path sysname obj) q)) = other_pins sysname q"
  by (induction ps arbitrary: q)
     (auto simp: load_prog_def case_prod_beta dest: pin_path_other split: option.split rust.split)

lemma attach_other:
  "other_pins sysname (fst (attach_struct_ops_maps k object ns (get_bpffs_path sysname obj) q)) = other_pins sysname q"
  by (induction ns arbitrary: q) (auto dest: pin_path_other split: option.split)

lemma pin_map_names_other:
  "other_pins sysname (fst (pin_map_names k ns (get_bpffs_path sysname obj) q)) = other_pins sysname q"
  by (induction ns arbitrary: q) (auto dest: pin_path_other split: option.split)

lemma attach_and_pin_other:
  "other_pins sysname (fst (attach_and_pin k loader object device (get_bpffs_path sysname obj) q)) = other_pins sysname q"
  by (auto simp: attach_and_pin_def case_prod_beta load_progs_other attach_other split: loader.split rust.split)

lemma remove_dir_other: "other_pins sysname (remove_dir_all (get_bpffs_path sysname obj) q) = other_pins sysname q"
proof -
  have "below (get_bpffs_path sysname obj) p \<Longrightarrow> starts_with p (get_bpffs_path sysname [])" for p
    by (rule object_dir_in_device [of _ _ obj]) (auto simp: below_def dest: starts_with_shorter split: if_splits)
  then show ?thesis unfolding other_pins_def remove_dir_all_def filter_filter by (metis (mono_tags, lifting))
qed

lemma commit_other:
  "other_pins sysname (fst (commit_object k loader object metadata device (get_bpffs_path sysname obj) q)) = other_pins sysname q"
proof -
  have 1: "other_pins sysname q1 = other_pins sysname q"
    if "attach_and_pin k loader object device (get_bpffs_path sysname obj) q = (q1, r)" for q1 r
    using attach_and_pin_other [of sysname k loader object device obj q] that by simp
  have 2: "other_pins sysname q2 = other_pins sysname q1" if "pin_maps k object (get_bpffs_path sysname obj) q1 = (q2, r)" for q1 q2 r
    using pin_map_names_other [of sysname k "shared_map_names object" obj q1] that by (simp add: pin_maps_def)
  show ?thesis by (auto simp: commit_object_def remove_dir_other 1 2 split: rust.split prod.split)
qed

lemma load_programs_other:
  "other_pins (ud_sysname device) (fst (load_programs k device properties path pins)) = other_pins (ud_sysname device) pins"
  by (auto simp: load_programs_def commit_other split: rust.split prod.split)

lemma load_group_other:
  assumes "\<And>path pins. other_pins sysname (fst (load path pins)) = other_pins sysname pins"
  shows "other_pins sysname (fst (load_group load v pins)) = other_pins sysname pins"
proof (induction v arbitrary: pins)
  case Nil
  then show ?case by simp
next
  case (Cons p v)
  show ?case using assms [of p pins] Cons.IH by (auto split: prod.split rust.split)
qed

lemma load_bpf_files_other:
  assumes "\<And>path pins. other_pins sysname (fst (load path pins)) = other_pins sysname pins"
  shows "other_pins sysname (fst (load_bpf_files load paths pins)) = other_pins sysname pins"
proof -
  have "other_pins sysname (fst (load_groups load vs pins)) = other_pins sysname pins" for vs
  proof (induction vs arbitrary: pins)
    case Nil
    then show ?case by simp
  next
    case (Cons v vs)
    show ?case using load_group_other [where v = v and pins = pins and load = load, OF assms] Cons.IH by (auto split: prod.split rust.split)
  qed
  then show ?thesis by (simp add: load_bpf_files_def)
qed

lemma add_device_other: "other_pins (ud_sysname dev) (fst (add_device k fs vars dirs objfiles properties dev pins)) = other_pins (ud_sysname dev) pins"
  using load_bpf_files_other [of "ud_sysname dev" "load_programs k dev properties", OF load_programs_other]
  by (simp add: add_device_def Let_def)

text \<open>
  \<open>remove\<close> undoes \<open>add\<close>, whatever happened: after adding a device, with or without errors or a panic, removing it leaves
  exactly the pins that removing it before would have left, so nothing of the device and all of the others.
\<close>

theorem remove_undoes_add:
  "remove_bpf_objects (ud_sysname dev) (fst (add_device k fs vars dirs objfiles properties dev pins)) =
     remove_bpf_objects (ud_sysname dev) pins"
  by (simp add: remove_bpf_objects_eq add_device_other)

section \<open>One object\<close>

lemma remove_dir_in: "list_all (in_dir dir) q \<Longrightarrow> remove_dir_all dir q = []"
  by (auto simp: remove_dir_all_def list_all_iff filter_empty_conv dest: in_dir_below)

text \<open>An object with at most one struct_ops map, and a kernel whose property maps can be read.\<close>

definition all_or_nothing :: "kernel \<Rightarrow> hid_udev \<Rightarrow> (string \<times> string) list \<Rightarrow> string \<Rightarrow> bool" where
  "all_or_nothing k device properties path \<longleftrightarrow>
     (case prepare_object k path device properties of
        Ok (loader, object, metadata) \<Rightarrow> loader = HidBPFStructOps \<and> length (struct_ops_names object) \<le> 1 \<and>
          list_all (\<lambda>m. k_lookup_ok k (m_name m)) (o_maps object)
      | _ \<Rightarrow> True)"

lemma rust_fold_total: "(\<And>x s. \<exists>s'. f x s = Ok s') \<Longrightarrow> \<exists>s'. rust_fold f xs s = Ok s'"
proof (induction xs arbitrary: s)
  case Nil
  then show ?case by simp
next
  case (Cons x xs)
  then obtain s1 where "f x s = Ok s1" by blast
  then show ?case using Cons by simp
qed

lemma read_maps_ok:
  assumes "list_all (\<lambda>m. lookup_ok (m_name m)) (o_maps object)"
  shows "\<exists>r. read_udev_property_maps lookup_ok object pms = Ok r"
  unfolding read_udev_property_maps_def
proof (rule rust_fold_total)
  fix pm result
  show "\<exists>s'. (case find (\<lambda>m. m_name m = ''UDEV_PROP_'' @ pm_name pm) (o_maps object) of
           None \<Rightarrow> Ok result
         | Some m \<Rightarrow>
             rust_bind (read_udev_property_map lookup_ok m) (\<lambda>r.
               case r of None \<Rightarrow> Ok result | Some v \<Rightarrow> Ok (result @ [(pm_name pm, v)]))) = Ok s'"
  proof (cases "find (\<lambda>m. m_name m = ''UDEV_PROP_'' @ pm_name pm) (o_maps object)")
    case None
    then show ?thesis by simp
  next
    case (Some m)
    then have "m \<in> set (o_maps object)" using find_Some_in [OF Some] by blast
    then have "lookup_ok (m_name m)" using assms unfolding list_all_iff by blast
    then show ?thesis using Some by (auto simp: read_udev_property_map_def Let_def split: list.split option.split)
  qed
qed

lemma commit_all_or_nothing:
  assumes "length (struct_ops_names object) \<le> 1" "list_all (\<lambda>m. k_lookup_ok k (m_name m)) (o_maps object)"
    and "snd (commit_object k HidBPFStructOps object metadata device dir []) \<noteq> Ok ()"
  shows "fst (commit_object k HidBPFStructOps object metadata device dir []) = []"
proof -
  obtain r where r: "read_udev_property_maps (k_lookup_ok k) object (udev_property_maps metadata) = Ok r"
    using read_maps_ok [where lookup_ok = "k_lookup_ok k", OF assms(2)] by blast
  obtain q1 r1 where a: "attach_struct_ops_maps k object (struct_ops_names object) dir [] = (q1, r1)" by (metis surj_pair)
  obtain q2 r2 where p: "pin_maps k object dir q1 = (q2, r2)" by (metis surj_pair)
  have "q1 = []" if "r1 \<noteq> Ok ()"
    using a that assms(1) by (cases "struct_ops_names object") (auto split: if_splits option.splits)
  moreover have "list_all (in_dir dir) q1" using attach_in [of dir "[]" k object "struct_ops_names object"] a by simp
  then have "remove_dir_all dir q2 = []"
    using pin_map_names_in [of dir q1 k "shared_map_names object"] p by (intro remove_dir_in) (simp add: pin_maps_def)
  ultimately show ?thesis using assms(3) a r p
    by (cases r1; cases r2) (simp_all add: commit_object_def attach_and_pin_def)
qed

lemma load_programs_all_or_nothing:
  assumes "all_or_nothing k device properties path" "snd (load_programs k device properties path []) \<noteq> Ok ()"
  shows "fst (load_programs k device properties path []) = []"
proof (cases "prepare_object k path device properties")
  case (Ok r)
  then obtain object metadata where "r = (HidBPFStructOps, object, metadata)" "length (struct_ops_names object) \<le> 1"
    "list_all (\<lambda>m. k_lookup_ok k (m_name m)) (o_maps object)"
    using assms(1) by (cases r) (auto simp: all_or_nothing_def)
  then show ?thesis using assms(2) Ok commit_all_or_nothing by (simp add: load_programs_def)
qed (simp_all add: load_programs_def)


section \<open>A device\<close>

lemma object_dir_fresh:
  assumes "file_name path \<noteq> []" "apart (object_dir device path) pins"
    and "replace_colon_dot (file_stem path') \<noteq> replace_colon_dot (file_stem path)"
  shows "apart (object_dir device path) (pins @ fst (load_programs k device properties path' []))"
proof -
  have "replace_colon_dot (file_stem path) \<noteq> []" using assms(1) by (simp add: replace_colon_dot_def file_stem_Nil)
  note below = below_get_bpffs_path [OF this file_stem_no_slash]
  have apart: "\<not> below (object_dir device path) p" if "in_dir (object_dir device path') p" for p
  proof
    assume "below (object_dir device path) p"
    then have "in_dir (object_dir device path) p" unfolding below .
    from in_dir_disjoint [OF this that file_stem_no_slash file_stem_no_slash] show False using assms(3) by simp
  qed
  have "list_all (in_dir (object_dir device path')) (fst (load_programs k device properties path' []))"
    by (rule load_programs_in)
  then have "apart (object_dir device path) (fst (load_programs k device properties path' []))"
    unfolding apart_def list_all_iff using apart by blast
  then show ?thesis using assms(2) by (simp add: apart_def)
qed

text \<open>The object loader keeps the promises the loop over the versions relies on.\<close>

interpretation objects: object_loading
    "load_programs k device properties" "\<lambda>path. snd (load_programs k device properties path [])"
    "\<lambda>path pins. pins @ fst (load_programs k device properties path [])"
    "\<lambda>path pins. file_name path \<noteq> [] \<and> apart (object_dir device path) pins"
    "\<lambda>path. replace_colon_dot (file_stem path)"
  for k device properties
proof (unfold_locales, goal_cases)
  case (1 path pins)
  then show ?case by (simp add: load_programs_frame)
next
  case (2 path pins path')
  then show ?case by (blast intro: object_dir_fresh)
qed

definition object_outcome :: "kernel \<Rightarrow> hid_udev \<Rightarrow> (string \<times> string) list \<Rightarrow> string \<Rightarrow> unit rust" where
  "object_outcome k device properties path = snd (load_programs k device properties path [])"

definition object_pins :: "kernel \<Rightarrow> hid_udev \<Rightarrow> (string \<times> string) list \<Rightarrow> string \<Rightarrow> pins" where
  "object_pins k device properties path = fst (load_programs k device properties path [])"

lemma load_files_best:
  assumes "distinct (map (\<lambda>path. replace_colon_dot (file_stem path)) paths)"
    and "list_all (\<lambda>path. file_name path \<noteq> [] \<and> apart (get_bpffs_path (ud_sysname device) (file_stem path)) pins \<and>
           all_or_nothing k device properties path \<and> object_outcome k device properties path \<noteq> Panic) paths"
  shows "\<exists>chosen. load_bpf_files (load_programs k device properties) paths pins =
      (pins @ concat (map (object_pins k device properties) chosen), Ok ()) \<and>
    list_all (best_version (accepted (object_outcome k device properties)) paths) chosen \<and>
    sorted_wrt (<) (map stem_of chosen) \<and>
    list_all (\<lambda>q. accepted (object_outcome k device properties) q \<longrightarrow> stem_of q \<in> stem_of ` set chosen) paths"
proof -
  let ?outcome = "object_outcome k device properties"
  let ?chosen = "List.map_filter (find (accepted ?outcome)) (sort_by_stem paths)"
  have eq: "(\<lambda>path. snd (load_programs k device properties path [])) = ?outcome"
    by (simp add: object_outcome_def fun_eq_iff)
  have fold: "fold (\<lambda>path pins. pins @ fst (load_programs k device properties path [])) ps pins =
      pins @ concat (map (object_pins k device properties) ps)" for ps pins
    by (induction ps arbitrary: pins) (simp_all add: object_pins_def)
  have "load_bpf_files (load_programs k device properties) paths pins =
      (fold (\<lambda>path pins. pins @ fst (load_programs k device properties path [])) ?chosen pins, Ok ())"
  proof (rule objects.load_files_accepted [of paths device pins k properties, unfolded eq])
    show "distinct (map (\<lambda>path. replace_colon_dot (file_stem path)) paths)" by (rule assms(1))
    show "list_all (\<lambda>p. (file_name p \<noteq> [] \<and> apart (object_dir device p) pins) \<and>
        snd (load_programs k device properties p []) \<noteq> Panic) paths"
      using assms(2) by (auto simp: list_all_iff object_outcome_def)
    show "pins @ fst (load_programs k device properties path []) = pins"
      if "path \<in> set paths" "\<not> accepted ?outcome path" for path pins
      using that assms(2) load_programs_all_or_nothing [of k device properties path]
      by (simp add: list_all_iff accepted_def object_outcome_def)
  qed
  then show ?thesis
    using attached_best [where accepts = "accepted ?outcome" and paths = paths] unfolding fold list_all_iff by blast
qed


section \<open>An example: a kernel, an object and a device\<close>

text \<open>A kernel that accepts everything, and an object with one struct_ops map and one other map.\<close>

definition example_object :: bpf_object where
  "example_object =
     \<lparr>o_maps = [\<lparr>m_name = ''ops'', m_struct_ops = True, m_value_size = 8, m_values = [], m_initial = Some [0, 0, 0, 0, 7]\<rparr>,
                \<lparr>m_name = ''state'', m_struct_ops = False, m_value_size = 4, m_values = [[0, 0, 0, 0]], m_initial = None\<rparr>],
      o_progs = []\<rparr>"

definition example_kernel :: kernel where
  "example_kernel =
     \<lparr>k_read = \<lambda>_. Some [5, 1], k_open = \<lambda>_. Some (example_object, []), k_load = Some,
      k_update_ok = \<lambda>_. True, k_lookup_ok = \<lambda>_. True, k_layout_ok = \<lambda>_. True, k_parse = \<lambda>_. None, k_rest = 0,
      k_run_probe = \<lambda>_ a. Some a, k_attach_struct_ops = \<lambda>_ _. True, k_pin = \<lambda>_. True, k_skel_open = True, k_skel_load = True,
      k_syscall_ok = True,
      k_prog_fd = \<lambda>_. 3, k_attach_prog = \<lambda>_ _ _. - 22\<rparr>"

definition example_device :: "(string \<times> string) list \<Rightarrow> hid_udev" where
  "example_device props = \<lparr>ud_sysname = kernel_sysname 3 0x256C 0x66 8, ud_syspath = ''/sys/dev'', ud_properties = props\<rparr>"

lemma example_load:
  "all_or_nothing example_kernel (example_device props) [] path"
  "load_programs example_kernel (example_device props) [] path [] =
     (map (pin_name (get_bpffs_path (kernel_sysname 3 0x256C 0x66 8) (file_stem path))) [''ops'', ''state''], Ok ())"
proof -
  have id: "device_id (example_device props) = Ok 8"
    by (simp add: example_device_def device_id_def kernel_sysname_def length_fmt_0X)
  have prep: "\<exists>obj md. prepare_object example_kernel path (example_device props) [] = Ok (HidBPFStructOps, obj, md) \<and>
      struct_ops_names obj = [''ops''] \<and> shared_map_names obj = [''state''] \<and> udev_property_maps md = []"
    by (simp add: prepare_object_def example_kernel_def example_object_def get_bpf_loader_def loader_load_def id set_hid_id_def
        write_slice_def u32_bytes_def bpf_metadata_from_btf_def get_udev_properties_metadata_def extract_variables_metadata_def
        get_report_descriptor_metadata_def get_udev_property_maps_metadata_def inject_udev_properties_def Let_def
        inject_udev_properties_in_array_def inject_udev_properties_to_maps_def inject_report_descriptor_def has_report_descriptor_def
        loader_probe_def struct_ops_names_def shared_map_names_def)
  then show "all_or_nothing example_kernel (example_device props) [] path"
    by (auto simp: all_or_nothing_def example_kernel_def list_all_iff)
  show "load_programs example_kernel (example_device props) [] path [] =
     (map (pin_name (get_bpffs_path (kernel_sysname 3 0x256C 0x66 8) (file_stem path))) [''ops'', ''state''], Ok ())"
    using prep by (auto simp: load_programs_def commit_object_def attach_and_pin_def pin_maps_def pin_path_def
        read_udev_property_maps_def example_kernel_def example_device_def pin_name_def)
qed

lemma example_outcome: "object_outcome example_kernel (example_device props) [] path = Ok ()"
  by (simp add: object_outcome_def example_load)



theorem bpffs_name_roundtrip_witness:
  "device_id \<lparr>ud_sysname = kernel_sysname 3 0x256C 0x66 8, ud_syspath = [], ud_properties = []\<rparr> = Ok 8"
  using bpffs_name_roundtrip [of 3 "0x256C" "0x66" 8 "[]" "[]"] by simp

end
