(* ===== verification/Loader_Commands.thy ===== *)
theory Loader_Commands
  imports Loader_Effects Device_Match
begin

text \<open>
  The commands \<open>add\<close> and \<open>remove\<close> of \<open>main.rs\<close> as the user gives them: the paths of devices and object files, the search for
  the devices of an object file, and the loops over the devices. What udev and the file system answer is a record; \<open>add\<close> and
  \<open>remove\<close> of a plugged and of an unplugged device are different records.
\<close>

section \<open>Devices\<close>

datatype io_error = ENODEV | Other_Error

text \<open>
  \<open>e_device\<close> is \<open>from_syspath\<close> of the udev library, \<open>e_parent\<close> its \<open>parent_with_subsystem\<close> for \<open>hid\<close>, \<open>e_devices\<close> the entries of
  \<open>/sys/bus/hid/devices\<close>, \<open>e_modaliases\<close> what \<open>inspect\<close> reads from the BTF of an object file.
\<close>

record environment =
  e_exists :: "string \<Rightarrow> bool"
  e_device :: "string \<Rightarrow> io_error + hid_udev"
  e_parent :: "hid_udev \<Rightarrow> io_error + hid_udev option"
  e_read_link :: "string \<Rightarrow> string option"
  e_devices :: "string list option"
  e_modaliases :: "string \<Rightarrow> modalias list option"

definition from_syspath :: "environment \<Rightarrow> string \<Rightarrow> io_error + hid_udev" where
  "from_syspath env syspath =
     (case e_device env syspath of
        Inl e \<Rightarrow> Inl e
      | Inr device \<Rightarrow>
          if map_of (ud_properties device) ''SUBSYSTEM'' = Some ''hid'' then Inr device
          else
            (case e_parent env device of
               Inl e \<Rightarrow> Inl e
             | Inr None \<Rightarrow> Inl Other_Error
             | Inr (Some parent) \<Rightarrow> Inr parent))"

definition name_char :: "char \<Rightarrow> bool" where
  "name_char c \<longleftrightarrow> (CHR ''A'' \<le> c \<and> c \<le> CHR ''Z'') \<or> (CHR ''0'' \<le> c \<and> c \<le> CHR ''9'')"

text \<open>The regular expression of \<open>sysname_from_syspath\<close>: four groups of four letters or digits. It is not anchored.\<close>

definition name_at :: "string \<Rightarrow> bool" where
  "name_at s \<longleftrightarrow> length s \<ge> 19 \<and> list_all (\<lambda>i. name_char (s ! i)) [0, 1, 2, 3, 5, 6, 7, 8, 10, 11, 12, 13, 15, 16, 17, 18] \<and>
     s ! 4 = CHR '':'' \<and> s ! 9 = CHR '':'' \<and> s ! 14 = CHR ''.''"

definition sysname_from_syspath :: "environment \<Rightarrow> string \<Rightarrow> string option" where
  "sysname_from_syspath env syspath =
     (let abspath = (case e_read_link env syspath of Some p \<Rightarrow> p | None \<Rightarrow> syspath);
          name = file_name abspath in
      if name \<noteq> [] \<and> list_ex (\<lambda>k. name_at (drop k name)) [0..<Suc (length name)] then Some name else None)"

section \<open>remove\<close>

definition removed_name :: "environment \<Rightarrow> string \<Rightarrow> string option" where
  "removed_name env syspath =
     (case from_syspath env syspath of
        Inr dev \<Rightarrow> Some (ud_sysname dev)
      | Inl ENODEV \<Rightarrow> sysname_from_syspath env syspath
      | Inl Other_Error \<Rightarrow> None)"

fun cmd_remove :: "environment \<Rightarrow> string list \<Rightarrow> pins \<Rightarrow> pins \<times> unit rust" where
  "cmd_remove env [] pins = (pins, Ok ())"
| "cmd_remove env (syspath # syspaths) pins =
     (case removed_name env syspath of
        None \<Rightarrow> (pins, Err)
      | Some sysname \<Rightarrow> cmd_remove env syspaths (remove_bpf_objects sysname pins))"

section \<open>add\<close>

record loader_context =
  lc_kernel :: kernel
  lc_files :: file_system
  lc_vars :: "(string \<times> string) list"
  lc_default_dirs :: "string list"

fun add_devices ::
    "environment \<Rightarrow> loader_context \<Rightarrow> string list \<Rightarrow> string list \<Rightarrow> (string \<times> string) list \<Rightarrow> string list \<Rightarrow> pins \<Rightarrow> pins \<times> unit rust" where
  "add_devices env c dirs objfiles properties [] pins = (pins, Ok ())"
| "add_devices env c dirs objfiles properties (syspath # syspaths) pins =
     (case from_syspath env syspath of
        Inl e \<Rightarrow> (pins, Err)
      | Inr dev \<Rightarrow>
          (case add_device (lc_kernel c) (lc_files c) (lc_vars c) dirs objfiles properties dev pins of
             (pins', Ok _) \<Rightarrow> add_devices env c dirs objfiles properties syspaths pins'
           | (pins', r) \<Rightarrow> (pins', r)))"

definition cmd_add ::
    "environment \<Rightarrow> loader_context \<Rightarrow> string list \<Rightarrow> string list \<Rightarrow> string option \<Rightarrow> (string \<times> string) list \<Rightarrow> pins \<Rightarrow> pins \<times> unit rust" where
  "cmd_add env c devices objfiles bpfdir properties pins =
     (if list_ex (\<lambda>p. \<not> e_exists env p) devices then (pins, Err)
      else
        (let target_bpf_dirs = (case bpfdir of Some d \<Rightarrow> [d] | None \<Rightarrow> []) @ lc_default_dirs c in
         if objfiles = [] \<and> \<not> list_ex (fs_exists (lc_files c)) target_bpf_dirs then (pins, Err)
         else add_devices env c target_bpf_dirs objfiles properties devices pins))"

section \<open>The devices of an object file\<close>

definition hex_without_prefix :: "string \<Rightarrow> string" where
  "hex_without_prefix s = (case strip_prefix ''0x'' s of Some r \<Rightarrow> r | None \<Rightarrow> s)"

definition device_vid_pid_name :: "inspection_device \<Rightarrow> string" where
  "device_vid_pid_name device =
     hex_without_prefix (ins_bus device) @ '':'' @ hex_without_prefix (ins_vid device) @ '':'' @ hex_without_prefix (ins_pid device) @ ''.''"

text \<open>The map from object files to devices, in the order of the first insertion (that of the source is not defined).\<close>

type_synonym device_map = "(string \<times> string list) list"

fun push_device :: "string \<Rightarrow> string \<Rightarrow> device_map \<Rightarrow> device_map" where
  "push_device objfile d [] = [(objfile, [d])]"
| "push_device objfile d ((f, ds) # m) = (if f = objfile then (f, ds @ [d]) # m else (f, ds) # push_device objfile d m)"

definition objfile_devices :: "string list \<Rightarrow> inspection_device list \<Rightarrow> string list" where
  "objfile_devices devices idata =
     concat (map (\<lambda>d. map (\<lambda>_. d) (filter (\<lambda>prefix. starts_with (file_name d) prefix) (map device_vid_pid_name idata))) devices)"

fun inspect_all :: "environment \<Rightarrow> string list \<Rightarrow> inspection_device list list option" where
  "inspect_all env [] = Some []"
| "inspect_all env (f # fs) =
     (case e_modaliases env f of
        None \<Rightarrow> None
      | Some ms \<Rightarrow> map_option ((#) (map inspect_device ms)) (inspect_all env fs))"

definition find_sysfs_devices :: "environment \<Rightarrow> string list \<Rightarrow> device_map rust" where
  "find_sysfs_devices env objfiles =
     (case e_devices env of
        None \<Rightarrow> Err
      | Some devices \<Rightarrow>
          (case inspect_all env objfiles of
             None \<Rightarrow> Err
           | Some inspection_data \<Rightarrow>
               Ok (fold (\<lambda>(objfile, idata) m. fold (push_device objfile) (objfile_devices devices idata) m)
                     (zip objfiles inspection_data) [])))"

section \<open>The command line\<close>

datatype command =
    Add "string list" "string option" bool "(string \<times> string) list"
  | Remove "string list"

fun add_objects ::
    "environment \<Rightarrow> loader_context \<Rightarrow> device_map \<Rightarrow> string option \<Rightarrow> (string \<times> string) list \<Rightarrow> string list \<Rightarrow> pins \<Rightarrow> pins \<times> unit rust" where
  "add_objects env c object_device_map bpfdir properties [] pins = (pins, Ok ())"
| "add_objects env c object_device_map bpfdir properties (objfile # objfiles) pins =
     (case map_of object_device_map objfile of
        None \<Rightarrow> add_objects env c object_device_map bpfdir properties objfiles pins
      | Some devices \<Rightarrow>
          (case cmd_add env c devices [objfile] bpfdir properties pins of
             (pins', Ok _) \<Rightarrow> add_objects env c object_device_map bpfdir properties objfiles pins'
           | (pins', r) \<Rightarrow> (pins', r)))"

text \<open>The removal that \<open>--replace\<close> asks for before the adding.\<close>

definition replaced :: "environment \<Rightarrow> bool \<Rightarrow> string list \<Rightarrow> pins \<Rightarrow> pins \<times> unit rust" where
  "replaced env replace devices pins = (if replace then cmd_remove env devices pins else (pins, Ok ()))"

fun udev_hid_bpf :: "environment \<Rightarrow> loader_context \<Rightarrow> command \<Rightarrow> pins \<Rightarrow> pins \<times> unit rust" where
  "udev_hid_bpf env c (Remove devpaths) pins = cmd_remove env devpaths pins"
| "udev_hid_bpf env c (Add paths bpfdir replace properties) pins =
     (case split_paths paths of
        Some (devices, objfiles) \<Rightarrow>
          if devices = [] then
            (case find_sysfs_devices env objfiles of
               Ok object_device_map \<Rightarrow>
                 if object_device_map = [] then (pins, Err)
                 else
                   (case replaced env replace (concat (map snd object_device_map)) pins of
                      (pins', Ok _) \<Rightarrow> add_objects env c object_device_map bpfdir properties objfiles pins'
                    | r \<Rightarrow> r)
             | Err \<Rightarrow> (pins, Err)
             | Panic \<Rightarrow> (pins, Panic))
          else
            (case replaced env replace devices pins of
               (pins', Ok _) \<Rightarrow> cmd_add env c devices objfiles bpfdir properties pins'
             | r \<Rightarrow> r)
      | None \<Rightarrow> (pins, Err))"

section \<open>remove undoes add\<close>

text \<open>The pins that are in the directory of none of the devices.\<close>

definition pins_without :: "string list \<Rightarrow> pins \<Rightarrow> pins" where
  "pins_without sysnames pins = filter (\<lambda>p. \<forall>n \<in> set sysnames. \<not> starts_with p (get_bpffs_path n [])) pins"

lemma pins_without_simps:
  "pins_without [] pins = pins"
  "pins_without (n # ns) pins = pins_without ns (other_pins n pins)"
  by (auto simp: pins_without_def other_pins_def intro: filter_cong)

lemma pins_without_other: "n \<in> set ns \<Longrightarrow> other_pins n pins = other_pins n pins' \<Longrightarrow> pins_without ns pins = pins_without ns pins'"
proof -
  assume n: "n \<in> set ns" and eq: "other_pins n pins = other_pins n pins'"
  have "pins_without ns q = pins_without ns (other_pins n q)" for q
    using n unfolding pins_without_def other_pins_def filter_filter by (metis (mono_tags, lifting))
  with eq show ?thesis by metis
qed

lemma cmd_remove_eq:
  assumes "list_all2 (\<lambda>p n. removed_name env p = Some n) devices sysnames"
  shows "cmd_remove env devices pins = (pins_without sysnames pins, Ok ())"
  using assms by (induction devices sysnames arbitrary: pins rule: list_all2_induct)
    (simp_all add: pins_without_simps remove_bpf_objects_eq)

lemma add_devices_without:
  assumes "list_all2 (\<lambda>p n. \<exists>dev. from_syspath env p = Inr dev \<and> ud_sysname dev = n) devices sysnames" "set sysnames \<subseteq> set ns"
  shows "pins_without ns (fst (add_devices env c dirs objfiles properties devices pins)) = pins_without ns pins"
  using assms
proof (induction devices sysnames arbitrary: pins rule: list_all2_induct)
  case (Cons p ps n sysnames)
  then obtain dev where dev: "from_syspath env p = Inr dev" "ud_sysname dev = n" by blast
  let ?r = "add_device (lc_kernel c) (lc_files c) (lc_vars c) dirs objfiles properties dev pins"
  have "pins_without ns (fst ?r) = pins_without ns pins"
    using Cons.prems dev(2) by (intro pins_without_other [of n]) (auto simp: add_device_other)
  then show ?case using Cons.IH [of "fst ?r"] Cons.prems dev(1) by (auto split: prod.split rust.split)
qed simp

lemma name_char_hex: "k < 16 \<Longrightarrow> name_char (hex_char k)"
proof -
  have "list_all (\<lambda>k. name_char (hex_char k)) [0..<16]" by code_simp
  then show "k < 16 \<Longrightarrow> name_char (hex_char k)" by (simp add: list_all_iff)
qed

lemma name_char_fmt: "i < length (fmt_0X w n) \<Longrightarrow> name_char (fmt_0X w n ! i)"
  using fmt_0X_set [of "fmt_0X w n ! i" w n] name_char_hex by auto

lemma name_at_kernel:
  assumes "b < 2 ^ 16" "v < 2 ^ 16" "p < 2 ^ 16"
  shows "name_at (kernel_sysname b v p i)"
proof -
  have len: "length (fmt_0X 4 b) = 4" "length (fmt_0X 4 v) = 4" "length (fmt_0X 4 p) = 4" "4 \<le> length (fmt_0X 4 i)"
    using assms by (simp_all add: length_fmt_0X) (simp add: fmt_0X_def)
  have i: "name_char (fmt_0X 4 i ! j)" if "j < 4" for j using name_char_fmt [of j 4 i] len(4) that by simp
  show ?thesis
    using len name_char_fmt [of _ 4 b] name_char_fmt [of _ 4 v] name_char_fmt [of _ 4 p] i [of 0] i
    by (simp add: name_at_def kernel_sysname_def nth_append)
qed

text \<open>A device that had a kernel name when it was added, and is plugged or gone since.\<close>

definition still_named :: "environment \<Rightarrow> environment \<Rightarrow> string \<Rightarrow> bool" where
  "still_named env env' syspath \<longleftrightarrow>
     (\<exists>dev b v p i. from_syspath env syspath = Inr dev \<and> ud_sysname dev = kernel_sysname b v p i \<and> b < 2 ^ 16 \<and> v < 2 ^ 16 \<and> p < 2 ^ 16 \<and>
        (from_syspath env' syspath = Inr dev \<or>
         from_syspath env' syspath = Inl ENODEV \<and>
           file_name (case e_read_link env' syspath of Some t \<Rightarrow> t | None \<Rightarrow> syspath) = ud_sysname dev))"

lemma still_named_removed:
  assumes "still_named env env' syspath"
  shows "\<exists>dev. from_syspath env syspath = Inr dev \<and> removed_name env' syspath = Some (ud_sysname dev)"
proof -
  obtain dev b v p i where dev: "from_syspath env syspath = Inr dev" "ud_sysname dev = kernel_sysname b v p i"
      "b < 2 ^ 16" "v < 2 ^ 16" "p < 2 ^ 16" "from_syspath env' syspath = Inr dev \<or>
         from_syspath env' syspath = Inl ENODEV \<and>
           file_name (case e_read_link env' syspath of Some t \<Rightarrow> t | None \<Rightarrow> syspath) = ud_sysname dev"
    using assms unfolding still_named_def by blast
  have name: "name_at (ud_sysname dev)" using name_at_kernel dev(2-5) by simp
  then have "ud_sysname dev \<noteq> []" by (auto simp: name_at_def)
  moreover have "list_ex (\<lambda>k. name_at (drop k (ud_sysname dev))) [0..<Suc (length (ud_sysname dev))]"
    unfolding list_ex_iff using name by (intro bexI [of _ 0]) simp_all
  ultimately have "sysname_from_syspath env' syspath = Some (ud_sysname dev)"
    if "file_name (case e_read_link env' syspath of Some t \<Rightarrow> t | None \<Rightarrow> syspath) = ud_sysname dev"
    using that by (simp add: sysname_from_syspath_def Let_def del: upt_Suc)
  then show ?thesis using dev(1,6) by (auto simp: removed_name_def)
qed

text \<open>
  C7: \<open>remove\<close> undoes \<open>add\<close>, whatever happened: after adding devices, with object files or without, with or without errors or a
  panic half way, removing the same paths succeeds and leaves exactly the pins that removing them before would have left, also
  for devices that have been unplugged since: their directory is found by the name at the end of their path.
\<close>

theorem remove_command_undoes_add:
  assumes "list_all (still_named env env') devices"
  shows "snd (cmd_remove env' devices (fst (cmd_add env c devices objfiles bpfdir properties pins))) = Ok () \<and>
    fst (cmd_remove env' devices (fst (cmd_add env c devices objfiles bpfdir properties pins))) = fst (cmd_remove env' devices pins)"
proof -
  define name where "name p = the (removed_name env' p)" for p
  have *: "\<exists>dev. from_syspath env p = Inr dev \<and> ud_sysname dev = name p" "removed_name env' p = Some (name p)" if "p \<in> set devices" for p
    using still_named_removed [of env env' p] assms that by (auto simp: list_all_iff name_def)
  have remove: "list_all2 (\<lambda>p n. removed_name env' p = Some n) devices (map name devices)"
    and add: "list_all2 (\<lambda>p n. \<exists>dev. from_syspath env p = Inr dev \<and> ud_sysname dev = n) devices (map name devices)"
    using * by (simp_all add: list_all2_conv_all_nth)
  have "pins_without (map name devices) (fst (cmd_add env c devices objfiles bpfdir properties pins)) = pins_without (map name devices) pins"
    using add_devices_without [OF add subset_refl] by (simp add: cmd_add_def Let_def)
  then show ?thesis using cmd_remove_eq [OF remove] by simp
qed

section \<open>The devices an object file finds\<close>

definition devices_of :: "device_map \<Rightarrow> string \<Rightarrow> string list" where
  "devices_of m objfile = (case map_of m objfile of Some ds \<Rightarrow> ds | None \<Rightarrow> [])"

lemma devices_of_push: "devices_of (push_device objfile d m) f = devices_of m f @ (if f = objfile then [d] else [])"
  by (induction objfile d m rule: push_device.induct) (auto simp: devices_of_def)

lemma devices_of_pushes: "devices_of (fold (push_device objfile) ds m) f = devices_of m f @ (if f = objfile then ds else [])"
  by (induction ds arbitrary: m) (simp_all add: devices_of_push)

lemma devices_of_files:
  "devices_of (fold (\<lambda>(objfile, idata) m. fold (push_device objfile) (objfile_devices devices idata) m) xs m) f =
     devices_of m f @ concat (map (\<lambda>(objfile, idata). if f = objfile then objfile_devices devices idata else []) xs)"
  by (induction xs arbitrary: m) (auto simp: devices_of_pushes)

lemma inspect_all_zip:
  assumes "inspect_all env objfiles = Some data" "distinct objfiles" "f \<in> set objfiles" "e_modaliases env f = Some entries"
  shows "concat (map (\<lambda>(objfile, idata). if f = objfile then g idata else []) (zip objfiles data)) = g (map inspect_device entries)"
  using assms
proof (induction objfiles arbitrary: data)
  case (Cons x xs)
  obtain ms data' where d: "e_modaliases env x = Some ms" "inspect_all env xs = Some data'" "data = map inspect_device ms # data'"
    using Cons.prems(1) by (auto split: option.splits)
  have none: "concat (map (\<lambda>(objfile, idata). if x = objfile then g idata else []) (zip xs data')) = []"
    using Cons.prems(2) by (auto dest: set_zip_leftD)
  show ?case
  proof (cases "f = x")
    case True
    then show ?thesis using d none Cons.prems(4) by simp
  next
    case False
    then show ?thesis using Cons.IH [OF d(2)] Cons.prems(2-4) d(3) by simp
  qed
qed simp

lemma append_at_inject:
  assumes "c \<notin> set x" "c \<notin> set y"
  shows "x @ c # r = y @ c # s \<longleftrightarrow> x = y \<and> r = s"
  using assms by (induction x y rule: list_induct2') auto

lemma starts_with_iff: "starts_with s pre \<longleftrightarrow> (\<exists>r. s = pre @ r)"
  using starts_withD by auto

lemma prefix_of_entry:
  "starts_with (kernel_sysname b v p i) (device_vid_pid_name (inspect_device e)) \<longleftrightarrow>
     usize_of_bus (ma_bus e) = b \<and> unat (ma_vid e) = v \<and> unat (ma_pid e) = p"
proof -
  have colon: "CHR '':'' \<notin> set (fmt_0X w n)" "CHR ''.'' \<notin> set (fmt_0X w n)" for w n
    using fmt_0X_chars [of "CHR '':''" w n] fmt_0X_chars [of "CHR ''.''" w n] by auto
  have "device_vid_pid_name (inspect_device e) =
      fmt_0X 4 (usize_of_bus (ma_bus e)) @ CHR '':'' # fmt_0X 4 (unat (ma_vid e)) @ CHR '':'' # fmt_0X 4 (unat (ma_pid e)) @ ''.''"
    by (simp add: device_vid_pid_name_def inspect_device_def hex_without_prefix_def strip_prefix_def starts_with_def)
  then have "starts_with (kernel_sysname b v p i) (device_vid_pid_name (inspect_device e)) \<longleftrightarrow>
      (\<exists>r. kernel_sysname b v p i = fmt_0X 4 (usize_of_bus (ma_bus e)) @ CHR '':'' # fmt_0X 4 (unat (ma_vid e)) @ CHR '':'' #
         fmt_0X 4 (unat (ma_pid e)) @ CHR ''.'' # r)"
    by (simp add: starts_with_iff)
  also have "\<dots> \<longleftrightarrow> usize_of_bus (ma_bus e) = b \<and> unat (ma_vid e) = v \<and> unat (ma_pid e) = p"
    by (auto simp: kernel_sysname_def append_at_inject colon fmt_0X_inject)
  finally show ?thesis .
qed

lemma count_constant: "count_list (map (\<lambda>_. d') xs) d = (if d' = d then length xs else 0)"
  by (induction xs) auto

lemma count_objfile_devices:
  assumes "distinct devices" "d \<in> set devices"
  shows "count_list (objfile_devices devices idata) d =
    length (filter (\<lambda>x. starts_with (file_name d) (device_vid_pid_name x)) idata)"
  using assms
proof (induction devices)
  case (Cons x xs)
  have "count_list (objfile_devices xs idata) d = 0" if "d \<notin> set xs"
    using that by (auto simp: count_list_0_iff objfile_devices_def)
  then show ?case using Cons by (auto simp: objfile_devices_def count_constant filter_map comp_def)
qed simp


text \<open>A device, plugged and then gone, and a program with two entries for it that differ in the group.\<close>

definition example_path :: string where
  "example_path = ''/sys/bus/hid/devices/0003:256C:006D.0001''"

definition plugged :: environment where
  "plugged = \<lparr>e_exists = (\<lambda>_. True),
     e_device = (\<lambda>_. Inr \<lparr>ud_sysname = ''0003:256C:006D.0001'', ud_syspath = example_path, ud_properties = [(''SUBSYSTEM'', ''hid'')]\<rparr>),
     e_parent = (\<lambda>_. Inr None), e_read_link = (\<lambda>_. None), e_devices = Some [example_path],
     e_modaliases = (\<lambda>_. Some [\<lparr>ma_bus = Bus_USB, ma_group = Group_Any, ma_vid = 0x256c, ma_pid = 0x6d\<rparr>,
        \<lparr>ma_bus = Bus_USB, ma_group = Group_Generic, ma_vid = 0x256c, ma_pid = 0x6d\<rparr>])\<rparr>"

definition unplugged :: environment where
  "unplugged = plugged\<lparr>e_exists := (\<lambda>_. False), e_device := (\<lambda>_. Inl ENODEV), e_devices := Some []\<rparr>"

definition example_context :: loader_context where
  "example_context = \<lparr>lc_kernel = example_kernel, lc_files = \<lparr>fs_is_file = (\<lambda>_. True), fs_exists = (\<lambda>_. True)\<rparr>, lc_vars = [],
     lc_default_dirs = [''/lib/firmware/hid/bpf'']\<rparr>"

lemma example_name: "file_name example_path = kernel_sysname 3 0x256c 0x6d 1" "''0003:256C:006D.0001'' = kernel_sysname 3 0x256c 0x6d 1"
  by (simp_all add: file_name_def example_path_def kernel_sysname_def fmt_0X_def fmt_X.simps hex_char_def) (simp_all add: numeral_eq_Suc)

theorem remove_command_undoes_add_witness:
  "snd (cmd_remove unplugged [example_path] (fst (cmd_add plugged example_context [example_path] [] None [] []))) = Ok ()"
proof -
  have "still_named plugged unplugged example_path"
    unfolding still_named_def
    by (rule exI [of _ "projr (e_device plugged example_path)"], rule exI [of _ 3], rule exI [of _ "0x256c"], rule exI [of _ "0x6d"], rule exI [of _ 1])
      (simp add: plugged_def unplugged_def from_syspath_def example_name)
  then show ?thesis using remove_command_undoes_add [of plugged unplugged "[example_path]" example_context "[]" None "[]" "[]"] by simp
qed


end
