(* ===== verification/Device_Configs.thy ===== *)
theory Device_Configs
  imports Loader_Effects
begin

text \<open>
  \<open>HID_BPF_CONFIG\<close> of every program: the devices it declares, as the macros of \<open>hid_bpf_helpers.h\<close> put them into the BTF and
  the loader reads them. The stable programs of \<open>meson.build\<close>, and which of them a device gets.
\<close>

section \<open>The constants\<close>

abbreviation (input) BUS_ANY :: nat where "BUS_ANY \<equiv> 0x00"

abbreviation (input) BUS_PCI :: nat where "BUS_PCI \<equiv> 0x01"

abbreviation (input) BUS_ISAPNP :: nat where "BUS_ISAPNP \<equiv> 0x02"

abbreviation (input) BUS_USB :: nat where "BUS_USB \<equiv> 0x03"

abbreviation (input) BUS_HIL :: nat where "BUS_HIL \<equiv> 0x04"

abbreviation (input) BUS_BLUETOOTH :: nat where "BUS_BLUETOOTH \<equiv> 0x05"

abbreviation (input) BUS_VIRTUAL :: nat where "BUS_VIRTUAL \<equiv> 0x06"

abbreviation (input) BUS_ISA :: nat where "BUS_ISA \<equiv> 0x10"

abbreviation (input) BUS_I8042 :: nat where "BUS_I8042 \<equiv> 0x11"

abbreviation (input) BUS_XTKBD :: nat where "BUS_XTKBD \<equiv> 0x12"

abbreviation (input) BUS_RS232 :: nat where "BUS_RS232 \<equiv> 0x13"

abbreviation (input) BUS_GAMEPORT :: nat where "BUS_GAMEPORT \<equiv> 0x14"

abbreviation (input) BUS_PARPORT :: nat where "BUS_PARPORT \<equiv> 0x15"

abbreviation (input) BUS_AMIGA :: nat where "BUS_AMIGA \<equiv> 0x16"

abbreviation (input) BUS_ADB :: nat where "BUS_ADB \<equiv> 0x17"

abbreviation (input) BUS_I2C :: nat where "BUS_I2C \<equiv> 0x18"

abbreviation (input) BUS_HOST :: nat where "BUS_HOST \<equiv> 0x19"

abbreviation (input) BUS_GSC :: nat where "BUS_GSC \<equiv> 0x1a"

abbreviation (input) BUS_ATARI :: nat where "BUS_ATARI \<equiv> 0x1b"

abbreviation (input) BUS_SPI :: nat where "BUS_SPI \<equiv> 0x1c"

abbreviation (input) BUS_RMI :: nat where "BUS_RMI \<equiv> 0x1d"

abbreviation (input) BUS_CEC :: nat where "BUS_CEC \<equiv> 0x1e"

abbreviation (input) BUS_INTEL_ISHTP :: nat where "BUS_INTEL_ISHTP \<equiv> 0x1f"

abbreviation (input) BUS_AMD_SFH :: nat where "BUS_AMD_SFH \<equiv> 0x20"

abbreviation (input) HID_GROUP_ANY :: nat where "HID_GROUP_ANY \<equiv> 0x0000"

abbreviation (input) HID_GROUP_GENERIC :: nat where "HID_GROUP_GENERIC \<equiv> 0x0001"

abbreviation (input) HID_GROUP_MULTITOUCH :: nat where "HID_GROUP_MULTITOUCH \<equiv> 0x0002"

abbreviation (input) HID_GROUP_SENSOR_HUB :: nat where "HID_GROUP_SENSOR_HUB \<equiv> 0x0003"

abbreviation (input) HID_GROUP_MULTITOUCH_WIN_8 :: nat where "HID_GROUP_MULTITOUCH_WIN_8 \<equiv> 0x0004"

abbreviation (input) HID_GROUP_RMI :: nat where "HID_GROUP_RMI \<equiv> 0x0100"

abbreviation (input) HID_GROUP_WACOM :: nat where "HID_GROUP_WACOM \<equiv> 0x0101"

abbreviation (input) HID_GROUP_LOGITECH_DJ_DEVICE :: nat where "HID_GROUP_LOGITECH_DJ_DEVICE \<equiv> 0x0102"

abbreviation (input) HID_GROUP_STEAM :: nat where "HID_GROUP_STEAM \<equiv> 0x0103"

abbreviation (input) HID_GROUP_LOGITECH_27MHZ_DEVICE :: nat where "HID_GROUP_LOGITECH_27MHZ_DEVICE \<equiv> 0x0104"

abbreviation (input) HID_GROUP_VIVALDI :: nat where "HID_GROUP_VIVALDI \<equiv> 0x0105"

text \<open>The constants of the header by name, and the numbers the loader knows.\<close>

definition hid_buses :: "(string \<times> nat) list" where
  "hid_buses = [
     (''BUS_ANY'', 0x00), (''BUS_PCI'', 0x01), (''BUS_ISAPNP'', 0x02), (''BUS_USB'', 0x03),
     (''BUS_HIL'', 0x04), (''BUS_BLUETOOTH'', 0x05), (''BUS_VIRTUAL'', 0x06), (''BUS_ISA'', 0x10),
     (''BUS_I8042'', 0x11), (''BUS_XTKBD'', 0x12), (''BUS_RS232'', 0x13), (''BUS_GAMEPORT'', 0x14),
     (''BUS_PARPORT'', 0x15), (''BUS_AMIGA'', 0x16), (''BUS_ADB'', 0x17), (''BUS_I2C'', 0x18),
     (''BUS_HOST'', 0x19), (''BUS_GSC'', 0x1A), (''BUS_ATARI'', 0x1B), (''BUS_SPI'', 0x1C),
     (''BUS_RMI'', 0x1D), (''BUS_CEC'', 0x1E), (''BUS_INTEL_ISHTP'', 0x1F), (''BUS_AMD_SFH'', 0x20)]"

definition hid_groups :: "(string \<times> nat) list" where
  "hid_groups = [
     (''HID_GROUP_ANY'', 0x0000), (''HID_GROUP_GENERIC'', 0x0001), (''HID_GROUP_MULTITOUCH'', 0x0002), (''HID_GROUP_SENSOR_HUB'', 0x0003),
     (''HID_GROUP_MULTITOUCH_WIN_8'', 0x0004), (''HID_GROUP_RMI'', 0x0100), (''HID_GROUP_WACOM'', 0x0101), (''HID_GROUP_LOGITECH_DJ_DEVICE'', 0x0102),
     (''HID_GROUP_STEAM'', 0x0103), (''HID_GROUP_LOGITECH_27MHZ_DEVICE'', 0x0104), (''HID_GROUP_VIVALDI'', 0x0105)]"

text \<open>
  The programs and the loader agree on the buses and groups: the constants of the C header are exactly the numbers the
  enumerations of the loader accept.
\<close>

theorem header_constants_known:
  "(bus_try_from n \<noteq> None \<longleftrightarrow> n \<in> snd ` set hid_buses) \<and> (group_try_from n \<noteq> None \<longleftrightarrow> n \<in> snd ` set hid_groups)"
  by (simp add: bus_try_from_def group_try_from_def hid_buses_def hid_groups_def)

section \<open>The macro\<close>

text \<open>
  The arguments of \<open>HID_BPF_CONFIG\<close>: each is the structures in it, none at all after a trailing comma, two where a
  semicolon separates them. \<open>_NARGS\<close> picks the sixteenth of the
  arguments followed by the count down, and \<open>_EXPAND\<close> the macro of that number; there are fifteen of them.
\<close>

definition NARGS :: "'a list \<Rightarrow> nat option" where
  "NARGS args = (map (\<lambda>_. None) args @ map Some (rev [0..<16])) ! 15"

definition HID_BPF_CONFIG :: "btf_members list list \<Rightarrow> btf_members list option" where
  "HID_BPF_CONFIG args =
     (case NARGS args of
        Some n \<Rightarrow> if 1 \<le> n \<and> n \<le> 15 \<and> n = length args then Some (concat args) else None
      | None \<Rightarrow> None)"

lemma NARGS_length: "length args \<le> 15 \<Longrightarrow> NARGS args = Some (length args)"
proof -
  assume len: "length args \<le> 15"
  then have "NARGS args = Some (rev [0..<16] ! (15 - length args))" by (simp add: NARGS_def nth_append)
  also have "rev [0..<16] ! (15 - length args) = length args" using len by (subst rev_nth) simp_all
  finally show ?thesis .
qed

text \<open>What the loader reads from the BTF of a program.\<close>

definition modaliases :: "btf_members list \<Rightarrow> modalias list rust" where
  "modaliases types = rust_map modalias_from_btf types"

definition program_entries :: "btf_members list list \<Rightarrow> modalias list rust" where
  "program_entries args = rust_bind (map_err (HID_BPF_CONFIG args)) modaliases"

definition entry :: "bus \<Rightarrow> group \<Rightarrow> nat \<Rightarrow> nat \<Rightarrow> modalias" where
  "entry b g v p = \<lparr>ma_bus = b, ma_group = g, ma_vid = word_of_nat v, ma_pid = word_of_nat p\<rparr>"

section \<open>The programs\<close>

definition cfg_fr_tec_raptor_mach_2 :: "btf_members list list" where
  "cfg_fr_tec_raptor_mach_2 = [
     [HID_DEVICE BUS_USB HID_GROUP_GENERIC 0x11C0 0x5606],
     []]"

definition cfg_hp_elite_presenter :: "btf_members list list" where
  "cfg_hp_elite_presenter = [
     [HID_DEVICE BUS_BLUETOOTH HID_GROUP_GENERIC 0x03F0 0x464A]]"

definition cfg_huion_dial_2 :: "btf_members list list" where
  "cfg_huion_dial_2 = [
     [HID_DEVICE BUS_USB HID_GROUP_GENERIC 0x256C 0x0060],
     []]"

definition cfg_huion_inspiroy_2_m :: "btf_members list list" where
  "cfg_huion_inspiroy_2_m = [
     [HID_DEVICE BUS_USB HID_GROUP_GENERIC 0x256C 0x0067],
     []]"

definition cfg_huion_inspiroy_2_s :: "btf_members list list" where
  "cfg_huion_inspiroy_2_s = [
     [HID_DEVICE BUS_USB HID_GROUP_GENERIC 0x256C 0x0066],
     []]"

definition cfg_huion_kamvas13gen3 :: "btf_members list list" where
  "cfg_huion_kamvas13gen3 = [
     [HID_DEVICE BUS_USB HID_GROUP_ANY 0x256c 0x2008],
     []]"

definition cfg_huion_kamvas16gen3 :: "btf_members list list" where
  "cfg_huion_kamvas16gen3 = [
     [HID_DEVICE BUS_USB HID_GROUP_ANY 0x256c 0x2009],
     []]"

definition cfg_huion_keydialk20 :: "btf_members list list" where
  "cfg_huion_keydialk20 = [
     [HID_DEVICE BUS_USB HID_GROUP_GENERIC 0x256C 0x0069],
     []]"

definition cfg_iogear_kaliber_mmomentum :: "btf_members list list" where
  "cfg_iogear_kaliber_mmomentum = [
     [HID_DEVICE BUS_USB HID_GROUP_GENERIC 0x258A 0x0027]]"

definition cfg_logitech_spacenavigator :: "btf_members list list" where
  "cfg_logitech_spacenavigator = [
     [HID_DEVICE BUS_USB HID_GROUP_ANY 0x046D 0xC626]]"

definition cfg_microsoft_xbox_elite_2 :: "btf_members list list" where
  "cfg_microsoft_xbox_elite_2 = [
     [HID_DEVICE BUS_BLUETOOTH HID_GROUP_GENERIC 0x045e 0x0b22]]"

definition cfg_mistel_md770 :: "btf_members list list" where
  "cfg_mistel_md770 = [
     [HID_DEVICE BUS_USB HID_GROUP_GENERIC 0x04D9 0x0339]]"

definition cfg_rapoo_m50_plus_silent :: "btf_members list list" where
  "cfg_rapoo_m50_plus_silent = [
     [HID_DEVICE BUS_USB HID_GROUP_GENERIC 0x24AE 0x2015]]"

definition cfg_tuxedo_sirius_16_gen1_and_gen2 :: "btf_members list list" where
  "cfg_tuxedo_sirius_16_gen1_and_gen2 = [
     [HID_DEVICE BUS_USB HID_GROUP_GENERIC 0x048D 0x8910]]"

definition cfg_thrustmaster_tca_yoke_boeing :: "btf_members list list" where
  "cfg_thrustmaster_tca_yoke_boeing = [
     [HID_DEVICE BUS_USB HID_GROUP_GENERIC 0x044F 0x0409]]"

definition cfg_waltop_batteryless_tablet :: "btf_members list list" where
  "cfg_waltop_batteryless_tablet = [
     [HID_DEVICE BUS_USB HID_GROUP_ANY 0x172F 0x0505]]"

definition cfg_wacom_artpen :: "btf_members list list" where
  "cfg_wacom_artpen = [
     [HID_DEVICE BUS_USB HID_GROUP_GENERIC 0x056a 0x0357]]"

definition cfg_xppen_ack05 :: "btf_members list list" where
  "cfg_xppen_ack05 = [
     [HID_DEVICE BUS_USB HID_GROUP_GENERIC 0x28BD 0x0202],
     []]"

definition cfg_xppen_artist24 :: "btf_members list list" where
  "cfg_xppen_artist24 = [
     [HID_DEVICE BUS_USB HID_GROUP_GENERIC 0x28BD 0x093A],
     [HID_DEVICE BUS_USB HID_GROUP_GENERIC 0x28BD 0x092D]]"

definition cfg_xppen_deco01v3 :: "btf_members list list" where
  "cfg_xppen_deco01v3 = [
     [HID_DEVICE BUS_USB HID_GROUP_GENERIC 0x28BD 0x0947],
     []]"

definition cfg_xppen_deco02 :: "btf_members list list" where
  "cfg_xppen_deco02 = [
     [HID_DEVICE BUS_USB HID_GROUP_GENERIC 0x28BD 0x0803],
     []]"

definition cfg_xppen_decomini4 :: "btf_members list list" where
  "cfg_xppen_decomini4 = [
     [HID_DEVICE BUS_USB HID_GROUP_GENERIC 0x28BD 0x0929]]"

definition cfg_v20_huion_inspiroy_2_s :: "btf_members list list" where
  "cfg_v20_huion_inspiroy_2_s = [
     [HID_DEVICE BUS_USB HID_GROUP_GENERIC 0x256C 0x0066],
     []]"

definition cfg_v20_huion_kamvas_pro_19 :: "btf_members list list" where
  "cfg_v20_huion_kamvas_pro_19 = [
     [HID_DEVICE BUS_USB HID_GROUP_MULTITOUCH_WIN_8 0x256C 0x006B],
     []]"

definition cfg_v20_xppen_artistpro16gen2 :: "btf_members list list" where
  "cfg_v20_xppen_artistpro16gen2 = [
     [HID_DEVICE BUS_USB HID_GROUP_GENERIC 0x28BD 0x095A],
     [HID_DEVICE BUS_USB HID_GROUP_GENERIC 0x28BD 0x095B],
     [HID_DEVICE BUS_USB HID_GROUP_GENERIC 0x28BD 0x096A]]"

definition cfg_v30_huion_kamvas_pro_19 :: "btf_members list list" where
  "cfg_v30_huion_kamvas_pro_19 = [
     [HID_DEVICE BUS_USB HID_GROUP_MULTITOUCH_WIN_8 0x256C 0x006B],
     [HID_DEVICE BUS_USB HID_GROUP_MULTITOUCH_WIN_8 0x256C 0x006c],
     []]"

definition cfg_v30_xppen_artistpro16gen2 :: "btf_members list list" where
  "cfg_v30_xppen_artistpro16gen2 = [
     [HID_DEVICE BUS_USB HID_GROUP_GENERIC 0x28BD 0x095A],
     [HID_DEVICE BUS_USB HID_GROUP_GENERIC 0x28BD 0x095B],
     [HID_DEVICE BUS_USB HID_GROUP_GENERIC 0x28BD 0x096A]]"

definition cfg_generic_touchpad :: "btf_members list list" where
  "cfg_generic_touchpad = [
     [HID_DEVICE BUS_ANY HID_GROUP_MULTITOUCH_WIN_8 0x0000 0x0000],
     []]"

definition cfg_huion_keydialk20_bluetooth :: "btf_members list list" where
  "cfg_huion_keydialk20_bluetooth = [
     [HID_DEVICE BUS_BLUETOOTH HID_GROUP_GENERIC 0x256C 0x8251],
     []]"

definition cfg_trust_philips_spk6327 :: "btf_members list list" where
  "cfg_trust_philips_spk6327 = [
     [HID_DEVICE BUS_USB HID_GROUP_GENERIC 0x145F 0x024B]]"

definition cfg_huion_h610_pro :: "btf_members list list" where
  "cfg_huion_h610_pro = [
     [HID_DEVICE BUS_USB HID_GROUP_GENERIC 0x256C 0x006E]]"

definition cfg_logitech_mx_master_3b_middle_button :: "btf_members list list" where
  "cfg_logitech_mx_master_3b_middle_button = [
     [HID_DEVICE BUS_USB HID_GROUP_GENERIC 0x046D 0xC548, HID_DEVICE BUS_BLUETOOTH HID_GROUP_GENERIC 0x046D 0xB028]]"

definition cfg_logitech_mx_master_3s_horiz_scroll :: "btf_members list list" where
  "cfg_logitech_mx_master_3s_horiz_scroll = [
     [HID_DEVICE BUS_USB HID_GROUP_GENERIC 0x046D 0xC548]]"

definition cfg_microsoft_surface_dial :: "btf_members list list" where
  "cfg_microsoft_surface_dial = [
     [HID_DEVICE BUS_BLUETOOTH HID_GROUP_GENERIC 0x045E 0x091B]]"

definition cfg_quinheng_pcsensor_footswitch :: "btf_members list list" where
  "cfg_quinheng_pcsensor_footswitch = [
     [HID_DEVICE BUS_USB HID_GROUP_GENERIC 0x1a86 0xe026],
     []]"

definition cfg_mini_keyboard :: "btf_members list list" where
  "cfg_mini_keyboard = [
     [HID_DEVICE BUS_BLUETOOTH HID_GROUP_ANY 0x5ac 0x22c]]"

definition cfg_mouse_invert_y :: "btf_members list list" where
  "cfg_mouse_invert_y = [
     [HID_DEVICE BUS_USB HID_GROUP_GENERIC 0x04D9 0xA09F]]"

definition cfg_noop_probe_fail :: "btf_members list list" where
  "cfg_noop_probe_fail = [
     [HID_DEVICE BUS_USB HID_GROUP_ANY 0x0000 0x0000],
     [HID_DEVICE BUS_BLUETOOTH HID_GROUP_ANY 0x0000 0x0000]]"

definition cfg_noop_probe_succeed :: "btf_members list list" where
  "cfg_noop_probe_succeed = [
     [HID_DEVICE BUS_USB HID_GROUP_ANY 0x0000 0x0000],
     [HID_DEVICE BUS_BLUETOOTH HID_GROUP_ANY 0x0000 0x0000]]"

definition cfg_test_helpers :: "btf_members list list" where
  "cfg_test_helpers = [
     [HID_DEVICE BUS_USB HID_GROUP_GENERIC 0x1234 0x5678],
     []]"

text \<open>The stable programs, by the name of their object file.\<close>

definition stable_programs :: "(string \<times> btf_members list list) list" where
  "stable_programs = [
     (''0010-FR-TEC__Raptor-Mach-2.bpf.o'', cfg_fr_tec_raptor_mach_2),
     (''0010-HP__Elite-Presenter.bpf.o'', cfg_hp_elite_presenter),
     (''0010-Huion__Dial-2.bpf.o'', cfg_huion_dial_2),
     (''0010-Huion__Inspiroy-2-M.bpf.o'', cfg_huion_inspiroy_2_m),
     (''0010-Huion__Inspiroy-2-S.bpf.o'', cfg_huion_inspiroy_2_s),
     (''0010-Huion__Kamvas13Gen3.bpf.o'', cfg_huion_kamvas13gen3),
     (''0010-Huion__Kamvas16Gen3.bpf.o'', cfg_huion_kamvas16gen3),
     (''0010-Huion__KeydialK20.bpf.o'', cfg_huion_keydialk20),
     (''0010-IOGEAR__Kaliber-MMOmentum.bpf.o'', cfg_iogear_kaliber_mmomentum),
     (''0010-Logitech__SpaceNavigator.bpf.o'', cfg_logitech_spacenavigator),
     (''0010-Microsoft__Xbox-Elite-2.bpf.o'', cfg_microsoft_xbox_elite_2),
     (''0010-Mistel__MD770.bpf.o'', cfg_mistel_md770),
     (''0010-Rapoo__M50-Plus-Silent.bpf.o'', cfg_rapoo_m50_plus_silent),
     (''0010-TUXEDO__Sirius-16-Gen1-and-Gen2.bpf.o'', cfg_tuxedo_sirius_16_gen1_and_gen2),
     (''0010-Thrustmaster__TCA-Yoke-Boeing.bpf.o'', cfg_thrustmaster_tca_yoke_boeing),
     (''0010-WALTOP__Batteryless-Tablet.bpf.o'', cfg_waltop_batteryless_tablet),
     (''0010-Wacom__ArtPen.bpf.o'', cfg_wacom_artpen),
     (''0010-XPPen__Artist24.bpf.o'', cfg_xppen_artist24),
     (''0010-XPPen__Deco01V3.bpf.o'', cfg_xppen_deco01v3),
     (''0010-XPPen__Deco02.bpf.o'', cfg_xppen_deco02),
     (''0010-XPPen__DecoMini4.bpf.o'', cfg_xppen_decomini4),
     (''0020-Huion__Inspiroy-2-S.bpf.o'', cfg_v20_huion_inspiroy_2_s),
     (''0020-Huion__Kamvas-Pro-19.bpf.o'', cfg_v20_huion_kamvas_pro_19),
     (''0020-XPPen__ArtistPro16Gen2.bpf.o'', cfg_v20_xppen_artistpro16gen2),
     (''0030-Huion__Kamvas-Pro-19.bpf.o'', cfg_v30_huion_kamvas_pro_19),
     (''0010-XPPen__ACK05.bpf.o'', cfg_xppen_ack05),
     (''0030-XPPen__ArtistPro16Gen2.bpf.o'', cfg_v30_xppen_artistpro16gen2)]"

lemmas cfg_defs =
  cfg_fr_tec_raptor_mach_2_def
  cfg_hp_elite_presenter_def
  cfg_huion_dial_2_def
  cfg_huion_inspiroy_2_m_def
  cfg_huion_inspiroy_2_s_def
  cfg_huion_kamvas13gen3_def
  cfg_huion_kamvas16gen3_def
  cfg_huion_keydialk20_def
  cfg_iogear_kaliber_mmomentum_def
  cfg_logitech_spacenavigator_def
  cfg_microsoft_xbox_elite_2_def
  cfg_mistel_md770_def
  cfg_rapoo_m50_plus_silent_def
  cfg_tuxedo_sirius_16_gen1_and_gen2_def
  cfg_thrustmaster_tca_yoke_boeing_def
  cfg_waltop_batteryless_tablet_def
  cfg_wacom_artpen_def
  cfg_xppen_ack05_def
  cfg_xppen_artist24_def
  cfg_xppen_deco01v3_def
  cfg_xppen_deco02_def
  cfg_xppen_decomini4_def
  cfg_v20_huion_inspiroy_2_s_def
  cfg_v20_huion_kamvas_pro_19_def
  cfg_v20_xppen_artistpro16gen2_def
  cfg_v30_huion_kamvas_pro_19_def
  cfg_v30_xppen_artistpro16gen2_def
  cfg_generic_touchpad_def
  cfg_huion_keydialk20_bluetooth_def
  cfg_trust_philips_spk6327_def
  cfg_huion_h610_pro_def
  cfg_logitech_mx_master_3b_middle_button_def
  cfg_logitech_mx_master_3s_horiz_scroll_def
  cfg_microsoft_surface_dial_def
  cfg_quinheng_pcsensor_footswitch_def
  cfg_mini_keyboard_def
  cfg_mouse_invert_y_def
  cfg_noop_probe_fail_def
  cfg_noop_probe_succeed_def
  cfg_test_helpers_def

section \<open>What the loader reads\<close>

lemma modalias_HID_DEVICE:
  "v < 2 ^ 32 \<Longrightarrow> p < 2 ^ 32 \<Longrightarrow>
     modalias_from_btf (HID_DEVICE (usize_of_bus b) (usize_of_group g) v p) = Ok (entry b g v p)"
  by (simp add: modalias_from_HID_DEVICE entry_def)

definition stable_devices :: "(string \<times> modalias list) list" where
  "stable_devices = map (\<lambda>(f, args). (f, case program_entries args of Ok es \<Rightarrow> es | _ \<Rightarrow> [])) stable_programs"

lemma program_entries_eq:
  "length args \<le> 15 \<Longrightarrow> args \<noteq> [] \<Longrightarrow> program_entries args = rust_map modalias_from_btf (concat args)"
  by (simp add: program_entries_def HID_BPF_CONFIG_def NARGS_length modaliases_def Suc_le_eq)

lemma known_constants:
  "BUS_USB = usize_of_bus Bus_USB" "BUS_BLUETOOTH = usize_of_bus Bus_Bluetooth" "HID_GROUP_GENERIC = usize_of_group Group_Generic"
  "HID_GROUP_ANY = usize_of_group Group_Any" "HID_GROUP_MULTITOUCH_WIN_8 = usize_of_group Group_MultitouchWin8"
  by simp_all

definition stable_table :: "(string \<times> modalias list) list" where
  "stable_table = [
     (''0010-FR-TEC__Raptor-Mach-2.bpf.o'', [entry Bus_USB Group_Generic 0x11c0 0x5606]),
     (''0010-HP__Elite-Presenter.bpf.o'', [entry Bus_Bluetooth Group_Generic 0x03f0 0x464a]),
     (''0010-Huion__Dial-2.bpf.o'', [entry Bus_USB Group_Generic 0x256c 0x0060]),
     (''0010-Huion__Inspiroy-2-M.bpf.o'', [entry Bus_USB Group_Generic 0x256c 0x0067]),
     (''0010-Huion__Inspiroy-2-S.bpf.o'', [entry Bus_USB Group_Generic 0x256c 0x0066]),
     (''0010-Huion__Kamvas13Gen3.bpf.o'', [entry Bus_USB Group_Any 0x256c 0x2008]),
     (''0010-Huion__Kamvas16Gen3.bpf.o'', [entry Bus_USB Group_Any 0x256c 0x2009]),
     (''0010-Huion__KeydialK20.bpf.o'', [entry Bus_USB Group_Generic 0x256c 0x0069]),
     (''0010-IOGEAR__Kaliber-MMOmentum.bpf.o'', [entry Bus_USB Group_Generic 0x258a 0x0027]),
     (''0010-Logitech__SpaceNavigator.bpf.o'', [entry Bus_USB Group_Any 0x046d 0xc626]),
     (''0010-Microsoft__Xbox-Elite-2.bpf.o'', [entry Bus_Bluetooth Group_Generic 0x045e 0x0b22]),
     (''0010-Mistel__MD770.bpf.o'', [entry Bus_USB Group_Generic 0x04d9 0x0339]),
     (''0010-Rapoo__M50-Plus-Silent.bpf.o'', [entry Bus_USB Group_Generic 0x24ae 0x2015]),
     (''0010-TUXEDO__Sirius-16-Gen1-and-Gen2.bpf.o'', [entry Bus_USB Group_Generic 0x048d 0x8910]),
     (''0010-Thrustmaster__TCA-Yoke-Boeing.bpf.o'', [entry Bus_USB Group_Generic 0x044f 0x0409]),
     (''0010-WALTOP__Batteryless-Tablet.bpf.o'', [entry Bus_USB Group_Any 0x172f 0x0505]),
     (''0010-Wacom__ArtPen.bpf.o'', [entry Bus_USB Group_Generic 0x056a 0x0357]),
     (''0010-XPPen__Artist24.bpf.o'', [entry Bus_USB Group_Generic 0x28bd 0x093a, entry Bus_USB Group_Generic 0x28bd 0x092d]),
     (''0010-XPPen__Deco01V3.bpf.o'', [entry Bus_USB Group_Generic 0x28bd 0x0947]),
     (''0010-XPPen__Deco02.bpf.o'', [entry Bus_USB Group_Generic 0x28bd 0x0803]),
     (''0010-XPPen__DecoMini4.bpf.o'', [entry Bus_USB Group_Generic 0x28bd 0x0929]),
     (''0020-Huion__Inspiroy-2-S.bpf.o'', [entry Bus_USB Group_Generic 0x256c 0x0066]),
     (''0020-Huion__Kamvas-Pro-19.bpf.o'', [entry Bus_USB Group_MultitouchWin8 0x256c 0x006b]),
     (''0020-XPPen__ArtistPro16Gen2.bpf.o'', [entry Bus_USB Group_Generic 0x28bd 0x095a, entry Bus_USB Group_Generic 0x28bd 0x095b, entry Bus_USB Group_Generic 0x28bd 0x096a]),
     (''0030-Huion__Kamvas-Pro-19.bpf.o'', [entry Bus_USB Group_MultitouchWin8 0x256c 0x006b, entry Bus_USB Group_MultitouchWin8 0x256c 0x006c]),
     (''0010-XPPen__ACK05.bpf.o'', [entry Bus_USB Group_Generic 0x28bd 0x0202]),
     (''0030-XPPen__ArtistPro16Gen2.bpf.o'', [entry Bus_USB Group_Generic 0x28bd 0x095a, entry Bus_USB Group_Generic 0x28bd 0x095b, entry Bus_USB Group_Generic 0x28bd 0x096a])]"

lemma stable_entries_read: "map (\<lambda>(f, args). (f, program_entries args)) stable_programs = map (\<lambda>(f, es). (f, Ok es)) stable_table"
  unfolding stable_programs_def cfg_defs stable_table_def
  using modalias_HID_DEVICE [of _ _ Bus_USB Group_Generic] modalias_HID_DEVICE [of _ _ Bus_USB Group_Any]
    modalias_HID_DEVICE [of _ _ Bus_Bluetooth Group_Generic] modalias_HID_DEVICE [of _ _ Bus_USB Group_MultitouchWin8]
  by (simp add: program_entries_eq)

lemma stable_devices_eq: "stable_devices = stable_table"
proof -
  have "map (\<lambda>(f, r). (f, case r of Ok es \<Rightarrow> es | _ \<Rightarrow> [])) (map (\<lambda>(f, args). (f, program_entries args)) stable_programs) = stable_table"
    unfolding stable_entries_read by (simp add: comp_def split_def)
  then show ?thesis by (simp add: stable_devices_def comp_def split_def)
qed

section \<open>Which stable programs a device gets\<close>

text \<open>Every entry of a stable program names a vendor and a product; entries that name the same are of versions of one program.\<close>

definition entry_key :: "modalias \<Rightarrow> nat \<times> nat" where
  "entry_key e = (unat (ma_vid e), unat (ma_pid e))"

lemma entry_key_entry: "v < 2 ^ 32 \<Longrightarrow> p < 2 ^ 32 \<Longrightarrow> entry_key (entry b g v p) = (v, p)"
  by (simp add: entry_key_def entry_def unsigned_of_nat take_bit_nat_eq_self)

text \<open>The index of the program and the key of every entry.\<close>

definition stable_key_table :: "(nat \<times> nat \<times> nat) list" where
  "stable_key_table = [
     (0, 4544, 22022),
     (1, 1008, 17994),
     (2, 9580, 96),
     (3, 9580, 103),
     (4, 9580, 102),
     (5, 9580, 8200),
     (6, 9580, 8201),
     (7, 9580, 105),
     (8, 9610, 39),
     (9, 1133, 50726),
     (10, 1118, 2850),
     (11, 1241, 825),
     (12, 9390, 8213),
     (13, 1165, 35088),
     (14, 1103, 1033),
     (15, 5935, 1285),
     (16, 1386, 855),
     (17, 10429, 2362),
     (17, 10429, 2349),
     (18, 10429, 2375),
     (19, 10429, 2051),
     (20, 10429, 2345),
     (21, 9580, 102),
     (22, 9580, 107),
     (23, 10429, 2394),
     (23, 10429, 2395),
     (23, 10429, 2410),
     (24, 9580, 107),
     (24, 9580, 108),
     (25, 10429, 514),
     (26, 10429, 2394),
     (26, 10429, 2395),
     (26, 10429, 2410)]"

lemma stable_key_table_entries:
  "map (\<lambda>(f, e). (f, entry_key e)) (entry_list stable_table) = map (\<lambda>(n, k). (fst (stable_table ! n), k)) stable_key_table"
  unfolding stable_table_def stable_key_table_def by (simp add: entry_list_def entry_key_entry)

lemma same_stems:
  "stem_of ''0010-Huion__Inspiroy-2-S.bpf.o'' = stem_of ''0020-Huion__Inspiroy-2-S.bpf.o''"
  "stem_of ''0020-Huion__Kamvas-Pro-19.bpf.o'' = stem_of ''0030-Huion__Kamvas-Pro-19.bpf.o''"
  "stem_of ''0020-XPPen__ArtistPro16Gen2.bpf.o'' = stem_of ''0030-XPPen__ArtistPro16Gen2.bpf.o''"
  by code_simp+

lemma stable_key_table_props:
  "sorted_wrt (\<lambda>(n, k) (n', k'). if k = k' then (n, n') \<in> {(4, 21), (22, 24), (23, 26)} else True) stable_key_table"
  "list_all (\<lambda>(n, v, p). 0 < v \<and> v < 65536 \<and> 0 < p \<and> p < 65536) stable_key_table"
  unfolding stable_key_table_def by simp_all

lemma stable_versions:
  "(n, n') \<in> {(4, 21), (22, 24), (23, 26)} \<Longrightarrow>
     fst (stable_table ! n) \<noteq> fst (stable_table ! n') \<and> stem_of (fst (stable_table ! n)) = stem_of (fst (stable_table ! n'))"
  unfolding stable_table_def by (elim insertE) (simp_all add: same_stems)

lemma stable_keys:
  "sorted_wrt (\<lambda>(f, e) (f', e'). if entry_key e = entry_key e' then f \<noteq> f' \<and> stem_of f = stem_of f' else True)
     (entry_list stable_table)"
  "list_all (\<lambda>(f, e). small_ids e \<and> ma_vid e \<noteq> 0 \<and> ma_pid e \<noteq> 0) (entry_list stable_table)"
proof -
  have "sorted_wrt (\<lambda>(f, k) (f', k'). if k = k' then f \<noteq> f' \<and> stem_of f = stem_of f' else True)
      (map (\<lambda>(n, k). (fst (stable_table ! n), k)) stable_key_table)"
    unfolding sorted_wrt_map
    by (rule sorted_wrt_mono_rel [OF _ stable_key_table_props(1)]) (use stable_versions in \<open>auto split: if_splits\<close>)
  then have "sorted_wrt (\<lambda>(f, k) (f', k'). if k = k' then f \<noteq> f' \<and> stem_of f = stem_of f' else True)
      (map (\<lambda>(f, e). (f, entry_key e)) (entry_list stable_table))"
    unfolding stable_key_table_entries .
  then show "sorted_wrt (\<lambda>(f, e) (f', e'). if entry_key e = entry_key e' then f \<noteq> f' \<and> stem_of f = stem_of f' else True)
     (entry_list stable_table)"
    unfolding sorted_wrt_map split_def fst_conv snd_conv .
  have "list_all (\<lambda>(f, v, p). 0 < v \<and> v < 65536 \<and> 0 < p \<and> p < 65536) (map (\<lambda>(n, k). (fst (stable_table ! n), k)) stable_key_table)"
    using stable_key_table_props(2) by (auto simp: list_all_iff)
  then show "list_all (\<lambda>(f, e). small_ids e \<and> ma_vid e \<noteq> 0 \<and> ma_pid e \<noteq> 0) (entry_list stable_table)"
    unfolding stable_key_table_entries [symmetric] by (auto simp: list_all_iff entry_key_def small_ids_def unat_gt_0)
qed

lemma stable_names:
  "distinct (map (\<lambda>(f, es). replace_colon_dot (file_stem f)) stable_table)"
  "list_all (\<lambda>(f, es). ends_with f ''.bpf.o'' \<and> CHR ''/'' \<notin> set f) stable_table"
  unfolding stable_table_def
  by (simp_all add: replace_colon_dot_def file_stem_def file_name_def ends_with_def)

lemma same_key_list:
  assumes "sorted_wrt (\<lambda>x y. if k x = k y then R x y else True) xs" "\<And>x. x \<in> set xs \<Longrightarrow> k x = c"
  shows "sorted_wrt R xs"
  using assms by (induction xs) simp_all

lemma sorted_wrt_equal: "sorted_wrt (\<lambda>x y. h x = h y) xs \<Longrightarrow> x \<in> set xs \<Longrightarrow> y \<in> set xs \<Longrightarrow> h x = h y"
  by (induction xs) auto

definition stable_files :: "nat \<Rightarrow> nat \<Rightarrow> u32 \<Rightarrow> u32 \<Rightarrow> string list" where
  "stable_files b g v p = map fst (filter (\<lambda>(f, e). entry_matches e b g v p) (entry_list stable_devices))"

lemma stable_files_sorted:
  "sorted_wrt (\<lambda>(f, e) (f', e'). f \<noteq> f' \<and> stem_of f = stem_of f') (filter (\<lambda>(f, e). entry_matches e b g v p) (entry_list stable_devices))"
proof -
  let ?xs = "filter (\<lambda>(f, e). entry_matches e b g v p) (entry_list stable_devices)"
  have "sorted_wrt (\<lambda>x y. if entry_key (snd x) = entry_key (snd y) then fst x \<noteq> fst y \<and> stem_of (fst x) = stem_of (fst y) else True) ?xs"
    using sorted_wrt_filter [OF stable_keys(1)] unfolding stable_devices_eq by (simp add: split_def)
  moreover have "entry_key (snd x) = (unat v, unat p)" if "x \<in> set ?xs" for x
    using that stable_keys(2) unfolding stable_devices_eq
    by (auto simp: list_all_iff entry_matches_def entry_key_def)
  ultimately have "sorted_wrt (\<lambda>x y. fst x \<noteq> fst y \<and> stem_of (fst x) = stem_of (fst y)) ?xs" by (rule same_key_list)
  then show ?thesis by (simp add: split_def)
qed

lemma sorted_wrt_distinct: "sorted_wrt (\<lambda>x y. f x \<noteq> f y) xs \<Longrightarrow> distinct (map f xs)"
  by (induction xs) auto

lemma stable_files_distinct: "distinct (stable_files b g v p)"
  unfolding stable_files_def
  by (rule sorted_wrt_distinct, rule sorted_wrt_mono_rel [OF _ stable_files_sorted [of b g v p]]) auto

lemma stable_files_stems:
  assumes "f \<in> set (stable_files b g v p)" "f' \<in> set (stable_files b g v p)"
  shows "stem_of f = stem_of f'"
proof -
  let ?xs = "filter (\<lambda>(f, e). entry_matches e b g v p) (entry_list stable_devices)"
  have "sorted_wrt (\<lambda>x y. stem_of (fst x) = stem_of (fst y)) ?xs"
    by (rule sorted_wrt_mono_rel [OF _ stable_files_sorted [of b g v p]]) auto
  then have "stem_of (fst x) = stem_of (fst y)" if "x \<in> set ?xs" "y \<in> set ?xs" for x y
    using sorted_wrt_equal [where h = "\<lambda>x. stem_of (fst x)"] that by blast
  then show ?thesis using assms unfolding stable_files_def by fastforce
qed

lemma stable_files_in: "f \<in> set (stable_files b g v p) \<Longrightarrow> \<exists>es. (f, es) \<in> set stable_table"
  by (auto simp: stable_files_def entry_list_def stable_devices_eq)

text \<open>
  The stable programs do not compete: whatever the device, all stable object files that its hwdb entries select are
  versions of one program, and each of them is selected once.
\<close>

theorem stable_one_program:
  "distinct (stable_files b g v p) \<and>
   list_all (\<lambda>f. list_all (\<lambda>f'. stem_of f = stem_of f') (stable_files b g v p)) (stable_files b g v p)"
  using stable_files_distinct stable_files_stems unfolding list_all_iff by blast

section \<open>From the hwdb to the programs of a device\<close>

lemma file_name_join: "CHR ''/'' \<notin> set f \<Longrightarrow> f \<noteq> [] \<Longrightarrow> file_name (path_join dir f) = f"
proof -
  assume f: "CHR ''/'' \<notin> set f" "f \<noteq> []"
  then have "hd f \<noteq> CHR ''/''" using hd_in_set [OF f(2)] by metis
  moreover have "takeWhile (\<lambda>c. c \<noteq> CHR ''/'') (rev f @ CHR ''/'' # rest) = rev f" for rest
    using f(1) by (auto simp: takeWhile_append)
  moreover have "file_name f = f"
  proof -
    have "takeWhile (\<lambda>c. c \<noteq> CHR ''/'') (rev f) = rev f" using f(1) by (auto simp: takeWhile_eq_all_conv)
    then show ?thesis unfolding file_name_def by (metis rev_rev_ident)
  qed
  moreover have "path_join dir f = f \<or> (\<exists>d. path_join dir f = d @ CHR ''/'' # f)"
  proof (cases "dir = [] \<or> last dir = CHR ''/''")
    case False
    then show ?thesis using \<open>hd f \<noteq> CHR ''/''\<close> by (simp add: path_join_def)
  next
    case True
    then have "dir = [] \<or> dir = butlast dir @ ''/''" by (metis append_butlast_last_id)
    moreover have "path_join dir f = dir @ f" using True \<open>hd f \<noteq> CHR ''/''\<close> by (simp add: path_join_def)
    ultimately show ?thesis by (metis append.assoc append_Cons append_Nil)
  qed
  ultimately show ?thesis by (elim disjE exE) (simp_all add: file_name_def [of "_ @ _"])
qed

lemma ends_with_append: "ends_with s suf \<Longrightarrow> ends_with (pre @ s) suf"
  by (auto simp: ends_with_def)

lemma ends_with_join: "ends_with f suf \<Longrightarrow> f \<noteq> [] \<Longrightarrow> ends_with (path_join dir f) suf"
  using ends_with_append [of f suf dir] ends_with_append [of f suf "dir @ ''/''"] by (simp add: path_join_def)

lemma stable_name:
  assumes "(f, es) \<in> set stable_table"
  shows "ends_with f ''.bpf.o''" "file_name (path_join dir f) = f" "f \<noteq> []"
proof -
  have *: "ends_with f ''.bpf.o''" "CHR ''/'' \<notin> set f" using assms stable_names(2) by (auto simp: list_all_iff)
  then show "ends_with f ''.bpf.o''" "f \<noteq> []" by (auto simp: ends_with_def)
  then show "file_name (path_join dir f) = f" using file_name_join [OF *(2)] by blast
qed

definition no_bpf_names :: "(string \<times> string) list \<Rightarrow> bool" where
  "no_bpf_names props \<longleftrightarrow> list_all (\<lambda>(name, _). \<not> starts_with name ''HID_BPF_'') props"

text \<open>The properties reach the loader in the database of the device or in the environment of the rule.\<close>

lemma bpf_properties_lookup:
  assumes "ud = hwdb_lookup fnm (hwdb_records ''HID_BPF_'' progs) m @ others \<and> no_bpf_names others \<and> no_bpf_names vars \<or>
      no_bpf_names ud \<and> vars = hwdb_lookup fnm (hwdb_records ''HID_BPF_'' progs) m @ others \<and> no_bpf_names others"
    and "\<And>f. f \<in> snd ` set (hwdb_lookup fnm (hwdb_records ''HID_BPF_'' progs) m) \<Longrightarrow> ends_with f ''.bpf.o''"
  shows "hid_bpf_properties ud vars = map snd (hwdb_lookup fnm (hwdb_records ''HID_BPF_'' progs) m)"
proof -
  let ?look = "hwdb_lookup fnm (hwdb_records ''HID_BPF_'' progs) m"
  let ?is = "\<lambda>(name :: string, _ :: string). starts_with name ''HID_BPF_''"
  have all: "filter ?is ?look = ?look"
    by (rule filter_True) (auto dest!: hwdb_lookup_names simp: starts_with_def)
  have none: "filter ?is xs = []" if "no_bpf_names xs" for xs
    using that by (auto simp: no_bpf_names_def list_all_iff filter_empty_conv)
  have "filter (\<lambda>value. ends_with value ''.bpf.o'') (map snd ?look) = map snd ?look"
    by (rule filter_True) (use assms(2) in auto)
  with assms(1) all none show ?thesis
    unfolding hid_bpf_properties_def Let_def by (auto simp del: filter.simps)
qed

lemma map_filter_all: "(\<And>x. x \<in> set xs \<Longrightarrow> f x = Some (g x)) \<Longrightarrow> List.map_filter f xs = map g xs"
  by (induction xs) (simp_all add: map_filter_simps)

lemma search_installed:
  assumes files: "hid_bpf_properties ud vars = fs_files" "set fs_files \<subseteq> fst ` set stable_table"
    and fs: "list_all (\<lambda>(f, _). fs_is_file fs (path_join dir f) \<and> fs_exists fs (path_join dir f)) stable_table"
  shows "search_for_matching_objfiles fs ud vars [dir] = map (path_join dir) fs_files"
proof -
  have there: "fs_is_file fs (path_join dir f) \<and> fs_exists fs (path_join dir f) \<and> ends_with (path_join dir f) ''.bpf.o''"
    if f: "f \<in> set fs_files" for f
  proof -
    obtain es where es: "(f, es) \<in> set stable_table" using files(2) f by force
    then have "fs_is_file fs (path_join dir f) \<and> fs_exists fs (path_join dir f)" using fs by (auto simp: list_all_iff)
    then show ?thesis using stable_name [OF es] ends_with_join by blast
  qed
  have "List.map_filter (find_first_matching_file fs [dir]) fs_files = map (path_join dir) fs_files"
    using there by (intro map_filter_all) (simp add: find_first_matching_file_def)
  moreover have "find_named_objfiles fs (map (path_join dir) fs_files) [dir] = map (path_join dir) fs_files"
  proof -
    have "filter (\<lambda>filename. ends_with filename ''.bpf.o'') (map (path_join dir) fs_files) = map (path_join dir) fs_files"
      using there by (auto intro!: filter_True)
    moreover have "List.map_filter (\<lambda>filename. if fs_exists fs filename then Some filename else find_first_matching_file fs [dir] filename)
        (map (path_join dir) fs_files) = map id (map (path_join dir) fs_files)"
      using there by (intro map_filter_all) auto
    ultimately show ?thesis by (simp add: find_named_objfiles_def)
  qed
  ultimately show ?thesis by (simp add: search_for_matching_objfiles_def files(1))
qed

lemma stem_of_join:
  assumes "(f, es) \<in> set stable_table"
  shows "stem_of (path_join dir f) = stem_of f"
proof -
  have "path_join [] f = f" by (simp add: path_join_def)
  then have "file_name f = f" using stable_name(2) [OF assms, of "[]"] by simp
  then show ?thesis using stable_name(2) [OF assms, of dir] by (simp add: stem_of_def)
qed

lemma file_stem_join: "(f, es) \<in> set stable_table \<Longrightarrow> file_stem (path_join dir f) = file_stem f"
proof -
  assume f: "(f, es) \<in> set stable_table"
  have "path_join [] f = f" by (simp add: path_join_def)
  then show ?thesis using stable_name(2) [OF f, of dir] stable_name(2) [OF f, of "[]"] by (simp add: file_stem_def)
qed

lemma lookup_not_ignored:
  assumes "ud = hwdb_lookup fnm (hwdb_records ''HID_BPF_'' progs) m @ others \<and> no_bpf_names others \<or> no_bpf_names ud"
  shows "\<not> list_ex (\<lambda>p. fst p = ''HID_BPF_IGNORE_DEVICE'') ud"
proof -
  have "fst p \<noteq> ''HID_BPF_IGNORE_DEVICE''" if look: "p \<in> set (hwdb_lookup fnm (hwdb_records ''HID_BPF_'' progs) m)" for p
  proof
    assume "fst p = ''HID_BPF_IGNORE_DEVICE''"
    then obtain n where "decimal_03 n = ''IGNORE_DEVICE''" using hwdb_lookup_names [OF look] by auto
    then show False using decimal_03_digits [of n] by simp
  qed
  moreover have "fst p \<noteq> ''HID_BPF_IGNORE_DEVICE''" if "no_bpf_names xs" "p \<in> set xs" for p xs
    using that by (cases p) (auto simp: no_bpf_names_def list_all_iff starts_with_def)
  ultimately have "fst p \<noteq> ''HID_BPF_IGNORE_DEVICE''" if "p \<in> set ud" for p
    using assms that by (metis Un_iff set_append)
  then show ?thesis unfolding list_ex_iff by blast
qed

lemma best_version_set:
  assumes "set paths = set paths'"
  shows "best_version accepts paths = best_version accepts paths'"
  unfolding best_version_def list_all_iff assms ..

lemma sorted_equal_short:
  fixes h :: "'a \<Rightarrow> 'b :: order"
  assumes "sorted_wrt (<) (map h xs)" "\<And>x y. x \<in> set xs \<Longrightarrow> y \<in> set xs \<Longrightarrow> h x = h y"
  shows "length xs \<le> 1"
proof (rule ccontr)
  assume "\<not> length xs \<le> 1"
  then obtain x y ys where xs: "xs = x # y # ys" by (metis One_nat_def Suc_leI length_0_conv length_Suc_conv neq_Nil_conv not_less_eq_eq zero_le)
  then have "h x < h y" using assms(1) by simp
  moreover have "h x = h y" using assms(2) [of x y] xs by simp
  ultimately show False by simp
qed

lemma stable_selection:
  fixes look defines "look \<equiv> \<lambda>fnm b g v p. map snd (hwdb_lookup fnm (hwdb_records ''HID_BPF_'' stable_devices) (kernel_modalias b g v p))"
  assumes "glob_ok fnm" "b < 65536" "g < 65536" "unat v < 65536" "unat p < 65536"
  shows "set (look fnm b g v p) = set (stable_files b g v p)" "distinct (look fnm b g v p)"
    "\<And>f. f \<in> set (look fnm b g v p) \<Longrightarrow> \<exists>es. (f, es) \<in> set stable_table"
proof -
  have "list_all (\<lambda>(f, e). small_ids e) (entry_list stable_devices)"
    using stable_keys(2) unfolding stable_devices_eq by (auto simp: list_all_iff)
  from hwdb_lookup_files [OF assms(2-6) this, where prefix = "''HID_BPF_''"]
  have mset: "mset (look fnm b g v p) = mset (stable_files b g v p)" unfolding stable_files_def look_def .
  then show set: "set (look fnm b g v p) = set (stable_files b g v p)" by (rule mset_eq_setD)
  show "distinct (look fnm b g v p)" using mset stable_files_distinct mset_eq_imp_distinct_iff by blast
  show "\<exists>es. (f, es) \<in> set stable_table" if "f \<in> set (look fnm b g v p)" for f using that stable_files_in set by metis
qed

lemma stable_paths_ok:
  assumes "distinct files" and table: "\<And>f. f \<in> set files \<Longrightarrow> \<exists>es. (f, es) \<in> set stable_table"
    and objects: "list_all (\<lambda>(f, _). Q (file_stem f) (path_join dir f)) stable_devices"
  shows "distinct (map (\<lambda>path. replace_colon_dot (file_stem path)) (map (path_join dir) files))"
    and "list_all (\<lambda>path. file_name path \<noteq> [] \<and> Q (file_stem path) path) (map (path_join dir) files)"
proof -
  have "replace_colon_dot (file_stem (path_join dir f)) = replace_colon_dot (file_stem f)" if "f \<in> set files" for f
    using table [OF that] file_stem_join by metis
  then have stems: "map (\<lambda>path. replace_colon_dot (file_stem path)) (map (path_join dir) files) =
      map (\<lambda>f. replace_colon_dot (file_stem f)) files"
    by (simp only: map_map comp_def) (rule map_cong, simp_all)
  have "set files \<subseteq> fst ` set stable_table" using table by force
  moreover have "inj_on (\<lambda>f. replace_colon_dot (file_stem f)) (fst ` set stable_table)"
    using stable_names(1) by (auto simp: distinct_map inj_on_def split_def)
  ultimately show "distinct (map (\<lambda>path. replace_colon_dot (file_stem path)) (map (path_join dir) files))"
    unfolding stems using assms(1) by (simp only: distinct_map) (blast intro: inj_on_subset)
  show "list_all (\<lambda>path. file_name path \<noteq> [] \<and> Q (file_stem path) path) (map (path_join dir) files)"
    unfolding list_all_iff
  proof
    fix path assume "path \<in> set (map (path_join dir) files)"
    then obtain f where f: "f \<in> set files" "path = path_join dir f" by auto
    then obtain es where es: "(f, es) \<in> set stable_table" using table by blast
    then show "file_name path \<noteq> [] \<and> Q (file_stem path) path"
      using objects stable_name(2,3) [OF es] file_stem_join [OF es] unfolding f(2) stable_devices_eq by (auto simp: list_all_iff)
  qed
qed

lemma one_stem_chosen:
  assumes "list_all (best_version acc paths) chosen" "sorted_wrt (<) (map stem_of chosen)"
    and "list_all (\<lambda>q. acc q \<longrightarrow> stem_of q \<in> stem_of ` set chosen) paths"
    and "\<And>x y. x \<in> set paths \<Longrightarrow> y \<in> set paths \<Longrightarrow> stem_of x = stem_of y"
  shows "length chosen \<le> 1" "chosen = [] \<longleftrightarrow> list_all (\<lambda>q. \<not> acc q) paths"
proof -
  have in_paths: "x \<in> set paths \<and> acc x" if "x \<in> set chosen" for x
    using assms(1) that unfolding list_all_iff best_version_def by blast
  then show "length chosen \<le> 1" using sorted_equal_short [OF assms(2)] assms(4) by blast
  show "chosen = [] \<longleftrightarrow> list_all (\<lambda>q. \<not> acc q) paths"
    using assms(3) in_paths unfolding list_all_iff by (metis empty_iff image_empty list.set(1) list.set_intros(1) neq_Nil_conv)
qed



end
