(* ===== verification/Layout_Composition.thy ===== *)
theory Layout_Composition
  imports Btf_Layout Loader_Descriptor
begin

text \<open>
  The layout check and the injection together: what a program finds where its own BTF places a field of the
  descriptor is what the loader put into that field.
\<close>

section \<open>The parts of a descriptor\<close>

text \<open>The values inside a descriptor, each with its type in the structures of the loader and its bytes.\<close>

datatype part =
    Part_U8 u8
  | Part_U16 u16
  | Part_I32 "32 word"
  | Part_Collection hid_rdesc_collection
  | Part_Collections "hid_rdesc_collection list"
  | Part_Range u16 u16
  | Part_Usage u16 u16
  | Part_Field hid_rdesc_field
  | Part_Fields "hid_rdesc_field list"
  | Part_Report hid_rdesc_report
  | Part_Reports "hid_rdesc_report list"
  | Part_Descriptor hid_rdesc_descriptor

fun part_bytes :: "part \<Rightarrow> u8 list" where
  "part_bytes (Part_U8 v) = [v]"
| "part_bytes (Part_U16 v) = u16_bytes v"
| "part_bytes (Part_I32 v) = u32_bytes v"
| "part_bytes (Part_Collection c) = collection_bytes c"
| "part_bytes (Part_Collections cs) = concat (map collection_bytes cs)"
| "part_bytes (Part_Range mn mx) = u16_bytes mn @ u16_bytes mx"
| "part_bytes (Part_Usage mn mx) = u16_bytes mn @ u16_bytes mx"
| "part_bytes (Part_Field f) = field_bytes f"
| "part_bytes (Part_Fields fs) = concat (map field_bytes fs)"
| "part_bytes (Part_Report r) = report_bytes r"
| "part_bytes (Part_Reports rs) = concat (map report_bytes rs)"
| "part_bytes (Part_Descriptor d) = descriptor_bytes d"

fun part_type :: "part \<Rightarrow> rust_type" where
  "part_type (Part_U8 v) = rust_u8"
| "part_type (Part_U16 v) = rust_u16"
| "part_type (Part_I32 v) = rust_i32"
| "part_type (Part_Collection c) = Composite ''HidRdescCollection'' 5"
| "part_type (Part_Collections cs) = rust_collections"
| "part_type (Part_Range mn mx) = Composite ''UsageRange'' 4"
| "part_type (Part_Usage mn mx) = Composite ''UsageIdUnion'' 4"
| "part_type (Part_Field f) = Composite ''HidRdescField'' 181"
| "part_type (Part_Fields fs) = rust_fields"
| "part_type (Part_Report r) = Composite ''HidRdescReport'' 11588"
| "part_type (Part_Reports rs) = rust_reports"
| "part_type (Part_Descriptor d) = rust_descriptor"

text \<open>The arrays have the sizes of their declarations.\<close>

definition field_ok :: "hid_rdesc_field \<Rightarrow> bool" where
  "field_ok f \<longleftrightarrow> length (rf_collections f) = HID_MAX_COLLECTIONS"

fun part_ok :: "part \<Rightarrow> bool" where
  "part_ok (Part_Collections cs) \<longleftrightarrow> length cs = HID_MAX_COLLECTIONS"
| "part_ok (Part_Field f) \<longleftrightarrow> field_ok f"
| "part_ok (Part_Fields fs) \<longleftrightarrow> length fs = HID_MAX_FIELDS \<and> list_all field_ok fs"
| "part_ok (Part_Report r) \<longleftrightarrow> report_arrays_ok r"
| "part_ok (Part_Reports rs) \<longleftrightarrow> length rs = HID_MAX_REPORTS \<and> list_all report_arrays_ok rs"
| "part_ok (Part_Descriptor d) \<longleftrightarrow> rdesc_arrays_ok d"
| "part_ok _ \<longleftrightarrow> True"

fun part_members :: "part \<Rightarrow> (path_step \<times> part) list" where
  "part_members (Part_Collection c) =
     [(Field_Step ''usage_page'', Part_U16 (rc_usage_page c)), (Field_Step ''usage_id'', Part_U16 (rc_usage_id c)),
      (Field_Step ''collection_type'', Part_U8 (rc_collection_type c))]"
| "part_members (Part_Range mn mx) = [(Field_Step ''usage_minimum'', Part_U16 mn), (Field_Step ''usage_maximum'', Part_U16 mx)]"
| "part_members (Part_Usage mn mx) = [(Field_Step ''usage_id'', Part_U16 mn), (Unnamed_Step 0, Part_Range mn mx)]"
| "part_members (Part_Field f) =
     [(Field_Step ''field_type'', Part_U8 (rf_field_type f)), (Field_Step ''num_collections'', Part_U8 (rf_num_collections f)),
      (Field_Step ''bits_start'', Part_U16 (rf_bits_start f)), (Field_Step ''bits_end'', Part_U16 (rf_bits_end f)),
      (Field_Step ''usage_page'', Part_U16 (rf_usage_page f)), (Unnamed_Step 8, Part_Usage (rf_usage_minimum f) (rf_usage_maximum f)),
      (Field_Step ''logical_minimum'', Part_I32 (rf_logical_minimum f)), (Field_Step ''logical_maximum'', Part_I32 (rf_logical_maximum f)),
      (Field_Step ''flags'', Part_U8 (rf_flags f)), (Field_Step ''collections'', Part_Collections (rf_collections f))]"
| "part_members (Part_Report r) =
     [(Field_Step ''report_id'', Part_U8 (rr_report_id r)), (Field_Step ''size_in_bits'', Part_U16 (rr_size_in_bits r)),
      (Field_Step ''num_fields'', Part_U8 (rr_num_fields r)), (Field_Step ''fields'', Part_Fields (rr_fields r))]"
| "part_members (Part_Descriptor d) =
     [(Field_Step ''num_input_reports'', Part_U8 (rdd_num_input_reports d)),
      (Field_Step ''num_output_reports'', Part_U8 (rdd_num_output_reports d)),
      (Field_Step ''num_feature_reports'', Part_U8 (rdd_num_feature_reports d)),
      (Field_Step ''input_reports'', Part_Reports (rdd_input_reports d)),
      (Field_Step ''output_reports'', Part_Reports (rdd_output_reports d)),
      (Field_Step ''feature_reports'', Part_Reports (rdd_feature_reports d))]"
| "part_members _ = []"

fun part_elements :: "part \<Rightarrow> part list" where
  "part_elements (Part_Collections cs) = map Part_Collection cs"
| "part_elements (Part_Fields fs) = map Part_Field fs"
| "part_elements (Part_Reports rs) = map Part_Report rs"
| "part_elements _ = []"

fun part_step :: "part \<Rightarrow> path_step \<Rightarrow> part option" where
  "part_step p (Elem_Step i) = (if i < length (part_elements p) then Some (part_elements p ! i) else None)"
| "part_step p st = map_of (part_members p) st"

fun part_at :: "part \<Rightarrow> path_step list \<Rightarrow> part option" where
  "part_at p [] = Some p"
| "part_at p (st # path) = Option.bind (part_step p st) (\<lambda>q. part_at q path)"

section \<open>A part lies where its type says\<close>

lemma length_part_bytes: "part_ok p \<Longrightarrow> length (part_bytes p) = size_of (part_type p)"
  using length_concat_map [of collection_bytes 5] length_concat_map [of field_bytes 181] length_concat_map [of report_bytes 11588]
  by (cases p) (auto simp: u16_bytes_def u32_bytes_def collection_bytes_def rust_descriptor_def layout_simps field_ok_def
      length_field_bytes length_report_bytes length_descriptor_bytes list_all_iff)

lemma slice_concat:
  assumes "list_all (\<lambda>x. length (f x) = k) xs" "i < length xs"
  shows "slice (concat (map f xs)) (i * k) (i * k + k) = f (xs ! i)"
  using assms
proof (induction xs arbitrary: i)
  case (Cons x xs)
  then show ?case by (cases i) (auto simp: slice_def add.commute)
qed simp

lemma length_arrays:
  "length (concat (map collection_bytes cs)) = length cs * 5"
  "list_all field_ok fs \<Longrightarrow> length (concat (map field_bytes fs)) = length fs * 181"
  "list_all report_arrays_ok rs \<Longrightarrow> length (concat (map report_bytes rs)) = length rs * 11588"
  using length_concat_map [of collection_bytes 5 cs] length_concat_map [of field_bytes 181 fs]
    length_concat_map [of report_bytes 11588 rs]
  by (auto simp: collection_bytes_def u16_bytes_def field_ok_def length_field_bytes length_report_bytes list_all_iff)

lemma element_step:
  assumes "part_ok p" "part_step p (Elem_Step i) = Some q"
  shows "part_ok q \<and> (\<exists>start. rust_step (part_type p) (Elem_Step i) = Some (start, part_type q) \<and>
           slice (part_bytes p) start (start + size_of (part_type q)) = part_bytes q)"
proof -
  have i: "i < length (part_elements p)" "q = part_elements p ! i" using assms(2) by (auto split: if_splits)
  show ?thesis
  proof (cases p)
    case (Part_Collections cs)
    then show ?thesis
      using i assms(1) slice_concat [of collection_bytes 5 cs i]
      by (auto simp: collection_bytes_def u16_bytes_def list_all_iff size_of_structs)
  next
    case (Part_Fields fs)
    then show ?thesis
      using i assms(1) slice_concat [of field_bytes 181 fs i]
      by (auto simp: list_all_iff length_field_bytes field_ok_def size_of_structs list_all_length)
  next
    case (Part_Reports rs)
    then show ?thesis
      using i assms(1) slice_concat [of report_bytes 11588 rs i]
      by (auto simp: list_all_iff length_report_bytes rust_reports_eq list_all_length)
  qed (use i in auto)
qed

lemma rust_steps:
  "rust_step (Composite ''HidRdescCollection'' 5) (Field_Step ''usage_page'') = Some (0, rust_u16)"
  "rust_step (Composite ''HidRdescCollection'' 5) (Field_Step ''usage_id'') = Some (2, rust_u16)"
  "rust_step (Composite ''HidRdescCollection'' 5) (Field_Step ''collection_type'') = Some (4, rust_u8)"
  "rust_step (Composite ''UsageRange'' 4) (Field_Step ''usage_minimum'') = Some (0, rust_u16)"
  "rust_step (Composite ''UsageRange'' 4) (Field_Step ''usage_maximum'') = Some (2, rust_u16)"
  "rust_step (Composite ''UsageIdUnion'' 4) (Field_Step ''usage_id'') = Some (0, rust_u16)"
  "rust_step (Composite ''UsageIdUnion'' 4) (Unnamed_Step 0) = Some (0, Composite ''UsageRange'' 4)"
  "rust_step (Composite ''HidRdescField'' 181) (Field_Step ''field_type'') = Some (0, rust_u8)"
  "rust_step (Composite ''HidRdescField'' 181) (Field_Step ''num_collections'') = Some (1, rust_u8)"
  "rust_step (Composite ''HidRdescField'' 181) (Field_Step ''bits_start'') = Some (2, rust_u16)"
  "rust_step (Composite ''HidRdescField'' 181) (Field_Step ''bits_end'') = Some (4, rust_u16)"
  "rust_step (Composite ''HidRdescField'' 181) (Field_Step ''usage_page'') = Some (6, rust_u16)"
  "rust_step (Composite ''HidRdescField'' 181) (Unnamed_Step 8) = Some (8, Composite ''UsageIdUnion'' 4)"
  "rust_step (Composite ''HidRdescField'' 181) (Field_Step ''logical_minimum'') = Some (12, rust_i32)"
  "rust_step (Composite ''HidRdescField'' 181) (Field_Step ''logical_maximum'') = Some (16, rust_i32)"
  "rust_step (Composite ''HidRdescField'' 181) (Field_Step ''flags'') = Some (20, rust_u8)"
  "rust_step (Composite ''HidRdescField'' 181) (Field_Step ''collections'') = Some (21, rust_collections)"
  "rust_step (Composite ''HidRdescReport'' 11588) (Field_Step ''report_id'') = Some (0, rust_u8)"
  "rust_step (Composite ''HidRdescReport'' 11588) (Field_Step ''size_in_bits'') = Some (1, rust_u16)"
  "rust_step (Composite ''HidRdescReport'' 11588) (Field_Step ''num_fields'') = Some (3, rust_u8)"
  "rust_step (Composite ''HidRdescReport'' 11588) (Field_Step ''fields'') = Some (4, rust_fields)"
  "rust_step rust_descriptor (Field_Step ''num_input_reports'') = Some (0, rust_u8)"
  "rust_step rust_descriptor (Field_Step ''num_output_reports'') = Some (1, rust_u8)"
  "rust_step rust_descriptor (Field_Step ''num_feature_reports'') = Some (2, rust_u8)"
  "rust_step rust_descriptor (Field_Step ''input_reports'') = Some (3, rust_reports)"
  "rust_step rust_descriptor (Field_Step ''output_reports'') = Some (185411, rust_reports)"
  "rust_step rust_descriptor (Field_Step ''feature_reports'') = Some (370819, rust_reports)"
  by (simp_all add: rust_descriptor_def layout_simps field_step_def del: One_nat_def)

lemmas step_simps = rust_steps u16_bytes_def u32_bytes_def slice_def

lemma member_step:
  assumes "part_ok p" "part_step p st = Some q" "\<And>i. st \<noteq> Elem_Step i"
  shows "part_ok q \<and> (\<exists>start. rust_step (part_type p) st = Some (start, part_type q) \<and>
           slice (part_bytes p) start (start + size_of (part_type q)) = part_bytes q)"
proof -
  have "map_of (part_members p) st = Some q" using assms(2,3) by (cases st) auto
  then have m: "(st, q) \<in> set (part_members p)" by (rule map_of_SomeD)
  show ?thesis
  proof (cases p)
    case (Part_Collection c)
    then show ?thesis
      using m by (auto simp: step_simps collection_bytes_def simp del: rust_step.simps)
  next
    case (Part_Range mn mx)
    then show ?thesis
      using m by (auto simp: step_simps simp del: rust_step.simps)
  next
    case (Part_Usage mn mx)
    then show ?thesis
      using m by (auto simp: step_simps simp del: rust_step.simps)
  next
    case (Part_Field f)
    moreover have "part_ok (Part_Collections (rf_collections f))" using assms(1) Part_Field by (simp add: field_ok_def)
    ultimately show ?thesis
      using m length_part_bytes [of "Part_Collections (rf_collections f)"]
      by (auto simp: step_simps field_bytes_def simp del: rust_step.simps)
  next
    case (Part_Report r)
    moreover have "part_ok (Part_Fields (rr_fields r))"
      using assms(1) Part_Report by (simp add: report_arrays_ok_def field_ok_def [abs_def])
    ultimately show ?thesis
      using m length_part_bytes [of "Part_Fields (rr_fields r)"]
      by (auto simp: step_simps report_bytes_def simp del: rust_step.simps length_concat)
  next
    case (Part_Descriptor d)
    moreover have "part_ok (Part_Reports (rdd_input_reports d))" "part_ok (Part_Reports (rdd_output_reports d))"
      "part_ok (Part_Reports (rdd_feature_reports d))"
      using assms(1) Part_Descriptor by (simp_all add: rdesc_arrays_ok_reports)
    ultimately show ?thesis
      using m length_part_bytes [of "Part_Reports (rdd_input_reports d)"] length_part_bytes [of "Part_Reports (rdd_output_reports d)"]
        length_part_bytes [of "Part_Reports (rdd_feature_reports d)"]
      by (auto simp: step_simps descriptor_bytes_def simp del: rust_step.simps length_concat)
  qed (use m in auto)
qed

lemma step_sound:
  assumes "part_ok p" "part_step p st = Some q"
  shows "part_ok q \<and> (\<exists>start. rust_step (part_type p) st = Some (start, part_type q) \<and>
           slice (part_bytes p) start (start + size_of (part_type q)) = part_bytes q)"
  using element_step [OF assms(1), of _ q] member_step [OF assms] assms(2) by metis

lemma slice_slice: "b \<le> d - c \<Longrightarrow> slice (slice xs c d) a b = slice xs (c + a) (c + b)"
  by (simp add: slice_def drop_take min_def add.commute)

lemma part_size: "0 < size_of (part_type q)"
  by (cases q) (simp_all add: rust_descriptor_def)

lemma path_sound:
  assumes "part_ok p" "part_at p path = Some q"
  shows "part_ok q \<and> (\<exists>start. rust_at (part_type p) path = Some (start, part_type q) \<and>
           slice (part_bytes p) start (start + size_of (part_type q)) = part_bytes q)"
  using assms
proof (induction path arbitrary: p)
  case Nil
  then show ?case by (simp add: slice_def length_part_bytes)
next
  case (Cons st path)
  obtain r where r: "part_step p st = Some r" "part_at r path = Some q" using Cons.prems(2) by (auto simp: bind_eq_Some_conv)
  obtain s1 where s1: "part_ok r" "rust_step (part_type p) st = Some (s1, part_type r)"
      "slice (part_bytes p) s1 (s1 + size_of (part_type r)) = part_bytes r"
    using step_sound [OF Cons.prems(1) r(1)] by blast
  obtain s2 where s2: "part_ok q" "rust_at (part_type r) path = Some (s2, part_type q)"
      "slice (part_bytes r) s2 (s2 + size_of (part_type q)) = part_bytes q"
    using Cons.IH [OF s1(1) r(2)] by blast
  have "length (part_bytes q) \<le> length (part_bytes r) - s2" using s2(3) by (metis slice_def diff_add_inverse length_drop length_take min.cobounded1)
  then have "size_of (part_type q) \<le> size_of (part_type r) - s2" by (simp add: length_part_bytes s1(1) s2(1))
  then have "s2 + size_of (part_type q) \<le> size_of (part_type r)" using part_size [of q] by arith
  then have "slice (part_bytes p) (s1 + s2) (s1 + s2 + size_of (part_type q)) = part_bytes q"
    using slice_slice [of "s2 + size_of (part_type q)" "s1 + size_of (part_type r)" s1 "part_bytes p" s2] s1(3) s2(3)
    by (simp add: add.assoc)
  then show ?case using s1(2) s2(1,2) by auto
qed

section \<open>What the program finds\<close>

text \<open>The verdict of the layout check on the type of the variable \<open>HID_REPORT_DESCRIPTOR\<close> of a program.\<close>

definition layout_accepted :: "btf_types \<Rightarrow> btf_type \<Rightarrow> bool" where
  "layout_accepted types vtype \<longleftrightarrow> (case validate_descriptor_layout types vtype of Some (Ok cache) \<Rightarrow> True | _ \<Rightarrow> False)"


text \<open>A program with the variable, compiled with the header, and a device with one feature report of one digitizer field.\<close>

definition example_variable :: variable_metadata where
  "example_variable = \<lparr>vm_name = ''HID_REPORT_DESCRIPTOR'', vm_offset = 0, vm_size = 556227\<rparr>"

definition example_metadata :: bpf_metadata where
  "example_metadata = \<lparr>udev_properties_bss = [], udev_properties_data = [], udev_property_maps = [],
     report_descriptor_bss = Some example_variable, report_descriptor_data = None\<rparr>"

definition example_bss :: bpf_map where
  "example_bss = \<lparr>m_name = ''p.bss'', m_struct_ops = False, m_value_size = 556227, m_values = [replicate 556227 0], m_initial = None\<rparr>"

definition example_parsed :: hr_descriptor where
  "example_parsed = \<lparr>hr_input_reports = [], hr_output_reports = [],
     hr_feature_reports = [\<lparr>hr_id = Some 7, hr_size_in_bits = 16, hr_fields =
       [Variable_Field \<lparr>bits_first = 8, bits_stop = 10\<rparr> \<lparr>us_page = 0x0d, us_id = 0x55\<rparr> 0 2
          \<lparr>at_is_relative = False, at_wraps = False, at_is_nonlinear = False, at_has_no_preferred_state = False,
           at_has_null_state = False, at_is_volatile = None, at_is_buffered_bytes = False\<rparr> []]\<rparr>]\<rparr>"


end
