(* ===== verification/Loader_Composition.thy ===== *)
theory Loader_Composition
  imports Loader_Descriptor Helper_Users Huion_Dial2 Huion_Inspiroy2M Huion_Inspiroy2S
    Huion_Inspiroy2S_0010 Huion_K20 Huion_Kamvas13 Huion_Kamvas16 Huion_H610
begin

text \<open>
  Loader and programs together: the touchpad probe on the descriptor the loader injects, and the firmware check of the
  Huion programs on the udev property the loader injects.
\<close>

section \<open>The touchpad probe on an injected descriptor\<close>

definition hr_usage_is :: "hr_usage \<Rightarrow> bool" where
  "hr_usage_is u \<longleftrightarrow> us_page u = 0x0d \<and> us_id u = 0x59"

text \<open>A pad type field of the parsed descriptor: the usage of a variable field, the first usage of an array field.\<close>

fun hr_is_pad_type :: "hr_field \<Rightarrow> bool" where
  "hr_is_pad_type (Variable_Field bits usage lmin lmax attrs cs) = hr_usage_is usage"
| "hr_is_pad_type (Array_Field bits usages lmin lmax attrs cs) = (usages \<noteq> [] \<and> hr_usage_is (hd usages))"
| "hr_is_pad_type (Constant_Field bits) = False"

fun first_pad_type :: "hr_report list \<Rightarrow> (hr_report \<times> hr_field) option" where
  "first_pad_type [] = None"
| "first_pad_type (r # rs) =
     (case find hr_is_pad_type (take 64 (hr_fields r)) of Some f \<Rightarrow> Some (r, f) | None \<Rightarrow> first_pad_type rs)"

lemma find_pad_type_injected:
  "touchpad_find_field (map (rdesc_field_from rest) fs) = map_option (rdesc_field_from rest) (find hr_is_pad_type fs)"
proof (induction fs)
  case Nil
  then show ?case by simp
next
  case (Cons f fs)
  have "(rf_usage_page (rdesc_field_from rest f) = 0x0d \<and> rf_usage_minimum (rdesc_field_from rest f) = 0x59) \<longleftrightarrow> hr_is_pad_type f"
    by (cases f) (auto simp: no_field_def hr_usage_is_def split: list.split)
  then show ?case using Cons.IH by simp
qed

lemma find_injected:
  "touchpad_find (map (rdesc_report_from rest) rs) =
     Some (map_option (\<lambda>(r, f). (rdesc_report_from rest r, rdesc_field_from rest f)) (first_pad_type rs))"
proof (induction rs)
  case Nil
  then show ?case by simp
next
  case (Cons r rs)
  have "for_each_field (rdesc_report_from rest r) = Some (map (rdesc_field_from rest) (take 64 (hr_fields r)))"
    by (simp add: for_each_field_def rdesc_report_from_def for_each_filled)
  then show ?case using Cons.IH by (simp add: find_pad_type_injected split: option.split)
qed

text \<open>
  C14: On the descriptor the loader injects the touchpad probe finds the pad type the device declares: the first field with that
  usage among the first 64 fields of the first 16 feature reports the parser returns. It asks the device for the
  report of that field and exports the type the field has in the answer; without such a field it rejects the device.
\<close>

theorem touchpad_on_injected_descriptor:
  assumes "length buf = 1024" "\<And>hid b. length (snd (get_feature hid b)) = length b"
  shows "touchpad_probe alloc get_feature (rdesc_descriptor_from rest rdesc) buf a =
    (case first_pad_type (take 16 (hr_feature_reports rdesc)) of
       None \<Rightarrow> Some (a\<lparr>pa_retval := - EINVAL\<rparr>, buf, None, 0)
     | Some (report, field) \<Rightarrow>
         (case alloc (pa_hid a) of
            None \<Rightarrow> Some (a, buf, None, - 1)
          | Some hid \<Rightarrow>
              (case get_feature hid (buf[0 := (case hr_id report of Some i \<Rightarrow> i | None \<Rightarrow> 0)]) of
                 (ret, buf') \<Rightarrow>
                   if ret < 0 then Some (a\<lparr>pa_retval := ret\<rparr>, buf', None, 0)
                   else Some (a\<lparr>pa_retval := 0\<rparr>, buf',
                     Some (touchpad_type_name (the (extract_bits buf' 1024 (rdesc_field_from rest field)))), 0))))"
proof -
  have "for_each_feature_report (rdesc_descriptor_from rest rdesc) =
      Some (map (rdesc_report_from rest) (take 16 (hr_feature_reports rdesc)))"
    by (simp add: for_each_feature_report_def rdesc_descriptor_from_def for_each_filled)
  moreover have "\<exists>v. extract_bits buf' 1024 f = Some v" if "get_feature hid (buf[0 := i]) = (ret, buf')" for hid i ret buf' f
  proof -
    have "length buf' = 1024" using assms(2) [of hid "buf[0 := i]"] assms(1) that by simp
    then show ?thesis using extract_bits_none [of 1024 f buf'] extract_bits_bit [of 1024 f buf'] by (cases "field_fits 1024 f") auto
  qed
  moreover have "rr_report_id (rdesc_report_from rest r) = (case hr_id r of Some i \<Rightarrow> i | None \<Rightarrow> 0)" for r
    by (simp add: rdesc_report_from_def)
  ultimately have features: "for_each_feature_report (rdesc_descriptor_from rest rdesc) =
        Some (map (rdesc_report_from rest) (take 16 (hr_feature_reports rdesc)))"
    and answer: "\<And>hid i ret buf' f. get_feature hid (buf[0 := i]) = (ret, buf') \<Longrightarrow> \<exists>v. extract_bits buf' 1024 f = Some v"
    and id: "\<And>r. rr_report_id (rdesc_report_from rest r) = (case hr_id r of Some i \<Rightarrow> i | None \<Rightarrow> 0)"
    by blast+
  have wr: "wr buf 0 i = Some (buf[0 := i])" for i using assms(1) by (simp add: wr_def)
  show ?thesis
  proof (cases "first_pad_type (take 16 (hr_feature_reports rdesc))")
    case None
    then show ?thesis by (simp add: touchpad_probe_def features find_injected)
  next
    case (Some found)
    obtain r f where found: "found = (r, f)" by fastforce
    show ?thesis
    proof (cases "alloc (pa_hid a)")
      case None
      then show ?thesis using Some found by (simp add: touchpad_probe_def features find_injected)
    next
      case alloc: (Some hid)
      obtain ret buf' where get: "get_feature hid (buf[0 := (case hr_id r of Some i \<Rightarrow> i | None \<Rightarrow> 0)]) = (ret, buf')"
        by fastforce
      from answer [OF get] obtain v where "extract_bits buf' 1024 (rdesc_field_from rest f) = Some v" by blast
      then show ?thesis
        using Some found alloc get by (simp add: touchpad_probe_def features find_injected wr id)
    qed
  qed
qed

section \<open>The firmware check of the Huion programs\<close>

text \<open>The property a device has in the end: the value when it fits the variable of 64 bytes with a zero.\<close>

definition firmware_is :: "(string \<times> string) list \<Rightarrow> string \<Rightarrow> bool" where
  "firmware_is props fw \<longleftrightarrow>
     (case find (\<lambda>p. fst p = ''HUION_FIRMWARE_ID'') props of
        None \<Rightarrow> False
      | Some p \<Rightarrow> length (snd p) < 64 \<and> starts_with (snd p) fw)"

lemma has_prefix_zeros:
  assumes "0 \<notin> set pre" "pre \<noteq> []"
  shows "has_prefix (bs @ replicate n 0) pre \<longleftrightarrow> take (length pre) bs = pre"
proof
  assume *: "has_prefix (bs @ replicate n 0) pre"
  have "length pre \<le> length bs"
  proof (rule ccontr)
    assume "\<not> length pre \<le> length bs"
    moreover from * have len: "length pre \<le> length bs + n"
      unfolding has_prefix_def by (metis length_append length_replicate length_take min.cobounded1)
    ultimately have "pre ! length bs = (bs @ replicate n 0) ! length bs"
      using * unfolding has_prefix_def by (metis nth_take not_le)
    also have "\<dots> = 0" using len \<open>\<not> length pre \<le> length bs\<close> by (simp add: nth_append)
    finally show False using assms(1) \<open>\<not> length pre \<le> length bs\<close> by (metis not_le nth_mem)
  qed
  then show "take (length pre) bs = pre" using * by (simp add: has_prefix_def)
next
  assume "take (length pre) bs = pre"
  moreover from this have "length pre \<le> length bs" by (metis length_take min.cobounded1)
  ultimately show "has_prefix (bs @ replicate n 0) pre" by (simp add: has_prefix_def)
qed

lemma injected_firmware:
  assumes "vm_name var = ''HUION_FIRMWARE_ID''" "vm_size var = 64" "fw \<noteq> []" "CHR 0x00 \<notin> set fw"
  shows "has_prefix (injected_value props var (replicate 64 0)) (map of_char fw) \<longleftrightarrow> firmware_is props fw"
proof -
  have char: "(of_char c = (0 :: u8)) = (c = CHR 0x00)" for c
    using of_char_eq_iff [of c "CHR 0x00", where 'a = nat] by (simp add: word_unat_eq_iff unat_of_char)
  have zero: "(0 :: u8) \<notin> set (map of_char fw)" "map of_char fw \<noteq> ([] :: u8 list)"
    using assms(3,4) char by (auto simp: image_iff eq_commute [of 0])
  have inj: "take n (as_bytes v) = map of_char fw \<longleftrightarrow> take n v = fw" for n v
    by (metis as_bytes_def of_as_bytes take_map)
  have none: "\<not> has_prefix (replicate 64 0) (map of_char fw)"
    using has_prefix_zeros [OF zero, of "[]" 64] zero(2) by simp
  show ?thesis
  proof (cases "find (\<lambda>p. fst p = ''HUION_FIRMWARE_ID'') props")
    case None
    then show ?thesis using none by (simp add: injected_value_def firmware_is_def assms(1))
  next
    case (Some p)
    have "has_prefix (as_bytes (snd p) @ replicate (64 - length (snd p)) 0) (map of_char fw) \<longleftrightarrow> starts_with (snd p) fw"
      unfolding has_prefix_zeros [OF zero] inj length_map starts_with_def ..
    then show ?thesis
      using Some none by (simp add: injected_value_def firmware_is_def assms(1,2) as_bytes_def)
  qed
qed

text \<open>
  C13: The mode of the Huion programs is the firmware property of the device: when the loader has written the udev properties
  into the zeroed data of a program, its comparison with the expected firmware succeeds exactly when the property
  \<open>HUION_FIRMWARE_ID\<close> fits and begins with the identifier of the device.
\<close>

theorem firmware_property_selects_mode:
  assumes "section_ok (length data) vars" "var \<in> set vars" "vm_name var = ''HUION_FIRMWARE_ID''" "vm_size var = 64"
    and "variable_value var data = replicate 64 0"
    and "rust_fold (inject_variable props) vars (data, False) = Ok (data', updated)"
  shows "(has_prefix (variable_value var data') dial2_EXPECTED_FIRMWARE_ID \<longleftrightarrow> firmware_is props ''HUION_T216_'') \<and>
    (has_prefix (variable_value var data') insp2m_EXPECTED_FIRMWARE_ID \<longleftrightarrow> firmware_is props ''HUION_T21k_'') \<and>
    (has_prefix (variable_value var data') insp2s_EXPECTED_FIRMWARE_ID \<longleftrightarrow> firmware_is props ''HUION_T21j_'') \<and>
    (has_prefix (variable_value var data') insp2s10_EXPECTED_FIRMWARE_ID \<longleftrightarrow> firmware_is props ''HUION_T21j_'') \<and>
    (has_prefix (variable_value var data') k20_EXPECTED_FIRMWARE_ID \<longleftrightarrow> firmware_is props ''HUION_T21h_'') \<and>
    (has_prefix (variable_value var data') kv13_EXPECTED_FIRMWARE_ID \<longleftrightarrow> firmware_is props ''HUION_M22c_'') \<and>
    (has_prefix (variable_value var data') kv16_EXPECTED_FIRMWARE_ID \<longleftrightarrow> firmware_is props ''HUION_M22d_'') \<and>
    (has_prefix (variable_value var data') h610_EXPECTED_FIRMWARE_ID \<longleftrightarrow> firmware_is props ''HVAN'')"
proof -
  have final: "variable_value var data' = injected_value props var (replicate 64 0)"
    using inject_variables_Ok [OF assms(1), of props False] assms(2,5,6) by (metis prod.inject rust.inject)
  show ?thesis
    unfolding final dial2_EXPECTED_FIRMWARE_ID_def insp2m_EXPECTED_FIRMWARE_ID_def insp2s_EXPECTED_FIRMWARE_ID_def
      insp2s10_EXPECTED_FIRMWARE_ID_def k20_EXPECTED_FIRMWARE_ID_def kv13_EXPECTED_FIRMWARE_ID_def kv16_EXPECTED_FIRMWARE_ID_def
      h610_EXPECTED_FIRMWARE_ID_def
    by (intro conjI; rule injected_firmware [OF assms(3,4)]; simp)
qed

theorem firmware_property_selects_mode_witness:
  "\<exists>data' updated. rust_fold (inject_variable [(''HUION_FIRMWARE_ID'', ''HUION_T216_220113'')])
      [\<lparr>vm_name = ''HUION_FIRMWARE_ID'', vm_offset = 0, vm_size = 64\<rparr>] (replicate 64 0, False) = Ok (data', updated) \<and>
     has_prefix (slice data' 0 64) dial2_EXPECTED_FIRMWARE_ID \<and> \<not> has_prefix (slice data' 0 64) k20_EXPECTED_FIRMWARE_ID"
proof -
  let ?var = "\<lparr>vm_name = ''HUION_FIRMWARE_ID'', vm_offset = 0, vm_size = 64\<rparr>"
  let ?props = "[(''HUION_FIRMWARE_ID'', ''HUION_T216_220113'')]"
  have ok: "section_ok (length (replicate 64 (0 :: u8))) [?var]" by (simp add: section_ok_def)
  obtain data' updated where run: "rust_fold (inject_variable ?props) [?var] (replicate 64 0, False) = Ok (data', updated)"
    by (rule inject_variables_Ok [OF ok, of ?props False]) (rule that)
  have "variable_value ?var (replicate 64 0) = replicate 64 0" by (simp add: variable_value_def slice_def)
  moreover have "?var \<in> set [?var]" "vm_name ?var = ''HUION_FIRMWARE_ID''" "vm_size ?var = 64" by simp_all
  ultimately have modes:
    "has_prefix (variable_value ?var data') dial2_EXPECTED_FIRMWARE_ID \<longleftrightarrow> firmware_is ?props ''HUION_T216_''"
    "has_prefix (variable_value ?var data') k20_EXPECTED_FIRMWARE_ID \<longleftrightarrow> firmware_is ?props ''HUION_T21h_''"
    using firmware_property_selects_mode [OF ok _ _ _ _ run, of ?var] by blast+
  have "firmware_is ?props ''HUION_T216_''" "\<not> firmware_is ?props ''HUION_T21h_''"
    by (simp_all add: firmware_is_def starts_with_def)
  with modes have "has_prefix (slice data' 0 64) dial2_EXPECTED_FIRMWARE_ID \<and> \<not> has_prefix (slice data' 0 64) k20_EXPECTED_FIRMWARE_ID"
    by (simp add: variable_value_def)
  with run show ?thesis by blast
qed

theorem touchpad_on_injected_descriptor_witness:
  "touchpad_probe (\<lambda>_. Some \<lparr>hdev_id = 1, hdev_bus = 3, hdev_product = 2, hdev_name = []\<rparr>) (\<lambda>hid b. (0, b[1 := 2]))
     (rdesc_descriptor_from 0 \<lparr>hr_input_reports = [], hr_output_reports = [],
        hr_feature_reports = [\<lparr>hr_id = Some 7, hr_size_in_bits = 16,
          hr_fields = [Array_Field \<lparr>bits_first = 8, bits_stop = 16\<rparr> [\<lparr>us_page = 0x0d, us_id = 0x59\<rparr>] 0 2
             \<lparr>at_is_relative = False, at_wraps = False, at_is_nonlinear = False, at_has_no_preferred_state = False,
              at_has_null_state = False, at_is_volatile = None, at_is_buffered_bytes = False\<rparr> []]\<rparr>]\<rparr>)
     (replicate 1024 0) (loader_args 1 []) =
   Some ((loader_args 1 [])\<lparr>pa_retval := 0\<rparr>, (replicate 1024 0)[0 := 7, 1 := 2], Some ''Discrete'', 0)"
proof -
  let ?f = "Array_Field \<lparr>bits_first = 8, bits_stop = 16\<rparr> [\<lparr>us_page = 0x0d, us_id = 0x59\<rparr>] 0 2
             \<lparr>at_is_relative = False, at_wraps = False, at_is_nonlinear = False, at_has_no_preferred_state = False,
              at_has_null_state = False, at_is_volatile = None, at_is_buffered_bytes = False\<rparr> []"
  have "extract_bits ((replicate 1024 0)[0 := 7, 1 := 2]) 1024 (rdesc_field_from 0 ?f) = Some 2"
    by (simp add: extract_bits_def field_start_byte_def field_end_byte_def)
  then show ?thesis
    by (subst touchpad_on_injected_descriptor) (simp_all add: hr_usage_is_def touchpad_type_name_def)
qed

end
