(* ===== verification/Spec2Isabelle.thy ===== *)
theory Spec2Isabelle
  imports Kernel_Iface Report_Macros Rdesc_Spec Macro_Roundtrip Usage_Numbers Usage_Macros Usage_Tables Bpf_Helpers Bpf_Async Helper_Users
    Huion_Dial2 Huion_Inspiroy2S Huion_Inspiroy2S_0010 Huion_Inspiroy2M Huion_Kamvas13 Huion_Kamvas16
    Huion_K20 Huion_H610 Huion_KamvasPro XPPen_Deco XPPen_Artist XPPen_ACK05 Surface_Dial Test_Wrapper WALTOP_Tablet Wacom_ArtPen
    Rdesc_Patches Event_Patches Event_Trace
    Modalias Device_Match Program_Loader Loader_Inject Loader_Descriptor Btf_Validation Btf_Layout Object_Loader Loader_Effects
    Loader_Commands Device_Configs Layout_Composition Loader_Composition
begin

text \<open>
  udev-hid-bpf: HID-BPF programs that fix the report descriptors and the reports of input devices, the
  headers they are written with (\<open>src/bpf\<close>), and the loader udev calls to attach the programs of a device
  (\<open>src/*.rs\<close>).

  A program is an object file with up to three entry points. \<open>probe\<close> runs once per device and says through
  \<open>retval\<close> whether the program is attached. The descriptor fixup gets the report descriptor in a 4096-byte
  buffer and may replace or patch it. The event handler gets each report in a buffer and may change, replace or
  drop it, keeping what it needs from one report to the next in globals. The kernel then reads the delivered
  reports through the delivered descriptor, which is what the user sees.

  \<^bold>\<open>Foundations.\<close> \<open>Bpf_Prelude\<close> has memory accesses that fail outside a window (\<open>rd\<close>, \<open>wr\<close>, \<open>memcpy\<close>: \<open>None\<close> is an
  access the verifier or the hardware would not survive), little-endian words and the bit lemmas.
  \<open>Kernel_Iface\<close> models the boundary (\<open>hid_bpf.h\<close>, \<open>hid_bpf_get_data\<close> of \<open>test/test-wrapper.c\<close>, the probe arguments of
  \<open>bpf.rs\<close>): a program is a function from globals, context and window to new globals, new window and return value;
  \<open>device_event\<close>, \<open>device_events\<close> and \<open>rdesc_fixup\<close> call it the way the harness and the kernel do. Its locales are the
  contracts: \<open>data_access\<close> (what the kfunc grants), \<open>hid_program\<close> (a program refused the buffer does nothing, and one that is
  granted it stays inside), \<open>replacing_fixup\<close> and \<open>patching_fixup\<close>, which refine it. Every program of the repository is an
  interpretation in its own theory.
  \<open>Report_Macros\<close> has the macros of \<open>hid_report_helpers.h\<close> with their static assertions. \<open>Rdesc_Spec\<close> is the specification they
  and the programs are held against: a parser of report descriptors after HID 1.11, the lengths a descriptor
  declares, the position of each usage (\<open>rdesc_layout\<close>) and the value a usage has in a report (\<open>usage_value\<close>).
  \<open>Macro_Roundtrip\<close> relates the two. \<open>Usage_Numbers\<close> and \<open>Usage_Macros\<close> are the generated tables of \<open>hid_usages.h\<close> and
  \<open>hid_report_helpers.h\<close>, 2766 usages on 34 pages; \<open>Usage_Tables\<close> compares them and has the template of the macros.

  \<^bold>\<open>Headers.\<close> \<open>Bpf_Helpers\<close>: the parsed descriptor and the bounded iterations of \<open>hid_report_descriptor_helpers.h\<close>, \<open>extract_bits\<close> of
  \<open>hid_bpf_helpers.h\<close>; \<open>Helper_Users\<close>: the two programs built on them. \<open>Bpf_Async\<close>: \<open>hid_bpf_async.h\<close>, its slots as a
  state machine, its operations, and the runs of a system of programs, timers and callbacks.

  \<^bold>\<open>Programs.\<close> \<open>Huion_Dial2\<close>, \<open>Huion_Inspiroy2S\<close> (0020), \<open>Huion_Inspiroy2S_0010\<close>, \<open>Huion_Inspiroy2M\<close>, \<open>Huion_Kamvas13\<close>, \<open>Huion_Kamvas16\<close>,
  \<open>Huion_K20\<close> (USB and Bluetooth), \<open>Huion_H610\<close>, \<open>Huion_KamvasPro\<close> (0020 and 0030), \<open>XPPen_Deco\<close> (DecoMini4, Deco01V3, Deco02),
  \<open>XPPen_Artist\<close> (Artist 24, Artist Pro Gen 2), \<open>XPPen_ACK05\<close>, \<open>Surface_Dial\<close>, \<open>WALTOP_Tablet\<close>, \<open>Wacom_ArtPen\<close>; \<open>Rdesc_Patches\<close> has the ten
  programs that patch descriptors, \<open>Event_Patches\<close> the seven that only touch events or only probe,
  \<open>Event_Trace\<close> the tracing program and \<open>hid_bpf_printk_event\<close>.
  A C array of macros is the constant \<open>..._ini\<close>, its bytes are the constant without the suffix; \<open>..._fix_rdesc\<close>, \<open>..._fix_event\<close>
  and \<open>..._probe\<close> are the entry points under the prefix of their program. \<open>Test_Wrapper\<close> models the timers of the
  test harness.

  \<^bold>\<open>Loader.\<close> A program is found by the properties udev takes from a hwdb, loaded in the newest version that loads, given the
  properties and the parsed descriptor of the device, probed, attached and pinned. A Rust outcome is \<open>Ok\<close>, \<open>Err\<close> or \<open>Panic\<close>.
  \<open>Modalias\<close>: \<open>modalias.rs\<close>, the buses, groups and the two readings of a modalias. \<open>Device_Match\<close>: \<open>inspect\<close> and
  \<open>write_udev_rule\<close> of \<open>main.rs\<close>, \<open>tools/generate-hwdb.py\<close> and the hwdb rule of \<open>81-hid-bpf.rules.in\<close>. \<open>Program_Loader\<close>: \<open>hidudev.rs\<close>,
  the search for object files, their grouping by program and the loop over the versions, proved once in the locale
  \<open>object_loading\<close> for any loader whose effect on the kernel is a function of the file. \<open>Loader_Inject\<close> and \<open>Loader_Descriptor\<close>: the parts of
  \<open>bpf.rs\<close> that write the udev properties and the descriptor into the maps of an object. \<open>Btf_Validation\<close>: \<open>btf_validation.rs\<close>, which
  compares the structures of \<open>bpf.rs\<close> with those in the BTF of a program before the descriptor is written, and the specification
  of what it is for (\<open>same_layout\<close>, and \<open>rust_at\<close> and \<open>btf_at\<close>, where a path leads in either structure); \<open>Btf_Layout\<close>: completeness,
  termination and the limits of the check; \<open>Layout_Composition\<close>: check and injection together. \<open>Object_Loader\<close>: \<open>load_programs\<close> with its two loaders, the program of \<open>attach.bpf.c\<close> one of
  them runs, pinning, \<open>add\<close> and \<open>remove\<close>; the bpf file system is the list of its pins. \<open>Loader_Effects\<close>: what they do to it,
  and the interpretation of \<open>object_loading\<close> on \<open>load_programs\<close>. \<open>Loader_Commands\<close>: the commands \<open>add\<close> and \<open>remove\<close> of
  \<open>main.rs\<close> with their loops over devices and the search for the devices of an object file. \<open>Device_Configs\<close>: \<open>HID_BPF_CONFIG\<close>, the device table of every program
  (\<open>cfg_...\<close>) and the stable programs. \<open>Loader_Composition\<close>: programs run on what the loader gives them.

  \<^bold>\<open>What is shown.\<close> For every program, memory safety on all inputs (\<open>programs_safe\<close>) and, where it replaces descriptors, that what
  it delivers is well formed (\<open>fixups_wellformed\<close>); patches are local and idempotent (\<open>patches_local\<close>). The event handlers are
  stated end to end: the report the device sends against the values of usages in the delivered report, over
  whole histories where the handler keeps state (the tip filter of the Inspiroy 2 S, the held button of the
  Kamvas 13, the eraser mode of the Kamvas Pro, the filter of the Artist 24, the interpolation of the Art Pen).
  The slots of \<open>hid_bpf_async.h\<close> keep their keys distinct and live under every interleaving, and refine a counter;
  the phase of a slot never goes back, and the lost slots, the refused calls and the re-armed callback are theorems too. \<open>extract_bits\<close> equals its specification,
  the item macros are read back as what was written, and every generated usage macro as the usage \<open>hid_usages.h\<close> names. The haptic timer of the Surface Dial runs only while the
  button is held. The trace of a report read back is the report.
  For the loader: the generated hwdb selects for a device exactly the programs with an entry for it, these are for every
  device versions of one stable program, and \<open>add\<close> pins the newest of them that loads and nothing else (\<open>stable_device_loads_one\<close>);
  a load that fails leaves no pins and \<open>remove\<close> undoes \<open>add\<close>, also of devices that are gone; the variables of a program hold the properties of the
  device, and the program iterates over exactly the descriptor the parser returned. The layout check accepts exactly the programs with
  the structures of the loader, up to what its cache hides (\<open>layout_check_gap\<close>), and returns on every BTF without cycles; after it every value of the parsed
  descriptor lies where the program reads it (\<open>injected_fields_found\<close>). The touchpad probe and the
  firmware checks of the Huion programs are stated on these injected values.

  \<^bold>\<open>Bounds.\<close> Loops over constant bounds are recursion over the list of indices, so every definition is total and no
  fuel is needed. Following references in a BTF may run forever and is a partial function; the nesting of the structures
  bounds the recursion of the layout check, and five levels are enough (\<open>layout_check_returns\<close>). Bytes and registers are words of the width of the C type; \<open>int\<close> return values are unbounded
  integers, none of which leaves the 32-bit range. Reports are at most as long as the buffer the driver
  allocates, descriptors at most 4096 bytes. A modalias prints bus and group with four digits: the theorems on devices
  assume numbers below 65536, as the kernel has them.

  \<^bold>\<open>Parameters.\<close> Kernel helpers that are not in the repository are arguments: \<open>hid_bpf_allocate_context\<close>, \<open>hid_bpf_hw_request\<close>,
  \<open>hid_bpf_hw_output_report\<close>, \<open>bpf_strtol\<close>, \<open>BPF_SNPRINTF\<close>, timers and work queues (\<open>async_kernel\<close>, \<open>sd_ops\<close>). What the code relies on is a named
  hypothesis: \<open>kernel_ok\<close> (helpers return zero or a negative error), \<open>sd_timer_ok\<close>, \<open>sd_feature_ok\<close> and
  \<open>snprintf_ok\<close>. Of the loader, the answers of libbpf, the kernel and the parser \<open>hidreport\<close> are the fields of the record
  \<open>kernel\<close> (and the verdict of the layout check, \<open>k_layout_ok\<close>, since the check reads the types of the BTF and the rest of the loader only its
  data sections), the file system is a record of tests, fnmatch is a function with the hypothesis \<open>glob_ok\<close> (it agrees with \<open>globs\<close> on
  patterns of literals and stars). \<open>all_or_nothing\<close> names the objects without a partial failure: one struct_ops map at most and
  property maps that can be read; \<open>section_ok\<close> says that the compiler places variables apart and inside their section.

  \<^bold>\<open>Not modelled.\<close> The debug messages (\<open>bpf_printk\<close>) of the programs that do not trace, \<open>vmlinux.h\<close> (generated); of the loader the argument parsing,
  the installation of files, the listings and their output; the Python tests.
\<close>

section \<open>What holds of every program\<close>

text \<open>
  No report, in no state, makes an event program leave its window or deliver more than the buffer holds; no
  descriptor makes a fixup leave the descriptor buffer or deliver more than it.
\<close>

definition event_safe :: "'s program \<Rightarrow> nat \<Rightarrow> bool" where
  "event_safe prog win \<longleftrightarrow> (\<forall>hid s rep. \<exists>s' out. device_event prog win hid s rep = Some (s', out) \<and>
     length (case out of None \<Rightarrow> [] | Some rep' \<Rightarrow> rep') \<le> (length rep div 64 + 1) * 64)"

definition fixup_safe :: "'s program \<Rightarrow> bool" where
  "fixup_safe prog \<longleftrightarrow> (\<forall>hid s rdesc. \<exists>s' out. 4096 < length rdesc \<or>
     rdesc_fixup prog hid s rdesc = Some (s', out) \<and> length (case out of None \<Rightarrow> [] | Some new \<Rightarrow> new) \<le> 4096)"

text \<open>The descriptor a fixup delivers is the one it was given, or a well-formed one of its own.\<close>

definition delivers_wellformed :: "'s program \<Rightarrow> bool" where
  "delivers_wellformed prog \<longleftrightarrow> (\<forall>hid s rdesc. \<exists>s' new. 4096 < length rdesc \<or>
     rdesc_fixup prog hid s rdesc = Some (s', Some new) \<and> (new = rdesc \<or> rdesc_ok new))"

text \<open>
  A fixup that patches bytes keeps the length of the descriptor and every byte outside its sites, and does
  nothing to a descriptor it has patched.
\<close>

definition patches_in_place :: "'s program \<Rightarrow> nat set \<Rightarrow> bool" where
  "patches_in_place prog sites \<longleftrightarrow> (\<forall>hid s rdesc. \<exists>new. 4096 < length rdesc \<or>
     rdesc_fixup prog hid s rdesc = Some (s, Some new) \<and> length new = length rdesc \<and>
     (\<forall>i < length rdesc. i \<in> sites \<or> new ! i = rdesc ! i) \<and>
     ((\<exists>i \<in> sites. length rdesc \<le> i) \<or> rdesc_fixup prog hid s new = Some (s, Some new)))"

lemma event_safeI: "hid_program prog win \<Longrightarrow> event_safe prog win"
  unfolding event_safe_def
proof (intro allI)
  fix hid s rep assume prog: "hid_program prog win"
  obtain s' out where "device_event prog win hid s rep = Some (s', out)"
    "\<forall>rep'. out = Some rep' \<longrightarrow> length rep' \<le> (length rep div 64 + 1) * 64"
    using hid_program.event_total [OF prog] by blast
  then show "\<exists>s' out. device_event prog win hid s rep = Some (s', out) \<and>
      length (case out of None \<Rightarrow> [] | Some rep' \<Rightarrow> rep') \<le> (length rep div 64 + 1) * 64"
    by (intro exI [of _ s'] exI [of _ out]) (cases out, simp_all)
qed

lemma fixup_safeI: "hid_program prog 4096 \<Longrightarrow> fixup_safe prog"
  unfolding fixup_safe_def
proof (intro allI)
  fix hid s rdesc assume prog: "hid_program prog 4096"
  show "\<exists>s' out. 4096 < length rdesc \<or> rdesc_fixup prog hid s rdesc = Some (s', out) \<and>
      length (case out of None \<Rightarrow> [] | Some new \<Rightarrow> new) \<le> 4096"
  proof (cases "length rdesc \<le> 4096")
    case True
    then obtain s' out where "rdesc_fixup prog hid s rdesc = Some (s', out)" "\<forall>new. out = Some new \<longrightarrow> length new \<le> 4096"
      using hid_program.fixup_total [OF prog refl] by blast
    then show ?thesis by (intro exI [of _ s'] exI [of _ out]) (cases out, simp_all)
  qed simp
qed

lemma delivers_wellformedI:
  assumes "replacing_fixup prog pick" and "\<And>s c new. pick s c = Some new \<Longrightarrow> rdesc_ok new"
  shows "delivers_wellformed prog"
  unfolding delivers_wellformed_def
proof (intro allI)
  fix hid s rdesc
  show "\<exists>s' new. 4096 < length rdesc \<or>
      rdesc_fixup prog hid s rdesc = Some (s', Some new) \<and> (new = rdesc \<or> rdesc_ok new)"
    using replacing_fixup.fixup_result [OF assms(1), of rdesc hid s] assms(2)
    by (cases "length rdesc \<le> 4096") (auto split: option.splits)
qed

lemma patches_in_placeI:
  assumes "patching_fixup prog patch sites"
  shows "patches_in_place prog sites"
  unfolding patches_in_place_def
proof (intro allI)
  fix hid s rdesc
  show "\<exists>new. 4096 < length rdesc \<or>
     rdesc_fixup prog hid s rdesc = Some (s, Some new) \<and> length new = length rdesc \<and>
     (\<forall>i < length rdesc. i \<in> sites \<or> new ! i = rdesc ! i) \<and>
     ((\<exists>i \<in> sites. length rdesc \<le> i) \<or> rdesc_fixup prog hid s new = Some (s, Some new))"
  proof (cases "length rdesc \<le> 4096")
    case True
    obtain new where new: "rdesc_fixup prog hid s rdesc = Some (s, Some new)" "length new = length rdesc"
      "\<forall>i < length rdesc. i \<notin> sites \<longrightarrow> new ! i = rdesc ! i"
      using patching_fixup.fixup_frame [OF assms True, of hid s] by blast
    have "(\<exists>i \<in> sites. length rdesc \<le> i) \<or> rdesc_fixup prog hid s new = Some (s, Some new)"
      using patching_fixup.fixup_idempotent [OF assms True _ new(1)] by (meson not_le)
    with new show ?thesis by blast
  qed simp
qed

text \<open>
  C19: Every program is memory safe on every input: whatever the report, the device and the globals, each event
  handler stays inside the window it asked for and delivers a report that fits the buffer; whatever descriptor
  of up to 4096 bytes, each fixup stays inside the descriptor buffer.
\<close>

theorem programs_safe:
  "event_safe dial2_fix_events 16 \<and> event_safe insp2s_fix_events 10 \<and>
   event_safe insp2s10_fix_events 10 \<and> event_safe insp2m_fix_events 10 \<and>
   event_safe kv13_fix_event 14 \<and> event_safe kv16_fix_event 14 \<and>
   event_safe k20_fix_events 10 \<and> event_safe k20bt_fix_events 12 \<and>
   event_safe h610_fix_event 8 \<and> event_safe kp_fix_3rd_button 10 \<and>
   event_safe kp20_fix_3rd_button 10 \<and> event_safe decomini4_device_event 8 \<and>
   event_safe deco01_device_event 8 \<and> event_safe deco02_device_event 8 \<and>
   event_safe artist24_fix_eraser 10 \<and> event_safe artpro_device_event 10 \<and>
   event_safe (ack05_fix_events Ka) 8 \<and> event_safe (sd_event Ks) 9 \<and>
   event_safe waltop_fix_events 10 \<and> event_safe artpen_event 64 \<and>
   event_safe raptor_fix_hat_switch 64 \<and> event_safe tuxedo_fix_event 37 \<and>
   event_safe mx3s_fix_event 9 \<and> event_safe footsw_fix_events 10 \<and>
   event_safe inverty_event 9 \<and> event_safe noop_event 0 \<and>
   event_safe th_extract_bits 64 \<and>
   fixup_safe dial2_fix_rdesc \<and> fixup_safe insp2s_fix_rdesc \<and>
   fixup_safe insp2s10_fix_rdesc \<and> fixup_safe insp2m_fix_rdesc \<and>
   fixup_safe kv13_fix_rdesc \<and> fixup_safe kv16_fix_rdesc \<and>
   fixup_safe k20_fix_rdesc \<and> fixup_safe k20bt_fix_rdesc \<and>
   fixup_safe h610_fix_rdesc \<and> fixup_safe kp_fix_rdesc \<and>
   fixup_safe kp20_fix_rdesc \<and> fixup_safe decomini4_rdesc_fixup \<and>
   fixup_safe deco02_rdesc_fixup \<and> fixup_safe artist24_fix_rdesc \<and>
   fixup_safe artpro_fix_rdesc \<and> fixup_safe sd_rdesc_fixup \<and>
   fixup_safe waltop_fix_rdesc \<and> fixup_safe deco01_rdesc_fixup \<and>
   fixup_safe ack05_fix_rdesc \<and> fixup_safe rapoo_fix_rdesc \<and>
   fixup_safe mistel_fix_rdesc \<and> fixup_safe hp_fix_rdesc \<and>
   fixup_safe trust_fix_rdesc \<and> fixup_safe iogear_fix_rdesc \<and>
   fixup_safe spacenav_fix_rdesc \<and> fixup_safe xbox_fix_rdesc \<and>
   fixup_safe raptor_fix_rdesc \<and> fixup_safe tca_fix_rdesc \<and>
   fixup_safe minikbd_fix_rdesc"
  by (intro conjI event_safeI fixup_safeI)
    (rule dial2_events.hid_program_axioms insp2s_events.hid_program_axioms insp2s10_events.hid_program_axioms
      insp2m_events.hid_program_axioms kv13_events.hid_program_axioms kv16_events.hid_program_axioms
      k20_events.hid_program_axioms k20bt_events.hid_program_axioms h610_events.hid_program_axioms
      kp_events.hid_program_axioms kp20_events.hid_program_axioms decomini4_events.hid_program_axioms
      deco01_events.hid_program_axioms deco02_events.hid_program_axioms artist24_events.hid_program_axioms
      artpro_events.hid_program_axioms ack05_events.hid_program_axioms sd_events.hid_program_axioms
      waltop_events.hid_program_axioms artpen_events.hid_program_axioms raptor_events.hid_program_axioms
      tuxedo_events.hid_program_axioms mx3s_events.hid_program_axioms footsw_events.hid_program_axioms
      inverty_events.hid_program_axioms noop_events.hid_program_axioms th_events.hid_program_axioms
      dial2_fixup.hid_program_axioms insp2s_fixup.hid_program_axioms insp2s10_fixup.hid_program_axioms
      insp2m_fixup.hid_program_axioms kv13_fixup.hid_program_axioms kv16_fixup.hid_program_axioms
      k20_fixup.hid_program_axioms k20bt_fixup.hid_program_axioms h610_fixup.hid_program_axioms
      kp_fixup.hid_program_axioms kp20_fixup.hid_program_axioms decomini4_fixup.hid_program_axioms
      deco02_fixup.hid_program_axioms artist24_fixup.hid_program_axioms artpro_fixup.hid_program_axioms
      sd_fixup.hid_program_axioms waltop_fixup.hid_program_axioms deco01_fixup.hid_program_axioms
      ack05_fixup.hid_program_axioms rapoo_fixup.hid_program_axioms mistel_fixup.hid_program_axioms
      hp_fixup.hid_program_axioms trust_fixup.hid_program_axioms iogear_fixup.hid_program_axioms
      spacenav_fixup.hid_program_axioms xbox_fixup.hid_program_axioms raptor_fixup.hid_program_axioms
      tca_fixup.hid_program_axioms minikbd_fixup.hid_program_axioms)+

lemmas descriptors_ok = rdesc_facts [unfolded rdesc_declares_iff]

lemmas new_rdesc_defs = dial2_new_rdesc_def insp2s_new_rdesc_def insp2s10_new_rdesc_def insp2m_new_rdesc_def kv13_new_rdesc_def
  kv16_new_rdesc_def k20_new_rdesc_def k20bt_new_rdesc_def h610_new_rdesc_def kp_new_rdesc_def
  kp20_new_rdesc_def decomini4_new_rdesc_def artpro_new_rdesc_def

text \<open>
  Two descriptors are not regular: report 3 of the Deco 02 pad has 54 bits, and the WALTOP descriptor pushes
  the item state without restoring it.
\<close>

lemma irregular_descriptors: "\<not> rdesc_ok deco02_fixed_rdesc_pad" "\<not> rdesc_ok waltop_fixed_rdesc"
  by code_simp+

lemma artpro_descriptors_ok [simp]:
  "rdesc_ok (artpro_fixed_rdesc[63 := 0x2e, 62 := 0x62, 73 := 0x1c, 72 := 0xfd])"
  "rdesc_ok (artpro_fixed_rdesc[63 := 0x3e, 62 := 0xe5, 73 := 0x23, 72 := 0x61])"
  by code_simp+


text \<open>
  C36: The fixups that patch single bytes keep the length and every other byte of the descriptor, and leave alone
  what they have patched.
\<close>

theorem patches_local:
  "patches_in_place rapoo_fix_rdesc {17} \<and>
   patches_in_place mistel_fix_rdesc {201} \<and>
   patches_in_place hp_fix_rdesc {79} \<and>
   patches_in_place trust_fix_rdesc {101} \<and>
   patches_in_place iogear_fix_rdesc ((\<lambda>m. m + 1) ` set iogear_offsets) \<and>
   patches_in_place spacenav_fix_rdesc ((\<lambda>m. m + 1) ` set spacenav_offsets) \<and>
   patches_in_place xbox_fix_rdesc {211..<249} \<and>
   patches_in_place raptor_fix_rdesc {177} \<and>
   patches_in_place tca_fix_rdesc {91, 104} \<and>
   patches_in_place minikbd_fix_rdesc {103, 109}"
  by (intro conjI; rule patches_in_placeI)
    (rule rapoo_fixup.patching_fixup_axioms mistel_fixup.patching_fixup_axioms hp_fixup.patching_fixup_axioms
      trust_fixup.patching_fixup_axioms iogear_fixup.patching_fixup_axioms spacenav_fixup.patching_fixup_axioms
      xbox_fixup.patching_fixup_axioms raptor_fixup.patching_fixup_axioms tca_fixup.patching_fixup_axioms
      minikbd_fixup.patching_fixup_axioms)+

end
